(* ===== verification/CA_Prelude.thy ===== *)
theory CA_Prelude
  imports Main "HOL-Library.Word" "HOL-Library.AList"
begin

text \<open>
  Shared vocabulary of the development: the exceptions of \<^verbatim>\<open>caproto/_utils.py\<close> and of the Python
  built-ins as values, results (an exception or a value), byte strings, big-endian integers as the
  \<^verbatim>\<open>ctypes.BigEndianStructure\<close> classes store them, Python dictionaries as association lists in
  insertion order, and the contract of a fixed-width codec that every wire structure meets.
\<close>

section \<open>Exceptions and results\<close>

text \<open>
  The exception classes of \<^verbatim>\<open>_utils.py\<close>, \<^verbatim>\<open>_data.py\<close>, \<^verbatim>\<open>client/search_results.py\<close> and \<^verbatim>\<open>threading/client.py\<close> that the modelled code
  raises, and the built-in exceptions it lets escape.
\<close>

datatype error =
    LocalProtocolError
  | RemoteProtocolError
  | ValidationError
  | CaprotoKeyError
  | CaprotoValueError
  | CaprotoTypeError
  | CaprotoNotImplementedError
  | CaprotoConversionError
  | CaprotoRuntimeError
  | FilterValidationError
  | CaprotoNetworkError
  | CaprotoTimeoutError
  | DeadCircuitError
  | ContextDisconnectedError
  | Forbidden
  | CannotExceedLimits
  | UnknownSearchResponse
  | DuplicateSearchResponse
  | SkipWrite
  | KeyError
  | ValueError
  | TypeError
  | IndexError
  | OverflowError
  | UnboundLocalError
  | OSError
  | AttributeError
  | ZeroDivisionError
  | RuntimeError
  | AssertionError

type_synonym 'a result = "error + 'a"

definition bindE :: "'a result \<Rightarrow> ('a \<Rightarrow> 'b result) \<Rightarrow> 'b result" where
  "bindE r f = (case r of Inl e \<Rightarrow> Inl e | Inr x \<Rightarrow> f x)"

text \<open>\<^verbatim>\<open>issubclass(e, ProtocolError)\<close>.\<close>

definition is_ProtocolError :: "error \<Rightarrow> bool" where
  "is_ProtocolError e \<longleftrightarrow> e = LocalProtocolError \<or> e = RemoteProtocolError"

text \<open>\<^verbatim>\<open>issubclass(e, CaprotoError)\<close>: everything but the built-in exceptions.\<close>

definition is_CaprotoError :: "error \<Rightarrow> bool" where
  "is_CaprotoError e \<longleftrightarrow>
     e \<notin> {KeyError, ValueError, TypeError, IndexError, OverflowError, UnboundLocalError, OSError,
          AttributeError, ZeroDivisionError, RuntimeError, AssertionError,
          SkipWrite}"

section \<open>Bytes and big-endian integers\<close>

type_synonym byte = "8 word"
type_synonym bytes = "8 word list"

text \<open>\<open>be_of_nat n k\<close> is \<open>k\<close> stored in \<open>n\<close> bytes, most significant first, with wrap-around.\<close>

primrec be_of_nat :: "nat \<Rightarrow> nat \<Rightarrow> bytes" where
  "be_of_nat 0 k = []"
| "be_of_nat (Suc n) k = be_of_nat n (k div 256) @ [word_of_nat k]"

definition nat_of_be :: "bytes \<Rightarrow> nat" where
  "nat_of_be bs = foldl (\<lambda>a b. 256 * a + unat b) 0 bs"

definition be16 :: "16 word \<Rightarrow> bytes" where
  "be16 w = be_of_nat 2 (unat w)"

definition un_be16 :: "bytes \<Rightarrow> 16 word" where
  "un_be16 bs = word_of_nat (nat_of_be bs)"

definition be32 :: "32 word \<Rightarrow> bytes" where
  "be32 w = be_of_nat 4 (unat w)"

definition un_be32 :: "bytes \<Rightarrow> 32 word" where
  "un_be32 bs = word_of_nat (nat_of_be bs)"

definition be64 :: "64 word \<Rightarrow> bytes" where
  "be64 w = be_of_nat 8 (unat w)"

definition un_be64 :: "bytes \<Rightarrow> 64 word" where
  "un_be64 bs = word_of_nat (nat_of_be bs)"

text \<open>\<^verbatim>\<open>bytes.ljust(n, b'\x00')\<close> and \<^verbatim>\<open>bytes.rstrip(b'\x00')\<close>.\<close>

definition ljust0 :: "nat \<Rightarrow> bytes \<Rightarrow> bytes" where
  "ljust0 n bs = bs @ replicate (n - length bs) 0"

definition rstrip0 :: "bytes \<Rightarrow> bytes" where
  "rstrip0 bs = rev (dropWhile (\<lambda>b. b = 0) (rev bs))"

text \<open>A slice \<^verbatim>\<open>b[i:j]\<close> of a byte string, for \<^verbatim>\<open>0 <= i <= j\<close>.\<close>

definition slice :: "nat \<Rightarrow> nat \<Rightarrow> 'a list \<Rightarrow> 'a list" where
  "slice i j bs = take (j - i) (drop i bs)"

section \<open>Python dictionaries\<close>

text \<open>
  A dictionary is an association list with distinct keys in insertion order. Storing under an
  existing key keeps its position, as \<^const>\<open>AList.update\<close> does.
\<close>

type_synonym ('k, 'v) dict = "('k \<times> 'v) list"

abbreviation dget :: "('k, 'v) dict \<Rightarrow> 'k \<Rightarrow> 'v option" where
  "dget \<equiv> map_of"

abbreviation dset :: "'k \<Rightarrow> 'v \<Rightarrow> ('k, 'v) dict \<Rightarrow> ('k, 'v) dict" where
  "dset \<equiv> AList.update"

abbreviation ddel :: "'k \<Rightarrow> ('k, 'v) dict \<Rightarrow> ('k, 'v) dict" where
  "ddel \<equiv> AList.delete"

text \<open>A dictionary display \<^verbatim>\<open>{k: v, ...}\<close>: a repeated key keeps the last value.\<close>

definition dict_of :: "('k \<times> 'v) list \<Rightarrow> ('k, 'v) dict" where
  "dict_of kvs = foldl (\<lambda>d kv. AList.update (fst kv) (snd kv) d) [] kvs"

text \<open>\<^verbatim>\<open>d[k]\<close>, which raises \<^verbatim>\<open>KeyError\<close>.\<close>

definition getitem :: "('k, 'v) dict \<Rightarrow> 'k \<Rightarrow> 'v result" where
  "getitem d k = (case map_of d k of None \<Rightarrow> Inl KeyError | Some v \<Rightarrow> Inr v)"

text \<open>A \<^verbatim>\<open>defaultdict\<close> of lists: reading \<^verbatim>\<open>d[k]\<close> stores the default when the key is missing.\<close>

definition dd_value :: "('k, 'v list) dict \<Rightarrow> 'k \<Rightarrow> 'v list" where
  "dd_value d k = (case dget d k of None \<Rightarrow> [] | Some v \<Rightarrow> v)"

definition dd_touch :: "'k \<Rightarrow> ('k, 'v list) dict \<Rightarrow> ('k, 'v list) dict" where
  "dd_touch k d = (if dget d k = None then dset k [] d else d)"

definition wf_dict :: "('k, 'v) dict \<Rightarrow> bool" where
  "wf_dict d \<longleftrightarrow> distinct (map fst d)"

section \<open>Lemmas on results\<close>

named_theorems dict_simps

lemma bindE_simps [simp]:
  "bindE (Inl e) f = Inl e"
  "bindE (Inr x) f = f x"
  by (simp_all add: bindE_def)

lemma bindE_eq_Inr: "bindE r f = Inr y \<longleftrightarrow> (\<exists>x. r = Inr x \<and> f x = Inr y)"
  by (cases r) auto

lemma bindE_eq_Inl: "bindE r f = Inl e \<longleftrightarrow> r = Inl e \<or> (\<exists>x. r = Inr x \<and> f x = Inl e)"
  by (cases r) auto

lemma bindE_cong [fundef_cong]:
  "r = r' \<Longrightarrow> (\<And>x. r' = Inr x \<Longrightarrow> f x = g x) \<Longrightarrow> bindE r f = bindE r' g"
  by (cases r') auto

lemma bindE_assoc: "bindE (bindE r f) g = bindE r (\<lambda>x. bindE (f x) g)"
  by (cases r) auto

lemma protocol_is_caproto: "is_ProtocolError e \<Longrightarrow> is_CaprotoError e"
  by (auto simp: is_ProtocolError_def is_CaprotoError_def)

section \<open>Lemmas on big-endian integers\<close>

lemma length_be_of_nat [simp]: "length (be_of_nat n k) = n"
  by (induction n arbitrary: k) auto

lemma nat_of_be_Nil [simp]: "nat_of_be [] = 0"
  by (simp add: nat_of_be_def)

lemma nat_of_be_snoc [simp]: "nat_of_be (bs @ [b]) = 256 * nat_of_be bs + unat b"
  by (simp add: nat_of_be_def)

lemma unat_less_pow: "unat (w :: 'a::len word) < 2 ^ LENGTH('a)"
  by (rule unsigned_less)

lemma unat_byte_less: "unat (b :: byte) < 256"
  using unat_less_pow [of b] by simp

lemma unat_byte_of_nat [simp]: "unat (word_of_nat k :: byte) = k mod 256"
  by (simp add: unat_of_nat)

lemma nat_of_be_be_of_nat: "nat_of_be (be_of_nat n k) = k mod 256 ^ n"
  by (induction n arbitrary: k) (simp_all add: mod_mult2_eq)

lemma be_of_nat_nat_of_be: "be_of_nat (length bs) (nat_of_be bs) = bs"
proof (induction bs rule: rev_induct)
  case (snoc b bs)
  have "(256 * nat_of_be bs + unat b) div 256 = nat_of_be bs"
    using unat_byte_less [of b] by simp
  moreover have "unat (word_of_nat (256 * nat_of_be bs + unat b) :: byte) = unat b"
    using unat_byte_less [of b] by (simp only: unat_byte_of_nat) simp
  then have "(word_of_nat (256 * nat_of_be bs + unat b) :: byte) = b"
    by (simp only: word_unat_eq_iff)
  ultimately show ?case using snoc.IH by simp
qed simp

lemma nat_of_be_less: "nat_of_be bs < 256 ^ length bs"
proof -
  have "nat_of_be bs = nat_of_be bs mod 256 ^ length bs"
    using nat_of_be_be_of_nat [of "length bs" "nat_of_be bs"] by (simp add: be_of_nat_nat_of_be)
  then show ?thesis by (metis mod_less_divisor zero_less_numeral zero_less_power)
qed

section \<open>Fixed-width codecs\<close>

text \<open>
  The contract of a structure with a fixed layout: its encoding has the declared width, decoding
  inverts it, and every byte string of that width is the encoding of what it decodes to.
\<close>

locale fixed_codec =
  fixes enc :: "'a \<Rightarrow> bytes"
    and dec :: "bytes \<Rightarrow> 'a"
    and width :: nat
  assumes enc_length: "length (enc x) = width"
    and dec_enc: "dec (enc x) = x"
    and enc_dec: "length bs = width \<Longrightarrow> enc (dec bs) = bs"
begin

lemma take_enc: "take width (enc x @ rest) = enc x"
  by (simp add: enc_length)

lemma drop_enc: "drop width (enc x @ rest) = rest"
  by (simp add: enc_length)

lemma dec_take: "dec (take width (enc x @ rest)) = x"
  by (simp only: take_enc dec_enc)

lemma enc_inject: "enc x = enc y \<longleftrightarrow> x = y"
  using dec_enc by metis

lemma enc_cancel: "enc x @ r = enc y @ s \<longleftrightarrow> x = y \<and> r = s"
  using enc_inject enc_length by (metis append_eq_append_conv)

lemma dec_prefix: "width \<le> length bs \<Longrightarrow> enc (dec (take width bs)) @ drop width bs = bs"
  by (simp add: enc_dec)

end

interpretation u16: fixed_codec be16 un_be16 2
proof
  show "length (be16 x) = 2" for x by (simp add: be16_def)
  show "un_be16 (be16 x) = x" for x
    using unat_less_pow [of x] by (simp add: be16_def un_be16_def nat_of_be_be_of_nat)
  show "length bs = 2 \<Longrightarrow> be16 (un_be16 bs) = bs" for bs
    using nat_of_be_less [of bs] be_of_nat_nat_of_be [of bs]
    by (simp add: be16_def un_be16_def unat_of_nat)
qed

interpretation u32: fixed_codec be32 un_be32 4
proof
  show "length (be32 x) = 4" for x by (simp add: be32_def)
  show "un_be32 (be32 x) = x" for x
    using unat_less_pow [of x] by (simp add: be32_def un_be32_def nat_of_be_be_of_nat)
  show "length bs = 4 \<Longrightarrow> be32 (un_be32 bs) = bs" for bs
    using nat_of_be_less [of bs] be_of_nat_nat_of_be [of bs]
    by (simp add: be32_def un_be32_def unat_of_nat)
qed

interpretation u64: fixed_codec be64 un_be64 8
proof
  show "length (be64 x) = 8" for x by (simp add: be64_def)
  show "un_be64 (be64 x) = x" for x
    using unat_less_pow [of x] by (simp add: be64_def un_be64_def nat_of_be_be_of_nat)
  show "length bs = 8 \<Longrightarrow> be64 (un_be64 bs) = bs" for bs
    using nat_of_be_less [of bs] be_of_nat_nat_of_be [of bs]
    by (simp add: be64_def un_be64_def unat_of_nat)
qed

lemmas be_length [simp] = u16.enc_length u32.enc_length u64.enc_length
lemmas be_round [simp] = u16.dec_enc u32.dec_enc u64.dec_enc

section \<open>Lemmas on padding\<close>

lemma length_ljust0 [simp]: "length (ljust0 n bs) = max n (length bs)"
  by (simp add: ljust0_def)

lemma ljust0_id: "n \<le> length bs \<Longrightarrow> ljust0 n bs = bs"
  by (simp add: ljust0_def)

lemma rstrip0_snoc0 [simp]: "rstrip0 (bs @ [0]) = rstrip0 bs"
  by (simp add: rstrip0_def)

lemma rstrip0_replicate: "rstrip0 (bs @ replicate n 0) = rstrip0 bs"
  by (induction n) (simp_all add: replicate_append_same [symmetric] flip: append_assoc)

lemma rstrip0_ljust0 [simp]: "rstrip0 (ljust0 n bs) = rstrip0 bs"
  by (simp add: ljust0_def rstrip0_replicate)

lemma rstrip0_no_zero: "0 \<notin> set bs \<Longrightarrow> rstrip0 bs = bs"
  by (cases bs rule: rev_cases) (auto simp: rstrip0_def)

lemma slice_append_exact: "length xs = i \<Longrightarrow> slice i (i + length ys) (xs @ ys @ zs) = ys"
  by (simp add: slice_def)

section \<open>Lemmas on dictionaries\<close>

lemma dget_dset [dict_simps]: "dget (dset k v d) j = (if j = k then Some v else dget d j)"
  by (simp add: update_conv')

lemma dget_ddel [dict_simps]: "dget (ddel k d) j = (if j = k then None else dget d j)"
  by (simp add: delete_conv')

lemma dd_value_dset [simp]: "dd_value (dset k v d) j = (if j = k then v else dd_value d j)"
  by (simp add: dd_value_def dget_dset)

lemma dd_value_touch [simp]: "dd_value (dd_touch k d) = dd_value d"
  by (auto simp: fun_eq_iff dd_touch_def dd_value_def dget_dset)

lemma dd_value_ddel [simp]: "dd_value (ddel k d) j = (if j = k then [] else dd_value d j)"
  by (simp add: dd_value_def dget_ddel)

lemma dd_value_Nil [simp]: "dd_value [] k = []"
  by (simp add: dd_value_def)

lemma wf_dset [simp]: "wf_dict d \<Longrightarrow> wf_dict (dset k v d)"
  by (simp add: wf_dict_def distinct_update)

lemma wf_ddel [simp]: "wf_dict d \<Longrightarrow> wf_dict (ddel k d)"
  by (simp add: wf_dict_def distinct_delete)

lemma wf_dict_Nil [simp]: "wf_dict []"
  by (simp add: wf_dict_def)

lemma dget_dict_of: "dget (dict_of kvs) = map_of (rev kvs)"
  by (induction kvs rule: rev_induct) (auto simp: dict_of_def update_conv')

lemma wf_dict_of [simp]: "wf_dict (dict_of kvs)"
  by (induction kvs rule: rev_induct) (auto simp: dict_of_def wf_dict_def distinct_update)

lemma wf_dict_values: "wf_dict d \<Longrightarrow> (k, v) \<in> set d \<longleftrightarrow> dget d k = Some v"
  by (auto simp: wf_dict_def)

lemma getitem_simps:
  "getitem d k = Inr v \<longleftrightarrow> dget d k = Some v"
  "getitem d k = Inl e \<longleftrightarrow> dget d k = None \<and> e = KeyError"
  by (auto simp: getitem_def split: option.splits)

end
