(* ===== verification/CA_Headers.thy ===== *)
theory CA_Headers
  imports CA_Prelude
begin

text \<open>
  The message headers of \<^verbatim>\<open>caproto/_headers.py\<close>: the 16-byte \<^verbatim>\<open>MessageHeader\<close> and the 24-byte
  \<^verbatim>\<open>ExtendedMessageHeader\<close> (big-endian \<^verbatim>\<open>ctypes\<close> structures), their byte layout, and one constructor
  function per command. A \<^verbatim>\<open>ctypes\<close> integer field stores a Python integer modulo its width, which is
  what \<^const>\<open>word_of_int\<close> does; reading a field gives the unsigned value.
\<close>

section \<open>Structures\<close>

record mheader =
  mh_command :: "16 word"
  mh_payload_size :: "16 word"
  mh_data_type :: "16 word"
  mh_data_count :: "16 word"
  mh_parameter1 :: "32 word"
  mh_parameter2 :: "32 word"

record xheader =
  xh_command :: "16 word"
  xh_marker1 :: "16 word"
  xh_data_type :: "16 word"
  xh_marker2 :: "16 word"
  xh_parameter1 :: "32 word"
  xh_parameter2 :: "32 word"
  xh_payload_size :: "32 word"
  xh_data_count :: "32 word"

datatype header = Plain mheader | Extended xheader

definition MARKER1 :: int where "MARKER1 = 0xffff"

definition MARKER2 :: int where "MARKER2 = 0x0000"

definition MessageHeader :: "int \<Rightarrow> int \<Rightarrow> int \<Rightarrow> int \<Rightarrow> int \<Rightarrow> int \<Rightarrow> header" where
  "MessageHeader command payload_size data_type data_count parameter1 parameter2 =
     Plain \<lparr>mh_command = word_of_int command, mh_payload_size = word_of_int payload_size,
       mh_data_type = word_of_int data_type, mh_data_count = word_of_int data_count,
       mh_parameter1 = word_of_int parameter1, mh_parameter2 = word_of_int parameter2\<rparr>"

definition ExtendedMessageHeader :: "int \<Rightarrow> int \<Rightarrow> int \<Rightarrow> int \<Rightarrow> int \<Rightarrow> int \<Rightarrow> header" where
  "ExtendedMessageHeader command payload_size data_type data_count parameter1 parameter2 =
     Extended \<lparr>xh_command = word_of_int command, xh_marker1 = word_of_int MARKER1,
       xh_data_type = word_of_int data_type, xh_marker2 = word_of_int MARKER2,
       xh_parameter1 = word_of_int parameter1, xh_parameter2 = word_of_int parameter2,
       xh_payload_size = word_of_int payload_size, xh_data_count = word_of_int data_count\<rparr>"

text \<open>The attributes the two classes share, as Python reads them.\<close>

fun h_command :: "header \<Rightarrow> int" where
  "h_command (Plain h) = uint (mh_command h)"
| "h_command (Extended h) = uint (xh_command h)"

fun h_payload_size :: "header \<Rightarrow> int" where
  "h_payload_size (Plain h) = uint (mh_payload_size h)"
| "h_payload_size (Extended h) = uint (xh_payload_size h)"

fun h_data_type :: "header \<Rightarrow> int" where
  "h_data_type (Plain h) = uint (mh_data_type h)"
| "h_data_type (Extended h) = uint (xh_data_type h)"

fun h_data_count :: "header \<Rightarrow> int" where
  "h_data_count (Plain h) = uint (mh_data_count h)"
| "h_data_count (Extended h) = uint (xh_data_count h)"

fun h_parameter1 :: "header \<Rightarrow> int" where
  "h_parameter1 (Plain h) = uint (mh_parameter1 h)"
| "h_parameter1 (Extended h) = uint (xh_parameter1 h)"

fun h_parameter2 :: "header \<Rightarrow> int" where
  "h_parameter2 (Plain h) = uint (mh_parameter2 h)"
| "h_parameter2 (Extended h) = uint (xh_parameter2 h)"

section \<open>Byte layout\<close>

definition mheader_bytes :: "mheader \<Rightarrow> bytes" where
  "mheader_bytes h = be16 (mh_command h) @ be16 (mh_payload_size h) @ be16 (mh_data_type h)
     @ be16 (mh_data_count h) @ be32 (mh_parameter1 h) @ be32 (mh_parameter2 h)"

definition mheader_of_bytes :: "bytes \<Rightarrow> mheader" where
  "mheader_of_bytes bs =
     \<lparr>mh_command = un_be16 (slice 0 2 bs), mh_payload_size = un_be16 (slice 2 4 bs),
      mh_data_type = un_be16 (slice 4 6 bs), mh_data_count = un_be16 (slice 6 8 bs),
      mh_parameter1 = un_be32 (slice 8 12 bs), mh_parameter2 = un_be32 (slice 12 16 bs)\<rparr>"

definition xheader_bytes :: "xheader \<Rightarrow> bytes" where
  "xheader_bytes h = be16 (xh_command h) @ be16 (xh_marker1 h) @ be16 (xh_data_type h)
     @ be16 (xh_marker2 h) @ be32 (xh_parameter1 h) @ be32 (xh_parameter2 h)
     @ be32 (xh_payload_size h) @ be32 (xh_data_count h)"

definition xheader_of_bytes :: "bytes \<Rightarrow> xheader" where
  "xheader_of_bytes bs =
     \<lparr>xh_command = un_be16 (slice 0 2 bs), xh_marker1 = un_be16 (slice 2 4 bs),
      xh_data_type = un_be16 (slice 4 6 bs), xh_marker2 = un_be16 (slice 6 8 bs),
      xh_parameter1 = un_be32 (slice 8 12 bs), xh_parameter2 = un_be32 (slice 12 16 bs),
      xh_payload_size = un_be32 (slice 16 20 bs), xh_data_count = un_be32 (slice 20 24 bs)\<rparr>"

text \<open>\<^verbatim>\<open>bytes(header)\<close> and \<^verbatim>\<open>ctypes.sizeof(header)\<close>.\<close>

fun header_bytes :: "header \<Rightarrow> bytes" where
  "header_bytes (Plain h) = mheader_bytes h"
| "header_bytes (Extended h) = xheader_bytes h"

fun sizeof_header :: "header \<Rightarrow> nat" where
  "sizeof_header (Plain h) = 16"
| "sizeof_header (Extended h) = 24"

text \<open>
  \<^verbatim>\<open>MessageHeader.from_buffer\<close> and \<^verbatim>\<open>ExtendedMessageHeader.from_buffer\<close>: \<^verbatim>\<open>ctypes\<close> raises
  \<^verbatim>\<open>ValueError\<close> when the buffer is smaller than the structure and ignores the bytes beyond it.
\<close>

definition MessageHeader_from_buffer :: "bytes \<Rightarrow> header result" where
  "MessageHeader_from_buffer bs =
     (if length bs < 16 then Inl ValueError else Inr (Plain (mheader_of_bytes (take 16 bs))))"

definition ExtendedMessageHeader_from_buffer :: "bytes \<Rightarrow> header result" where
  "ExtendedMessageHeader_from_buffer bs =
     (if length bs < 24 then Inl ValueError else Inr (Extended (xheader_of_bytes (take 24 bs))))"

section \<open>One constructor function per command\<close>

definition VersionRequestHeader :: "int \<Rightarrow> int \<Rightarrow> header" where
  "VersionRequestHeader priority version = MessageHeader 0 0 priority version 0 0"

definition VersionResponseHeader :: "int \<Rightarrow> header" where
  "VersionResponseHeader version = MessageHeader 0 0 1 version 1 0"

definition SearchRequestHeader :: "int \<Rightarrow> int \<Rightarrow> int \<Rightarrow> int \<Rightarrow> header" where
  "SearchRequestHeader payload_size reply version cid =
     (if payload_size > 0xffff \<or> version > 0xffff
      then ExtendedMessageHeader 6 payload_size reply version cid cid
      else MessageHeader 6 payload_size reply version cid cid)"

definition SearchResponseHeader :: "int \<Rightarrow> int \<Rightarrow> int \<Rightarrow> header" where
  "SearchResponseHeader data_type sid cid = MessageHeader 6 8 data_type 0 sid cid"

definition NotFoundResponseHeader :: "int \<Rightarrow> int \<Rightarrow> int \<Rightarrow> header" where
  "NotFoundResponseHeader reply_flag version cid = MessageHeader 14 0 reply_flag version cid cid"

definition EchoRequestHeader :: "header" where
  "EchoRequestHeader = MessageHeader 23 0 0 0 0 0"

definition EchoResponseHeader :: "header" where
  "EchoResponseHeader = MessageHeader 23 0 0 0 0 0"

definition BeaconHeader :: "int \<Rightarrow> int \<Rightarrow> int \<Rightarrow> int \<Rightarrow> header" where
  "BeaconHeader version server_port beaconid address =
     MessageHeader 13 0 version server_port beaconid address"

definition RepeaterConfirmResponseHeader :: "int \<Rightarrow> header" where
  "RepeaterConfirmResponseHeader repeater_address = MessageHeader 17 0 0 0 0 repeater_address"

definition RepeaterRegisterRequestHeader :: "int \<Rightarrow> header" where
  "RepeaterRegisterRequestHeader client_ip_address = MessageHeader 24 0 0 0 0 client_ip_address"

definition EventAddRequestHeader :: "int \<Rightarrow> int \<Rightarrow> int \<Rightarrow> int \<Rightarrow> header" where
  "EventAddRequestHeader data_type data_count sid subscriptionid =
     (if (16 :: int) > 0xffff \<or> data_count > 0xffff
      then ExtendedMessageHeader 1 16 data_type data_count sid subscriptionid
      else MessageHeader 1 16 data_type data_count sid subscriptionid)"

definition EventAddResponseHeader :: "int \<Rightarrow> int \<Rightarrow> int \<Rightarrow> int \<Rightarrow> int \<Rightarrow> header" where
  "EventAddResponseHeader payload_size data_type data_count status subscriptionid =
     (if payload_size > 0xffff \<or> data_count > 0xffff
      then ExtendedMessageHeader 1 payload_size data_type data_count status subscriptionid
      else MessageHeader 1 payload_size data_type data_count status subscriptionid)"

definition EventCancelRequestHeader :: "int \<Rightarrow> int \<Rightarrow> int \<Rightarrow> int \<Rightarrow> header" where
  "EventCancelRequestHeader data_type data_count sid subscriptionid =
     (if data_count > 0xffff
      then ExtendedMessageHeader 2 0 data_type data_count sid subscriptionid
      else MessageHeader 2 0 data_type data_count sid subscriptionid)"

definition EventCancelResponseHeader :: "int \<Rightarrow> int \<Rightarrow> int \<Rightarrow> int \<Rightarrow> header" where
  "EventCancelResponseHeader data_type data_count sid subscriptionid =
     (if data_count > 0xffff
      then ExtendedMessageHeader 1 0 data_type data_count sid subscriptionid
      else MessageHeader 1 0 data_type data_count sid subscriptionid)"

definition ReadRequestHeader :: "int \<Rightarrow> int \<Rightarrow> int \<Rightarrow> int \<Rightarrow> header" where
  "ReadRequestHeader data_type data_count sid ioid =
     (if data_count > 0xffff
      then ExtendedMessageHeader 3 0 data_type data_count sid ioid
      else MessageHeader 3 0 data_type data_count sid ioid)"

definition ReadResponseHeader :: "int \<Rightarrow> int \<Rightarrow> int \<Rightarrow> int \<Rightarrow> int \<Rightarrow> header" where
  "ReadResponseHeader payload_size data_type data_count sid ioid =
     (if payload_size > 0xffff \<or> data_count > 0xffff
      then ExtendedMessageHeader 3 payload_size data_type data_count sid ioid
      else MessageHeader 3 payload_size data_type data_count sid ioid)"

definition WriteRequestHeader :: "int \<Rightarrow> int \<Rightarrow> int \<Rightarrow> int \<Rightarrow> int \<Rightarrow> header" where
  "WriteRequestHeader payload_size data_type data_count sid ioid =
     (if payload_size > 0xffff \<or> data_count > 0xffff
      then ExtendedMessageHeader 4 payload_size data_type data_count sid ioid
      else MessageHeader 4 payload_size data_type data_count sid ioid)"

definition EventsOffRequestHeader :: "header" where
  "EventsOffRequestHeader = MessageHeader 8 0 0 0 0 0"

definition EventsOnRequestHeader :: "header" where
  "EventsOnRequestHeader = MessageHeader 9 0 0 0 0 0"

definition ReadSyncRequestHeader :: "header" where
  "ReadSyncRequestHeader = MessageHeader 10 0 0 0 0 0"

definition ErrorResponseHeader :: "int \<Rightarrow> int \<Rightarrow> int \<Rightarrow> header" where
  "ErrorResponseHeader payload_size cid status =
     (if payload_size > 0xffff
      then ExtendedMessageHeader 11 payload_size 0 0 cid status
      else MessageHeader 11 payload_size 0 0 cid status)"

definition ClearChannelRequestHeader :: "int \<Rightarrow> int \<Rightarrow> header" where
  "ClearChannelRequestHeader sid cid = MessageHeader 12 0 0 0 sid cid"

definition ClearChannelResponseHeader :: "int \<Rightarrow> int \<Rightarrow> header" where
  "ClearChannelResponseHeader sid cid = MessageHeader 12 0 0 0 sid cid"

definition ReadNotifyRequestHeader :: "int \<Rightarrow> int \<Rightarrow> int \<Rightarrow> int \<Rightarrow> header" where
  "ReadNotifyRequestHeader data_type data_count sid ioid =
     (if data_count > 0xffff
      then ExtendedMessageHeader 15 0 data_type data_count sid ioid
      else MessageHeader 15 0 data_type data_count sid ioid)"

definition ReadNotifyResponseHeader :: "int \<Rightarrow> int \<Rightarrow> int \<Rightarrow> int \<Rightarrow> int \<Rightarrow> header" where
  "ReadNotifyResponseHeader payload_size data_type data_count sid ioid =
     (if payload_size > 0xffff \<or> data_count > 0xffff
      then ExtendedMessageHeader 15 payload_size data_type data_count sid ioid
      else MessageHeader 15 payload_size data_type data_count sid ioid)"

definition CreateChanRequestHeader :: "int \<Rightarrow> int \<Rightarrow> int \<Rightarrow> header" where
  "CreateChanRequestHeader payload_size cid client_version =
     (if payload_size > 0xffff
      then ExtendedMessageHeader 18 payload_size 0 0 cid client_version
      else MessageHeader 18 payload_size 0 0 cid client_version)"

definition CreateChanResponseHeader :: "int \<Rightarrow> int \<Rightarrow> int \<Rightarrow> int \<Rightarrow> header" where
  "CreateChanResponseHeader data_type data_count cid sid =
     (if data_count > 0xffff
      then ExtendedMessageHeader 18 0 data_type data_count cid sid
      else MessageHeader 18 0 data_type data_count cid sid)"

definition WriteNotifyRequestHeader :: "int \<Rightarrow> int \<Rightarrow> int \<Rightarrow> int \<Rightarrow> int \<Rightarrow> header" where
  "WriteNotifyRequestHeader payload_size data_type data_count sid ioid =
     (if payload_size > 0xffff \<or> data_count > 0xffff
      then ExtendedMessageHeader 19 payload_size data_type data_count sid ioid
      else MessageHeader 19 payload_size data_type data_count sid ioid)"

definition WriteNotifyResponseHeader :: "int \<Rightarrow> int \<Rightarrow> int \<Rightarrow> int \<Rightarrow> header" where
  "WriteNotifyResponseHeader data_type data_count status ioid =
     (if data_count > 0xffff
      then ExtendedMessageHeader 19 0 data_type data_count status ioid
      else MessageHeader 19 0 data_type data_count status ioid)"

definition ClientNameRequestHeader :: "int \<Rightarrow> header" where
  "ClientNameRequestHeader payload_size =
     (if payload_size > 0xffff
      then ExtendedMessageHeader 20 payload_size 0 0 0 0
      else MessageHeader 20 payload_size 0 0 0 0)"

definition HostNameRequestHeader :: "int \<Rightarrow> header" where
  "HostNameRequestHeader payload_size =
     (if payload_size > 0xffff
      then ExtendedMessageHeader 21 payload_size 0 0 0 0
      else MessageHeader 21 payload_size 0 0 0 0)"

definition AccessRightsResponseHeader :: "int \<Rightarrow> int \<Rightarrow> header" where
  "AccessRightsResponseHeader cid access_rights = MessageHeader 22 0 0 0 cid access_rights"

definition CreateChFailResponseHeader :: "int \<Rightarrow> header" where
  "CreateChFailResponseHeader cid = MessageHeader 26 0 0 0 cid 0"

definition ServerDisconnResponseHeader :: "int \<Rightarrow> header" where
  "ServerDisconnResponseHeader cid = MessageHeader 27 0 0 0 cid 0"
section \<open>The layout is a fixed-width codec\<close>

lemma slice_skip: "length xs \<le> i \<Longrightarrow> i \<le> j \<Longrightarrow> slice i j (xs @ ys) = slice (i - length xs) (j - length xs) ys"
  by (simp add: slice_def)

lemma slice_head: "slice 0 (length xs) (xs @ ys) = xs" "slice 0 (length xs) xs = xs"
  by (simp_all add: slice_def)

lemma slice_join:
  assumes "i \<le> j" "j \<le> k"
  shows "slice i j bs @ slice j k bs = slice i k bs"
proof -
  from assms have "k - i = (j - i) + (k - j)" by simp
  then have "slice i k bs = take (j - i) (drop i bs) @ take (k - j) (drop (j - i) (drop i bs))"
    by (simp only: slice_def take_add)
  with assms show ?thesis by (simp add: slice_def)
qed

lemma length_slice [simp]: "length (slice i j bs) = min (j - i) (length bs - i)"
  by (simp add: slice_def min.commute)

lemma slice_full [simp]: "length bs \<le> n \<Longrightarrow> slice 0 n bs = bs"
  by (simp add: slice_def)

lemmas slice_eval =
  slice_head(1) [of "be16 w" for w, simplified] slice_head(2) [of "be16 w" for w, simplified]
  slice_head(1) [of "be32 w" for w, simplified] slice_head(2) [of "be32 w" for w, simplified]

interpretation mhc: fixed_codec mheader_bytes mheader_of_bytes 16
proof
  show "length (mheader_bytes h) = 16" for h by (simp add: mheader_bytes_def)
  show "mheader_of_bytes (mheader_bytes h) = h" for h
    by (simp add: mheader_bytes_def mheader_of_bytes_def slice_skip slice_eval)
  show "mheader_bytes (mheader_of_bytes bs) = bs" if "length bs = 16" for bs
    using that by (simp add: mheader_bytes_def mheader_of_bytes_def u16.enc_dec u32.enc_dec slice_join)
qed

interpretation xhc: fixed_codec xheader_bytes xheader_of_bytes 24
proof
  show "length (xheader_bytes h) = 24" for h by (simp add: xheader_bytes_def)
  show "xheader_of_bytes (xheader_bytes h) = h" for h
    by (simp add: xheader_bytes_def xheader_of_bytes_def slice_skip slice_eval)
  show "xheader_bytes (xheader_of_bytes bs) = bs" if "length bs = 24" for bs
    using that by (simp add: xheader_bytes_def xheader_of_bytes_def u16.enc_dec u32.enc_dec slice_join)
qed

section \<open>Reading headers back\<close>

lemma length_header_bytes [simp]: "length (header_bytes h) = sizeof_header h"
  by (cases h) (simp_all add: mhc.enc_length xhc.enc_length)

lemma from_buffer_mheader [simp]:
  "MessageHeader_from_buffer (mheader_bytes h @ rest) = Inr (Plain h)"
  by (simp add: MessageHeader_from_buffer_def mhc.enc_length mhc.dec_enc)

lemma from_buffer_xheader [simp]:
  "ExtendedMessageHeader_from_buffer (xheader_bytes h @ rest) = Inr (Extended h)"
  by (simp add: ExtendedMessageHeader_from_buffer_def xhc.enc_length xhc.dec_enc)

text \<open>The first sixteen bytes of an extended header, read as a plain header, show the markers.\<close>

lemma from_buffer_xheader_plain:
  "MessageHeader_from_buffer (xheader_bytes h @ rest) =
     Inr (Plain \<lparr>mh_command = xh_command h, mh_payload_size = xh_marker1 h,
       mh_data_type = xh_data_type h, mh_data_count = xh_marker2 h,
       mh_parameter1 = xh_parameter1 h, mh_parameter2 = xh_parameter2 h\<rparr>)" (is "_ = Inr (Plain ?p)")
proof -
  have "xheader_bytes h @ rest
          = mheader_bytes ?p @ (be32 (xh_payload_size h) @ be32 (xh_data_count h) @ rest)"
    by (simp add: xheader_bytes_def mheader_bytes_def)
  then show ?thesis by (simp only: from_buffer_mheader)
qed

lemma MessageHeader_fields [simp]:
  "h_command (MessageHeader c ps dt dc p1 p2) = c mod 2 ^ 16"
  "h_payload_size (MessageHeader c ps dt dc p1 p2) = ps mod 2 ^ 16"
  "h_data_type (MessageHeader c ps dt dc p1 p2) = dt mod 2 ^ 16"
  "h_data_count (MessageHeader c ps dt dc p1 p2) = dc mod 2 ^ 16"
  "h_parameter1 (MessageHeader c ps dt dc p1 p2) = p1 mod 2 ^ 32"
  "h_parameter2 (MessageHeader c ps dt dc p1 p2) = p2 mod 2 ^ 32"
  "sizeof_header (MessageHeader c ps dt dc p1 p2) = 16"
  by (simp_all add: MessageHeader_def uint_word_of_int)

lemma ExtendedMessageHeader_fields [simp]:
  "h_command (ExtendedMessageHeader c ps dt dc p1 p2) = c mod 2 ^ 16"
  "h_payload_size (ExtendedMessageHeader c ps dt dc p1 p2) = ps mod 2 ^ 32"
  "h_data_type (ExtendedMessageHeader c ps dt dc p1 p2) = dt mod 2 ^ 16"
  "h_data_count (ExtendedMessageHeader c ps dt dc p1 p2) = dc mod 2 ^ 32"
  "h_parameter1 (ExtendedMessageHeader c ps dt dc p1 p2) = p1 mod 2 ^ 32"
  "h_parameter2 (ExtendedMessageHeader c ps dt dc p1 p2) = p2 mod 2 ^ 32"
  "sizeof_header (ExtendedMessageHeader c ps dt dc p1 p2) = 24"
  by (simp_all add: ExtendedMessageHeader_def uint_word_of_int)

lemma h_payload_size_nonneg [simp]: "0 \<le> h_payload_size h"
  by (cases h) simp_all

lemma h_data_count_nonneg [simp]: "0 \<le> h_data_count h"
  by (cases h) simp_all

text \<open>All header constructors, for unfolding.\<close>

lemmas header_defs =
  VersionRequestHeader_def VersionResponseHeader_def SearchRequestHeader_def
  SearchResponseHeader_def NotFoundResponseHeader_def EchoRequestHeader_def
  EchoResponseHeader_def BeaconHeader_def RepeaterConfirmResponseHeader_def
  RepeaterRegisterRequestHeader_def EventAddRequestHeader_def EventAddResponseHeader_def
  EventCancelRequestHeader_def EventCancelResponseHeader_def ReadRequestHeader_def
  ReadResponseHeader_def WriteRequestHeader_def EventsOffRequestHeader_def
  EventsOnRequestHeader_def ReadSyncRequestHeader_def ErrorResponseHeader_def
  ClearChannelRequestHeader_def ClearChannelResponseHeader_def ReadNotifyRequestHeader_def
  ReadNotifyResponseHeader_def CreateChanRequestHeader_def CreateChanResponseHeader_def
  WriteNotifyRequestHeader_def WriteNotifyResponseHeader_def ClientNameRequestHeader_def
  HostNameRequestHeader_def AccessRightsResponseHeader_def CreateChFailResponseHeader_def
  ServerDisconnResponseHeader_def

end
