(* ===== verification/CA_Dbr.thy ===== *)
theory CA_Dbr
  imports CA_Prelude
begin

text \<open>
  The data types of \<^verbatim>\<open>caproto/_dbr.py\<close>: the \<^verbatim>\<open>ChannelType\<close> enumeration, the packed \<^verbatim>\<open>ctypes\<close>
  layout of every DBR structure, the \<^verbatim>\<open>field_types\<close> tables that promote a type to its status, time,
  graphic or control variant, and the two string containers (\<^verbatim>\<open>DbrStringArray\<close> and the enum strings).
\<close>

section \<open>Channel types\<close>

datatype ChannelType =
    CT_STRING | CT_INT | CT_FLOAT | CT_ENUM | CT_CHAR | CT_LONG | CT_DOUBLE | CT_STS_STRING |
    CT_STS_INT | CT_STS_FLOAT | CT_STS_ENUM | CT_STS_CHAR | CT_STS_LONG | CT_STS_DOUBLE |
    CT_TIME_STRING | CT_TIME_INT | CT_TIME_FLOAT | CT_TIME_ENUM | CT_TIME_CHAR | CT_TIME_LONG |
    CT_TIME_DOUBLE | CT_GR_STRING | CT_GR_INT | CT_GR_FLOAT | CT_GR_ENUM | CT_GR_CHAR |
    CT_GR_LONG | CT_GR_DOUBLE | CT_CTRL_STRING | CT_CTRL_INT | CT_CTRL_FLOAT | CT_CTRL_ENUM |
    CT_CTRL_CHAR | CT_CTRL_LONG | CT_CTRL_DOUBLE | CT_PUT_ACKT | CT_PUT_ACKS | CT_STSACK_STRING |
    CT_CLASS_NAME

text \<open>\<^verbatim>\<open>ChannelType\<close> is an \<^verbatim>\<open>IntEnum\<close>: members have integer values and compare as integers.\<close>

fun ct_value :: "ChannelType \<Rightarrow> int" where
  "ct_value CT_STRING = 0"
| "ct_value CT_INT = 1"
| "ct_value CT_FLOAT = 2"
| "ct_value CT_ENUM = 3"
| "ct_value CT_CHAR = 4"
| "ct_value CT_LONG = 5"
| "ct_value CT_DOUBLE = 6"
| "ct_value CT_STS_STRING = 7"
| "ct_value CT_STS_INT = 8"
| "ct_value CT_STS_FLOAT = 9"
| "ct_value CT_STS_ENUM = 10"
| "ct_value CT_STS_CHAR = 11"
| "ct_value CT_STS_LONG = 12"
| "ct_value CT_STS_DOUBLE = 13"
| "ct_value CT_TIME_STRING = 14"
| "ct_value CT_TIME_INT = 15"
| "ct_value CT_TIME_FLOAT = 16"
| "ct_value CT_TIME_ENUM = 17"
| "ct_value CT_TIME_CHAR = 18"
| "ct_value CT_TIME_LONG = 19"
| "ct_value CT_TIME_DOUBLE = 20"
| "ct_value CT_GR_STRING = 21"
| "ct_value CT_GR_INT = 22"
| "ct_value CT_GR_FLOAT = 23"
| "ct_value CT_GR_ENUM = 24"
| "ct_value CT_GR_CHAR = 25"
| "ct_value CT_GR_LONG = 26"
| "ct_value CT_GR_DOUBLE = 27"
| "ct_value CT_CTRL_STRING = 28"
| "ct_value CT_CTRL_INT = 29"
| "ct_value CT_CTRL_FLOAT = 30"
| "ct_value CT_CTRL_ENUM = 31"
| "ct_value CT_CTRL_CHAR = 32"
| "ct_value CT_CTRL_LONG = 33"
| "ct_value CT_CTRL_DOUBLE = 34"
| "ct_value CT_PUT_ACKT = 35"
| "ct_value CT_PUT_ACKS = 36"
| "ct_value CT_STSACK_STRING = 37"
| "ct_value CT_CLASS_NAME = 38"

definition all_channel_types :: "ChannelType list" where
  "all_channel_types =
     [CT_STRING, CT_INT, CT_FLOAT, CT_ENUM, CT_CHAR, CT_LONG, CT_DOUBLE, CT_STS_STRING,
      CT_STS_INT, CT_STS_FLOAT, CT_STS_ENUM, CT_STS_CHAR, CT_STS_LONG, CT_STS_DOUBLE,
      CT_TIME_STRING, CT_TIME_INT, CT_TIME_FLOAT, CT_TIME_ENUM, CT_TIME_CHAR, CT_TIME_LONG,
      CT_TIME_DOUBLE, CT_GR_STRING, CT_GR_INT, CT_GR_FLOAT, CT_GR_ENUM, CT_GR_CHAR, CT_GR_LONG,
      CT_GR_DOUBLE, CT_CTRL_STRING, CT_CTRL_INT, CT_CTRL_FLOAT, CT_CTRL_ENUM, CT_CTRL_CHAR,
      CT_CTRL_LONG, CT_CTRL_DOUBLE, CT_PUT_ACKT, CT_PUT_ACKS, CT_STSACK_STRING, CT_CLASS_NAME]"

text \<open>The call \<^verbatim>\<open>ChannelType(i)\<close>, which raises \<^verbatim>\<open>ValueError\<close> for a value that is not a member.\<close>

definition ChannelType_of_int :: "int \<Rightarrow> ChannelType result" where
  "ChannelType_of_int i =
     (case find (\<lambda>t. ct_value t = i) all_channel_types of None \<Rightarrow> Inl ValueError | Some t \<Rightarrow> Inr t)"

section \<open>Constants and C types\<close>

definition MAX_STRING_SIZE :: nat where "MAX_STRING_SIZE = 40"

definition MAX_UNITS_SIZE :: nat where "MAX_UNITS_SIZE = 8"

definition MAX_ENUM_STRING_SIZE :: nat where "MAX_ENUM_STRING_SIZE = 26"

definition MAX_ENUM_STATES :: nat where "MAX_ENUM_STATES = 16"

datatype ctype =
    c_char | c_int16 | c_uint16 | c_int32 | c_uint32 | c_float | c_double
  | Array nat ctype
  | Struct "(string \<times> ctype) list"

type_synonym fields = "(string \<times> ctype) list"

text \<open>\<^verbatim>\<open>ctypes.sizeof\<close>; every structure is packed (\<^verbatim>\<open>_pack_ = 1\<close>).\<close>

fun sizeof :: "ctype \<Rightarrow> nat" where
  "sizeof c_char = 1"
| "sizeof c_int16 = 2"
| "sizeof c_uint16 = 2"
| "sizeof c_int32 = 4"
| "sizeof c_uint32 = 4"
| "sizeof c_float = 4"
| "sizeof c_double = 8"
| "sizeof (Array n t) = n * sizeof t"
| "sizeof (Struct fs) = sum_list (map (\<lambda>f. sizeof (snd f)) fs)"

definition char_t :: ctype where "char_t = c_char"

definition short_t :: ctype where "short_t = c_int16"

definition ushort_t :: ctype where "ushort_t = c_uint16"

definition int_t :: ctype where "int_t = c_int16"

definition long_t :: ctype where "long_t = c_int32"

definition float_t :: ctype where "float_t = c_float"

definition double_t :: ctype where "double_t = c_double"

definition string_t :: ctype where "string_t = Array MAX_STRING_SIZE c_char"

definition TimeStamp_t :: ctype where
  "TimeStamp_t = Struct [(''secondsSinceEpoch'', c_uint32), (''nanoSeconds'', c_uint32)]"

section \<open>The DBR structures\<close>

definition DBR_STRING :: fields where
  "DBR_STRING =
     [(''value'', string_t)]"

definition DBR_INT :: fields where
  "DBR_INT =
     [(''value'', int_t)]"

definition DBR_FLOAT :: fields where
  "DBR_FLOAT =
     [(''value'', float_t)]"

definition DBR_ENUM :: fields where
  "DBR_ENUM =
     [(''value'', ushort_t)]"

definition DBR_CHAR :: fields where
  "DBR_CHAR =
     [(''value'', char_t)]"

definition DBR_LONG :: fields where
  "DBR_LONG =
     [(''value'', long_t)]"

definition DBR_DOUBLE :: fields where
  "DBR_DOUBLE =
     [(''value'', double_t)]"

definition DBR_STS_STRING :: fields where
  "DBR_STS_STRING =
     [(''status'', short_t), (''severity'', short_t)]"

definition DBR_STS_INT :: fields where
  "DBR_STS_INT =
     [(''status'', short_t), (''severity'', short_t)]"

definition DBR_STS_FLOAT :: fields where
  "DBR_STS_FLOAT =
     [(''status'', short_t), (''severity'', short_t)]"

definition DBR_STS_ENUM :: fields where
  "DBR_STS_ENUM =
     [(''status'', short_t), (''severity'', short_t)]"

definition DBR_STS_CHAR :: fields where
  "DBR_STS_CHAR =
     [(''status'', short_t), (''severity'', short_t), (''RISC_pad'', char_t)]"

definition DBR_STS_LONG :: fields where
  "DBR_STS_LONG =
     [(''status'', short_t), (''severity'', short_t)]"

definition DBR_STS_DOUBLE :: fields where
  "DBR_STS_DOUBLE =
     [(''status'', short_t), (''severity'', short_t), (''RISC_pad'', long_t)]"

definition DBR_TIME_STRING :: fields where
  "DBR_TIME_STRING =
     [(''status'', short_t), (''severity'', short_t), (''stamp'', TimeStamp_t)]"

definition DBR_TIME_INT :: fields where
  "DBR_TIME_INT =
     [(''status'', short_t), (''severity'', short_t), (''stamp'', TimeStamp_t),
      (''RISC_pad'', short_t)]"

definition DBR_TIME_FLOAT :: fields where
  "DBR_TIME_FLOAT =
     [(''status'', short_t), (''severity'', short_t), (''stamp'', TimeStamp_t)]"

definition DBR_TIME_ENUM :: fields where
  "DBR_TIME_ENUM =
     [(''status'', short_t), (''severity'', short_t), (''stamp'', TimeStamp_t),
      (''RISC_pad'', short_t)]"

definition DBR_TIME_CHAR :: fields where
  "DBR_TIME_CHAR =
     [(''status'', short_t), (''severity'', short_t), (''stamp'', TimeStamp_t),
      (''RISC_pad0'', short_t), (''RISC_pad1'', char_t)]"

definition DBR_TIME_LONG :: fields where
  "DBR_TIME_LONG =
     [(''status'', short_t), (''severity'', short_t), (''stamp'', TimeStamp_t)]"

definition DBR_TIME_DOUBLE :: fields where
  "DBR_TIME_DOUBLE =
     [(''status'', short_t), (''severity'', short_t), (''stamp'', TimeStamp_t),
      (''RISC_pad'', long_t)]"

definition DBR_GR_INT :: fields where
  "DBR_GR_INT =
     [(''status'', short_t), (''severity'', short_t), (''units'', Array MAX_UNITS_SIZE char_t),
      (''upper_disp_limit'', short_t), (''lower_disp_limit'', short_t),
      (''upper_alarm_limit'', short_t), (''upper_warning_limit'', short_t),
      (''lower_warning_limit'', short_t), (''lower_alarm_limit'', short_t)]"

definition DBR_GR_FLOAT :: fields where
  "DBR_GR_FLOAT =
     [(''status'', short_t), (''severity'', short_t), (''precision'', short_t),
      (''RISC_pad0'', short_t), (''units'', Array MAX_UNITS_SIZE char_t),
      (''upper_disp_limit'', float_t), (''lower_disp_limit'', float_t),
      (''upper_alarm_limit'', float_t), (''upper_warning_limit'', float_t),
      (''lower_warning_limit'', float_t), (''lower_alarm_limit'', float_t)]"

definition DBR_GR_ENUM :: fields where
  "DBR_GR_ENUM =
     [(''status'', short_t), (''severity'', short_t), (''no_str'', short_t),
      (''strs'', Array MAX_ENUM_STATES (Array MAX_ENUM_STRING_SIZE char_t))]"

definition DBR_GR_CHAR :: fields where
  "DBR_GR_CHAR =
     [(''status'', short_t), (''severity'', short_t), (''units'', Array MAX_UNITS_SIZE char_t),
      (''upper_disp_limit'', char_t), (''lower_disp_limit'', char_t),
      (''upper_alarm_limit'', char_t), (''upper_warning_limit'', char_t),
      (''lower_warning_limit'', char_t), (''lower_alarm_limit'', char_t), (''RISC_pad'', char_t)]"

definition DBR_GR_LONG :: fields where
  "DBR_GR_LONG =
     [(''status'', short_t), (''severity'', short_t), (''units'', Array MAX_UNITS_SIZE char_t),
      (''upper_disp_limit'', long_t), (''lower_disp_limit'', long_t),
      (''upper_alarm_limit'', long_t), (''upper_warning_limit'', long_t),
      (''lower_warning_limit'', long_t), (''lower_alarm_limit'', long_t)]"

definition DBR_GR_DOUBLE :: fields where
  "DBR_GR_DOUBLE =
     [(''status'', short_t), (''severity'', short_t), (''precision'', short_t),
      (''RISC_pad0'', short_t), (''units'', Array MAX_UNITS_SIZE char_t),
      (''upper_disp_limit'', double_t), (''lower_disp_limit'', double_t),
      (''upper_alarm_limit'', double_t), (''upper_warning_limit'', double_t),
      (''lower_warning_limit'', double_t), (''lower_alarm_limit'', double_t)]"

definition DBR_CTRL_INT :: fields where
  "DBR_CTRL_INT =
     [(''status'', short_t), (''severity'', short_t), (''units'', Array MAX_UNITS_SIZE char_t),
      (''upper_disp_limit'', short_t), (''lower_disp_limit'', short_t),
      (''upper_alarm_limit'', short_t), (''upper_warning_limit'', short_t),
      (''lower_warning_limit'', short_t), (''lower_alarm_limit'', short_t),
      (''upper_ctrl_limit'', short_t), (''lower_ctrl_limit'', short_t)]"

definition DBR_CTRL_FLOAT :: fields where
  "DBR_CTRL_FLOAT =
     [(''status'', short_t), (''severity'', short_t), (''precision'', short_t),
      (''RISC_pad0'', short_t), (''units'', Array MAX_UNITS_SIZE char_t),
      (''upper_disp_limit'', float_t), (''lower_disp_limit'', float_t),
      (''upper_alarm_limit'', float_t), (''upper_warning_limit'', float_t),
      (''lower_warning_limit'', float_t), (''lower_alarm_limit'', float_t),
      (''upper_ctrl_limit'', float_t), (''lower_ctrl_limit'', float_t)]"

definition DBR_CTRL_ENUM :: fields where
  "DBR_CTRL_ENUM =
     [(''status'', short_t), (''severity'', short_t), (''no_str'', short_t),
      (''strs'', Array MAX_ENUM_STATES (Array MAX_ENUM_STRING_SIZE char_t))]"

definition DBR_CTRL_CHAR :: fields where
  "DBR_CTRL_CHAR =
     [(''status'', short_t), (''severity'', short_t), (''units'', Array MAX_UNITS_SIZE char_t),
      (''upper_disp_limit'', char_t), (''lower_disp_limit'', char_t),
      (''upper_alarm_limit'', char_t), (''upper_warning_limit'', char_t),
      (''lower_warning_limit'', char_t), (''lower_alarm_limit'', char_t),
      (''upper_ctrl_limit'', char_t), (''lower_ctrl_limit'', char_t), (''RISC_pad'', char_t)]"

definition DBR_CTRL_LONG :: fields where
  "DBR_CTRL_LONG =
     [(''status'', short_t), (''severity'', short_t), (''units'', Array MAX_UNITS_SIZE char_t),
      (''upper_disp_limit'', long_t), (''lower_disp_limit'', long_t),
      (''upper_alarm_limit'', long_t), (''upper_warning_limit'', long_t),
      (''lower_warning_limit'', long_t), (''lower_alarm_limit'', long_t),
      (''upper_ctrl_limit'', long_t), (''lower_ctrl_limit'', long_t)]"

definition DBR_CTRL_DOUBLE :: fields where
  "DBR_CTRL_DOUBLE =
     [(''status'', short_t), (''severity'', short_t), (''precision'', short_t),
      (''RISC_pad0'', short_t), (''units'', Array MAX_UNITS_SIZE char_t),
      (''upper_disp_limit'', double_t), (''lower_disp_limit'', double_t),
      (''upper_alarm_limit'', double_t), (''upper_warning_limit'', double_t),
      (''lower_warning_limit'', double_t), (''lower_alarm_limit'', double_t),
      (''upper_ctrl_limit'', double_t), (''lower_ctrl_limit'', double_t)]"

definition DBR_PUT_ACKT :: fields where
  "DBR_PUT_ACKT =
     [(''value'', ushort_t)]"

definition DBR_PUT_ACKS :: fields where
  "DBR_PUT_ACKS =
     [(''value'', ushort_t)]"

definition DBR_STSACK_STRING :: fields where
  "DBR_STSACK_STRING =
     [(''status'', short_t), (''severity'', short_t), (''ackt'', ushort_t), (''acks'', ushort_t),
      (''value'', string_t)]"

definition DBR_CLASS_NAME :: fields where
  "DBR_CLASS_NAME =
     [(''value'', string_t)]"

text \<open>
  The dictionary \<^verbatim>\<open>DBR_TYPES\<close> from the identifiers of the classes above, with the two string types
  EPICS does not implement mapped to the structures used in their place.
\<close>

definition DBR_TYPES :: "(ChannelType, fields) dict" where
  "DBR_TYPES = dict_of (
     [(CT_STRING, DBR_STRING), (CT_INT, DBR_INT), (CT_FLOAT, DBR_FLOAT), (CT_ENUM, DBR_ENUM),
      (CT_CHAR, DBR_CHAR), (CT_LONG, DBR_LONG), (CT_DOUBLE, DBR_DOUBLE),
      (CT_STS_STRING, DBR_STS_STRING), (CT_STS_INT, DBR_STS_INT), (CT_STS_FLOAT, DBR_STS_FLOAT),
      (CT_STS_ENUM, DBR_STS_ENUM), (CT_STS_CHAR, DBR_STS_CHAR), (CT_STS_LONG, DBR_STS_LONG),
      (CT_STS_DOUBLE, DBR_STS_DOUBLE), (CT_TIME_STRING, DBR_TIME_STRING),
      (CT_TIME_INT, DBR_TIME_INT), (CT_TIME_FLOAT, DBR_TIME_FLOAT),
      (CT_TIME_ENUM, DBR_TIME_ENUM), (CT_TIME_CHAR, DBR_TIME_CHAR),
      (CT_TIME_LONG, DBR_TIME_LONG), (CT_TIME_DOUBLE, DBR_TIME_DOUBLE), (CT_GR_INT, DBR_GR_INT),
      (CT_GR_FLOAT, DBR_GR_FLOAT), (CT_GR_ENUM, DBR_GR_ENUM), (CT_GR_CHAR, DBR_GR_CHAR),
      (CT_GR_LONG, DBR_GR_LONG), (CT_GR_DOUBLE, DBR_GR_DOUBLE), (CT_CTRL_INT, DBR_CTRL_INT),
      (CT_CTRL_FLOAT, DBR_CTRL_FLOAT), (CT_CTRL_ENUM, DBR_CTRL_ENUM),
      (CT_CTRL_CHAR, DBR_CTRL_CHAR), (CT_CTRL_LONG, DBR_CTRL_LONG),
      (CT_CTRL_DOUBLE, DBR_CTRL_DOUBLE), (CT_PUT_ACKT, DBR_PUT_ACKT),
      (CT_PUT_ACKS, DBR_PUT_ACKS), (CT_STSACK_STRING, DBR_STSACK_STRING),
      (CT_CLASS_NAME, DBR_CLASS_NAME)]
     @ [(CT_GR_STRING, DBR_STS_STRING), (CT_CTRL_STRING, DBR_TIME_STRING)])"

section \<open>Promotion tables\<close>

definition field_types_native :: "(ChannelType, ChannelType) dict" where
  "field_types_native = dict_of
     [(CT_STRING, CT_STRING), (CT_INT, CT_INT), (CT_FLOAT, CT_FLOAT), (CT_ENUM, CT_ENUM),
      (CT_CHAR, CT_CHAR), (CT_LONG, CT_LONG), (CT_DOUBLE, CT_DOUBLE), (CT_STS_STRING, CT_STRING),
      (CT_STS_INT, CT_INT), (CT_STS_FLOAT, CT_FLOAT), (CT_STS_ENUM, CT_ENUM),
      (CT_STS_CHAR, CT_CHAR), (CT_STS_LONG, CT_LONG), (CT_STS_DOUBLE, CT_DOUBLE),
      (CT_TIME_STRING, CT_STRING), (CT_TIME_INT, CT_INT), (CT_TIME_FLOAT, CT_FLOAT),
      (CT_TIME_ENUM, CT_ENUM), (CT_TIME_CHAR, CT_CHAR), (CT_TIME_LONG, CT_LONG),
      (CT_TIME_DOUBLE, CT_DOUBLE), (CT_GR_STRING, CT_STRING), (CT_GR_INT, CT_INT),
      (CT_GR_FLOAT, CT_FLOAT), (CT_GR_ENUM, CT_ENUM), (CT_GR_CHAR, CT_CHAR),
      (CT_GR_LONG, CT_LONG), (CT_GR_DOUBLE, CT_DOUBLE), (CT_CTRL_STRING, CT_STRING),
      (CT_CTRL_INT, CT_INT), (CT_CTRL_FLOAT, CT_FLOAT), (CT_CTRL_ENUM, CT_ENUM),
      (CT_CTRL_CHAR, CT_CHAR), (CT_CTRL_LONG, CT_LONG), (CT_CTRL_DOUBLE, CT_DOUBLE),
      (CT_PUT_ACKT, CT_PUT_ACKT), (CT_PUT_ACKS, CT_PUT_ACKS),
      (CT_STSACK_STRING, CT_STSACK_STRING), (CT_CLASS_NAME, CT_CLASS_NAME)]"

definition field_types_status :: "(ChannelType, ChannelType) dict" where
  "field_types_status = dict_of
     [(CT_STRING, CT_STS_STRING), (CT_INT, CT_STS_INT), (CT_FLOAT, CT_STS_FLOAT),
      (CT_ENUM, CT_STS_ENUM), (CT_CHAR, CT_STS_CHAR), (CT_LONG, CT_STS_LONG),
      (CT_DOUBLE, CT_STS_DOUBLE), (CT_STS_STRING, CT_STS_STRING), (CT_STS_INT, CT_STS_INT),
      (CT_STS_FLOAT, CT_STS_FLOAT), (CT_STS_ENUM, CT_STS_ENUM), (CT_STS_CHAR, CT_STS_CHAR),
      (CT_STS_LONG, CT_STS_LONG), (CT_STS_DOUBLE, CT_STS_DOUBLE),
      (CT_TIME_STRING, CT_STS_STRING), (CT_TIME_INT, CT_STS_INT), (CT_TIME_FLOAT, CT_STS_FLOAT),
      (CT_TIME_ENUM, CT_STS_ENUM), (CT_TIME_CHAR, CT_STS_CHAR), (CT_TIME_LONG, CT_STS_LONG),
      (CT_TIME_DOUBLE, CT_STS_DOUBLE), (CT_STS_STRING, CT_STS_STRING), (CT_GR_INT, CT_STS_INT),
      (CT_GR_FLOAT, CT_STS_FLOAT), (CT_GR_ENUM, CT_STS_ENUM), (CT_GR_CHAR, CT_STS_CHAR),
      (CT_GR_LONG, CT_STS_LONG), (CT_GR_DOUBLE, CT_STS_DOUBLE), (CT_CTRL_INT, CT_STS_INT),
      (CT_CTRL_FLOAT, CT_STS_FLOAT), (CT_CTRL_ENUM, CT_STS_ENUM), (CT_CTRL_CHAR, CT_STS_CHAR),
      (CT_CTRL_LONG, CT_STS_LONG), (CT_CTRL_DOUBLE, CT_STS_DOUBLE), (CT_PUT_ACKT, CT_PUT_ACKT),
      (CT_PUT_ACKS, CT_PUT_ACKS), (CT_STSACK_STRING, CT_STSACK_STRING),
      (CT_CLASS_NAME, CT_CLASS_NAME)]"

definition field_types_time :: "(ChannelType, ChannelType) dict" where
  "field_types_time = dict_of
     [(CT_STRING, CT_TIME_STRING), (CT_INT, CT_TIME_INT), (CT_FLOAT, CT_TIME_FLOAT),
      (CT_ENUM, CT_TIME_ENUM), (CT_CHAR, CT_TIME_CHAR), (CT_LONG, CT_TIME_LONG),
      (CT_DOUBLE, CT_TIME_DOUBLE), (CT_STS_STRING, CT_TIME_STRING), (CT_STS_INT, CT_TIME_INT),
      (CT_STS_FLOAT, CT_TIME_FLOAT), (CT_STS_ENUM, CT_TIME_ENUM), (CT_STS_CHAR, CT_TIME_CHAR),
      (CT_STS_LONG, CT_TIME_LONG), (CT_STS_DOUBLE, CT_TIME_DOUBLE),
      (CT_TIME_STRING, CT_TIME_STRING), (CT_TIME_INT, CT_TIME_INT),
      (CT_TIME_FLOAT, CT_TIME_FLOAT), (CT_TIME_ENUM, CT_TIME_ENUM), (CT_TIME_CHAR, CT_TIME_CHAR),
      (CT_TIME_LONG, CT_TIME_LONG), (CT_TIME_DOUBLE, CT_TIME_DOUBLE),
      (CT_STS_STRING, CT_TIME_STRING), (CT_GR_INT, CT_TIME_INT), (CT_GR_FLOAT, CT_TIME_FLOAT),
      (CT_GR_ENUM, CT_TIME_ENUM), (CT_GR_CHAR, CT_TIME_CHAR), (CT_GR_LONG, CT_TIME_LONG),
      (CT_GR_DOUBLE, CT_TIME_DOUBLE), (CT_CTRL_INT, CT_TIME_INT), (CT_CTRL_FLOAT, CT_TIME_FLOAT),
      (CT_CTRL_ENUM, CT_TIME_ENUM), (CT_CTRL_CHAR, CT_TIME_CHAR), (CT_CTRL_LONG, CT_TIME_LONG),
      (CT_CTRL_DOUBLE, CT_TIME_DOUBLE), (CT_PUT_ACKT, CT_PUT_ACKT), (CT_PUT_ACKS, CT_PUT_ACKS),
      (CT_STSACK_STRING, CT_STSACK_STRING), (CT_CLASS_NAME, CT_CLASS_NAME)]"

definition field_types_graphic :: "(ChannelType, ChannelType) dict" where
  "field_types_graphic = dict_of
     [(CT_STRING, CT_STS_STRING), (CT_INT, CT_GR_INT), (CT_FLOAT, CT_GR_FLOAT),
      (CT_ENUM, CT_GR_ENUM), (CT_CHAR, CT_GR_CHAR), (CT_LONG, CT_GR_LONG),
      (CT_DOUBLE, CT_GR_DOUBLE), (CT_STS_STRING, CT_STS_STRING), (CT_STS_INT, CT_GR_INT),
      (CT_STS_FLOAT, CT_GR_FLOAT), (CT_STS_ENUM, CT_GR_ENUM), (CT_STS_CHAR, CT_GR_CHAR),
      (CT_STS_LONG, CT_GR_LONG), (CT_STS_DOUBLE, CT_GR_DOUBLE), (CT_TIME_STRING, CT_STS_STRING),
      (CT_TIME_INT, CT_GR_INT), (CT_TIME_FLOAT, CT_GR_FLOAT), (CT_TIME_ENUM, CT_GR_ENUM),
      (CT_TIME_CHAR, CT_GR_CHAR), (CT_TIME_LONG, CT_GR_LONG), (CT_TIME_DOUBLE, CT_GR_DOUBLE),
      (CT_STS_STRING, CT_STS_STRING), (CT_GR_INT, CT_GR_INT), (CT_GR_FLOAT, CT_GR_FLOAT),
      (CT_GR_ENUM, CT_GR_ENUM), (CT_GR_CHAR, CT_GR_CHAR), (CT_GR_LONG, CT_GR_LONG),
      (CT_GR_DOUBLE, CT_GR_DOUBLE), (CT_CTRL_INT, CT_GR_INT), (CT_CTRL_FLOAT, CT_GR_FLOAT),
      (CT_CTRL_ENUM, CT_GR_ENUM), (CT_CTRL_CHAR, CT_GR_CHAR), (CT_CTRL_LONG, CT_GR_LONG),
      (CT_CTRL_DOUBLE, CT_GR_DOUBLE), (CT_PUT_ACKT, CT_PUT_ACKT), (CT_PUT_ACKS, CT_PUT_ACKS),
      (CT_STSACK_STRING, CT_STSACK_STRING), (CT_CLASS_NAME, CT_CLASS_NAME)]"

definition field_types_control :: "(ChannelType, ChannelType) dict" where
  "field_types_control = dict_of
     [(CT_STRING, CT_TIME_STRING), (CT_INT, CT_CTRL_INT), (CT_FLOAT, CT_CTRL_FLOAT),
      (CT_ENUM, CT_CTRL_ENUM), (CT_CHAR, CT_CTRL_CHAR), (CT_LONG, CT_CTRL_LONG),
      (CT_DOUBLE, CT_CTRL_DOUBLE), (CT_STS_STRING, CT_TIME_STRING), (CT_STS_INT, CT_CTRL_INT),
      (CT_STS_FLOAT, CT_CTRL_FLOAT), (CT_STS_ENUM, CT_CTRL_ENUM), (CT_STS_CHAR, CT_CTRL_CHAR),
      (CT_STS_LONG, CT_CTRL_LONG), (CT_STS_DOUBLE, CT_CTRL_DOUBLE),
      (CT_TIME_STRING, CT_TIME_STRING), (CT_TIME_INT, CT_CTRL_INT),
      (CT_TIME_FLOAT, CT_CTRL_FLOAT), (CT_TIME_ENUM, CT_CTRL_ENUM), (CT_TIME_CHAR, CT_CTRL_CHAR),
      (CT_TIME_LONG, CT_CTRL_LONG), (CT_TIME_DOUBLE, CT_CTRL_DOUBLE),
      (CT_STS_STRING, CT_TIME_STRING), (CT_GR_INT, CT_CTRL_INT), (CT_GR_FLOAT, CT_CTRL_FLOAT),
      (CT_GR_ENUM, CT_CTRL_ENUM), (CT_GR_CHAR, CT_CTRL_CHAR), (CT_GR_LONG, CT_CTRL_LONG),
      (CT_GR_DOUBLE, CT_CTRL_DOUBLE), (CT_CTRL_INT, CT_CTRL_INT), (CT_CTRL_FLOAT, CT_CTRL_FLOAT),
      (CT_CTRL_ENUM, CT_CTRL_ENUM), (CT_CTRL_CHAR, CT_CTRL_CHAR), (CT_CTRL_LONG, CT_CTRL_LONG),
      (CT_CTRL_DOUBLE, CT_CTRL_DOUBLE), (CT_PUT_ACKT, CT_PUT_ACKT), (CT_PUT_ACKS, CT_PUT_ACKS),
      (CT_STSACK_STRING, CT_STSACK_STRING), (CT_CLASS_NAME, CT_CLASS_NAME)]"

definition field_types :: "(string, (ChannelType, ChannelType) dict) dict" where
  "field_types = dict_of
     [(''native'', field_types_native), (''status'', field_types_status), (''time'', field_types_time),
      (''graphic'', field_types_graphic), (''control'', field_types_control)]"

definition native_type :: "ChannelType \<Rightarrow> ChannelType result" where
  "native_type ftype = getitem field_types_native ftype"

definition native_types :: "ChannelType list" where
  "native_types = [CT_STRING, CT_INT, CT_FLOAT, CT_ENUM, CT_CHAR, CT_LONG, CT_DOUBLE]"

definition special_types :: "ChannelType list" where
  "special_types = [CT_PUT_ACKT, CT_PUT_ACKS, CT_STSACK_STRING, CT_CLASS_NAME]"

definition status_types :: "ChannelType set" where
  "status_types = set (map snd field_types_status) - set special_types"

definition time_types :: "ChannelType set" where
  "time_types = set (map snd field_types_time) - set special_types"

definition graphical_types :: "ChannelType set" where
  "graphical_types = set (map snd field_types_graphic) - set special_types - {CT_STS_STRING}"

definition control_types :: "ChannelType set" where
  "control_types = set (map snd field_types_control) - set special_types - {CT_TIME_STRING}"

text \<open>\<^verbatim>\<open>ctypes.sizeof(DBR_TYPES[t])\<close>.\<close>

definition dbr_sizeof :: "ChannelType \<Rightarrow> nat result" where
  "dbr_sizeof t = bindE (getitem DBR_TYPES t) (\<lambda>fs. Inr (sizeof (Struct fs)))"

section \<open>Arrays of strings\<close>

text \<open>
  \<^verbatim>\<open>DbrStringArray.frombuffer\<close>: \<open>safely_find_eos\<close> is the position of the first NUL of the whole
  remaining buffer, at most \<^verbatim>\<open>MAX_STRING_SIZE\<close>.
\<close>

definition safely_find_eos :: "bytes \<Rightarrow> nat" where
  "safely_find_eos buf =
     (if 0 \<in> set buf then min MAX_STRING_SIZE (length (takeWhile (\<lambda>b. b \<noteq> 0) buf))
      else min MAX_STRING_SIZE (length buf))"

fun frombuffer_loop :: "nat \<Rightarrow> bytes \<Rightarrow> bytes list" where
  "frombuffer_loop 0 buf = []"
| "frombuffer_loop (Suc n) buf =
     take (safely_find_eos buf) buf # frombuffer_loop n (drop MAX_STRING_SIZE buf)"

definition DbrStringArray_frombuffer :: "bytes \<Rightarrow> int option \<Rightarrow> bytes list" where
  "DbrStringArray_frombuffer buf data_count =
     (let n = (case data_count of None \<Rightarrow> max 1 (int (length buf) div int MAX_STRING_SIZE) | Some c \<Rightarrow> c)
      in frombuffer_loop (nat n) buf)"

definition DbrStringArray_tobytes :: "bytes list \<Rightarrow> bytes" where
  "DbrStringArray_tobytes items =
     concat (map (\<lambda>item. ljust0 MAX_STRING_SIZE (take MAX_STRING_SIZE item)) items)"

section \<open>Enum strings\<close>

text \<open>
  The fields of \<^verbatim>\<open>DBR_GR_ENUM\<close> and \<^verbatim>\<open>DBR_CTRL_ENUM\<close> that \<^verbatim>\<open>_EnumWithStrings\<close> uses: a signed 16-bit
  count and sixteen arrays of twenty-six characters.
\<close>

record enum_strs =
  es_no_str :: "16 word"
  es_strs :: "bytes list"

definition wf_enum_strs :: "enum_strs \<Rightarrow> bool" where
  "wf_enum_strs e \<longleftrightarrow> length (es_strs e) = MAX_ENUM_STATES
     \<and> (\<forall>s \<in> set (es_strs e). length s = MAX_ENUM_STRING_SIZE)"

text \<open>The \<^verbatim>\<open>value\<close> of a character array: up to the first NUL.\<close>

definition c_value :: "bytes \<Rightarrow> bytes" where
  "c_value bs = takeWhile (\<lambda>b. b \<noteq> 0) bs"

definition get_enum_strings :: "enum_strs \<Rightarrow> bytes list result" where
  "get_enum_strings e =
     (let n = sint (es_no_str e)
      in if n \<le> int (length (es_strs e)) then Inr (map c_value (take (nat n) (es_strs e)))
         else Inl IndexError)"

text \<open>The setter's loop stores one string per step and raises at the first index out of range.\<close>

fun store_enum_strings :: "nat \<Rightarrow> bytes list \<Rightarrow> bytes list \<Rightarrow> unit result \<times> bytes list" where
  "store_enum_strings i [] strs = (Inr (), strs)"
| "store_enum_strings i (b # bs) strs =
     (if i < length strs
      then store_enum_strings (Suc i) bs
             (strs[i := ljust0 MAX_ENUM_STRING_SIZE (take (MAX_ENUM_STRING_SIZE - 1) b)])
      else (Inl IndexError, strs))"

definition set_enum_strings :: "bytes list \<Rightarrow> enum_strs \<Rightarrow> unit result \<times> enum_strs" where
  "set_enum_strings enum_strings e =
     (case store_enum_strings 0 enum_strings (es_strs e) of
        (Inl err, strs) \<Rightarrow> (Inl err, e\<lparr>es_strs := strs\<rparr>)
      | (Inr _, strs) \<Rightarrow>
          (Inr (), e\<lparr>es_strs := strs, es_no_str := word_of_nat (length enum_strings)\<rparr>))"

section \<open>Lemmas on channel types\<close>

lemma ChannelType_of_ct_value [simp]: "ChannelType_of_int (ct_value t) = Inr t"
  by (cases t) (simp_all add: ChannelType_of_int_def all_channel_types_def)

lemma ct_value_inject: "ct_value t = ct_value u \<longleftrightarrow> t = u"
  using ChannelType_of_ct_value by (metis sum.inject(2))

lemma ct_value_range: "0 \<le> ct_value t \<and> ct_value t < 39"
  by (cases t) simp_all

lemma ChannelType_of_int_Inr: "ChannelType_of_int i = Inr t \<longleftrightarrow> i = ct_value t"
proof
  assume "ChannelType_of_int i = Inr t"
  then show "i = ct_value t"
    by (auto simp: ChannelType_of_int_def find_Some_iff split: option.splits)
qed simp

lemma ChannelType_of_int_Inl: "ChannelType_of_int i = Inl e \<Longrightarrow> e = ValueError"
  by (auto simp: ChannelType_of_int_def split: option.splits)

instantiation ChannelType :: linorder
begin

definition less_eq_ChannelType :: "ChannelType \<Rightarrow> ChannelType \<Rightarrow> bool" where
  "less_eq_ChannelType t u \<longleftrightarrow> ct_value t \<le> ct_value u"

definition less_ChannelType :: "ChannelType \<Rightarrow> ChannelType \<Rightarrow> bool" where
  "less_ChannelType t u \<longleftrightarrow> ct_value t < ct_value u"

instance
  by standard (auto simp: less_eq_ChannelType_def less_ChannelType_def ct_value_inject)

end

lemmas dbr_struct_defs =
  DBR_STRING_def DBR_INT_def DBR_FLOAT_def DBR_ENUM_def DBR_CHAR_def DBR_LONG_def DBR_DOUBLE_def
  DBR_STS_STRING_def DBR_STS_INT_def DBR_STS_FLOAT_def DBR_STS_ENUM_def DBR_STS_CHAR_def
  DBR_STS_LONG_def DBR_STS_DOUBLE_def DBR_TIME_STRING_def DBR_TIME_INT_def DBR_TIME_FLOAT_def
  DBR_TIME_ENUM_def DBR_TIME_CHAR_def DBR_TIME_LONG_def DBR_TIME_DOUBLE_def DBR_GR_INT_def
  DBR_GR_FLOAT_def DBR_GR_ENUM_def DBR_GR_CHAR_def DBR_GR_LONG_def DBR_GR_DOUBLE_def
  DBR_CTRL_INT_def DBR_CTRL_FLOAT_def DBR_CTRL_ENUM_def DBR_CTRL_CHAR_def DBR_CTRL_LONG_def
  DBR_CTRL_DOUBLE_def DBR_PUT_ACKT_def DBR_PUT_ACKS_def DBR_STSACK_STRING_def DBR_CLASS_NAME_def

lemmas ctype_defs = char_t_def short_t_def ushort_t_def int_t_def long_t_def float_t_def double_t_def
  string_t_def TimeStamp_t_def MAX_STRING_SIZE_def MAX_UNITS_SIZE_def MAX_ENUM_STRING_SIZE_def
  MAX_ENUM_STATES_def

lemma all_channel_types_complete: "t \<in> set all_channel_types"
  by (cases t) (simp_all add: all_channel_types_def)

lemma all_types_check: "list_all P all_channel_types \<Longrightarrow> P t"
  using all_channel_types_complete by (auto simp: list_all_iff)

lemmas native_type_unfold = native_type_def getitem_def field_types_native_def dget_dict_of

lemma promote_native:
  "case dget field_types_native t of None \<Rightarrow> False
   | Some p \<Rightarrow> native_type p = native_type t \<and> dget field_types_native p = Some p"
  by (rule all_types_check) (unfold native_type_unfold, code_simp)

lemma promote_status:
  "case dget field_types_status t of None \<Rightarrow> t \<in> {CT_GR_STRING, CT_CTRL_STRING}
   | Some p \<Rightarrow> t \<notin> {CT_GR_STRING, CT_CTRL_STRING} \<and> native_type p = native_type t
        \<and> dget field_types_status p = Some p"
  by (rule all_types_check) (unfold native_type_unfold field_types_status_def, code_simp)

lemma promote_time:
  "case dget field_types_time t of None \<Rightarrow> t \<in> {CT_GR_STRING, CT_CTRL_STRING}
   | Some p \<Rightarrow> t \<notin> {CT_GR_STRING, CT_CTRL_STRING} \<and> native_type p = native_type t
        \<and> dget field_types_time p = Some p"
  by (rule all_types_check) (unfold native_type_unfold field_types_time_def, code_simp)

lemma promote_graphic:
  "case dget field_types_graphic t of None \<Rightarrow> t \<in> {CT_GR_STRING, CT_CTRL_STRING}
   | Some p \<Rightarrow> t \<notin> {CT_GR_STRING, CT_CTRL_STRING} \<and> native_type p = native_type t
        \<and> dget field_types_graphic p = Some p"
  by (rule all_types_check) (unfold native_type_unfold field_types_graphic_def, code_simp)

lemma promote_control:
  "case dget field_types_control t of None \<Rightarrow> t \<in> {CT_GR_STRING, CT_CTRL_STRING}
   | Some p \<Rightarrow> t \<notin> {CT_GR_STRING, CT_CTRL_STRING} \<and> native_type p = native_type t
        \<and> dget field_types_control p = Some p"
  by (rule all_types_check) (unfold native_type_unfold field_types_control_def, code_simp)

lemmas promote_tables = promote_native promote_status promote_time promote_graphic promote_control

lemma field_types_cases:
  assumes "dget field_types kind = Some tab"
  obtains "kind = ''native''" "tab = field_types_native"
    | "kind = ''status''" "tab = field_types_status"
    | "kind = ''time''" "tab = field_types_time"
    | "kind = ''graphic''" "tab = field_types_graphic"
    | "kind = ''control''" "tab = field_types_control"
  using assms by (auto simp: field_types_def dget_dict_of split: if_splits)

lemma native_type_Inr: "\<exists>n. native_type t = Inr n"
  using promote_native [of t] by (auto simp: native_type_def getitem_def split: option.splits)

lemma native_type_native_or_special:
  "native_type t = Inr n \<Longrightarrow> n \<in> set native_types \<union> set special_types"
proof -
  have "case native_type t of Inl _ \<Rightarrow> True | Inr n \<Rightarrow> n \<in> set native_types \<union> set special_types"
    by (rule all_types_check)
      (unfold native_type_unfold native_types_def special_types_def, code_simp)
  then show "native_type t = Inr n \<Longrightarrow> n \<in> set native_types \<union> set special_types" by simp
qed

section \<open>Lemmas on structure sizes\<close>

text \<open>The size of every structure, as the packed layout gives it.\<close>

lemma dbr_sizes:
  "map dbr_sizeof all_channel_types = map Inr
     [40, 2, 4, 2, 1, 4, 8,  4, 4, 4, 4, 5, 4, 8,  12, 14, 12, 14, 15, 12, 16,
      4, 24, 40, 422, 19, 36, 64,  12, 28, 48, 422, 21, 44, 80,  2, 2, 48, 40]"
  unfolding dbr_sizeof_def getitem_def DBR_TYPES_def dget_dict_of by code_simp

section \<open>Lemmas on string containers\<close>

lemma eos_take:
  assumes "length item \<le> 40"
  shows "take (safely_find_eos (ljust0 40 item @ rest)) (ljust0 40 item @ rest) = c_value item"
    (is "take _ ?buf = _")
proof (cases "0 \<in> set item")
  case True
  then have tw: "takeWhile (\<lambda>b. b \<noteq> 0) ?buf = c_value item"
    by (auto simp: ljust0_def c_value_def takeWhile_append)
  have "length (c_value item) \<le> 40"
    using assms length_takeWhile_le le_trans unfolding c_value_def by blast
  moreover have "0 \<in> set ?buf"
    using True by (simp add: ljust0_def)
  ultimately have "safely_find_eos ?buf = length (takeWhile (\<lambda>b. b \<noteq> 0) ?buf)"
    unfolding safely_find_eos_def MAX_STRING_SIZE_def tw by simp
  then show ?thesis using takeWhile_eq_take [of "\<lambda>b. b \<noteq> 0" ?buf] by (simp only: tw)
next
  case False
  then have item: "c_value item = item" by (auto simp: c_value_def takeWhile_eq_all_conv)
  show ?thesis
  proof (cases "length item < 40")
    case True
    then obtain k where "ljust0 40 item @ rest = item @ 0 # k"
      by (cases "40 - length item") (auto simp: ljust0_def)
    with False assms item show ?thesis
      by (auto simp: safely_find_eos_def MAX_STRING_SIZE_def takeWhile_append)
  next
    case False2: False
    with assms have "length item = 40" by simp
    then have l: "ljust0 40 item = item" by (simp add: ljust0_def)
    have "40 \<le> length (takeWhile (\<lambda>b. b \<noteq> 0) (item @ rest))"
      using False \<open>length item = 40\<close> by (simp add: takeWhile_append)
    then have "safely_find_eos (item @ rest) = 40"
      using \<open>length item = 40\<close> by (simp add: safely_find_eos_def MAX_STRING_SIZE_def)
    with l item \<open>length item = 40\<close> show ?thesis by simp
  qed
qed

lemma frombuffer_tobytes:
  "frombuffer_loop (length items) (DbrStringArray_tobytes items @ rest)
     = map (\<lambda>item. c_value (take MAX_STRING_SIZE item)) items"
proof (induction items)
  case (Cons item items)
  let ?i = "take 40 item"
  have "length ?i \<le> 40" by simp
  note eos = eos_take [OF this, of "DbrStringArray_tobytes items @ rest"]
  have buf: "DbrStringArray_tobytes (item # items) @ rest
      = ljust0 40 ?i @ DbrStringArray_tobytes items @ rest"
    by (simp add: DbrStringArray_tobytes_def MAX_STRING_SIZE_def)
  have "drop 40 (ljust0 40 ?i @ DbrStringArray_tobytes items @ rest)
      = DbrStringArray_tobytes items @ rest"
    by simp
  with eos Cons.IH show ?case
    unfolding buf length_Cons frombuffer_loop.simps list.map MAX_STRING_SIZE_def by simp
qed simp

lemma store_enum_strings_ok:
  "i + length bs \<le> length strs \<Longrightarrow>
     store_enum_strings i bs strs =
       (Inr (), take i strs @ map (\<lambda>b. ljust0 26 (take 25 b)) bs @ drop (i + length bs) strs)"
proof (induction bs arbitrary: i strs)
  case (Cons b bs)
  then have "i < length strs" by simp
  then show ?case using Cons
    by (simp add: MAX_ENUM_STRING_SIZE_def take_Suc_conv_app_nth)
qed simp

lemma store_enum_strings_overflow:
  "i \<le> length strs \<Longrightarrow> length strs < i + length bs \<Longrightarrow> fst (store_enum_strings i bs strs) = Inl IndexError"
  by (induction i bs strs rule: store_enum_strings.induct) auto

lemma c_value_ljust0: "c_value (ljust0 n bs) = c_value bs"
  by (cases "0 \<in> set bs")
    (auto simp: c_value_def ljust0_def takeWhile_append takeWhile_eq_all_conv [THEN iffD2])

section \<open>Properties\<close>

text \<open>
  C39. Promotion is sound: whenever a \<^verbatim>\<open>field_types\<close> table maps a type to a promoted type, the two have
  the same native type (so a reading keeps its element type) and promoting again changes nothing.
\<close>

theorem promotion_sound:
  assumes "dget field_types kind = Some tab" and "dget tab t = Some p"
  shows "native_type p = native_type t \<and> dget tab p = Some p"
  using assms(1)
  by (rule field_types_cases) (use assms(2) promote_tables [of t] in auto)

theorem promotion_sound_witness:
  "dget field_types_time CT_CTRL_ENUM = Some CT_TIME_ENUM
     \<and> native_type CT_TIME_ENUM = native_type CT_CTRL_ENUM
     \<and> dget field_types_time CT_TIME_ENUM = Some CT_TIME_ENUM"
proof -
  have tab: "dget field_types ''time'' = Some field_types_time"
    by (simp add: field_types_def dget_dict_of)
  have p: "dget field_types_time CT_CTRL_ENUM = Some CT_TIME_ENUM"
    by (simp add: field_types_time_def dget_dict_of)
  from p promotion_sound [OF tab p] show ?thesis by blast
qed

text \<open>
  The tables are total but for one gap: only \<^verbatim>\<open>GR_STRING\<close> and \<^verbatim>\<open>CTRL_STRING\<close>, which EPICS does not
  implement, have no entry, and only outside the \<^verbatim>\<open>native\<close> table; a lookup there raises \<^verbatim>\<open>KeyError\<close>.
\<close>

theorem promotion_total:
  assumes "dget field_types kind = Some tab"
  shows "getitem tab t = Inl KeyError \<longleftrightarrow> kind \<noteq> ''native'' \<and> t \<in> {CT_GR_STRING, CT_CTRL_STRING}"
  using assms
  by (rule field_types_cases)
    (use promote_tables [of t] in \<open>auto simp: getitem_def split: option.splits\<close>)

theorem promotion_total_witness:
  "getitem field_types_status CT_GR_STRING = Inl KeyError
     \<longleftrightarrow> ''status'' \<noteq> ''native'' \<and> CT_GR_STRING \<in> {CT_GR_STRING, CT_CTRL_STRING}"
proof -
  have "dget field_types ''status'' = Some field_types_status"
    by (simp add: field_types_def dget_dict_of)
  then show ?thesis by (rule promotion_total)
qed

text \<open>
  Values follow their metadata aligned: the size of the metadata structure of every promoted type is
  a multiple of the alignment of its value (1 for strings and characters, 2, 4 or 8 for numbers), which is
  what the \<^verbatim>\<open>RISC_pad\<close> fields are for.
\<close>

theorem metadata_alignment:
  "list_all (\<lambda>t. case (dbr_sizeof t, bindE (native_type t) dbr_sizeof) of
       (Inr md, Inr el) \<Rightarrow> (if native_type t = Inr CT_STRING then True else md mod el = 0)
     | _ \<Rightarrow> False) (filter (\<lambda>t. CT_DOUBLE < t \<and> t < CT_PUT_ACKT) all_channel_types)"
  unfolding dbr_sizeof_def native_type_unfold DBR_TYPES_def less_ChannelType_def
  by code_simp

text \<open>
  String arrays survive the wire: decoding the encoding of any list of byte strings, padded or
  followed by more data, gives each string cut at forty bytes and at its first NUL.
\<close>

theorem string_array_roundtrip:
  "DbrStringArray_frombuffer (DbrStringArray_tobytes items @ rest) (Some (int (length items)))
     = map (\<lambda>item. c_value (take 40 item)) items"
  using frombuffer_tobytes [of items rest]
  by (simp add: DbrStringArray_frombuffer_def MAX_STRING_SIZE_def)

text \<open>
  Enum strings: storing at most sixteen strings succeeds and reading them back gives each cut at
  twenty-five bytes and at its first NUL; storing more raises \<^verbatim>\<open>IndexError\<close> and leaves the count alone.
\<close>

theorem enum_strings_roundtrip:
  assumes "wf_enum_strs e"
  shows "if length xs \<le> 16
         then fst (set_enum_strings xs e) = Inr ()
            \<and> get_enum_strings (snd (set_enum_strings xs e)) = Inr (map (\<lambda>b. c_value (take 25 b)) xs)
         else fst (set_enum_strings xs e) = Inl IndexError
            \<and> es_no_str (snd (set_enum_strings xs e)) = es_no_str e"
proof (cases "length xs \<le> 16")
  case True
  have len: "length (es_strs e) = 16"
    using assms by (simp add: wf_enum_strs_def MAX_ENUM_STATES_def)
  have store: "store_enum_strings 0 xs (es_strs e) =
      (Inr (), map (\<lambda>b. ljust0 26 (take 25 b)) xs @ drop (length xs) (es_strs e))"
    using store_enum_strings_ok [of 0 xs "es_strs e"] True len by simp
  have "sint (word_of_nat (length xs) :: 16 word) = int (length xs)"
    using True by (simp add: signed_of_nat signed_take_bit_int_eq_self)
  with store True len show ?thesis
    by (simp add: set_enum_strings_def get_enum_strings_def c_value_ljust0)
next
  case False
  then have "fst (store_enum_strings 0 xs (es_strs e)) = Inl IndexError"
    using assms by (intro store_enum_strings_overflow) (auto simp: wf_enum_strs_def MAX_ENUM_STATES_def)
  with False show ?thesis
    by (auto simp: set_enum_strings_def split: prod.splits sum.splits)
qed

theorem enum_strings_roundtrip_witness:
  "let e = \<lparr>es_no_str = 0, es_strs = replicate 16 (replicate 26 0)\<rparr>
   in fst (set_enum_strings [[79, 102, 102], [79, 110]] e) = Inr ()
    \<and> get_enum_strings (snd (set_enum_strings [[79, 102, 102], [79, 110]] e)) = Inr [[79, 102, 102], [79, 110]]"
proof -
  let ?e = "\<lparr>es_no_str = 0, es_strs = replicate 16 (replicate 26 0)\<rparr> :: enum_strs"
  have "wf_enum_strs ?e"
    by (simp add: wf_enum_strs_def MAX_ENUM_STATES_def MAX_ENUM_STRING_SIZE_def)
  from enum_strings_roundtrip [OF this, of "[[79, 102, 102], [79, 110]]"] show ?thesis
    by (simp add: Let_def c_value_def)
qed

end
