(* ===== verification/CA_Status.thy ===== *)
theory CA_Status
  imports CA_Prelude
begin

unbundle bit_operations_syntax

text \<open>
  The status codes of \<^verbatim>\<open>caproto/_status.py\<close>: the severity enumeration, the factory \<^verbatim>\<open>_ca_status\<close>
  that packs a base code and a severity into one integer, the sixty-one members of \<^verbatim>\<open>CAStatus\<close>, the
  reverse dictionary \<^verbatim>\<open>eca_value_to_status\<close> and \<^verbatim>\<open>ensure_eca_value\<close>.
\<close>

section \<open>Definitions\<close>

datatype CASeverity = INFO | ERROR | SUCCESS | WARNING | SEVERE | FATAL

fun severity_value :: "CASeverity \<Rightarrow> int" where
  "severity_value INFO = 3"
| "severity_value ERROR = 2"
| "severity_value SUCCESS = 1"
| "severity_value WARNING = 0"
| "severity_value SEVERE = 4"
| "severity_value FATAL = (2 OR 4)"

record CAStatusCode =
  st_name :: string
  st_code :: int
  st_code_with_severity :: int
  st_severity :: CASeverity
  st_success :: int
  st_defunct :: bool
  st_description :: string

text \<open>
  \<^verbatim>\<open>_ca_status\<close>. The assertion at its end holds for every severity (\<open>ca_status_assertion\<close> below).
\<close>

definition ca_status :: "string \<Rightarrow> CASeverity \<Rightarrow> int \<Rightarrow> string \<Rightarrow> bool \<Rightarrow> CAStatusCode" where
  "ca_status name severity code desc defunct =
     (let mask_msg = 0xFFF8; mask_severity = 0x0007; mask_success = 0x0001;
          shift_message = 3; shift_severity = 0; shift_success = 0;
          base = (push_bit shift_message code) AND mask_msg;
          full = base OR ((push_bit shift_severity (severity_value severity)) AND mask_severity)
      in \<lparr>st_name = name, st_code = code, st_code_with_severity = full, st_severity = severity,
          st_success = drop_bit shift_success (severity_value severity AND mask_success),
          st_defunct = defunct, st_description = desc\<rparr>)"

text \<open>The members of \<^verbatim>\<open>CAStatus\<close>, in the order of the class body.\<close>

definition CAStatus :: "CAStatusCode list" where
  "CAStatus = [
     ca_status ''ECA_NORMAL'' SUCCESS 0
       ''Normal successful completion'' False,
     ca_status ''ECA_MAXIOC'' ERROR 1
       ''Maximum simultaneous IOC connections exceeded'' True,
     ca_status ''ECA_UKNHOST'' ERROR 2
       ''Unknown internet host'' True,
     ca_status ''ECA_UKNSERV'' ERROR 3
       ''Unknown internet service'' True,
     ca_status ''ECA_SOCK'' ERROR 4
       ''Unable to allocate a new socket'' True,
     ca_status ''ECA_CONN'' WARNING 5
       ''Unable to connect to internet host or service'' True,
     ca_status ''ECA_ALLOCMEM'' WARNING 6
       ''Unable to allocate additional dynamic memory'' False,
     ca_status ''ECA_UKNCHAN'' WARNING 7
       ''Unknown IO channel'' True,
     ca_status ''ECA_UKNFIELD'' WARNING 8
       ''Record field specified inappropriate for channel specified'' True,
     ca_status ''ECA_TOLARGE'' WARNING 9
       ''The requested data transfer is greater than available memory or EPICS_CA_MAX_ARRAY_BYTES'' False,
     ca_status ''ECA_TIMEOUT'' WARNING 10
       ''User specified timeout on IO operation expired'' False,
     ca_status ''ECA_NOSUPPORT'' WARNING 11
       ''Sorry, that feature is planned but not supported at this time'' True,
     ca_status ''ECA_STRTOBIG'' WARNING 12
       ''The supplied string is unusually large'' True,
     ca_status ''ECA_DISCONNCHID'' ERROR 13
       ''The request was ignored because the specified channel is disconnected'' True,
     ca_status ''ECA_BADTYPE'' ERROR 14
       ''The data type specifed is invalid'' False,
     ca_status ''ECA_CHIDNOTFND'' INFO 15
       ''Remote Channel not found'' True,
     ca_status ''ECA_CHIDRETRY'' INFO 16
       ''Unable to locate all user specified channels'' True,
     ca_status ''ECA_INTERNAL'' FATAL 17
       ''Channel Access Internal Failure'' False,
     ca_status ''ECA_DBLCLFAIL'' WARNING 18
       ''The requested local DB operation failed'' True,
     ca_status ''ECA_GETFAIL'' WARNING 19
       ''Channel read request failed'' False,
     ca_status ''ECA_PUTFAIL'' WARNING 20
       ''Channel write request failed'' False,
     ca_status ''ECA_ADDFAIL'' WARNING 21
       ''Channel subscription request failed'' True,
     ca_status ''ECA_BADCOUNT'' WARNING 22
       ''Invalid element count requested'' False,
     ca_status ''ECA_BADSTR'' ERROR 23
       ''Invalid string'' False,
     ca_status ''ECA_DISCONN'' WARNING 24
       ''Virtual circuit disconnect'' False,
     ca_status ''ECA_DBLCHNL'' WARNING 25
       ''Identical process variable name on multiple servers'' False,
     ca_status ''ECA_EVDISALLOW'' ERROR 26
       ''Request inappropriate within subscription (monitor) update callback'' False,
     ca_status ''ECA_BUILDGET'' WARNING 27
       ''Database value get for that channel failed during channel search'' True,
     ca_status ''ECA_NEEDSFP'' WARNING 28
       ''Unable to initialize without the vxWorks VX_FP_TASKtask option set'' True,
     ca_status ''ECA_OVEVFAIL'' WARNING 29
       ''Event queue overflow has prevented first pass event after event add'' True,
     ca_status ''ECA_BADMONID'' ERROR 30
       ''Bad event subscription (monitor) identifier'' False,
     ca_status ''ECA_NEWADDR'' WARNING 31
       ''Remote channel has new network address'' True,
     ca_status ''ECA_NEWCONN'' INFO 32
       ''New or resumed network connection'' True,
     ca_status ''ECA_NOCACTX'' WARNING 33
       ''Specified task isnt a member of a CA context'' True,
     ca_status ''ECA_DEFUNCT'' FATAL 34
       ''Attempt to use defunct CA feature failed'' True,
     ca_status ''ECA_EMPTYSTR'' WARNING 35
       ''The supplied string is empty'' True,
     ca_status ''ECA_NOREPEATER'' WARNING 36
       ''Unable to spawn the CA repeater thread; auto reconnect will fail'' True,
     ca_status ''ECA_NOCHANMSG'' WARNING 37
       ''No channel id match for search reply; search reply ignored'' True,
     ca_status ''ECA_DLCKREST'' WARNING 38
       ''Reseting dead connection; will try to reconnect'' True,
     ca_status ''ECA_SERVBEHIND'' WARNING 39
       ''Server (IOC) has fallen behind or is not responding; still waiting'' True,
     ca_status ''ECA_NOCAST'' WARNING 40
       ''No internet interface with broadcast available'' True,
     ca_status ''ECA_BADMASK'' ERROR 41
       ''Invalid event selection mask'' False,
     ca_status ''ECA_IODONE'' INFO 42
       ''IO operations have completed'' False,
     ca_status ''ECA_IOINPROGRESS'' INFO 43
       ''IO operations are in progress'' False,
     ca_status ''ECA_BADSYNCGRP'' ERROR 44
       ''Invalid synchronous group identifier'' False,
     ca_status ''ECA_PUTCBINPROG'' ERROR 45
       ''Put callback timed out'' False,
     ca_status ''ECA_NORDACCESS'' WARNING 46
       ''Read access denied'' False,
     ca_status ''ECA_NOWTACCESS'' WARNING 47
       ''Write access denied'' False,
     ca_status ''ECA_ANACHRONISM'' ERROR 48
       ''Requested feature is no longer supported'' False,
     ca_status ''ECA_NOSEARCHADDR'' WARNING 49
       ''Empty PV search address list'' False,
     ca_status ''ECA_NOCONVERT'' WARNING 50
       ''No reasonable data conversion between client and server types'' False,
     ca_status ''ECA_BADCHID'' ERROR 51
       ''Invalid channel identifier'' False,
     ca_status ''ECA_BADFUNCPTR'' ERROR 52
       ''Invalid function pointer'' False,
     ca_status ''ECA_ISATTACHED'' WARNING 53
       ''Thread is already attached to a client context'' False,
     ca_status ''ECA_UNAVAILINSERV'' WARNING 54
       ''Not supported by attached service'' False,
     ca_status ''ECA_CHANDESTROY'' WARNING 55
       ''User destroyed channel'' False,
     ca_status ''ECA_BADPRIORITY'' ERROR 56
       ''Invalid channel priority'' False,
     ca_status ''ECA_NOTTHREADED'' ERROR 57
       ''Preemptive callback not enabled - additional threads may not join context'' False,
     ca_status ''ECA_16KARRAYCLIENT'' WARNING 58
       (''Client'' @ [CHR 0xE2, CHR 0x80, CHR 0x99] @ ''s protocol revision does not support transfers exceeding 16k bytes'') False,
     ca_status ''ECA_CONNSEQTMO'' WARNING 59
       ''Virtual circuit connection sequence aborted'' False,
     ca_status ''ECA_UNRESPTMO'' WARNING 60
       ''Virtual circuit unresponsive'' False
   ]"

definition eca_value_to_status :: "(int, CAStatusCode) dict" where
  "eca_value_to_status = dict_of (map (\<lambda>m. (st_code_with_severity m, m)) CAStatus)"

text \<open>
  The argument of \<^verbatim>\<open>ensure_eca_value\<close>: an integer, a \<^verbatim>\<open>CAStatusCode\<close>, a member of \<^verbatim>\<open>CAStatus\<close>
  (whose \<^verbatim>\<open>value\<close> is a code), or something else, for which the function returns \<^verbatim>\<open>None\<close>.
\<close>

datatype status_arg = Status_int int | Status_code CAStatusCode | Status_member CAStatusCode | Status_other

fun ensure_eca_value :: "status_arg \<Rightarrow> int option" where
  "ensure_eca_value (Status_int i) = Some i"
| "ensure_eca_value (Status_code c) = Some (st_code_with_severity c)"
| "ensure_eca_value (Status_member m) = Some (st_code_with_severity m)"
| "ensure_eca_value Status_other = None"

text \<open>The \<^verbatim>\<open>status\<close> property of a response: \<^verbatim>\<open>eca_value_to_status[...]\<close>.\<close>

definition status_of_value :: "int \<Rightarrow> CAStatusCode result" where
  "status_of_value v = getitem eca_value_to_status v"

text \<open>The enumeration \<^verbatim>\<open>ECA\<close> that \<^verbatim>\<open>caproto/_dbr.py\<close> keeps beside the table.\<close>

definition ECA :: "(string \<times> int) list" where
  "ECA = [(''NORMAL'', 1), (''TIMEOUT'', 80), (''IODONE'', 339), (''ISATTACHED'', 424), (''BADCHID'', 410)]"

section \<open>Lemmas\<close>

lemma ca_status_assertion: "(severity_value sev AND 7) = severity_value sev"
  by (cases sev) simp_all

lemma severity_value_inject: "severity_value a = severity_value b \<longleftrightarrow> a = b"
  by (cases a; cases b) simp_all

lemma severity_value_range: "0 \<le> severity_value sev \<and> severity_value sev < 8"
  by (cases sev) simp_all

text \<open>The members, unfolded once: the code and severity each packed value carries.\<close>

lemma CAStatus_distinct: "distinct (map st_code_with_severity CAStatus)"
  by code_simp

lemma CAStatus_unpack:
  "list_all (\<lambda>m. st_code_with_severity m div 8 = st_code m
      \<and> st_code_with_severity m mod 8 = severity_value (st_severity m)
      \<and> (st_success m = 1 \<longleftrightarrow> st_severity m \<in> {SUCCESS, INFO})) CAStatus"
  by code_simp

lemma eca_lookup: "m \<in> set CAStatus \<Longrightarrow> dget eca_value_to_status (st_code_with_severity m) = Some m"
proof -
  assume "m \<in> set CAStatus"
  moreover have "distinct (map fst (rev (map (\<lambda>m. (st_code_with_severity m, m)) CAStatus)))"
    using CAStatus_distinct by (simp add: comp_def flip: rev_map)
  ultimately show ?thesis
    by (auto simp: eca_value_to_status_def dget_dict_of map_of_eq_Some_iff)
qed

section \<open>Properties\<close>

text \<open>
  Every member of \<^verbatim>\<open>CAStatus\<close> survives the trip through the wire value: the status code put in
  a response header by \<^verbatim>\<open>ensure_eca_value\<close> is looked up by the \<^verbatim>\<open>status\<close> property as the same member,
  and the value is the base code shifted over the three severity bits.
\<close>

theorem status_roundtrip:
  assumes "m \<in> set CAStatus"
  shows "\<exists>v. ensure_eca_value (Status_member m) = Some v \<and> status_of_value v = Inr m
           \<and> v = 8 * st_code m + severity_value (st_severity m)"
proof -
  have "st_code_with_severity m div 8 = st_code m \<and>
        st_code_with_severity m mod 8 = severity_value (st_severity m)"
    using CAStatus_unpack assms by (simp add: list_all_iff)
  then have "st_code_with_severity m = 8 * st_code m + severity_value (st_severity m)"
    by (metis mult_div_mod_eq)
  with eca_lookup [OF assms] show ?thesis
    by (simp add: status_of_value_def getitem_def)
qed

theorem status_roundtrip_witness:
  "\<exists>v. ensure_eca_value (Status_member (hd CAStatus)) = Some v \<and> status_of_value v = Inr (hd CAStatus)
     \<and> v = 8 * st_code (hd CAStatus) + severity_value (st_severity (hd CAStatus))"
proof -
  have "hd CAStatus \<in> set CAStatus" by (simp add: CAStatus_def)
  then show ?thesis by (rule status_roundtrip)
qed

text \<open>
  The constants of the \<^verbatim>\<open>ECA\<close> enumeration agree with the \<^verbatim>\<open>CAStatus\<close> table: each is the packed
  value of the member of that name.
\<close>

theorem ECA_agrees:
  "map (\<lambda>(n, v). map_option st_name (dget eca_value_to_status v)) ECA
     = map (\<lambda>(n, v). Some (''ECA_'' @ n)) ECA"
  unfolding eca_value_to_status_def dget_dict_of by code_simp

end
