(* ===== verification/CA_Commands.thy ===== *)
theory CA_Commands
  imports CA_Headers CA_Dbr CA_Status
begin

text \<open>
  The command classes of \<^verbatim>\<open>caproto/_commands.py\<close>: the class registry filled by
  \<^verbatim>\<open>Message.__init_subclass__\<close>, the \<^verbatim>\<open>Message\<close> object (its class, header, payload buffers and sender),
  the payload helpers, one constructor per command, validation and serialisation. A payload buffer is its
  byte content, so \<^verbatim>\<open>bytelen\<close> is its length. A Python string is the list of its code points.
\<close>

section \<open>Roles, directions and the class registry\<close>

datatype Role = CLIENT | SERVER

datatype Direction = RESPONSE | REQUEST

datatype command_class =
    VersionRequest | VersionResponse | SearchRequest | SearchResponse | NotFoundResponse
  | EchoRequest | EchoResponse | Beacon | RepeaterConfirmResponse | RepeaterRegisterRequest
  | EventAddRequest | EventAddResponse | EventCancelRequest | EventCancelResponse
  | ReadRequest | ReadResponse | WriteRequest | EventsOffRequest | EventsOnRequest
  | ReadSyncRequest | ErrorResponse | ClearChannelRequest | ClearChannelResponse
  | ReadNotifyRequest | ReadNotifyResponse | CreateChanRequest | CreateChanResponse
  | WriteNotifyRequest | WriteNotifyResponse | ClientNameRequest | HostNameRequest
  | AccessRightsResponse | CreateChFailResponse | ServerDisconnResponse

text \<open>The classes in the order of the module, which is the order they register in.\<close>

definition all_classes :: "command_class list" where
  "all_classes =
     [VersionRequest, VersionResponse, SearchRequest, SearchResponse, NotFoundResponse,
      EchoRequest, EchoResponse, Beacon, RepeaterConfirmResponse, RepeaterRegisterRequest,
      EventAddRequest, EventAddResponse, EventCancelRequest, EventCancelResponse,
      ReadRequest, ReadResponse, WriteRequest, EventsOffRequest, EventsOnRequest,
      ReadSyncRequest, ErrorResponse, ClearChannelRequest, ClearChannelResponse,
      ReadNotifyRequest, ReadNotifyResponse, CreateChanRequest, CreateChanResponse,
      WriteNotifyRequest, WriteNotifyResponse, ClientNameRequest, HostNameRequest,
      AccessRightsResponse, CreateChFailResponse, ServerDisconnResponse]"

fun class_name :: "command_class \<Rightarrow> string" where
  "class_name VersionRequest = ''VersionRequest''"
| "class_name VersionResponse = ''VersionResponse''"
| "class_name SearchRequest = ''SearchRequest''"
| "class_name SearchResponse = ''SearchResponse''"
| "class_name NotFoundResponse = ''NotFoundResponse''"
| "class_name EchoRequest = ''EchoRequest''"
| "class_name EchoResponse = ''EchoResponse''"
| "class_name Beacon = ''Beacon''"
| "class_name RepeaterConfirmResponse = ''RepeaterConfirmResponse''"
| "class_name RepeaterRegisterRequest = ''RepeaterRegisterRequest''"
| "class_name EventAddRequest = ''EventAddRequest''"
| "class_name EventAddResponse = ''EventAddResponse''"
| "class_name EventCancelRequest = ''EventCancelRequest''"
| "class_name EventCancelResponse = ''EventCancelResponse''"
| "class_name ReadRequest = ''ReadRequest''"
| "class_name ReadResponse = ''ReadResponse''"
| "class_name WriteRequest = ''WriteRequest''"
| "class_name EventsOffRequest = ''EventsOffRequest''"
| "class_name EventsOnRequest = ''EventsOnRequest''"
| "class_name ReadSyncRequest = ''ReadSyncRequest''"
| "class_name ErrorResponse = ''ErrorResponse''"
| "class_name ClearChannelRequest = ''ClearChannelRequest''"
| "class_name ClearChannelResponse = ''ClearChannelResponse''"
| "class_name ReadNotifyRequest = ''ReadNotifyRequest''"
| "class_name ReadNotifyResponse = ''ReadNotifyResponse''"
| "class_name CreateChanRequest = ''CreateChanRequest''"
| "class_name CreateChanResponse = ''CreateChanResponse''"
| "class_name WriteNotifyRequest = ''WriteNotifyRequest''"
| "class_name WriteNotifyResponse = ''WriteNotifyResponse''"
| "class_name ClientNameRequest = ''ClientNameRequest''"
| "class_name HostNameRequest = ''HostNameRequest''"
| "class_name AccessRightsResponse = ''AccessRightsResponse''"
| "class_name CreateChFailResponse = ''CreateChFailResponse''"
| "class_name ServerDisconnResponse = ''ServerDisconnResponse''"

text \<open>The class attribute \<^verbatim>\<open>ID\<close>.\<close>

fun class_ID :: "command_class \<Rightarrow> int" where
  "class_ID VersionRequest = 0"
| "class_ID VersionResponse = 0"
| "class_ID SearchRequest = 6"
| "class_ID SearchResponse = 6"
| "class_ID NotFoundResponse = 14"
| "class_ID EchoRequest = 23"
| "class_ID EchoResponse = 23"
| "class_ID Beacon = 13"
| "class_ID RepeaterConfirmResponse = 17"
| "class_ID RepeaterRegisterRequest = 24"
| "class_ID EventAddRequest = 1"
| "class_ID EventAddResponse = 1"
| "class_ID EventCancelRequest = 2"
| "class_ID EventCancelResponse = 2"
| "class_ID ReadRequest = 3"
| "class_ID ReadResponse = 3"
| "class_ID WriteRequest = 4"
| "class_ID EventsOffRequest = 8"
| "class_ID EventsOnRequest = 9"
| "class_ID ReadSyncRequest = 10"
| "class_ID ErrorResponse = 11"
| "class_ID ClearChannelRequest = 12"
| "class_ID ClearChannelResponse = 12"
| "class_ID ReadNotifyRequest = 15"
| "class_ID ReadNotifyResponse = 15"
| "class_ID CreateChanRequest = 18"
| "class_ID CreateChanResponse = 18"
| "class_ID WriteNotifyRequest = 19"
| "class_ID WriteNotifyResponse = 19"
| "class_ID ClientNameRequest = 20"
| "class_ID HostNameRequest = 21"
| "class_ID AccessRightsResponse = 22"
| "class_ID CreateChFailResponse = 26"
| "class_ID ServerDisconnResponse = 27"

definition HAS_PAYLOAD :: "command_class \<Rightarrow> bool" where
  "HAS_PAYLOAD c \<longleftrightarrow> c \<in> {SearchRequest, SearchResponse, EventAddRequest, EventAddResponse, ReadResponse,
     WriteRequest, ErrorResponse, ReadNotifyResponse, CreateChanRequest, WriteNotifyRequest,
     ClientNameRequest, HostNameRequest}"

text \<open>\<^verbatim>\<open>s.endswith(t)\<close> and \<^verbatim>\<open>t in s\<close> for strings.\<close>

definition ends_with :: "'a list \<Rightarrow> 'a list \<Rightarrow> bool" where
  "ends_with s t \<longleftrightarrow> length t \<le> length s \<and> drop (length s - length t) s = t"

definition str_in :: "'a list \<Rightarrow> 'a list \<Rightarrow> bool" where
  "str_in t s \<longleftrightarrow> list_ex (\<lambda>i. take (length t) (drop i s) = t) [0..<Suc (length s)]"

definition DIRECTION :: "command_class \<Rightarrow> Direction" where
  "DIRECTION c = (if ends_with (class_name c) ''Request'' then REQUEST else RESPONSE)"

text \<open>
  \<^verbatim>\<open>Message.__init_subclass__\<close>. The pair holds \<^verbatim>\<open>Commands[CLIENT]\<close> and \<^verbatim>\<open>Commands[SERVER]\<close>. The second
  test is a substring test, as in the source: \<^verbatim>\<open>('Beacon, ')\<close> is a string, not a tuple.
\<close>

definition init_subclass ::
  "command_class \<Rightarrow> (int, command_class) dict \<times> (int, command_class) dict
     \<Rightarrow> (int, command_class) dict \<times> (int, command_class) dict" where
  "init_subclass c reg =
     (let (client, server) = reg;
          (client, server) =
             (if ends_with (class_name c) ''Request'' then (dset (class_ID c) c client, server)
              else (client, dset (class_ID c) c server))
      in if str_in (class_name c) ''Beacon, '' then (dset (class_ID c) c client, dset (class_ID c) c server)
         else (client, server))"

definition Commands :: "Role \<Rightarrow> (int, command_class) dict" where
  "Commands role =
     (let reg = fold init_subclass all_classes ([], [])
      in case role of CLIENT \<Rightarrow> fst reg | SERVER \<Rightarrow> snd reg)"

section \<open>Strings, padding and payloads\<close>

type_synonym pystr = "nat list"
type_synonym address = "string \<times> int"

datatype text_arg = Str pystr | Bytes bytes | Other

text \<open>\<^verbatim>\<open>str.encode()\<close>: UTF-8, with \<^verbatim>\<open>UnicodeEncodeError\<close> (a \<^verbatim>\<open>ValueError\<close>) for a lone surrogate.\<close>

definition utf8_char :: "nat \<Rightarrow> bytes result" where
  "utf8_char c =
     (if c < 0x80 then Inr [word_of_nat c]
      else if c < 0x800 then Inr [word_of_nat (0xC0 + c div 0x40), word_of_nat (0x80 + c mod 0x40)]
      else if 0xD800 \<le> c \<and> c < 0xE000 then Inl ValueError
      else if c < 0x10000 then
        Inr [word_of_nat (0xE0 + c div 0x1000), word_of_nat (0x80 + c div 0x40 mod 0x40),
             word_of_nat (0x80 + c mod 0x40)]
      else if c < 0x110000 then
        Inr [word_of_nat (0xF0 + c div 0x40000), word_of_nat (0x80 + c div 0x1000 mod 0x40),
             word_of_nat (0x80 + c div 0x40 mod 0x40), word_of_nat (0x80 + c mod 0x40)]
      else Inl ValueError)"

primrec utf8_encode :: "pystr \<Rightarrow> bytes result" where
  "utf8_encode [] = Inr []"
| "utf8_encode (c # cs) = bindE (utf8_char c) (\<lambda>b. bindE (utf8_encode cs) (\<lambda>bs. Inr (b @ bs)))"

text \<open>\<^verbatim>\<open>bytes.decode('latin-1')\<close>, the default \<^verbatim>\<open>STR_ENC\<close>.\<close>

definition latin1_decode :: "bytes \<Rightarrow> pystr" where
  "latin1_decode bs = map unat bs"

text \<open>\<^verbatim>\<open>_utils.ensure_bytes\<close>.\<close>

fun ensure_bytes :: "text_arg \<Rightarrow> bytes result" where
  "ensure_bytes (Bytes s) = Inr s"
| "ensure_bytes (Str s) = bindE (utf8_encode s) (\<lambda>b. Inr (b @ [0]))"
| "ensure_bytes Other = Inl CaprotoTypeError"

definition padded_len :: "'a list \<Rightarrow> nat" where
  "padded_len s = 8 * ((length s + 7) div 8)"

definition pad_buffer :: "nat \<Rightarrow> bytes" where
  "pad_buffer mod_sz = (if mod_sz = 0 then [] else replicate (8 - mod_sz) 0)"

definition pad_buffers :: "bytes list \<Rightarrow> nat \<times> bytes" where
  "pad_buffers buffers =
     (let unpadded_size = sum_list (map length buffers);
          pad = pad_buffer (unpadded_size mod 8)
      in (unpadded_size + length pad, pad))"

definition padded_string_payload :: "text_arg \<Rightarrow> (nat \<times> bytes) result" where
  "padded_string_payload payload =
     bindE (ensure_bytes payload) (\<lambda>byte_payload.
       let padded_size = padded_len byte_payload
       in Inr (padded_size, ljust0 padded_size byte_payload))"

text \<open>
  The \<^verbatim>\<open>metadata\<close> argument: a DBR structure, bytes, nothing, an iterable (whose entries are strings or
  other values), or something else. \<open>mk_dbr\<close> stands for the \<^verbatim>\<open>ctypes\<close> call \<^verbatim>\<open>DBR_TYPES[data_type](*values)\<close>.
\<close>

datatype 'm md_item = Md_str pystr | Md_val 'm

datatype 'm md_arg = Md_dbr bytes | Md_bytes bytes | Md_none | Md_iter "'m md_item list" | Md_other

text \<open>
  The loop over the entries: a string of more than forty characters raises, and any other string reaches
  \<^verbatim>\<open>val.ljust(MAX_STRING_SIZE, b'\x00')\<close>, which Python refuses with \<^verbatim>\<open>TypeError\<close> (the fill character of
  a \<^verbatim>\<open>str\<close> must be a \<^verbatim>\<open>str\<close>).
\<close>

fun justify_md :: "'m md_item list \<Rightarrow> 'm list result" where
  "justify_md [] = Inr []"
| "justify_md (Md_str s # rest) =
     (if length s > MAX_STRING_SIZE then Inl CaprotoValueError else Inl TypeError)"
| "justify_md (Md_val v # rest) = bindE (justify_md rest) (\<lambda>vs. Inr (v # vs))"

fun parse_metadata ::
  "(ChannelType \<Rightarrow> 'm list \<Rightarrow> bytes result) \<Rightarrow> 'm md_arg \<Rightarrow> ChannelType \<Rightarrow> bytes result" where
  "parse_metadata mk_dbr (Md_dbr b) data_type = Inr b"
| "parse_metadata mk_dbr (Md_bytes b) data_type = Inr b"
| "parse_metadata mk_dbr Md_none data_type = Inr []"
| "parse_metadata mk_dbr (Md_iter items) data_type = bindE (justify_md items) (mk_dbr data_type)"
| "parse_metadata mk_dbr Md_other data_type = Inl CaprotoTypeError"

text \<open>
  The \<^verbatim>\<open>data\<close> argument: bytes, an iterable handed to the selected backend, nothing, or something else.
  \<open>to_epics\<close> stands for \<^verbatim>\<open>backend.python_to_epics(dtype, data, byteswap=True)\<close>, the function of the
  backend registered at run time.
\<close>

datatype 'v data_arg = Data_bytes bytes | Data_iter 'v | Data_none | Data_other

definition data_payload ::
  "(ChannelType \<Rightarrow> 'v \<Rightarrow> bytes result) \<Rightarrow> (ChannelType \<Rightarrow> 'm list \<Rightarrow> bytes result)
     \<Rightarrow> 'v data_arg \<Rightarrow> 'm md_arg \<Rightarrow> int \<Rightarrow> int \<Rightarrow> (nat \<times> bytes list) result" where
  "data_payload to_epics mk_dbr data metadata data_type data_count =
     bindE (ChannelType_of_int data_type) (\<lambda>dt.
     bindE (case data of
              Data_bytes b \<Rightarrow> Inr b
            | Data_iter v \<Rightarrow> bindE (native_type dt) (\<lambda>nt. to_epics nt v)
            | Data_none \<Rightarrow> Inr []
            | Data_other \<Rightarrow> Inl CaprotoTypeError) (\<lambda>payload.
     bindE (parse_metadata mk_dbr metadata dt) (\<lambda>md_payload.
       let (size, pad_payload) = pad_buffers [md_payload, payload]
       in if pad_payload \<noteq> [] then Inr (size, [md_payload, payload, pad_payload])
          else Inr (size, [md_payload, payload]))))"

section \<open>Messages\<close>

record message =
  msg_class :: command_class
  msg_header :: header
  msg_buffers :: "bytes list"
  msg_sender :: "address option"

text \<open>\<^verbatim>\<open>Message.validate\<close> and the overriding methods of \<^verbatim>\<open>VersionRequest\<close> and \<^verbatim>\<open>EventCancelResponse\<close>.\<close>

definition validate_default :: "message \<Rightarrow> unit result" where
  "validate_default m =
     (let size = sum_list (map length (msg_buffers m));
          payload_size = h_payload_size (msg_header m)
      in if msg_buffers m = [] \<and> payload_size \<noteq> 0 then Inl ValidationError
         else if payload_size \<noteq> int size then Inl ValidationError
         else if h_command (msg_header m) \<noteq> class_ID (msg_class m) then Inl ValidationError
         else Inr ())"

definition validate_VersionRequest :: "message \<Rightarrow> unit result" where
  "validate_VersionRequest m =
     (let priority = h_data_type (msg_header m)
      in if 0 \<le> priority \<and> priority < 100 then Inr () else Inl ValidationError)"

definition validate_EventCancelResponse :: "message \<Rightarrow> unit result" where
  "validate_EventCancelResponse m =
     (if h_command (msg_header m) \<noteq> 1 then Inl ValidationError
      else if list_ex (\<lambda>buf. length buf \<noteq> 0) (msg_buffers m) then Inl ValidationError
      else Inr ())"

definition validate :: "message \<Rightarrow> unit result" where
  "validate m =
     (case msg_class m of
        VersionRequest \<Rightarrow> validate_VersionRequest m
      | EventCancelResponse \<Rightarrow> validate_EventCancelResponse m
      | _ \<Rightarrow> validate_default m)"

text \<open>\<^verbatim>\<open>Message.__init__\<close> (with \<^verbatim>\<open>validate=True\<close>) and \<^verbatim>\<open>Message.from_components\<close> (which does not validate).\<close>

definition from_components :: "command_class \<Rightarrow> header \<Rightarrow> bytes list \<Rightarrow> address option \<Rightarrow> message" where
  "from_components cls header buffers sender_address =
     \<lparr>msg_class = cls, msg_header = header, msg_buffers = buffers, msg_sender = sender_address\<rparr>"

definition Message_init :: "command_class \<Rightarrow> header \<Rightarrow> bytes list \<Rightarrow> message result" where
  "Message_init cls header buffers =
     (let m = from_components cls header buffers None in bindE (validate m) (\<lambda>_. Inr m))"

text \<open>\<^verbatim>\<open>Message.__bytes__\<close> and \<^verbatim>\<open>Message.__len__\<close>.\<close>

definition message_bytes :: "message \<Rightarrow> bytes" where
  "message_bytes m =
     (let raw_bytes = concat (msg_buffers m);
          trimmed_bytes = take (nat (h_payload_size (msg_header m))) raw_bytes
      in header_bytes (msg_header m) @ ljust0 (padded_len trimmed_bytes) trimmed_bytes)"

definition message_len :: "message \<Rightarrow> nat" where
  "message_len m = sizeof_header (msg_header m) + sum_list (map length (msg_buffers m))"

text \<open>
  The attributes of the command classes that the circuit reads. Each is a header field; which one depends
  on the class where the classes differ.
\<close>

definition msg_cid :: "message \<Rightarrow> int" where
  "msg_cid m =
     (if msg_class m \<in> {ClearChannelRequest, ClearChannelResponse, SearchResponse}
      then h_parameter2 (msg_header m) else h_parameter1 (msg_header m))"

definition msg_sid :: "message \<Rightarrow> int" where
  "msg_sid m =
     (if msg_class m = CreateChanResponse then h_parameter2 (msg_header m)
      else h_parameter1 (msg_header m))"

definition msg_ioid :: "message \<Rightarrow> int" where
  "msg_ioid m = h_parameter2 (msg_header m)"

definition msg_subscriptionid :: "message \<Rightarrow> int" where
  "msg_subscriptionid m = h_parameter2 (msg_header m)"

definition msg_data_type :: "message \<Rightarrow> ChannelType result" where
  "msg_data_type m = ChannelType_of_int (h_data_type (msg_header m))"

definition msg_data_count :: "message \<Rightarrow> int" where
  "msg_data_count m = h_data_count (msg_header m)"

definition msg_payload_size :: "message \<Rightarrow> int" where
  "msg_payload_size m = h_payload_size (msg_header m)"

definition msg_priority :: "message \<Rightarrow> int" where
  "msg_priority m = h_data_type (msg_header m)"

text \<open>\<^verbatim>\<open>version\<close> of the version messages, \<^verbatim>\<open>SearchRequest\<close> and \<^verbatim>\<open>NotFoundResponse\<close>.\<close>

definition msg_version :: "message \<Rightarrow> int" where
  "msg_version m = h_data_count (msg_header m)"

definition msg_access_rights :: "message \<Rightarrow> int" where
  "msg_access_rights m = h_parameter2 (msg_header m)"

text \<open>
  \<^verbatim>\<open>name\<close> of \<^verbatim>\<open>SearchRequest\<close>, \<^verbatim>\<open>CreateChanRequest\<close>, \<^verbatim>\<open>ClientNameRequest\<close> and \<^verbatim>\<open>HostNameRequest\<close>:
  \<^verbatim>\<open>bytes(self.buffers[1]).rstrip(b'\x00').decode(STR_ENC)\<close>.
\<close>

definition msg_name :: "message \<Rightarrow> pystr result" where
  "msg_name m =
     (if 1 < length (msg_buffers m) then Inr (latin1_decode (rstrip0 (msg_buffers m ! 1)))
      else Inl IndexError)"

end
