(* ===== verification/CA_Constructors.thy ===== *)
theory CA_Constructors
  imports CA_Commands
begin

text \<open>
  The constructor (\<^verbatim>\<open>__init__\<close>) of every command class of \<^verbatim>\<open>caproto/_commands.py\<close>, the IPv4 text
  conversions they use and the payload structure of \<^verbatim>\<open>EventAddRequest\<close>. Each constructor returns the
  message or the exception it raises. Single-precision floats are their IEEE-754 bit patterns.
\<close>

section \<open>IPv4 addresses\<close>

text \<open>
  \<^verbatim>\<open>socket.inet_pton(AF_INET, ip)\<close>: exactly four dot-separated decimal numbers of one to three digits,
  at most 255 and without superfluous leading zeros; anything else raises \<^verbatim>\<open>OSError\<close>.
\<close>

fun split_on :: "'a \<Rightarrow> 'a list \<Rightarrow> 'a list list" where
  "split_on d [] = [[]]"
| "split_on d (c # cs) =
     (if c = d then [] # split_on d cs
      else case split_on d cs of [] \<Rightarrow> [[c]] | w # ws \<Rightarrow> (c # w) # ws)"

definition is_digit :: "char \<Rightarrow> bool" where
  "is_digit c \<longleftrightarrow> 48 \<le> (of_char c :: nat) \<and> (of_char c :: nat) \<le> 57"

definition digits_value :: "string \<Rightarrow> nat" where
  "digits_value s = foldl (\<lambda>a c. 10 * a + (of_char c - 48)) 0 s"

definition parse_octet :: "string \<Rightarrow> byte result" where
  "parse_octet s =
     (if s \<noteq> [] \<and> length s \<le> 3 \<and> list_all is_digit s \<and> (length s = 1 \<or> hd s \<noteq> CHR ''0'')
         \<and> digits_value s \<le> 255
      then Inr (word_of_nat (digits_value s)) else Inl OSError)"

definition inet_pton :: "string \<Rightarrow> bytes result" where
  "inet_pton ip =
     (case split_on (CHR ''.'') ip of
        [a, b, c, d] \<Rightarrow>
          bindE (parse_octet a) (\<lambda>a. bindE (parse_octet b) (\<lambda>b.
          bindE (parse_octet c) (\<lambda>c. bindE (parse_octet d) (\<lambda>d. Inr [a, b, c, d]))))
      | _ \<Rightarrow> Inl OSError)"

definition digit_char :: "nat \<Rightarrow> char" where
  "digit_char d = char_of (48 + d)"

definition show_octet :: "nat \<Rightarrow> string" where
  "show_octet n =
     (if n < 10 then [digit_char n]
      else if n < 100 then [digit_char (n div 10), digit_char (n mod 10)]
      else [digit_char (n div 100), digit_char (n div 10 mod 10), digit_char (n mod 10)])"

definition inet_ntop :: "bytes \<Rightarrow> string" where
  "inet_ntop bs =
     (case map (\<lambda>b. show_octet (unat b)) bs of
        [] \<Rightarrow> [] | w # ws \<Rightarrow> w @ concat (map (\<lambda>w. CHR ''.'' # w) ws))"

definition ipv4_to_int32 :: "string \<Rightarrow> int result" where
  "ipv4_to_int32 ip = bindE (inet_pton ip) (\<lambda>encoded_ip. Inr (uint (un_be32 encoded_ip)))"

definition ipv4_from_int32 :: "int \<Rightarrow> string" where
  "ipv4_from_int32 int_packed_ip = inet_ntop (be32 (word_of_int int_packed_ip))"

section \<open>The payload of EventAddRequest\<close>

record EventAddRequestPayload =
  ea_low :: "32 word"
  ea_high :: "32 word"
  ea_to :: "32 word"
  ea_mask :: "16 word"
  ea_padding :: "16 word"

definition EventAddRequestPayload_init :: "32 word \<Rightarrow> 32 word \<Rightarrow> 32 word \<Rightarrow> int \<Rightarrow> EventAddRequestPayload" where
  "EventAddRequestPayload_init low high to msk =
     \<lparr>ea_low = low, ea_high = high, ea_to = to, ea_mask = word_of_int msk, ea_padding = 0\<rparr>"

definition ea_bytes :: "EventAddRequestPayload \<Rightarrow> bytes" where
  "ea_bytes p = be32 (ea_low p) @ be32 (ea_high p) @ be32 (ea_to p) @ be16 (ea_mask p) @ be16 (ea_padding p)"

definition ea_of_bytes :: "bytes \<Rightarrow> EventAddRequestPayload" where
  "ea_of_bytes bs =
     \<lparr>ea_low = un_be32 (slice 0 4 bs), ea_high = un_be32 (slice 4 8 bs), ea_to = un_be32 (slice 8 12 bs),
      ea_mask = un_be16 (slice 12 14 bs), ea_padding = un_be16 (slice 14 16 bs)\<rparr>"

section \<open>Constructors\<close>

definition DO_REPLY :: int where "DO_REPLY = 10"

definition NO_REPLY :: int where "NO_REPLY = 5"

definition MAX_RECORD_LENGTH :: nat where "MAX_RECORD_LENGTH = 59"

text \<open>A status that \<^verbatim>\<open>ensure_eca_value\<close> does not recognise is \<^verbatim>\<open>None\<close>, which the header field refuses.\<close>

definition eca_value :: "status_arg \<Rightarrow> int result" where
  "eca_value status = (case ensure_eca_value status of None \<Rightarrow> Inl TypeError | Some v \<Rightarrow> Inr v)"

definition VersionRequest_init :: "int \<Rightarrow> int \<Rightarrow> message result" where
  "VersionRequest_init priority version =
     Message_init VersionRequest (VersionRequestHeader priority version) []"

definition VersionResponse_init :: "int \<Rightarrow> message result" where
  "VersionResponse_init version = Message_init VersionResponse (VersionResponseHeader version) []"

definition SearchRequest_init :: "text_arg \<Rightarrow> int \<Rightarrow> int \<Rightarrow> int \<Rightarrow> message result" where
  "SearchRequest_init name cid version reply =
     bindE (padded_string_payload name) (\<lambda>(size, payload).
       case name of
         Str s \<Rightarrow>
           (if length (takeWhile (\<lambda>c. c \<noteq> 46) s) > MAX_RECORD_LENGTH then Inl CaprotoValueError
            else Message_init SearchRequest (SearchRequestHeader (int size) reply version cid) [[], payload])
       | Bytes _ \<Rightarrow> Inl TypeError
       | Other \<Rightarrow> Inl AttributeError)"

definition SearchResponse_init :: "int \<Rightarrow> string option \<Rightarrow> int \<Rightarrow> int \<Rightarrow> message result" where
  "SearchResponse_init port ip cid version =
     bindE (ipv4_to_int32 (case ip of None \<Rightarrow> ''255.255.255.255'' | Some a \<Rightarrow> a)) (\<lambda>sid.
       Message_init SearchResponse (SearchResponseHeader port sid cid)
         [ljust0 8 (be16 (word_of_int version))])"

definition NotFoundResponse_init :: "int \<Rightarrow> int \<Rightarrow> message result" where
  "NotFoundResponse_init version cid =
     Message_init NotFoundResponse (NotFoundResponseHeader DO_REPLY version cid) []"

definition EchoRequest_init :: "message result" where
  "EchoRequest_init = Message_init EchoRequest EchoRequestHeader []"

definition EchoResponse_init :: "message result" where
  "EchoResponse_init = Message_init EchoResponse EchoResponseHeader []"

definition Beacon_init :: "int \<Rightarrow> int \<Rightarrow> int \<Rightarrow> string \<Rightarrow> message result" where
  "Beacon_init version server_port beacon_id address =
     bindE (ipv4_to_int32 address) (\<lambda>a.
       Message_init Beacon (BeaconHeader version server_port beacon_id a) [])"

definition RepeaterConfirmResponse_init :: "string \<Rightarrow> message result" where
  "RepeaterConfirmResponse_init repeater_address =
     bindE (ipv4_to_int32 repeater_address) (\<lambda>a.
       Message_init RepeaterConfirmResponse (RepeaterConfirmResponseHeader a) [])"

definition RepeaterRegisterRequest_init :: "string \<Rightarrow> message result" where
  "RepeaterRegisterRequest_init client_address =
     bindE (ipv4_to_int32 client_address) (\<lambda>a.
       Message_init RepeaterRegisterRequest (RepeaterRegisterRequestHeader a) [])"

definition EventAddRequest_init ::
  "int \<Rightarrow> int \<Rightarrow> int \<Rightarrow> int \<Rightarrow> 32 word \<Rightarrow> 32 word \<Rightarrow> 32 word \<Rightarrow> int \<Rightarrow> message result" where
  "EventAddRequest_init data_type data_count sid subscriptionid low high to msk =
     bindE (ChannelType_of_int data_type) (\<lambda>dt.
       Message_init EventAddRequest (EventAddRequestHeader (ct_value dt) data_count sid subscriptionid)
         [ea_bytes (EventAddRequestPayload_init low high to msk)])"

definition EventAddResponse_init ::
  "(ChannelType \<Rightarrow> 'v \<Rightarrow> bytes result) \<Rightarrow> (ChannelType \<Rightarrow> 'm list \<Rightarrow> bytes result) \<Rightarrow> 'v data_arg \<Rightarrow> int
     \<Rightarrow> int \<Rightarrow> status_arg \<Rightarrow> int \<Rightarrow> 'm md_arg \<Rightarrow> message result" where
  "EventAddResponse_init to_epics mk_dbr data data_type data_count status subscriptionid metadata =
     bindE (data_payload to_epics mk_dbr data metadata data_type data_count) (\<lambda>(size, buffers).
     bindE (eca_value status) (\<lambda>st.
       Message_init EventAddResponse
         (EventAddResponseHeader (int size) data_type data_count st subscriptionid) buffers))"

definition EventCancelRequest_init :: "int \<Rightarrow> int \<Rightarrow> int \<Rightarrow> message result" where
  "EventCancelRequest_init data_type sid subscriptionid =
     bindE (ChannelType_of_int data_type) (\<lambda>dt.
       Message_init EventCancelRequest (EventCancelRequestHeader (ct_value dt) 0 sid subscriptionid) [])"

definition EventCancelResponse_init :: "int \<Rightarrow> int \<Rightarrow> int \<Rightarrow> int \<Rightarrow> message result" where
  "EventCancelResponse_init data_type sid subscriptionid data_count =
     bindE (ChannelType_of_int data_type) (\<lambda>dt.
       Message_init EventCancelResponse
         (EventCancelResponseHeader (ct_value dt) data_count sid subscriptionid) [])"

text \<open>\<^verbatim>\<open>ReadRequest\<close> passes \<^verbatim>\<open>validate=False\<close>.\<close>

definition ReadRequest_init :: "int \<Rightarrow> int \<Rightarrow> int \<Rightarrow> int \<Rightarrow> message result" where
  "ReadRequest_init data_type data_count sid ioid =
     bindE (ChannelType_of_int data_type) (\<lambda>dt.
       Inr (from_components ReadRequest (ReadRequestHeader (ct_value dt) data_count sid ioid) [] None))"

definition ReadResponse_init ::
  "(ChannelType \<Rightarrow> 'v \<Rightarrow> bytes result) \<Rightarrow> (ChannelType \<Rightarrow> 'm list \<Rightarrow> bytes result) \<Rightarrow> 'v data_arg \<Rightarrow> int
     \<Rightarrow> int \<Rightarrow> int \<Rightarrow> int \<Rightarrow> 'm md_arg \<Rightarrow> message result" where
  "ReadResponse_init to_epics mk_dbr data data_type data_count sid ioid metadata =
     bindE (data_payload to_epics mk_dbr data metadata data_type data_count) (\<lambda>(size, buffers).
       Message_init ReadResponse (ReadResponseHeader (int size) data_type data_count sid ioid) buffers)"

definition WriteRequest_init ::
  "(ChannelType \<Rightarrow> 'v \<Rightarrow> bytes result) \<Rightarrow> (ChannelType \<Rightarrow> 'm list \<Rightarrow> bytes result) \<Rightarrow> 'v data_arg \<Rightarrow> int
     \<Rightarrow> int \<Rightarrow> int \<Rightarrow> int \<Rightarrow> 'm md_arg \<Rightarrow> message result" where
  "WriteRequest_init to_epics mk_dbr data data_type data_count sid ioid metadata =
     bindE (data_payload to_epics mk_dbr data metadata data_type data_count) (\<lambda>(size, buffers).
       Message_init WriteRequest (WriteRequestHeader (int size) data_type data_count sid ioid) buffers)"

definition EventsOffRequest_init :: "message result" where
  "EventsOffRequest_init = Message_init EventsOffRequest EventsOffRequestHeader []"

definition EventsOnRequest_init :: "message result" where
  "EventsOnRequest_init = Message_init EventsOnRequest EventsOnRequestHeader []"

definition ReadSyncRequest_init :: "message result" where
  "ReadSyncRequest_init = Message_init ReadSyncRequest ReadSyncRequestHeader []"

definition ErrorResponse_init :: "message \<Rightarrow> int \<Rightarrow> status_arg \<Rightarrow> text_arg \<Rightarrow> message result" where
  "ErrorResponse_init original_request cid status error_message =
     bindE (padded_string_payload error_message) (\<lambda>(msg_size, msg_payload).
       let req_bytes = header_bytes (msg_header original_request);
           size = length req_bytes + msg_size
       in bindE (eca_value status) (\<lambda>st.
            Message_init ErrorResponse (ErrorResponseHeader (int size) cid st) [[], req_bytes @ msg_payload]))"

definition ClearChannelRequest_init :: "int \<Rightarrow> int \<Rightarrow> message result" where
  "ClearChannelRequest_init sid cid =
     Message_init ClearChannelRequest (ClearChannelRequestHeader sid cid) []"

definition ClearChannelResponse_init :: "int \<Rightarrow> int \<Rightarrow> message result" where
  "ClearChannelResponse_init sid cid =
     Message_init ClearChannelResponse (ClearChannelResponseHeader sid cid) []"

definition ReadNotifyRequest_init :: "int \<Rightarrow> int \<Rightarrow> int \<Rightarrow> int \<Rightarrow> message result" where
  "ReadNotifyRequest_init data_type data_count sid ioid =
     bindE (ChannelType_of_int data_type) (\<lambda>dt.
       Message_init ReadNotifyRequest (ReadNotifyRequestHeader (ct_value dt) data_count sid ioid) [])"

definition ReadNotifyResponse_init ::
  "(ChannelType \<Rightarrow> 'v \<Rightarrow> bytes result) \<Rightarrow> (ChannelType \<Rightarrow> 'm list \<Rightarrow> bytes result) \<Rightarrow> 'v data_arg \<Rightarrow> int
     \<Rightarrow> int \<Rightarrow> status_arg \<Rightarrow> int \<Rightarrow> 'm md_arg \<Rightarrow> message result" where
  "ReadNotifyResponse_init to_epics mk_dbr data data_type data_count status ioid metadata =
     bindE (data_payload to_epics mk_dbr data metadata data_type data_count) (\<lambda>(size, buffers).
     bindE (eca_value status) (\<lambda>st.
       Message_init ReadNotifyResponse
         (ReadNotifyResponseHeader (int size) data_type data_count st ioid) buffers))"

definition CreateChanRequest_init :: "text_arg \<Rightarrow> int \<Rightarrow> int \<Rightarrow> message result" where
  "CreateChanRequest_init name cid version =
     bindE (padded_string_payload name) (\<lambda>(size, payload).
       Message_init CreateChanRequest (CreateChanRequestHeader (int size) cid version) [[], payload])"

definition CreateChanResponse_init :: "int \<Rightarrow> int \<Rightarrow> int \<Rightarrow> int \<Rightarrow> message result" where
  "CreateChanResponse_init data_type data_count cid sid =
     bindE (ChannelType_of_int data_type) (\<lambda>dt.
       Message_init CreateChanResponse (CreateChanResponseHeader (ct_value dt) data_count cid sid) [])"

definition WriteNotifyRequest_init ::
  "(ChannelType \<Rightarrow> 'v \<Rightarrow> bytes result) \<Rightarrow> (ChannelType \<Rightarrow> 'm list \<Rightarrow> bytes result) \<Rightarrow> 'v data_arg \<Rightarrow> int
     \<Rightarrow> int \<Rightarrow> int \<Rightarrow> int \<Rightarrow> 'm md_arg \<Rightarrow> message result" where
  "WriteNotifyRequest_init to_epics mk_dbr data data_type data_count sid ioid metadata =
     bindE (data_payload to_epics mk_dbr data metadata data_type data_count) (\<lambda>(size, buffers).
       Message_init WriteNotifyRequest
         (WriteNotifyRequestHeader (int size) data_type data_count sid ioid) buffers)"

definition WriteNotifyResponse_init :: "int \<Rightarrow> int \<Rightarrow> status_arg \<Rightarrow> int \<Rightarrow> message result" where
  "WriteNotifyResponse_init data_type data_count status ioid =
     bindE (ChannelType_of_int data_type) (\<lambda>dt.
     bindE (eca_value status) (\<lambda>st.
       Message_init WriteNotifyResponse (WriteNotifyResponseHeader (ct_value dt) data_count st ioid) []))"

definition ClientNameRequest_init :: "text_arg \<Rightarrow> message result" where
  "ClientNameRequest_init name =
     bindE (padded_string_payload name) (\<lambda>(size, payload).
       Message_init ClientNameRequest (ClientNameRequestHeader (int size)) [[], payload])"

definition HostNameRequest_init :: "text_arg \<Rightarrow> message result" where
  "HostNameRequest_init name =
     bindE (padded_string_payload name) (\<lambda>(size, payload).
       Message_init HostNameRequest (HostNameRequestHeader (int size)) [[], payload])"

definition AccessRightsResponse_init :: "int \<Rightarrow> int \<Rightarrow> message result" where
  "AccessRightsResponse_init cid access_rights =
     Message_init AccessRightsResponse (AccessRightsResponseHeader cid access_rights) []"

definition CreateChFailResponse_init :: "int \<Rightarrow> message result" where
  "CreateChFailResponse_init cid = Message_init CreateChFailResponse (CreateChFailResponseHeader cid) []"

definition ServerDisconnResponse_init :: "int \<Rightarrow> message result" where
  "ServerDisconnResponse_init cid = Message_init ServerDisconnResponse (ServerDisconnResponseHeader cid) []"

section \<open>Attributes that decode header fields or buffers\<close>

definition SearchResponse_ip :: "message \<Rightarrow> string" where
  "SearchResponse_ip m = ipv4_from_int32 (h_parameter1 (msg_header m))"

definition SearchResponse_port :: "message \<Rightarrow> int" where
  "SearchResponse_port m = h_data_type (msg_header m)"

text \<open>\<^verbatim>\<open>DBR_INT.from_buffer(bytearray(self.buffers[0])[:2]).value\<close>, a signed 16-bit integer.\<close>

definition SearchResponse_version :: "message \<Rightarrow> int result" where
  "SearchResponse_version m =
     (case msg_buffers m of
        [] \<Rightarrow> Inl IndexError
      | b # _ \<Rightarrow> if length b < 2 then Inl ValueError else Inr (sint (un_be16 (take 2 b))))"

text \<open>\<^verbatim>\<open>address\<close> of \<^verbatim>\<open>Beacon\<close>, \<^verbatim>\<open>repeater_address\<close> and \<^verbatim>\<open>client_address\<close> of the repeater commands.\<close>

definition header_address :: "message \<Rightarrow> string" where
  "header_address m = ipv4_from_int32 (h_parameter2 (msg_header m))"

definition ErrorResponse_error_message :: "message \<Rightarrow> bytes result" where
  "ErrorResponse_error_message m =
     (if 1 < length (msg_buffers m) then Inr (drop 16 (msg_buffers m ! 1)) else Inl IndexError)"

definition ErrorResponse_original_request :: "message \<Rightarrow> header result" where
  "ErrorResponse_original_request m =
     (if 1 < length (msg_buffers m) then MessageHeader_from_buffer (take 16 (msg_buffers m ! 1))
      else Inl IndexError)"

definition payload_struct :: "message \<Rightarrow> EventAddRequestPayload result" where
  "payload_struct m =
     (case msg_buffers m of
        [] \<Rightarrow> Inl IndexError
      | b # _ \<Rightarrow> if length b < 16 then Inl ValueError else Inr (ea_of_bytes (take 16 b)))"

section \<open>Lemmas on splitting\<close>

lemma split_on_word: "d \<notin> set w \<Longrightarrow> split_on d w = [w]"
  by (induction w) auto

lemma split_on_cons: "d \<notin> set w \<Longrightarrow> split_on d (w @ d # s) = w # split_on d s"
  by (induction w) auto

end
