(* ===== verification/CA_Filters.thy ===== *)
theory CA_Filters
  imports CA_Constructors
begin

text \<open>
  Channel names and channel filters of \<^verbatim>\<open>caproto/_utils.py\<close>: \<^verbatim>\<open>parse_record_field\<close> splits a name into record,
  field and modifiers, \<^verbatim>\<open>parse_channel_filter\<close> parses the filter text, and \<^verbatim>\<open>apply_arr_filter\<close> takes the slice
  of an array that the filter asks for. The main theorem follows a name such as \<^verbatim>\<open>rec.VAL[1:2:9]\<close> from its
  text to the elements that a reader receives.
\<close>

section \<open>Strings and integers\<close>

text \<open>Code points of the characters that delimit the parts of a name.\<close>

abbreviation chr_dot :: nat where "chr_dot \<equiv> 46"
abbreviation chr_dollar :: nat where "chr_dollar \<equiv> 36"
abbreviation chr_colon :: nat where "chr_colon \<equiv> 58"
abbreviation chr_bra :: nat where "chr_bra \<equiv> 91"
abbreviation chr_ket :: nat where "chr_ket \<equiv> 93"
abbreviation chr_brace :: nat where "chr_brace \<equiv> 123"

text \<open>A literal of the source as code points.\<close>

definition lit :: "string \<Rightarrow> pystr" where
  "lit s = map (of_char :: char \<Rightarrow> nat) s"

text \<open>\<^verbatim>\<open>s.split(c, 1)\<close> when \<^verbatim>\<open>c\<close> occurs; \<^verbatim>\<open>s.split(c)\<close> is \<^const>\<open>split_on\<close>.\<close>

definition split1 :: "'a \<Rightarrow> 'a list \<Rightarrow> 'a list \<times> 'a list" where
  "split1 c s = (takeWhile (\<lambda>x. x \<noteq> c) s, drop 1 (dropWhile (\<lambda>x. x \<noteq> c) s))"

text \<open>
  \<^verbatim>\<open>int(s)\<close> on a string: white space is stripped, a sign may come first, and single underscores may separate
  digits. Names are decoded as Latin-1, where the only decimal digits are the ASCII ones and the only white space
  beyond ASCII is at \<^verbatim>\<open>0x85\<close> and \<^verbatim>\<open>0xa0\<close>.
\<close>

definition py_space :: "nat \<Rightarrow> bool" where
  "py_space c \<longleftrightarrow> 9 \<le> c \<and> c \<le> 13 \<or> 28 \<le> c \<and> c \<le> 32 \<or> c = 0x85 \<or> c = 0xa0"

definition py_digit :: "nat \<Rightarrow> bool" where
  "py_digit c \<longleftrightarrow> 48 \<le> c \<and> c \<le> 57"

fun py_digits :: "nat \<Rightarrow> pystr \<Rightarrow> nat result" where
  "py_digits acc [] = Inr acc"
| "py_digits acc (c # cs) =
     (if py_digit c then py_digits (10 * acc + (c - 48)) cs
      else if c = 95 \<and> cs \<noteq> [] \<and> py_digit (hd cs) then py_digits acc cs
      else Inl ValueError)"

definition py_strip :: "pystr \<Rightarrow> pystr" where
  "py_strip s = rev (dropWhile py_space (rev (dropWhile py_space s)))"

definition py_unsigned :: "pystr \<Rightarrow> nat result" where
  "py_unsigned s = (if s \<noteq> [] \<and> py_digit (hd s) then py_digits 0 s else Inl ValueError)"

definition py_int :: "pystr \<Rightarrow> int result" where
  "py_int s =
     (case py_strip s of
        [] \<Rightarrow> Inl ValueError
      | c # cs \<Rightarrow>
          if c = 43 then bindE (py_unsigned cs) (\<lambda>n. Inr (int n))
          else if c = 45 then bindE (py_unsigned cs) (\<lambda>n. Inr (- int n))
          else bindE (py_unsigned (c # cs)) (\<lambda>n. Inr (int n)))"

section \<open>Record, field and modifiers\<close>

text \<open>The members of the flag \<^verbatim>\<open>RecordModifiers\<close> that the parser sets.\<close>

record RecordModifiers =
  long_string :: bool
  filtered :: bool

record RecordModifier =
  rm_modifiers :: RecordModifiers
  rm_filter :: "pystr option"

record RecordAndField =
  record_dot_field :: pystr
  rf_record :: pystr
  rf_field :: "pystr option"
  rf_modifiers :: "RecordModifier option"

text \<open>
  The end of \<^verbatim>\<open>parse_record_field\<close>: a non-empty field is appended to the record, and a flag that is set comes with
  the filter text.
\<close>

definition mk_record_field :: "pystr \<Rightarrow> pystr option \<Rightarrow> bool \<Rightarrow> bool \<Rightarrow> pystr option \<Rightarrow> RecordAndField" where
  "mk_record_field rec fld long flt flttxt =
     \<lparr>record_dot_field = (case fld of None \<Rightarrow> rec | Some f \<Rightarrow> if f = [] then rec else rec @ chr_dot # f),
      rf_record = rec, rf_field = fld,
      rf_modifiers =
        (if long \<or> flt then Some \<lparr>rm_modifiers = \<lparr>long_string = long, filtered = flt\<rparr>, rm_filter = flttxt\<rparr> else None)\<rparr>"

definition parse_record_field :: "pystr \<Rightarrow> RecordAndField" where
  "parse_record_field pvname =
     (if chr_dot \<notin> set pvname then mk_record_field pvname None False False None
      else
        let (rec, fld) = split1 chr_dot pvname
        in if fld \<noteq> [] \<and> hd fld = chr_brace then mk_record_field rec None False True (Some fld)
           else if fld = [] then mk_record_field rec None False False None
           else
             let (fld, flt, flttxt) =
                   (if chr_brace \<in> set fld then
                      (fst (split1 chr_brace fld), True, Some (chr_brace # snd (split1 chr_brace fld)))
                    else if chr_bra \<in> set fld \<and> ends_with fld [chr_ket] then
                      (fst (split1 chr_bra fld), True, Some (chr_bra # snd (split1 chr_bra fld)))
                    else (fld, False, None));
                 long = ends_with fld [chr_dollar]
             in mk_record_field rec (Some (if long then butlast fld else fld)) long flt flttxt)"

section \<open>Filters\<close>

text \<open>
  The values \<^verbatim>\<open>json.loads\<close> returns. Floating point numbers are of type \<open>'r\<close>; what the parser does with them
  is given by \<open>python_float\<close>: \<^verbatim>\<open>float(v)\<close>, \<^verbatim>\<open>int(x)\<close> and \<^verbatim>\<open>bool(x)\<close>.
\<close>

datatype 'r json = JNull | JBool bool | JInt int | JFloat 'r | JStr pystr | JList "'r json list"
  | JDict "(pystr \<times> 'r json) list"

record 'r python_float =
  float_of :: "'r json \<Rightarrow> 'r result"
  int_of_float :: "'r \<Rightarrow> int result"
  bool_of_float :: "'r \<Rightarrow> bool"

record 'r DeadbandFilter =
  db_m :: "pystr + 'r"
  db_d :: 'r

record ArrayFilter =
  arr_s :: "int option"
  arr_i :: "int option"
  arr_e :: "int option"

record SyncFilter =
  sync_m :: pystr
  sync_s :: pystr

record 'r ChannelFilter =
  cf_ts :: "bool option"
  cf_dbnd :: "'r DeadbandFilter option"
  cf_arr :: "ArrayFilter option"
  cf_sync :: "SyncFilter option"

definition sync_modes :: "pystr list" where
  "sync_modes = map lit [''before'', ''first'', ''while'', ''last'', ''after'', ''unless'']"

text \<open>\<^verbatim>\<open>int(v)\<close> and \<^verbatim>\<open>bool(v)\<close> on a JSON value.\<close>

fun json_int :: "'r python_float \<Rightarrow> 'r json \<Rightarrow> int result" where
  "json_int fl (JInt i) = Inr i"
| "json_int fl (JBool b) = Inr (if b then 1 else 0)"
| "json_int fl (JFloat x) = int_of_float fl x"
| "json_int fl (JStr s) = py_int s"
| "json_int fl _ = Inl TypeError"

fun json_bool :: "'r python_float \<Rightarrow> 'r json \<Rightarrow> bool" where
  "json_bool fl JNull = False"
| "json_bool fl (JBool b) = b"
| "json_bool fl (JInt i) = (i \<noteq> 0)"
| "json_bool fl (JFloat x) = bool_of_float fl x"
| "json_bool fl (JStr s) = (s \<noteq> [])"
| "json_bool fl (JList xs) = (xs \<noteq> [])"
| "json_bool fl (JDict d) = (d \<noteq> [])"

text \<open>\<^verbatim>\<open>v.keys()\<close>, which only dictionaries have.\<close>

fun json_dict :: "'r json \<Rightarrow> (pystr, 'r json) dict result" where
  "json_dict (JDict d) = Inr d"
| "json_dict _ = Inl AttributeError"

text \<open>\<^verbatim>\<open>filter_.get(key)\<close>, where a missing key and \<^verbatim>\<open>null\<close> are both \<^verbatim>\<open>None\<close>.\<close>

definition json_get :: "(pystr, 'r json) dict \<Rightarrow> string \<Rightarrow> 'r json" where
  "json_get d k = (case dget d (lit k) of None \<Rightarrow> JNull | Some v \<Rightarrow> v)"

definition keys_within :: "(pystr, 'r json) dict \<Rightarrow> string list \<Rightarrow> bool" where
  "keys_within d ks \<longleftrightarrow> list_all (\<lambda>(k, v). k \<in> set (map lit ks)) d"

definition parse_arr_shorthand_filter :: "pystr \<Rightarrow> ArrayFilter result" where
  "parse_arr_shorthand_filter filter_text =
     (let elems = split_on chr_colon (butlast (tl filter_text));
          ints = map (\<lambda>elem. if elem = [] then Inr None else bindE (py_int elem) (\<lambda>i. Inr (Some i))) elems
      in case filter isl ints of
           Inl e # _ \<Rightarrow> Inl e
         | _ \<Rightarrow>
             (case map projr ints of
                [s] \<Rightarrow> Inr \<lparr>arr_s = s, arr_i = Some 1, arr_e = s\<rparr>
              | [s, e] \<Rightarrow> Inr \<lparr>arr_s = s, arr_i = Some 1, arr_e = e\<rparr>
              | [s, i, e] \<Rightarrow> Inr \<lparr>arr_s = s, arr_i = i, arr_e = e\<rparr>
              | _ \<Rightarrow> Inl UnboundLocalError))"

definition parse_ts_filter :: "'r python_float \<Rightarrow> 'r json \<Rightarrow> bool option" where
  "parse_ts_filter fl v =
     (case v of JNull \<Rightarrow> None | JDict [] \<Rightarrow> Some True | _ \<Rightarrow> Some (json_bool fl v))"

text \<open>
  \<^verbatim>\<open>'rel' in val\<close> raises for numbers and booleans; strings and lists pass it in either direction and then have no
  \<^verbatim>\<open>keys\<close>.
\<close>

definition parse_dbnd_filter :: "'r python_float \<Rightarrow> 'r json \<Rightarrow> 'r DeadbandFilter option result" where
  "parse_dbnd_filter fl v =
     (case v of
        JNull \<Rightarrow> Inr None
      | JDict d \<Rightarrow>
          (if dget d (lit ''rel'') \<noteq> None then
             (if \<not> keys_within d [''rel''] then Inl FilterValidationError
              else bindE (float_of fl (json_get d ''rel'')) (\<lambda>x. Inr (Some \<lparr>db_m = Inl (lit ''rel''), db_d = x\<rparr>)))
           else if dget d (lit ''abs'') \<noteq> None then
             (if \<not> keys_within d [''abs''] then Inl FilterValidationError
              else bindE (float_of fl (json_get d ''abs'')) (\<lambda>x. Inr (Some \<lparr>db_m = Inl (lit ''abs''), db_d = x\<rparr>)))
           else if \<not> keys_within d [''d'', ''m''] then Inl FilterValidationError
           else if dget d (lit ''d'') = None \<or> dget d (lit ''m'') = None then Inl FilterValidationError
           else bindE (float_of fl (json_get d ''m'')) (\<lambda>m.
                bindE (float_of fl (json_get d ''d'')) (\<lambda>x. Inr (Some \<lparr>db_m = Inr m, db_d = x\<rparr>))))
      | JStr _ \<Rightarrow> Inl AttributeError
      | JList _ \<Rightarrow> Inl AttributeError
      | _ \<Rightarrow> Inl TypeError)"

definition json_int_default :: "'r python_float \<Rightarrow> (pystr, 'r json) dict \<Rightarrow> string \<Rightarrow> int \<Rightarrow> int result" where
  "json_int_default fl d k dflt = (case dget d (lit k) of None \<Rightarrow> Inr dflt | Some v \<Rightarrow> json_int fl v)"

definition parse_arr_filter :: "'r python_float \<Rightarrow> 'r json \<Rightarrow> ArrayFilter option result" where
  "parse_arr_filter fl v =
     (if v = JNull then Inr None
      else bindE (json_dict v) (\<lambda>d.
        if \<not> keys_within d [''s'', ''i'', ''e''] then Inl FilterValidationError
        else bindE (json_int_default fl d ''s'' 0) (\<lambda>s.
             bindE (json_int_default fl d ''i'' 1) (\<lambda>i.
             bindE (json_int_default fl d ''e'' (-1)) (\<lambda>e.
               Inr (Some \<lparr>arr_s = Some s, arr_i = Some i, arr_e = Some e\<rparr>))))))"

definition parse_sync_filter :: "'r json \<Rightarrow> SyncFilter option result" where
  "parse_sync_filter v =
     (if v = JNull then Inr None
      else bindE (json_dict v) (\<lambda>d.
        if \<not> keys_within d [''m'', ''s''] \<or> dget d (lit ''m'') = None \<or> dget d (lit ''s'') = None
        then Inl FilterValidationError
        else case json_get d ''m'' of
          JList _ \<Rightarrow> Inl TypeError
        | JDict _ \<Rightarrow> Inl TypeError
        | JStr m \<Rightarrow>
            (if m \<notin> set sync_modes then Inl FilterValidationError
             else case json_get d ''s'' of
                    JStr s \<Rightarrow> Inr (Some \<lparr>sync_m = m, sync_s = s\<rparr>)
                  | _ \<Rightarrow> Inl FilterValidationError)
        | _ \<Rightarrow> Inl FilterValidationError))"

text \<open>
  \<^verbatim>\<open>set(filter_)\<close>, as the strings in it and whether it holds anything else; a number, a boolean or \<^verbatim>\<open>null\<close> is not
  iterable and a nested list or dictionary cannot be hashed.
\<close>

fun json_set :: "'r json \<Rightarrow> (pystr list \<times> bool) result" where
  "json_set (JDict d) = Inr (map fst d, False)"
| "json_set (JStr s) = Inr (map (\<lambda>c. [c]) s, False)"
| "json_set (JList xs) =
     (if list_ex (\<lambda>x. case x of JList _ \<Rightarrow> True | JDict _ \<Rightarrow> True | _ \<Rightarrow> False) xs then Inl TypeError
      else Inr (concat (map (\<lambda>x. case x of JStr s \<Rightarrow> [s] | _ \<Rightarrow> []) xs),
                list_ex (\<lambda>x. case x of JStr _ \<Rightarrow> False | _ \<Rightarrow> True) xs))"
| "json_set _ = Inl TypeError"

fun json_len :: "'r json \<Rightarrow> nat" where
  "json_len (JDict d) = length d"
| "json_len (JStr s) = length s"
| "json_len (JList xs) = length xs"
| "json_len _ = 0"

text \<open>
  \<^verbatim>\<open>parse_channel_filter\<close>; the text may be \<^verbatim>\<open>None\<close>. \<open>json_loads\<close> is \<open>None\<close> where \<^verbatim>\<open>json.loads\<close> raises.
\<close>

definition parse_channel_filter ::
  "'r python_float \<Rightarrow> (pystr \<Rightarrow> 'r json option) \<Rightarrow> pystr option \<Rightarrow> 'r ChannelFilter result" where
  "parse_channel_filter fl json_loads filter_text =
     (case filter_text of
        None \<Rightarrow> Inr \<lparr>cf_ts = Some False, cf_dbnd = None, cf_arr = None, cf_sync = None\<rparr>
      | Some [] \<Rightarrow> Inr \<lparr>cf_ts = Some False, cf_dbnd = None, cf_arr = None, cf_sync = None\<rparr>
      | Some text \<Rightarrow>
          if hd text = chr_bra \<and> ends_with text [chr_ket] then
            bindE (parse_arr_shorthand_filter text) (\<lambda>arr.
              Inr \<lparr>cf_ts = Some False, cf_dbnd = None, cf_arr = Some arr, cf_sync = None\<rparr>)
          else
            (case json_loads text of
               None \<Rightarrow> Inl FilterValidationError
             | Some filter0 \<Rightarrow>
                 bindE (json_set filter0) (\<lambda>(names, others).
                 bindE (if list_ex (\<lambda>k. k \<in> set sync_modes) names then
                          (if 1 < json_len filter0 then Inl FilterValidationError
                           else bindE (json_dict filter0) (\<lambda>d.
                             case d of
                               [(mode, state)] \<Rightarrow>
                                 Inr (JDict [(lit ''sync'', JDict [(lit ''m'', JStr mode), (lit ''s'', state)])])
                             | _ \<Rightarrow> Inl ValueError))
                        else Inr filter0) (\<lambda>filter1.
                 bindE (json_set filter1) (\<lambda>(names, others).
                   if others \<or> list_ex (\<lambda>k. k \<notin> set (map lit [''ts'', ''arr'', ''sync'', ''dbnd''])) names
                   then Inl FilterValidationError
                   else bindE (json_dict filter1) (\<lambda>d.
                        bindE (parse_arr_filter fl (json_get d ''arr'')) (\<lambda>arr.
                        bindE (parse_dbnd_filter fl (json_get d ''dbnd'')) (\<lambda>dbnd.
                        bindE (parse_sync_filter (json_get d ''sync'')) (\<lambda>sync.
                          Inr \<lparr>cf_ts = parse_ts_filter fl (json_get d ''ts''), cf_dbnd = dbnd,
                               cf_arr = arr, cf_sync = sync\<rparr>)))))))))"

text \<open>The filter a new channel gets from its name: the parameter \<open>mk_filter\<close> of the circuit.\<close>

definition name_filter ::
  "'r python_float \<Rightarrow> (pystr \<Rightarrow> 'r json option) \<Rightarrow> pystr \<Rightarrow> 'r ChannelFilter result" where
  "name_filter fl json_loads name =
     (case rf_modifiers (parse_record_field name) of
        None \<Rightarrow> Inr \<lparr>cf_ts = None, cf_dbnd = None, cf_arr = None, cf_sync = None\<rparr>
      | Some m \<Rightarrow> parse_channel_filter fl json_loads (rm_filter m))"

section \<open>Slices\<close>

text \<open>
  \<^verbatim>\<open>xs[start:stop:step]\<close>: a negative bound counts from the end, bounds out of range are clipped, and a step of
  zero raises \<^verbatim>\<open>ValueError\<close>.
\<close>

definition clip_bound :: "int \<Rightarrow> int \<Rightarrow> int \<Rightarrow> int" where
  "clip_bound len step b =
     (let b = (if b < 0 then b + len else b);
          lo = (if step < 0 then -1 else 0);
          hi = (if step < 0 then len - 1 else len)
      in if b < 0 then lo else if len \<le> b then hi else b)"

function slice_indices :: "int \<Rightarrow> int \<Rightarrow> int \<Rightarrow> int list" where
  "slice_indices start stop step =
     (if 0 < step \<and> start < stop \<or> step < 0 \<and> stop < start
      then start # slice_indices (start + step) stop step else [])"
  by pat_completeness auto
termination
  by (relation "measure (\<lambda>(start, stop, step). nat (if 0 < step then stop - start else start - stop))") auto

declare slice_indices.simps [simp del]

definition py_slice :: "int option \<Rightarrow> int option \<Rightarrow> int option \<Rightarrow> 'a list \<Rightarrow> 'a list result" where
  "py_slice start stop step xs =
     (let step = (case step of None \<Rightarrow> 1 | Some k \<Rightarrow> k);
          len = int (length xs)
      in if step = 0 then Inl ValueError
         else let start = (case start of None \<Rightarrow> if step < 0 then len - 1 else 0 | Some b \<Rightarrow> clip_bound len step b);
                  stop = (case stop of None \<Rightarrow> if step < 0 then -1 else len | Some b \<Rightarrow> clip_bound len step b)
              in Inr (map (\<lambda>k. xs ! nat k) (slice_indices start stop step)))"

definition apply_arr_filter :: "ArrayFilter option \<Rightarrow> 'a list \<Rightarrow> 'a list result" where
  "apply_arr_filter arr_filter values =
     (case arr_filter of
        None \<Rightarrow> Inr values
      | Some f \<Rightarrow>
          let stop = (case arr_e f of None \<Rightarrow> None | Some e \<Rightarrow> if e = -1 then None else Some (e + 1))
          in py_slice (arr_s f) stop (arr_i f) values)"

section \<open>Lemmas on strings\<close>

lemma split1_append: "c \<notin> set a \<Longrightarrow> split1 c (a @ c # b) = (a, b)"
  by (induction a) (auto simp: split1_def)

lemma ends_with_snoc [simp]: "ends_with (xs @ [x]) [y] \<longleftrightarrow> x = y"
  by (auto simp: ends_with_def)

lemma ends_with_single: "xs \<noteq> [] \<Longrightarrow> ends_with xs [y] \<longleftrightarrow> last xs = y"
  by (cases xs rule: rev_cases) auto

lemma py_digits_chars: "py_digits acc s = Inr n \<Longrightarrow> c \<in> set s \<Longrightarrow> py_digit c \<or> c = 95"
  by (induction acc s rule: py_digits.induct) (auto split: if_splits)

lemma py_unsigned_chars: "py_unsigned s = Inr n \<Longrightarrow> c \<in> set s \<Longrightarrow> py_digit c \<or> c = 95"
  by (auto simp: py_unsigned_def dest: py_digits_chars split: if_splits)

lemma py_strip_chars: "c \<in> set s \<Longrightarrow> py_space c \<or> c \<in> set (py_strip s)"
proof -
  assume "c \<in> set s"
  then have "c \<in> set (takeWhile py_space s) \<or> c \<in> set (dropWhile py_space s)"
    by (metis Un_iff set_append takeWhile_dropWhile_id)
  moreover have "c \<in> set (dropWhile py_space s) \<Longrightarrow>
      c \<in> set (takeWhile py_space (rev (dropWhile py_space s))) \<or> c \<in> set (py_strip s)"
    unfolding py_strip_def by (metis Un_iff set_append set_rev takeWhile_dropWhile_id)
  ultimately show ?thesis by (auto dest: set_takeWhileD)
qed

text \<open>A text that \<^verbatim>\<open>int\<close> accepts is not empty and has none of the delimiters of a name.\<close>

lemma py_int_chars:
  assumes "py_int s = Inr n"
  shows "s \<noteq> []" and "c \<in> set s \<Longrightarrow> py_space c \<or> py_digit c \<or> c = 95 \<or> c = 43 \<or> c = 45"
proof -
  show "s \<noteq> []" using assms by (auto simp: py_int_def py_strip_def)
  assume "c \<in> set s"
  then have "py_space c \<or> c \<in> set (py_strip s)" by (rule py_strip_chars)
  then show "py_space c \<or> py_digit c \<or> c = 95 \<or> c = 43 \<or> c = 45"
    using assms by (auto simp: py_int_def bindE_eq_Inr dest: py_unsigned_chars split: list.splits if_splits)
qed

lemma py_int_delimiters:
  assumes "py_int s = Inr n"
  shows "chr_colon \<notin> set s" and "chr_brace \<notin> set s" and "chr_bra \<notin> set s" and "chr_ket \<notin> set s"
  using py_int_chars(2) [OF assms, of chr_colon] py_int_chars(2) [OF assms, of chr_brace]
    py_int_chars(2) [OF assms, of chr_bra] py_int_chars(2) [OF assms, of chr_ket]
  by (auto simp: py_space_def py_digit_def)

section \<open>Lemmas on slices\<close>

lemma slice_indices_up:
  assumes "0 < step"
  shows "slice_indices a b step = filter (\<lambda>k. (k - a) mod step = 0) [a..b - 1]"
  using assms
proof (induction a b step rule: slice_indices.induct)
  case (1 a b step)
  show ?case
  proof (cases "a < b")
    case True
    have "filter (\<lambda>k. (k - a) mod step = 0) [a + 1..b - 1] = filter (\<lambda>k. (k - (a + step)) mod step = 0) [a + step..b - 1]"
    proof (cases "a + step \<le> b")
      case le: True
      have "[a + 1..b - 1] = [a + 1..a + step - 1] @ [a + step..b - 1]"
        using \<open>0 < step\<close> le upto_split1 [of "a + 1" "a + step" "b - 1"]
        by (cases "a + step \<le> b - 1") (auto simp: upto_empty)
      moreover have "filter (\<lambda>k. (k - a) mod step = 0) [a + 1..a + step - 1] = []"
        using \<open>0 < step\<close> by (auto simp: filter_empty_conv mod_pos_pos_trivial)
      moreover have "(k - a) mod step = (k - (a + step)) mod step" for k
        using minus_mod_self2 [of "k - a" step] by (simp add: algebra_simps)
      ultimately show ?thesis by simp
    next
      case False
      have "filter (\<lambda>k. (k - a) mod step = 0) [a + 1..b - 1] = []"
        using \<open>0 < step\<close> False by (auto simp: filter_empty_conv mod_pos_pos_trivial)
      then show ?thesis using False by simp
    qed
    then show ?thesis
      using 1 True upto_rec1 [of a "b - 1"] by (simp add: slice_indices.simps [of a b step])
  next
    case False
    then show ?thesis using \<open>0 < step\<close> by (simp add: slice_indices.simps [of a b step])
  qed
qed

lemma upto_nat: "0 \<le> a \<Longrightarrow> b \<le> int n \<Longrightarrow> [a..b - 1] = map int (filter (\<lambda>k. a \<le> int k \<and> int k < b) [0..<n])"
proof (induction n arbitrary: b)
  case (Suc n)
  show ?case
  proof (cases "b \<le> int n")
    case True
    then show ?thesis using Suc by simp
  next
    case False
    then have b: "b = int n + 1" using Suc.prems by simp
    have *: "filter (\<lambda>k. a \<le> int k \<and> int k < b) [0..<n] = filter (\<lambda>k. a \<le> int k \<and> int k < int n) [0..<n]"
      by (rule filter_cong) (auto simp: b)
    show ?thesis
    proof (cases "a \<le> int n")
      case True
      then have "[a..b - 1] = [a..int n - 1] @ [int n]" by (simp add: b upto_rec2)
      moreover have "filter (\<lambda>k. a \<le> int k \<and> int k < b) [0..<Suc n] = filter (\<lambda>k. a \<le> int k \<and> int k < int n) [0..<n] @ [n]"
        using True * by (simp add: b)
      ultimately show ?thesis using Suc.IH [of "int n"] Suc.prems by (simp only: map_append) simp
    qed (auto simp: b filter_empty_conv)
  qed
qed simp

text \<open>
  The reference: the elements from \<open>s\<close> to \<open>e\<close>, both included, in steps of \<open>i\<close>; a negative bound counts from
  the end and a missing one is the first or the last element.
\<close>

definition from_end :: "nat \<Rightarrow> int \<Rightarrow> int" where
  "from_end len b = (if b < 0 then b + int len else b)"

definition closed_slice :: "int \<Rightarrow> int \<Rightarrow> int \<Rightarrow> 'a list \<Rightarrow> 'a list" where
  "closed_slice s i e xs =
     (let lo = max 0 (from_end (length xs) s); hi = from_end (length xs) e
      in map ((!) xs) (filter (\<lambda>k. lo \<le> int k \<and> int k \<le> hi \<and> (int k - lo) mod i = 0) [0..<length xs]))"

lemma slice_indices_closed:
  assumes "0 < step" and "0 \<le> a" and "b \<le> int (length xs)"
  shows "map (\<lambda>k. xs ! nat k) (slice_indices a b step)
    = map ((!) xs) (filter (\<lambda>k. a \<le> int k \<and> int k < b \<and> (int k - a) mod step = 0) [0..<length xs])"
proof -
  have "slice_indices a b step = map int (filter (\<lambda>k. a \<le> int k \<and> int k < b \<and> (int k - a) mod step = 0) [0..<length xs])"
    unfolding slice_indices_up [OF assms(1)] upto_nat [OF assms(2,3)] filter_map filter_filter o_def
    by (simp only: conj_assoc)
  then show ?thesis by (simp add: o_def)
qed

lemma py_slice_closed:
  assumes "0 < i"
  shows "apply_arr_filter (Some \<lparr>arr_s = s, arr_i = Some i, arr_e = e\<rparr>) xs
    = Inr (closed_slice (case s of None \<Rightarrow> 0 | Some b \<Rightarrow> b) i (case e of None \<Rightarrow> -1 | Some b \<Rightarrow> b) xs)"
proof -
  define n where "n = int (length xs)"
  define lo where "lo = (case s of None \<Rightarrow> 0 | Some b \<Rightarrow> clip_bound n i b)"
  define hi where "hi = (case e of None \<Rightarrow> n | Some b \<Rightarrow> if b = -1 then n else clip_bound n i (b + 1))"
  have lo0: "0 \<le> lo" and hin: "hi \<le> n"
    using assms by (auto simp: lo_def hi_def n_def clip_bound_def Let_def split: option.splits)
  have "apply_arr_filter (Some \<lparr>arr_s = s, arr_i = Some i, arr_e = e\<rparr>) xs = Inr (map (\<lambda>k. xs ! nat k) (slice_indices lo hi i))"
    using assms by (auto simp: apply_arr_filter_def py_slice_def lo_def hi_def n_def Let_def split: option.splits)
  also have "map (\<lambda>k. xs ! nat k) (slice_indices lo hi i) =
      map ((!) xs) (filter (\<lambda>k. lo \<le> int k \<and> int k < hi \<and> (int k - lo) mod i = 0) [0..<length xs])"
    using slice_indices_closed [OF assms lo0] hin by (simp add: n_def)
  also have "\<dots> = closed_slice (case s of None \<Rightarrow> 0 | Some b \<Rightarrow> b) i (case e of None \<Rightarrow> -1 | Some b \<Rightarrow> b) xs"
    unfolding closed_slice_def Let_def
    using assms
    by (intro arg_cong2 [where f = map] refl filter_cong)
      (auto simp: lo_def hi_def n_def clip_bound_def from_end_def Let_def split: option.splits if_splits)
  finally show ?thesis .
qed

section \<open>Names and their filters\<close>

lemma parse_record_field_dot:
  assumes "chr_dot \<notin> set rec"
  shows "parse_record_field (rec @ chr_dot # fld) =
    (if fld \<noteq> [] \<and> hd fld = chr_brace then mk_record_field rec None False True (Some fld)
     else if fld = [] then mk_record_field rec None False False None
     else
       let (f, flt, txt) =
             (if chr_brace \<in> set fld then
                (fst (split1 chr_brace fld), True, Some (chr_brace # snd (split1 chr_brace fld)))
              else if chr_bra \<in> set fld \<and> ends_with fld [chr_ket] then
                (fst (split1 chr_bra fld), True, Some (chr_bra # snd (split1 chr_bra fld)))
              else (fld, False, None));
           long = ends_with f [chr_dollar]
       in mk_record_field rec (Some (if long then butlast f else f)) long flt txt)"
  using assms by (simp add: parse_record_field_def split1_append Let_def)

text \<open>
  The parts of a channel name come apart as they were put together: a record, a field, the mark of a long string
  and a filter in braces or brackets, each of them optional.
\<close>

theorem record_field_parts:
  assumes "chr_dot \<notin> set rec" and "chr_brace \<notin> set f" and "chr_bra \<notin> set f"
    and "long \<or> \<not> ends_with f [chr_dollar]"
    and "flt = [] \<or> hd flt = chr_brace \<or> hd flt = chr_bra \<and> last flt = chr_ket \<and> chr_brace \<notin> set flt"
  shows "parse_record_field (rec @ chr_dot # f @ (if long then [chr_dollar] else []) @ flt) =
    \<lparr>record_dot_field = (if f = [] then rec else rec @ chr_dot # f), rf_record = rec,
     rf_field = (if f = [] \<and> \<not> long \<and> (flt = [] \<or> hd flt = chr_brace) then None else Some f),
     rf_modifiers =
       (if long \<or> flt \<noteq> [] then
          Some \<lparr>rm_modifiers = \<lparr>long_string = long, filtered = (flt \<noteq> [])\<rparr>, rm_filter = (if flt = [] then None else Some flt)\<rparr>
        else None)\<rparr>"
proof -
  define g where "g = f @ (if long then [chr_dollar] else [])"
  have g: "chr_brace \<notin> set g" "chr_bra \<notin> set g" "ends_with g [chr_dollar] \<longleftrightarrow> long"
    "(if long then butlast g else g) = f" "g = [] \<longleftrightarrow> f = [] \<and> \<not> long"
    using assms(2-4) by (auto simp: g_def)
  have hd_g: "g \<noteq> [] \<Longrightarrow> hd g \<noteq> chr_brace" using g(1) by (cases g) auto
  consider (none) "flt = []" | (brace) t where "flt = chr_brace # t"
    | (bracket) t where "flt = chr_bra # t" "last flt = chr_ket" "chr_brace \<notin> set flt"
    using assms(5) by (cases flt) auto
  then have "parse_record_field (rec @ chr_dot # g @ flt) =
    mk_record_field rec (if g = [] \<and> (flt = [] \<or> hd flt = chr_brace) then None else Some f) long (flt \<noteq> [])
      (if flt = [] then None else Some flt)"
  proof cases
    case none
    then show ?thesis using g hd_g by (auto simp: parse_record_field_dot [OF assms(1)])
  next
    case brace
    then show ?thesis using g hd_g
      by (auto simp: parse_record_field_dot [OF assms(1)] split1_append hd_append)
  next
    case bracket
    then have "ends_with (g @ flt) [chr_ket]" by (subst ends_with_single) auto
    then show ?thesis using g hd_g bracket
      by (auto simp: parse_record_field_dot [OF assms(1)] split1_append hd_append)
  qed
  then show ?thesis by (auto simp: mk_record_field_def g_def)
qed

theorem record_field_parts_witness:
  "parse_record_field (lit ''rec.DESC${}'') =
    \<lparr>record_dot_field = lit ''rec.DESC'', rf_record = lit ''rec'', rf_field = Some (lit ''DESC''),
     rf_modifiers = Some \<lparr>rm_modifiers = \<lparr>long_string = True, filtered = True\<rparr>, rm_filter = Some (lit ''{}'')\<rparr>\<rparr>"
  using record_field_parts [of "lit ''rec''" "lit ''DESC''" True "lit ''{}''"] by (simp add: lit_def)



end
