(* ===== verification/CA_Wire.thy ===== *)
theory CA_Wire
  imports CA_Constructors
begin

text \<open>
  Parsing: \<^verbatim>\<open>from_buffer\<close>, the \<^verbatim>\<open>from_wire\<close> class methods, \<^verbatim>\<open>read_datagram\<close> (UDP),
  \<^verbatim>\<open>bytes_needed_for_command\<close> and \<^verbatim>\<open>read_from_bytestream\<close> (TCP) of \<^verbatim>\<open>caproto/_commands.py\<close>, and the
  loop of \<^verbatim>\<open>VirtualCircuit.recv\<close> that drains a byte stream. The locale \<open>framing\<close> states what a stream
  parser promises; its lemmas (a stream may be cut anywhere) are interpreted on \<open>read_from_bytestream\<close>.
\<close>

section \<open>Building a message from received bytes\<close>

text \<open>
  \<^verbatim>\<open>native_type\<close> on the integer of a header: members of an \<^verbatim>\<open>IntEnum\<close> hash as their value, so the lookup
  finds the entry of that member, and raises \<^verbatim>\<open>KeyError\<close> when there is none.
\<close>

definition channel_type_key :: "int \<Rightarrow> ChannelType result" where
  "channel_type_key i = (case ChannelType_of_int i of Inl _ \<Rightarrow> Inl KeyError | Inr t \<Rightarrow> Inr t)"

definition has_metadata :: "ChannelType \<Rightarrow> bool" where
  "has_metadata t \<longleftrightarrow> t \<in> set special_types \<or> native_type t \<noteq> Inr t"

definition from_buffer :: "int \<Rightarrow> int \<Rightarrow> bytes \<Rightarrow> bytes list result" where
  "from_buffer data_type data_count buffer =
     bindE (channel_type_key data_type) (\<lambda>t.
     bindE (native_type t) (\<lambda>nt.
     bindE (dbr_sizeof nt) (\<lambda>item_size.
       let payload_size = nat data_count * item_size
       in bindE (if has_metadata t
                 then bindE (dbr_sizeof t) (\<lambda>md_size.
                        if length buffer < md_size then Inl ValueError
                        else Inr (take md_size buffer, md_size))
                 else Inr ([], 0)) (\<lambda>(md_payload, md_size).
            Inr [md_payload, slice md_size (md_size + payload_size) buffer]))))"

definition from_wire :: "command_class \<Rightarrow> header \<Rightarrow> bytes \<Rightarrow> address option \<Rightarrow> message result" where
  "from_wire cls header payload_bytes sender =
     (if \<not> HAS_PAYLOAD cls then Inr (from_components cls header [] None)
      else case cls of
        SearchRequest \<Rightarrow> Inr (from_components cls header [[], payload_bytes] sender)
      | SearchResponse \<Rightarrow> Inr (from_components cls header [payload_bytes] sender)
      | EventAddRequest \<Rightarrow>
          (if length payload_bytes < 16 then Inl ValueError
           else Inr (from_components cls header [take 16 payload_bytes] sender))
      | EventAddResponse \<Rightarrow>
          (if payload_bytes = [] then Inr (from_components cls header [] sender)
           else bindE (from_buffer (h_data_type header) (h_data_count header) payload_bytes)
                  (\<lambda>payload. Inr (from_components cls header payload sender)))
      | ErrorResponse \<Rightarrow> Inr (from_components cls header [[], payload_bytes] sender)
      | CreateChanRequest \<Rightarrow> Inr (from_components cls header [[], payload_bytes] sender)
      | ClientNameRequest \<Rightarrow> Inr (from_components cls header [[], payload_bytes] sender)
      | HostNameRequest \<Rightarrow> Inr (from_components cls header [[], payload_bytes] sender)
      | _ \<Rightarrow> bindE (from_buffer (h_data_type header) (h_data_count header) payload_bytes)
               (\<lambda>payload. Inr (from_components cls header payload sender)))"

section \<open>Datagrams\<close>

text \<open>\<^verbatim>\<open>Commands[role][header.command]\<close> with its \<^verbatim>\<open>KeyError\<close> turned into \<^verbatim>\<open>RemoteProtocolError\<close>.\<close>

definition get_command_class :: "Role \<Rightarrow> header \<Rightarrow> command_class result" where
  "get_command_class role header =
     (case dget (Commands role) (h_command header) of
        None \<Rightarrow> Inl RemoteProtocolError | Some cls \<Rightarrow> Inr cls)"

function read_datagram :: "bytes \<Rightarrow> address \<Rightarrow> Role \<Rightarrow> message list result" where
  "read_datagram barray address role =
     (if barray = [] then Inr []
      else bindE (MessageHeader_from_buffer barray) (\<lambda>header.
           bindE (get_command_class role header) (\<lambda>cls.
             let payload_size = nat (h_payload_size header);
                 payload_bytes = (if HAS_PAYLOAD cls then take payload_size (drop 16 barray) else []);
                 rest = (if HAS_PAYLOAD cls then drop payload_size (drop 16 barray) else drop 16 barray)
             in bindE (from_wire cls header payload_bytes (Some address)) (\<lambda>command.
                bindE (read_datagram rest address role) (\<lambda>commands. Inr (command # commands))))))"
  by pat_completeness auto
termination
  by (relation "measure (\<lambda>(barray, _, _). length barray)")
    (auto simp: MessageHeader_from_buffer_def split: if_splits)

declare read_datagram.simps [simp del]

section \<open>Byte streams\<close>

text \<open>The pair \<^verbatim>\<open>(header, num_bytes_needed)\<close>.\<close>

definition bytes_needed_for_command :: "bytes \<Rightarrow> (header option \<times> nat) result" where
  "bytes_needed_for_command data =
     (if length data < 16 then Inr (None, 16 - length data)
      else bindE (MessageHeader_from_buffer data) (\<lambda>header.
        if h_payload_size header = 0xFFFF \<and> h_data_count header = 0
        then (if length data < 24 then Inr (None, 24 - length data)
              else bindE (ExtendedMessageHeader_from_buffer data) (\<lambda>header.
                     let total_size = 24 + nat (h_payload_size header)
                     in if length data < total_size then Inr (Some header, total_size - length data)
                        else Inr (Some header, 0)))
        else let total_size = 16 + nat (h_payload_size header)
             in if length data < total_size then Inr (Some header, total_size - length data)
                else Inr (Some header, 0)))"

text \<open>
  The triple \<^verbatim>\<open>(remaining_data, command, num_bytes_needed)\<close>; the command is \<open>None\<close> for \<^verbatim>\<open>NEED_DATA\<close>.
  The header is never missing when no byte is needed (\<open>bytes_needed_None\<close>), so the \<open>None\<close> branch of
  the second case is the attribute access on \<^verbatim>\<open>None\<close> that would raise.
\<close>

definition read_from_bytestream :: "bytes \<Rightarrow> Role \<Rightarrow> (bytes \<times> message option \<times> nat) result" where
  "read_from_bytestream data role =
     bindE (bytes_needed_for_command data) (\<lambda>(header, num_bytes_needed).
       if num_bytes_needed > 0 then Inr (data, None, num_bytes_needed)
       else case header of
         None \<Rightarrow> Inl AttributeError
       | Some header \<Rightarrow>
           bindE (get_command_class role header) (\<lambda>cls.
             let header_size = sizeof_header header;
                 total_size = header_size + nat (h_payload_size header);
                 payload_bytes = slice header_size total_size data
             in bindE (from_wire cls header payload_bytes None) (\<lambda>command.
                  Inr (drop total_size data, Some command, 0))))"

lemma bytes_needed_zero:
  assumes "bytes_needed_for_command data = Inr (Some h, 0)"
  shows "sizeof_header h + nat (h_payload_size h) \<le> length data"
  using assms
  by (auto simp: bytes_needed_for_command_def MessageHeader_from_buffer_def
      ExtendedMessageHeader_from_buffer_def Let_def simp del: h_payload_size.simps split: if_splits)

lemma bytes_needed_None: "bytes_needed_for_command data = Inr (None, n) \<Longrightarrow> 0 < n"
  by (auto simp: bytes_needed_for_command_def Let_def bindE_eq_Inr split: if_splits)

lemma sizeof_header_ge: "16 \<le> sizeof_header h"
  by (cases h) simp_all

lemma read_command_shorter:
  assumes "read_from_bytestream data role = Inr (data', Some cmd, n)"
  shows "\<exists>p. p \<noteq> [] \<and> data = p @ data' \<and> n = 0"
proof -
  from assms obtain h where h: "bytes_needed_for_command data = Inr (Some h, 0)"
    and d: "data' = drop (sizeof_header h + nat (h_payload_size h)) data" and n: "n = 0"
    by (auto simp: read_from_bytestream_def Let_def bindE_eq_Inr split: if_splits option.splits)
  let ?t = "sizeof_header h + nat (h_payload_size h)"
  have "?t \<le> length data" "0 < ?t"
    using bytes_needed_zero [OF h] sizeof_header_ge [of h] by auto
  then have "take ?t data \<noteq> [] \<and> data = take ?t data @ data'" using d by auto
  with n show ?thesis by blast
qed

text \<open>The \<^verbatim>\<open>while True\<close> loop of \<^verbatim>\<open>VirtualCircuit.recv\<close>: commands, remaining data, bytes needed or exception.\<close>

function recv_loop :: "Role \<Rightarrow> bytes \<Rightarrow> message list \<times> bytes \<times> nat result" where
  "recv_loop role data =
     (case read_from_bytestream data role of
        Inl e \<Rightarrow> ([], data, Inl e)
      | Inr (data', None, n) \<Rightarrow> ([], data', Inr n)
      | Inr (data', Some command, n) \<Rightarrow>
          (case recv_loop role data' of (commands, rest, r) \<Rightarrow> (command # commands, rest, r)))"
  by pat_completeness auto
termination
  by (relation "measure (\<lambda>(role, data). length data)")
    (auto dest!: read_command_shorter)

declare recv_loop.simps [simp del]

section \<open>Stream parsers\<close>

text \<open>
  A stream parser either asks for more bytes and keeps its buffer, or consumes a nonempty prefix and
  gives a command, or raises; more bytes at the end change neither a command nor an exception.
\<close>

locale framing =
  fixes parse1 :: "bytes \<Rightarrow> (bytes \<times> 'c option \<times> nat) result"
  assumes need_keeps: "parse1 d = Inr (d', None, n) \<Longrightarrow> d' = d \<and> 0 < n"
    and command_prefix: "parse1 d = Inr (d', Some c, n) \<Longrightarrow> \<exists>p. p \<noteq> [] \<and> d = p @ d' \<and> n = 0"
    and command_extend: "parse1 d = Inr (d', Some c, n) \<Longrightarrow> parse1 (d @ e) = Inr (d' @ e, Some c, n)"
    and error_extend: "parse1 d = Inl x \<Longrightarrow> parse1 (d @ e) = Inl x"
    and need_lower: "parse1 d = Inr (d', None, n) \<Longrightarrow> length e < n \<Longrightarrow> \<exists>m. parse1 (d @ e) = Inr (d @ e, None, m)"
begin

lemma parse_decided:
  "(\<exists>d' n. parse1 d = Inr (d', None, n)) \<or> (\<exists>d' c. parse1 d = Inr (d', Some c, 0)) \<or> (\<exists>x. parse1 d = Inl x)"
proof (cases "parse1 d")
  case (Inr t)
  obtain d' c n where t: "t = (d', c, n)" by (cases t)
  show ?thesis
  proof (cases c)
    case None
    with Inr t show ?thesis by blast
  next
    case (Some cmd)
    with Inr t command_prefix show ?thesis by blast
  qed
qed blast

lemma command_unique:
  "parse1 d = Inr (d', Some c, n) \<Longrightarrow> parse1 (d @ e) = Inr (d'', Some c', n') \<Longrightarrow> c' = c \<and> d'' = d' @ e"
  using command_extend by fastforce

end

text \<open>A stream parser with the loop that drains a buffer.\<close>

locale framed_stream = framing parse1 for parse1 :: "bytes \<Rightarrow> (bytes \<times> 'c option \<times> nat) result" +
  fixes drain :: "bytes \<Rightarrow> 'c list \<times> bytes \<times> nat result"
  assumes drain_eq: "drain d =
    (case parse1 d of
       Inl e \<Rightarrow> ([], d, Inl e)
     | Inr (d', None, n) \<Rightarrow> ([], d', Inr n)
     | Inr (d', Some c, n) \<Rightarrow> (case drain d' of (cs, rest, r) \<Rightarrow> (c # cs, rest, r)))"
begin

lemma drain_need: "parse1 d = Inr (d', None, n) \<Longrightarrow> drain d = ([], d, Inr n)"
  using need_keeps by (subst drain_eq) auto

lemma drain_error: "parse1 d = Inl x \<Longrightarrow> drain d = ([], d, Inl x)"
  by (subst drain_eq) simp

lemma drain_command:
  "parse1 d = Inr (d', Some c, n) \<Longrightarrow> drain d = (c # fst (drain d'), fst (snd (drain d')), snd (snd (drain d')))"
  by (subst drain_eq) (simp split: prod.splits)

lemma drain_cases [consumes 0, case_names need error command]:
  fixes d :: bytes
  obtains (need) d' n where "parse1 d = Inr (d', None, n)"
    | (error) x where "parse1 d = Inl x"
    | (command) d' c where "parse1 d = Inr (d', Some c, 0)" "length d' < length d"
proof -
  consider "\<exists>d' n. parse1 d = Inr (d', None, n)" | "\<exists>d' c. parse1 d = Inr (d', Some c, 0)"
    | "\<exists>x. parse1 d = Inl x"
    using parse_decided by blast
  then show thesis
  proof cases
    case 2
    then obtain d' c where p: "parse1 d = Inr (d', Some c, 0)" by blast
    from command_prefix [OF this] have "length d' < length d" by auto
    with p show thesis by (rule command)
  qed (use need error in blast)+
qed

text \<open>Draining in two pieces gives what draining at once gives.\<close>

lemma drain_append:
  "drain (d @ e) =
     (case drain d of
        (cs, rest, Inr n) \<Rightarrow> (case drain (rest @ e) of (cs', rest', r) \<Rightarrow> (cs @ cs', rest', r))
      | (cs, rest, Inl x) \<Rightarrow> (cs, rest @ e, Inl x))"
proof (induction d rule: length_induct)
  case (1 d)
  show ?case
  proof (cases d rule: drain_cases)
    case (need d' n)
    then show ?thesis by (simp add: drain_need split: prod.splits)
  next
    case (error x)
    then show ?thesis using error_extend [OF error, of e] by (simp add: drain_error)
  next
    case (command d' c)
    with 1 have IH: "drain (d' @ e) =
       (case drain d' of
          (cs, rest, Inr n) \<Rightarrow> (case drain (rest @ e) of (cs', rest', r) \<Rightarrow> (cs @ cs', rest', r))
        | (cs, rest, Inl x) \<Rightarrow> (cs, rest @ e, Inl x))"
      by blast
    from command_extend [OF command(1), of e] IH show ?thesis
      by (simp add: drain_command command(1) split: prod.splits sum.splits)
  qed
qed

text \<open>What remains after draining without an exception asks for bytes again.\<close>

lemma drain_rest: "drain d = (cs, rest, Inr n) \<Longrightarrow> parse1 rest = Inr (rest, None, n)"
proof (induction d arbitrary: cs rule: length_induct)
  case (1 d)
  show ?case
  proof (cases d rule: drain_cases)
    case (need d' m)
    with 1(2) need_keeps show ?thesis by (auto simp: drain_need)
  next
    case (error x)
    with 1(2) show ?thesis by (simp add: drain_error)
  next
    case (command d' c)
    with 1(2) have "drain d' = (fst (drain d'), rest, Inr n)"
      by (auto simp: drain_command prod_eq_iff)
    with 1(1) command(2) show ?thesis by blast
  qed
qed

text \<open>Fewer bytes than asked for give no further command.\<close>

lemma drain_starved:
  assumes "drain d = (cs, rest, Inr n)" and "length e < n"
  shows "\<exists>m. drain (d @ e) = (cs, rest @ e, Inr m)"
proof -
  from drain_rest [OF assms(1)] have r: "parse1 rest = Inr (rest, None, n)" .
  from need_lower [OF r assms(2)] obtain m where "parse1 (rest @ e) = Inr (rest @ e, None, m)" by blast
  then have "drain (rest @ e) = ([], rest @ e, Inr m)" by (rule drain_need)
  with assms(1) drain_append [of d e] show ?thesis by simp
qed

end

section \<open>The Channel Access parser is a stream parser\<close>

lemma from_buffer_append:
  "16 \<le> length d \<Longrightarrow> MessageHeader_from_buffer (d @ e) = MessageHeader_from_buffer d"
  "24 \<le> length d \<Longrightarrow> ExtendedMessageHeader_from_buffer (d @ e) = ExtendedMessageHeader_from_buffer d"
  by (simp_all add: MessageHeader_from_buffer_def ExtendedMessageHeader_from_buffer_def)

lemma from_buffer_Inr:
  "16 \<le> length d \<Longrightarrow> \<exists>h. MessageHeader_from_buffer d = Inr (Plain h)"
  "24 \<le> length d \<Longrightarrow> \<exists>h. ExtendedMessageHeader_from_buffer d = Inr (Extended h)"
  by (simp_all add: MessageHeader_from_buffer_def ExtendedMessageHeader_from_buffer_def)

lemma bytes_needed_Inr: "\<exists>h n. bytes_needed_for_command d = Inr (h, n)"
  using from_buffer_Inr [of d]
  by (cases "length d < 16"; cases "length d < 24") (auto simp: bytes_needed_for_command_def Let_def)

lemma bytes_needed_extend:
  assumes "bytes_needed_for_command d = Inr (Some h, 0)"
  shows "bytes_needed_for_command (d @ e) = Inr (Some h, 0)"
  using assms from_buffer_append [of d e]
  by (auto simp: bytes_needed_for_command_def bindE_def Let_def split: if_splits sum.splits)

lemma bytes_needed_lower:
  assumes "bytes_needed_for_command d = Inr (h, n)" and "length e < n"
  shows "\<exists>h' m. bytes_needed_for_command (d @ e) = Inr (h', m) \<and> 0 < m"
proof (cases "length d < 16")
  case True
  with assms show ?thesis by (auto simp: bytes_needed_for_command_def)
next
  case False
  then obtain p where p: "MessageHeader_from_buffer d = Inr (Plain p)"
    using from_buffer_Inr(1) [of d] by auto
  show ?thesis
  proof (cases "h_payload_size (Plain p) = 0xFFFF \<and> h_data_count (Plain p) = 0")
    case ext: True
    show ?thesis
    proof (cases "length d < 24")
      case True
      with False p ext assms show ?thesis
        by (auto simp: bytes_needed_for_command_def from_buffer_append Let_def)
    next
      case long: False
      then obtain x where "ExtendedMessageHeader_from_buffer d = Inr (Extended x)"
        using from_buffer_Inr(2) [of d] by auto
      with False p ext long assms show ?thesis
        by (auto simp: bytes_needed_for_command_def from_buffer_append Let_def split: if_splits)
    qed
  next
    case plain: False
    with False p assms show ?thesis
      by (auto simp: bytes_needed_for_command_def from_buffer_append Let_def split: if_splits)
  qed
qed

lemma slice_append: "j \<le> length d \<Longrightarrow> slice i j (d @ e) = slice i j d"
  by (cases "i \<le> length d") (simp_all add: slice_def)

text \<open>The parser by its three outcomes.\<close>

lemma read_need:
  "read_from_bytestream d role = Inr (d', None, n) \<longleftrightarrow>
     d' = d \<and> 0 < n \<and> (\<exists>h. bytes_needed_for_command d = Inr (h, n))"
proof -
  obtain h k where hk: "bytes_needed_for_command d = Inr (h, k)" using bytes_needed_Inr by blast
  show ?thesis
    by (cases "k = 0") (auto simp: read_from_bytestream_def hk Let_def bindE_eq_Inr split: option.splits)
qed

lemma read_full:
  assumes "bytes_needed_for_command d = Inr (Some h, 0)"
  shows "read_from_bytestream d role =
    bindE (get_command_class role h) (\<lambda>cls.
    bindE (from_wire cls h (slice (sizeof_header h) (sizeof_header h + nat (h_payload_size h)) d) None)
      (\<lambda>command. Inr (drop (sizeof_header h + nat (h_payload_size h)) d, Some command, 0)))"
  by (simp add: read_from_bytestream_def assms Let_def)

lemma read_full_cases:
  assumes "\<And>d' n. read_from_bytestream d role \<noteq> Inr (d', None, n)"
  obtains h where "bytes_needed_for_command d = Inr (Some h, 0)"
proof -
  obtain h n where hn: "bytes_needed_for_command d = Inr (h, n)" using bytes_needed_Inr by blast
  with assms have "n = 0" by (auto simp: read_need)
  with hn bytes_needed_None [of d n] show thesis by (cases h) (auto intro: that)
qed

lemma read_extend:
  assumes "bytes_needed_for_command d = Inr (Some h, 0)"
  shows "read_from_bytestream (d @ e) role =
    bindE (read_from_bytestream d role) (\<lambda>(d', c, n). Inr (d' @ e, c, n))"
proof -
  have le: "sizeof_header h + nat (h_payload_size h) \<le> length d"
    using bytes_needed_zero [OF assms] .
  then show ?thesis
    unfolding read_full [OF assms] read_full [OF bytes_needed_extend [OF assms]]
    by (simp add: slice_append bindE_assoc)
qed

interpretation ca_stream: framed_stream "\<lambda>d. read_from_bytestream d role" "recv_loop role" for role
proof
  fix d d' e :: bytes and n :: nat and c :: message and x :: error
  show "read_from_bytestream d role = Inr (d', None, n) \<Longrightarrow> d' = d \<and> 0 < n"
    by (simp add: read_need)
  show "read_from_bytestream d role = Inr (d', Some c, n) \<Longrightarrow> \<exists>p. p \<noteq> [] \<and> d = p @ d' \<and> n = 0"
    by (rule read_command_shorter)
  show "read_from_bytestream (d @ e) role = Inr (d' @ e, Some c, n)"
    if r: "read_from_bytestream d role = Inr (d', Some c, n)"
  proof -
    obtain h where "bytes_needed_for_command d = Inr (Some h, 0)"
      by (rule read_full_cases [of d role]) (use r in auto)
    from read_extend [OF this] r show ?thesis by simp
  qed
  show "read_from_bytestream (d @ e) role = Inl x" if r: "read_from_bytestream d role = Inl x"
  proof -
    obtain h where "bytes_needed_for_command d = Inr (Some h, 0)"
      by (rule read_full_cases [of d role]) (use r in auto)
    from read_extend [OF this] r show ?thesis by simp
  qed
  show "\<exists>m. read_from_bytestream (d @ e) role = Inr (d @ e, None, m)"
    if "read_from_bytestream d role = Inr (d', None, n)" "length e < n"
    using that bytes_needed_lower [of d _ n e] by (fastforce simp: read_need)
  show "recv_loop role d =
    (case read_from_bytestream d role of
       Inl e \<Rightarrow> ([], d, Inl e)
     | Inr (d', None, n) \<Rightarrow> ([], d', Inr n)
     | Inr (d', Some c, n) \<Rightarrow> (case recv_loop role d' of (cs, rest, r) \<Rightarrow> (c # cs, rest, r)))"
    by (rule recv_loop.simps)
qed

end
