(* ===== verification/CA_State.thy ===== *)
theory CA_State
  imports CA_Commands
begin

text \<open>
  The protocol state machines of \<^verbatim>\<open>caproto/_state.py\<close>: the transition tables of circuits and channels for
  both roles, the transitions a channel makes because its circuit changed, and the blame function
  \<^verbatim>\<open>get_exception\<close>. Every peer runs both machines of the pair (its own and the one of the other side);
  the lemmas show that the two stay in step, whatever is accepted or refused.
\<close>

section \<open>States and tables\<close>

datatype State =
    SEND_SEARCH_REQUEST | AWAIT_SEARCH_RESPONSE | SEND_SEARCH_RESPONSE | SEND_VERSION_REQUEST
  | AWAIT_VERSION_RESPONSE | SEND_VERSION_RESPONSE | SEND_CREATE_CHAN_REQUEST
  | AWAIT_CREATE_CHAN_RESPONSE | SEND_CREATE_CHAN_RESPONSE | CONNECTED | MUST_CLOSE | CLOSED | IDLE
  | FAILED | DISCONNECTED | NEED_DATA

definition all_states :: "State list" where
  "all_states = [SEND_SEARCH_REQUEST, AWAIT_SEARCH_RESPONSE, SEND_SEARCH_RESPONSE, SEND_VERSION_REQUEST,
     AWAIT_VERSION_RESPONSE, SEND_VERSION_RESPONSE, SEND_CREATE_CHAN_REQUEST, AWAIT_CREATE_CHAN_RESPONSE,
     SEND_CREATE_CHAN_RESPONSE, CONNECTED, MUST_CLOSE, CLOSED, IDLE, FAILED, DISCONNECTED, NEED_DATA]"

fun COMMAND_TRIGGERED_CIRCUIT_TRANSITIONS :: "Role \<Rightarrow> (State, (command_class, State) dict) dict" where
  "COMMAND_TRIGGERED_CIRCUIT_TRANSITIONS CLIENT = dict_of [
      (SEND_VERSION_REQUEST, dict_of [
        (VersionRequest, AWAIT_VERSION_RESPONSE), (VersionResponse, SEND_VERSION_REQUEST)]),
      (AWAIT_VERSION_RESPONSE, dict_of [
        (VersionResponse, CONNECTED), (HostNameRequest, AWAIT_VERSION_RESPONSE),
        (ClientNameRequest, AWAIT_VERSION_RESPONSE), (EchoRequest, AWAIT_VERSION_RESPONSE),
        (EchoResponse, AWAIT_VERSION_RESPONSE), (ErrorResponse, AWAIT_VERSION_RESPONSE)]),
      (CONNECTED, dict_of [
        (VersionResponse, CONNECTED), (VersionRequest, CONNECTED), (SearchResponse, CONNECTED),
        (SearchRequest, CONNECTED), (NotFoundResponse, CONNECTED), (HostNameRequest, CONNECTED),
        (ClientNameRequest, CONNECTED), (EventsOffRequest, CONNECTED), (EventsOnRequest, CONNECTED),
        (EchoRequest, CONNECTED), (EchoResponse, CONNECTED), (ErrorResponse, CONNECTED)]),
      (DISCONNECTED, dict_of [])]"
| "COMMAND_TRIGGERED_CIRCUIT_TRANSITIONS SERVER = dict_of [
      (IDLE, dict_of [
        (VersionRequest, SEND_VERSION_RESPONSE), (VersionResponse, IDLE)]),
      (SEND_VERSION_RESPONSE, dict_of [
        (VersionResponse, CONNECTED), (HostNameRequest, SEND_VERSION_RESPONSE),
        (ClientNameRequest, SEND_VERSION_RESPONSE), (ErrorResponse, SEND_VERSION_RESPONSE)]),
      (CONNECTED, dict_of [
        (VersionResponse, CONNECTED), (VersionRequest, CONNECTED), (SearchResponse, CONNECTED),
        (SearchRequest, CONNECTED), (NotFoundResponse, CONNECTED), (HostNameRequest, CONNECTED),
        (ClientNameRequest, CONNECTED), (EventsOffRequest, CONNECTED), (EventsOnRequest, CONNECTED),
        (EchoRequest, CONNECTED), (EchoResponse, CONNECTED), (ErrorResponse, CONNECTED)]),
      (DISCONNECTED, dict_of [])]"

fun COMMAND_TRIGGERED_CHANNEL_TRANSITIONS :: "Role \<Rightarrow> (State, (command_class, State) dict) dict" where
  "COMMAND_TRIGGERED_CHANNEL_TRANSITIONS CLIENT = dict_of [
      (SEND_CREATE_CHAN_REQUEST, dict_of [
        (CreateChanRequest, AWAIT_CREATE_CHAN_RESPONSE), (ErrorResponse, SEND_CREATE_CHAN_REQUEST)]),
      (AWAIT_CREATE_CHAN_RESPONSE, dict_of [
        (CreateChanResponse, CONNECTED), (AccessRightsResponse, AWAIT_CREATE_CHAN_RESPONSE),
        (CreateChFailResponse, FAILED), (ErrorResponse, AWAIT_CREATE_CHAN_RESPONSE)]),
      (CONNECTED, dict_of [
        (AccessRightsResponse, CONNECTED), (ReadRequest, CONNECTED), (ReadNotifyRequest, CONNECTED),
        (ReadResponse, CONNECTED), (ReadNotifyResponse, CONNECTED), (WriteNotifyRequest, CONNECTED),
        (WriteNotifyResponse, CONNECTED), (WriteRequest, CONNECTED), (EventAddRequest, CONNECTED),
        (EventAddResponse, CONNECTED), (EventCancelRequest, CONNECTED),
        (EventCancelResponse, CONNECTED), (ClearChannelRequest, MUST_CLOSE),
        (ServerDisconnResponse, CLOSED), (ErrorResponse, CONNECTED)]),
      (MUST_CLOSE, dict_of [
        (ClearChannelResponse, CLOSED), (ServerDisconnResponse, CLOSED), (ErrorResponse, MUST_CLOSE),
        (AccessRightsResponse, MUST_CLOSE), (ReadNotifyResponse, MUST_CLOSE),
        (ReadResponse, MUST_CLOSE), (WriteNotifyResponse, MUST_CLOSE),
        (EventAddResponse, MUST_CLOSE), (EventCancelResponse, MUST_CLOSE)]),
      (CLOSED, dict_of [
        (EventCancelResponse, CLOSED)]),
      (FAILED, dict_of [
        (ClearChannelResponse, FAILED), (ServerDisconnResponse, FAILED), (ErrorResponse, FAILED)])]"
| "COMMAND_TRIGGERED_CHANNEL_TRANSITIONS SERVER = dict_of [
      (IDLE, dict_of [
        (CreateChanRequest, SEND_CREATE_CHAN_RESPONSE)]),
      (SEND_CREATE_CHAN_RESPONSE, dict_of [
        (AccessRightsResponse, SEND_CREATE_CHAN_RESPONSE), (CreateChanResponse, CONNECTED),
        (CreateChFailResponse, FAILED), (ErrorResponse, SEND_CREATE_CHAN_RESPONSE)]),
      (CONNECTED, dict_of [
        (AccessRightsResponse, CONNECTED), (ReadRequest, CONNECTED), (ReadNotifyRequest, CONNECTED),
        (ReadResponse, CONNECTED), (ReadNotifyResponse, CONNECTED), (WriteNotifyRequest, CONNECTED),
        (WriteNotifyResponse, CONNECTED), (WriteRequest, CONNECTED), (EventAddRequest, CONNECTED),
        (EventAddResponse, CONNECTED), (EventCancelRequest, CONNECTED),
        (EventCancelResponse, CONNECTED), (ClearChannelRequest, MUST_CLOSE),
        (ServerDisconnResponse, CLOSED), (ErrorResponse, CONNECTED)]),
      (MUST_CLOSE, dict_of [
        (ClearChannelResponse, CLOSED), (ServerDisconnResponse, CLOSED), (ErrorResponse, MUST_CLOSE),
        (AccessRightsResponse, MUST_CLOSE), (ReadResponse, MUST_CLOSE),
        (ReadNotifyResponse, MUST_CLOSE), (WriteNotifyResponse, MUST_CLOSE),
        (EventAddResponse, MUST_CLOSE), (EventCancelResponse, MUST_CLOSE)]),
      (CLOSED, dict_of []),
      (FAILED, dict_of [
        (ClearChannelResponse, FAILED), (ServerDisconnResponse, FAILED), (ErrorResponse, FAILED)])]"

text \<open>Keys and values are pairs of the channel state and the circuit state.\<close>

fun STATE_TRIGGERED_TRANSITIONS :: "Role \<Rightarrow> (State \<times> State, State \<times> State) dict" where
  "STATE_TRIGGERED_TRANSITIONS CLIENT = dict_of [
     ((SEND_CREATE_CHAN_REQUEST, DISCONNECTED), (CLOSED, DISCONNECTED)),
     ((AWAIT_CREATE_CHAN_RESPONSE, DISCONNECTED), (CLOSED, DISCONNECTED)),
     ((CONNECTED, DISCONNECTED), (CLOSED, DISCONNECTED)),
     ((MUST_CLOSE, DISCONNECTED), (CLOSED, DISCONNECTED)),
     ((FAILED, DISCONNECTED), (CLOSED, DISCONNECTED)),
     ((CLOSED, DISCONNECTED), (CLOSED, DISCONNECTED))]"
| "STATE_TRIGGERED_TRANSITIONS SERVER = dict_of [
     ((SEND_CREATE_CHAN_RESPONSE, DISCONNECTED), (CLOSED, DISCONNECTED)),
     ((CONNECTED, DISCONNECTED), (CLOSED, DISCONNECTED)),
     ((MUST_CLOSE, DISCONNECTED), (CLOSED, DISCONNECTED)),
     ((FAILED, DISCONNECTED), (CLOSED, DISCONNECTED)),
     ((CLOSED, DISCONNECTED), (CLOSED, DISCONNECTED))]"

section \<open>Operations\<close>

text \<open>The dictionary \<^verbatim>\<open>{CLIENT: ..., SERVER: ...}\<close> of a state object, as the pair of its values.\<close>

type_synonym states = "State \<times> State"

fun get_state :: "Role \<Rightarrow> states \<Rightarrow> State" where
  "get_state CLIENT (c, s) = c"
| "get_state SERVER (c, s) = s"

fun set_state :: "Role \<Rightarrow> State \<Rightarrow> states \<Rightarrow> states" where
  "set_state CLIENT x (c, s) = (x, s)"
| "set_state SERVER x (c, s) = (c, x)"

fun other_role :: "Role \<Rightarrow> Role" where
  "other_role CLIENT = SERVER"
| "other_role SERVER = CLIENT"

definition get_exception :: "Role \<Rightarrow> command_class \<Rightarrow> error" where
  "get_exception our_role cls =
     (let party_at_fault = (case DIRECTION cls of REQUEST \<Rightarrow> CLIENT | RESPONSE \<Rightarrow> SERVER)
      in if our_role = party_at_fault then LocalProtocolError else RemoteProtocolError)"

type_synonym transitions = "Role \<Rightarrow> (State, (command_class, State) dict) dict"

definition fire_command_triggered_transitions ::
  "transitions \<Rightarrow> Role \<Rightarrow> command_class \<Rightarrow> states \<Rightarrow> states result" where
  "fire_command_triggered_transitions TRANSITIONS role command_type states =
     bindE (getitem (TRANSITIONS role) (get_state role states)) (\<lambda>allowed_transitions.
       case dget allowed_transitions command_type of
         None \<Rightarrow> Inl (get_exception role command_type)
       | Some new_state \<Rightarrow> Inr (set_state role new_state states))"

definition ChannelState_init :: states where
  "ChannelState_init = (SEND_CREATE_CHAN_REQUEST, IDLE)"

definition CircuitState_init :: states where
  "CircuitState_init = (SEND_VERSION_REQUEST, IDLE)"

text \<open>A channel shares the state object of its circuit, so its operations act on both.\<close>

definition fire_state_triggered_transitions :: "Role \<Rightarrow> states \<times> states \<Rightarrow> states \<times> states" where
  "fire_state_triggered_transitions role p =
     (case p of (chan, circ) \<Rightarrow>
        (case dget (STATE_TRIGGERED_TRANSITIONS role) (get_state role chan, get_state role circ) of
           None \<Rightarrow> (chan, circ)
         | Some (new_chan, new_circ) \<Rightarrow> (set_state role new_chan chan, set_state role new_circ circ)))"

definition ChannelState_update :: "states \<times> states \<Rightarrow> states \<times> states" where
  "ChannelState_update p = fire_state_triggered_transitions SERVER (fire_state_triggered_transitions CLIENT p)"

definition ChannelState_process_command_type ::
  "Role \<Rightarrow> command_class \<Rightarrow> states \<times> states \<Rightarrow> (states \<times> states) result" where
  "ChannelState_process_command_type role command_type p =
     (case p of (chan, circ) \<Rightarrow>
        bindE (fire_command_triggered_transitions COMMAND_TRIGGERED_CHANNEL_TRANSITIONS role command_type chan)
          (\<lambda>chan'. Inr (ChannelState_update (chan', circ))))"

text \<open>\<^verbatim>\<open>CircuitState.process_command_type\<close> without the loop over the channels, and \<^verbatim>\<open>disconnect\<close>.\<close>

definition CircuitState_fire :: "Role \<Rightarrow> command_class \<Rightarrow> states \<Rightarrow> states result" where
  "CircuitState_fire role command_type circ =
     fire_command_triggered_transitions COMMAND_TRIGGERED_CIRCUIT_TRANSITIONS role command_type circ"

definition CircuitState_disconnected :: states where
  "CircuitState_disconnected = (DISCONNECTED, DISCONNECTED)"

text \<open>
  The loop of \<^verbatim>\<open>_BaseChannel.process_command\<close>: first the machine of our role, then the other one. When
  the second refuses, the transition of the first has been made. The third component holds the
  transitions \<^verbatim>\<open>(role, initial_state, new_state)\<close> made so far.
\<close>

fun process_roles ::
  "Role list \<Rightarrow> command_class \<Rightarrow> states \<times> states \<Rightarrow> (states \<times> states) \<times> ((Role \<times> State \<times> State) list) result" where
  "process_roles [] command_type p = (p, Inr [])"
| "process_roles (role # roles) command_type p =
     (case ChannelState_process_command_type role command_type p of
        Inl e \<Rightarrow> (p, Inl e)
      | Inr p' \<Rightarrow>
          (let initial_state = get_state role (fst p);
               new_state = get_state role (fst p');
               transition = (if initial_state \<noteq> new_state then [(role, initial_state, new_state)] else [])
           in case process_roles roles command_type p' of
                (p'', Inl e) \<Rightarrow> (p'', Inl e)
              | (p'', Inr transitions) \<Rightarrow> (p'', Inr (transition @ transitions))))"

definition channel_step ::
  "Role \<Rightarrow> command_class \<Rightarrow> states \<times> states \<Rightarrow> (states \<times> states) \<times> ((Role \<times> State \<times> State) list) result" where
  "channel_step our_role command_type p = process_roles [our_role, other_role our_role] command_type p"

text \<open>The two calls of \<^verbatim>\<open>CircuitState.process_command_type\<close> in \<^verbatim>\<open>VirtualCircuit._process_command\<close>.\<close>

definition circuit_step :: "Role \<Rightarrow> command_class \<Rightarrow> states \<Rightarrow> states \<times> unit result" where
  "circuit_step our_role command_type circ =
     (case CircuitState_fire our_role command_type circ of
        Inl e \<Rightarrow> (circ, Inl e)
      | Inr circ' \<Rightarrow>
          (case CircuitState_fire (other_role our_role) command_type circ' of
             Inl e \<Rightarrow> (circ', Inl e)
           | Inr circ'' \<Rightarrow> (circ'', Inr ())))"

text \<open>
  The common shape of both: one entry of a table, and a step of a pair of machines with the given tables.
\<close>

definition lookup :: "transitions \<Rightarrow> Role \<Rightarrow> State \<Rightarrow> command_class \<Rightarrow> State option" where
  "lookup T role st c = (case dget (T role) st of None \<Rightarrow> None | Some d \<Rightarrow> dget d c)"

definition pair_step :: "transitions \<Rightarrow> Role \<Rightarrow> command_class \<Rightarrow> states \<Rightarrow> states \<times> unit result" where
  "pair_step T our_role c p =
     (case fire_command_triggered_transitions T our_role c p of
        Inl e \<Rightarrow> (p, Inl e)
      | Inr p' \<Rightarrow>
          (case fire_command_triggered_transitions T (other_role our_role) c p' of
             Inl e \<Rightarrow> (p', Inl e) | Inr p'' \<Rightarrow> (p'', Inr ())))"

text \<open>The pairs of states that occur, and how far along the life of a channel or circuit a state is.\<close>

definition channel_pairs :: "states list" where
  "channel_pairs = [(SEND_CREATE_CHAN_REQUEST, IDLE), (AWAIT_CREATE_CHAN_RESPONSE, SEND_CREATE_CHAN_RESPONSE),
     (CONNECTED, CONNECTED), (MUST_CLOSE, MUST_CLOSE), (FAILED, FAILED), (CLOSED, CLOSED)]"

definition circuit_pairs :: "states list" where
  "circuit_pairs = [(SEND_VERSION_REQUEST, IDLE), (AWAIT_VERSION_RESPONSE, SEND_VERSION_RESPONSE),
     (CONNECTED, CONNECTED), (DISCONNECTED, DISCONNECTED)]"

fun state_rank :: "State \<Rightarrow> nat" where
  "state_rank SEND_CREATE_CHAN_REQUEST = 0"
| "state_rank SEND_VERSION_REQUEST = 0"
| "state_rank IDLE = 0"
| "state_rank AWAIT_CREATE_CHAN_RESPONSE = 1"
| "state_rank SEND_CREATE_CHAN_RESPONSE = 1"
| "state_rank AWAIT_VERSION_RESPONSE = 1"
| "state_rank SEND_VERSION_RESPONSE = 1"
| "state_rank CONNECTED = 2"
| "state_rank MUST_CLOSE = 3"
| "state_rank FAILED = 3"
| "state_rank CLOSED = 4"
| "state_rank DISCONNECTED = 4"
| "state_rank _ = 5"

text \<open>A sequence of commands processed by one peer, refused commands included.\<close>

definition circuit_run :: "Role \<Rightarrow> command_class list \<Rightarrow> states" where
  "circuit_run our_role cs = fold (\<lambda>c p. fst (circuit_step our_role c p)) cs CircuitState_init"

definition channel_run :: "Role \<Rightarrow> states \<Rightarrow> command_class list \<Rightarrow> states" where
  "channel_run our_role circ cs = fold (\<lambda>c ch. fst (fst (channel_step our_role c (ch, circ)))) cs ChannelState_init"

text \<open>
  The states of a channel on a circuit: one of the pairs, or, once the circuit is disconnected, a client
  machine that is closed beside a server machine that never left \<open>IDLE\<close> (the server table has no
  state-triggered transition for it).
\<close>

definition chan_ok :: "states \<Rightarrow> states \<Rightarrow> bool" where
  "chan_ok ch circ \<longleftrightarrow> ch \<in> set channel_pairs \<or> circ = CircuitState_disconnected \<and> ch = (CLOSED, IDLE)"

text \<open>What the tables must satisfy for a pair of states and a command.\<close>

definition entry_ok :: "transitions \<Rightarrow> states list \<Rightarrow> states \<Rightarrow> command_class \<Rightarrow> bool" where
  "entry_ok T pairs p c =
     (case p of (a, b) \<Rightarrow>
        (case (lookup T CLIENT a c, lookup T SERVER b c) of
           (None, None) \<Rightarrow> True
         | (Some x, None) \<Rightarrow> x = a
         | (None, Some y) \<Rightarrow> y = b
         | (Some x, Some y) \<Rightarrow> (x, y) \<in> set pairs \<and> state_rank a \<le> state_rank x \<and> state_rank b \<le> state_rank y))"

definition keys_ok :: "transitions \<Rightarrow> states list \<Rightarrow> bool" where
  "keys_ok T pairs = list_all (\<lambda>(a, b). dget (T CLIENT) a \<noteq> None \<and> dget (T SERVER) b \<noteq> None) pairs"

section \<open>Two machines in step\<close>

declare COMMAND_TRIGGERED_CIRCUIT_TRANSITIONS.simps [simp del]
declare COMMAND_TRIGGERED_CHANNEL_TRANSITIONS.simps [simp del]
declare STATE_TRIGGERED_TRANSITIONS.simps [simp del]

lemma state_in_all: "st \<in> set all_states"
  by (cases st) (simp_all add: all_states_def)

lemma class_in_all: "c \<in> set all_classes"
  by (cases c) (simp_all add: all_classes_def)

lemma set_get_state [simp]:
  "get_state r (set_state r x p) = x"
  "get_state (other_role r) (set_state r x p) = get_state (other_role r) p"
  "set_state r (get_state r p) p = p"
  by (cases r; cases p; simp)+

lemma fire_lookup:
  assumes "dget (T role) (get_state role p) \<noteq> None"
  shows "fire_command_triggered_transitions T role c p =
    (case lookup T role (get_state role p) c of
       None \<Rightarrow> Inl (get_exception role c) | Some n \<Rightarrow> Inr (set_state role n p))"
  using assms by (auto simp: fire_command_triggered_transitions_def lookup_def getitem_def)

text \<open>
  A pair of machines whose tables fit: every pair of states has its rows, a command both accept leads
  to a pair of states again and never back, and a command only one accepts changes nothing.
\<close>

locale paired_machine =
  fixes T :: transitions and pairs :: "states list"
  assumes keys: "keys_ok T pairs"
    and entries: "p \<in> set pairs \<Longrightarrow> entry_ok T pairs p c"
begin

lemma has_rows:
  assumes "p \<in> set pairs"
  shows "dget (T r) (get_state r p) \<noteq> None"
  using keys assms by (cases r; cases p) (auto simp: keys_ok_def list_all_iff)

lemma step_cases:
  assumes "p \<in> set pairs"
  shows "(\<exists>x y. lookup T CLIENT (fst p) c = Some x \<and> lookup T SERVER (snd p) c = Some y
        \<and> pair_step T our c p = ((x, y), Inr ()) \<and> (x, y) \<in> set pairs
        \<and> state_rank (fst p) \<le> state_rank x \<and> state_rank (snd p) \<le> state_rank y)
    \<or> lookup T our (get_state our p) c = None \<and> pair_step T our c p = (p, Inl (get_exception our c))
    \<or> lookup T our (get_state our p) c \<noteq> None \<and> lookup T (other_role our) (get_state (other_role our) p) c = None
        \<and> pair_step T our c p = (p, Inl (get_exception (other_role our) c))"
proof -
  obtain a b where p: "p = (a, b)" by (cases p)
  note e = entries [OF assms, of c]
  note f = fire_lookup [OF has_rows [OF assms]]
  show ?thesis
  proof (cases "lookup T our (get_state our p) c")
    case None
    then show ?thesis by (simp add: pair_step_def f)
  next
    case (Some x)
    let ?o = "other_role our"
    let ?q = "set_state our x p"
    have rows: "dget (T ?o) (get_state ?o ?q) \<noteq> None" using has_rows [OF assms, of ?o] by simp
    show ?thesis
    proof (cases "lookup T ?o (get_state ?o p) c")
      case none: None
      have "?q = p" using e Some none p by (cases our) (auto simp: entry_ok_def split: option.splits)
      then show ?thesis
        using Some none by (simp add: pair_step_def f)
    next
      case some: (Some y)
      then have "pair_step T our c p = (set_state ?o y ?q, Inr ())"
        using Some by (simp add: pair_step_def f fire_lookup [where T = T and p = ?q, OF rows])
      with e Some some p show ?thesis by (cases our) (auto simp: entry_ok_def)
    qed
  qed
qed

lemma step_pairs: "p \<in> set pairs \<Longrightarrow> fst (pair_step T our c p) \<in> set pairs"
  using step_cases [of p c our] by auto

lemma step_error_keeps: "p \<in> set pairs \<Longrightarrow> pair_step T our c p = (q, Inl e) \<Longrightarrow> q = p"
  using step_cases [of p c our] by auto

lemma step_rank:
  "p \<in> set pairs \<Longrightarrow> state_rank (get_state r p) \<le> state_rank (get_state r (fst (pair_step T our c p)))"
  using step_cases [of p c our] by (cases r; cases p) auto

lemma step_error_cases:
  "p \<in> set pairs \<Longrightarrow> snd (pair_step T our c p) = Inl e \<Longrightarrow>
     e = get_exception our c \<and> lookup T our (get_state our p) c = None
   \<or> e = get_exception (other_role our) c \<and> lookup T our (get_state our p) c \<noteq> None
       \<and> lookup T (other_role our) (get_state (other_role our) p) c = None"
  using step_cases [of p c our] by auto

lemma step_agree:
  assumes "p \<in> set pairs"
  shows "fst (pair_step T CLIENT c p) = fst (pair_step T SERVER c p)
    \<and> isl (snd (pair_step T CLIENT c p)) = isl (snd (pair_step T SERVER c p))"
  using step_cases [OF assms, of c CLIENT] step_cases [OF assms, of c SERVER]
  by (cases p) auto

lemma run_agree:
  assumes "p \<in> set pairs"
  shows "fold (\<lambda>c p. fst (pair_step T CLIENT c p)) cs p = fold (\<lambda>c p. fst (pair_step T SERVER c p)) cs p
    \<and> fold (\<lambda>c p. fst (pair_step T our c p)) cs p \<in> set pairs"
  using assms
proof (induction cs arbitrary: p)
  case (Cons c cs)
  then show ?case using step_agree [of p c] step_pairs [of p CLIENT c] step_pairs [of p our c] by simp
qed simp

end

lemma check_entries:
  assumes "list_all (\<lambda>p. list_all (entry_ok T pairs p) all_classes) pairs"
  shows "p \<in> set pairs \<Longrightarrow> entry_ok T pairs p c"
  using assms class_in_all [of c] by (simp add: list_all_iff)

interpretation circuit_machine: paired_machine COMMAND_TRIGGERED_CIRCUIT_TRANSITIONS circuit_pairs
proof (unfold_locales, goal_cases)
  case 1
  show ?case by code_simp
next
  case (2 p c)
  moreover have "list_all (\<lambda>p. list_all (entry_ok COMMAND_TRIGGERED_CIRCUIT_TRANSITIONS circuit_pairs p) all_classes) circuit_pairs"
    by code_simp
  ultimately show ?case by (rule check_entries [rotated])
qed

interpretation channel_machine: paired_machine COMMAND_TRIGGERED_CHANNEL_TRANSITIONS channel_pairs
proof (unfold_locales, goal_cases)
  case 1
  show ?case by code_simp
next
  case (2 p c)
  moreover have "list_all (\<lambda>p. list_all (entry_ok COMMAND_TRIGGERED_CHANNEL_TRANSITIONS channel_pairs p) all_classes) channel_pairs"
    by code_simp
  ultimately show ?case by (rule check_entries [rotated])
qed

section \<open>Channels and circuits\<close>

lemma isl_bindE_unit: "isl (bindE r (\<lambda>_. Inr ())) = isl r"
  by (cases r) simp_all

lemma circuit_step_pair: "circuit_step our c p = pair_step COMMAND_TRIGGERED_CIRCUIT_TRANSITIONS our c p"
  by (simp add: circuit_step_def CircuitState_fire_def pair_step_def split: sum.splits)

lemma STT_connected:
  assumes "st \<noteq> DISCONNECTED"
  shows "dget (STATE_TRIGGERED_TRANSITIONS r) (s, st) = None"
  using assms by (cases r) (simp_all add: dget_dict_of STATE_TRIGGERED_TRANSITIONS.simps)

lemma update_connected: "fst ci \<noteq> DISCONNECTED \<Longrightarrow> snd ci \<noteq> DISCONNECTED \<Longrightarrow> ChannelState_update (ch, ci) = (ch, ci)"
  by (cases ci) (simp add: ChannelState_update_def fire_state_triggered_transitions_def STT_connected)

lemma channel_step_connected:
  assumes "fst ci \<noteq> DISCONNECTED" and "snd ci \<noteq> DISCONNECTED"
  shows "fst (channel_step our c (ch, ci)) = (fst (pair_step COMMAND_TRIGGERED_CHANNEL_TRANSITIONS our c ch), ci)
    \<and> bindE (snd (channel_step our c (ch, ci))) (\<lambda>_. Inr ()) = snd (pair_step COMMAND_TRIGGERED_CHANNEL_TRANSITIONS our c ch)"
proof (cases "fire_command_triggered_transitions COMMAND_TRIGGERED_CHANNEL_TRANSITIONS our c ch")
  case (Inl e)
  then show ?thesis
    by (simp add: channel_step_def pair_step_def ChannelState_process_command_type_def)
next
  case (Inr p)
  then show ?thesis
    by (cases "fire_command_triggered_transitions COMMAND_TRIGGERED_CHANNEL_TRANSITIONS (other_role our) c p")
      (simp_all add: channel_step_def pair_step_def ChannelState_process_command_type_def update_connected [OF assms] Let_def)
qed

lemma circuit_pairs_connected:
  "ci \<in> set circuit_pairs \<Longrightarrow> ci = CircuitState_disconnected \<or> fst ci \<noteq> DISCONNECTED \<and> snd ci \<noteq> DISCONNECTED"
  by (auto simp: circuit_pairs_def CircuitState_disconnected_def)

lemma targets_closed:
  "lookup COMMAND_TRIGGERED_CHANNEL_TRANSITIONS r st c = Some x \<Longrightarrow>
     x \<in> fst ` set (COMMAND_TRIGGERED_CHANNEL_TRANSITIONS r)"
proof -
  have chk: "list_all (\<lambda>r. list_all (\<lambda>(st, d). list_all (\<lambda>(c, x).
      x \<in> set (map fst (COMMAND_TRIGGERED_CHANNEL_TRANSITIONS r))) d) (COMMAND_TRIGGERED_CHANNEL_TRANSITIONS r)) [CLIENT, SERVER]"
    by code_simp
  assume "lookup COMMAND_TRIGGERED_CHANNEL_TRANSITIONS r st c = Some x"
  then obtain d where "(st, d) \<in> set (COMMAND_TRIGGERED_CHANNEL_TRANSITIONS r)" "(c, x) \<in> set d"
    by (auto simp: lookup_def split: option.splits dest!: map_of_SomeD)
  moreover have "r \<in> set [CLIENT, SERVER]" by (cases r) simp_all
  ultimately show ?thesis using chk by (fastforce simp: list_all_iff)
qed

lemma update_disconnected:
  assumes "a \<in> fst ` set (COMMAND_TRIGGERED_CHANNEL_TRANSITIONS CLIENT)"
    and "b \<in> fst ` set (COMMAND_TRIGGERED_CHANNEL_TRANSITIONS SERVER)"
  shows "ChannelState_update ((a, b), CircuitState_disconnected) =
    ((CLOSED, if b = IDLE then IDLE else CLOSED), CircuitState_disconnected)"
proof -
  have "list_all (\<lambda>a. list_all (\<lambda>b. ChannelState_update ((a, b), CircuitState_disconnected) =
      ((CLOSED, if b = IDLE then IDLE else CLOSED), CircuitState_disconnected))
      (map fst (COMMAND_TRIGGERED_CHANNEL_TRANSITIONS SERVER))) (map fst (COMMAND_TRIGGERED_CHANNEL_TRANSITIONS CLIENT))"
    by code_simp
  with assms show ?thesis unfolding list_all_iff set_map by blast
qed

lemma chan_ok_rows:
  assumes "chan_ok ch ci"
  shows "get_state r ch \<in> fst ` set (COMMAND_TRIGGERED_CHANNEL_TRANSITIONS r)"
proof -
  have chk: "list_all (\<lambda>(a, b). a \<in> set (map fst (COMMAND_TRIGGERED_CHANNEL_TRANSITIONS CLIENT))
      \<and> b \<in> set (map fst (COMMAND_TRIGGERED_CHANNEL_TRANSITIONS SERVER))) ((CLOSED, IDLE) # channel_pairs)"
    by code_simp
  have "ch \<in> set ((CLOSED, IDLE) # channel_pairs)" using assms by (auto simp: chan_ok_def)
  with chk show ?thesis by (cases r; cases ch) (auto simp: list_all_iff)
qed

lemma closed_ok: "chan_ok (CLOSED, if b then IDLE else CLOSED) CircuitState_disconnected"
  by (simp add: chan_ok_def channel_pairs_def)

lemma process_role_disconnected:
  assumes "chan_ok ch CircuitState_disconnected"
  shows "(\<exists>e. ChannelState_process_command_type r c (ch, CircuitState_disconnected) = Inl e)
    \<or> (\<exists>b. ChannelState_process_command_type r c (ch, CircuitState_disconnected) =
         Inr ((CLOSED, if b then IDLE else CLOSED), CircuitState_disconnected))"
proof (cases "lookup COMMAND_TRIGGERED_CHANNEL_TRANSITIONS r (get_state r ch) c")
  case None
  then show ?thesis
    by (auto simp: ChannelState_process_command_type_def fire_command_triggered_transitions_def lookup_def
        getitem_def split: option.splits)
next
  case (Some x)
  then have "fire_command_triggered_transitions COMMAND_TRIGGERED_CHANNEL_TRANSITIONS r c ch = Inr (set_state r x ch)"
    by (auto simp: fire_command_triggered_transitions_def lookup_def getitem_def split: option.splits)
  moreover have "get_state q (set_state r x ch) \<in> fst ` set (COMMAND_TRIGGERED_CHANNEL_TRANSITIONS q)" for q
    using targets_closed [OF Some] chan_ok_rows [OF assms] by (cases q; cases r; cases ch) (metis get_state.simps set_state.simps)+
  from this [of CLIENT] this [of SERVER] obtain b where
    "ChannelState_update (set_state r x ch, CircuitState_disconnected) =
      ((CLOSED, if b then IDLE else CLOSED), CircuitState_disconnected)"
    using update_disconnected [of "fst (set_state r x ch)" "snd (set_state r x ch)"]
    by (cases "set_state r x ch") (auto simp del: if_split_eq1)
  ultimately show ?thesis by (auto simp: ChannelState_process_command_type_def)
qed

lemma channel_step_ok:
  assumes "ci \<in> set circuit_pairs" and "chan_ok ch ci"
  shows "\<exists>ch' r. channel_step our c (ch, ci) = ((ch', ci), r) \<and> chan_ok ch' ci"
proof (cases "ci = CircuitState_disconnected")
  case True
  let ?D = CircuitState_disconnected and ?P = ChannelState_process_command_type
  consider e where "?P our c (ch, ?D) = Inl e"
    | b where "?P our c (ch, ?D) = Inr ((CLOSED, if b then IDLE else CLOSED), ?D)"
    using process_role_disconnected [OF assms(2) [unfolded True], of our c] by blast
  then show ?thesis
  proof cases
    case 1
    with True assms(2) show ?thesis by (simp add: channel_step_def)
  next
    case (2 b)
    let ?q = "(CLOSED, if b then IDLE else CLOSED)"
    consider e where "?P (other_role our) c (?q, ?D) = Inl e"
      | b' where "?P (other_role our) c (?q, ?D) = Inr ((CLOSED, if b' then IDLE else CLOSED), ?D)"
      using process_role_disconnected [OF closed_ok [of b], of "other_role our" c] by blast
    then show ?thesis
    proof cases
      case err: 1
      have "\<exists>r. channel_step our c (ch, ?D) = ((?q, ?D), r)"
        by (simp only: channel_step_def process_roles.simps 2 err sum.case Let_def prod.case) blast
      with True closed_ok [of b] show ?thesis by blast
    next
      case ok: (2 b')
      have "\<exists>r. channel_step our c (ch, ?D) = (((CLOSED, if b' then IDLE else CLOSED), ?D), r)"
        by (simp only: channel_step_def process_roles.simps 2 ok sum.case Let_def prod.case) blast
      with True closed_ok [of b'] show ?thesis by blast
    qed
  qed
next
  case False
  with assms have c: "fst ci \<noteq> DISCONNECTED" "snd ci \<noteq> DISCONNECTED" and ch: "ch \<in> set channel_pairs"
    using circuit_pairs_connected [OF assms(1)] by (auto simp: chan_ok_def)
  from channel_machine.step_pairs [OF ch, of our c] channel_step_connected [OF c, of our c ch] show ?thesis
    by (cases "channel_step our c (ch, ci)") (auto simp: chan_ok_def)
qed

lemma update_ok:
  assumes "ci \<in> set circuit_pairs" and "chan_ok ch ci'" and "ci' \<noteq> CircuitState_disconnected \<or> ci = ci'"
  shows "\<exists>ch'. ChannelState_update (ch, ci) = (ch', ci) \<and> chan_ok ch' ci"
proof (cases "ci = CircuitState_disconnected")
  case True
  obtain a b where "ch = (a, b)" by (cases ch)
  with True update_disconnected [of a b] chan_ok_rows [OF assms(2), of CLIENT] chan_ok_rows [OF assms(2), of SERVER]
    closed_ok [of "b = IDLE"] show ?thesis by auto
next
  case False
  with assms circuit_pairs_connected [OF assms(1)] update_connected [of ci ch] show ?thesis
    by (auto simp: chan_ok_def)
qed

lemma closed_lookup: "lookup COMMAND_TRIGGERED_CHANNEL_TRANSITIONS SERVER CLOSED c = None"
  by (simp add: lookup_def COMMAND_TRIGGERED_CHANNEL_TRANSITIONS.simps dget_dict_of)

lemma disconnected_lookup: "lookup COMMAND_TRIGGERED_CIRCUIT_TRANSITIONS r DISCONNECTED c = None"
  by (cases r) (simp_all add: lookup_def COMMAND_TRIGGERED_CIRCUIT_TRANSITIONS.simps dget_dict_of)

section \<open>Properties\<close>

text \<open>
  C9. Two peers that process the same commands agree on the circuit, and each peer's pair of machines stays
  in step: whatever the sequence, valid or not, the client's view and the server's view are equal, one of the
  four pairs of circuit states, and a further command is accepted by both or by neither.
\<close>

theorem circuit_peers_agree:
  "circuit_run CLIENT cs = circuit_run SERVER cs \<and> circuit_run CLIENT cs \<in> set circuit_pairs
   \<and> isl (snd (circuit_step CLIENT c (circuit_run CLIENT cs))) = isl (snd (circuit_step SERVER c (circuit_run SERVER cs)))"
proof -
  have i: "CircuitState_init \<in> set circuit_pairs" by (simp add: CircuitState_init_def circuit_pairs_def)
  have r: "circuit_run CLIENT cs = circuit_run SERVER cs" "circuit_run SERVER cs \<in> set circuit_pairs"
    using circuit_machine.run_agree [OF i, of cs SERVER] by (simp_all add: circuit_run_def circuit_step_pair)
  with circuit_machine.step_agree [OF r(2), of c] show ?thesis by (simp add: circuit_step_pair)
qed

text \<open>
  C12. The same for a channel of a circuit that is not disconnected: both peers see the same pair of channel
  states after any sequence of commands, one of the six pairs, and agree on the next command.
\<close>

theorem channel_peers_agree:
  assumes "fst circ \<noteq> DISCONNECTED" and "snd circ \<noteq> DISCONNECTED"
  shows "channel_run CLIENT circ cs = channel_run SERVER circ cs \<and> channel_run CLIENT circ cs \<in> set channel_pairs
   \<and> isl (snd (channel_step CLIENT c (channel_run CLIENT circ cs, circ)))
     = isl (snd (channel_step SERVER c (channel_run SERVER circ cs, circ)))"
proof -
  let ?T = COMMAND_TRIGGERED_CHANNEL_TRANSITIONS
  have i: "ChannelState_init \<in> set channel_pairs" by (simp add: ChannelState_init_def channel_pairs_def)
  have f: "fst (fst (channel_step our c (ch, circ))) = fst (pair_step ?T our c ch)"
    and l: "isl (snd (channel_step our c (ch, circ))) = isl (snd (pair_step ?T our c ch))" for our c ch
    using channel_step_connected [OF assms, of our c ch]
    by (simp_all flip: isl_bindE_unit [of "snd (channel_step our c (ch, circ))"])
  have run: "channel_run our circ cs = fold (\<lambda>c p. fst (pair_step ?T our c p)) cs ChannelState_init" for our
    by (simp add: channel_run_def f)
  have r: "channel_run CLIENT circ cs = channel_run SERVER circ cs" "channel_run SERVER circ cs \<in> set channel_pairs"
    using channel_machine.run_agree [OF i, of cs SERVER] by (simp_all add: run)
  with channel_machine.step_agree [OF r(2), of c] show ?thesis by (simp add: l)
qed

theorem channel_peers_agree_witness:
  "channel_run CLIENT (CONNECTED, CONNECTED) [CreateChanRequest, ReadNotifyRequest, CreateChanResponse] = (CONNECTED, CONNECTED)
   \<and> channel_run SERVER (CONNECTED, CONNECTED) [CreateChanRequest, ReadNotifyRequest, CreateChanResponse] = (CONNECTED, CONNECTED)"
proof -
  have "channel_run CLIENT (CONNECTED, CONNECTED) [CreateChanRequest, ReadNotifyRequest, CreateChanResponse] = (CONNECTED, CONNECTED)"
    by code_simp
  with channel_peers_agree [of "(CONNECTED, CONNECTED)" "[CreateChanRequest, ReadNotifyRequest, CreateChanResponse]" EchoRequest]
  show ?thesis by simp
qed

text \<open>
  Who is blamed when the circuit refuses a command: the states are unchanged, and the exception names the
  sender (local when we sent it, remote when the peer did) but for one case. A client that awaits the version
  response accepts echo commands and then has its picture of the server refuse them, which blames the wrong
  side: sending an \<^verbatim>\<open>EchoRequest\<close> raises \<^verbatim>\<open>RemoteProtocolError\<close>.
\<close>

theorem circuit_blame:
  assumes "p \<in> set circuit_pairs" and "circuit_step our c p = (q, Inl e)"
  shows "q = p \<and> (e = get_exception our c
    \<or> our = CLIENT \<and> p = (AWAIT_VERSION_RESPONSE, SEND_VERSION_RESPONSE) \<and> c \<in> {EchoRequest, EchoResponse}
      \<and> e = get_exception SERVER c)"
proof -
  let ?T = COMMAND_TRIGGERED_CIRCUIT_TRANSITIONS
  have chk: "list_all (\<lambda>p. list_all (\<lambda>c.
      (lookup ?T CLIENT (fst p) c \<noteq> None \<and> lookup ?T SERVER (snd p) c = None \<longrightarrow>
         p = (AWAIT_VERSION_RESPONSE, SEND_VERSION_RESPONSE) \<and> (c = EchoRequest \<or> c = EchoResponse))
      \<and> (lookup ?T SERVER (snd p) c \<noteq> None \<longrightarrow> lookup ?T CLIENT (fst p) c \<noteq> None)) all_classes) circuit_pairs"
    by code_simp
  have s: "pair_step ?T our c p = (q, Inl e)" using assms(2) by (simp add: circuit_step_pair)
  then have "q = p" using circuit_machine.step_error_keeps [OF assms(1)] by blast
  moreover from s circuit_machine.step_error_cases [OF assms(1), of our c e]
  have "e = get_exception our c \<or> e = get_exception (other_role our) c \<and> lookup ?T our (get_state our p) c \<noteq> None
      \<and> lookup ?T (other_role our) (get_state (other_role our) p) c = None" by auto
  moreover have "(lookup ?T CLIENT (fst p) c \<noteq> None \<and> lookup ?T SERVER (snd p) c = None \<longrightarrow>
         p = (AWAIT_VERSION_RESPONSE, SEND_VERSION_RESPONSE) \<and> (c = EchoRequest \<or> c = EchoResponse))
      \<and> (lookup ?T SERVER (snd p) c \<noteq> None \<longrightarrow> lookup ?T CLIENT (fst p) c \<noteq> None)"
    using chk assms(1) class_in_all [of c] unfolding list_all_iff by blast
  ultimately show ?thesis by (cases our; cases p) auto
qed

theorem circuit_blame_witness:
  "circuit_step CLIENT EchoRequest (AWAIT_VERSION_RESPONSE, SEND_VERSION_RESPONSE)
     = ((AWAIT_VERSION_RESPONSE, SEND_VERSION_RESPONSE), Inl RemoteProtocolError)
   \<and> get_exception CLIENT EchoRequest = LocalProtocolError \<and> get_exception SERVER EchoRequest = RemoteProtocolError"
proof -
  have s: "circuit_step CLIENT EchoRequest (AWAIT_VERSION_RESPONSE, SEND_VERSION_RESPONSE)
     = ((AWAIT_VERSION_RESPONSE, SEND_VERSION_RESPONSE), Inl RemoteProtocolError)" by code_simp
  have g: "get_exception CLIENT EchoRequest = LocalProtocolError" by code_simp
  from circuit_blame [OF _ s] g s show ?thesis by (simp add: circuit_pairs_def)
qed



end
