(* ===== verification/CA_Ids.thy ===== *)
theory CA_Ids
  imports CA_Prelude
begin

text \<open>
  Two helpers of \<^verbatim>\<open>caproto/_utils.py\<close>: \<^verbatim>\<open>ThreadsafeCounter\<close>, which allocates channel, subscription and
  input/output ids below \<open>2 ^ 16\<close> that are not in use, and \<^verbatim>\<open>batch_requests\<close>, which groups commands into
  datagrams. The counter loop may run forever; \<open>None\<close> is the call that never returns.
\<close>

section \<open>Definitions\<close>

definition MAX_ID :: int where "MAX_ID = 2 ^ 16"

text \<open>The \<^verbatim>\<open>while\<close> loop of \<^verbatim>\<open>__call__\<close>; \<open>used\<close> holds the keys of \<^verbatim>\<open>dont_clash_with\<close>.\<close>

partial_function (option) counter_loop :: "int list \<Rightarrow> int \<Rightarrow> int option" where
  "counter_loop used val =
     (if val \<in> set used \<or> val \<ge> MAX_ID
      then counter_loop used (if val \<ge> MAX_ID then 0 else val + 1)
      else Some val)"

text \<open>The call gives the new id, which is also the new \<^verbatim>\<open>self.value\<close>; the counter starts at \<open>-1\<close>.\<close>

definition ThreadsafeCounter_init :: int where "ThreadsafeCounter_init = -1"

definition ThreadsafeCounter_call :: "int list \<Rightarrow> int \<Rightarrow> int option" where
  "ThreadsafeCounter_call used val = counter_loop used (val + 1)"

definition counter_inv :: "int \<Rightarrow> bool" where
  "counter_inv val \<longleftrightarrow> -1 \<le> val \<and> val \<le> MAX_ID"

text \<open>
  \<^verbatim>\<open>batch_requests\<close> as the list of what its generator yields; \<open>len\<close> stands for \<^verbatim>\<open>len\<close> on the items.
\<close>

fun batch_loop :: "('a \<Rightarrow> nat) \<Rightarrow> nat \<Rightarrow> 'a list \<Rightarrow> nat \<Rightarrow> 'a list \<Rightarrow> 'a list list" where
  "batch_loop len max_length batch sz [] = (if batch \<noteq> [] then [batch] else [])"
| "batch_loop len max_length batch sz (command # commands) =
     (let l = len command
      in if sz + l > max_length then batch # batch_loop len max_length [command] l commands
         else batch_loop len max_length (batch @ [command]) (sz + l) commands)"

definition batch_requests :: "('a \<Rightarrow> nat) \<Rightarrow> 'a list \<Rightarrow> nat \<Rightarrow> 'a list list" where
  "batch_requests len request_iter max_length = batch_loop len max_length [] 0 request_iter"

section \<open>Fresh ids\<close>

text \<open>What a source of ids promises to the tables that are keyed by them.\<close>

locale fresh_ids =
  fixes gen :: "int list \<Rightarrow> int \<Rightarrow> int option" and ok :: "int \<Rightarrow> bool" and bound :: int
  assumes gen_fresh: "ok v \<Longrightarrow> gen used v = Some x \<Longrightarrow> x \<notin> set used \<and> 0 \<le> x \<and> x < bound \<and> ok x"
    and gen_total: "ok v \<Longrightarrow> 0 \<le> k \<Longrightarrow> k < bound \<Longrightarrow> k \<notin> set used \<Longrightarrow> \<exists>x. gen used v = Some x"
begin

text \<open>Storing under a generated id loses no entry.\<close>

lemma gen_keeps:
  assumes "ok v" and "gen (map fst d) v = Some x"
  shows "dget d x = None" and "dget d k = Some e \<Longrightarrow> dget (dset x y d) k = Some e"
proof -
  show n: "dget d x = None"
    using gen_fresh [OF assms] by (simp add: map_of_eq_None_iff)
  show "dget d k = Some e \<Longrightarrow> dget (dset x y d) k = Some e" using n by (auto simp: dict_simps)
qed

lemma gen_iff:
  assumes "ok v"
  shows "(\<exists>x. gen used v = Some x) \<longleftrightarrow> (\<exists>k. 0 \<le> k \<and> k < bound \<and> k \<notin> set used)"
  using gen_fresh [OF assms] gen_total [OF assms] by blast

end

lemma counter_loop_sound:
  assumes "counter_loop used v = Some x" and "0 \<le> v"
  shows "x \<notin> set used \<and> 0 \<le> x \<and> x < MAX_ID"
proof -
  have "0 \<le> v \<longrightarrow> x \<notin> set used \<and> 0 \<le> x \<and> x < MAX_ID"
  proof (rule counter_loop.raw_induct [OF _ assms(1), of "\<lambda>used v x. 0 \<le> v \<longrightarrow> x \<notin> set used \<and> 0 \<le> x \<and> x < MAX_ID"])
    fix loop used v x
    assume IH: "\<And>used v x. loop used v = Some x \<Longrightarrow> 0 \<le> v \<longrightarrow> x \<notin> set used \<and> 0 \<le> x \<and> x < MAX_ID"
      and step: "(if v \<in> set used \<or> MAX_ID \<le> v then loop used (if MAX_ID \<le> v then 0 else v + 1) else Some v) = Some x"
    show "0 \<le> v \<longrightarrow> x \<notin> set used \<and> 0 \<le> x \<and> x < MAX_ID"
    proof (cases "v \<in> set used \<or> MAX_ID \<le> v")
      case True
      with step IH [of used "if MAX_ID \<le> v then 0 else v + 1" x] show ?thesis by (auto split: if_splits)
    next
      case False
      with step show ?thesis by auto
    qed
  qed
  with assms(2) show ?thesis by blast
qed

lemma counter_loop_skip:
  assumes "v \<le> k" "k < MAX_ID" "k \<notin> set used" and "\<forall>j. v \<le> j \<and> j < k \<longrightarrow> j \<in> set used"
  shows "counter_loop used v = Some k"
  using assms
proof (induction "nat (k - v)" arbitrary: v)
  case 0
  then show ?case by (subst counter_loop.simps) simp
next
  case (Suc n)
  then have v: "v < k" "v \<in> set used" "v < MAX_ID" by auto
  moreover have "counter_loop used (v + 1) = Some k" using Suc v by (intro Suc(1)) auto
  ultimately show ?case by (subst counter_loop.simps) simp
qed

lemma least_free:
  fixes v k :: int
  assumes "v \<le> k" "k \<notin> set used"
  obtains m where "v \<le> m" "m \<le> k" "m \<notin> set used" "\<forall>j. v \<le> j \<and> j < m \<longrightarrow> j \<in> set used"
proof -
  define n where "n = (LEAST n. v + int n \<notin> set used)"
  have ex: "v + int (nat (k - v)) \<notin> set used" using assms by simp
  have "v + int n \<notin> set used" unfolding n_def using ex by (rule LeastI)
  moreover have "n \<le> nat (k - v)" unfolding n_def using ex by (rule Least_le)
  moreover have "j \<in> set used" if "v \<le> j" "j < v + int n" for j
    using not_less_Least [of "nat (j - v)" "\<lambda>n. v + int n \<notin> set used"] that unfolding n_def by auto
  ultimately show thesis using assms(1) that [of "v + int n"] by auto
qed

lemma counter_loop_wrap:
  assumes "0 \<le> v" and "\<forall>j. v \<le> j \<and> j < MAX_ID \<longrightarrow> j \<in> set used"
  shows "counter_loop used v = counter_loop used 0"
  using assms
proof (induction "nat (MAX_ID - v)" arbitrary: v)
  case 0
  then have "MAX_ID \<le> v" by simp
  then show ?case by (subst counter_loop.simps) simp
next
  case (Suc n)
  then have v: "v \<in> set used" "v < MAX_ID" by auto
  moreover have "counter_loop used (v + 1) = counter_loop used 0" using Suc v by (intro Suc(1)) auto
  ultimately show ?case by (subst counter_loop.simps) simp
qed

lemma counter_loop_total:
  assumes "0 \<le> v" "0 \<le> k" "k < MAX_ID" "k \<notin> set used"
  shows "\<exists>x. counter_loop used v = Some x"
proof (cases "\<exists>j. v \<le> j \<and> j < MAX_ID \<and> j \<notin> set used")
  case True
  then obtain j where "v \<le> j" "j < MAX_ID" "j \<notin> set used" by blast
  from least_free [OF this(1,3)] counter_loop_skip [of v _ used] this(2) show ?thesis
    by (metis le_less_trans)
next
  case False
  then have "counter_loop used v = counter_loop used 0" by (intro counter_loop_wrap assms) auto
  moreover obtain m where "0 \<le> m" "m \<le> k" "m \<notin> set used" "\<forall>j. 0 \<le> j \<and> j < m \<longrightarrow> j \<in> set used"
    using least_free [OF assms(2,4)] .
  with assms(3) have "counter_loop used 0 = Some m" by (intro counter_loop_skip) auto
  ultimately show ?thesis by simp
qed

interpretation counter: fresh_ids ThreadsafeCounter_call counter_inv MAX_ID
proof
  fix v x k :: int and used :: "int list"
  show "counter_inv v \<Longrightarrow> ThreadsafeCounter_call used v = Some x \<Longrightarrow>
      x \<notin> set used \<and> 0 \<le> x \<and> x < MAX_ID \<and> counter_inv x"
    using counter_loop_sound [of used "v + 1" x] by (auto simp: ThreadsafeCounter_call_def counter_inv_def)
  show "counter_inv v \<Longrightarrow> 0 \<le> k \<Longrightarrow> k < MAX_ID \<Longrightarrow> k \<notin> set used \<Longrightarrow>
      \<exists>x. ThreadsafeCounter_call used v = Some x"
    using counter_loop_total [of "v + 1" k used] by (auto simp: ThreadsafeCounter_call_def counter_inv_def)
qed

section \<open>Batches\<close>

lemma batch_concat: "concat (batch_loop len mx batch sz cs) = batch @ cs"
  by (induction cs arbitrary: batch sz) (auto simp: Let_def)

lemma batch_bound:
  assumes "\<forall>c \<in> set cs. len c \<le> mx" and "sz = sum_list (map len batch)" and "sz \<le> mx"
  shows "\<forall>b \<in> set (batch_loop len mx batch sz cs). b \<noteq> [] \<and> sum_list (map len b) \<le> mx"
  using assms
proof (induction cs arbitrary: batch sz)
  case (Cons c cs)
  show ?case
  proof (cases "sz + len c > mx")
    case True
    then have "batch \<noteq> []" using Cons.prems by auto
    with True Cons.prems Cons.IH [of "len c" "[c]"] show ?thesis by (simp add: Let_def)
  next
    case False
    with Cons.prems Cons.IH [of "sz + len c" "batch @ [c]"] show ?thesis by (simp add: Let_def)
  qed
qed auto

lemma batch_hd:
  "batch_loop len mx (b # bs) sz cs \<noteq> [] \<and> hd (hd (batch_loop len mx (b # bs) sz cs)) = b"
  by (induction cs arbitrary: bs sz) (simp_all add: Let_def)

lemma batch_greedy:
  assumes "sz = sum_list (map len batch)"
  shows "Suc i < length (batch_loop len mx batch sz cs) \<Longrightarrow>
    sum_list (map len (batch_loop len mx batch sz cs ! i)) + len (hd (batch_loop len mx batch sz cs ! Suc i)) > mx"
  using assms
proof (induction cs arbitrary: batch sz i)
  case (Cons c cs)
  show ?case
  proof (cases "sz + len c > mx")
    case True
    let ?r = "batch_loop len mx [c] (len c) cs"
    have r: "?r ! 0 = hd ?r" "hd (hd ?r) = c" using batch_hd [of len mx c "[]" "len c" cs] by (auto simp: hd_conv_nth)
    have e: "batch_loop len mx batch sz (c # cs) = batch # ?r" using True by (simp add: Let_def)
    show ?thesis
    proof (cases i)
      case 0
      with True r Cons.prems(2) show ?thesis unfolding e by simp
    next
      case (Suc j)
      then have "Suc j < length ?r" using Cons.prems(1) unfolding e by simp
      from Cons.IH [OF this] show ?thesis unfolding e Suc by simp
    qed
  next
    case False
    with Cons.prems Cons.IH [of i "batch @ [c]" "sz + len c"] show ?thesis by (simp add: Let_def)
  qed
qed auto

section \<open>Properties\<close>

text \<open>
  C26. The id counter returns exactly when an id is free, and then gives an id below \<open>2 ^ 16\<close> that is not in
  use; storing under it leaves every entry of the table. When all ids are taken the call never returns.
\<close>

theorem counter_fresh:
  assumes "counter_inv v"
  shows "((\<exists>x. ThreadsafeCounter_call (map fst d) v = Some x) \<longleftrightarrow> (\<exists>k. 0 \<le> k \<and> k < 2 ^ 16 \<and> dget d k = None))
    \<and> (\<forall>x y. ThreadsafeCounter_call (map fst d) v = Some x \<longrightarrow>
        dget d x = None \<and> 0 \<le> x \<and> x < 2 ^ 16 \<and> counter_inv x
        \<and> (\<forall>k e. dget d k = Some e \<longrightarrow> dget (dset x y d) k = Some e))"
proof -
  have "(\<exists>x. ThreadsafeCounter_call (map fst d) v = Some x) \<longleftrightarrow> (\<exists>k. 0 \<le> k \<and> k < 2 ^ 16 \<and> dget d k = None)"
    using counter.gen_iff [OF assms, of "map fst d"] by (simp add: MAX_ID_def map_of_eq_None_iff)
  then show ?thesis
    using counter.gen_keeps [OF assms, of d] counter.gen_fresh [OF assms, of "map fst d"] by (auto simp: MAX_ID_def)
qed

theorem counter_fresh_witness:
  "\<exists>x. ThreadsafeCounter_call (map fst [(0, ''a''), (1, ''b'')]) ThreadsafeCounter_init = Some x \<and> x \<noteq> 0 \<and> x \<noteq> 1"
proof -
  have i: "counter_inv ThreadsafeCounter_init" by (simp add: counter_inv_def ThreadsafeCounter_init_def MAX_ID_def)
  note c = counter_fresh [OF i, of "[(0, ''a''), (1, ''b'')]"]
  have "dget [(0, ''a''), (1, ''b'')] (2 :: int) = None" by simp
  moreover have "0 \<le> (2 :: int) \<and> (2 :: int) < 2 ^ 16" by simp
  ultimately obtain x where x: "ThreadsafeCounter_call (map fst [(0, ''a''), (1, ''b'')]) ThreadsafeCounter_init = Some x"
    using c by blast
  with c have "dget [(0, ''a''), (1, ''b'')] x = None" by blast
  with x show ?thesis by (auto split: if_splits)
qed

text \<open>
  C38. \<^verbatim>\<open>batch_requests\<close> keeps every command in order; when each command fits, no batch is empty and none is longer
  than the limit (equality is possible), and no batch could have taken the first command of the next.
\<close>

theorem batches:
  assumes "\<forall>c \<in> set cs. len c \<le> mx"
  shows "concat (batch_requests len cs mx) = cs
    \<and> (\<forall>b \<in> set (batch_requests len cs mx). b \<noteq> [] \<and> sum_list (map len b) \<le> mx)
    \<and> (\<forall>i. Suc i < length (batch_requests len cs mx) \<longrightarrow>
         sum_list (map len (batch_requests len cs mx ! i)) + len (hd (batch_requests len cs mx ! Suc i)) > mx)"
  using batch_concat [of len mx "[]" 0 cs] batch_bound [OF assms, of 0 "[]"] batch_greedy [of 0 len "[]"]
  by (simp add: batch_requests_def)

theorem batches_witness:
  "batch_requests length [''ab'', ''c'', ''de'', ''f''] 3 = [[''ab'', ''c''], [''de'', ''f'']]
   \<and> concat (batch_requests length [''ab'', ''c'', ''de'', ''f''] 3) = [''ab'', ''c'', ''de'', ''f'']"
  using batches [of "[''ab'', ''c'', ''de'', ''f'']" length 3]
  by (auto simp: batch_requests_def Let_def)

end
