(* ===== verification/CA_Circuit.thy ===== *)
theory CA_Circuit
  imports CA_Wire CA_State CA_Ids
begin

text \<open>
  \<^verbatim>\<open>VirtualCircuit\<close> of \<^verbatim>\<open>caproto/_circuit.py\<close>: the state of one client-server connection and the processing of
  every command that goes over it. Channels are objects shared by several dictionaries, so they live in a
  store and the dictionaries hold references. An operation returns the circuit it leaves behind and a value
  or an exception: what an exception does not undo is part of the model.
\<close>

section \<open>State\<close>

type_synonym ref = nat

text \<open>\<^verbatim>\<open>_BaseChannel\<close>; \<open>'f\<close> is the type of the parsed channel filter.\<close>

record 'f channel =
  ch_name :: pystr
  ch_cid :: int
  ch_sid :: "int option"
  ch_protocol_version :: int
  ch_filter :: 'f
  ch_states :: states
  ch_native_data_type :: "ChannelType option"
  ch_native_data_count :: "int option"
  ch_access_rights :: "int option"

record 'f circuit =
  our_role :: Role
  circ_address :: address
  circ_priority :: "int option"
  circ_channels :: "(int, ref) dict"
  circ_channels_sid :: "(int, ref) dict"
  circ_states :: states
  circ_data :: bytes
  circ_ioids :: "(int, ref) dict"
  event_add_commands :: "(int, message) dict"
  event_cancel_commands :: "(int, message) dict"
  channel_id_counter :: int
  ioid_counter :: int
  sub_counter :: int
  protocol_version :: int
  circ_store :: "'f channel list"

abbreviation their_role :: "'f circuit \<Rightarrow> Role" where
  "their_role c \<equiv> other_role (our_role c)"

definition DEFAULT_PROTOCOL_VERSION :: int where "DEFAULT_PROTOCOL_VERSION = 13"

definition VirtualCircuit_init :: "Role \<Rightarrow> address \<Rightarrow> int option \<Rightarrow> int \<Rightarrow> 'f circuit result" where
  "VirtualCircuit_init role address priority version =
     (if priority = None \<and> role = CLIENT then Inl CaprotoRuntimeError
      else Inr \<lparr>our_role = role, circ_address = address, circ_priority = priority, circ_channels = [],
        circ_channels_sid = [], circ_states = CircuitState_init, circ_data = [], circ_ioids = [],
        event_add_commands = [], event_cancel_commands = [], channel_id_counter = ThreadsafeCounter_init,
        ioid_counter = ThreadsafeCounter_init, sub_counter = ThreadsafeCounter_init,
        protocol_version = version, circ_store = []\<rparr>)"

definition circuit_key :: "'f circuit \<Rightarrow> (address \<times> int) result" where
  "circuit_key c =
     (case circ_priority c of None \<Rightarrow> Inl CaprotoRuntimeError | Some p \<Rightarrow> Inr (circ_address c, p))"

text \<open>Reading and changing a channel object.\<close>

definition chan :: "'f circuit \<Rightarrow> ref \<Rightarrow> 'f channel" where
  "chan c r = circ_store c ! r"

definition set_chan :: "ref \<Rightarrow> 'f channel \<Rightarrow> 'f circuit \<Rightarrow> 'f circuit" where
  "set_chan r ch c = c\<lparr>circ_store := (circ_store c)[r := ch]\<rparr>"

text \<open>
  \<^verbatim>\<open>_BaseChannel.__init__\<close> with a given \<^verbatim>\<open>cid\<close>. \<open>mk_filter\<close> is the parsing of the filter in the name, which
  may raise before the channel is registered.
\<close>

definition BaseChannel_init :: "(pystr \<Rightarrow> 'f result) \<Rightarrow> pystr \<Rightarrow> int \<Rightarrow> 'f circuit \<Rightarrow> 'f circuit \<times> ref result" where
  "BaseChannel_init mk_filter name cid c =
     (case mk_filter name of
        Inl e \<Rightarrow> (c, Inl e)
      | Inr flt \<Rightarrow>
          (let r = length (circ_store c);
               ch = \<lparr>ch_name = name, ch_cid = cid, ch_sid = None, ch_protocol_version = protocol_version c,
                 ch_filter = flt, ch_states = ChannelState_init, ch_native_data_type = None,
                 ch_native_data_count = None, ch_access_rights = None\<rparr>
           in (c\<lparr>circ_store := circ_store c @ [ch], circ_channels := dset cid r (circ_channels c)\<rparr>, Inr r)))"

section \<open>Ids\<close>

text \<open>
  \<^verbatim>\<open>new_channel_id\<close>, \<^verbatim>\<open>new_ioid\<close> and \<^verbatim>\<open>new_subscriptionid\<close>; \<open>None\<close> when the call never returns. The channel
  ids of a client avoid the keys of \<^verbatim>\<open>channels\<close>, those of a server the keys of \<^verbatim>\<open>channels_sid\<close>.
\<close>

definition new_channel_id :: "'f circuit \<Rightarrow> ('f circuit \<times> int) option" where
  "new_channel_id c =
     (case ThreadsafeCounter_call
        (map fst (case our_role c of CLIENT \<Rightarrow> circ_channels c | SERVER \<Rightarrow> circ_channels_sid c)) (channel_id_counter c) of
        None \<Rightarrow> None | Some v \<Rightarrow> Some (c\<lparr>channel_id_counter := v\<rparr>, v))"

definition new_ioid :: "'f circuit \<Rightarrow> ('f circuit \<times> int) option" where
  "new_ioid c =
     (case ThreadsafeCounter_call (map fst (circ_ioids c)) (ioid_counter c) of
        None \<Rightarrow> None | Some v \<Rightarrow> Some (c\<lparr>ioid_counter := v\<rparr>, v))"

definition new_subscriptionid :: "'f circuit \<Rightarrow> ('f circuit \<times> int) option" where
  "new_subscriptionid c =
     (case ThreadsafeCounter_call (map fst (event_add_commands c)) (sub_counter c) of
        None \<Rightarrow> None | Some v \<Rightarrow> Some (c\<lparr>sub_counter := v\<rparr>, v))"

section \<open>Circuit states\<close>

text \<open>\<^verbatim>\<open>for chan in self.channels.values(): chan.states.update()\<close>.\<close>

definition update_channel :: "ref \<Rightarrow> 'f circuit \<Rightarrow> 'f circuit" where
  "update_channel r c =
     (let (st, circ) = ChannelState_update (ch_states (chan c r), circ_states c)
      in (set_chan r ((chan c r)\<lparr>ch_states := st\<rparr>) c)\<lparr>circ_states := circ\<rparr>)"

definition update_channels :: "'f circuit \<Rightarrow> 'f circuit" where
  "update_channels c = fold update_channel (map snd (circ_channels c)) c"

definition CircuitState_process_command_type ::
  "Role \<Rightarrow> command_class \<Rightarrow> 'f circuit \<Rightarrow> 'f circuit \<times> unit result" where
  "CircuitState_process_command_type role command_type c =
     (case CircuitState_fire role command_type (circ_states c) of
        Inl e \<Rightarrow> (c, Inl e)
      | Inr st \<Rightarrow> (update_channels (c\<lparr>circ_states := st\<rparr>), Inr ()))"

definition CircuitState_disconnect :: "'f circuit \<Rightarrow> 'f circuit" where
  "CircuitState_disconnect c = update_channels (c\<lparr>circ_states := CircuitState_disconnected\<rparr>)"

section \<open>The stages of _process_command\<close>

definition in_cls :: "message \<Rightarrow> command_class list \<Rightarrow> bool" where
  "in_cls m classes \<longleftrightarrow> msg_class m \<in> set classes"

definition channel_classes :: "command_class list" where
  "channel_classes = [ClearChannelRequest, ClearChannelResponse, CreateChanRequest, CreateChanResponse,
     CreateChFailResponse, AccessRightsResponse, ReadNotifyRequest, ReadNotifyResponse, ReadRequest,
     ReadResponse, WriteNotifyRequest, WriteNotifyResponse, WriteRequest, EventAddRequest, EventAddResponse,
     EventCancelRequest, EventCancelResponse, ServerDisconnResponse]"

text \<open>
  An \<^verbatim>\<open>EventAddResponse\<close> without payload for a subscription that is being cancelled becomes an
  \<^verbatim>\<open>EventCancelResponse\<close>. The handler of the inner \<^verbatim>\<open>KeyError\<close> cannot be reached: the key was tested.
\<close>

definition transmute :: "'f circuit \<Rightarrow> message \<Rightarrow> message result" where
  "transmute c m =
     (if msg_class m = EventAddResponse then
        (case dget (event_cancel_commands c) (msg_subscriptionid m) of
           None \<Rightarrow> Inr m
         | Some ev_add \<Rightarrow>
             if msg_payload_size m = 0
             then bindE (msg_data_type m) (\<lambda>dt.
                    EventCancelResponse_init (ct_value dt) (msg_sid ev_add) (msg_subscriptionid m) (msg_data_count m))
             else Inr m)
      else Inr m)"

text \<open>
  The channel a command is about; \<open>Inr None\<close> is the silent return for a stray empty update. An
  \<^verbatim>\<open>EventCancelResponse\<close> has no attribute \<^verbatim>\<open>payload_size\<close>, which the handler for an unknown subscription reads.
\<close>

definition lookup_channel ::
  "(pystr \<Rightarrow> 'f result) \<Rightarrow> message \<Rightarrow> 'f circuit \<Rightarrow> 'f circuit \<times> ref option result" where
  "lookup_channel mk_filter m c =
     (let err = Inl (get_exception (our_role c) (msg_class m)) in
      if in_cls m [ReadNotifyRequest, WriteNotifyRequest, WriteRequest, ReadRequest, EventAddRequest] then
        (case dget (circ_channels_sid c) (msg_sid m) of None \<Rightarrow> (c, err) | Some r \<Rightarrow> (c, Inr (Some r)))
      else if in_cls m [ReadNotifyResponse, ReadResponse, WriteNotifyResponse] then
        (case dget (circ_ioids c) (msg_ioid m) of
           None \<Rightarrow> (c, err)
         | Some r \<Rightarrow> (c\<lparr>circ_ioids := ddel (msg_ioid m) (circ_ioids c)\<rparr>, Inr (Some r)))
      else if in_cls m [EventCancelRequest] then
        (case dget (event_add_commands c) (msg_subscriptionid m) of
           None \<Rightarrow> (c, err)
         | Some event_add \<Rightarrow> (c, bindE (getitem (circ_channels_sid c) (msg_sid event_add)) (\<lambda>r. Inr (Some r))))
      else if in_cls m [EventAddResponse, EventCancelResponse] then
        (case dget (event_add_commands c) (msg_subscriptionid m) of
           None \<Rightarrow>
             (c, if msg_class m = EventCancelResponse then Inl AttributeError
                 else if msg_payload_size m = 0 then Inr None else err)
         | Some event_add \<Rightarrow> (c, bindE (getitem (circ_channels_sid c) (msg_sid event_add)) (\<lambda>r. Inr (Some r))))
      else if in_cls m [CreateChanRequest] then
        (case dget (circ_channels c) (msg_cid m) of
           Some r \<Rightarrow> (c, Inr (Some r))
         | None \<Rightarrow>
             (case msg_name m of
                Inl e \<Rightarrow> (c, Inl e)
              | Inr name \<Rightarrow>
                  (case BaseChannel_init mk_filter name (msg_cid m) c of
                     (c', Inl e) \<Rightarrow> (c', Inl e) | (c', Inr r) \<Rightarrow> (c', Inr (Some r)))))
      else (c, bindE (getitem (circ_channels c) (msg_cid m)) (\<lambda>r. Inr (Some r))))"

definition validate_subscription :: "'f circuit \<Rightarrow> message \<Rightarrow> unit result" where
  "validate_subscription c m =
     (let err = Inl (get_exception (our_role c) (msg_class m)) in
      bindE (if in_cls m [EventAddResponse, EventCancelRequest, EventCancelResponse] then
               bindE (getitem (event_add_commands c) (msg_subscriptionid m)) (\<lambda>event_add.
               bindE (msg_data_type event_add) (\<lambda>t. bindE (msg_data_type m) (\<lambda>t'.
                 if t \<noteq> t' then err else Inr ())))
             else Inr ()) (\<lambda>_.
      bindE (if in_cls m [EventAddResponse] then
               bindE (getitem (event_add_commands c) (msg_subscriptionid m)) (\<lambda>event_add.
                 if msg_data_count event_add > 0 \<and> msg_data_count event_add \<noteq> msg_data_count m then err else Inr ())
             else Inr ()) (\<lambda>_.
      if in_cls m [EventCancelRequest, EventCancelResponse] then
        bindE (getitem (event_add_commands c) (msg_subscriptionid m)) (\<lambda>event_add.
          if msg_sid event_add \<noteq> msg_sid m then err else Inr ())
      else Inr ())))"

type_synonym callback = "ref \<times> Role \<times> State \<times> State"

text \<open>\<^verbatim>\<open>_BaseChannel.process_command\<close>, with the transitions it returns.\<close>

definition channel_process_command :: "message \<Rightarrow> ref \<Rightarrow> 'f circuit \<Rightarrow> 'f circuit \<times> callback list result" where
  "channel_process_command m r c =
     (case (if msg_class m = CreateChanResponse
            then bindE (msg_data_type m) (\<lambda>t.
                   Inr ((chan c r)\<lparr>ch_native_data_type := Some t, ch_native_data_count := Some (msg_data_count m)\<rparr>))
            else Inr (chan c r)) of
        Inl e \<Rightarrow> (c, Inl e)
      | Inr ch \<Rightarrow>
          (case channel_step (our_role c) (msg_class m) (ch_states ch, circ_states c) of
             ((st, circ), result) \<Rightarrow>
               ((set_chan r (ch\<lparr>ch_states := st\<rparr>) c)\<lparr>circ_states := circ\<rparr>,
                bindE result (\<lambda>ts. Inr (map (\<lambda>t. (r, t)) ts)))))"

text \<open>\<^verbatim>\<open>d.pop(k)\<close>, which raises \<^verbatim>\<open>KeyError\<close>.\<close>

definition remove_channel :: "ref \<Rightarrow> 'f circuit \<Rightarrow> 'f circuit \<times> unit result" where
  "remove_channel r c =
     (case ch_sid (chan c r) of
        None \<Rightarrow> (c, Inl KeyError)
      | Some sid \<Rightarrow>
          if dget (circ_channels_sid c) sid = None then (c, Inl KeyError)
          else let c1 = c\<lparr>circ_channels_sid := ddel sid (circ_channels_sid c)\<rparr>;
                   cid = ch_cid (chan c r)
               in if dget (circ_channels c) cid = None then (c1, Inl KeyError)
                  else (c1\<lparr>circ_channels := ddel cid (circ_channels c),
                           circ_ioids := filter (\<lambda>(k, v). v \<noteq> r) (circ_ioids c)\<rparr>, Inr ()))"

definition post_update :: "message \<Rightarrow> ref \<Rightarrow> 'f circuit \<Rightarrow> 'f circuit \<times> unit result" where
  "post_update m r c =
     (if in_cls m [AccessRightsResponse] then
        (set_chan r ((chan c r)\<lparr>ch_access_rights := Some (msg_access_rights m)\<rparr>) c, Inr ())
      else if in_cls m [CreateChanResponse] then
        ((set_chan r ((chan c r)\<lparr>ch_sid := Some (msg_sid m), ch_protocol_version := protocol_version c\<rparr>) c)
           \<lparr>circ_channels_sid := dset (msg_sid m) r (circ_channels_sid c)\<rparr>, Inr ())
      else if in_cls m [ServerDisconnResponse, ClearChannelResponse] then remove_channel r c
      else if in_cls m [ReadNotifyRequest, ReadRequest, WriteNotifyRequest] then
        (c\<lparr>circ_ioids := dset (msg_ioid m) r (circ_ioids c)\<rparr>, Inr ())
      else if in_cls m [EventAddRequest] then
        (c\<lparr>event_add_commands := dset (msg_subscriptionid m) m (event_add_commands c)\<rparr>, Inr ())
      else if in_cls m [EventCancelRequest] then
        (case dget (event_add_commands c) (msg_subscriptionid m) of
           None \<Rightarrow> (c, Inl KeyError)
         | Some ev \<Rightarrow>
             (c\<lparr>event_cancel_commands := dset (msg_subscriptionid m) ev (event_cancel_commands c)\<rparr>, Inr ()))
      else if in_cls m [EventCancelResponse] then
        (let sub = msg_subscriptionid m in
         if dget (event_add_commands c) sub = None then (c, Inl KeyError)
         else let c1 = c\<lparr>event_add_commands := ddel sub (event_add_commands c)\<rparr>
              in if dget (event_cancel_commands c) sub = None then (c1, Inl KeyError)
                 else (c1\<lparr>event_cancel_commands := ddel sub (event_cancel_commands c)\<rparr>, Inr ()))
      else (c, Inr ()))"

definition channel_command ::
  "(pystr \<Rightarrow> 'f result) \<Rightarrow> message \<Rightarrow> 'f circuit \<Rightarrow> 'f circuit \<times> callback list result" where
  "channel_command mk_filter m c =
     (case lookup_channel mk_filter m c of
        (c1, Inl e) \<Rightarrow> (c1, Inl e)
      | (c1, Inr None) \<Rightarrow> (c1, Inr [])
      | (c1, Inr (Some r)) \<Rightarrow>
          (case validate_subscription c1 m of
             Inl e \<Rightarrow> (c1, Inl e)
           | Inr _ \<Rightarrow>
               (case channel_process_command m r c1 of
                  (c2, Inl e) \<Rightarrow> (c2, Inl e)
                | (c2, Inr callbacks) \<Rightarrow>
                    (case post_update m r c2 of
                       (c3, Inl e) \<Rightarrow> (c3, Inl e) | (c3, Inr _) \<Rightarrow> (c3, Inr callbacks)))))"

definition set_versions :: "int \<Rightarrow> 'f circuit \<Rightarrow> 'f circuit" where
  "set_versions v c =
     fold (\<lambda>r c. set_chan r ((chan c r)\<lparr>ch_protocol_version := v\<rparr>) c) (map snd (circ_channels c)) (c\<lparr>protocol_version := v\<rparr>)"

definition process_version :: "message \<Rightarrow> 'f circuit \<Rightarrow> 'f circuit \<times> unit result" where
  "process_version m c =
     (if in_cls m [VersionRequest] then
        (if circ_priority c = None \<or> circ_priority c = Some (msg_priority m)
         then (set_versions (min (protocol_version c) (msg_version m)) (c\<lparr>circ_priority := Some (msg_priority m)\<rparr>), Inr ())
         else (c, Inl (get_exception (our_role c) (msg_class m))))
      else if in_cls m [VersionResponse] then
        (if msg_version m = 0 then (c, Inr ())
         else (set_versions (min (protocol_version c) (msg_version m)) c, Inr ()))
      else (c, Inr ()))"

definition circuit_command :: "message \<Rightarrow> 'f circuit \<Rightarrow> 'f circuit \<times> callback list result" where
  "circuit_command m c =
     (case CircuitState_process_command_type (our_role c) (msg_class m) c of
        (c1, Inl e) \<Rightarrow> (c1, Inl e)
      | (c1, Inr _) \<Rightarrow>
          (case CircuitState_process_command_type (their_role c) (msg_class m) c1 of
             (c2, Inl e) \<Rightarrow> (c2, Inl e)
           | (c2, Inr _) \<Rightarrow>
               (case process_version m c2 of (c3, Inl e) \<Rightarrow> (c3, Inl e) | (c3, Inr _) \<Rightarrow> (c3, Inr []))))"

section \<open>Operations\<close>

text \<open>A command is a message or the sentinel \<^verbatim>\<open>DISCONNECTED\<close>.\<close>

datatype command = Command message | Command_DISCONNECTED

text \<open>
  \<^verbatim>\<open>VirtualCircuit._process_command\<close>; the callbacks \<^verbatim>\<open>chan.state_changed(*transition)\<close> it runs at the end are
  its result. The argument \<^verbatim>\<open>role\<close> of the source is not used there.
\<close>

definition process_command_internal ::
  "(pystr \<Rightarrow> 'f result) \<Rightarrow> command \<Rightarrow> 'f circuit \<Rightarrow> 'f circuit \<times> callback list result" where
  "process_command_internal mk_filter command c =
     (case command of
        Command_DISCONNECTED \<Rightarrow> (CircuitState_disconnect c, Inr [])
      | Command m \<Rightarrow>
          (case transmute c m of
             Inl e \<Rightarrow> (c, Inl e)
           | Inr m' \<Rightarrow>
               if in_cls m' channel_classes then channel_command mk_filter m' c else circuit_command m' c))"

definition process_command ::
  "(pystr \<Rightarrow> 'f result) \<Rightarrow> command \<Rightarrow> 'f circuit \<Rightarrow> 'f circuit \<times> callback list result" where
  "process_command mk_filter command c = process_command_internal mk_filter command c"

text \<open>\<^verbatim>\<open>send\<close>: the buffers of the commands, or the exception of the first command that is refused.\<close>

fun send :: "(pystr \<Rightarrow> 'f result) \<Rightarrow> message list \<Rightarrow> 'f circuit \<Rightarrow> 'f circuit \<times> bytes list result" where
  "send mk_filter [] c = (c, Inr [])"
| "send mk_filter (m # ms) c =
     (case process_command_internal mk_filter (Command m) c of
        (c1, Inl e) \<Rightarrow> (c1, Inl e)
      | (c1, Inr _) \<Rightarrow>
          (case send mk_filter ms c1 of
             (c2, Inl e) \<Rightarrow> (c2, Inl e)
           | (c2, Inr bufs) \<Rightarrow> (c2, Inr (header_bytes (msg_header m) # msg_buffers m @ bufs))))"

text \<open>\<^verbatim>\<open>recv\<close>; an exception of the parser loses the commands parsed before it.\<close>

definition recv :: "bytes list \<Rightarrow> 'f circuit \<Rightarrow> 'f circuit \<times> (command list \<times> nat) result" where
  "recv buffers c =
     (if sum_list (map length buffers) = 0 then (c, Inr ([Command_DISCONNECTED], 0))
      else case recv_loop (their_role c) (circ_data c @ concat buffers) of
        (commands, rest, Inl e) \<Rightarrow> (c\<lparr>circ_data := rest\<rparr>, Inl e)
      | (commands, rest, Inr n) \<Rightarrow> (c\<lparr>circ_data := rest\<rparr>, Inr (map Command commands, n)))"

definition disconnect :: "'f circuit \<Rightarrow> command" where
  "disconnect c = Command_DISCONNECTED"

definition extract_address :: "message \<Rightarrow> address result" where
  "extract_address m =
     (if msg_class m \<noteq> SearchResponse then Inl CaprotoTypeError
      else if h_parameter1 (msg_header m) = 0xffffffff
      then (case msg_sender m of None \<Rightarrow> Inl TypeError | Some a \<Rightarrow> Inr (fst a, SearchResponse_port m))
      else Inr (SearchResponse_ip m, SearchResponse_port m))"

end
