(* ===== verification/CA_Circuit_Inv.thy ===== *)
theory CA_Circuit_Inv
  imports CA_Circuit
begin

text \<open>
  The invariant of \<^verbatim>\<open>VirtualCircuit\<close> and its preservation by every stage of \<^verbatim>\<open>_process_command\<close>, exceptions
  included: the dictionaries agree with the channel objects, the pairs of states are consistent, and the
  subscription tables describe requests that were made.
\<close>

section \<open>Invariant\<close>

definition registered :: "'f circuit \<Rightarrow> ref \<Rightarrow> bool" where
  "registered c r \<longleftrightarrow> r < length (circ_store c) \<and> dget (circ_channels c) (ch_cid (chan c r)) = Some r"

definition tables_ok :: "'f circuit \<Rightarrow> bool" where
  "tables_ok c \<longleftrightarrow>
     wf_dict (circ_channels c) \<and> wf_dict (circ_channels_sid c) \<and> wf_dict (circ_ioids c)
   \<and> (\<forall>k r. dget (circ_channels c) k = Some r \<longrightarrow> r < length (circ_store c) \<and> ch_cid (chan c r) = k)
   \<and> (\<forall>s r. dget (circ_channels_sid c) s = Some r \<longrightarrow> registered c r \<and> ch_sid (chan c r) = Some s)
   \<and> (\<forall>i r. dget (circ_ioids c) i = Some r \<longrightarrow> registered c r)"

definition states_ok :: "'f circuit \<Rightarrow> bool" where
  "states_ok c \<longleftrightarrow>
     circ_states c \<in> set circuit_pairs
   \<and> (\<forall>ch \<in> set (circ_store c). chan_ok (ch_states ch) (circ_states c)
        \<and> (ch_sid ch \<noteq> None \<longrightarrow> 2 \<le> state_rank (fst (ch_states ch))))"

definition subs_ok :: "'f circuit \<Rightarrow> bool" where
  "subs_ok c \<longleftrightarrow>
     wf_dict (event_add_commands c) \<and> wf_dict (event_cancel_commands c)
   \<and> (\<forall>k m. dget (event_add_commands c) k = Some m \<longrightarrow> msg_class m = EventAddRequest \<and> msg_subscriptionid m = k)
   \<and> (\<forall>k. dget (event_cancel_commands c) k \<noteq> None \<longrightarrow> dget (event_add_commands c) k \<noteq> None)"

definition wf_circuit :: "'f circuit \<Rightarrow> bool" where
  "wf_circuit c \<longleftrightarrow> tables_ok c \<and> states_ok c \<and> subs_ok c"

definition connected :: "states \<Rightarrow> bool" where
  "connected st \<longleftrightarrow> fst st \<noteq> DISCONNECTED \<and> snd st \<noteq> DISCONNECTED"

section \<open>The store\<close>

lemma length_set_chan [simp]: "length (circ_store (set_chan r ch c)) = length (circ_store c)"
  by (simp add: set_chan_def)

lemma chan_set_chan: "chan (set_chan r ch c) q = (if q = r \<and> r < length (circ_store c) then ch else chan c q)"
  by (cases "r < length (circ_store c)") (auto simp: chan_def set_chan_def nth_list_update list_update_beyond)

lemma set_chan_fields [simp]:
  "our_role (set_chan r ch c) = our_role c" "circ_channels (set_chan r ch c) = circ_channels c"
  "circ_channels_sid (set_chan r ch c) = circ_channels_sid c" "circ_ioids (set_chan r ch c) = circ_ioids c"
  "circ_states (set_chan r ch c) = circ_states c" "circ_data (set_chan r ch c) = circ_data c"
  "event_add_commands (set_chan r ch c) = event_add_commands c"
  "event_cancel_commands (set_chan r ch c) = event_cancel_commands c"
  "protocol_version (set_chan r ch c) = protocol_version c" "circ_priority (set_chan r ch c) = circ_priority c"
  by (simp_all add: set_chan_def)

lemma set_chan_same [simp]: "set_chan r (chan c r) c = c"
  by (simp add: set_chan_def chan_def)

lemma chan_in_store: "r < length (circ_store c) \<Longrightarrow> chan c r \<in> set (circ_store c)"
  by (simp add: chan_def)

lemma chan_fields [simp]:
  "chan (c\<lparr>circ_states := a\<rparr>) = chan c" "chan (c\<lparr>circ_data := b\<rparr>) = chan c"
  "chan (c\<lparr>circ_ioids := d\<rparr>) = chan c" "chan (c\<lparr>circ_channels := d\<rparr>) = chan c"
  "chan (c\<lparr>circ_channels_sid := d\<rparr>) = chan c" "chan (c\<lparr>event_add_commands := e\<rparr>) = chan c"
  "chan (c\<lparr>event_cancel_commands := e\<rparr>) = chan c" "chan (c\<lparr>protocol_version := v\<rparr>) = chan c"
  "chan (c\<lparr>circ_priority := p\<rparr>) = chan c" "chan (c\<lparr>ioid_counter := v\<rparr>) = chan c"
  "chan (c\<lparr>sub_counter := v\<rparr>) = chan c" "chan (c\<lparr>channel_id_counter := v\<rparr>) = chan c"
  by (simp_all add: fun_eq_iff chan_def)

text \<open>Changing a channel without its ids keeps the tables.\<close>

lemma tables_set_chan:
  assumes "tables_ok c" and "ch_cid ch = ch_cid (chan c r)" and "ch_sid ch = ch_sid (chan c r)"
  shows "tables_ok (set_chan r ch c)"
  using assms by (simp add: tables_ok_def registered_def chan_set_chan)

lemma states_set_chan:
  assumes "states_ok c" and "chan_ok (ch_states ch) (circ_states c)"
    and "ch_sid ch \<noteq> None \<Longrightarrow> 2 \<le> state_rank (fst (ch_states ch))"
  shows "states_ok (set_chan r ch c)"
  using assms set_update_subset_insert [of "circ_store c" r ch]
  by (auto simp: states_ok_def set_chan_def dest!: subsetD)

lemma subs_set_chan [simp]: "subs_ok (set_chan r ch c) = subs_ok c"
  by (simp add: subs_ok_def)

section \<open>Circuit states\<close>

lemma circuit_target: "lookup COMMAND_TRIGGERED_CIRCUIT_TRANSITIONS r st c \<noteq> Some DISCONNECTED"
proof -
  have "list_all (\<lambda>r. list_all (\<lambda>(st, d). list_all (\<lambda>(c, x). x \<noteq> DISCONNECTED) d)
      (COMMAND_TRIGGERED_CIRCUIT_TRANSITIONS r)) [CLIENT, SERVER]" by code_simp
  then show ?thesis
    by (cases r) (fastforce simp: lookup_def list_all_iff split: option.splits dest!: map_of_SomeD)+
qed

lemma fire_connected:
  assumes "connected st" and "CircuitState_fire r cls st = Inr st'"
  shows "connected st'"
  using assms circuit_target [of r "get_state r st" cls]
  by (cases r; cases st) (auto simp: connected_def CircuitState_fire_def fire_command_triggered_transitions_def
      lookup_def getitem_def split: option.splits)

lemma update_channel_connected: "connected (circ_states c) \<Longrightarrow> update_channel r c = c"
  by (simp add: update_channel_def connected_def update_connected Let_def)

lemma update_channels_connected: "connected (circ_states c) \<Longrightarrow> update_channels c = c"
proof -
  assume c: "connected (circ_states c)"
  have "fold update_channel rs c = c" for rs by (induction rs) (simp_all add: update_channel_connected [OF c])
  then show ?thesis by (simp add: update_channels_def)
qed

text \<open>On consistent states the two calls of the circuit's machine are one step of the pair.\<close>

lemma circuit_command_step:
  assumes "circ_states c \<in> set circuit_pairs"
  shows "circuit_command m c =
    (case circuit_step (our_role c) (msg_class m) (circ_states c) of
       (st, Inl e) \<Rightarrow> (c\<lparr>circ_states := st\<rparr>, Inl e)
     | (st, Inr _) \<Rightarrow>
         (case process_version m (c\<lparr>circ_states := st\<rparr>) of (c', Inl e) \<Rightarrow> (c', Inl e) | (c', Inr _) \<Rightarrow> (c', Inr [])))"
proof (cases "CircuitState_fire (our_role c) (msg_class m) (circ_states c)")
  case (Inl e)
  then show ?thesis by (simp add: circuit_command_def circuit_step_def CircuitState_process_command_type_def)
next
  case (Inr st)
  have "circ_states c \<noteq> CircuitState_disconnected"
    using Inr disconnected_lookup [of "our_role c" "msg_class m"]
    by (cases "our_role c")
      (auto simp: CircuitState_fire_def CircuitState_disconnected_def fire_command_triggered_transitions_def lookup_def getitem_def
        split: option.splits)
  with circuit_pairs_connected [OF assms] have conn: "connected (circ_states c)" by (auto simp: connected_def)
  note st = fire_connected [OF conn Inr]
  show ?thesis
  proof (cases "CircuitState_fire (their_role c) (msg_class m) st")
    case inl: (Inl e)
    with Inr st show ?thesis
      by (simp add: circuit_command_def circuit_step_def CircuitState_process_command_type_def update_channels_connected)
  next
    case inr: (Inr st')
    have "connected st'" using fire_connected [OF st inr] .
    with Inr inr st show ?thesis
      by (simp add: circuit_command_def circuit_step_def CircuitState_process_command_type_def update_channels_connected)
  qed
qed

section \<open>Channels only move forward\<close>

lemma lookup_rank: "lookup COMMAND_TRIGGERED_CHANNEL_TRANSITIONS r st c = Some x \<Longrightarrow> state_rank st \<le> state_rank x"
proof -
  have "list_all (\<lambda>r. list_all (\<lambda>(st, d). list_all (\<lambda>(c, x). state_rank st \<le> state_rank x) d)
      (COMMAND_TRIGGERED_CHANNEL_TRANSITIONS r)) [CLIENT, SERVER]" by code_simp
  then show "lookup COMMAND_TRIGGERED_CHANNEL_TRANSITIONS r st c = Some x \<Longrightarrow> state_rank st \<le> state_rank x"
    by (cases r) (fastforce simp: lookup_def list_all_iff split: option.splits dest!: map_of_SomeD)+
qed

lemma STT_rank: "dget (STATE_TRIGGERED_TRANSITIONS r) (s, t) = Some (a, b) \<Longrightarrow> state_rank s \<le> state_rank a"
proof -
  have "list_all (\<lambda>r. list_all (\<lambda>((s, t), (a, b)). state_rank s \<le> state_rank a) (STATE_TRIGGERED_TRANSITIONS r)) [CLIENT, SERVER]"
    by code_simp
  then show "dget (STATE_TRIGGERED_TRANSITIONS r) (s, t) = Some (a, b) \<Longrightarrow> state_rank s \<le> state_rank a"
    by (cases r) (fastforce simp: list_all_iff dest!: map_of_SomeD)+
qed

lemma fire_state_rank:
  "state_rank (get_state q (fst p)) \<le> state_rank (get_state q (fst (fire_state_triggered_transitions r p)))"
proof -
  obtain a b ci where "p = ((a, b), ci)" by (cases p) auto
  then show ?thesis
    by (cases q; cases r)
      (auto simp: fire_state_triggered_transitions_def split: option.splits dest: STT_rank)
qed

lemma update_rank: "state_rank (get_state q (fst p)) \<le> state_rank (get_state q (fst (ChannelState_update p)))"
  unfolding ChannelState_update_def using fire_state_rank order_trans by blast

lemma process_rank:
  assumes "ChannelState_process_command_type r c p = Inr p'"
  shows "state_rank (get_state q (fst p)) \<le> state_rank (get_state q (fst p'))"
proof -
  obtain ch ci where p: "p = (ch, ci)" by (cases p)
  with assms obtain ch' where f: "fire_command_triggered_transitions COMMAND_TRIGGERED_CHANNEL_TRANSITIONS r c ch = Inr ch'"
    and p': "p' = ChannelState_update (ch', ci)"
    by (auto simp: ChannelState_process_command_type_def bindE_eq_Inr)
  from f obtain x where x: "lookup COMMAND_TRIGGERED_CHANNEL_TRANSITIONS r (get_state r ch) c = Some x"
    and ch': "ch' = set_state r x ch"
    by (auto simp: fire_command_triggered_transitions_def lookup_def bindE_eq_Inr getitem_simps split: option.splits)
  have "state_rank (get_state q ch) \<le> state_rank (get_state q ch')"
    using lookup_rank [OF x] ch' by (cases q; cases r; cases ch) auto
  also have "\<dots> \<le> state_rank (get_state q (fst p'))" using update_rank [of q "(ch', ci)"] p' by simp
  finally show ?thesis using p by simp
qed

lemma channel_step_rank:
  "state_rank (get_state q (fst p)) \<le> state_rank (get_state q (fst (fst (channel_step our c p))))"
proof -
  have "state_rank (get_state q (fst p)) \<le> state_rank (get_state q (fst (fst (process_roles rs c p))))" for rs
  proof (induction rs arbitrary: p)
    case (Cons r rs)
    show ?case
    proof (cases "ChannelState_process_command_type r c p")
      case (Inr p')
      obtain p'' res where r: "process_roles rs c p' = (p'', res)" by fastforce
      have "fst (process_roles (r # rs) c p) = p''" using Inr r by (cases res) (simp_all add: Let_def)
      with process_rank [OF Inr, of q] Cons.IH [of p'] r show ?thesis by simp
    qed simp
  qed simp
  then show ?thesis by (simp only: channel_step_def)
qed

lemma create_client:
  assumes "ChannelState_process_command_type CLIENT CreateChanResponse p = Inr p'"
  shows "state_rank (get_state CLIENT (fst p)) < 2 \<and> 2 \<le> state_rank (get_state CLIENT (fst p'))"
proof -
  have chk: "list_all (\<lambda>(st, d). dget d CreateChanResponse = None \<or> st = AWAIT_CREATE_CHAN_RESPONSE \<and> dget d CreateChanResponse = Some CONNECTED)
      (COMMAND_TRIGGERED_CHANNEL_TRANSITIONS CLIENT)" by code_simp
  obtain a b ci where p: "p = ((a, b), ci)" by (cases p) auto
  from assms obtain d x where d: "dget (COMMAND_TRIGGERED_CHANNEL_TRANSITIONS CLIENT) a = Some d" "dget d CreateChanResponse = Some x"
    and p': "p' = ChannelState_update ((x, b), ci)"
    by (auto simp: p ChannelState_process_command_type_def fire_command_triggered_transitions_def bindE_eq_Inr getitem_simps
        split: option.splits)
  from chk map_of_SomeD [OF d(1)] d(2) have "a = AWAIT_CREATE_CHAN_RESPONSE" "x = CONNECTED"
    by (auto simp: list_all_iff)
  with p p' update_rank [of CLIENT "((x, b), ci)"] show ?thesis by simp
qed

lemma create_step:
  assumes "channel_step our CreateChanResponse p = (p', Inr ts)"
  shows "state_rank (get_state CLIENT (fst p)) < 2 \<and> 2 \<le> state_rank (get_state CLIENT (fst p'))"
proof (cases our)
  case CLIENT
  with assms obtain p1 where p1: "ChannelState_process_command_type CLIENT CreateChanResponse p = Inr p1"
    "ChannelState_process_command_type SERVER CreateChanResponse p1 = Inr p'"
    by (auto simp: channel_step_def Let_def split: sum.splits)
  from create_client [OF p1(1)] process_rank [OF p1(2), of CLIENT] show ?thesis by simp
next
  case SERVER
  with assms obtain p1 where p1: "ChannelState_process_command_type SERVER CreateChanResponse p = Inr p1"
    "ChannelState_process_command_type CLIENT CreateChanResponse p1 = Inr p'"
    by (auto simp: channel_step_def Let_def split: sum.splits)
  from create_client [OF p1(2)] process_rank [OF p1(1), of CLIENT] show ?thesis by simp
qed

section \<open>Preservation\<close>

lemma wf_init: "VirtualCircuit_init role addr prio ver = Inr c \<Longrightarrow> wf_circuit c"
  by (auto simp: VirtualCircuit_init_def wf_circuit_def tables_ok_def states_ok_def subs_ok_def
      CircuitState_init_def circuit_pairs_def split: if_splits)

lemma tables_fields [simp]:
  "tables_ok (c\<lparr>circ_states := a\<rparr>) = tables_ok c" "tables_ok (c\<lparr>circ_data := b\<rparr>) = tables_ok c"
  "tables_ok (c\<lparr>event_add_commands := e\<rparr>) = tables_ok c" "tables_ok (c\<lparr>event_cancel_commands := e\<rparr>) = tables_ok c"
  "tables_ok (c\<lparr>protocol_version := v\<rparr>) = tables_ok c" "tables_ok (c\<lparr>circ_priority := p\<rparr>) = tables_ok c"
  by (simp_all add: tables_ok_def registered_def)

lemma states_fields [simp]:
  "states_ok (c\<lparr>circ_data := b\<rparr>) = states_ok c" "states_ok (c\<lparr>circ_ioids := i\<rparr>) = states_ok c"
  "states_ok (c\<lparr>circ_channels := d\<rparr>) = states_ok c" "states_ok (c\<lparr>circ_channels_sid := d\<rparr>) = states_ok c"
  "states_ok (c\<lparr>event_add_commands := e\<rparr>) = states_ok c" "states_ok (c\<lparr>event_cancel_commands := e\<rparr>) = states_ok c"
  "states_ok (c\<lparr>protocol_version := v\<rparr>) = states_ok c" "states_ok (c\<lparr>circ_priority := p\<rparr>) = states_ok c"
  by (simp_all add: states_ok_def)

lemma subs_fields [simp]:
  "subs_ok (c\<lparr>circ_states := a\<rparr>) = subs_ok c" "subs_ok (c\<lparr>circ_data := b\<rparr>) = subs_ok c"
  "subs_ok (c\<lparr>circ_ioids := i\<rparr>) = subs_ok c" "subs_ok (c\<lparr>circ_channels := d\<rparr>) = subs_ok c"
  "subs_ok (c\<lparr>circ_channels_sid := d\<rparr>) = subs_ok c" "subs_ok (c\<lparr>protocol_version := v\<rparr>) = subs_ok c"
  "subs_ok (c\<lparr>circ_priority := p\<rparr>) = subs_ok c" "subs_ok (c\<lparr>circ_store := s\<rparr>) = subs_ok c"
  by (simp_all add: subs_ok_def)

lemma wf_set_chan:
  assumes "wf_circuit c" and "ch_cid ch = ch_cid (chan c r)" and "ch_sid ch = ch_sid (chan c r)"
    and "chan_ok (ch_states ch) (circ_states c)" and "ch_sid ch \<noteq> None \<Longrightarrow> 2 \<le> state_rank (fst (ch_states ch))"
  shows "wf_circuit (set_chan r ch c)"
  using assms tables_set_chan [of c ch r] states_set_chan [of c ch r] by (simp add: wf_circuit_def)

text \<open>Every channel of the store, for references within it.\<close>

lemma wf_chan:
  assumes "wf_circuit c" and "r < length (circ_store c)"
  shows "chan_ok (ch_states (chan c r)) (circ_states c)"
    and "ch_sid (chan c r) \<noteq> None \<Longrightarrow> 2 \<le> state_rank (fst (ch_states (chan c r)))"
  using assms chan_in_store [OF assms(2)] by (auto simp: wf_circuit_def states_ok_def)

lemma wf_set_versions:
  assumes "wf_circuit c"
  shows "wf_circuit (set_versions v c)"
proof -
  let ?f = "\<lambda>r c. set_chan r ((chan c r)\<lparr>ch_protocol_version := v\<rparr>) c"
  have step: "wf_circuit (?f r c)" if "wf_circuit c" for r c
  proof (cases "r < length (circ_store c)")
    case True
    with that wf_chan [OF that True] show ?thesis by (intro wf_set_chan) auto
  next
    case False
    with that show ?thesis by (simp add: set_chan_def list_update_beyond)
  qed
  have "wf_circuit c \<Longrightarrow> wf_circuit (fold ?f rs c)" for rs c
    by (induction rs arbitrary: c) (use step in auto)
  moreover have "wf_circuit (c\<lparr>protocol_version := v\<rparr>)" using assms by (simp add: wf_circuit_def)
  ultimately show ?thesis by (simp add: set_versions_def)
qed

lemma wf_process_version: "wf_circuit c \<Longrightarrow> wf_circuit (fst (process_version m c))"
  using wf_set_versions by (auto simp: process_version_def wf_circuit_def)

lemma wf_circ_states:
  assumes "wf_circuit c"
  shows "wf_circuit (c\<lparr>circ_states := fst (circuit_step our cls (circ_states c))\<rparr>)"
proof -
  have p: "circ_states c \<in> set circuit_pairs" using assms by (simp add: wf_circuit_def states_ok_def)
  let ?st = "fst (circuit_step our cls (circ_states c))"
  have st: "?st \<in> set circuit_pairs" using circuit_machine.step_pairs [OF p] by (simp add: circuit_step_pair)
  have "circ_states c = CircuitState_disconnected \<Longrightarrow> ?st = CircuitState_disconnected"
    using circuit_machine.step_cases [OF p, of cls our] disconnected_lookup
    by (auto simp: circuit_step_pair CircuitState_disconnected_def)
  then have "chan_ok ch (circ_states c) \<Longrightarrow> chan_ok ch ?st" for ch
    by (auto simp: chan_ok_def)
  with assms st show ?thesis by (auto simp: wf_circuit_def states_ok_def)
qed

lemma wf_circuit_command:
  assumes "wf_circuit c"
  shows "wf_circuit (fst (circuit_command m c))"
proof -
  have p: "circ_states c \<in> set circuit_pairs" using assms by (simp add: wf_circuit_def states_ok_def)
  obtain st res where s: "circuit_step (our_role c) (msg_class m) (circ_states c) = (st, res)" by fastforce
  have w: "wf_circuit (c\<lparr>circ_states := st\<rparr>)" using wf_circ_states [OF assms, of "our_role c" "msg_class m"] s by simp
  show ?thesis
  proof (cases res)
    case (Inl e)
    with s w show ?thesis by (simp add: circuit_command_step [OF p])
  next
    case (Inr u)
    obtain c' r where v: "process_version m (c\<lparr>circ_states := st\<rparr>) = (c', r)" by fastforce
    with wf_process_version [OF w, of m] have "wf_circuit c'" by simp
    with Inr s v show ?thesis by (cases r) (simp_all add: circuit_command_step [OF p])
  qed
qed

lemma circ_states_same [simp]: "(set_chan r ch c)\<lparr>circ_states := circ_states c\<rparr> = set_chan r ch c"
  by (simp add: set_chan_def)

lemma wf_update_channel:
  assumes "wf_circuit c" and "r < length (circ_store c)"
  shows "\<exists>st. update_channel r c = set_chan r ((chan c r)\<lparr>ch_states := st\<rparr>) c
    \<and> ChannelState_update (ch_states (chan c r), circ_states c) = (st, circ_states c) \<and> wf_circuit (update_channel r c)"
proof -
  have p: "circ_states c \<in> set circuit_pairs" using assms by (simp add: wf_circuit_def states_ok_def)
  from update_ok [OF p wf_chan(1) [OF assms]] obtain st where
    st: "ChannelState_update (ch_states (chan c r), circ_states c) = (st, circ_states c)" "chan_ok st (circ_states c)"
    by auto
  have "state_rank (fst (ch_states (chan c r))) \<le> state_rank (fst st)"
    using update_rank [of CLIENT "(ch_states (chan c r), circ_states c)"] st(1)
    by (cases st; cases "ch_states (chan c r)") simp
  then have "wf_circuit (set_chan r ((chan c r)\<lparr>ch_states := st\<rparr>) c)"
    using assms st wf_chan(2) [OF assms] by (intro wf_set_chan) auto
  with st show ?thesis by (intro exI [of _ st]) (simp add: update_channel_def)
qed

lemma wf_update_fold:
  assumes "wf_circuit c" and "\<forall>r \<in> set rs. r < length (circ_store c)"
  shows "wf_circuit (fold update_channel rs c)"
  using assms
proof (induction rs arbitrary: c)
  case (Cons r rs)
  then obtain st where "update_channel r c = set_chan r ((chan c r)\<lparr>ch_states := st\<rparr>) c" "wf_circuit (update_channel r c)"
    using wf_update_channel [of c r] by auto
  with Cons show ?case by auto
qed simp

lemma channel_refs:
  assumes "wf_circuit c" and "r \<in> set (map snd (circ_channels c))"
  shows "r < length (circ_store c)"
proof -
  from assms(2) obtain k where "(k, r) \<in> set (circ_channels c)" by auto
  with assms(1) have "dget (circ_channels c) k = Some r"
    by (simp add: wf_circuit_def tables_ok_def wf_dict_values)
  with assms(1) show ?thesis by (simp add: wf_circuit_def tables_ok_def)
qed

lemma wf_states_disconnected:
  assumes "wf_circuit c"
  shows "wf_circuit (c\<lparr>circ_states := CircuitState_disconnected\<rparr>)"
proof -
  have "CircuitState_disconnected \<in> set circuit_pairs"
    by (simp add: CircuitState_disconnected_def circuit_pairs_def)
  with assms show ?thesis by (auto simp: wf_circuit_def states_ok_def chan_ok_def)
qed

lemma wf_disconnect:
  assumes "wf_circuit c"
  shows "wf_circuit (CircuitState_disconnect c)"
  using wf_update_fold [OF wf_states_disconnected [OF assms]] channel_refs [OF assms]
  by (auto simp: CircuitState_disconnect_def update_channels_def)

section \<open>Commands of a channel\<close>

lemma registered_refs: "registered c r \<Longrightarrow> r < length (circ_store c)"
  by (simp add: registered_def)

lemma wf_ioids_del:
  assumes "wf_circuit c"
  shows "wf_circuit (c\<lparr>circ_ioids := ddel i (circ_ioids c)\<rparr>)"
  using assms by (auto simp: wf_circuit_def tables_ok_def registered_def dict_simps split: if_splits)

lemma BaseChannel_init_Inr:
  assumes "wf_circuit c" and "dget (circ_channels c) cid = None" and "BaseChannel_init mk_filter name cid c = (c', Inr r)"
  shows "wf_circuit c' \<and> registered c' r \<and> r = length (circ_store c) \<and> ch_states (chan c' r) = ChannelState_init
    \<and> ch_cid (chan c' r) = cid \<and> our_role c' = our_role c"
proof -
  from assms(3) obtain flt where "mk_filter name = Inr flt" and r: "r = length (circ_store c)"
    and c': "c' = c\<lparr>circ_store := circ_store c @ [\<lparr>ch_name = name, ch_cid = cid, ch_sid = None,
      ch_protocol_version = protocol_version c, ch_filter = flt, ch_states = ChannelState_init, ch_native_data_type = None,
      ch_native_data_count = None, ch_access_rights = None\<rparr>], circ_channels := dset cid r (circ_channels c)\<rparr>"
    by (auto simp: BaseChannel_init_def Let_def split: sum.splits)
  have old: "chan c' q = chan c q" if "q < length (circ_store c)" for q
    using that by (simp add: c' chan_def nth_append)
  have new: "ch_cid (chan c' r) = cid" "ch_states (chan c' r) = ChannelState_init" "length (circ_store c') = Suc r"
    by (simp_all add: c' chan_def r)
  have reg: "registered c q \<Longrightarrow> registered c' q" for q
    using assms(2) old [of q] by (auto simp: registered_def c' dict_simps)
  have t: "tables_ok c" "states_ok c" "subs_ok c" using assms(1) by (auto simp: wf_circuit_def)
  have "tables_ok c'"
    using t(1) old new reg r registered_refs [of c]
    by (auto simp: tables_ok_def c' dict_simps less_SucI split: if_splits)
  moreover have "states_ok c'"
    using t(2) by (auto simp: states_ok_def c' chan_ok_def ChannelState_init_def channel_pairs_def)
  moreover have "subs_ok c'" using t(3) by (simp add: c')
  ultimately show ?thesis
    using new r by (auto simp: wf_circuit_def registered_def c' dict_simps)
qed

lemma BaseChannel_init_Inl: "BaseChannel_init mk_filter name cid c = (c', Inl e) \<Longrightarrow> c' = c"
  by (auto simp: BaseChannel_init_def Let_def split: sum.splits)

lemma tables_registered:
  assumes "wf_circuit c"
  shows "dget (circ_channels c) k = Some r \<Longrightarrow> registered c r"
    and "dget (circ_channels_sid c) s = Some r \<Longrightarrow> registered c r"
    and "dget (circ_ioids c) i = Some r \<Longrightarrow> registered c r"
  using assms by (auto simp: wf_circuit_def tables_ok_def registered_def)

lemma lookup_channel_ok:
  assumes "wf_circuit c" and "lookup_channel mk_filter m c = (c', res)"
  shows "wf_circuit c' \<and> our_role c' = our_role c \<and> (\<forall>r. res = Inr (Some r) \<longrightarrow> registered c' r)"
proof -
  note reg = tables_registered [OF assms(1)]
  have bind: "bindE (getitem d k) (\<lambda>r. Inr (Some r)) = Inr (Some r) \<longleftrightarrow> dget d k = Some r" for d :: "(int, ref) dict" and k r
    by (auto simp: bindE_eq_Inr getitem_simps)
  consider (create) "in_cls m [CreateChanRequest]" "dget (circ_channels c) (msg_cid m) = None"
    | (ioid) r where "c' = c\<lparr>circ_ioids := ddel (msg_ioid m) (circ_ioids c)\<rparr>" "res = Inr (Some r)" "registered c r"
    | (same) "c' = c" "\<forall>r. res = Inr (Some r) \<longrightarrow> registered c r"
  proof (cases "in_cls m [ReadNotifyRequest, WriteNotifyRequest, WriteRequest, ReadRequest, EventAddRequest]")
    case True
    with assms(2) reg(2) have "c' = c \<and> (\<forall>r. res = Inr (Some r) \<longrightarrow> registered c r)"
      by (auto simp: lookup_channel_def Let_def split: option.splits)
    then show ?thesis using same by blast
  next
    case no_sid: False
    show ?thesis
    proof (cases "in_cls m [ReadNotifyResponse, ReadResponse, WriteNotifyResponse]")
      case True
      show ?thesis
      proof (cases "dget (circ_ioids c) (msg_ioid m)")
        case None
        with True no_sid assms(2) show ?thesis by (intro same) (auto simp: lookup_channel_def Let_def)
      next
        case (Some r)
        with True no_sid assms(2) reg(3) show ?thesis by (intro ioid [of r]) (auto simp: lookup_channel_def Let_def)
      qed
    next
      case no_ioid: False
      show ?thesis
      proof (cases "in_cls m [CreateChanRequest]")
        case True
        then have "\<not> in_cls m [EventCancelRequest]" "\<not> in_cls m [EventAddResponse, EventCancelResponse]"
          by (simp_all add: in_cls_def)
        note no = this no_sid no_ioid
        show ?thesis
        proof (cases "dget (circ_channels c) (msg_cid m)")
          case None
          with True show ?thesis by (rule create)
        next
          case (Some r)
          with True no assms(2) reg(1) show ?thesis by (intro same) (auto simp: lookup_channel_def Let_def)
        qed
      next
        case False
        with no_sid no_ioid assms(2) reg(1,2) have "c' = c \<and> (\<forall>r. res = Inr (Some r) \<longrightarrow> registered c r)"
          by (simp add: lookup_channel_def Let_def bind split: if_splits option.splits)
            (auto simp: bind)
        then show ?thesis using same by blast
      qed
    qed
  qed
  then show ?thesis
  proof cases
    case create
    then have cls: "msg_class m = CreateChanRequest" by (simp add: in_cls_def)
    show ?thesis
    proof (cases "msg_name m")
      case (Inl e)
      with create cls assms show ?thesis by (auto simp: lookup_channel_def in_cls_def Let_def)
    next
      case (Inr name)
      obtain c1 res1 where b: "BaseChannel_init mk_filter name (msg_cid m) c = (c1, res1)" by fastforce
      show ?thesis
      proof (cases res1)
        case inl: (Inl e)
        with b BaseChannel_init_Inl [of mk_filter name "msg_cid m" c c1 e] Inr create cls assms show ?thesis
          by (auto simp: lookup_channel_def in_cls_def Let_def)
      next
        case inr: (Inr r)
        with b BaseChannel_init_Inr [OF assms(1) create(2)] Inr create cls assms(2) show ?thesis
          by (auto simp: lookup_channel_def in_cls_def Let_def)
      qed
    qed
  next
    case (ioid r)
    with wf_ioids_del [OF assms(1)] show ?thesis by (simp add: registered_def)
  next
    case same
    with assms(1) show ?thesis by simp
  qed
qed

lemma registered_set_chan:
  "registered c q \<Longrightarrow> ch_cid ch = ch_cid (chan c r) \<Longrightarrow> registered (set_chan r ch c) q"
  by (auto simp: registered_def chan_set_chan)

lemma channel_process_ok:
  assumes "wf_circuit c" and "registered c r" and "channel_process_command m r c = (c', res)"
  shows "wf_circuit c' \<and> registered c' r \<and> our_role c' = our_role c
    \<and> (msg_class m = CreateChanResponse \<and> \<not> isl res \<longrightarrow>
        ch_sid (chan c' r) = None \<and> 2 \<le> state_rank (fst (ch_states (chan c' r))))"
proof -
  have r: "r < length (circ_store c)" using assms(2) by (rule registered_refs)
  have p: "circ_states c \<in> set circuit_pairs" using assms by (simp add: wf_circuit_def states_ok_def)
  let ?ch = "chan c r"
  let ?pre = "if msg_class m = CreateChanResponse
     then bindE (msg_data_type m) (\<lambda>t. Inr (?ch\<lparr>ch_native_data_type := Some t, ch_native_data_count := Some (msg_data_count m)\<rparr>))
     else Inr ?ch"
  have pre: "?pre = Inr ch \<Longrightarrow> ch_cid ch = ch_cid ?ch \<and> ch_sid ch = ch_sid ?ch \<and> ch_states ch = ch_states ?ch" for ch
    by (auto simp: bindE_eq_Inr split: if_splits)
  consider (err) e where "c' = c" "res = Inl e"
    | (step) ch where "ch_cid ch = ch_cid ?ch" "ch_sid ch = ch_sid ?ch" "ch_states ch = ch_states ?ch"
      "(c', res) = (case channel_step (our_role c) (msg_class m) (ch_states ?ch, circ_states c) of
             ((st, circ), result) \<Rightarrow>
               ((set_chan r (ch\<lparr>ch_states := st\<rparr>) c)\<lparr>circ_states := circ\<rparr>, bindE result (\<lambda>ts. Inr (map (\<lambda>t. (r, t)) ts))))"
  proof (cases ?pre)
    case (Inl e)
    with assms(3) show ?thesis by (intro err [of e]) (simp_all add: channel_process_command_def)
  next
    case (Inr ch)
    with assms(3) pre [OF Inr] show ?thesis by (intro step [of ch]) (simp_all add: channel_process_command_def)
  qed
  then show ?thesis
  proof cases
    case err
    with assms show ?thesis by simp
  next
    case (step ch)
    obtain st result where s: "channel_step (our_role c) (msg_class m) (ch_states ?ch, circ_states c) = ((st, circ_states c), result)"
      and ok: "chan_ok st (circ_states c)"
      using channel_step_ok [OF p wf_chan(1) [OF assms(1) r]] by blast
    have c': "c' = set_chan r (ch\<lparr>ch_states := st\<rparr>) c" and res: "res = bindE result (\<lambda>ts. Inr (map (\<lambda>t. (r, t)) ts))"
      using step(4) by (simp_all add: s)
    have fst_get: "fst x = get_state CLIENT x" for x by (cases x) simp
    have "state_rank (fst (ch_states ?ch)) \<le> state_rank (fst st)"
      using channel_step_rank [of CLIENT "(ch_states ?ch, circ_states c)" "our_role c" "msg_class m"] s by (simp add: fst_get)
    then have "wf_circuit c'"
      unfolding c' using assms(1) step ok wf_chan(2) [OF assms(1) r] by (intro wf_set_chan) auto
    moreover have "ch_sid (chan c' r) = None \<and> 2 \<le> state_rank (fst (ch_states (chan c' r)))"
      if "msg_class m = CreateChanResponse" "\<not> isl res"
    proof -
      from that(2) obtain ts where "result = Inr ts" using res by (cases result) auto
      with create_step [of "our_role c" "(ch_states ?ch, circ_states c)" "(st, circ_states c)" ts] s that(1)
      have "state_rank (fst (ch_states ?ch)) < 2" "2 \<le> state_rank (fst st)" by (auto simp: fst_get)
      moreover from this(1) wf_chan(2) [OF assms(1) r] have "ch_sid ?ch = None" by (cases "ch_sid ?ch") auto
      ultimately show ?thesis using step(2) c' r by (simp add: chan_set_chan)
    qed
    moreover have "registered c' r" unfolding c' using assms(2) step(1) by (intro registered_set_chan) auto
    ultimately show ?thesis by (simp add: c')
  qed
qed

lemma wf_remove_channel:
  assumes "wf_circuit c" and "registered c r"
  shows "wf_circuit (fst (remove_channel r c))"
proof -
  have t: "tables_ok c" "states_ok c" "subs_ok c" using assms(1) by (auto simp: wf_circuit_def)
  have sid: "tables_ok (c\<lparr>circ_channels_sid := ddel s (circ_channels_sid c)\<rparr>)" for s
    using t(1) by (auto simp: tables_ok_def registered_def dict_simps split: if_splits)
  have flt: "dget (filter (\<lambda>(k, v). v \<noteq> r) d) i = Some q \<Longrightarrow> wf_dict d \<Longrightarrow> dget d i = Some q \<and> q \<noteq> r" for d :: "(int, ref) dict" and i q
    by (auto simp: wf_dict_values [symmetric] dest!: map_of_SomeD)
  have dist: "wf_dict d \<Longrightarrow> wf_dict (filter P d)" for d :: "(int, ref) dict" and P
    by (simp add: wf_dict_def distinct_map_filter)
  let ?s = "the (ch_sid (chan c r))" and ?k = "ch_cid (chan c r)"
  let ?c = "c\<lparr>circ_channels_sid := ddel ?s (circ_channels_sid c), circ_channels := ddel ?k (circ_channels c),
      circ_ioids := filter (\<lambda>(k, v). v \<noteq> r) (circ_ioids c)\<rparr>"
  have "tables_ok ?c" if r: "ch_sid (chan c r) = Some ?s"
  proof -
    have keep: "registered ?c q" if "registered c q" "q \<noteq> r" for q
      using that assms(2) by (auto simp: registered_def dict_simps)
    have ne: "q \<noteq> r" if "dget (circ_channels_sid c) s = Some q" "s \<noteq> ?s" for s q
      using that r t(1) by (auto simp: tables_ok_def)
    have d: "wf_dict (circ_channels c)" "wf_dict (circ_channels_sid c)" "wf_dict (circ_ioids c)"
      using t(1) by (simp_all add: tables_ok_def)
    show ?thesis
      unfolding tables_ok_def
    proof (intro conjI allI impI)
      fix k q
      assume "dget (circ_channels ?c) k = Some q"
      then have "dget (circ_channels c) k = Some q" by (simp add: dict_simps split: if_splits)
      then show "q < length (circ_store ?c)" "ch_cid (chan ?c q) = k" using t(1) by (simp_all add: tables_ok_def)
    next
      fix s q
      assume "dget (circ_channels_sid ?c) s = Some q"
      then have "dget (circ_channels_sid c) s = Some q" "s \<noteq> ?s" by (simp_all add: dict_simps split: if_splits)
      with ne keep t(1) show "registered ?c q" "ch_sid (chan ?c q) = Some s" by (simp_all add: tables_ok_def)
    next
      fix i q
      assume "dget (circ_ioids ?c) i = Some q"
      then have "dget (circ_ioids c) i = Some q \<and> q \<noteq> r" using flt [of "circ_ioids c" i q] d(3) by simp
      moreover from this t(1) have "registered c q" unfolding tables_ok_def by blast
      ultimately show "registered ?c q" using keep by blast
    qed (use d dist in simp_all)
  qed
  with t sid show ?thesis
    by (auto simp: remove_channel_def Let_def wf_circuit_def split: option.splits)
qed

lemma wf_post_update:
  assumes "wf_circuit c" and "registered c r"
    and "msg_class m = CreateChanResponse \<Longrightarrow> ch_sid (chan c r) = None \<and> 2 \<le> state_rank (fst (ch_states (chan c r)))"
  shows "wf_circuit (fst (post_update m r c))"
proof -
  have t: "tables_ok c" "states_ok c" "subs_ok c" using assms(1) by (auto simp: wf_circuit_def)
  have r: "r < length (circ_store c)" by (rule registered_refs [OF assms(2)])
  consider "msg_class m = AccessRightsResponse" | "msg_class m = CreateChanResponse"
    | "in_cls m [ServerDisconnResponse, ClearChannelResponse]" | "in_cls m [ReadNotifyRequest, ReadRequest, WriteNotifyRequest]"
    | "msg_class m = EventAddRequest" | "msg_class m = EventCancelRequest" | "msg_class m = EventCancelResponse"
    | "msg_class m \<notin> {AccessRightsResponse, CreateChanResponse, ServerDisconnResponse, ClearChannelResponse, ReadNotifyRequest,
        ReadRequest, WriteNotifyRequest, EventAddRequest, EventCancelRequest, EventCancelResponse}"
    by (auto simp: in_cls_def)
  then show ?thesis
  proof cases
    case 1
    with assms(1) wf_chan [OF assms(1) r] show ?thesis
      by (simp add: post_update_def in_cls_def) (intro wf_set_chan, auto)
  next
    case 2
    let ?ch = "(chan c r)\<lparr>ch_sid := Some (msg_sid m), ch_protocol_version := protocol_version c\<rparr>"
    let ?c = "(set_chan r ?ch c)\<lparr>circ_channels_sid := dset (msg_sid m) r (circ_channels_sid c)\<rparr>"
    have f: "ch_sid (chan c r) = None" "2 \<le> state_rank (fst (ch_states (chan c r)))" using assms(3) 2 by auto
    have reg: "registered c q \<Longrightarrow> registered ?c q" for q by (auto simp: registered_def chan_set_chan)
    have "tables_ok ?c"
      using t(1) f(1) r reg assms(2) by (auto simp: tables_ok_def dict_simps chan_set_chan split: if_splits)
    moreover have "states_ok (set_chan r ?ch c)"
      using t(2) f(2) wf_chan(1) [OF assms(1) r] by (intro states_set_chan) auto
    ultimately show ?thesis using 2 t(3) by (simp add: post_update_def in_cls_def wf_circuit_def)
  next
    case 3
    with wf_remove_channel [OF assms(1,2)] show ?thesis by (auto simp: post_update_def in_cls_def)
  next
    case 4
    have "tables_ok (c\<lparr>circ_ioids := dset (msg_ioid m) r (circ_ioids c)\<rparr>)"
      using t(1) assms(2) by (auto simp: tables_ok_def registered_def dict_simps split: if_splits)
    with 4 t show ?thesis by (auto simp: post_update_def in_cls_def wf_circuit_def)
  next
    case 5
    then have "subs_ok (c\<lparr>event_add_commands := dset (msg_subscriptionid m) m (event_add_commands c)\<rparr>)"
      using t(3) by (auto simp: subs_ok_def dict_simps)
    with 5 t show ?thesis by (simp add: post_update_def in_cls_def wf_circuit_def)
  next
    case 6
    have "subs_ok (c\<lparr>event_cancel_commands := dset (msg_subscriptionid m) ev (event_cancel_commands c)\<rparr>)"
      if "dget (event_add_commands c) (msg_subscriptionid m) = Some ev" for ev
      using t(3) that by (auto simp: subs_ok_def dict_simps)
    with 6 t show ?thesis
      by (auto simp: post_update_def in_cls_def wf_circuit_def split: option.splits)
  next
    case 7
    let ?k = "msg_subscriptionid m"
    have "subs_ok (c\<lparr>event_add_commands := ddel ?k (event_add_commands c)\<rparr>)" if "dget (event_cancel_commands c) ?k = None"
      using t(3) that by (auto simp: subs_ok_def dict_simps split: if_splits)
    moreover have "subs_ok (c\<lparr>event_add_commands := ddel ?k (event_add_commands c),
        event_cancel_commands := ddel ?k (event_cancel_commands c)\<rparr>)"
      using t(3) by (auto simp: subs_ok_def dict_simps split: if_splits)
    ultimately show ?thesis using 7 t by (simp add: post_update_def in_cls_def wf_circuit_def Let_def)
  next
    case 8
    then have "post_update m r c = (c, Inr ())" by (simp add: post_update_def in_cls_def)
    with assms(1) show ?thesis by simp
  qed
qed

lemma wf_channel_command:
  assumes "wf_circuit c"
  shows "wf_circuit (fst (channel_command mk_filter m c))"
proof -
  obtain c1 res1 where l: "lookup_channel mk_filter m c = (c1, res1)" by fastforce
  note l1 = lookup_channel_ok [OF assms l]
  show ?thesis
  proof (cases "\<exists>r. res1 = Inr (Some r) \<and> validate_subscription c1 m = Inr ()")
    case True
    then obtain r where r: "res1 = Inr (Some r)" "validate_subscription c1 m = Inr ()" by blast
    obtain c2 res2 where p: "channel_process_command m r c1 = (c2, res2)" by fastforce
    note p2 = channel_process_ok [OF _ _ p]
    obtain c3 res3 where u: "post_update m r c2 = (c3, res3)" by fastforce
    show ?thesis
    proof (cases res2)
      case (Inl e)
      with l r p l1 p2 show ?thesis by (simp add: channel_command_def)
    next
      case (Inr cb)
      with l1 r p2 have "wf_circuit (fst (post_update m r c2))" by (intro wf_post_update) auto
      with l r p u Inr show ?thesis by (cases res3) (simp_all add: channel_command_def)
    qed
  next
    case False
    with l l1 show ?thesis
      by (auto simp: channel_command_def split: sum.splits option.splits)
  qed
qed

lemma wf_process_command:
  assumes "wf_circuit c"
  shows "wf_circuit (fst (process_command_internal mk_filter cmd c))"
  using assms wf_disconnect [OF assms] wf_channel_command [OF assms] wf_circuit_command [OF assms]
  by (auto simp: process_command_internal_def split: command.splits sum.splits)

end
