(* ===== verification/CA_Roundtrip.thy ===== *)
theory CA_Roundtrip
  imports CA_Wire
begin

text \<open>
  What one peer serialises the other parses: messages built by the constructors of \<open>CA_Constructors\<close>
  are written by \<^verbatim>\<open>Message.__bytes__\<close> and read back by \<^verbatim>\<open>read_from_bytestream\<close> and \<^verbatim>\<open>read_datagram\<close>.
\<close>

section \<open>Definitions\<close>

text \<open>
  A header the stream parser reads at its own size: a plain header that does not look like an extended
  one, or an extended header with its markers.
\<close>

fun wf_header :: "header \<Rightarrow> bool" where
  "wf_header (Plain h) \<longleftrightarrow> \<not> (mh_payload_size h = 0xFFFF \<and> mh_data_count h = 0)"
| "wf_header (Extended h) \<longleftrightarrow> xh_marker1 h = 0xFFFF \<and> xh_marker2 h = 0"

definition wire_ready :: "message \<Rightarrow> bool" where
  "wire_ready m \<longleftrightarrow> wf_header (msg_header m) \<and>
     int (length (concat (msg_buffers m))) = h_payload_size (msg_header m) \<and> 8 dvd h_payload_size (msg_header m)"

text \<open>The role that sends a class of command.\<close>

definition sender_role :: "command_class \<Rightarrow> Role" where
  "sender_role c = (case DIRECTION c of REQUEST \<Rightarrow> CLIENT | RESPONSE \<Rightarrow> SERVER)"

text \<open>The data payload has the size its data type and data count announce.\<close>

definition data_fits :: "message \<Rightarrow> bool" where
  "data_fits m =
     (case channel_type_key (h_data_type (msg_header m)) of
        Inl _ \<Rightarrow> False
      | Inr t \<Rightarrow>
          (case (bindE (native_type t) dbr_sizeof, dbr_sizeof t, msg_buffers m) of
             (Inr item, Inr md, a # b # _) \<Rightarrow>
               length a = (if has_metadata t then md else 0)
               \<and> length b = nat (h_data_count (msg_header m)) * item
           | _ \<Rightarrow> False))"

text \<open>The messages the constructors build, but for \<^verbatim>\<open>EventCancelResponse\<close>, which has its own theorem.\<close>

inductive constructed :: "message \<Rightarrow> bool" where
  "VersionRequest_init priority version = Inr m \<Longrightarrow> constructed m"
| "VersionResponse_init version = Inr m \<Longrightarrow> constructed m"
| "SearchRequest_init name cid version reply = Inr m \<Longrightarrow> constructed m"
| "SearchResponse_init port ip cid version = Inr m \<Longrightarrow> constructed m"
| "NotFoundResponse_init version cid = Inr m \<Longrightarrow> constructed m"
| "EchoRequest_init = Inr m \<Longrightarrow> constructed m"
| "EchoResponse_init = Inr m \<Longrightarrow> constructed m"
| "Beacon_init version server_port beacon_id addr = Inr m \<Longrightarrow> constructed m"
| "RepeaterConfirmResponse_init addr = Inr m \<Longrightarrow> constructed m"
| "RepeaterRegisterRequest_init addr = Inr m \<Longrightarrow> constructed m"
| "EventAddRequest_init data_type data_count sid subscriptionid low high to msk = Inr m \<Longrightarrow> constructed m"
| "EventAddResponse_init (to_epics :: ChannelType \<Rightarrow> int list \<Rightarrow> bytes result)
     (mk_dbr :: ChannelType \<Rightarrow> int list \<Rightarrow> bytes result) data data_type data_count status subscriptionid md = Inr m
     \<Longrightarrow> data_fits m \<Longrightarrow> constructed m"
| "EventCancelRequest_init data_type sid subscriptionid = Inr m \<Longrightarrow> constructed m"
| "ReadRequest_init data_type data_count sid ioid = Inr m \<Longrightarrow> constructed m"
| "ReadResponse_init (to_epics :: ChannelType \<Rightarrow> int list \<Rightarrow> bytes result)
     (mk_dbr :: ChannelType \<Rightarrow> int list \<Rightarrow> bytes result) data data_type data_count sid ioid md = Inr m
     \<Longrightarrow> data_fits m \<Longrightarrow> constructed m"
| "WriteRequest_init (to_epics :: ChannelType \<Rightarrow> int list \<Rightarrow> bytes result)
     (mk_dbr :: ChannelType \<Rightarrow> int list \<Rightarrow> bytes result) data data_type data_count sid ioid md = Inr m
     \<Longrightarrow> data_fits m \<Longrightarrow> constructed m"
| "EventsOffRequest_init = Inr m \<Longrightarrow> constructed m"
| "EventsOnRequest_init = Inr m \<Longrightarrow> constructed m"
| "ReadSyncRequest_init = Inr m \<Longrightarrow> constructed m"
| "ErrorResponse_init original_request cid status error_message = Inr m \<Longrightarrow> constructed m"
| "ClearChannelRequest_init sid cid = Inr m \<Longrightarrow> constructed m"
| "ClearChannelResponse_init sid cid = Inr m \<Longrightarrow> constructed m"
| "ReadNotifyRequest_init data_type data_count sid ioid = Inr m \<Longrightarrow> constructed m"
| "ReadNotifyResponse_init (to_epics :: ChannelType \<Rightarrow> int list \<Rightarrow> bytes result)
     (mk_dbr :: ChannelType \<Rightarrow> int list \<Rightarrow> bytes result) data data_type data_count status ioid md = Inr m
     \<Longrightarrow> data_fits m \<Longrightarrow> constructed m"
| "CreateChanRequest_init name cid version = Inr m \<Longrightarrow> constructed m"
| "CreateChanResponse_init data_type data_count cid sid = Inr m \<Longrightarrow> constructed m"
| "WriteNotifyRequest_init (to_epics :: ChannelType \<Rightarrow> int list \<Rightarrow> bytes result)
     (mk_dbr :: ChannelType \<Rightarrow> int list \<Rightarrow> bytes result) data data_type data_count sid ioid md = Inr m
     \<Longrightarrow> data_fits m \<Longrightarrow> constructed m"
| "WriteNotifyResponse_init data_type data_count status ioid = Inr m \<Longrightarrow> constructed m"
| "ClientNameRequest_init name = Inr m \<Longrightarrow> constructed m"
| "HostNameRequest_init name = Inr m \<Longrightarrow> constructed m"
| "AccessRightsResponse_init cid access_rights = Inr m \<Longrightarrow> constructed m"
| "CreateChFailResponse_init cid = Inr m \<Longrightarrow> constructed m"
| "ServerDisconnResponse_init cid = Inr m \<Longrightarrow> constructed m"

text \<open>The shapes of payload a class can have after construction.\<close>

definition plain_shape :: "message \<Rightarrow> bool" where
  "plain_shape m \<longleftrightarrow>
     (\<not> HAS_PAYLOAD (msg_class m) \<and> msg_buffers m = [])
   \<or> (msg_class m \<in> {SearchRequest, ErrorResponse, CreateChanRequest, ClientNameRequest, HostNameRequest}
        \<and> (\<exists>p. msg_buffers m = [[], p]))
   \<or> (msg_class m = SearchResponse \<and> (\<exists>p. msg_buffers m = [p]))
   \<or> (msg_class m = EventAddRequest \<and> (\<exists>p. length p = 16 \<and> msg_buffers m = [p]))"

definition data_shape :: "message \<Rightarrow> bool" where
  "data_shape m \<longleftrightarrow>
     msg_class m \<in> {EventAddResponse, ReadResponse, WriteRequest, ReadNotifyResponse, WriteNotifyRequest}
     \<and> data_fits m
     \<and> (\<exists>md d. take 2 (msg_buffers m) = [md, d]
          \<and> concat (msg_buffers m) = ljust0 (padded_len (md @ d)) (md @ d))"

definition markers_ok :: "header \<Rightarrow> bool" where
  "markers_ok h = (case h of Plain _ \<Rightarrow> True | Extended x \<Rightarrow> xh_marker1 x = 0xFFFF \<and> xh_marker2 x = 0)"

definition sound_message :: "message \<Rightarrow> bool" where
  "sound_message m \<longleftrightarrow> wire_ready m \<and> h_command (msg_header m) = class_ID (msg_class m) \<and> msg_sender m = None"

text \<open>What the peer gets: the padding is cut off, and an empty \<^verbatim>\<open>EventAddResponse\<close> has no buffers.\<close>

definition received :: "message \<Rightarrow> message" where
  "received m = m\<lparr>msg_buffers :=
     (if msg_class m = EventAddResponse \<and> concat (msg_buffers m) = [] then [] else take 2 (msg_buffers m))\<rparr>"

text \<open>What a datagram gives: classes without a payload lose the address of the sender.\<close>

definition datagram_message :: "address \<Rightarrow> message \<Rightarrow> message" where
  "datagram_message address m = (received m)\<lparr>msg_sender := if HAS_PAYLOAD (msg_class m) then Some address else None\<rparr>"

definition shaped :: "message \<Rightarrow> bool" where
  "shaped m \<longleftrightarrow> sound_message m \<and> (plain_shape m \<or> data_shape m)"

section \<open>Headers and padding\<close>

lemma bytes_needed_header:
  assumes "wf_header h" and "length payload = nat (h_payload_size h)"
  shows "bytes_needed_for_command (header_bytes h @ payload @ rest) = Inr (Some h, 0)"
proof (cases h)
  case (Plain p)
  have "\<not> (h_payload_size h = 0xFFFF \<and> h_data_count h = 0)"
    using assms(1) Plain
    by (metis h_payload_size.simps(1) h_data_count.simps(1) wf_header.simps(1) uint_0_iff
        word_of_int_uint of_int_numeral)
  with assms(2) Plain show ?thesis
    by (auto simp: bytes_needed_for_command_def mhc.enc_length Let_def)
next
  case (Extended x)
  with assms show ?thesis
    by (simp add: bytes_needed_for_command_def from_buffer_xheader_plain xhc.enc_length Let_def)
qed

lemma padded_len_ge: "length s \<le> padded_len s" and padded_len_dvd: "8 dvd padded_len s"
  by (simp_all add: padded_len_def)

lemma padded_len_dvd_eq: "8 dvd length s \<Longrightarrow> padded_len s = length s"
  by (auto simp: padded_len_def elim!: dvdE)

lemma message_bytes_ready:
  "wire_ready m \<Longrightarrow> message_bytes m = header_bytes (msg_header m) @ concat (msg_buffers m)"
  by (auto simp: message_bytes_def wire_ready_def Let_def padded_len_dvd_eq ljust0_id)
    (metis int_dvd_int_iff int_nat_eq ljust0_id nat_int of_nat_numeral order_refl padded_len_dvd_eq)

lemma read_ready:
  assumes "wire_ready m"
  shows "read_from_bytestream (message_bytes m @ rest) role =
    bindE (get_command_class role (msg_header m)) (\<lambda>cls.
    bindE (from_wire cls (msg_header m) (concat (msg_buffers m)) None)
      (\<lambda>command. Inr (rest, Some command, 0)))"
proof -
  let ?h = "msg_header m" and ?p = "concat (msg_buffers m)"
  have len: "length ?p = nat (h_payload_size ?h)" and wf: "wf_header ?h"
    using assms by (auto simp: wire_ready_def)
  have "slice (sizeof_header ?h) (sizeof_header ?h + nat (h_payload_size ?h)) (header_bytes ?h @ ?p @ rest) = ?p"
    using slice_append_exact [of "header_bytes ?h" "sizeof_header ?h" ?p rest] len by simp
  then show ?thesis
    using read_full [OF bytes_needed_header [OF wf len, of rest]] len
    by (simp add: message_bytes_ready [OF assms])
qed

section \<open>The registry\<close>

lemma Commands_lookup: "DIRECTION c = REQUEST \<Longrightarrow> dget (Commands CLIENT) (class_ID c) = Some c"
    "DIRECTION c = RESPONSE \<Longrightarrow> dget (Commands SERVER) (class_ID c) = Some c"
proof -
  have "list_all (\<lambda>c. dget (Commands (sender_role c)) (class_ID c) = Some c) all_classes"
    by code_simp
  moreover have "c \<in> set all_classes" by (cases c) (simp_all add: all_classes_def)
  ultimately have "dget (Commands (sender_role c)) (class_ID c) = Some c"
    by (simp add: list_all_iff)
  then show "DIRECTION c = REQUEST \<Longrightarrow> dget (Commands CLIENT) (class_ID c) = Some c"
    "DIRECTION c = RESPONSE \<Longrightarrow> dget (Commands SERVER) (class_ID c) = Some c"
    by (simp_all add: sender_role_def)
qed

lemma class_lookup: "h_command h = class_ID c \<Longrightarrow> get_command_class (sender_role c) h = Inr c"
  using Commands_lookup [of c]
  by (cases "DIRECTION c") (simp_all add: get_command_class_def sender_role_def)

section \<open>What the constructors build\<close>

lemma markers_made [simp]: "markers_ok (MessageHeader c p t n a b)" "markers_ok (ExtendedMessageHeader c p t n a b)"
  by (simp_all add: markers_ok_def MessageHeader_def ExtendedMessageHeader_def MARKER1_def MARKER2_def)

lemma wf_header_aligned: "markers_ok h \<Longrightarrow> 8 dvd h_payload_size h \<Longrightarrow> wf_header h"
  by (cases h) (auto simp: markers_ok_def)

lemma Message_init_Inr:
  assumes "Message_init cls h bufs = Inr m"
  shows "m = from_components cls h bufs None"
    and "cls \<notin> {VersionRequest, EventCancelResponse} \<Longrightarrow>
      h_payload_size h = int (length (concat bufs)) \<and> h_command h = class_ID cls"
  using assms
  by (auto simp: Message_init_def Let_def bindE_eq_Inr validate_def validate_default_def from_components_def
      length_concat split: command_class.splits if_splits)

lemma Message_init_sound:
  assumes "Message_init cls h bufs = Inr m" and "cls \<notin> {VersionRequest, EventCancelResponse}"
    and "markers_ok h" and "8 dvd length (concat bufs)"
  shows "sound_message m" "msg_class m = cls" "msg_header m = h" "msg_buffers m = bufs"
proof -
  have m: "m = from_components cls h bufs None"
    and h: "h_payload_size h = int (length (concat bufs))" "h_command h = class_ID cls"
    using Message_init_Inr [OF assms(1)] assms(2) by auto
  have "8 dvd h_payload_size h"
    using assms(4) h by (metis int_dvd_int_iff of_nat_numeral)
  with m h wf_header_aligned [OF assms(3)] show "sound_message m" "msg_class m = cls" "msg_header m = h" "msg_buffers m = bufs"
    by (simp_all add: sound_message_def wire_ready_def from_components_def)
qed

lemma padded_payload: "padded_string_payload name = Inr (n, payload) \<Longrightarrow> length payload = n \<and> 8 dvd n"
  by (auto simp: padded_string_payload_def Let_def bindE_eq_Inr max_absorb1 padded_len_ge padded_len_dvd)

lemma ljust0_pad: "ljust0 (padded_len s) s = s @ pad_buffer (length s mod 8)"
proof -
  have "length s mod 8 \<noteq> 0 \<Longrightarrow> (length s mod 8 + 7) div 8 = 1"
    by (rule div_nat_eqI) (use mod_less_divisor [of 8 "length s"] in simp_all)
  then have "padded_len s = length s - length s mod 8 + (if length s mod 8 = 0 then 0 else 8)"
    by (simp add: padded_len_def div_add1_eq [of "length s" 7 8] algebra_simps minus_mod_eq_mult_div)
  moreover have "length s mod 8 \<le> length s" by simp
  ultimately have "padded_len s - length s = (if length s mod 8 = 0 then 0 else 8 - length s mod 8)"
    by (simp split: if_splits)
  then show ?thesis by (auto simp: ljust0_def pad_buffer_def)
qed

lemma data_payload_shape:
  assumes "data_payload to_epics mk_dbr data md dt dc = Inr (n, bufs)"
  shows "\<exists>a b. take 2 bufs = [a, b] \<and> concat bufs = ljust0 (padded_len (a @ b)) (a @ b)"
    and "8 dvd length (concat bufs)"
proof -
  from assms obtain a b where b: "bufs = [a, b] @ (let p = pad_buffer (length (a @ b) mod 8) in if p \<noteq> [] then [p] else [])"
    by (auto simp: data_payload_def pad_buffers_def Let_def bindE_eq_Inr split: if_splits)
  then have c: "concat bufs = ljust0 (padded_len (a @ b)) (a @ b)"
    by (simp add: ljust0_pad Let_def)
  with b show "\<exists>a b. take 2 bufs = [a, b] \<and> concat bufs = ljust0 (padded_len (a @ b)) (a @ b)"
    by (intro exI [of _ a] exI [of _ b]) simp
  from c show "8 dvd length (concat bufs)"
    using padded_len_ge [of "a @ b"] padded_len_dvd [of "a @ b"] by (simp add: max_def)
qed

lemma sizeof_header_dvd: "8 dvd sizeof_header h"
  by (cases h) simp_all

lemma length_ea_bytes [simp]: "length (ea_bytes p) = 16"
  by (simp add: ea_bytes_def)

lemma markers_all [simp]:
  "markers_ok (VersionRequestHeader a b)"
  "markers_ok (VersionResponseHeader a)"
  "markers_ok (SearchRequestHeader a b c d)"
  "markers_ok (SearchResponseHeader a b c)"
  "markers_ok (NotFoundResponseHeader a b c)"
  "markers_ok EchoRequestHeader"
  "markers_ok EchoResponseHeader"
  "markers_ok (BeaconHeader a b c d)"
  "markers_ok (RepeaterConfirmResponseHeader a)"
  "markers_ok (RepeaterRegisterRequestHeader a)"
  "markers_ok (EventAddRequestHeader a b c d)"
  "markers_ok (EventAddResponseHeader a b c d e)"
  "markers_ok (EventCancelRequestHeader a b c d)"
  "markers_ok (EventCancelResponseHeader a b c d)"
  "markers_ok (ReadRequestHeader a b c d)"
  "markers_ok (ReadResponseHeader a b c d e)"
  "markers_ok (WriteRequestHeader a b c d e)"
  "markers_ok EventsOffRequestHeader"
  "markers_ok EventsOnRequestHeader"
  "markers_ok ReadSyncRequestHeader"
  "markers_ok (ErrorResponseHeader a b c)"
  "markers_ok (ClearChannelRequestHeader a b)"
  "markers_ok (ClearChannelResponseHeader a b)"
  "markers_ok (ReadNotifyRequestHeader a b c d)"
  "markers_ok (ReadNotifyResponseHeader a b c d e)"
  "markers_ok (CreateChanRequestHeader a b c)"
  "markers_ok (CreateChanResponseHeader a b c d)"
  "markers_ok (WriteNotifyRequestHeader a b c d e)"
  "markers_ok (WriteNotifyResponseHeader a b c d)"
  "markers_ok (ClientNameRequestHeader a)"
  "markers_ok (HostNameRequestHeader a)"
  "markers_ok (AccessRightsResponseHeader a b)"
  "markers_ok (CreateChFailResponseHeader a)"
  "markers_ok (ServerDisconnResponseHeader a)"
  by (simp_all add: header_defs)

text \<open>A class without payload, a class with a text payload, a class with a data payload.\<close>

lemma init_empty:
  assumes "Message_init cls h [] = Inr m" "\<not> HAS_PAYLOAD cls" "cls \<notin> {VersionRequest, EventCancelResponse}" "markers_ok h"
  shows "shaped m"
  using Message_init_sound [OF assms(1,3,4)] assms(2) by (simp add: shaped_def plain_shape_def)

lemma init_text:
  assumes "Message_init cls h [[], p] = Inr m" "markers_ok h" "8 dvd length p"
    "cls \<in> {SearchRequest, ErrorResponse, CreateChanRequest, ClientNameRequest, HostNameRequest}"
  shows "shaped m"
proof -
  have "cls \<notin> {VersionRequest, EventCancelResponse}" using assms(4) by auto
  from Message_init_sound [OF assms(1) this assms(2)] assms(3,4) show ?thesis
    by (auto simp: shaped_def plain_shape_def)
qed

lemma init_single:
  assumes "Message_init cls h [p] = Inr m" "markers_ok h" "8 dvd length p"
    "cls = SearchResponse \<or> cls = EventAddRequest \<and> length p = 16"
  shows "shaped m"
proof -
  have "cls \<notin> {VersionRequest, EventCancelResponse}" using assms(4) by auto
  from Message_init_sound [OF assms(1) this assms(2)] assms(3,4) show ?thesis
    by (auto simp: shaped_def plain_shape_def)
qed

lemma init_data:
  assumes "data_payload to_epics mk_dbr data md dt dc = Inr (n, bufs)" "Message_init cls h bufs = Inr m"
    "markers_ok h" "data_fits m"
    "cls \<in> {EventAddResponse, ReadResponse, WriteRequest, ReadNotifyResponse, WriteNotifyRequest}"
  shows "shaped m"
proof -
  have "cls \<notin> {VersionRequest, EventCancelResponse}" using assms(5) by auto
  from Message_init_sound [OF assms(2) this assms(3) data_payload_shape(2) [OF assms(1)]]
    data_payload_shape(1) [OF assms(1)] assms(4,5) show ?thesis
    by (simp add: shaped_def data_shape_def)
qed

lemmas init_defs =
  VersionRequest_init_def VersionResponse_init_def SearchRequest_init_def SearchResponse_init_def
  NotFoundResponse_init_def EchoRequest_init_def EchoResponse_init_def Beacon_init_def
  RepeaterConfirmResponse_init_def RepeaterRegisterRequest_init_def EventAddRequest_init_def
  EventAddResponse_init_def EventCancelRequest_init_def EventCancelResponse_init_def ReadRequest_init_def
  ReadResponse_init_def WriteRequest_init_def EventsOffRequest_init_def EventsOnRequest_init_def
  ReadSyncRequest_init_def ErrorResponse_init_def ClearChannelRequest_init_def ClearChannelResponse_init_def
  ReadNotifyRequest_init_def ReadNotifyResponse_init_def CreateChanRequest_init_def
  CreateChanResponse_init_def WriteNotifyRequest_init_def WriteNotifyResponse_init_def
  ClientNameRequest_init_def HostNameRequest_init_def AccessRightsResponse_init_def
  CreateChFailResponse_init_def ServerDisconnResponse_init_def

lemma constructed_sound: "constructed m \<Longrightarrow> shaped m"
proof (induction rule: constructed.induct)
  case (1 priority version m)
  then have "m = from_components VersionRequest (VersionRequestHeader priority version) [] None"
    unfolding VersionRequest_init_def by (rule Message_init_Inr(1))
  then show ?case
    by (simp add: shaped_def sound_message_def wire_ready_def plain_shape_def from_components_def header_defs
        wf_header_aligned HAS_PAYLOAD_def)
next
  case (3 name cid version reply m)
  then show ?case
    by (cases name)
      (auto simp: SearchRequest_init_def bindE_eq_Inr dest!: padded_payload intro: init_text split: if_splits)
next
  case (14 data_type data_count sid ioid m)
  then show ?case
    by (auto simp: shaped_def ReadRequest_init_def header_defs bindE_eq_Inr plain_shape_def sound_message_def
        from_components_def HAS_PAYLOAD_def wire_ready_def wf_header_aligned)
qed (auto simp: init_defs bindE_eq_Inr Let_def HAS_PAYLOAD_def sizeof_header_dvd
       dest!: padded_payload intro: init_empty init_text init_single init_data)

section \<open>Parsing what was built\<close>

lemma from_wire_text:
  "cls \<in> {SearchRequest, ErrorResponse, CreateChanRequest, ClientNameRequest, HostNameRequest} \<Longrightarrow>
     from_wire cls h p s = Inr (from_components cls h [[], p] s)"
  by (auto simp: from_wire_def HAS_PAYLOAD_def)

lemma from_wire_single:
  "from_wire SearchResponse h p s = Inr (from_components SearchResponse h [p] s)"
  "length p = 16 \<Longrightarrow> from_wire EventAddRequest h p s = Inr (from_components EventAddRequest h [p] s)"
  by (simp_all add: from_wire_def HAS_PAYLOAD_def)

lemma from_wire_dbr:
  "cls \<in> {EventAddResponse, ReadResponse, WriteRequest, ReadNotifyResponse, WriteNotifyRequest} \<Longrightarrow>
     from_wire cls h p s =
       (if cls = EventAddResponse \<and> p = [] then Inr (from_components cls h [] s)
        else bindE (from_buffer (h_data_type h) (h_data_count h) p) (\<lambda>bufs. Inr (from_components cls h bufs s)))"
  by (auto simp: from_wire_def HAS_PAYLOAD_def)

lemma from_components_self:
  "msg_buffers m = bufs \<Longrightarrow> from_components (msg_class m) (msg_header m) bufs s = m\<lparr>msg_sender := s\<rparr>"
  by (cases m) (simp add: from_components_def)

lemma from_wire_plain:
  assumes "plain_shape m"
  shows "from_wire (msg_class m) (msg_header m) (concat (msg_buffers m)) s
      = Inr (m\<lparr>msg_sender := if HAS_PAYLOAD (msg_class m) then s else None\<rparr>)"
    and "received m = m"
proof -
  consider (empty) "\<not> HAS_PAYLOAD (msg_class m)" "msg_buffers m = []"
    | (string) p where "msg_class m \<in> {SearchRequest, ErrorResponse, CreateChanRequest, ClientNameRequest, HostNameRequest}"
      "msg_buffers m = [[], p]"
    | (search) p where "msg_class m = SearchResponse" "msg_buffers m = [p]"
    | (add) p where "msg_class m = EventAddRequest" "length p = 16" "msg_buffers m = [p]"
    using assms by (auto simp: plain_shape_def)
  then show "from_wire (msg_class m) (msg_header m) (concat (msg_buffers m)) s
      = Inr (m\<lparr>msg_sender := if HAS_PAYLOAD (msg_class m) then s else None\<rparr>)"
  proof cases
    case empty
    then show ?thesis by (simp add: from_wire_def from_components_self)
  next
    case (string p)
    then have "HAS_PAYLOAD (msg_class m)" by (auto simp: HAS_PAYLOAD_def)
    with string show ?thesis by (simp add: from_wire_text from_components_self)
  next
    case (search p)
    then show ?thesis
      using from_components_self [of m "[p]" s] by (simp add: from_wire_single HAS_PAYLOAD_def)
  next
    case (add p)
    then show ?thesis
      using from_components_self [of m "[p]" s] by (simp add: from_wire_single HAS_PAYLOAD_def)
  qed
  have "msg_class m \<noteq> EventAddResponse" "length (msg_buffers m) \<le> 2"
    using assms by (auto simp: plain_shape_def HAS_PAYLOAD_def)
  then show "received m = m" by (simp add: received_def)
qed

lemma from_buffer_data:
  assumes "data_fits m" and "take 2 (msg_buffers m) = [a, b]"
  shows "from_buffer (h_data_type (msg_header m)) (h_data_count (msg_header m)) (a @ b @ pad) = Inr [a, b]"
proof -
  obtain rest where bufs: "msg_buffers m = a # b # rest"
    using assms(2) by (cases "msg_buffers m"; cases "tl (msg_buffers m)") auto
  with assms(1) obtain t nt item md
    where t: "channel_type_key (h_data_type (msg_header m)) = Inr t" "native_type t = Inr nt"
      "dbr_sizeof nt = Inr item" "dbr_sizeof t = Inr md"
      and len: "length a = (if has_metadata t then md else 0)"
      "length b = nat (h_data_count (msg_header m)) * item"
    by (auto simp: data_fits_def bindE_eq_Inr split: sum.splits)
  have "slice (length a) (length a + length b) (a @ b @ pad) = b"
    by (rule slice_append_exact) simp
  with t len show ?thesis by (cases "has_metadata t") (simp_all add: from_buffer_def Let_def)
qed

lemma from_wire_data:
  assumes "data_shape m"
  shows "from_wire (msg_class m) (msg_header m) (concat (msg_buffers m)) s = Inr ((received m)\<lparr>msg_sender := s\<rparr>)"
proof -
  from assms obtain a b where ab: "take 2 (msg_buffers m) = [a, b]"
    and c: "concat (msg_buffers m) = a @ b @ replicate (padded_len (a @ b) - length (a @ b)) 0"
    and cls: "msg_class m \<in> {EventAddResponse, ReadResponse, WriteRequest, ReadNotifyResponse, WriteNotifyRequest}"
    and f: "data_fits m"
    by (auto simp: data_shape_def ljust0_def)
  note fb = from_buffer_data [OF f ab, of "replicate (padded_len (a @ b) - length (a @ b)) 0"]
  show ?thesis
  proof (cases "msg_class m = EventAddResponse \<and> concat (msg_buffers m) = []")
    case True
    then show ?thesis by (cases m) (simp add: from_wire_dbr received_def from_components_def)
  next
    case False
    then have "from_wire (msg_class m) (msg_header m) (concat (msg_buffers m)) s
        = Inr (from_components (msg_class m) (msg_header m) [a, b] s)"
      using fb by (simp only: from_wire_dbr [OF cls] c if_False bindE_simps)
    with False ab show ?thesis by (cases m) (simp add: received_def from_components_def)
  qed
qed

lemma from_wire_shaped:
  assumes "shaped m"
  shows "from_wire (msg_class m) (msg_header m) (concat (msg_buffers m)) s
    = Inr ((received m)\<lparr>msg_sender := if HAS_PAYLOAD (msg_class m) then s else None\<rparr>)"
proof (cases "plain_shape m")
  case True
  then show ?thesis by (simp add: from_wire_plain)
next
  case False
  with assms have "data_shape m" by (simp add: shaped_def)
  moreover from this have "HAS_PAYLOAD (msg_class m)" by (auto simp: data_shape_def HAS_PAYLOAD_def)
  ultimately show ?thesis by (simp add: from_wire_data)
qed

lemma read_constructed:
  assumes "constructed m"
  shows "read_from_bytestream (message_bytes m @ rest) (sender_role (msg_class m)) = Inr (rest, Some (received m), 0)"
proof -
  from constructed_sound [OF assms]
  have ready: "wire_ready m" and cmd: "h_command (msg_header m) = class_ID (msg_class m)"
    and sender: "msg_sender m = None"
    by (auto simp: shaped_def sound_message_def)
  have "(received m)\<lparr>msg_sender := None\<rparr> = received m" using sender by (cases m) (simp add: received_def)
  then have "from_wire (msg_class m) (msg_header m) (concat (msg_buffers m)) None = Inr (received m)"
    using from_wire_shaped [OF constructed_sound [OF assms], of None] by simp
  then show ?thesis by (simp add: read_ready [OF ready] class_lookup [OF cmd])
qed

lemma received_bytes:
  assumes "constructed m"
  shows "message_bytes (received m) = message_bytes m"
proof (cases "plain_shape m")
  case False
  with constructed_sound [OF assms] obtain a b where ready: "wire_ready m"
    and ab: "take 2 (msg_buffers m) = [a, b]"
    and c: "concat (msg_buffers m) = ljust0 (padded_len (a @ b)) (a @ b)"
    by (auto simp: shaped_def sound_message_def data_shape_def)
  have "length (a @ b) \<le> nat (h_payload_size (msg_header m))"
    using ready c padded_len_ge [of "a @ b"] by (auto simp: wire_ready_def)
  moreover have "concat (msg_buffers m) = [] \<Longrightarrow> a @ b = []"
    using c by (simp add: ljust0_def)
  ultimately have "take (nat (h_payload_size (msg_header m))) (concat (msg_buffers (received m))) = a @ b"
    using ab by (simp add: received_def)
  then show ?thesis
    unfolding message_bytes_ready [OF ready] c by (simp add: message_bytes_def Let_def received_def)
qed (simp add: from_wire_plain(2))

text \<open>A stream of messages of one peer.\<close>

lemma recv_loop_short: "length d < 16 \<Longrightarrow> recv_loop role d = ([], d, Inr (16 - length d))"
  by (rule ca_stream.drain_need) (simp add: read_need bytes_needed_for_command_def)

lemma recv_constructed:
  assumes "\<forall>m \<in> set ms. constructed m \<and> sender_role (msg_class m) = role" and "length rest < 16"
  shows "recv_loop role (concat (map message_bytes ms) @ rest) = (map received ms, rest, Inr (16 - length rest))"
  using assms
proof (induction ms)
  case (Cons m ms)
  then have "read_from_bytestream (message_bytes m @ (concat (map message_bytes ms) @ rest)) role
      = Inr (concat (map message_bytes ms) @ rest, Some (received m), 0)"
    using read_constructed [of m] by auto
  from ca_stream.drain_command [OF this] Cons show ?case by simp
qed (simp add: recv_loop_short)

text \<open>A datagram of messages with plain headers.\<close>

lemma read_datagram_cons:
  assumes "constructed m" and "msg_header m = Plain h" and "sender_role (msg_class m) = role"
  shows "read_datagram (message_bytes m @ rest) address role =
    bindE (read_datagram rest address role) (\<lambda>commands. Inr (datagram_message address m # commands))"
proof -
  have sh: "shaped m" by (rule constructed_sound [OF assms(1)])
  then have ready: "wire_ready m" and cmd: "h_command (msg_header m) = class_ID (msg_class m)"
    by (auto simp: shaped_def sound_message_def)
  have bytes: "message_bytes m = mheader_bytes h @ concat (msg_buffers m)"
    using message_bytes_ready [OF ready] assms(2) by simp
  have len: "length (concat (msg_buffers m)) = nat (h_payload_size (msg_header m))"
    using ready by (auto simp: wire_ready_def)
  have none: "\<not> HAS_PAYLOAD (msg_class m) \<Longrightarrow> msg_buffers m = []"
    using sh by (auto simp: shaped_def plain_shape_def data_shape_def HAS_PAYLOAD_def)
  have cls: "get_command_class role (Plain h) = Inr (msg_class m)"
    using class_lookup [OF cmd] assms(2,3) by simp
  have "mheader_bytes h \<noteq> []" using mhc.enc_length [of h] by auto
  then show ?thesis
    using from_wire_shaped [OF sh, of "Some address"] none len assms(2)
    by (subst read_datagram.simps)
      (auto simp: bytes cls mhc.enc_length Let_def datagram_message_def)
qed

lemma read_datagram_constructed:
  assumes "\<forall>m \<in> set ms. constructed m \<and> (\<exists>h. msg_header m = Plain h) \<and> sender_role (msg_class m) = role"
  shows "read_datagram (concat (map message_bytes ms)) address role = Inr (map (datagram_message address) ms)"
  using assms
proof (induction ms)
  case Nil
  then show ?case by (simp add: read_datagram.simps)
next
  case (Cons m ms)
  then obtain h where "constructed m" "msg_header m = Plain h" "sender_role (msg_class m) = role" by auto
  from read_datagram_cons [OF this, of "concat (map message_bytes ms)" address] Cons show ?case by simp
qed

section \<open>IPv4 addresses\<close>

lemma split_on_nonempty: "split_on d s \<noteq> []"
  by (cases s) (auto split: list.splits)

lemma split_on_join: "split_on d s = w # ws \<Longrightarrow> s = w @ concat (map (\<lambda>w. d # w) ws)"
proof (induction s arbitrary: w ws)
  case (Cons c s)
  obtain v vs where v: "split_on d s = v # vs" using split_on_nonempty [of d s] by (cases "split_on d s") auto
  note IH = Cons.IH [OF v]
  from Cons.prems v have "c = d \<and> w = [] \<and> ws = v # vs \<or> c \<noteq> d \<and> w = c # v \<and> ws = vs"
    by (auto split: if_splits)
  then show ?case by (elim disjE conjE) (simp_all add: IH [symmetric])
qed simp

lemma of_digit_char [simp]: "x < 10 \<Longrightarrow> of_char (digit_char x) = (48 + x :: nat)"
  by (simp add: digit_char_def)

lemma digit_cases:
  assumes "is_digit c"
  obtains x where "x < 10" "c = digit_char x"
proof
  show "of_char c - 48 < (10 :: nat)" using assms unfolding is_digit_def by linarith
  show "c = digit_char (of_char c - 48)" using assms by (simp add: is_digit_def digit_char_def)
qed

lemma digit_char_facts [simp]:
  "x < 10 \<Longrightarrow> is_digit (digit_char x)" "x < 10 \<Longrightarrow> digit_char x \<noteq> CHR ''.''"
  "x < 10 \<Longrightarrow> digit_char x = CHR ''0'' \<longleftrightarrow> x = 0"
proof -
  assume x: "x < 10"
  then show "is_digit (digit_char x)" by (simp add: is_digit_def)
  have "of_char (digit_char x) = (of_char d :: nat) \<longleftrightarrow> digit_char x = d" for d by (rule of_char_eq_iff)
  from this [of "CHR ''.''"] this [of "CHR ''0''"]
  show "digit_char x \<noteq> CHR ''.''" "digit_char x = CHR ''0'' \<longleftrightarrow> x = 0"
    unfolding of_digit_char [OF x] by (simp_all del: of_char_eq_iff)
qed

lemma decimal_digits: "100 * (n div 100) + 10 * (n div 10 mod 10) + n mod 10 = (n :: nat)"
proof -
  have "n div 100 = n div 10 div 10" by (simp add: div_mult2_eq [symmetric])
  moreover have "n div 10 * 10 + n mod 10 = n" "n div 10 div 10 * 10 + n div 10 mod 10 = n div 10"
    by (rule div_mult_mod_eq)+
  ultimately show ?thesis by linarith
qed

lemma digits_decimal:
  fixes x y z :: nat
  assumes "y < 10" "z < 10"
  shows "(100 * x + 10 * y + z) div 100 = x" "(100 * x + 10 * y + z) div 10 mod 10 = y"
    "(100 * x + 10 * y + z) mod 10 = z"
proof -
  have e: "100 * x + 10 * y + z = (10 * x + y) * 10 + z" by simp
  have t: "((10 * x + y) * 10 + z) div 10 = 10 * x + y" using assms by (intro div_nat_eqI) auto
  show "(100 * x + 10 * y + z) div 10 mod 10 = y" using assms unfolding e t by simp
  show "(100 * x + 10 * y + z) mod 10 = z" using assms unfolding e by (simp only: mod_mult_self3 mod_less)
  show "(100 * x + 10 * y + z) div 100 = x" using assms by (intro div_nat_eqI) auto
qed

lemma parse_show_octet: "n < 256 \<Longrightarrow> parse_octet (show_octet n) = Inr (word_of_nat n)"
proof (cases "n < 100")
  case True
  then show ?thesis by (auto simp: show_octet_def parse_octet_def digits_value_def)
next
  case False
  assume "n < 256"
  with False have "n div 100 < 10" "0 < n div 100" by auto
  moreover have "digits_value (show_octet n) = n"
    using decimal_digits [of n] \<open>n div 100 < 10\<close> False by (simp add: show_octet_def digits_value_def)
  ultimately show ?thesis
    using False \<open>n < 256\<close> by (simp add: parse_octet_def) (simp add: show_octet_def)
qed

lemma show_octet_no_dot: "n < 256 \<Longrightarrow> CHR ''.'' \<notin> set (show_octet n)"
  by (auto simp: show_octet_def dest: sym)

lemma show_parse_octet:
  assumes "parse_octet s = Inr b"
  shows "show_octet (unat b) = s"
proof -
  have s: "s \<noteq> []" "length s \<le> 3" "list_all is_digit s" "length s = 1 \<or> hd s \<noteq> CHR ''0''"
    "digits_value s \<le> 255" and b: "b = word_of_nat (digits_value s)"
    using assms by (auto simp: parse_octet_def split: if_splits)
  then have u: "unat b = digits_value s" by simp
  consider c where "s = [c]" | c d where "s = [c, d]" | c d e where "s = [c, d, e]"
    using s(1,2) by (cases s; cases "tl s"; cases "tl (tl s)") auto
  then show ?thesis
  proof cases
    case 1
    with s obtain x where "x < 10" "c = digit_char x" by (auto elim: digit_cases)
    with 1 u show ?thesis by (simp add: digits_value_def show_octet_def)
  next
    case 2
    with s obtain x y where "x < 10" "c = digit_char x" "y < 10" "d = digit_char y" by (auto elim!: digit_cases)
    with 2 u s(4) show ?thesis by (simp add: digits_value_def show_octet_def)
  next
    case 3
    with s obtain x y z where "x < 10" "c = digit_char x" "y < 10" "d = digit_char y" "z < 10" "e = digit_char z"
      by (auto elim!: digit_cases)
    with 3 u s(4) show ?thesis by (simp add: digits_value_def show_octet_def digits_decimal)
  qed
qed

lemma pton_ntop: "inet_pton (inet_ntop [a, b, c, d]) = Inr [a, b, c, d]"
  using unat_byte_less
  by (simp add: inet_pton_def inet_ntop_def split_on_cons split_on_word show_octet_no_dot parse_show_octet)

lemma ntop_pton:
  assumes "inet_pton ip = Inr bs"
  shows "length bs = 4 \<and> inet_ntop bs = ip"
proof -
  from assms obtain w x y z a b c d where "split_on (CHR ''.'') ip = [w, x, y, z]" "bs = [a, b, c, d]"
    "parse_octet w = Inr a" "parse_octet x = Inr b" "parse_octet y = Inr c" "parse_octet z = Inr d"
    by (auto simp: inet_pton_def bindE_eq_Inr split: list.splits)
  with split_on_join [of "CHR ''.''" ip w "[x, y, z]"] show ?thesis
    by (simp add: inet_ntop_def show_parse_octet)
qed

lemma ipv4_text_int: "ipv4_to_int32 ip = Inr n \<longleftrightarrow> 0 \<le> n \<and> n < 2 ^ 32 \<and> ip = ipv4_from_int32 n"
proof
  assume "ipv4_to_int32 ip = Inr n"
  then obtain bs where bs: "inet_pton ip = Inr bs" and n: "n = uint (un_be32 bs)"
    by (auto simp: ipv4_to_int32_def bindE_eq_Inr)
  from ntop_pton [OF bs] n show "0 \<le> n \<and> n < 2 ^ 32 \<and> ip = ipv4_from_int32 n"
    using uint_lt2p [of "un_be32 bs"] by (simp add: ipv4_from_int32_def u32.enc_dec)
next
  assume n: "0 \<le> n \<and> n < 2 ^ 32 \<and> ip = ipv4_from_int32 n"
  obtain a b c d where bs: "be32 (word_of_int n) = [a, b, c, d]"
    using u32.enc_length [of "word_of_int n"]
    by (cases "be32 (word_of_int n)" rule: list.exhaust) (auto simp: length_Suc_conv eval_nat_numeral)
  then have "un_be32 [a, b, c, d] = word_of_int n" by (metis u32.dec_enc)
  with n bs pton_ntop show "ipv4_to_int32 ip = Inr n"
    by (simp add: ipv4_to_int32_def ipv4_from_int32_def uint_word_of_int)
qed

section \<open>Names\<close>

lemma utf8_ascii: "\<forall>c \<in> set s. c < 128 \<Longrightarrow> utf8_encode s = Inr (map word_of_nat s)"
  by (induction s) (simp_all add: utf8_char_def)

lemma latin1_ascii: "\<forall>c \<in> set s. c < 128 \<Longrightarrow> latin1_decode (map word_of_nat s) = s"
  by (induction s) (auto simp: latin1_decode_def)

lemma utf8_char_length: "utf8_char c = Inr b \<Longrightarrow> 1 \<le> length b \<and> (128 \<le> c \<longrightarrow> 2 \<le> length b)"
  by (auto simp: utf8_char_def split: if_splits)

lemma utf8_length: "utf8_encode s = Inr b \<Longrightarrow> length s \<le> length b \<and> ((\<exists>c \<in> set s. 128 \<le> c) \<longrightarrow> length s < length b)"
proof (induction s arbitrary: b)
  case (Cons c s)
  then obtain x y where b: "utf8_char c = Inr x" "utf8_encode s = Inr y" "b = x @ y"
    by (auto simp: bindE_eq_Inr)
  from Cons.IH [OF b(2)] utf8_char_length [OF b(1)] b(3) show ?case by auto
qed simp

lemma byte_nonzero: "0 < k \<Longrightarrow> k < 256 \<Longrightarrow> (word_of_nat k :: byte) \<noteq> 0"
  by (metis unat_0 unat_byte_of_nat mod_less less_irrefl)

lemma byte_sum_nonzero:
  fixes a r n :: nat
  shows "0 < a \<Longrightarrow> r < n \<Longrightarrow> a + n \<le> 256 \<Longrightarrow> (word_of_nat (a + r) :: byte) \<noteq> 0"
  by (rule byte_nonzero) simp_all

lemma utf8_char_no_zero:
  assumes "utf8_char c = Inr b" and "c \<noteq> 0"
  shows "0 \<notin> set b"
proof -
  have cont: "(word_of_nat (0x80 + k mod 0x40) :: byte) \<noteq> 0" for k
    by (rule byte_sum_nonzero [where n = 64]) simp_all
  consider "c < 0x80" | "0x80 \<le> c" "c < 0x800" | "0x800 \<le> c" "c < 0x10000" | "0x10000 \<le> c" "c < 0x110000"
    | "0x110000 \<le> c" by linarith
  then show ?thesis
  proof cases
    case 1
    then show ?thesis using assms byte_nonzero [of c] by (auto simp: utf8_char_def)
  next
    case 2
    then have "(word_of_nat (0xC0 + c div 0x40) :: byte) \<noteq> 0" by (intro byte_sum_nonzero [where n = 32]) auto
    with 2 assms(1) cont [of c] show ?thesis by (auto simp: utf8_char_def simp del: of_nat_add)
  next
    case 3
    then have "(word_of_nat (0xE0 + c div 0x1000) :: byte) \<noteq> 0" by (intro byte_sum_nonzero [where n = 16]) auto
    with 3 assms(1) cont [of c] cont [of "c div 0x40"] show ?thesis
      by (auto simp: utf8_char_def simp del: of_nat_add split: if_splits)
  next
    case 4
    then have "(word_of_nat (0xF0 + c div 0x40000) :: byte) \<noteq> 0" by (intro byte_sum_nonzero [where n = 16]) auto
    with 4 assms(1) cont [of c] cont [of "c div 0x40"] cont [of "c div 0x1000"] show ?thesis
      by (auto simp: utf8_char_def simp del: of_nat_add split: if_splits)
  next
    case 5
    with assms(1) show ?thesis by (simp add: utf8_char_def)
  qed
qed

lemma utf8_no_zero: "utf8_encode s = Inr b \<Longrightarrow> 0 \<notin> set s \<Longrightarrow> 0 \<notin> set b"
  by (induction s arbitrary: b) (auto simp: bindE_eq_Inr dest: utf8_char_no_zero)

lemma padded_name:
  assumes "padded_string_payload (Str s) = Inr (n, p)" and "0 \<notin> set s"
  obtains b where "utf8_encode s = Inr b" "rstrip0 p = b"
proof -
  from assms(1) obtain b where b: "utf8_encode s = Inr b" and p: "p = ljust0 (padded_len (b @ [0])) (b @ [0])"
    by (auto simp: padded_string_payload_def Let_def bindE_eq_Inr)
  have "rstrip0 p = b" using p utf8_no_zero [OF b assms(2)] by (simp add: rstrip0_no_zero)
  with b show thesis by (rule that)
qed

lemma name_decoded:
  assumes "padded_string_payload (Str s) = Inr (n, p)" and "0 \<notin> set s"
  shows "latin1_decode (rstrip0 p) = s \<longleftrightarrow> (\<forall>c \<in> set s. c < 128)"
proof -
  obtain b where b: "utf8_encode s = Inr b" "rstrip0 p = b" by (rule padded_name [OF assms])
  show ?thesis
  proof
    assume "latin1_decode (rstrip0 p) = s"
    then have "length s = length b" using b by (auto simp: latin1_decode_def)
    with utf8_length [OF b(1)] show "\<forall>c \<in> set s. c < 128" by (metis not_less less_irrefl)
  next
    assume "\<forall>c \<in> set s. c < 128"
    with b utf8_ascii [of s] latin1_ascii [of s] show "latin1_decode (rstrip0 p) = s" by auto
  qed
qed

section \<open>Properties\<close>



text \<open>
  A stream of messages of one peer, cut anywhere in the last header, gives exactly these messages in
  order, keeps the incomplete tail, and asks for the bytes that complete a header.
\<close>

theorem stream_roundtrip:
  assumes "\<forall>m \<in> set ms. constructed m \<and> sender_role (msg_class m) = role" and "length rest < 16"
  shows "recv_loop role (concat (map message_bytes ms) @ rest) = (map received ms, rest, Inr (16 - length rest))"
  by (rule recv_constructed [OF assms])

theorem stream_roundtrip_witness:
  "\<exists>a b. EchoRequest_init = Inr a \<and> ReadNotifyRequest_init 6 1 2 3 = Inr b
     \<and> recv_loop CLIENT (concat (map message_bytes [a, b, a]) @ [0, 23]) = (map received [a, b, a], [0, 23], Inr 14)"
proof -
  define a where "a = projr EchoRequest_init"
  define b where "b = projr (ReadNotifyRequest_init 6 1 2 3)"
  have ab: "EchoRequest_init = Inr a" "ReadNotifyRequest_init 6 1 2 3 = Inr b"
    unfolding a_def b_def by code_simp+
  moreover have "sender_role (msg_class a) = CLIENT" "sender_role (msg_class b) = CLIENT"
    unfolding a_def b_def by code_simp+
  ultimately have "\<forall>m \<in> set [a, b, a]. constructed m \<and> sender_role (msg_class m) = CLIENT"
    by (auto intro: constructed.intros)
  from stream_roundtrip [OF this, of "[0, 23]"] ab show ?thesis by auto
qed

text \<open>
  A datagram of messages with plain headers, built by the constructors, gives these messages in order
  with the address of the sender, which commands without a payload lose.
\<close>

theorem datagram_roundtrip:
  assumes "\<forall>m \<in> set ms. constructed m \<and> (\<exists>h. msg_header m = Plain h) \<and> sender_role (msg_class m) = role"
  shows "read_datagram (concat (map message_bytes ms)) address role = Inr (map (datagram_message address) ms)"
  by (rule read_datagram_constructed [OF assms])

theorem datagram_roundtrip_witness:
  "\<exists>a b. VersionRequest_init 0 13 = Inr a \<and> SearchRequest_init (Str [112, 118]) 3 13 5 = Inr b
     \<and> read_datagram (concat (map message_bytes [a, b])) (''10.0.0.7'', 5065) CLIENT
        = Inr [a, b\<lparr>msg_sender := Some (''10.0.0.7'', 5065)\<rparr>]"
proof -
  define a where "a = projr (VersionRequest_init 0 13)"
  define b where "b = projr (SearchRequest_init (Str [112, 118]) 3 13 5)"
  have ab: "VersionRequest_init 0 13 = Inr a" "SearchRequest_init (Str [112, 118]) 3 13 5 = Inr b"
    unfolding a_def b_def by code_simp+
  have r: "sender_role (msg_class a) = CLIENT" "sender_role (msg_class b) = CLIENT"
    "sizeof_header (msg_header a) = 16" "sizeof_header (msg_header b) = 16"
    "received a = a" "received b = b" "\<not> HAS_PAYLOAD (msg_class a)" "HAS_PAYLOAD (msg_class b)" "msg_sender a = None"
    unfolding a_def b_def by code_simp+
  have plain: "sizeof_header h = 16 \<Longrightarrow> \<exists>p. h = Plain p" for h by (cases h) simp_all
  have "\<forall>m \<in> set [a, b]. constructed m \<and> (\<exists>h. msg_header m = Plain h) \<and> sender_role (msg_class m) = CLIENT"
    using ab r plain by (auto intro: constructed.intros)
  from datagram_roundtrip [OF this] ab r show ?thesis by (auto simp: datagram_message_def)
qed

text \<open>
  The byte count that \<^verbatim>\<open>recv\<close> returns is a lower bound: as long as fewer bytes arrive, no command is
  parsed, nothing is lost and more bytes are asked for.
\<close>

theorem needed_bytes:
  assumes "recv_loop role data = (commands, rest, Inr n)" and "length extra < n"
  shows "0 < n \<and> (\<exists>k > 0. recv_loop role (data @ extra) = (commands, rest @ extra, Inr k))"
proof -
  obtain k where k: "recv_loop role (data @ extra) = (commands, rest @ extra, Inr k)"
    using ca_stream.drain_starved [OF assms] by blast
  have "0 < n" using ca_stream.need_keeps [OF ca_stream.drain_rest [OF assms(1)]] by blast
  moreover have "0 < k" using ca_stream.need_keeps [OF ca_stream.drain_rest [OF k]] by blast
  ultimately show ?thesis using k by blast
qed

theorem needed_bytes_witness:
  "recv_loop CLIENT [0, 15] = ([], [0, 15], Inr 14) \<and> (\<exists>k > 0. recv_loop CLIENT ([0, 15] @ [0]) = ([], [0, 15] @ [0], Inr k))"
proof -
  have r: "recv_loop CLIENT [0, 15] = ([], [0, 15], Inr 14)" by (simp add: recv_loop_short)
  from needed_bytes [OF r, of "[0]"] r show ?thesis by simp
qed

text \<open>
  The answer to a cancelled subscription travels as an \<^verbatim>\<open>EventAddResponse\<close> with an empty payload:
  whatever \<^verbatim>\<open>EventCancelResponse\<close> a server builds, the client parses that class with the same header and
  no buffers, which is what the circuit turns back into an \<^verbatim>\<open>EventCancelResponse\<close>.
\<close>

theorem event_cancel_response_wire:
  assumes "EventCancelResponse_init data_type sid subscriptionid data_count = Inr m"
  shows "read_from_bytestream (message_bytes m @ rest) SERVER =
    Inr (rest, Some (from_components EventAddResponse (msg_header m) [] None), 0)"
proof -
  let ?h = "\<lambda>dt. EventCancelResponseHeader (ct_value dt) data_count sid subscriptionid"
  from assms obtain dt where m: "m = from_components EventCancelResponse (?h dt) [] None"
    by (auto simp: EventCancelResponse_init_def bindE_eq_Inr dest: Message_init_Inr(1))
  have h: "h_payload_size (?h dt) = 0" "h_command (?h dt) = class_ID EventAddResponse"
    by (simp_all add: EventCancelResponseHeader_def)
  then have ready: "wire_ready m" by (simp add: m wire_ready_def from_components_def wf_header_aligned)
  have "sender_role EventAddResponse = SERVER" by code_simp
  with class_lookup [OF h(2)] show ?thesis
    unfolding read_ready [OF ready] by (simp add: m from_components_def from_wire_dbr)
qed

theorem event_cancel_response_wire_witness:
  "\<exists>m. EventCancelResponse_init 6 4 7 1 = Inr m \<and> read_from_bytestream (message_bytes m @ [9]) SERVER =
    Inr ([9], Some (from_components EventAddResponse (msg_header m) [] None), 0)"
proof -
  define m where "m = projr (EventCancelResponse_init 6 4 7 1)"
  have m: "EventCancelResponse_init 6 4 7 1 = Inr m" unfolding m_def by code_simp
  from event_cancel_response_wire [OF m] m show ?thesis by auto
qed

text \<open>
  The texts that convert to an integer are exactly those that integers below \<open>2 ^ 32\<close> convert to:
  \<^verbatim>\<open>ipv4_to_int32\<close> and \<^verbatim>\<open>ipv4_from_int32\<close> are inverse to each other.
\<close>

theorem ipv4_roundtrip: "ipv4_to_int32 ip = Inr n \<longleftrightarrow> 0 \<le> n \<and> n < 2 ^ 32 \<and> ip = ipv4_from_int32 n"
  by (rule ipv4_text_int)

text \<open>
  The channel name of a \<^verbatim>\<open>CreateChanRequest\<close> survives exactly when it is ASCII: names are encoded as
  UTF-8 and decoded as Latin-1 (names with a NUL character aside).
\<close>

theorem name_roundtrip:
  assumes "CreateChanRequest_init (Str s) cid version = Inr m" and "0 \<notin> set s"
  shows "msg_name m = Inr s \<longleftrightarrow> (\<forall>c \<in> set s. c < 128)"
proof -
  from assms(1) obtain n p where p: "padded_string_payload (Str s) = Inr (n, p)"
    and m: "Message_init CreateChanRequest (CreateChanRequestHeader (int n) cid version) [[], p] = Inr m"
    by (auto simp: CreateChanRequest_init_def bindE_eq_Inr)
  from Message_init_Inr(1) [OF m] have "msg_name m = Inr (latin1_decode (rstrip0 p))"
    by (simp add: msg_name_def from_components_def)
  with name_decoded [OF p assms(2)] show ?thesis by simp
qed

theorem name_roundtrip_witness:
  "\<exists>m m'. CreateChanRequest_init (Str [112, 118]) 3 13 = Inr m \<and> msg_name m = Inr [112, 118]
     \<and> CreateChanRequest_init (Str [181]) 3 13 = Inr m' \<and> msg_name m' \<noteq> Inr [181]"
proof -
  define m where "m = projr (CreateChanRequest_init (Str [112, 118]) 3 13)"
  define m' where "m' = projr (CreateChanRequest_init (Str [181]) 3 13)"
  have m: "CreateChanRequest_init (Str [112, 118]) 3 13 = Inr m" "CreateChanRequest_init (Str [181]) 3 13 = Inr m'"
    unfolding m_def m'_def by code_simp+
  from name_roundtrip [OF m(1)] name_roundtrip [OF m(2)] m show ?thesis by simp
qed

text \<open>
  A \<^verbatim>\<open>SearchResponse\<close> tells the client where the server is: address, port, channel and version come back
  from the message as they went in, when they fit their fields.
\<close>

theorem search_response_fields:
  assumes "SearchResponse_init port (Some ip) cid version = Inr m"
    and "0 \<le> port \<and> port < 2 ^ 16" and "0 \<le> cid \<and> cid < 2 ^ 32" and "- (2 ^ 15) \<le> version \<and> version < 2 ^ 15"
  shows "SearchResponse_ip m = ip \<and> SearchResponse_port m = port \<and> msg_cid m = cid
    \<and> SearchResponse_version m = Inr version"
proof -
  from assms(1) obtain n where n: "ipv4_to_int32 ip = Inr n"
    and m: "m = from_components SearchResponse (SearchResponseHeader port n cid) [ljust0 8 (be16 (word_of_int version))] None"
    by (auto simp: SearchResponse_init_def bindE_eq_Inr dest: Message_init_Inr(1))
  have "0 \<le> n" "n < 2 ^ 32" "ip = ipv4_from_int32 n" using n ipv4_text_int by auto
  moreover have "sint (word_of_int version :: 16 word) = version"
    using assms(4) by (simp add: signed_of_int signed_take_bit_int_eq_self)
  ultimately show ?thesis
    using assms(2,3) m
    by (simp add: SearchResponse_ip_def SearchResponse_port_def SearchResponse_version_def msg_cid_def
        SearchResponseHeader_def from_components_def ljust0_def)
qed

theorem search_response_fields_witness:
  "\<exists>m. SearchResponse_init 5064 (Some ''10.0.0.7'') 3 13 = Inr m \<and> SearchResponse_ip m = ''10.0.0.7''
     \<and> SearchResponse_port m = 5064 \<and> msg_cid m = 3 \<and> SearchResponse_version m = Inr 13"
proof -
  define m where "m = projr (SearchResponse_init 5064 (Some ''10.0.0.7'') 3 13)"
  have m: "SearchResponse_init 5064 (Some ''10.0.0.7'') 3 13 = Inr m" unfolding m_def
    by (simp add: SearchResponse_init_def ipv4_to_int32_def inet_pton_def parse_octet_def is_digit_def digits_value_def
        Message_init_def Let_def from_components_def validate_def validate_default_def SearchResponseHeader_def)
  from search_response_fields [OF m] m show ?thesis by simp
qed

text \<open>
  An \<^verbatim>\<open>ErrorResponse\<close> about a request with a plain header gives back that header and the error text; about
  a request with an extended header, the eight last bytes of that header come out in front of the text.
\<close>

theorem error_response_fields:
  assumes "ErrorResponse_init request cid status (Bytes text) = Inr m"
  shows "ErrorResponse_error_message m =
      Inr (drop 16 (header_bytes (msg_header request)) @ ljust0 (padded_len text) text)
    \<and> (\<forall>h. msg_header request = Plain h \<longrightarrow> ErrorResponse_original_request m = Inr (Plain h)
         \<and> ErrorResponse_error_message m = Inr (ljust0 (padded_len text) text))"
proof -
  from assms have "msg_buffers m = [[], header_bytes (msg_header request) @ ljust0 (padded_len text) text]"
    by (auto simp: ErrorResponse_init_def padded_string_payload_def Let_def bindE_eq_Inr from_components_def
        dest!: Message_init_Inr(1))
  then show ?thesis
    using sizeof_header_ge [of "msg_header request"] from_buffer_mheader [of _ "[]"]
    by (auto simp: ErrorResponse_error_message_def ErrorResponse_original_request_def mhc.enc_length)
qed

theorem error_response_fields_witness:
  "\<exists>r m. ReadNotifyRequest_init 6 0x10000 2 3 = Inr r \<and> ErrorResponse_init r 1 (Status_int 1) (Bytes [33, 0]) = Inr m
     \<and> (\<exists>junk. length junk = 8 \<and> ErrorResponse_error_message m = Inr (junk @ [33, 0, 0, 0, 0, 0, 0, 0]))"
proof -
  define r where "r = projr (ReadNotifyRequest_init 6 0x10000 2 3)"
  have r: "ReadNotifyRequest_init 6 0x10000 2 3 = Inr r" unfolding r_def by code_simp
  have h: "sizeof_header (msg_header r) = 24" unfolding r_def by code_simp
  have p: "padded_string_payload (Bytes [33, 0]) = Inr (8, [33, 0, 0, 0, 0, 0, 0, 0])" by code_simp
  define m where "m = projr (ErrorResponse_init r 1 (Status_int 1) (Bytes [33, 0]))"
  have m: "ErrorResponse_init r 1 (Status_int 1) (Bytes [33, 0]) = Inr m"
    unfolding m_def
    by (simp add: ErrorResponse_init_def p h eca_value_def Message_init_def from_components_def validate_def
        validate_default_def ErrorResponseHeader_def)
  have "ljust0 (padded_len [33, 0 :: byte]) [33, 0] = [33, 0, 0, 0, 0, 0, 0, 0]" by code_simp
  with error_response_fields [OF m] r m h show ?thesis
    by (intro exI [of _ r] exI [of _ m] conjI exI [of _ "drop 16 (header_bytes (msg_header r))"]) simp_all
qed

end
