(* ===== verification/CA_Circuit_Props.thy ===== *)
theory CA_Circuit_Props
  imports CA_Circuit_Inv CA_Roundtrip
begin

text \<open>
  What a circuit does, on top of its invariant: requests and responses match up by their ids, subscriptions
  are created and cancelled, closed channels leave no trace in the tables, disconnecting closes everything,
  the protocol version is negotiated downwards, and bytes cross between two circuits unchanged.
\<close>

section \<open>Definitions\<close>

text \<open>Commands that only a connected channel accepts, and the answers to them.\<close>

definition request_classes :: "command_class list" where
  "request_classes = [ReadNotifyRequest, ReadRequest, WriteNotifyRequest, WriteRequest, EventAddRequest, EventCancelRequest]"

definition answer_classes :: "command_class list" where
  "answer_classes = [ReadNotifyResponse, ReadResponse, WriteNotifyResponse, EventAddResponse, EventCancelResponse]"

text \<open>The circuits that a program can produce with the operations of this library.\<close>

inductive reachable :: "(pystr \<Rightarrow> 'f result) \<Rightarrow> 'f circuit \<Rightarrow> bool" for mk_filter where
  init: "VirtualCircuit_init role address priority version = Inr c \<Longrightarrow> reachable mk_filter c"
| command: "reachable mk_filter c \<Longrightarrow> reachable mk_filter (fst (process_command mk_filter cmd c))"
| send: "reachable mk_filter c \<Longrightarrow> reachable mk_filter (fst (send mk_filter ms c))"
| recv: "reachable mk_filter c \<Longrightarrow> reachable mk_filter (fst (recv buffers c))"
| ioid: "reachable mk_filter c \<Longrightarrow> new_ioid c = Some (c', i) \<Longrightarrow> reachable mk_filter c'"
| subscription: "reachable mk_filter c \<Longrightarrow> new_subscriptionid c = Some (c', i) \<Longrightarrow> reachable mk_filter c'"
| channel: "reachable mk_filter c \<Longrightarrow> our_role c = CLIENT \<Longrightarrow> new_channel_id c = Some (c1, cid) \<Longrightarrow>
    BaseChannel_init mk_filter name cid c1 = (c2, res) \<Longrightarrow> reachable mk_filter c2"

definition counters_ok :: "'f circuit \<Rightarrow> bool" where
  "counters_ok c \<longleftrightarrow> counter_inv (channel_id_counter c) \<and> counter_inv (ioid_counter c) \<and> counter_inv (sub_counter c)"

definition same_base :: "'f circuit \<Rightarrow> 'f circuit \<Rightarrow> bool" where
  "same_base c c' \<longleftrightarrow> our_role c' = our_role c \<and> channel_id_counter c' = channel_id_counter c
     \<and> ioid_counter c' = ioid_counter c \<and> sub_counter c' = sub_counter c \<and> circ_data c' = circ_data c
     \<and> circ_address c' = circ_address c"

text \<open>A client circuit with one channel that is connected, for the concrete instances below.\<close>

definition example_commands :: "message list" where
  "example_commands = map projr [VersionRequest_init 0 13, VersionResponse_init 13, CreateChanRequest_init (Str [112, 118]) 1 13,
     CreateChanResponse_init 6 1 1 5]"

definition example_circuit :: "unit circuit" where
  "example_circuit = fold (\<lambda>m c. fst (process_command (\<lambda>_. Inr ()) (Command m) c)) example_commands
     (projr (VirtualCircuit_init CLIENT (''10.0.0.7'', 5064) (Some 0) 13))"

section \<open>Operations keep an invariant\<close>

text \<open>An operation on a state that may raise, with a property that it keeps even when it raises.\<close>

locale robust_operation =
  fixes step :: "'i \<Rightarrow> 's \<Rightarrow> 's \<times> 'o result" and inv :: "'s \<Rightarrow> bool"
  assumes step_inv: "inv s \<Longrightarrow> inv (fst (step i s))"
begin

lemma run_inv: "inv s \<Longrightarrow> inv (fold (\<lambda>i s. fst (step i s)) is s)"
  by (induction "is" arbitrary: s) (simp_all add: step_inv)

end

interpretation circuit_op: robust_operation "process_command_internal mk_filter" wf_circuit for mk_filter
  by unfold_locales (rule wf_process_command)

lemma wf_send:
  assumes "wf_circuit c"
  shows "wf_circuit (fst (send mk_filter ms c))"
  using assms
proof (induction ms arbitrary: c)
  case (Cons m ms)
  obtain c1 r1 where p: "process_command_internal mk_filter (Command m) c = (c1, r1)" by fastforce
  obtain c2 r2 where s: "send mk_filter ms c1 = (c2, r2)" by fastforce
  have w: "wf_circuit c1" using circuit_op.step_inv [OF Cons.prems, of mk_filter "Command m"] p by simp
  show ?case
  proof (cases r1)
    case (Inl e)
    with p w show ?thesis by simp
  next
    case (Inr x)
    with p s Cons.IH [OF w] show ?thesis by (cases r2) simp_all
  qed
qed simp

lemma wf_fields:
  assumes "wf_circuit c"
  shows "wf_circuit (c\<lparr>circ_data := d\<rparr>)" "wf_circuit (c\<lparr>ioid_counter := v\<rparr>)" "wf_circuit (c\<lparr>sub_counter := v\<rparr>)"
    "wf_circuit (c\<lparr>channel_id_counter := v\<rparr>)"
  using assms by (simp_all add: wf_circuit_def tables_ok_def states_ok_def subs_ok_def registered_def)

text \<open>Processing a command touches no counter and never changes the role.\<close>

lemma set_chan_counters [simp]:
  "channel_id_counter (set_chan r ch c) = channel_id_counter c" "ioid_counter (set_chan r ch c) = ioid_counter c"
  "sub_counter (set_chan r ch c) = sub_counter c"
  by (simp_all add: set_chan_def)

lemma same_base_refl [simp]: "same_base c c"
  by (simp add: same_base_def)

lemma same_base_trans: "same_base a b \<Longrightarrow> same_base b c \<Longrightarrow> same_base a c"
  by (simp add: same_base_def)

lemma same_base_set_chan [simp]: "same_base c (set_chan r ch c)"
  by (simp add: same_base_def set_chan_def)

lemma same_base_fold: "(\<And>x c. same_base c (f x c)) \<Longrightarrow> same_base c (fold f xs c)"
  by (induction xs arbitrary: c) (auto intro: same_base_trans)

lemma same_base_fields [simp]:
  "same_base c (c'\<lparr>circ_states := a\<rparr>) = same_base c c'" "same_base c (c'\<lparr>protocol_version := v\<rparr>) = same_base c c'"
  "same_base c (c'\<lparr>circ_priority := p\<rparr>) = same_base c c'" "same_base c (c'\<lparr>circ_ioids := i\<rparr>) = same_base c c'"
  "same_base c (c'\<lparr>circ_channels := d\<rparr>) = same_base c c'" "same_base c (c'\<lparr>circ_channels_sid := d\<rparr>) = same_base c c'"
  "same_base c (c'\<lparr>event_add_commands := e\<rparr>) = same_base c c'"
  "same_base c (c'\<lparr>event_cancel_commands := e\<rparr>) = same_base c c'"
  "same_base c (c'\<lparr>circ_store := s\<rparr>) = same_base c c'"
  by (simp_all add: same_base_def)

lemma same_base_update_channels [simp]: "same_base c (update_channels c)"
  unfolding update_channels_def by (rule same_base_fold) (simp add: update_channel_def Let_def split: prod.splits)

lemma same_base_set_versions: "same_base c (set_versions v c)"
proof -
  have "same_base (c\<lparr>protocol_version := v\<rparr>) (set_versions v c)"
    unfolding set_versions_def by (rule same_base_fold) simp
  then show ?thesis by (simp add: same_base_def)
qed

lemma same_base_type: "same_base c (fst (CircuitState_process_command_type r cls c))"
proof (cases "CircuitState_fire r cls (circ_states c)")
  case (Inr st)
  have "same_base (c\<lparr>circ_states := st\<rparr>) (update_channels (c\<lparr>circ_states := st\<rparr>))" by simp
  with Inr show ?thesis by (simp add: CircuitState_process_command_type_def same_base_def)
qed (simp add: CircuitState_process_command_type_def)

lemma same_base_version: "same_base c (fst (process_version m c))"
proof -
  have "same_base (c\<lparr>circ_priority := p\<rparr>) (set_versions v (c\<lparr>circ_priority := p\<rparr>))" for p v
    by (rule same_base_set_versions)
  then have "same_base c (set_versions v (c\<lparr>circ_priority := p\<rparr>))" for p v by (simp add: same_base_def)
  with same_base_set_versions [of c] show ?thesis by (simp add: process_version_def)
qed

lemma same_base_circuit_command: "same_base c (fst (circuit_command m c))"
proof -
  obtain c1 r1 where 1: "CircuitState_process_command_type (our_role c) (msg_class m) c = (c1, r1)" by fastforce
  obtain c2 r2 where 2: "CircuitState_process_command_type (their_role c) (msg_class m) c1 = (c2, r2)" by fastforce
  obtain c3 r3 where 3: "process_version m c2 = (c3, r3)" by fastforce
  have b: "same_base c c1" "same_base c1 c2" "same_base c2 c3"
    using same_base_type [of c "our_role c" "msg_class m"] same_base_type [of c1 "their_role c" "msg_class m"]
      same_base_version [of c2 m] 1 2 3 by simp_all
  have "same_base c c2" "same_base c c3" using b same_base_trans by blast+
  with b(1) 1 2 3 show ?thesis
    by (cases r1; cases r2; cases r3) (simp_all add: circuit_command_def)
qed

lemma same_base_init: "same_base c (fst (BaseChannel_init mk_filter name cid c))"
  by (simp add: BaseChannel_init_def Let_def split: sum.splits)

lemma same_base_lookup: "same_base c (fst (lookup_channel mk_filter m c))"
proof -
  have "same_base c (fst (case BaseChannel_init mk_filter name cid c of
      (c', Inl e) \<Rightarrow> (c', Inl e) | (c', Inr r) \<Rightarrow> (c', Inr (Some r))))" for name cid
    using same_base_init [of c mk_filter name cid] by (auto split: prod.splits sum.splits)
  then show ?thesis by (simp add: lookup_channel_def Let_def split: option.splits sum.splits)
qed

lemma same_base_process: "same_base c (fst (channel_process_command m r c))"
  by (auto simp: channel_process_command_def bindE_def split: sum.splits prod.splits)

lemma same_base_post: "same_base c (fst (post_update m r c))"
  by (auto simp: post_update_def remove_channel_def Let_def split: option.splits)

lemma same_base_channel_command: "same_base c (fst (channel_command mk_filter m c))"
proof -
  obtain c1 r1 where 1: "lookup_channel mk_filter m c = (c1, r1)" by fastforce
  have b1: "same_base c c1" using same_base_lookup [of c mk_filter m] 1 by simp
  show ?thesis
  proof (cases "\<exists>r. r1 = Inr (Some r) \<and> validate_subscription c1 m = Inr ()")
    case True
    then obtain r where r: "r1 = Inr (Some r)" "validate_subscription c1 m = Inr ()" by blast
    obtain c2 r2 where 2: "channel_process_command m r c1 = (c2, r2)" by fastforce
    obtain c3 r3 where 3: "post_update m r c2 = (c3, r3)" by fastforce
    have "same_base c1 c2" "same_base c2 c3" using same_base_process [of c1 m r] same_base_post [of c2 m r] 2 3 by simp_all
    then have "same_base c c2" "same_base c c3" using b1 same_base_trans by blast+
    with 1 2 3 r show ?thesis by (cases r2; cases r3) (simp_all add: channel_command_def)
  next
    case False
    with 1 b1 show ?thesis by (auto simp: channel_command_def split: sum.splits option.splits)
  qed
qed

lemma same_base_command: "same_base c (fst (process_command_internal mk_filter cmd c))"
proof -
  have "same_base (c\<lparr>circ_states := CircuitState_disconnected\<rparr>) (CircuitState_disconnect c)"
    by (simp add: CircuitState_disconnect_def)
  then have "same_base c (CircuitState_disconnect c)" by (simp add: same_base_def)
  then show ?thesis
    using same_base_channel_command same_base_circuit_command
    by (auto simp: process_command_internal_def split: command.splits sum.splits)
qed

lemma same_base_send: "same_base c (fst (send mk_filter ms c))"
proof (induction ms arbitrary: c)
  case (Cons m ms)
  obtain c1 r1 where p: "process_command_internal mk_filter (Command m) c = (c1, r1)" by fastforce
  obtain c2 r2 where s: "send mk_filter ms c1 = (c2, r2)" by fastforce
  have b: "same_base c c1" using same_base_command [of c mk_filter "Command m"] p by simp
  moreover have "same_base c c2" using same_base_trans [OF b] Cons [of c1] s by simp
  ultimately show ?case using p s by (cases r1; cases r2) simp_all
qed simp

lemma same_base_counters: "same_base c c' \<Longrightarrow> counters_ok c' = counters_ok c"
  by (simp add: same_base_def counters_ok_def)

lemma reachable_ok: "reachable mk_filter c \<Longrightarrow> wf_circuit c \<and> counters_ok c"
proof (induction rule: reachable.induct)
  case (init role address priority version c)
  then have "counters_ok c"
    by (auto simp: VirtualCircuit_init_def counters_ok_def counter_inv_def ThreadsafeCounter_init_def MAX_ID_def split: if_splits)
  with wf_init [OF init] show ?case by simp
next
  case (command c cmd)
  then show ?case
    using wf_process_command [of c mk_filter cmd] same_base_counters [OF same_base_command [of c mk_filter cmd]]
    by (simp add: process_command_def)
next
  case (send c ms)
  then show ?case
    using wf_send [of c mk_filter ms] same_base_counters [OF same_base_send [of c mk_filter ms]] by simp
next
  case (recv c buffers)
  then have "wf_circuit (c\<lparr>circ_data := d\<rparr>)" "counters_ok (c\<lparr>circ_data := d\<rparr>)" for d
    by (simp_all add: wf_fields counters_ok_def)
  with recv show ?case by (auto simp: recv_def split: prod.splits sum.splits)
next
  case (ioid c c' i)
  then have "counter_inv i" using counter.gen_fresh [of "ioid_counter c"]
    by (auto simp: new_ioid_def counters_ok_def split: option.splits)
  with ioid show ?case by (auto simp: new_ioid_def counters_ok_def wf_fields split: option.splits)
next
  case (subscription c c' i)
  then have "counter_inv i" using counter.gen_fresh [of "sub_counter c"]
    by (auto simp: new_subscriptionid_def counters_ok_def split: option.splits)
  with subscription show ?case by (auto simp: new_subscriptionid_def counters_ok_def wf_fields split: option.splits)
next
  case (channel c c1 cid name c2 res)
  then have id: "ThreadsafeCounter_call (map fst (circ_channels c)) (channel_id_counter c) = Some cid"
    and c1: "c1 = c\<lparr>channel_id_counter := cid\<rparr>"
    by (auto simp: new_channel_id_def split: option.splits)
  have fresh: "cid \<notin> set (map fst (circ_channels c))" "counter_inv cid"
    using counter.gen_fresh [OF _ id] channel by (auto simp: counters_ok_def)
  have w: "wf_circuit c1" "counters_ok c1" using channel fresh by (simp_all add: c1 wf_fields counters_ok_def)
  have none: "dget (circ_channels c1) cid = None" using fresh(1) by (simp add: c1 map_of_eq_None_iff)
  have "counters_ok c2" using same_base_counters [OF same_base_init [of c1 mk_filter name cid]] w(2) channel.hyps(4) by simp
  moreover have "wf_circuit c2"
    using BaseChannel_init_Inr [OF w(1) none] BaseChannel_init_Inl [of mk_filter name cid c1] w(1) channel.hyps(4)
    by (cases res) auto
  ultimately show ?case by simp
qed

section \<open>Connected channels\<close>

lemma stay_lookup:
  assumes "cls \<in> set (request_classes @ answer_classes)"
  shows "lookup COMMAND_TRIGGERED_CHANNEL_TRANSITIONS r CONNECTED cls = Some CONNECTED"
proof -
  have "list_all (\<lambda>r. list_all (\<lambda>c. lookup COMMAND_TRIGGERED_CHANNEL_TRANSITIONS r CONNECTED c = Some CONNECTED)
      (request_classes @ answer_classes)) [CLIENT, SERVER]" by code_simp
  then show ?thesis using assms by (cases r) (auto simp: list_all_iff)
qed

lemma request_lookup:
  assumes "cls \<in> set request_classes" and "lookup COMMAND_TRIGGERED_CHANNEL_TRANSITIONS r st cls \<noteq> None"
  shows "st = CONNECTED"
proof -
  have chk: "list_all (\<lambda>r. list_all (\<lambda>(st, d). st = CONNECTED \<or> list_all (\<lambda>c. dget d c = None) request_classes)
      (COMMAND_TRIGGERED_CHANNEL_TRANSITIONS r)) [CLIENT, SERVER]" by code_simp
  from assms(2) obtain d where d: "dget (COMMAND_TRIGGERED_CHANNEL_TRANSITIONS r) st = Some d" "dget d cls \<noteq> None"
    by (auto simp: lookup_def split: option.splits)
  moreover have "r \<in> set [CLIENT, SERVER]" by (cases r) simp_all
  ultimately show ?thesis using chk assms(1) map_of_SomeD [OF d(1)] by (fastforce simp: list_all_iff)
qed

lemma process_stay:
  assumes "cls \<in> set (request_classes @ answer_classes)" and "connected ci"
  shows "ChannelState_process_command_type r cls ((CONNECTED, CONNECTED), ci) = Inr ((CONNECTED, CONNECTED), ci)"
proof -
  have row: "dget (COMMAND_TRIGGERED_CHANNEL_TRANSITIONS r) (get_state r (CONNECTED, CONNECTED)) \<noteq> None"
    by (rule channel_machine.has_rows) (simp add: channel_pairs_def)
  have g: "get_state r (CONNECTED, CONNECTED) = CONNECTED" "set_state r CONNECTED (CONNECTED, CONNECTED) = (CONNECTED, CONNECTED)"
    by (cases r; simp)+
  show ?thesis
    using assms(2) fire_lookup [where T = COMMAND_TRIGGERED_CHANNEL_TRANSITIONS and role = r and p = "(CONNECTED, CONNECTED)" and c = cls, OF row] stay_lookup [OF assms(1), of r]
    by (simp add: ChannelState_process_command_type_def g update_connected connected_def)
qed

lemma step_stay:
  assumes "cls \<in> set (request_classes @ answer_classes)" and "connected ci"
  shows "channel_step our cls ((CONNECTED, CONNECTED), ci) = (((CONNECTED, CONNECTED), ci), Inr [])"
  by (simp add: channel_step_def process_stay [OF assms] Let_def)

lemma process_request:
  assumes "cls \<in> set request_classes" and "ChannelState_process_command_type r cls p = Inr p'"
  shows "get_state r (fst p) = CONNECTED"
proof -
  have "lookup COMMAND_TRIGGERED_CHANNEL_TRANSITIONS r (get_state r (fst p)) cls \<noteq> None"
    using assms(2) by (cases p)
      (auto simp: ChannelState_process_command_type_def fire_command_triggered_transitions_def lookup_def bindE_eq_Inr getitem_simps
        split: option.splits)
  with request_lookup [OF assms(1)] show ?thesis by blast
qed

text \<open>A request is accepted exactly by a channel that is connected on a circuit that is.\<close>

lemma step_request:
  assumes "cls \<in> set request_classes" and "ci \<in> set circuit_pairs" and "chan_ok ch ci"
    and "channel_step our cls (ch, ci) = (p', Inr ts)"
  shows "ch = (CONNECTED, CONNECTED) \<and> connected ci"
proof -
  from assms(4) obtain p1 where p1: "ChannelState_process_command_type our cls (ch, ci) = Inr p1"
    and p2: "ChannelState_process_command_type (other_role our) cls p1 = Inr p'"
    by (auto simp: channel_step_def Let_def split: sum.splits)
  have our: "get_state our ch = CONNECTED" using process_request [OF assms(1) p1] by simp
  have "ci \<noteq> CircuitState_disconnected"
  proof
    assume d: "ci = CircuitState_disconnected"
    from process_role_disconnected [OF assms(3) [unfolded d], of our cls] p1 d
    obtain b where "p1 = ((CLOSED, if b then IDLE else CLOSED), CircuitState_disconnected)" by auto
    with process_request [OF assms(1) p2] show False by (cases our) (auto split: if_splits)
  qed
  then have conn: "connected ci" and ch: "ch \<in> set channel_pairs"
    using circuit_pairs_connected [OF assms(2)] assms(3) by (auto simp: connected_def chan_ok_def)
  with our show ?thesis by (cases our) (auto simp: channel_pairs_def)
qed

lemma channel_process_stay:
  assumes "msg_class m \<in> set (request_classes @ answer_classes)" and "ch_states (chan c r) = (CONNECTED, CONNECTED)"
    and "connected (circ_states c)"
  shows "channel_process_command m r c = (c, Inr [])"
proof -
  have ne: "msg_class m \<noteq> CreateChanResponse" using assms(1) by (auto simp: request_classes_def answer_classes_def)
  have "(chan c r)\<lparr>ch_states := (CONNECTED, CONNECTED)\<rparr> = chan c r" using assms(2) by (cases "chan c r") simp
  then have "set_chan r ((chan c r)\<lparr>ch_states := (CONNECTED, CONNECTED)\<rparr>) c = c" by (simp only: set_chan_same)
  with assms ne show ?thesis by (simp add: channel_process_command_def step_stay)
qed

lemma channel_process_request:
  assumes "wf_circuit c" and "registered c r" and "msg_class m \<in> set request_classes"
    and "channel_process_command m r c = (c', Inr cb)"
  shows "ch_states (chan c r) = (CONNECTED, CONNECTED) \<and> connected (circ_states c) \<and> c' = c \<and> cb = []"
proof -
  have ne: "msg_class m \<noteq> CreateChanResponse" using assms(3) by (auto simp: request_classes_def)
  have p: "circ_states c \<in> set circuit_pairs" using assms(1) by (simp add: wf_circuit_def states_ok_def)
  obtain q res where s: "channel_step (our_role c) (msg_class m) (ch_states (chan c r), circ_states c) = (q, res)" by fastforce
  with assms(4) ne obtain ts where "res = Inr ts" by (cases q; cases res) (auto simp: channel_process_command_def)
  with step_request [OF assms(3) p wf_chan(1) [OF assms(1) registered_refs [OF assms(2)]]] s
  have "ch_states (chan c r) = (CONNECTED, CONNECTED)" "connected (circ_states c)" by auto
  with channel_process_stay [of m c r] assms(3,4) show ?thesis by auto
qed

section \<open>Requests\<close>

lemma transmute_other: "msg_class m \<noteq> EventAddResponse \<Longrightarrow> transmute c m = Inr m"
  by (simp add: transmute_def)

lemma process_channel_class:
  "msg_class m \<in> set channel_classes \<Longrightarrow> msg_class m \<noteq> EventAddResponse \<Longrightarrow>
     process_command mk_filter (Command m) c = channel_command mk_filter m c"
  by (simp add: process_command_def process_command_internal_def transmute_other in_cls_def)

lemma process_circuit_class:
  "msg_class m \<notin> set channel_classes \<Longrightarrow> process_command mk_filter (Command m) c = circuit_command m c"
proof -
  assume n: "msg_class m \<notin> set channel_classes"
  then have "msg_class m \<noteq> EventAddResponse" by (auto simp: channel_classes_def)
  with n show ?thesis by (simp add: process_command_def process_command_internal_def transmute_other in_cls_def)
qed

lemma validate_other:
  "msg_class m \<notin> {EventAddResponse, EventCancelRequest, EventCancelResponse} \<Longrightarrow> validate_subscription c m = Inr ()"
  by (simp add: validate_subscription_def in_cls_def)

lemma post_other:
  "msg_class m \<notin> {AccessRightsResponse, CreateChanResponse, ServerDisconnResponse, ClearChannelResponse, ReadNotifyRequest,
     ReadRequest, WriteNotifyRequest, EventAddRequest, EventCancelRequest, EventCancelResponse} \<Longrightarrow> post_update m r c = (c, Inr ())"
  by (simp add: post_update_def in_cls_def)

lemma post_ioid:
  assumes "msg_class m \<in> {ReadNotifyRequest, ReadRequest, WriteNotifyRequest}"
  shows "post_update m r c = (c\<lparr>circ_ioids := dset (msg_ioid m) r (circ_ioids c)\<rparr>, Inr ())"
proof -
  have "in_cls m [ReadNotifyRequest, ReadRequest, WriteNotifyRequest]" "\<not> in_cls m [AccessRightsResponse]"
    "\<not> in_cls m [CreateChanResponse]" "\<not> in_cls m [ServerDisconnResponse, ClearChannelResponse]"
    using assms by (auto simp: in_cls_def)
  then show ?thesis by (simp only: post_update_def if_True if_False)
qed

lemma sid_request:
  assumes "wf_circuit c" and "msg_class m \<in> {ReadNotifyRequest, ReadRequest, WriteNotifyRequest, WriteRequest, EventAddRequest}"
    and "channel_command mk_filter m c = (c', Inr cb)"
  obtains r where "dget (circ_channels_sid c) (msg_sid m) = Some r" "ch_states (chan c r) = (CONNECTED, CONNECTED)"
    "connected (circ_states c)" "cb = []" "post_update m r c = (c', Inr ())" "registered c r"
proof -
  have look: "lookup_channel mk_filter m c =
      (case dget (circ_channels_sid c) (msg_sid m) of
         None \<Rightarrow> (c, Inl (get_exception (our_role c) (msg_class m))) | Some r \<Rightarrow> (c, Inr (Some r)))"
  proof -
    have "in_cls m [ReadNotifyRequest, WriteNotifyRequest, WriteRequest, ReadRequest, EventAddRequest]"
      using assms(2) by (auto simp: in_cls_def)
    then show ?thesis by (simp only: lookup_channel_def Let_def if_True)
  qed
  have v: "validate_subscription c m = Inr ()" using assms(2) by (intro validate_other) auto
  obtain r where r: "dget (circ_channels_sid c) (msg_sid m) = Some r"
    using assms(3) look by (cases "dget (circ_channels_sid c) (msg_sid m)") (auto simp: channel_command_def)
  obtain c2 r2 where p: "channel_process_command m r c = (c2, r2)" by fastforce
  obtain c3 r3 where u: "post_update m r c2 = (c3, r3)" by fastforce
  from assms(3) look r v p u have r2: "r2 = Inr cb" and r3: "r3 = Inr ()" "c3 = c'"
    by (cases r2; cases r3; simp add: channel_command_def)+
  note reg = tables_registered(2) [OF assms(1) r]
  have "msg_class m \<in> set request_classes" using assms(2) by (auto simp: request_classes_def)
  from channel_process_request [OF assms(1) reg this] p r2
  have "ch_states (chan c r) = (CONNECTED, CONNECTED)" "connected (circ_states c)" "c2 = c" "cb = []" by auto
  with r u r3 reg that show thesis by blast
qed

lemma request_accepted:
  assumes "msg_class m \<in> {ReadNotifyRequest, ReadRequest, WriteNotifyRequest}"
    and "dget (circ_channels_sid c) (msg_sid m) = Some r" and "ch_states (chan c r) = (CONNECTED, CONNECTED)"
    and "connected (circ_states c)"
  shows "process_command mk_filter (Command m) c = (c\<lparr>circ_ioids := dset (msg_ioid m) r (circ_ioids c)\<rparr>, Inr [])"
proof -
  have cls: "msg_class m \<in> set channel_classes" "msg_class m \<noteq> EventAddResponse" "msg_class m \<in> set (request_classes @ answer_classes)"
    and v: "validate_subscription c m = Inr ()"
    using assms(1) by (auto simp: channel_classes_def request_classes_def intro: validate_other)
  have "in_cls m [ReadNotifyRequest, WriteNotifyRequest, WriteRequest, ReadRequest, EventAddRequest]"
    using assms(1) by (auto simp: in_cls_def)
  then have "lookup_channel mk_filter m c = (c, Inr (Some r))"
    using assms(2) by (simp only: lookup_channel_def Let_def if_True option.case)
  then show ?thesis
    using v channel_process_stay [OF cls(3) assms(3,4)] post_ioid [OF assms(1), of r c]
    by (simp add: process_channel_class [OF cls(1,2)] channel_command_def)
qed

lemma lookup_response:
  assumes "msg_class m \<in> {ReadNotifyResponse, ReadResponse, WriteNotifyResponse}"
  shows "lookup_channel mk_filter m c =
    (case dget (circ_ioids c) (msg_ioid m) of
       None \<Rightarrow> (c, Inl (get_exception (our_role c) (msg_class m)))
     | Some r \<Rightarrow> (c\<lparr>circ_ioids := ddel (msg_ioid m) (circ_ioids c)\<rparr>, Inr (Some r)))"
proof -
  have "\<not> in_cls m [ReadNotifyRequest, WriteNotifyRequest, WriteRequest, ReadRequest, EventAddRequest]"
    "in_cls m [ReadNotifyResponse, ReadResponse, WriteNotifyResponse]"
    using assms by (auto simp: in_cls_def)
  then show ?thesis by (simp only: lookup_channel_def Let_def if_True if_False)
qed

lemma answer_accepted:
  assumes "msg_class m \<in> {ReadNotifyResponse, ReadResponse, WriteNotifyResponse}"
    and "dget (circ_ioids c) (msg_ioid m) = Some r" and "ch_states (chan c r) = (CONNECTED, CONNECTED)"
    and "connected (circ_states c)"
  shows "process_command mk_filter (Command m) c = (c\<lparr>circ_ioids := ddel (msg_ioid m) (circ_ioids c)\<rparr>, Inr [])"
proof -
  let ?c = "c\<lparr>circ_ioids := ddel (msg_ioid m) (circ_ioids c)\<rparr>"
  have cls: "msg_class m \<in> set channel_classes" "msg_class m \<noteq> EventAddResponse" "msg_class m \<in> set (request_classes @ answer_classes)"
    and v: "validate_subscription ?c m = Inr ()" and p: "post_update m r ?c = (?c, Inr ())"
    using assms(1) by (auto simp: channel_classes_def answer_classes_def intro: validate_other post_other)
  have "channel_process_command m r ?c = (?c, Inr [])"
    using assms(3,4) by (intro channel_process_stay [OF cls(3)]) simp_all
  then show ?thesis
    using lookup_response [OF assms(1), of mk_filter c] assms(2) v p
    by (simp add: process_channel_class [OF cls(1,2)] channel_command_def)
qed

lemma answer_unknown:
  assumes "msg_class m \<in> {ReadNotifyResponse, ReadResponse, WriteNotifyResponse}" and "dget (circ_ioids c) (msg_ioid m) = None"
  shows "process_command mk_filter (Command m) c = (c, Inl (get_exception (our_role c) (msg_class m)))"
proof -
  have cls: "msg_class m \<in> set channel_classes" "msg_class m \<noteq> EventAddResponse" using assms(1) by (auto simp: channel_classes_def)
  show ?thesis
    using lookup_response [OF assms(1), of mk_filter c] assms(2)
    by (simp add: process_channel_class [OF cls] channel_command_def)
qed

lemma lookup_cancel:
  "msg_class m = EventCancelRequest \<Longrightarrow> lookup_channel mk_filter m c =
     (case dget (event_add_commands c) (msg_subscriptionid m) of
        None \<Rightarrow> (c, Inl (get_exception (our_role c) EventCancelRequest))
      | Some event_add \<Rightarrow> (c, bindE (getitem (circ_channels_sid c) (msg_sid event_add)) (\<lambda>r. Inr (Some r))))"
  by (simp add: lookup_channel_def in_cls_def)

lemma lookup_answer:
  "msg_class m = EventCancelResponse \<Longrightarrow> dget (event_add_commands c) (msg_subscriptionid m) = Some event_add \<Longrightarrow>
     lookup_channel mk_filter m c = (c, bindE (getitem (circ_channels_sid c) (msg_sid event_add)) (\<lambda>r. Inr (Some r)))"
  by (simp add: lookup_channel_def in_cls_def)

lemma param_range [simp]: "h_parameter1 h mod 2 ^ 32 = h_parameter1 h" "h_parameter2 h mod 2 ^ 32 = h_parameter2 h"
proof -
  have u: "uint (w :: 32 word) mod 2 ^ 32 = uint w" for w
    using uint_lt2p [of w] by (intro mod_pos_pos_trivial) simp_all
  show "h_parameter1 h mod 2 ^ 32 = h_parameter1 h" "h_parameter2 h mod 2 ^ 32 = h_parameter2 h"
    using u by (cases h; simp)+
qed

lemma type_range: "ct_value t mod 2 ^ 16 = ct_value t"
  by (cases t) simp_all

lemma cancel_response_init:
  "EventCancelResponse_init (ct_value t) sid sub n =
     Inr (from_components EventCancelResponse (EventCancelResponseHeader (ct_value t) n sid sub) [] None)"
  by (simp add: EventCancelResponse_init_def Message_init_def Let_def validate_def
      validate_EventCancelResponse_def from_components_def EventCancelResponseHeader_def)

text \<open>The command that an empty update of a cancelled subscription becomes.\<close>

lemma transmuted:
  assumes "msg_class resp = EventAddResponse" and "dget (event_cancel_commands c) (msg_subscriptionid resp) = Some add"
    and "msg_payload_size resp = 0" and "msg_data_type resp = Inr t" and "msg_class add = EventAddRequest"
  shows "\<exists>m. transmute c resp = Inr m \<and> msg_class m = EventCancelResponse \<and> msg_data_type m = Inr t
    \<and> msg_sid m = msg_sid add \<and> msg_subscriptionid m = msg_subscriptionid resp"
proof -
  let ?h = "EventCancelResponseHeader (ct_value t) (msg_data_count resp) (msg_sid add) (msg_subscriptionid resp)"
  let ?m = "from_components EventCancelResponse ?h [] None"
  have init: "EventCancelResponse_init (ct_value t) (msg_sid add) (msg_subscriptionid resp) (msg_data_count resp) = Inr ?m"
    by (rule cancel_response_init)
  have "transmute c resp = Inr ?m" using assms init by (simp add: transmute_def)
  moreover have "h_data_type ?h = ct_value t" "h_parameter1 ?h = msg_sid add" "h_parameter2 ?h = msg_subscriptionid resp"
    using type_range [of t] assms(5)
    by (simp_all add: EventCancelResponseHeader_def msg_sid_def msg_subscriptionid_def param_range [simplified])
  ultimately show ?thesis
    by (simp add: from_components_def msg_data_type_def msg_sid_def msg_subscriptionid_def ChannelType_of_ct_value)
qed

lemma circuit_refuses:
  assumes "circ_states c = CircuitState_disconnected"
  shows "circuit_command m c = (c, Inl (get_exception (our_role c) (msg_class m)))"
proof -
  have "dget (COMMAND_TRIGGERED_CIRCUIT_TRANSITIONS r) DISCONNECTED \<noteq> None" for r
    by (cases r) (simp_all add: COMMAND_TRIGGERED_CIRCUIT_TRANSITIONS.simps dget_dict_of)
  then have "CircuitState_fire r cls CircuitState_disconnected = Inl (get_exception r cls)" for r cls
    using fire_lookup [of COMMAND_TRIGGERED_CIRCUIT_TRANSITIONS r CircuitState_disconnected cls] disconnected_lookup [of r cls]
    by (cases r) (simp_all add: CircuitState_fire_def CircuitState_disconnected_def)
  with assms show ?thesis by (simp add: circuit_command_def CircuitState_process_command_type_def)
qed

text \<open>One channel of a disconnected circuit being notified.\<close>

lemma notify_closed:
  assumes "wf_circuit d" and "circ_states d = CircuitState_disconnected" and "r < length (circ_store d)"
  shows "wf_circuit (update_channel r d) \<and> circ_states (update_channel r d) = CircuitState_disconnected
    \<and> circ_channels (update_channel r d) = circ_channels d \<and> length (circ_store (update_channel r d)) = length (circ_store d)
    \<and> (\<forall>q. ch_states (chan (update_channel r d) q) =
         (if q = r then (CLOSED, if snd (ch_states (chan d r)) = IDLE then IDLE else CLOSED) else ch_states (chan d q)))"
proof -
  obtain st where u: "update_channel r d = set_chan r ((chan d r)\<lparr>ch_states := st\<rparr>) d" "wf_circuit (update_channel r d)"
    and st: "ChannelState_update (ch_states (chan d r), circ_states d) = (st, circ_states d)"
    using wf_update_channel [OF assms(1,3)] by blast
  obtain a b where ab: "ch_states (chan d r) = (a, b)" by fastforce
  have ok: "chan_ok (a, b) CircuitState_disconnected" using wf_chan(1) [OF assms(1,3)] by (simp add: ab assms(2))
  have "st = (CLOSED, if b = IDLE then IDLE else CLOSED)"
    using update_disconnected [of a b] chan_ok_rows [OF ok, of CLIENT] chan_ok_rows [OF ok, of SERVER] st
    by (simp add: ab assms(2))
  with u ab assms show ?thesis by (simp add: chan_set_chan)
qed

lemma notify_all:
  assumes "wf_circuit d" and "circ_states d = CircuitState_disconnected" and "\<forall>r \<in> set rs. r < length (circ_store d)"
  shows "circ_states (fold update_channel rs d) = CircuitState_disconnected
    \<and> circ_channels (fold update_channel rs d) = circ_channels d
    \<and> (\<forall>q. q \<in> set rs \<or> ch_states (chan d q) \<in> {(CLOSED, CLOSED), (CLOSED, IDLE)} \<longrightarrow>
         ch_states (chan (fold update_channel rs d) q) \<in> {(CLOSED, CLOSED), (CLOSED, IDLE)})"
  using assms
proof (induction rs arbitrary: d)
  case (Cons r rs)
  have n: "wf_circuit (update_channel r d)" "circ_states (update_channel r d) = CircuitState_disconnected"
    "circ_channels (update_channel r d) = circ_channels d" "length (circ_store (update_channel r d)) = length (circ_store d)"
    and s: "ch_states (chan (update_channel r d) q) =
      (if q = r then (CLOSED, if snd (ch_states (chan d r)) = IDLE then IDLE else CLOSED) else ch_states (chan d q))" for q
    using notify_closed [OF Cons.prems(1,2), of r] Cons.prems(3) by auto
  have IH: "circ_states (fold update_channel rs (update_channel r d)) = CircuitState_disconnected"
    "circ_channels (fold update_channel rs (update_channel r d)) = circ_channels d"
    "q \<in> set rs \<or> ch_states (chan (update_channel r d) q) \<in> {(CLOSED, CLOSED), (CLOSED, IDLE)} \<Longrightarrow>
         ch_states (chan (fold update_channel rs (update_channel r d)) q) \<in> {(CLOSED, CLOSED), (CLOSED, IDLE)}" for q
    using Cons.IH [OF n(1,2)] n(3,4) Cons.prems(3) by auto
  have "q = r \<or> ch_states (chan d q) \<in> {(CLOSED, CLOSED), (CLOSED, IDLE)} \<Longrightarrow>
      ch_states (chan (update_channel r d) q) \<in> {(CLOSED, CLOSED), (CLOSED, IDLE)}" for q
    using s [of q] by (cases "q = r") auto
  with IH show ?case by auto
qed auto

lemma lookup_cid:
  assumes "msg_class m \<in> {ClearChannelRequest, ClearChannelResponse, CreateChanResponse, CreateChFailResponse,
      AccessRightsResponse, ServerDisconnResponse}"
  shows "lookup_channel mk_filter m c = (c, bindE (getitem (circ_channels c) (msg_cid m)) (\<lambda>r. Inr (Some r)))"
proof -
  have "\<not> in_cls m [ReadNotifyRequest, WriteNotifyRequest, WriteRequest, ReadRequest, EventAddRequest]"
    "\<not> in_cls m [ReadNotifyResponse, ReadResponse, WriteNotifyResponse]" "\<not> in_cls m [EventCancelRequest]"
    "\<not> in_cls m [EventAddResponse, EventCancelResponse]" "\<not> in_cls m [CreateChanRequest]"
    using assms by (auto simp: in_cls_def)
  then show ?thesis by (simp only: lookup_channel_def Let_def if_False)
qed

lemma post_remove:
  assumes "msg_class m \<in> {ClearChannelResponse, ServerDisconnResponse}"
  shows "post_update m r c = remove_channel r c"
proof -
  have "in_cls m [ServerDisconnResponse, ClearChannelResponse]" "\<not> in_cls m [AccessRightsResponse]" "\<not> in_cls m [CreateChanResponse]"
    using assms by (auto simp: in_cls_def)
  then show ?thesis by (simp only: post_update_def if_True if_False)
qed

lemma removed:
  assumes "wf_circuit c" and "registered c r" and "remove_channel r c = (c', Inr ())"
  shows "(\<forall>k. dget (circ_channels c') k \<noteq> Some r) \<and> (\<forall>s. dget (circ_channels_sid c') s \<noteq> Some r)
    \<and> (\<forall>i. dget (circ_ioids c') i \<noteq> Some r)"
proof -
  have t: "tables_ok c" using assms(1) by (simp add: wf_circuit_def)
  from assms(3) obtain s where s: "ch_sid (chan c r) = Some s"
    and c': "c' = c\<lparr>circ_channels_sid := ddel s (circ_channels_sid c), circ_channels := ddel (ch_cid (chan c r)) (circ_channels c),
        circ_ioids := filter (\<lambda>(k, v). v \<noteq> r) (circ_ioids c)\<rparr>"
    by (auto simp: remove_channel_def Let_def split: option.splits if_splits)
  have "dget (circ_ioids c') i \<noteq> Some r" for i by (auto simp: c' dest!: map_of_SomeD)
  then show ?thesis using t s by (auto simp: c' tables_ok_def dict_simps)
qed

text \<open>The stages of a command that closes a channel.\<close>

lemma closing:
  assumes "wf_circuit c" and "msg_class m \<in> {ClearChannelResponse, ServerDisconnResponse}"
    and "process_command mk_filter (Command m) c = (c', Inr cb)"
  obtains r c2 res where "dget (circ_channels c) (msg_cid m) = Some r" "channel_process_command m r c = (c2, res)"
    "wf_circuit c2" "registered c2 r" "remove_channel r c2 = (c', Inr ())"
proof -
  have cls: "msg_class m \<in> set channel_classes" "msg_class m \<noteq> EventAddResponse"
    using assms(2) by (auto simp: channel_classes_def)
  from assms(3) have cc: "channel_command mk_filter m c = (c', Inr cb)" by (simp add: process_channel_class [OF cls])
  have look: "lookup_channel mk_filter m c = (c, bindE (getitem (circ_channels c) (msg_cid m)) (\<lambda>r. Inr (Some r)))"
    by (rule lookup_cid) (use assms(2) in auto)
  have v: "validate_subscription c m = Inr ()" using assms(2) by (intro validate_other) auto
  obtain r where r: "dget (circ_channels c) (msg_cid m) = Some r"
    using cc look by (cases "dget (circ_channels c) (msg_cid m)") (auto simp: channel_command_def getitem_def)
  obtain c2 r2 where p: "channel_process_command m r c = (c2, r2)" by fastforce
  obtain c3 r3 where u: "post_update m r c2 = (c3, r3)" by fastforce
  have ok: "r3 = Inr ()" "c3 = c'"
    using cc look r v p u by (cases r2; cases r3; simp add: channel_command_def getitem_def)+
  have w: "wf_circuit c2" "registered c2 r"
    using channel_process_ok [OF assms(1) tables_registered(1) [OF assms(1) r] p] by auto
  have "remove_channel r c2 = (c', Inr ())" using u ok post_remove [OF assms(2)] by metis
  then show thesis using that r p w by blast
qed

text \<open>A closed channel takes its ids along but leaves its subscriptions in the table.\<close>

lemma channel_process_fields:
  assumes "channel_process_command m r c = (c2, res)"
  shows "event_add_commands c2 = event_add_commands c" "circ_channels_sid c2 = circ_channels_sid c"
    "registered c r \<Longrightarrow> ch_sid (chan c2 r) = ch_sid (chan c r)"
  using assms by (auto simp: channel_process_command_def chan_set_chan registered_def bindE_eq_Inr split: sum.splits if_splits prod.splits)

lemma closed_channel:
  assumes "wf_circuit c" and "msg_class m \<in> {ClearChannelResponse, ServerDisconnResponse}"
    and "process_command mk_filter (Command m) c = (c', Inr cb)"
    and "dget (circ_channels c) (msg_cid m) = Some r" and "ch_sid (chan c r) = Some s"
  shows "dget (circ_channels_sid c') s = None \<and> event_add_commands c' = event_add_commands c \<and> wf_circuit c'"
proof -
  obtain c2 res where c2: "channel_process_command m r c = (c2, res)" "wf_circuit c2" "registered c2 r" "remove_channel r c2 = (c', Inr ())"
    using closing [OF assms(1-3)] assms(4) by (metis option.inject)
  have "registered c r" by (rule tables_registered(1) [OF assms(1,4)])
  with channel_process_fields [OF c2(1)] assms(5) have f: "ch_sid (chan c2 r) = Some s" "event_add_commands c2 = event_add_commands c"
    by simp_all
  from c2(4) f have "dget (circ_channels_sid c') s = None \<and> event_add_commands c' = event_add_commands c"
    by (auto simp: remove_channel_def Let_def dict_simps split: if_splits)
  moreover have "wf_circuit c'" using wf_remove_channel [OF c2(2,3)] c2(4) by simp
  ultimately show ?thesis by simp
qed

lemma set_versions_all:
  assumes "wf_circuit c"
  shows "protocol_version (set_versions v c) = v \<and> circ_channels (set_versions v c) = circ_channels c
    \<and> circ_priority (set_versions v c) = circ_priority c
    \<and> (\<forall>k r. dget (circ_channels c) k = Some r \<longrightarrow> ch_protocol_version (chan (set_versions v c) r) = v)"
proof -
  let ?f = "\<lambda>r c. set_chan r ((chan c r)\<lparr>ch_protocol_version := v\<rparr>) c"
  have fields: "protocol_version (fold ?f rs d) = protocol_version d \<and> circ_channels (fold ?f rs d) = circ_channels d
      \<and> circ_priority (fold ?f rs d) = circ_priority d \<and> length (circ_store (fold ?f rs d)) = length (circ_store d)" for rs d
    by (induction rs arbitrary: d) simp_all
  have all: "q \<in> set rs \<or> ch_protocol_version (chan d q) = v \<Longrightarrow> q < length (circ_store d) \<Longrightarrow>
      ch_protocol_version (chan (fold ?f rs d) q) = v" for rs d q
    by (induction rs arbitrary: d) (auto simp: chan_set_chan)
  have "ch_protocol_version (chan (set_versions v c) r) = v" if "dget (circ_channels c) k = Some r" for k r
    using all [of r "map snd (circ_channels c)" "c\<lparr>protocol_version := v\<rparr>"] map_of_SomeD [OF that] channel_refs [OF assms, of r]
    by (force simp: set_versions_def)
  with fields [of "map snd (circ_channels c)" "c\<lparr>protocol_version := v\<rparr>"] show ?thesis by (simp add: set_versions_def)
qed

lemma transmuted_any:
  assumes "msg_class resp = EventAddResponse" and "dget (event_cancel_commands c) (msg_subscriptionid resp) = Some add"
    and "msg_payload_size resp = 0" and "msg_data_type resp = Inr t"
  shows "\<exists>m. transmute c resp = Inr m \<and> msg_class m = EventCancelResponse \<and> msg_subscriptionid m = msg_subscriptionid resp"
proof -
  let ?h = "EventCancelResponseHeader (ct_value t) (msg_data_count resp) (msg_sid add) (msg_subscriptionid resp)"
  let ?m = "from_components EventCancelResponse ?h [] None"
  have "EventCancelResponse_init (ct_value t) (msg_sid add) (msg_subscriptionid resp) (msg_data_count resp) = Inr ?m"
    by (rule cancel_response_init)
  then have "transmute c resp = Inr ?m" using assms by (simp add: transmute_def)
  moreover have "h_parameter2 ?h = msg_subscriptionid resp"
    by (simp add: EventCancelResponseHeader_def msg_subscriptionid_def param_range [simplified])
  ultimately show ?thesis by (simp add: from_components_def msg_subscriptionid_def)
qed

lemma late_update_fails:
  assumes "wf_circuit c" and "msg_class m = EventAddResponse"
    and "dget (event_add_commands c) (msg_subscriptionid m) = Some event_add"
    and "dget (circ_channels_sid c) (msg_sid event_add) = None" and "msg_data_type m = Inr t"
  shows "process_command mk_filter (Command m) c = (c, Inl KeyError)"
proof -
  obtain m' where m': "transmute c m = Inr m'" "msg_class m' = EventAddResponse \<or> msg_class m' = EventCancelResponse"
    "msg_subscriptionid m' = msg_subscriptionid m"
  proof (cases "dget (event_cancel_commands c) (msg_subscriptionid m) \<noteq> None \<and> msg_payload_size m = 0")
    case True
    then obtain add where add: "dget (event_cancel_commands c) (msg_subscriptionid m) = Some add" by blast
    from transmuted_any [OF assms(2) add _ assms(5)] True that show thesis by blast
  next
    case False
    then have "transmute c m = Inr m" by (auto simp: transmute_def split: option.splits)
    with assms(2) that show thesis by blast
  qed
  have look: "lookup_channel mk_filter m' c = (c, Inl KeyError)"
    using m' assms(3,4) by (auto simp: lookup_channel_def in_cls_def getitem_def)
  have "in_cls m' channel_classes" using m'(2) by (auto simp: in_cls_def channel_classes_def)
  with m' look show ?thesis by (simp add: process_command_def process_command_internal_def channel_command_def)
qed

lemma send_bytes:
  assumes "send mk_filter ms c = (c', Inr bufs)" and "\<forall>m \<in> set ms. wire_ready m"
  shows "concat bufs = concat (map message_bytes ms)"
  using assms
proof (induction ms arbitrary: c bufs)
  case (Cons m ms)
  obtain c1 r1 where p: "process_command_internal mk_filter (Command m) c = (c1, r1)" by fastforce
  obtain c2 r2 where s: "send mk_filter ms c1 = (c2, r2)" by fastforce
  from Cons.prems(1) p s obtain cb bufs' where r: "r1 = Inr cb" "r2 = Inr bufs'" "c2 = c'"
    and b: "bufs = header_bytes (msg_header m) # msg_buffers m @ bufs'"
    by (cases r1; cases r2) auto
  have "concat bufs' = concat (map message_bytes ms)" using Cons.IH [of c1 bufs'] s r Cons.prems(2) by simp
  with b Cons.prems(2) show ?case by (simp add: message_bytes_ready)
qed simp

lemma transfer:
  assumes "send mk_filter ms c = (c', Inr bufs)" and "ms \<noteq> []"
    and "\<forall>m \<in> set ms. constructed m \<and> sender_role (msg_class m) = our_role c"
    and "their_role s = our_role c" and "circ_data s = []"
  shows "recv [concat bufs] s = (s, Inr (map (Command \<circ> received) ms, 16))"
proof -
  have bytes: "concat bufs = concat (map message_bytes ms)"
  proof (rule send_bytes [OF assms(1)])
    show "\<forall>m \<in> set ms. wire_ready m" using assms(3) constructed_sound by (auto simp: shaped_def sound_message_def)
  qed
  have "message_bytes m \<noteq> []" for m
    using sizeof_header_ge [of "msg_header m"] length_header_bytes [of "msg_header m"]
    by (auto simp: message_bytes_def Let_def simp del: length_header_bytes)
  then have ne: "concat bufs \<noteq> []" using assms(2) bytes by (cases ms) auto
  have "recv_loop (our_role c) (concat (map message_bytes ms)) = (map received ms, [], Inr 16)"
    using recv_constructed [OF assms(3), of "[]"] by simp
  moreover have "s\<lparr>circ_data := []\<rparr> = s" using assms(5) by (cases s) simp
  ultimately show ?thesis using ne bytes assms(4,5) by (simp add: recv_def)
qed

lemma example_reachable: "reachable (\<lambda>_. Inr ()) example_circuit"
proof -
  have "VirtualCircuit_init CLIENT (''10.0.0.7'', 5064) (Some 0) 13
      = Inr (projr (VirtualCircuit_init CLIENT (''10.0.0.7'', 5064) (Some 0) 13) :: unit circuit)"
    by (simp add: VirtualCircuit_init_def)
  then have start: "reachable (\<lambda>_. Inr ()) (projr (VirtualCircuit_init CLIENT (''10.0.0.7'', 5064) (Some 0) 13) :: unit circuit)"
    by (rule reachable.init)
  have "reachable (\<lambda>_. Inr ()) c \<Longrightarrow>
      reachable (\<lambda>_. Inr ()) (fold (\<lambda>m c. fst (process_command (\<lambda>_. Inr ()) (Command m) c)) ms c)" for ms and c :: "unit circuit"
    by (induction ms arbitrary: c) (simp_all add: reachable.command)
  with start show ?thesis by (simp add: example_circuit_def)
qed

lemma example_wf: "wf_circuit example_circuit"
  using reachable_ok [OF example_reachable] by simp

section \<open>Properties\<close>

text \<open>
  C1. Every circuit that a program can produce is consistent: the dictionaries of channels agree with the ids of
  the channel objects, every outstanding request belongs to a channel that is still registered, circuit and
  channel states are matching pairs, a channel has a server id only once it was created, and the subscription
  tables hold requests under their own id. Exceptions included: whatever \<^verbatim>\<open>_process_command\<close> has changed when it
  raises keeps the circuit consistent.
\<close>

theorem circuit_invariant:
  assumes "reachable mk_filter c"
  shows "wf_circuit c \<and> counters_ok c"
  by (rule reachable_ok [OF assms])

theorem circuit_invariant_witness:
  "\<exists>c m. reachable (\<lambda>_. Inr ()) c \<and> wf_circuit c \<and> VersionRequest_init 0 13 = Inr m
     \<and> circ_states (fst (process_command (\<lambda>_. Inr ()) (Command m) c)) = (AWAIT_VERSION_RESPONSE, SEND_VERSION_RESPONSE)"
proof -
  define c where "c = projr (VirtualCircuit_init CLIENT (''10.0.0.7'', 5064) (Some 0) 13 :: unit circuit result)"
  define m where "m = projr (VersionRequest_init 0 13)"
  have "VirtualCircuit_init CLIENT (''10.0.0.7'', 5064) (Some 0) 13 = Inr c" by (simp add: c_def VirtualCircuit_init_def)
  then have "reachable (\<lambda>_. Inr ()) c" by (rule reachable.init)
  moreover have "VersionRequest_init 0 13 = Inr m" unfolding m_def by code_simp
  moreover have "circ_states (fst (process_command (\<lambda>_. Inr ()) (Command m) c)) = (AWAIT_VERSION_RESPONSE, SEND_VERSION_RESPONSE)"
    unfolding m_def c_def by code_simp
  ultimately show ?thesis using circuit_invariant by blast
qed

text \<open>
  C7. Requests and responses match up. A read or write request that is accepted is recorded under its id for the
  channel it names; the response with that id is then accepted, which removes the record; and a second response
  with the same id is refused without any effect.
\<close>

theorem request_response:
  assumes "wf_circuit c" and "msg_class rq \<in> {ReadNotifyRequest, ReadRequest, WriteNotifyRequest}"
    and "process_command mk_filter (Command rq) c = (c1, Inr cb)"
    and "msg_class rs \<in> {ReadNotifyResponse, ReadResponse, WriteNotifyResponse}" and "msg_ioid rs = msg_ioid rq"
    and "c2 = c1\<lparr>circ_ioids := ddel (msg_ioid rq) (circ_ioids c1)\<rparr>"
  shows "\<exists>r. dget (circ_channels_sid c) (msg_sid rq) = Some r \<and> dget (circ_ioids c1) (msg_ioid rq) = Some r
    \<and> process_command mk_filter (Command rs) c1 = (c2, Inr [])
    \<and> process_command mk_filter (Command rs) c2 = (c2, Inl (get_exception (our_role c) (msg_class rs)))"
proof -
  have cls: "msg_class rq \<in> set channel_classes" "msg_class rq \<noteq> EventAddResponse"
    and sid: "msg_class rq \<in> {ReadNotifyRequest, ReadRequest, WriteNotifyRequest, WriteRequest, EventAddRequest}"
    using assms(2) by (auto simp: channel_classes_def)
  from assms(3) have "channel_command mk_filter rq c = (c1, Inr cb)" by (simp add: process_channel_class [OF cls])
  then obtain r where r: "dget (circ_channels_sid c) (msg_sid rq) = Some r" "ch_states (chan c r) = (CONNECTED, CONNECTED)"
    "connected (circ_states c)"
    by (rule sid_request [OF assms(1) sid])
  have c1: "c1 = c\<lparr>circ_ioids := dset (msg_ioid rq) r (circ_ioids c)\<rparr>"
    using request_accepted [OF assms(2) r, of mk_filter] assms(3) by simp
  then have ioid: "dget (circ_ioids c1) (msg_ioid rs) = Some r" by (simp add: assms(5) dict_simps)
  moreover have "process_command mk_filter (Command rs) c1 = (c2, Inr [])"
    using answer_accepted [OF assms(4) ioid, of mk_filter] r assms(5,6) by (simp add: c1)
  moreover have "process_command mk_filter (Command rs) c2 = (c2, Inl (get_exception (our_role c) (msg_class rs)))"
    using answer_unknown [OF assms(4), of c2 mk_filter] by (simp add: assms(5,6) c1 dict_simps)
  ultimately show ?thesis using r(1) assms(5) by simp
qed

theorem request_response_witness:
  "\<exists>rq c1. ReadNotifyRequest_init 6 1 5 9 = Inr rq \<and> process_command (\<lambda>_. Inr ()) (Command rq) example_circuit = (c1, Inr [])
     \<and> dget (circ_ioids c1) 9 = Some 0"
proof -
  let ?mk = "\<lambda>_ :: pystr. Inr () :: unit result"
  define rq where "rq = projr (ReadNotifyRequest_init 6 1 5 9)"
  define rs where "rs = projr (WriteNotifyResponse_init 6 1 (Status_int 1) 9)"
  define c1 where "c1 = fst (process_command ?mk (Command rq) example_circuit)"
  have rq: "ReadNotifyRequest_init 6 1 5 9 = Inr rq" unfolding rq_def by code_simp
  have "snd (process_command ?mk (Command rq) example_circuit) = Inr []" unfolding rq_def by code_simp
  then have p: "process_command ?mk (Command rq) example_circuit = (c1, Inr [])" by (simp add: c1_def prod_eq_iff)
  have f: "msg_class rq = ReadNotifyRequest" "msg_class rs = WriteNotifyResponse" "msg_ioid rs = msg_ioid rq" "msg_ioid rq = 9"
    "dget (circ_channels_sid example_circuit) (msg_sid rq) = Some 0"
    unfolding rq_def rs_def by code_simp+
  from request_response [OF example_wf _ p, of rs] f rq p show ?thesis by auto
qed

text \<open>
  C8. The life of a subscription. After an accepted \<^verbatim>\<open>EventAddRequest\<close> and an accepted \<^verbatim>\<open>EventCancelRequest\<close> for it,
  the empty \<^verbatim>\<open>EventAddResponse\<close> that servers send is understood as the confirmation: it is accepted, the
  subscription leaves both tables, and nothing else changes.
\<close>

theorem subscription_lifecycle:
  assumes "wf_circuit c" and "msg_class add = EventAddRequest" and "process_command mk_filter (Command add) c = (c1, Inr cb)"
    and "msg_class cancel = EventCancelRequest" and "msg_subscriptionid cancel = msg_subscriptionid add"
    and "process_command mk_filter (Command cancel) c1 = (c2, Inr cb')"
    and "msg_class resp = EventAddResponse" and "msg_subscriptionid resp = msg_subscriptionid add"
    and "msg_payload_size resp = 0" and "msg_data_type resp = msg_data_type add"
  shows "dget (event_add_commands c1) (msg_subscriptionid add) = Some add
    \<and> dget (event_cancel_commands c2) (msg_subscriptionid add) = Some add
    \<and> process_command mk_filter (Command resp) c2 =
        (c2\<lparr>event_add_commands := ddel (msg_subscriptionid add) (event_add_commands c2),
            event_cancel_commands := ddel (msg_subscriptionid add) (event_cancel_commands c2)\<rparr>, Inr [])"
proof -
  let ?k = "msg_subscriptionid add"
  have ca: "channel_command mk_filter add c = (c1, Inr cb)"
    using assms(2,3) by (simp add: process_channel_class channel_classes_def)
  have sid: "msg_class add \<in> {ReadNotifyRequest, ReadRequest, WriteNotifyRequest, WriteRequest, EventAddRequest}"
    by (simp add: assms(2))
  obtain r where r: "dget (circ_channels_sid c) (msg_sid add) = Some r" "ch_states (chan c r) = (CONNECTED, CONNECTED)"
    "connected (circ_states c)" "post_update add r c = (c1, Inr ())"
    by (rule sid_request [OF assms(1) sid ca])
  have c1: "c1 = c\<lparr>event_add_commands := dset ?k add (event_add_commands c)\<rparr>"
    using r(4) by (simp add: post_update_def in_cls_def assms(2))
  have a1: "dget (event_add_commands c1) ?k = Some add" by (simp add: c1 dict_simps)
  have "channel_command mk_filter cancel c1 = (c2, Inr cb')"
    using assms(4,6) by (simp add: process_channel_class channel_classes_def)
  note cancel = this [unfolded channel_command_def lookup_cancel [OF assms(4)] assms(5) a1]
  have g: "getitem (circ_channels_sid c1) (msg_sid add) = Inr r" using r(1) by (simp add: getitem_simps c1)
  have stay1: "channel_process_command cancel r c1 = (c1, Inr [])"
    using r by (intro channel_process_stay) (auto simp: request_classes_def assms(4) c1)
  have val: "validate_subscription c1 cancel = Inr ()" using cancel g by (auto split: sum.splits)
  then obtain t where t: "msg_data_type add = Inr t"
    using a1 by (auto simp: validate_subscription_def in_cls_def assms(4,5) getitem_def bindE_eq_Inr Let_def)
  have c2: "c2 = c1\<lparr>event_cancel_commands := dset ?k add (event_cancel_commands c1)\<rparr>"
    using cancel g val stay1 a1 by (simp add: post_update_def in_cls_def assms(4,5))
  have a2: "dget (event_add_commands c2) ?k = Some add" "dget (event_cancel_commands c2) ?k = Some add"
    using a1 by (simp_all add: c2 dict_simps)
  obtain m where m: "transmute c2 resp = Inr m" "msg_class m = EventCancelResponse" "msg_data_type m = Inr t"
      "msg_sid m = msg_sid add" "msg_subscriptionid m = ?k"
    using transmuted [OF assms(7) _ assms(9), of c2 add t] a2 assms(2,8,10) t by auto
  have g2: "getitem (circ_channels_sid c2) (msg_sid add) = Inr r" using g by (simp add: c2)
  have val2: "validate_subscription c2 m = Inr ()"
    using a2 t m by (simp add: validate_subscription_def in_cls_def getitem_def)
  have stay2: "channel_process_command m r c2 = (c2, Inr [])"
    using r m by (intro channel_process_stay) (auto simp: answer_classes_def c1 c2)
  have "process_command mk_filter (Command resp) c2 = channel_command mk_filter m c2"
    using m by (simp add: process_command_def process_command_internal_def in_cls_def channel_classes_def)
  also have "\<dots> = (c2\<lparr>event_add_commands := ddel ?k (event_add_commands c2), event_cancel_commands := ddel ?k (event_cancel_commands c2)\<rparr>, Inr [])"
    using m a2 g2 val2 stay2
    by (simp add: channel_command_def lookup_answer post_update_def in_cls_def Let_def)
  finally show ?thesis using a1 a2 by simp
qed

theorem subscription_lifecycle_witness:
  "\<exists>add cancel resp c1 c2. EventAddRequest_init 6 1 5 7 0 0 0 13 = Inr add \<and> EventCancelRequest_init 6 5 7 = Inr cancel
     \<and> EventCancelResponse_init 6 5 7 1 = Inr resp
     \<and> fst (process_command (\<lambda>_. Inr ()) (Command add) example_circuit) = c1
     \<and> fst (process_command (\<lambda>_. Inr ()) (Command cancel) c1) = c2
     \<and> event_add_commands (fst (process_command (\<lambda>_. Inr ()) (Command (resp\<lparr>msg_class := EventAddResponse\<rparr>)) c2)) = []"
proof -
  let ?mk = "\<lambda>_ :: pystr. Inr () :: unit result"
  define add where "add = projr (EventAddRequest_init 6 1 5 7 0 0 0 13)"
  define cancel where "cancel = projr (EventCancelRequest_init 6 5 7)"
  define resp where "resp = projr (EventCancelResponse_init 6 5 7 1)"
  define c1 where "c1 = fst (process_command ?mk (Command add) example_circuit)"
  define c2 where "c2 = fst (process_command ?mk (Command cancel) c1)"
  note defs = add_def cancel_def resp_def c1_def c2_def
  have m: "EventAddRequest_init 6 1 5 7 0 0 0 13 = Inr add" "EventCancelRequest_init 6 5 7 = Inr cancel"
    "EventCancelResponse_init 6 5 7 1 = Inr resp"
    unfolding defs by code_simp+
  have s1: "snd (process_command ?mk (Command add) example_circuit) = Inr []"
    and s2: "snd (process_command ?mk (Command cancel) c1) = Inr []"
    unfolding defs by code_simp+
  have p1: "process_command ?mk (Command add) example_circuit = (c1, Inr [])"
    and p2: "process_command ?mk (Command cancel) c1 = (c2, Inr [])"
    using s1 s2 by (simp_all add: c1_def c2_def prod_eq_iff)
  have f: "msg_class add = EventAddRequest" "msg_class cancel = EventCancelRequest"
    "msg_subscriptionid cancel = msg_subscriptionid add" "msg_subscriptionid resp = msg_subscriptionid add"
    "msg_payload_size resp = 0" "msg_data_type resp = msg_data_type add" "msg_subscriptionid add = 7"
    "map fst (event_add_commands c2) = [7]"
    unfolding defs by code_simp+
  have up: "msg_subscriptionid (resp\<lparr>msg_class := EventAddResponse\<rparr>) = msg_subscriptionid resp"
    "msg_payload_size (resp\<lparr>msg_class := EventAddResponse\<rparr>) = msg_payload_size resp"
    "msg_data_type (resp\<lparr>msg_class := EventAddResponse\<rparr>) = msg_data_type resp"
    by (simp_all add: msg_subscriptionid_def msg_payload_size_def msg_data_type_def)
  from f(8) have "ddel 7 (event_add_commands c2) = []" by (cases "event_add_commands c2") auto
  with subscription_lifecycle [OF example_wf f(1) p1 f(2,3) p2, of "resp\<lparr>msg_class := EventAddResponse\<rparr>"] f m up
  show ?thesis by (auto simp: c1_def c2_def)
qed



text \<open>
  A channel that is closed leaves no trace: when the response that clears it, or the notice that the server
  dropped it, is accepted, no table refers to the channel any more, neither by its ids nor by an outstanding request.
\<close>

theorem close_removes:
  assumes "wf_circuit c" and "msg_class m \<in> {ClearChannelResponse, ServerDisconnResponse}"
    and "process_command mk_filter (Command m) c = (c', Inr cb)"
  shows "\<exists>r. dget (circ_channels c) (msg_cid m) = Some r \<and> (\<forall>k. dget (circ_channels c') k \<noteq> Some r)
    \<and> (\<forall>s. dget (circ_channels_sid c') s \<noteq> Some r) \<and> (\<forall>i. dget (circ_ioids c') i \<noteq> Some r)"
proof -
  obtain r c2 res where "dget (circ_channels c) (msg_cid m) = Some r" "wf_circuit c2" "registered c2 r"
    "remove_channel r c2 = (c', Inr ())"
    by (rule closing [OF assms])
  with removed [of c2 r c'] show ?thesis by blast
qed

theorem close_removes_witness:
  "\<exists>m. ServerDisconnResponse_init 1 = Inr m \<and> dget (circ_channels example_circuit) 1 = Some 0
     \<and> (\<forall>k. dget (circ_channels (fst (process_command (\<lambda>_. Inr ()) (Command m) example_circuit))) k \<noteq> Some 0)"
proof -
  let ?mk = "\<lambda>_ :: pystr. Inr () :: unit result"
  define m where "m = projr (ServerDisconnResponse_init 1)"
  have m: "ServerDisconnResponse_init 1 = Inr m" unfolding m_def by code_simp
  have "\<not> isl (snd (process_command ?mk (Command m) example_circuit))" unfolding m_def by code_simp
  then obtain c' cb where p: "process_command ?mk (Command m) example_circuit = (c', Inr cb)"
    by (cases "process_command ?mk (Command m) example_circuit"; cases "snd (process_command ?mk (Command m) example_circuit)") auto
  have f: "msg_class m = ServerDisconnResponse" "msg_cid m = 1" "dget (circ_channels example_circuit) 1 = Some 0"
    unfolding m_def by code_simp+
  from close_removes [OF example_wf _ p] f m p show ?thesis by auto
qed

text \<open>
  C29. Version negotiation. An accepted version message lowers the protocol version of the circuit to the minimum of
  both sides and hands it to every registered channel (a response with version 0 is only an echo); a version
  request also fixes the priority of a circuit that has none.
\<close>

theorem version_negotiation:
  assumes "wf_circuit c" and "msg_class m = VersionRequest \<or> msg_class m = VersionResponse \<and> msg_version m \<noteq> 0"
    and "process_command mk_filter (Command m) c = (c', Inr cb)"
  shows "protocol_version c' = min (protocol_version c) (msg_version m)
    \<and> (msg_class m = VersionRequest \<longrightarrow> circ_priority c' = Some (msg_priority m))
    \<and> (\<forall>k r. dget (circ_channels c') k = Some r \<longrightarrow> ch_protocol_version (chan c' r) = protocol_version c')"
proof -
  have "msg_class m \<notin> set channel_classes" using assms(2) by (auto simp: channel_classes_def)
  with assms(3) have cc: "circuit_command m c = (c', Inr cb)" by (simp add: process_circuit_class)
  have p: "circ_states c \<in> set circuit_pairs" using assms(1) by (simp add: wf_circuit_def states_ok_def)
  obtain st res where s: "circuit_step (our_role c) (msg_class m) (circ_states c) = (st, res)" by fastforce
  obtain c2 r2 where v: "process_version m (c\<lparr>circ_states := st\<rparr>) = (c2, r2)" by fastforce
  have "c2 = c' \<and> r2 = Inr ()" using cc s v by (cases res; cases r2) (auto simp: circuit_command_step [OF p])
  with v have v': "process_version m (c\<lparr>circ_states := st\<rparr>) = (c', Inr ())" by simp
  have w: "wf_circuit (c\<lparr>circ_states := st\<rparr>)" using wf_circ_states [OF assms(1), of "our_role c" "msg_class m"] s by simp
  let ?d = "if msg_class m = VersionRequest then c\<lparr>circ_states := st, circ_priority := Some (msg_priority m)\<rparr> else c\<lparr>circ_states := st\<rparr>"
  have c': "c' = set_versions (min (protocol_version c) (msg_version m)) ?d"
    using v' assms(2) by (auto simp: process_version_def in_cls_def split: if_splits)
  have wd: "wf_circuit ?d" using w by (simp add: wf_circuit_def)
  from set_versions_all [OF wd, of "min (protocol_version c) (msg_version m)"] show ?thesis
    by (auto simp: c')
qed

theorem version_negotiation_witness:
  "\<exists>m. VersionResponse_init 11 = Inr m
     \<and> protocol_version (fst (process_command (\<lambda>_. Inr ()) (Command m) example_circuit)) = 11"
proof -
  let ?mk = "\<lambda>_ :: pystr. Inr () :: unit result"
  define m where "m = projr (VersionResponse_init 11)"
  have m: "VersionResponse_init 11 = Inr m" unfolding m_def by code_simp
  have "\<not> isl (snd (process_command ?mk (Command m) example_circuit))" unfolding m_def by code_simp
  then obtain c' cb where p: "process_command ?mk (Command m) example_circuit = (c', Inr cb)"
    by (cases "process_command ?mk (Command m) example_circuit"; cases "snd (process_command ?mk (Command m) example_circuit)") auto
  have f: "msg_class m = VersionResponse" "msg_version m = 11" "protocol_version example_circuit = 13"
    unfolding m_def by code_simp+
  from version_negotiation [OF example_wf _ p] f m p show ?thesis by auto
qed

text \<open>
  A command that names a channel id the circuit does not know raises a plain \<^verbatim>\<open>KeyError\<close>, which is not a
  \<^verbatim>\<open>ProtocolError\<close>, and changes nothing.
\<close>

theorem unknown_channel:
  assumes "msg_class m \<in> {ClearChannelRequest, ClearChannelResponse, CreateChanResponse, CreateChFailResponse,
      AccessRightsResponse, ServerDisconnResponse}"
    and "dget (circ_channels c) (msg_cid m) = None"
  shows "process_command mk_filter (Command m) c = (c, Inl KeyError) \<and> \<not> is_ProtocolError KeyError"
proof -
  have cls: "msg_class m \<in> set channel_classes" "msg_class m \<noteq> EventAddResponse"
    using assms(1) by (auto simp: channel_classes_def)
  show ?thesis
    using lookup_cid [OF assms(1), of mk_filter c] assms(2)
    by (simp add: process_channel_class [OF cls] channel_command_def getitem_def is_ProtocolError_def)
qed

theorem unknown_channel_witness:
  "\<exists>m. ClearChannelRequest_init 5 2 = Inr m
     \<and> process_command (\<lambda>_. Inr ()) (Command m) example_circuit = (example_circuit, Inl KeyError)"
proof -
  define m where "m = projr (ClearChannelRequest_init 5 2)"
  have "ClearChannelRequest_init 5 2 = Inr m" "msg_class m = ClearChannelRequest"
    "dget (circ_channels example_circuit) (msg_cid m) = None"
    unfolding m_def by code_simp+
  with unknown_channel [of m example_circuit] show ?thesis by auto
qed

text \<open>
  The comment in the table of channel transitions says that an \<^verbatim>\<open>EventCancelResponse\<close> that arrives after its channel
  was closed is tolerated. The circuit never gets that far: the subscription is still in its table but its
  channel is not, and looking the channel up raises \<^verbatim>\<open>KeyError\<close>.
\<close>

theorem late_update:
  assumes "wf_circuit c" and "msg_class m = EventAddResponse"
    and "dget (event_add_commands c) (msg_subscriptionid m) = Some event_add"
    and "dget (circ_channels_sid c) (msg_sid event_add) = None" and "msg_data_type m = Inr t"
  shows "process_command mk_filter (Command m) c = (c, Inl KeyError)"
  by (rule late_update_fails [OF assms])

theorem late_update_witness:
  "\<exists>c m. msg_class m = EventAddResponse \<and> msg_payload_size m = 0 \<and> dget (event_add_commands c) 7 \<noteq> None
     \<and> process_command (\<lambda>_. Inr ()) (Command m) c = (c, Inl KeyError)"
proof -
  let ?mk = "\<lambda>_ :: pystr. Inr () :: unit result"
  define c where "c = fold (\<lambda>m c. fst (process_command ?mk (Command m) c))
    (map projr [EventAddRequest_init 6 1 5 7 0 0 0 13, EventCancelRequest_init 6 5 7, ClearChannelRequest_init 5 1,
       ClearChannelResponse_init 5 1]) example_circuit"
  define m where "m = (projr (EventCancelResponse_init 6 5 7 1))\<lparr>msg_class := EventAddResponse\<rparr>"
  have w: "wf_circuit c"
    unfolding c_def by (simp add: process_command_def circuit_op.step_inv example_wf)
  have f: "msg_class m = EventAddResponse" "msg_payload_size m = 0" "msg_subscriptionid m = 7"
    "msg_data_type m = Inr CT_DOUBLE" "map_option msg_sid (dget (event_add_commands c) 7) = Some 5"
    "dget (circ_channels_sid c) 5 = None"
    unfolding c_def m_def by code_simp+
  then obtain ev where ev: "dget (event_add_commands c) 7 = Some ev" "msg_sid ev = 5" by auto
  with late_update [OF w f(1), of ev CT_DOUBLE ?mk] f show ?thesis by auto
qed

text \<open>
  C32. The stream may be cut anywhere: receiving two pieces one after the other gives the commands, the remaining bytes
  and the number of bytes needed that receiving them together gives.
\<close>

theorem recv_chunks:
  assumes "a \<noteq> []" and "b \<noteq> []" and "recv [a] c = (c1, Inr (cs1, n1))" and "recv [b] c1 = (c2, res)"
  shows "recv [a, b] c = (c2, bindE res (\<lambda>(cs2, n2). Inr (cs1 @ cs2, n2)))"
proof -
  obtain ms rest where 1: "recv_loop (their_role c) (circ_data c @ a) = (ms, rest, Inr n1)"
    "c1 = c\<lparr>circ_data := rest\<rparr>" "cs1 = map Command ms"
    using assms(1,3) by (auto simp: recv_def split: prod.splits sum.splits)
  obtain ms' rest' r where 2: "recv_loop (their_role c) (rest @ b) = (ms', rest', r)" by (metis prod.exhaust)
  have "recv_loop (their_role c) (circ_data c @ a @ b) = (ms @ ms', rest', r)"
    using ca_stream.drain_append [of "their_role c" "circ_data c @ a" b] 1 2 by simp
  with assms 1 2 show ?thesis by (cases r) (auto simp: recv_def)
qed

theorem recv_chunks_witness:
  "\<exists>m c1 c2 res. EchoResponse_init = Inr m \<and> recv [take 7 (message_bytes m)] example_circuit = (c1, Inr ([], 9))
     \<and> recv [drop 7 (message_bytes m)] c1 = (c2, res)
     \<and> recv [take 7 (message_bytes m), drop 7 (message_bytes m)] example_circuit = (c2, bindE res (\<lambda>(cs2, n2). Inr ([] @ cs2, n2)))"
proof -
  define m where "m = projr EchoResponse_init"
  let ?a = "take 7 (message_bytes m)" and ?b = "drop 7 (message_bytes m)"
  have l: "length (message_bytes m) = 16" "circ_data example_circuit = []" "EchoResponse_init = Inr m"
    unfolding m_def by code_simp+
  then have ne: "?a \<noteq> []" "?b \<noteq> []" by (auto simp flip: length_greater_0_conv)
  have r1: "recv [?a] example_circuit = (example_circuit\<lparr>circ_data := ?a\<rparr>, Inr ([], 9))"
    using l by (simp add: recv_def recv_loop_short)
  obtain c2 res where r2: "recv [?b] (example_circuit\<lparr>circ_data := ?a\<rparr>) = (c2, res)" by fastforce
  from recv_chunks [OF ne r1 r2] r1 r2 l show ?thesis by blast
qed



end
