(* ===== verification/CA_Channels.thy ===== *)
theory CA_Channels
  imports CA_Filters CA_Circuit_Props
begin

text \<open>
  \<^verbatim>\<open>ClientChannel\<close> and \<^verbatim>\<open>ServerChannel\<close> of \<^verbatim>\<open>caproto/_circuit.py\<close>: the methods by which client and server code
  composes commands for a channel. They fill in defaults from what the channel knows, draw ids from the circuit
  and leave sending to the caller. A channel is named by its reference in the store of its circuit. The theorem at
  the end follows a reading from the client's request to the answer.
\<close>

section \<open>Arguments\<close>

text \<open>The argument \<^verbatim>\<open>data_type\<close>: nothing, the name of a kind, or a type id.\<close>

datatype type_arg = DT_none | DT_str pystr | DT_int int

text \<open>
  An attribute that may be \<^verbatim>\<open>None\<close> in a header field raises \<^verbatim>\<open>TypeError\<close>; \<^verbatim>\<open>ChannelType(None)\<close> raises
  \<^verbatim>\<open>ValueError\<close>, and looking up its native type \<^verbatim>\<open>KeyError\<close>.
\<close>

definition need :: "int option \<Rightarrow> int result" where
  "need v = (case v of None \<Rightarrow> Inl TypeError | Some i \<Rightarrow> Inr i)"

definition ChannelType_arg :: "int option \<Rightarrow> ChannelType result" where
  "ChannelType_arg t = (case t of None \<Rightarrow> Inl ValueError | Some i \<Rightarrow> ChannelType_of_int i)"

definition native_type_arg :: "int option \<Rightarrow> ChannelType result" where
  "native_type_arg t = (case t of None \<Rightarrow> Inl KeyError | Some i \<Rightarrow> bindE (channel_type_key i) native_type)"

text \<open>\<^verbatim>\<open>str.lower\<close>; the names of the kinds have ASCII letters only.\<close>

definition lower :: "pystr \<Rightarrow> pystr" where
  "lower s = map (\<lambda>c. if 65 \<le> c \<and> c \<le> 90 then c + 32 else c) s"

definition field_types_of :: "pystr \<Rightarrow> (ChannelType, ChannelType) dict result" where
  "field_types_of kind = getitem (map (\<lambda>(k, v). (lit k, v)) field_types) (lower kind)"

definition fill_defaults :: "'f channel \<Rightarrow> type_arg \<Rightarrow> int option \<Rightarrow> (int option \<times> int option) result" where
  "fill_defaults ch data_type data_count =
     bindE (case data_type of
              DT_none \<Rightarrow> Inr (map_option ct_value (ch_native_data_type ch))
            | DT_str kind \<Rightarrow>
                bindE (field_types_of kind) (\<lambda>tab.
                  case ch_native_data_type ch of
                    None \<Rightarrow> Inl KeyError
                  | Some t \<Rightarrow> bindE (getitem tab t) (\<lambda>p. Inr (Some (ct_value p))))
            | DT_int i \<Rightarrow> Inr (Some i)) (\<lambda>t.
       Inr (t, case data_count of
                 Some n \<Rightarrow> Some n
               | None \<Rightarrow> if ch_protocol_version ch \<ge> 13 then Some 0 else ch_native_data_count ch))"

text \<open>The property \<^verbatim>\<open>subscriptions\<close>.\<close>

definition subscriptions :: "ref \<Rightarrow> 'f circuit \<Rightarrow> (int, message) dict" where
  "subscriptions r c = filter (\<lambda>(k, v). ch_sid (chan c r) = Some (msg_sid v)) (event_add_commands c)"

text \<open>A generated id, or the one that was given; \<open>None\<close> when the generator does not return.\<close>

definition given_or :: "int option \<Rightarrow> ('f circuit \<Rightarrow> ('f circuit \<times> int) option) \<Rightarrow> 'f circuit \<Rightarrow> ('f circuit \<times> int) option" where
  "given_or i gen c = (case i of Some v \<Rightarrow> Some (c, v) | None \<Rightarrow> gen c)"

section \<open>Client channels\<close>

text \<open>\<^verbatim>\<open>_BaseChannel.__init__\<close> with an optional \<^verbatim>\<open>cid\<close>: the filter is parsed before an id is drawn.\<close>

definition Channel_init ::
  "(pystr \<Rightarrow> 'f result) \<Rightarrow> pystr \<Rightarrow> int option \<Rightarrow> 'f circuit \<Rightarrow> ('f circuit \<times> ref result) option" where
  "Channel_init mk_filter name cid c =
     (case mk_filter name of
        Inl e \<Rightarrow> Some (c, Inl e)
      | Inr _ \<Rightarrow> map_option (\<lambda>(c, v). BaseChannel_init mk_filter name v c) (given_or cid new_channel_id c))"

definition ClientChannel_version :: "ref \<Rightarrow> 'f circuit \<Rightarrow> message result" where
  "ClientChannel_version r c =
     bindE (need (circ_priority c)) (\<lambda>priority. VersionRequest_init priority (ch_protocol_version (chan c r)))"

definition ClientChannel_host_name :: "text_arg \<Rightarrow> message result" where
  "ClientChannel_host_name host_name = HostNameRequest_init host_name"

definition ClientChannel_client_name :: "text_arg \<Rightarrow> message result" where
  "ClientChannel_client_name client_name = ClientNameRequest_init client_name"

definition ClientChannel_create :: "ref \<Rightarrow> 'f circuit \<Rightarrow> message result" where
  "ClientChannel_create r c =
     CreateChanRequest_init (Str (ch_name (chan c r))) (ch_cid (chan c r)) (ch_protocol_version (chan c r))"

definition ClientChannel_clear :: "ref \<Rightarrow> 'f circuit \<Rightarrow> message result" where
  "ClientChannel_clear r c =
     bindE (need (ch_sid (chan c r))) (\<lambda>sid. ClearChannelRequest_init sid (ch_cid (chan c r)))"

definition ClientChannel_read ::
  "ref \<Rightarrow> type_arg \<Rightarrow> int option \<Rightarrow> int option \<Rightarrow> bool \<Rightarrow> 'f circuit \<Rightarrow> ('f circuit \<times> message result) option" where
  "ClientChannel_read r data_type data_count ioid notify c =
     (case fill_defaults (chan c r) data_type data_count of
        Inl e \<Rightarrow> Some (c, Inl e)
      | Inr (t, n) \<Rightarrow>
          map_option (\<lambda>(c', i). (c',
              bindE (ChannelType_arg t) (\<lambda>t. bindE (need n) (\<lambda>n. bindE (need (ch_sid (chan c r))) (\<lambda>sid.
                (if notify then ReadNotifyRequest_init else ReadRequest_init) (ct_value t) n sid i)))))
            (given_or ioid new_ioid c))"

text \<open>
  The data of \<^verbatim>\<open>write\<close>: a string, bytes, a list or tuple, an array of the selected backend, or a value that is not
  iterable. Afterwards strings are encoded and single values are in a list.
\<close>

datatype 'v item = It_str pystr | It_bytes bytes | It_val 'v

datatype 'v write_data = W_str pystr | W_bytes bytes | W_list "'v item list" | W_array "'v list" | W_scalar 'v

datatype 'v encoded = E_str pystr | E_bytes bytes | E_list "'v item list" | E_array "'v list"

definition latin1_encode :: "pystr \<Rightarrow> bytes result" where
  "latin1_encode s = (if list_all (\<lambda>c. c < 256) s then Inr (map word_of_nat s) else Inl ValueError)"

text \<open>\<^verbatim>\<open>[val.encode(encoding) for val in data]\<close>; only strings have that method.\<close>

fun encode_items :: "(pystr \<Rightarrow> bytes result) \<Rightarrow> 'v item list \<Rightarrow> 'v item list result" where
  "encode_items enc [] = Inr []"
| "encode_items enc (It_str s # xs) =
     bindE (enc s) (\<lambda>b. bindE (encode_items enc xs) (\<lambda>bs. Inr (It_bytes b # bs)))"
| "encode_items enc (x # xs) = Inl AttributeError"

definition encode_list :: "(pystr \<Rightarrow> bytes result) \<Rightarrow> 'v item list \<Rightarrow> 'v encoded result" where
  "encode_list enc xs =
     (case xs of
        It_str _ # _ \<Rightarrow> bindE (encode_items enc xs) (\<lambda>ys. Inr (E_list ys))
      | _ \<Rightarrow> Inr (E_list xs))"

definition encode_data :: "(pystr \<Rightarrow> bytes result) \<Rightarrow> ChannelType \<Rightarrow> 'v write_data \<Rightarrow> 'v encoded result" where
  "encode_data enc native data =
     (if native \<noteq> CT_CHAR then
        (case data of
           W_scalar v \<Rightarrow> encode_list enc [It_val v]
         | W_str s \<Rightarrow> encode_list enc [It_str s]
         | W_bytes b \<Rightarrow> encode_list enc [It_bytes b]
         | W_list xs \<Rightarrow> encode_list enc xs
         | W_array vs \<Rightarrow> Inr (E_array vs))
      else
        (case data of
           W_scalar v \<Rightarrow> Inl TypeError
         | W_str s \<Rightarrow> if s = [] then Inr (E_str s) else bindE (enc s) (\<lambda>b. Inr (E_bytes b))
         | W_bytes b \<Rightarrow> Inr (E_bytes b)
         | W_list xs \<Rightarrow> encode_list enc xs
         | W_array vs \<Rightarrow> Inr (E_array vs)))"

fun encoded_len :: "'v encoded \<Rightarrow> int" where
  "encoded_len (E_str s) = int (length s)"
| "encoded_len (E_bytes b) = int (length b)"
| "encoded_len (E_list xs) = int (length xs)"
| "encoded_len (E_array vs) = int (length vs)"

definition encoded_arg :: "'v encoded \<Rightarrow> 'v encoded data_arg" where
  "encoded_arg d = (case d of E_bytes b \<Rightarrow> Data_bytes b | _ \<Rightarrow> Data_iter d)"

definition ClientChannel_write ::
  "(pystr \<Rightarrow> bytes result) \<Rightarrow> (ChannelType \<Rightarrow> 'v encoded \<Rightarrow> bytes result) \<Rightarrow> (ChannelType \<Rightarrow> 'm list \<Rightarrow> bytes result)
     \<Rightarrow> ref \<Rightarrow> 'v write_data \<Rightarrow> type_arg \<Rightarrow> int option \<Rightarrow> 'm md_arg \<Rightarrow> int option \<Rightarrow> bool \<Rightarrow> 'f circuit
     \<Rightarrow> ('f circuit \<times> message result) option" where
  "ClientChannel_write enc to_epics mk_dbr r data data_type data_count metadata ioid notify c =
     (case bindE (fill_defaults (chan c r) data_type data_count) (\<lambda>(t, n).
             bindE (native_type_arg t) (\<lambda>nt. bindE (encode_data enc nt data) (\<lambda>d. Inr (t, n, d)))) of
        Inl e \<Rightarrow> Some (c, Inl e)
      | Inr (t, n, d) \<Rightarrow>
          let n = (if n = Some 0 then Some (encoded_len d) else n)
          in map_option (\<lambda>(c', i). (c',
               bindE (ChannelType_arg t) (\<lambda>t.
               bindE (data_payload to_epics mk_dbr (encoded_arg d) metadata (ct_value t) 0) (\<lambda>_.
               bindE (need n) (\<lambda>n. bindE (need (ch_sid (chan c r))) (\<lambda>sid.
                 (if notify then WriteNotifyRequest_init else WriteRequest_init)
                   to_epics mk_dbr (encoded_arg d) (ct_value t) n sid i metadata))))))
             (given_or ioid new_ioid c))"

text \<open>\<^verbatim>\<open>DBE_VALUE | DBE_ALARM | DBE_PROPERTY\<close>.\<close>

definition default_mask :: int where "default_mask = 13"

definition ClientChannel_subscribe ::
  "ref \<Rightarrow> type_arg \<Rightarrow> int option \<Rightarrow> int option \<Rightarrow> 32 word \<Rightarrow> 32 word \<Rightarrow> 32 word \<Rightarrow> int option \<Rightarrow> 'f circuit
     \<Rightarrow> ('f circuit \<times> message result) option" where
  "ClientChannel_subscribe r data_type data_count subscriptionid low high to msk c =
     (case fill_defaults (chan c r) data_type data_count of
        Inl e \<Rightarrow> Some (c, Inl e)
      | Inr (t, n) \<Rightarrow>
          map_option (\<lambda>(c', i). (c',
              bindE (ChannelType_arg t) (\<lambda>t. bindE (need n) (\<lambda>n. bindE (need (ch_sid (chan c r))) (\<lambda>sid.
                EventAddRequest_init (ct_value t) n sid i low high to
                  (case msk of None \<Rightarrow> default_mask | Some k \<Rightarrow> k))))))
            (given_or subscriptionid new_subscriptionid c))"

definition ClientChannel_unsubscribe :: "ref \<Rightarrow> int \<Rightarrow> 'f circuit \<Rightarrow> message result" where
  "ClientChannel_unsubscribe r subscriptionid c =
     (case dget (event_add_commands c) subscriptionid of
        None \<Rightarrow> Inl CaprotoKeyError
      | Some event_add \<Rightarrow>
          if ch_sid (chan c r) \<noteq> Some (msg_sid event_add) then Inl CaprotoValueError
          else bindE (msg_data_type event_add) (\<lambda>t.
               EventCancelRequest_init (ct_value t) (msg_sid event_add) subscriptionid))"

section \<open>Server channels\<close>

definition ServerChannel_version :: "ref \<Rightarrow> 'f circuit \<Rightarrow> message result" where
  "ServerChannel_version r c = VersionResponse_init (ch_protocol_version (chan c r))"

definition ServerChannel_create :: "ref \<Rightarrow> int \<Rightarrow> int \<Rightarrow> int \<Rightarrow> 'f circuit \<Rightarrow> message result" where
  "ServerChannel_create r native_data_type native_data_count sid c =
     CreateChanResponse_init native_data_type native_data_count (ch_cid (chan c r)) sid"

definition ServerChannel_create_fail :: "ref \<Rightarrow> 'f circuit \<Rightarrow> message result" where
  "ServerChannel_create_fail r c = CreateChFailResponse_init (ch_cid (chan c r))"

text \<open>Without \<^verbatim>\<open>notify\<close> the status goes into the field that a \<^verbatim>\<open>ReadResponse\<close> calls \<^verbatim>\<open>sid\<close>, unconverted.\<close>

definition ServerChannel_read ::
  "(ChannelType \<Rightarrow> 'v \<Rightarrow> bytes result) \<Rightarrow> (ChannelType \<Rightarrow> 'm list \<Rightarrow> bytes result) \<Rightarrow> ref \<Rightarrow> 'v data_arg \<Rightarrow> int
     \<Rightarrow> type_arg \<Rightarrow> int option \<Rightarrow> status_arg \<Rightarrow> 'm md_arg \<Rightarrow> bool \<Rightarrow> 'f circuit \<Rightarrow> message result" where
  "ServerChannel_read to_epics mk_dbr r data ioid data_type data_count status metadata notify c =
     bindE (fill_defaults (chan c r) data_type data_count) (\<lambda>(t, n).
     bindE (ChannelType_arg t) (\<lambda>t.
     bindE (data_payload to_epics mk_dbr data metadata (ct_value t) 0) (\<lambda>_.
     bindE (need n) (\<lambda>n.
       if notify then ReadNotifyResponse_init to_epics mk_dbr data (ct_value t) n status ioid metadata
       else case status of
              Status_int s \<Rightarrow> ReadResponse_init to_epics mk_dbr data (ct_value t) n s ioid metadata
            | _ \<Rightarrow> Inl TypeError))))"

definition ServerChannel_write ::
  "ref \<Rightarrow> int \<Rightarrow> type_arg \<Rightarrow> int option \<Rightarrow> status_arg \<Rightarrow> 'f circuit \<Rightarrow> message result" where
  "ServerChannel_write r ioid data_type data_count status c =
     bindE (fill_defaults (chan c r) data_type data_count) (\<lambda>(t, n).
     bindE (ChannelType_arg t) (\<lambda>t. bindE (need n) (\<lambda>n. WriteNotifyResponse_init (ct_value t) n status ioid)))"

definition ServerChannel_subscribe ::
  "(ChannelType \<Rightarrow> 'v \<Rightarrow> bytes result) \<Rightarrow> (ChannelType \<Rightarrow> 'm list \<Rightarrow> bytes result) \<Rightarrow> ref \<Rightarrow> 'v data_arg \<Rightarrow> int
     \<Rightarrow> type_arg \<Rightarrow> int option \<Rightarrow> status_arg \<Rightarrow> 'm md_arg \<Rightarrow> 'f circuit \<Rightarrow> message result" where
  "ServerChannel_subscribe to_epics mk_dbr r data subscriptionid data_type data_count status metadata c =
     bindE (fill_defaults (chan c r) data_type data_count) (\<lambda>(t, n).
     bindE (ChannelType_arg t) (\<lambda>t.
     bindE (data_payload to_epics mk_dbr data metadata (ct_value t) 0) (\<lambda>_.
     bindE (need n) (\<lambda>n.
       EventAddResponse_init to_epics mk_dbr data (ct_value t) n status subscriptionid metadata))))"

definition ServerChannel_unsubscribe :: "ref \<Rightarrow> int \<Rightarrow> type_arg \<Rightarrow> int option \<Rightarrow> 'f circuit \<Rightarrow> message result" where
  "ServerChannel_unsubscribe r subscriptionid data_type data_count c =
     bindE (fill_defaults (chan c r) data_type data_count) (\<lambda>(t, n).
     bindE (ChannelType_arg t) (\<lambda>t. bindE (need n) (\<lambda>n. bindE (need (ch_sid (chan c r))) (\<lambda>sid.
       EventCancelResponse_init (ct_value t) sid subscriptionid n))))"

definition ServerChannel_clear :: "ref \<Rightarrow> 'f circuit \<Rightarrow> message result" where
  "ServerChannel_clear r c =
     bindE (need (ch_sid (chan c r))) (\<lambda>sid. ClearChannelResponse_init sid (ch_cid (chan c r)))"

definition ServerChannel_disconnect :: "ref \<Rightarrow> 'f circuit \<Rightarrow> message result" where
  "ServerChannel_disconnect r c = ServerDisconnResponse_init (ch_cid (chan c r))"

section \<open>A reading\<close>

text \<open>A client circuit and a server circuit with a channel that both see connected, under the same server id.\<close>

definition linked :: "'f circuit \<Rightarrow> 'g circuit \<Rightarrow> ref \<Rightarrow> ref \<Rightarrow> int \<Rightarrow> bool" where
  "linked c s r q sid \<longleftrightarrow>
     our_role c = CLIENT \<and> our_role s = SERVER \<and> 0 \<le> sid \<and> sid < 2 ^ 32
   \<and> dget (circ_channels_sid c) sid = Some r \<and> dget (circ_channels_sid s) sid = Some q
   \<and> ch_states (chan c r) = (CONNECTED, CONNECTED) \<and> ch_states (chan s q) = (CONNECTED, CONNECTED)
   \<and> connected (circ_states c) \<and> connected (circ_states s) \<and> circ_data c = [] \<and> circ_data s = []"

lemma new_ioid_fresh:
  assumes "counters_ok c" and "dget (circ_ioids c) free = None" and "0 \<le> free" and "free < 2 ^ 16"
  obtains i where "new_ioid c = Some (c\<lparr>ioid_counter := i\<rparr>, i)" "dget (circ_ioids c) i = None" "0 \<le> i" "i < 2 ^ 16"
proof -
  have inv: "counter_inv (ioid_counter c)" using assms(1) by (simp add: counters_ok_def)
  have "free \<notin> set (map fst (circ_ioids c))" using assms(2) by (simp add: map_of_eq_None_iff)
  then obtain i where i: "ThreadsafeCounter_call (map fst (circ_ioids c)) (ioid_counter c) = Some i"
    using counter.gen_total [OF inv assms(3), of "map fst (circ_ioids c)"] assms(4) by (metis MAX_ID_def)
  have fresh: "i \<notin> set (map fst (circ_ioids c))" "0 \<le> i" "i < 2 ^ 16"
    using counter.gen_fresh [OF inv i] by (simp_all add: MAX_ID_def)
  show thesis
  proof (rule that)
    show "new_ioid c = Some (c\<lparr>ioid_counter := i\<rparr>, i)" using i by (simp add: new_ioid_def)
    show "dget (circ_ioids c) i = None" using fresh(1) by (simp add: map_of_eq_None_iff)
  qed (use fresh in simp_all)
qed

lemma read_request_made:
  fixes t :: ChannelType
  shows "\<exists>rq. ReadNotifyRequest_init (ct_value t) n sid i = Inr rq \<and> constructed rq \<and> msg_class rq = ReadNotifyRequest
    \<and> msg_sid rq = sid mod 2 ^ 32 \<and> msg_ioid rq = i mod 2 ^ 32 \<and> received rq = rq"
proof -
  define rq where "rq = from_components ReadNotifyRequest (ReadNotifyRequestHeader (ct_value t) n sid i) [] None"
  have rq: "ReadNotifyRequest_init (ct_value t) n sid i = Inr rq"
    by (auto simp: ReadNotifyRequest_init_def Message_init_def validate_def validate_default_def rq_def
        from_components_def ReadNotifyRequestHeader_def Let_def)
  then have "constructed rq" by (rule constructed.intros)
  moreover have "msg_class rq = ReadNotifyRequest" "msg_sid rq = sid mod 2 ^ 32" "msg_ioid rq = i mod 2 ^ 32" "received rq = rq"
    by (auto simp: rq_def from_components_def msg_sid_def msg_ioid_def received_def ReadNotifyRequestHeader_def)
  ultimately show ?thesis using rq by blast
qed

lemma read_response_made:
  assumes "ReadNotifyResponse_init (to_epics :: ChannelType \<Rightarrow> int list \<Rightarrow> bytes result)
      (mk_dbr :: ChannelType \<Rightarrow> int list \<Rightarrow> bytes result) data t n status i md = Inr rs" and "data_fits rs"
  shows "constructed rs" and "msg_class rs = ReadNotifyResponse" and "msg_class (received rs) = ReadNotifyResponse"
    and "msg_ioid rs = i mod 2 ^ 32" and "msg_ioid (received rs) = i mod 2 ^ 32"
proof -
  show "constructed rs" using assms by (rule constructed.intros)
  obtain size bufs st where "rs = from_components ReadNotifyResponse (ReadNotifyResponseHeader (int size) t n st i) bufs None"
    using assms(1) by (auto simp: ReadNotifyResponse_init_def bindE_eq_Inr dest: Message_init_Inr(1))
  then show "msg_class rs = ReadNotifyResponse" "msg_class (received rs) = ReadNotifyResponse"
    "msg_ioid rs = i mod 2 ^ 32" "msg_ioid (received rs) = i mod 2 ^ 32"
    by (auto simp: from_components_def msg_ioid_def received_def ReadNotifyResponseHeader_def)
qed

lemma send_one:
  "process_command mk_filter (Command m) c = (c', Inr cb) \<Longrightarrow>
     send mk_filter [m] c = (c', Inr (header_bytes (msg_header m) # msg_buffers m))"
  by (simp add: process_command_def)

lemma sender_roles [simp]: "sender_role ReadNotifyRequest = CLIENT" "sender_role ReadNotifyResponse = SERVER"
  by code_simp+

lemma ServerChannel_read_notify:
  "ServerChannel_read to_epics mk_dbr q data i dt n st md True s = Inr rs \<Longrightarrow>
     \<exists>t k. ReadNotifyResponse_init to_epics mk_dbr data t k st i md = Inr rs"
  by (auto simp: ServerChannel_read_def bindE_eq_Inr split: prod.splits)

lemma read_answered:
  fixes to_epics :: "ChannelType \<Rightarrow> int list \<Rightarrow> bytes result" and mk_dbr :: "ChannelType \<Rightarrow> int list \<Rightarrow> bytes result"
  assumes "linked c s r q sid" and "dget (circ_ioids c) i = Some r" and "dget (circ_ioids s) i = Some q" and "i mod 2 ^ 32 = i"
    and "ServerChannel_read to_epics mk_dbr q data i dt n st md True s = Inr rs" and "data_fits rs"
  shows "\<exists>s' bufs. send mk_filter' [rs] s = (s', Inr bufs) \<and> recv [concat bufs] c = (c, Inr ([Command (received rs)], 16))
    \<and> process_command mk_filter (Command (received rs)) c = (c\<lparr>circ_ioids := ddel i (circ_ioids c)\<rparr>, Inr [])
    \<and> dget (circ_ioids s') i = None"
proof -
  from assms(1) have l: "our_role c = CLIENT" "our_role s = SERVER" "ch_states (chan c r) = (CONNECTED, CONNECTED)"
    "ch_states (chan s q) = (CONNECTED, CONNECTED)" "connected (circ_states c)" "connected (circ_states s)" "circ_data c = []"
    by (auto simp: linked_def)
  obtain t k where "ReadNotifyResponse_init to_epics mk_dbr data t k st i md = Inr rs"
    using ServerChannel_read_notify [OF assms(5)] by auto
  note rs = read_response_made [OF this assms(6), simplified assms(4)]
  have sent: "process_command mk_filter' (Command rs) s = (s\<lparr>circ_ioids := ddel i (circ_ioids s)\<rparr>, Inr [])"
    using answer_accepted [of rs s q mk_filter'] rs l assms(3) by simp
  have "recv [concat (header_bytes (msg_header rs) # msg_buffers rs)] c = (c, Inr ([Command (received rs)], 16))"
    using transfer [OF send_one [OF sent], of c] rs l by simp
  moreover have "process_command mk_filter (Command (received rs)) c = (c\<lparr>circ_ioids := ddel i (circ_ioids c)\<rparr>, Inr [])"
    using answer_accepted [of "received rs" c r mk_filter] rs l assms(2) by simp
  ultimately show ?thesis using send_one [OF sent] by (auto simp: dict_simps)
qed

text \<open>
  C15. A reading goes through. On a connected channel, as long as some request id is free, \<^verbatim>\<open>read\<close> gives a request with
  an unused id, the client's circuit accepts it, the server receives exactly this request and accepts it, and whatever
  data the server's channel answers with is accepted by its circuit, received and accepted by the client, after which
  the requests that are outstanding are those from before.
\<close>

theorem read_transaction:
  fixes to_epics :: "ChannelType \<Rightarrow> int list \<Rightarrow> bytes result" and mk_dbr :: "ChannelType \<Rightarrow> int list \<Rightarrow> bytes result"
  assumes "linked c s r q sid" and "wf_circuit c" and "counters_ok c"
    and "fill_defaults (chan c r) dt n = Inr (Some (ct_value t), Some k)"
    and "dget (circ_ioids c) free = None" and "0 \<le> free" and "free < 2 ^ 16"
  shows "\<exists>c1 rq c2 bufs s1. ClientChannel_read r dt n None True c = Some (c1, Inr rq)
    \<and> dget (circ_ioids c) (msg_ioid rq) = None
    \<and> send mk_filter [rq] c1 = (c2, Inr bufs) \<and> recv [concat bufs] s = (s, Inr ([Command rq], 16))
    \<and> process_command mk_filter' (Command rq) s = (s1, Inr [])
    \<and> (\<forall>data dt' n' st md rs. ServerChannel_read to_epics mk_dbr q data (msg_ioid rq) dt' n' st md True s1 = Inr rs \<and> data_fits rs \<longrightarrow>
         (\<exists>s2 bufs' c3. send mk_filter' [rs] s1 = (s2, Inr bufs')
            \<and> recv [concat bufs'] c2 = (c2, Inr ([Command (received rs)], 16))
            \<and> process_command mk_filter (Command (received rs)) c2 = (c3, Inr [])
            \<and> (\<forall>i. dget (circ_ioids c3) i = dget (circ_ioids c) i) \<and> dget (circ_ioids s2) (msg_ioid rq) = None))"
proof -
  from assms(1) have l: "our_role c = CLIENT" "our_role s = SERVER" "sid mod 2 ^ 32 = sid"
    "dget (circ_channels_sid c) sid = Some r" "dget (circ_channels_sid s) sid = Some q"
    "ch_states (chan c r) = (CONNECTED, CONNECTED)" "ch_states (chan s q) = (CONNECTED, CONNECTED)"
    "connected (circ_states c)" "connected (circ_states s)" "circ_data c = []" "circ_data s = []"
    by (auto simp: linked_def)
  have chsid: "ch_sid (chan c r) = Some sid"
    using assms(2) l(4) by (simp add: wf_circuit_def tables_ok_def)
  obtain i where i: "new_ioid c = Some (c\<lparr>ioid_counter := i\<rparr>, i)" "dget (circ_ioids c) i = None" "0 \<le> i" "i < 2 ^ 16"
    by (rule new_ioid_fresh [OF assms(3,5-7)])
  then have imod: "i mod 2 ^ 32 = i" by simp
  obtain rq where rq: "ReadNotifyRequest_init (ct_value t) k sid i = Inr rq" "constructed rq" "msg_class rq = ReadNotifyRequest"
    "msg_sid rq = sid" "msg_ioid rq = i" "received rq = rq"
    using read_request_made [of t k sid i] l(3) imod by metis
  define c1 where "c1 = c\<lparr>ioid_counter := i\<rparr>"
  define c2 where "c2 = c1\<lparr>circ_ioids := dset i r (circ_ioids c)\<rparr>"
  define s1 where "s1 = s\<lparr>circ_ioids := dset i q (circ_ioids s)\<rparr>"
  have read: "ClientChannel_read r dt n None True c = Some (c1, Inr rq)"
    using assms(4) i(1) rq(1) chsid by (simp add: ClientChannel_read_def given_or_def ChannelType_arg_def need_def c1_def)
  have "process_command mk_filter (Command rq) c1 = (c2, Inr [])"
    using request_accepted [of rq c1 r mk_filter] rq l by (simp add: c1_def c2_def)
  note sent = send_one [OF this]
  have srv: "process_command mk_filter' (Command rq) s = (s1, Inr [])"
    using request_accepted [of rq s q mk_filter'] rq l by (simp add: s1_def)
  have got: "recv [concat (header_bytes (msg_header rq) # msg_buffers rq)] s = (s, Inr ([Command rq], 16))"
    using transfer [OF sent, of s] rq l by (simp add: c1_def)
  have "linked c2 s1 r q sid" using assms(1) by (simp add: linked_def c1_def c2_def s1_def chan_def)
  then have answer: "\<exists>s2 bufs' c3. send mk_filter' [rs] s1 = (s2, Inr bufs')
      \<and> recv [concat bufs'] c2 = (c2, Inr ([Command (received rs)], 16))
      \<and> process_command mk_filter (Command (received rs)) c2 = (c3, Inr [])
      \<and> (\<forall>i. dget (circ_ioids c3) i = dget (circ_ioids c) i) \<and> dget (circ_ioids s2) (msg_ioid rq) = None"
    if "ServerChannel_read to_epics mk_dbr q data (msg_ioid rq) dt' n' st md True s1 = Inr rs" "data_fits rs"
    for data dt' n' st md rs
    using read_answered [of c2 s1 r q sid i to_epics mk_dbr data dt' n' st md rs mk_filter' mk_filter] that imod rq(5) i(2)
    by (fastforce simp: c2_def s1_def dict_simps)
  from read sent got srv answer i(2) rq(5) show ?thesis by blast
qed

theorem read_transaction_witness:
  "\<exists>c1 rq c2 bufs. ClientChannel_read 0 DT_none None None True example_circuit = Some (c1, Inr rq)
     \<and> send (\<lambda>_. Inr ()) [rq] c1 = (c2, Inr bufs)
     \<and> recv [concat bufs] (example_circuit\<lparr>our_role := SERVER\<rparr>) = (example_circuit\<lparr>our_role := SERVER\<rparr>, Inr ([Command rq], 16))"
proof -
  have l: "linked example_circuit (example_circuit\<lparr>our_role := SERVER\<rparr>) 0 0 5" by code_simp
  have w: "wf_circuit example_circuit" "counters_ok example_circuit" using reachable_ok [OF example_reachable] by auto
  have f: "fill_defaults (chan example_circuit 0) DT_none None = Inr (Some (ct_value CT_DOUBLE), Some 0)" by code_simp
  have d: "dget (circ_ioids example_circuit) 0 = None" by code_simp
  from read_transaction [OF l w f d, of "\<lambda>_. Inr ()" "\<lambda>_. Inr ()" "\<lambda>_ _. Inr []" "\<lambda>_ _. Inr []"] show ?thesis by auto
qed

text \<open>
  Composing commands for a channel that the server has not created yet fails before anything is sent, but with built-in
  exceptions that are not \<^verbatim>\<open>CaprotoError\<close>: clearing it or reading it with an explicit type raises \<^verbatim>\<open>TypeError\<close>, reading
  and subscribing with the default type \<^verbatim>\<open>ValueError\<close>, writing and naming a kind of type \<^verbatim>\<open>KeyError\<close>. An id that was to
  be generated is drawn nevertheless.
\<close>

theorem unconnected_channel:
  assumes "ch_sid (chan c r) = None" and "ch_native_data_type (chan c r) = None" and "new_ioid c = Some (c1, i)"
    and "new_subscriptionid c = Some (c2, j)"
  shows "ClientChannel_clear r c = Inl TypeError
    \<and> ClientChannel_read r DT_none n None b c = Some (c1, Inl ValueError)
    \<and> ClientChannel_read r (DT_int (ct_value t)) n None b c = Some (c1, Inl TypeError)
    \<and> ClientChannel_read r (DT_str kind) n None b c = Some (c, Inl KeyError)
    \<and> ClientChannel_subscribe r DT_none n None low high to msk c = Some (c2, Inl ValueError)
    \<and> ClientChannel_write enc to_epics mk_dbr r data DT_none n md None b c = Some (c, Inl KeyError)
    \<and> \<not> is_CaprotoError TypeError \<and> \<not> is_CaprotoError ValueError \<and> \<not> is_CaprotoError KeyError"
proof -
  have "bindE (field_types_of kind) (\<lambda>tab. Inl KeyError :: int option result) = Inl KeyError"
    by (simp add: field_types_of_def getitem_def split: option.splits)
  then have kind: "fill_defaults (chan c r) (DT_str kind) n = Inl KeyError" using assms(2) by (simp add: fill_defaults_def)
  have none: "fill_defaults (chan c r) DT_none n = Inr (None, case n of Some k \<Rightarrow> Some k
      | None \<Rightarrow> if ch_protocol_version (chan c r) \<ge> 13 then Some 0 else ch_native_data_count (chan c r))"
    using assms(2) by (simp add: fill_defaults_def)
  have "ClientChannel_read r (DT_int (ct_value t)) n None b c = Some (c1, Inl TypeError)"
    using assms by (auto simp: ClientChannel_read_def fill_defaults_def ChannelType_arg_def need_def given_or_def
        split: option.splits)
  then show ?thesis
    using assms kind none
    by (simp add: ClientChannel_clear_def ClientChannel_read_def ClientChannel_subscribe_def ClientChannel_write_def
        ChannelType_arg_def native_type_arg_def need_def given_or_def is_CaprotoError_def)
qed

theorem unconnected_channel_witness:
  "\<exists>c :: unit circuit. \<exists>c1 r. BaseChannel_init (\<lambda>_. Inr ()) [112] 7 example_circuit = (c, Inr r)
     \<and> ClientChannel_read r DT_none None None True c = Some (c1, Inl ValueError)"
proof -
  define c where "c = fst (BaseChannel_init (\<lambda>_. Inr ()) [112] 7 example_circuit)"
  have c: "BaseChannel_init (\<lambda>_. Inr ()) [112] 7 example_circuit = (c, Inr 1)"
    and n: "ch_sid (chan c 1) = None" "ch_native_data_type (chan c 1) = None"
    and e: "circ_ioids c = []" "ioid_counter c = -1" "event_add_commands c = []" "sub_counter c = -1"
    unfolding c_def by code_simp+
  have "ThreadsafeCounter_call [] (-1) = Some 0"
    by (simp add: ThreadsafeCounter_call_def counter_loop.simps MAX_ID_def)
  then have "new_ioid c = Some (c\<lparr>ioid_counter := 0\<rparr>, 0)" "new_subscriptionid c = Some (c\<lparr>sub_counter := 0\<rparr>, 0)"
    using e by (simp_all add: new_ioid_def new_subscriptionid_def)
  from unconnected_channel [OF n this, of None True] c show ?thesis by blast
qed

end
