(* ===== verification/CA_Data.thy ===== *)
theory CA_Data
  imports CA_Commands
begin

text \<open>
  \<^verbatim>\<open>caproto/_data.py\<close>: the alarm of a channel and the numeric and enum data behind a channel. Writing a value checks it
  against the control limits, derives the alarm from the alarm and warning limits, stores the value and publishes it.
  What is published is part of the result: pairs of the channel that publishes and the subscription flags. Coroutines
  are modelled as the code between the points where they finish: one write is one step.
\<close>

section \<open>Alarms\<close>

datatype AlarmSeverity = NO_ALARM | MINOR_ALARM | MAJOR_ALARM | INVALID_ALARM

fun sev_value :: "AlarmSeverity \<Rightarrow> int" where
  "sev_value NO_ALARM = 0"
| "sev_value MINOR_ALARM = 1"
| "sev_value MAJOR_ALARM = 2"
| "sev_value INVALID_ALARM = 3"

text \<open>Members of an \<^verbatim>\<open>IntEnum\<close> compare as their values.\<close>

instantiation AlarmSeverity :: linorder
begin

definition less_eq_AlarmSeverity :: "AlarmSeverity \<Rightarrow> AlarmSeverity \<Rightarrow> bool" where
  "less_eq_AlarmSeverity a b \<longleftrightarrow> sev_value a \<le> sev_value b"

definition less_AlarmSeverity :: "AlarmSeverity \<Rightarrow> AlarmSeverity \<Rightarrow> bool" where
  "less_AlarmSeverity a b \<longleftrightarrow> sev_value a < sev_value b"

instance
proof
  fix a b :: AlarmSeverity
  show "a \<le> b \<Longrightarrow> b \<le> a \<Longrightarrow> a = b"
    by (cases a; cases b) (simp_all add: less_eq_AlarmSeverity_def)
qed (auto simp: less_eq_AlarmSeverity_def less_AlarmSeverity_def)

end

datatype AlarmStatus =
    ST_NO_ALARM | ST_READ | ST_WRITE | ST_HIHI | ST_HIGH | ST_LOLO | ST_LOW | ST_STATE | ST_COS | ST_COMM | ST_TIMEOUT
  | ST_HWLIMIT | ST_CALC | ST_SCAN | ST_LINK | ST_SOFT | ST_BAD_SUB | ST_UDF | ST_DISABLE | ST_SIMM | ST_READ_ACCESS
  | ST_WRITE_ACCESS

text \<open>The members in the order of their values, and the calls \<^verbatim>\<open>AlarmStatus(i)\<close> and \<^verbatim>\<open>AlarmSeverity(i)\<close>.\<close>

definition all_status :: "AlarmStatus list" where
  "all_status = [ST_NO_ALARM, ST_READ, ST_WRITE, ST_HIHI, ST_HIGH, ST_LOLO, ST_LOW, ST_STATE, ST_COS, ST_COMM, ST_TIMEOUT,
     ST_HWLIMIT, ST_CALC, ST_SCAN, ST_LINK, ST_SOFT, ST_BAD_SUB, ST_UDF, ST_DISABLE, ST_SIMM, ST_READ_ACCESS, ST_WRITE_ACCESS]"

definition AlarmStatus_of :: "int \<Rightarrow> AlarmStatus result" where
  "AlarmStatus_of i = (if 0 \<le> i \<and> i < 22 then Inr (all_status ! nat i) else Inl ValueError)"

definition AlarmSeverity_of :: "int \<Rightarrow> AlarmSeverity result" where
  "AlarmSeverity_of i =
     (if i = 0 then Inr NO_ALARM else if i = 1 then Inr MINOR_ALARM else if i = 2 then Inr MAJOR_ALARM
      else if i = 3 then Inr INVALID_ALARM else Inl ValueError)"

text \<open>\<^verbatim>\<open>SubscriptionType\<close>: the flags of a publication, a bit mask.\<close>

abbreviation DBE_VALUE :: "16 word" where "DBE_VALUE \<equiv> 1"
abbreviation DBE_LOG :: "16 word" where "DBE_LOG \<equiv> 2"
abbreviation DBE_ALARM :: "16 word" where "DBE_ALARM \<equiv> 4"
abbreviation DBE_PROPERTY :: "16 word" where "DBE_PROPERTY \<equiv> 8"

type_synonym flags = "16 word"

text \<open>\<^verbatim>\<open>ChannelAlarm\<close>; \<open>al_channels\<close> are the channels that use the alarm, by number.\<close>

record alarm =
  al_status :: AlarmStatus
  al_severity :: AlarmSeverity
  must_acknowledge_transient :: bool
  severity_to_acknowledge :: AlarmSeverity
  alarm_string :: pystr
  al_channels :: "nat list"

definition ChannelAlarm_init :: alarm where
  "ChannelAlarm_init =
     \<lparr>al_status = ST_NO_ALARM, al_severity = NO_ALARM, must_acknowledge_transient = True,
      severity_to_acknowledge = NO_ALARM, alarm_string = [], al_channels = []\<rparr>"

definition alarm_connect :: "nat \<Rightarrow> alarm \<Rightarrow> alarm" where
  "alarm_connect ch a = a\<lparr>al_channels := List.insert ch (al_channels a)\<rparr>"

text \<open>\<^verbatim>\<open>WeakSet.remove\<close> raises \<^verbatim>\<open>KeyError\<close>.\<close>

definition alarm_disconnect :: "nat \<Rightarrow> alarm \<Rightarrow> alarm result" where
  "alarm_disconnect ch a =
     (if ch \<in> set (al_channels a) then Inr (a\<lparr>al_channels := remove1 ch (al_channels a)\<rparr>) else Inl KeyError)"

type_synonym publications = "(nat \<times> flags) list"

definition alarm_publish :: "flags \<Rightarrow> nat list \<Rightarrow> alarm \<Rightarrow> publications" where
  "alarm_publish flags except_for a = map (\<lambda>ch. (ch, flags)) (filter (\<lambda>ch. ch \<notin> set except_for) (al_channels a))"

text \<open>The arguments of \<^verbatim>\<open>ChannelAlarm.write\<close>.\<close>

record alarm_args =
  arg_status :: "int option"
  arg_severity :: "int option"
  arg_ackt :: "bool option"
  arg_acks :: "int option"
  arg_string :: "pystr option"

definition no_args :: alarm_args where
  "no_args = \<lparr>arg_status = None, arg_severity = None, arg_ackt = None, arg_acks = None, arg_string = None\<rparr>"

text \<open>The assignments of \<^verbatim>\<open>ChannelAlarm.write\<close>, one per argument, each with the flags it adds.\<close>

unbundle bit_operations_syntax

definition write_status :: "AlarmStatus \<Rightarrow> alarm \<times> flags \<Rightarrow> alarm \<times> flags" where
  "write_status st = (\<lambda>(a, f). (a\<lparr>al_status := st\<rparr>, f OR DBE_VALUE))"

definition write_severity :: "AlarmSeverity \<Rightarrow> alarm \<times> flags \<Rightarrow> alarm \<times> flags" where
  "write_severity sev = (\<lambda>(a, f).
     (a\<lparr>al_severity := sev,
        severity_to_acknowledge :=
          (if \<not> must_acknowledge_transient a \<or> severity_to_acknowledge a < sev then sev else severity_to_acknowledge a)\<rparr>,
      f OR DBE_ALARM))"

definition write_ackt :: "bool \<Rightarrow> alarm \<times> flags \<Rightarrow> alarm \<times> flags" where
  "write_ackt b = (\<lambda>(a, f).
     (a\<lparr>must_acknowledge_transient := b,
        severity_to_acknowledge :=
          (if \<not> b \<and> severity_to_acknowledge a > al_severity a then al_severity a else severity_to_acknowledge a)\<rparr>,
      f OR DBE_ALARM))"

definition write_acks :: "int \<Rightarrow> alarm \<times> flags \<Rightarrow> alarm \<times> flags" where
  "write_acks v = (\<lambda>(a, f).
     if v \<ge> sev_value (al_severity a) then (a\<lparr>severity_to_acknowledge := NO_ALARM\<rparr>, f OR DBE_ALARM) else (a, f))"

definition write_string :: "pystr \<Rightarrow> alarm \<times> flags \<Rightarrow> alarm \<times> flags" where
  "write_string s = (\<lambda>(a, f). (a\<lparr>alarm_string := s\<rparr>, f OR DBE_ALARM))"

text \<open>A value that is not a member of the enumeration raises; what was assigned before stays.\<close>

definition alarm_write :: "alarm_args \<Rightarrow> flags \<Rightarrow> bool \<Rightarrow> alarm \<Rightarrow> alarm \<times> publications result" where
  "alarm_write args flags publish a =
     (case (case arg_status args of None \<Rightarrow> Inr None | Some i \<Rightarrow> bindE (AlarmStatus_of i) (\<lambda>s. Inr (Some s))) of
        Inl e \<Rightarrow> (a, Inl e)
      | Inr st \<Rightarrow>
          let p1 = (case st of None \<Rightarrow> (a, flags) | Some s \<Rightarrow> write_status s (a, flags))
          in case (case arg_severity args of None \<Rightarrow> Inr None | Some i \<Rightarrow> bindE (AlarmSeverity_of i) (\<lambda>s. Inr (Some s))) of
               Inl e \<Rightarrow> (fst p1, Inl e)
             | Inr sv \<Rightarrow>
                 let p2 = (case sv of None \<Rightarrow> p1 | Some s \<Rightarrow> write_severity s p1);
                     p3 = (case arg_ackt args of None \<Rightarrow> p2 | Some b \<Rightarrow> write_ackt b p2);
                     p4 = (case arg_acks args of None \<Rightarrow> p3 | Some v \<Rightarrow> write_acks v p3);
                     (a', f') = (case arg_string args of None \<Rightarrow> p4 | Some s \<Rightarrow> write_string s p4)
                 in (a', Inr (if publish then alarm_publish f' [] a' else [])))"

section \<open>Numeric channels\<close>

text \<open>
  A value is a scalar or an array. Numbers are of an ordered type \<open>'a\<close>, so that the model covers the integer classes
  and, without rounding, the floating point classes.
\<close>

datatype 'a val = Scalar 'a | Array "'a list"

record 'a limits =
  upper_disp_limit :: 'a
  lower_disp_limit :: 'a
  upper_alarm_limit :: 'a
  upper_warning_limit :: 'a
  lower_warning_limit :: 'a
  lower_alarm_limit :: 'a
  upper_ctrl_limit :: 'a
  lower_ctrl_limit :: 'a

text \<open>
  The severities of the four limit alarms: the defaults, or those of the record fields when the channel belongs to a
  record.
\<close>

record severities =
  lolo_severity :: AlarmSeverity
  hihi_severity :: AlarmSeverity
  low_severity :: AlarmSeverity
  high_severity :: AlarmSeverity

definition default_severities :: severities where
  "default_severities =
     \<lparr>lolo_severity = MAJOR_ALARM, hihi_severity = MAJOR_ALARM, low_severity = MINOR_ALARM, high_severity = MINOR_ALARM\<rparr>"

record 'a numeric =
  nd_number :: nat
  nd_value :: "'a val"
  nd_timestamp :: int
  nd_units :: pystr
  nd_precision :: "int option"
  nd_limits :: "'a limits"
  nd_severities :: severities
  nd_max_length :: nat
  nd_alarm :: alarm
  nd_status :: "AlarmStatus option"
  nd_severity :: "AlarmSeverity option"

definition preprocess_value :: "nat \<Rightarrow> 'a val \<Rightarrow> 'a val result" where
  "preprocess_value max_length v =
     (case v of
        Array xs \<Rightarrow>
          if length xs > max_length then Inl CaprotoValueError
          else if max_length = 1 then (case xs of x # _ \<Rightarrow> Inr (Scalar x) | [] \<Rightarrow> Inl CaprotoValueError)
          else Inr v
      | Scalar x \<Rightarrow> if max_length = 1 then Inr v else Inr (Array [x]))"

text \<open>\<^verbatim>\<open>limit_checker\<close>, with the limits and severities it reads.\<close>

definition limit_checker ::
  "'a::linorder \<Rightarrow> 'a \<Rightarrow> 'a \<Rightarrow> AlarmStatus \<Rightarrow> AlarmStatus \<Rightarrow> AlarmSeverity \<Rightarrow> AlarmSeverity \<Rightarrow> AlarmStatus \<times> AlarmSeverity" where
  "limit_checker v lo_limit hi_limit lo_status hi_status lo_severity hi_severity =
     (if lo_limit \<noteq> hi_limit then
        (if v \<le> lo_limit then (lo_status, lo_severity)
         else if hi_limit \<le> v then (hi_status, hi_severity) else (ST_NO_ALARM, NO_ALARM))
      else (ST_NO_ALARM, NO_ALARM))"

definition check_limits :: "'a::linorder limits \<Rightarrow> severities \<Rightarrow> 'a \<Rightarrow> AlarmStatus \<times> AlarmSeverity" where
  "check_limits l s v =
     (let p = limit_checker v (lower_alarm_limit l) (upper_alarm_limit l) ST_LOLO ST_HIHI (lolo_severity s) (hihi_severity s)
      in if fst p = ST_NO_ALARM
         then limit_checker v (lower_warning_limit l) (upper_warning_limit l) ST_LOW ST_HIGH (low_severity s) (high_severity s)
         else p)"

text \<open>\<^verbatim>\<open>ChannelNumeric.verify_value\<close>: limits do not apply to arrays.\<close>

definition verify_value :: "'a::linorder val \<Rightarrow> 'a numeric \<Rightarrow> 'a numeric \<times> 'a val result" where
  "verify_value data nd =
     (let l = nd_limits nd;
          checked = (\<lambda>v. if lower_ctrl_limit l \<noteq> upper_ctrl_limit l \<and> \<not> (lower_ctrl_limit l \<le> v \<and> v \<le> upper_ctrl_limit l)
             then (nd, Inl CannotExceedLimits)
             else let (st, sev) = check_limits l (nd_severities nd) v
                  in (nd\<lparr>nd_status := Some st, nd_severity := Some sev\<rparr>, Inr data))
      in case data of
           Scalar v \<Rightarrow> checked v
         | Array [v] \<Rightarrow> checked v
         | _ \<Rightarrow> (nd, Inr data))"

text \<open>\<^verbatim>\<open>_collect_alarm\<close>: both entries depend on whether the \<^verbatim>\<open>status\<close> changed. It also clears the cached alarm.\<close>

definition collect_alarm :: "'a numeric \<Rightarrow> AlarmStatus option \<times> AlarmSeverity option" where
  "collect_alarm nd =
     (let changed = (nd_status nd \<noteq> Some (al_status (nd_alarm nd)))
      in (if nd_status nd \<noteq> None \<and> changed then nd_status nd else None,
          if nd_severity nd \<noteq> None \<and> changed then nd_severity nd else None))"

definition clear_cached_alarms :: "'a numeric \<Rightarrow> 'a numeric" where
  "clear_cached_alarms nd = nd\<lparr>nd_status := None, nd_severity := None\<rparr>"

text \<open>The keyword arguments of \<^verbatim>\<open>write_metadata\<close>; a limit that is not given is kept.\<close>

record 'a metadata =
  md_units :: "pystr option"
  md_precision :: "int option"
  md_timestamp :: "int option"
  md_limits :: "'a limits \<Rightarrow> 'a limits"
  md_status :: "int option"
  md_severity :: "int option"

fun status_value :: "AlarmStatus \<Rightarrow> int" where
  "status_value ST_NO_ALARM = 0" | "status_value ST_READ = 1" | "status_value ST_WRITE = 2" | "status_value ST_HIHI = 3"
| "status_value ST_HIGH = 4" | "status_value ST_LOLO = 5" | "status_value ST_LOW = 6" | "status_value ST_STATE = 7"
| "status_value ST_COS = 8" | "status_value ST_COMM = 9" | "status_value ST_TIMEOUT = 10" | "status_value ST_HWLIMIT = 11"
| "status_value ST_CALC = 12" | "status_value ST_SCAN = 13" | "status_value ST_LINK = 14" | "status_value ST_SOFT = 15"
| "status_value ST_BAD_SUB = 16" | "status_value ST_UDF = 17" | "status_value ST_DISABLE = 18" | "status_value ST_SIMM = 19"
| "status_value ST_READ_ACCESS = 20" | "status_value ST_WRITE_ACCESS = 21"

text \<open>\<^verbatim>\<open>write_metadata\<close>: the precision is only there for the floating point classes.\<close>

definition write_metadata :: "bool \<Rightarrow> 'a metadata \<Rightarrow> 'a numeric \<Rightarrow> 'a numeric \<times> publications result" where
  "write_metadata publish md nd =
     (let nd1 = nd\<lparr>nd_units := (case md_units md of None \<Rightarrow> nd_units nd | Some u \<Rightarrow> u),
                   nd_precision := (case (md_precision md, nd_precision nd) of (Some p, Some _) \<Rightarrow> Some p | _ \<Rightarrow> nd_precision nd),
                   nd_limits := md_limits md (nd_limits nd),
                   nd_timestamp := (case md_timestamp md of None \<Rightarrow> nd_timestamp nd | Some t \<Rightarrow> t)\<rparr>;
          (alarm', res) = (if md_status md \<noteq> None \<or> md_severity md \<noteq> None
             then alarm_write (no_args\<lparr>arg_status := md_status md, arg_severity := md_severity md\<rparr>) 0 publish (nd_alarm nd)
             else (nd_alarm nd, Inr []))
      in (nd1\<lparr>nd_alarm := alarm'\<rparr>,
          bindE res (\<lambda>ps. Inr (ps @ (if publish then [(nd_number nd, DBE_PROPERTY)] else [])))))"

text \<open>
  \<^verbatim>\<open>ChannelData.write\<close> of a numeric channel. \<open>update_fields\<close> is the hook of record fields, which may raise \<^verbatim>\<open>SkipWrite\<close>;
  \<open>now\<close> is the clock. A refused value leaves a write alarm behind and nothing else.
\<close>

definition numeric_write ::
  "('a::linorder val \<Rightarrow> unit result) \<Rightarrow> int \<Rightarrow> 'a val \<Rightarrow> flags \<Rightarrow> 'a metadata \<Rightarrow> 'a numeric
     \<Rightarrow> 'a numeric \<times> publications \<times> unit result" where
  "numeric_write update_fields now v flags md nd =
     (let (nd1, checked) =
            (case preprocess_value (nd_max_length nd) v of
               Inl e \<Rightarrow> (nd, Inl e)
             | Inr v' \<Rightarrow>
                 (case verify_value v' nd of
                    (nd', Inl e) \<Rightarrow> (nd', Inl e)
                  | (nd', Inr w) \<Rightarrow> (nd', bindE (update_fields w) (\<lambda>_. Inr w))))
      in case checked of
           Inl e \<Rightarrow>
             if e = SkipWrite then (clear_cached_alarms nd1, [], Inr ())
             else let (a, ps) = alarm_write (no_args\<lparr>arg_status := Some 2, arg_severity := Some 2\<rparr>) 0 True (nd_alarm nd1)
                  in (clear_cached_alarms (nd1\<lparr>nd_alarm := a\<rparr>), (case ps of Inl _ \<Rightarrow> [] | Inr ps \<Rightarrow> ps), Inl e)
         | Inr w \<Rightarrow>
             let (st, sev) = collect_alarm nd1;
                 md' = md\<lparr>md_status := (case st of Some s \<Rightarrow> Some (status_value s) | None \<Rightarrow> md_status md),
                          md_severity := (case sev of Some s \<Rightarrow> Some (sev_value s) | None \<Rightarrow> md_severity md),
                          md_timestamp := (case md_timestamp md of None \<Rightarrow> Some now | Some t \<Rightarrow> Some t)\<rparr>
             in case write_metadata False md' ((clear_cached_alarms nd1)\<lparr>nd_value := w\<rparr>) of
                  (nd2, Inl e) \<Rightarrow> (nd2, [], Inl e)
                | (nd2, Inr _) \<Rightarrow>
                    (nd2, (nd_number nd2, flags)
                       # (if md_status md' \<noteq> None \<or> md_severity md' \<noteq> None
                          then alarm_publish flags [nd_number nd2] (nd_alarm nd2) else []), Inr ()))"

text \<open>Writing without metadata arguments.\<close>

definition no_metadata :: "'a metadata" where
  "no_metadata =
     \<lparr>md_units = None, md_precision = None, md_timestamp = None, md_limits = id, md_status = None, md_severity = None\<rparr>"

text \<open>
  \<^verbatim>\<open>write_from_dbr\<close>: two data types only acknowledge alarms, two cannot be written, and for the others the data is converted
  to the type of the channel by \<open>convert\<close> (the backend) and written with the metadata that came with it. \<open>put\<close> is the
  \<^verbatim>\<open>value\<close> of the metadata of an acknowledgement.
\<close>

definition write_from_dbr ::
  "(ChannelType \<Rightarrow> 'd \<Rightarrow> 'a::linorder val result) \<Rightarrow> ('a val \<Rightarrow> unit result) \<Rightarrow> int \<Rightarrow> 'd \<Rightarrow> ChannelType \<Rightarrow> int
     \<Rightarrow> 'a metadata option \<Rightarrow> flags \<Rightarrow> 'a numeric \<Rightarrow> 'a numeric \<times> publications \<times> unit result" where
  "write_from_dbr convert update_fields now data data_type put metadata flags nd =
     (let acknowledge = (\<lambda>args. let (a, ps) = alarm_write args 0 True (nd_alarm nd)
            in (nd\<lparr>nd_alarm := a\<rparr>, (case ps of Inl _ \<Rightarrow> [] | Inr ps \<Rightarrow> ps), bindE ps (\<lambda>_. Inr ())))
      in if data_type = CT_PUT_ACKS then acknowledge (no_args\<lparr>arg_acks := Some put\<rparr>)
         else if data_type = CT_PUT_ACKT then acknowledge (no_args\<lparr>arg_ackt := Some (put \<noteq> 0)\<rparr>)
         else if data_type = CT_STSACK_STRING \<or> data_type = CT_CLASS_NAME then (nd, [], Inl CaprotoValueError)
         else case bindE (native_type data_type) (\<lambda>native_from. convert native_from data) of
           Inl e \<Rightarrow> (nd, [], Inl e)
         | Inr v \<Rightarrow>
             numeric_write update_fields now v flags
               (case metadata of
                  None \<Rightarrow> no_metadata
                | Some md \<Rightarrow> md\<lparr>md_timestamp := (case md_timestamp md of None \<Rightarrow> Some now | Some t \<Rightarrow> Some t)\<rparr>) nd)"

text \<open>\<^verbatim>\<open>auth_write\<close>: the rights that \<^verbatim>\<open>check_access\<close> grants, as the bits of \<^verbatim>\<open>AccessRights\<close>.\<close>

definition auth_write ::
  "(string \<Rightarrow> string \<Rightarrow> int) \<Rightarrow> string \<Rightarrow> string \<Rightarrow> ('s \<Rightarrow> 's \<times> publications \<times> unit result) \<Rightarrow> 's \<Rightarrow> 's \<times> publications \<times> unit result" where
  "auth_write check_access hostname username do_write s =
     (if (check_access hostname username) div 2 mod 2 = 0 then (s, [], Inl Forbidden) else do_write s)"

section \<open>Enum channels\<close>

text \<open>A value is a string of the enumeration or an index.\<close>

datatype enum_val = Enum_str pystr | Enum_int int

definition validate_enum_strings :: "pystr list \<Rightarrow> pystr list result" where
  "validate_enum_strings strs =
     (if list_ex (\<lambda>es. length es \<ge> MAX_ENUM_STRING_SIZE) strs then Inl ValueError
      else if length strs > MAX_ENUM_STATES then Inl ValueError else Inr strs)"

text \<open>\<^verbatim>\<open>self.enum_strings[data]\<close> with a negative index counted from the end; other data is kept as it is.\<close>

definition enum_verify_value :: "pystr list \<Rightarrow> enum_val \<Rightarrow> enum_val" where
  "enum_verify_value strs data =
     (case data of
        Enum_str s \<Rightarrow> data
      | Enum_int i \<Rightarrow>
          if 0 \<le> i \<and> i < int (length strs) then Enum_str (strs ! nat i)
          else if i < 0 \<and> - int (length strs) \<le> i then Enum_str (strs ! nat (int (length strs) + i))
          else data)"

text \<open>\<^verbatim>\<open>get_raw_value\<close>: the first index of the string, or \<^verbatim>\<open>None\<close>.\<close>

definition get_raw_value :: "pystr list \<Rightarrow> enum_val \<Rightarrow> nat option" where
  "get_raw_value strs v =
     (case v of Enum_str s \<Rightarrow> find (\<lambda>i. strs ! i = s) [0..<length strs] | Enum_int _ \<Rightarrow> None)"

section \<open>Lemmas\<close>

lemma AlarmSeverity_of_value [simp]: "AlarmSeverity_of (sev_value s) = Inr s"
  by (cases s) (simp_all add: AlarmSeverity_of_def)

lemma AlarmStatus_of_value [simp]: "AlarmStatus_of (status_value s) = Inr s"
  by (cases s) (simp_all add: AlarmStatus_of_def all_status_def)

text \<open>What a write of severities, and of a status with a severity, does to the alarm.\<close>

definition raise_severity :: "AlarmSeverity \<Rightarrow> alarm \<Rightarrow> alarm" where
  "raise_severity s a = fst (alarm_write (no_args\<lparr>arg_severity := Some (sev_value s)\<rparr>) 0 True a)"

lemma raise_severity_eq:
  "raise_severity s a = a\<lparr>al_severity := s,
     severity_to_acknowledge := (if must_acknowledge_transient a then max (severity_to_acknowledge a) s else s)\<rparr>"
  by (simp add: raise_severity_def alarm_write_def no_args_def write_severity_def Let_def max_def)

lemma raise_all:
  assumes "must_acknowledge_transient a"
  shows "must_acknowledge_transient (fold raise_severity ss a) \<and> severity_to_acknowledge (fold raise_severity ss a) = fold max ss (severity_to_acknowledge a)
    \<and> al_severity (fold raise_severity ss a) = (if ss = [] then al_severity a else last ss)"
  using assms by (induction ss arbitrary: a) (auto simp: raise_severity_eq max.commute)

lemma alarm_write_both:
  "alarm_write (no_args\<lparr>arg_status := Some (status_value st), arg_severity := Some (sev_value sev)\<rparr>) f p a =
     (let a' = a\<lparr>al_status := st, al_severity := sev, severity_to_acknowledge :=
           (if must_acknowledge_transient a then max (severity_to_acknowledge a) sev else sev)\<rparr>
      in (a', Inr (if p then alarm_publish ((f OR DBE_VALUE) OR DBE_ALARM) [] a' else [])))"
  by (auto simp: alarm_write_def no_args_def write_status_def write_severity_def Let_def max_def)

lemma fold_max_Max: "fold max ss x = Max (set (x # ss))" for x :: "'a::linorder"
  by (simp only: Max.set_eq_fold)

lemma check_limits_cases:
  "check_limits l s v =
     (if lower_alarm_limit l \<noteq> upper_alarm_limit l \<and> v \<le> lower_alarm_limit l then (ST_LOLO, lolo_severity s)
      else if lower_alarm_limit l \<noteq> upper_alarm_limit l \<and> upper_alarm_limit l \<le> v then (ST_HIHI, hihi_severity s)
      else if lower_warning_limit l \<noteq> upper_warning_limit l \<and> v \<le> lower_warning_limit l then (ST_LOW, low_severity s)
      else if lower_warning_limit l \<noteq> upper_warning_limit l \<and> upper_warning_limit l \<le> v then (ST_HIGH, high_severity s)
      else (ST_NO_ALARM, NO_ALARM))"
  by (simp add: check_limits_def limit_checker_def Let_def)

text \<open>An accepted write, in terms of the alarm that the limits give.\<close>

lemma numeric_write_allowed:
  fixes now :: int and v :: "'a::linorder" and nd :: "'a numeric"
  assumes "nd_max_length nd = 1"
    and "lower_ctrl_limit (nd_limits nd) = upper_ctrl_limit (nd_limits nd)
      \<or> (lower_ctrl_limit (nd_limits nd) \<le> v \<and> v \<le> upper_ctrl_limit (nd_limits nd))"
  defines "c \<equiv> check_limits (nd_limits nd) (nd_severities nd) v"
    and "w \<equiv> nd\<lparr>nd_status := None, nd_severity := None, nd_value := Scalar v, nd_timestamp := now\<rparr>"
  shows "numeric_write (\<lambda>_. Inr ()) now (Scalar v) flags no_metadata nd =
    (if fst c = al_status (nd_alarm nd) then (w, [(nd_number nd, flags)], Inr ())
     else let a = fst (alarm_write (no_args\<lparr>arg_status := Some (status_value (fst c)), arg_severity := Some (sev_value (snd c))\<rparr>) 0 False (nd_alarm nd))
          in (w\<lparr>nd_alarm := a\<rparr>, (nd_number nd, flags) # alarm_publish flags [nd_number nd] a, Inr ()))"
proof -
  obtain st sev where c: "check_limits (nd_limits nd) (nd_severities nd) v = (st, sev)"
    by (cases "check_limits (nd_limits nd) (nd_severities nd) v")
  have v: "verify_value (Scalar v) nd = (nd\<lparr>nd_status := Some st, nd_severity := Some sev\<rparr>, Inr (Scalar v))"
    using assms(2) c by (auto simp: verify_value_def Let_def)
  show ?thesis
  proof (cases "st = al_status (nd_alarm nd)")
    case True
    then show ?thesis
      using assms(1) c v
      by (simp add: numeric_write_def preprocess_value_def Let_def clear_cached_alarms_def collect_alarm_def
          no_metadata_def write_metadata_def c_def w_def)
  next
    case False
    then show ?thesis
      using assms(1) c v
      by (simp add: numeric_write_def preprocess_value_def Let_def clear_cached_alarms_def collect_alarm_def
          no_metadata_def write_metadata_def alarm_write_both c_def w_def)
  qed
qed

section \<open>Properties\<close>

text \<open>
  C31. Transient alarms are latched. While they must be acknowledged, a series of severities leaves the highest of them to be
  acknowledged, whatever the current one is. An acknowledgement clears it exactly if it is at least the \<^emph>\<open>current\<close>
  severity; the comment in the code asks for at least the severity to acknowledge.
\<close>

theorem alarm_latched:
  assumes "must_acknowledge_transient a" and "ss \<noteq> []" and "b = fold raise_severity ss a"
  shows "severity_to_acknowledge b = Max (set (severity_to_acknowledge a # ss)) \<and> al_severity b = last ss
    \<and> severity_to_acknowledge (fst (alarm_write (no_args\<lparr>arg_acks := Some v\<rparr>) 0 True b))
      = (if sev_value (last ss) \<le> v then NO_ALARM else severity_to_acknowledge b)"
  using raise_all [OF assms(1), of ss] assms(2,3)
  by (simp add: alarm_write_def no_args_def write_acks_def Let_def fold_max_Max)

theorem alarm_latched_witness:
  "severity_to_acknowledge (fold raise_severity [MINOR_ALARM, MAJOR_ALARM, NO_ALARM] ChannelAlarm_init) = MAJOR_ALARM
    \<and> severity_to_acknowledge (fst (alarm_write (no_args\<lparr>arg_acks := Some 1\<rparr>) 0 True
        (fold raise_severity [MINOR_ALARM, MAJOR_ALARM, NO_ALARM] ChannelAlarm_init))) = NO_ALARM"
  using alarm_latched [of ChannelAlarm_init "[MINOR_ALARM, MAJOR_ALARM, NO_ALARM]" _ 1]
  by (simp add: ChannelAlarm_init_def max_def less_eq_AlarmSeverity_def)


definition example_channel :: "int numeric" where
  "example_channel =
     \<lparr>nd_number = 1, nd_value = Scalar 0, nd_timestamp = 0, nd_units = [], nd_precision = None,
      nd_limits = \<lparr>upper_disp_limit = 0, lower_disp_limit = 0, upper_alarm_limit = 40, upper_warning_limit = 30,
        lower_warning_limit = 20, lower_alarm_limit = 10, upper_ctrl_limit = 100, lower_ctrl_limit = 0\<rparr>,
      nd_severities = default_severities, nd_max_length = 1, nd_alarm = ChannelAlarm_init, nd_status = None, nd_severity = None\<rparr>"


end
