(* ===== verification/CA_Subscriptions.thy ===== *)
theory CA_Subscriptions
  imports CA_Channels CA_Data Complex_Main "HOL-Library.Multiset"
begin

text \<open>
  Subscriptions in a server: \<^verbatim>\<open>subscribe\<close>, \<^verbatim>\<open>unsubscribe\<close>, \<^verbatim>\<open>publish\<close> and the snapshots of \<^verbatim>\<open>ChannelData\<close> (\<^verbatim>\<open>caproto/_data.py\<close>), and
  the tables and queues of \<^verbatim>\<open>VirtualCircuit\<close> and \<^verbatim>\<open>Context\<close> (\<^verbatim>\<open>caproto/server/common.py\<close>). An update travels from the channel data to
  the queue of the context, from there to the queue of a circuit and then onto the wire. A coroutine is one step, except
  for the queues it fills. Commands are kept alive by the tables that hold them; the queue of a circuit only has weak
  references, so that a command that was pushed out of the backlog of its subscription is skipped.
\<close>

section \<open>State\<close>

text \<open>
  The type a client asks for; \<open>RT_long\<close> is \<^verbatim>\<open>_LongStringChannelType\<close>. Types stand for their names, by which the code keys
  its tables.
\<close>

datatype read_type = RT ChannelType | RT_long ChannelType

fun read_type_channel :: "read_type \<Rightarrow> ChannelType" where
  "read_type_channel (RT t) = t"
| "read_type_channel (RT_long t) = t"

record 'r SubscriptionSpec =
  sp_entry :: ref
  sp_type :: read_type
  sp_mask :: int
  sp_filter :: "'r ChannelFilter"

record 'r Subscription =
  sb_mask :: int
  sb_filter :: "'r ChannelFilter"
  sb_circuit :: nat
  sb_channel :: ref
  sb_type :: read_type
  sb_count :: int
  sb_id :: int
  sb_entry :: ref

type_synonym 'r table = "('r SubscriptionSpec, 'r Subscription list) dict"

text \<open>An \<^verbatim>\<open>EventAddResponse\<close> as an object: its identity, and what the callback of its weak reference needs.\<close>

record 'r update =
  up_id :: nat
  up_command :: message
  up_spec :: "'r SubscriptionSpec"
  up_sub :: "'r Subscription"

record 'r vcircuit =
  vc_circuit :: "'r ChannelFilter circuit"
  vc_connected :: bool
  client_hostname :: "pystr option"
  client_username :: "pystr option"
  vc_subscriptions :: "'r table"
  unexpired_updates :: "(int, 'r update list) dict"
  subscriptions_to_resend :: "'r table"
  vc_queue :: "'r update list"
  events_on :: bool

text \<open>
  Channel data of type \<open>'e\<close> with its subscription state. A snapshot is a copy of the data, or \<open>None\<close> for the object itself.
\<close>

type_synonym ('r, 'm) reading = "'m md_arg \<times> 'r list"

record ('r, 'm, 'e) chandata =
  cd_data :: 'e
  cd_queues :: "(SyncFilter option, (read_type, 'r SubscriptionSpec list) dict) dict"
  cd_content :: "(read_type, ('r, 'm) reading) dict"
  cd_snapshots :: "(pystr, (pystr, 'e option) dict) dict"
  fill_at_next_write :: "(pystr \<times> pystr) list"
  max_subscription_backlog :: nat
  value_atol :: 'r
  log_atol :: 'r

record ('r, 'm) SubscriptionUpdate =
  su_specs :: "'r SubscriptionSpec list"
  su_reading :: "('r, 'm) reading"
  su_flags :: int
  su_sub :: "'r Subscription option"

record ('r, 'm, 'e) server =
  sv_circuits :: "nat \<Rightarrow> 'r vcircuit"
  sv_entries :: "ref \<Rightarrow> ('r, 'm, 'e) chandata"
  sv_subscriptions :: "'r table"
  last_sync_edge_update :: "('r Subscription \<times> pystr \<times> pystr, 'r update) dict"
  last_dead_band :: "('r Subscription, 'r val) dict"
  sv_queue :: "('r, 'm) SubscriptionUpdate list"
  sv_next :: nat

definition map_circuit :: "nat \<Rightarrow> ('r vcircuit \<Rightarrow> 'r vcircuit) \<Rightarrow> ('r, 'm, 'e) server \<Rightarrow> ('r, 'm, 'e) server" where
  "map_circuit k f sv = sv\<lparr>sv_circuits := (sv_circuits sv)(k := f (sv_circuits sv k))\<rparr>"

definition map_entry :: "ref \<Rightarrow> (('r, 'm, 'e) chandata \<Rightarrow> ('r, 'm, 'e) chandata) \<Rightarrow> ('r, 'm, 'e) server \<Rightarrow> ('r, 'm, 'e) server" where
  "map_entry r f sv = sv\<lparr>sv_entries := (sv_entries sv)(r := f (sv_entries sv r))\<rparr>"

text \<open>The tables are \<^verbatim>\<open>defaultdict(deque)\<close>: appending to and removing from one of their lists.\<close>

definition tab_append :: "'k \<Rightarrow> 'v \<Rightarrow> ('k, 'v list) dict \<Rightarrow> ('k, 'v list) dict" where
  "tab_append k v t = dset k (dd_value t k @ [v]) t"

definition tab_remove :: "'k \<Rightarrow> 'v \<Rightarrow> ('k, 'v list) dict \<Rightarrow> ('k, 'v list) dict" where
  "tab_remove k v t = dset k (remove1 v (dd_value t k)) t"

section \<open>Channel data\<close>

definition has_spec :: "('r, 'm, 'e) chandata \<Rightarrow> 'r SubscriptionSpec \<Rightarrow> bool" where
  "has_spec cd spec \<longleftrightarrow> spec \<in> set (dd_value (dd_value (cd_queues cd) (cf_sync (sp_filter spec))) (sp_type spec))"

definition set_specs ::
  "('r SubscriptionSpec list \<Rightarrow> 'r SubscriptionSpec list) \<Rightarrow> 'r SubscriptionSpec \<Rightarrow> ('r, 'm, 'e) chandata \<Rightarrow> ('r, 'm, 'e) chandata" where
  "set_specs f spec cd =
     (let sync = cf_sync (sp_filter spec);
          by_sync = dd_value (cd_queues cd) sync
      in cd\<lparr>cd_queues := dset sync (dset (sp_type spec) (f (dd_value by_sync (sp_type spec))) by_sync) (cd_queues cd)\<rparr>)"

text \<open>
  \<^verbatim>\<open>ChannelData.subscribe\<close>. \<open>read\<close> stands for \<^verbatim>\<open>_read\<close>: the data in the requested type, converted by the array backend.
\<close>

definition cd_subscribe ::
  "('e \<Rightarrow> read_type \<Rightarrow> ('r, 'm) reading result) \<Rightarrow> 'r SubscriptionSpec \<Rightarrow> 'r Subscription \<Rightarrow> ('r, 'm, 'e) server
     \<Rightarrow> ('r, 'm, 'e) server \<times> unit result" where
  "cd_subscribe read spec sub sv =
     (let sv1 = map_entry (sp_entry spec) (set_specs (List.insert spec) spec) sv;
          cd = sv_entries sv1 (sp_entry spec)
      in case (case dget (cd_content cd) (sp_type spec) of Some c \<Rightarrow> Inr c | None \<Rightarrow> read (cd_data cd) (sp_type spec)) of
           Inl e \<Rightarrow> (sv1, Inl e)
         | Inr c \<Rightarrow>
             ((map_entry (sp_entry spec) (\<lambda>cd. cd\<lparr>cd_content := dset (sp_type spec) c (cd_content cd)\<rparr>) sv1)
                \<lparr>sv_queue := sv_queue sv1 @ [\<lparr>su_specs = [spec], su_reading = c, su_flags = 0, su_sub = Some sub\<rparr>]\<rparr>,
              Inr ()))"

definition cd_unsubscribe :: "'r SubscriptionSpec \<Rightarrow> ('r, 'm, 'e) server \<Rightarrow> ('r, 'm, 'e) server" where
  "cd_unsubscribe spec = map_entry (sp_entry spec) (set_specs (removeAll spec) spec)"

text \<open>\<^verbatim>\<open>pre_state_change\<close> and \<^verbatim>\<open>post_state_change\<close>: the snapshots for a state that is about to change, and that has changed.\<close>

definition pre_state_change :: "pystr \<Rightarrow> bool \<Rightarrow> ('r, 'm, 'e) chandata \<Rightarrow> ('r, 'm, 'e) chandata" where
  "pre_state_change state new_value cd =
     cd\<lparr>cd_snapshots := dset state [(lit (if new_value then ''before'' else ''last''), Some (cd_data cd))] (cd_snapshots cd)\<rparr>"

definition post_state_change :: "pystr \<Rightarrow> bool \<Rightarrow> ('r, 'm, 'e) chandata \<Rightarrow> ('r, 'm, 'e) chandata" where
  "post_state_change state new_value cd =
     cd\<lparr>cd_snapshots := dset state (dset (lit (if new_value then ''while'' else ''unless'')) None (dd_value (cd_snapshots cd) state)) (cd_snapshots cd),
        fill_at_next_write := fill_at_next_write cd @ [(state, lit (if new_value then ''after'' else ''first''))]\<rparr>"

text \<open>The part of \<^verbatim>\<open>ChannelData.write\<close> around the assignment of the new data: pending snapshots are taken before it.\<close>

definition store_value :: "('e \<Rightarrow> 'e) \<Rightarrow> ('r, 'm, 'e) chandata \<Rightarrow> ('r, 'm, 'e) chandata" where
  "store_value f cd =
     (let snapshots = fold (\<lambda>(state, mode) d. dset state (dset mode (Some (cd_data cd)) (dd_value d state)) d)
            (fill_at_next_write cd) (cd_snapshots cd)
      in cd\<lparr>cd_snapshots := snapshots, fill_at_next_write := [], cd_data := f (cd_data cd)\<rparr>)"

text \<open>\<^verbatim>\<open>_is_eligible\<close>, and the data that a subscription with a \<^verbatim>\<open>sync\<close> filter gets.\<close>

definition is_eligible :: "('r, 'm, 'e) chandata \<Rightarrow> 'r SubscriptionSpec \<Rightarrow> bool" where
  "is_eligible cd spec =
     (case cf_sync (sp_filter spec) of
        None \<Rightarrow> True
      | Some sync \<Rightarrow> dget (dd_value (cd_snapshots cd) (sync_s sync)) (sync_m sync) \<noteq> None)"

definition channel_data :: "('r, 'm, 'e) chandata \<Rightarrow> SyncFilter option \<Rightarrow> 'e option" where
  "channel_data cd sync =
     (case sync of
        None \<Rightarrow> Some (cd_data cd)
      | Some s \<Rightarrow>
          (case dget (dd_value (cd_snapshots cd) (sync_s s)) (sync_m s) of
             None \<Rightarrow> None | Some None \<Rightarrow> Some (cd_data cd) | Some (Some d) \<Rightarrow> Some d))"

text \<open>
  \<^verbatim>\<open>ChannelData.publish\<close>: one update per group of subscriptions. Readings are cached under the type itself, never under its
  name, so that the cache looked up here is always empty.
\<close>

fun publish_groups ::
  "('e \<Rightarrow> read_type \<Rightarrow> ('r, 'm) reading result) \<Rightarrow> int \<Rightarrow> ('r, 'm, 'e) chandata \<Rightarrow> (SyncFilter option \<times> read_type \<times> 'r SubscriptionSpec list) list
     \<Rightarrow> ('r, 'm) SubscriptionUpdate list \<times> unit result" where
  "publish_groups read flags cd [] = ([], Inr ())"
| "publish_groups read flags cd ((sync, t, specs) # gs) =
     (let eligible = filter (is_eligible cd) specs
      in case channel_data cd sync of
           None \<Rightarrow> publish_groups read flags cd gs
         | Some d \<Rightarrow>
             if eligible = [] then publish_groups read flags cd gs
             else case read d t of
               Inl e \<Rightarrow> ([], Inl e)
             | Inr c \<Rightarrow>
                 let (us, r) = publish_groups read flags cd gs
                 in (\<lparr>su_specs = eligible, su_reading = c, su_flags = flags, su_sub = None\<rparr> # us, r))"

definition cd_groups :: "('r, 'm, 'e) chandata \<Rightarrow> (SyncFilter option \<times> read_type \<times> 'r SubscriptionSpec list) list" where
  "cd_groups cd = concat (map (\<lambda>(sync, data_types). map (\<lambda>(t, specs). (sync, t, specs)) data_types) (cd_queues cd))"

definition cd_publish ::
  "('e \<Rightarrow> read_type \<Rightarrow> ('r, 'm) reading result) \<Rightarrow> int \<Rightarrow> ref \<Rightarrow> ('r, 'm, 'e) server \<Rightarrow> ('r, 'm, 'e) server \<times> unit result" where
  "cd_publish read flags r sv =
     (let cd = sv_entries sv r;
          (us, res) = publish_groups read flags cd (cd_groups cd)
      in ((map_entry r (\<lambda>cd. cd\<lparr>cd_content := []\<rparr>) sv)\<lparr>sv_queue := sv_queue sv @ us\<rparr>, res))"

section \<open>Subscribing and unsubscribing\<close>

text \<open>The end of the handler of an \<^verbatim>\<open>EventAddRequest\<close>.\<close>

definition add_subscription ::
  "('e \<Rightarrow> read_type \<Rightarrow> ('r, 'm) reading result) \<Rightarrow> nat \<Rightarrow> 'r SubscriptionSpec \<Rightarrow> 'r Subscription \<Rightarrow> ('r, 'm, 'e) server
     \<Rightarrow> ('r, 'm, 'e) server \<times> unit result" where
  "add_subscription read k spec sub sv =
     (let sv1 = map_circuit k (\<lambda>vc. vc\<lparr>vc_subscriptions := tab_append spec sub (vc_subscriptions vc)\<rparr>) sv;
          sv2 = sv1\<lparr>sv_subscriptions := tab_append spec sub (sv_subscriptions sv1)\<rparr>
      in cd_subscribe read spec sub sv2)"

text \<open>
  Removing a subscription from the table of the context, and the context from the channel data if nothing else needs it.
  \<^verbatim>\<open>deque.remove\<close> raises \<^verbatim>\<open>ValueError\<close> when the element is missing.
\<close>

definition context_remove :: "'r SubscriptionSpec \<Rightarrow> 'r Subscription \<Rightarrow> ('r, 'm, 'e) server \<Rightarrow> ('r, 'm, 'e) server \<times> unit result" where
  "context_remove spec sub sv =
     (if sub \<in> set (dd_value (sv_subscriptions sv) spec)
      then (sv\<lparr>sv_subscriptions := tab_remove spec sub (sv_subscriptions sv)\<rparr>, Inr ())
      else (sv, Inl ValueError))"

definition drop_spec :: "'r SubscriptionSpec \<Rightarrow> ('r, 'm, 'e) server \<Rightarrow> ('r, 'm, 'e) server" where
  "drop_spec spec sv = (if dd_value (sv_subscriptions sv) spec = [] then cd_unsubscribe spec sv else sv)"

definition cull_one :: "nat \<Rightarrow> 'r SubscriptionSpec \<times> 'r Subscription \<Rightarrow> ('r, 'm, 'e) server \<Rightarrow> ('r, 'm, 'e) server \<times> unit result" where
  "cull_one k p sv =
     (case p of (spec, sub) \<Rightarrow>
        if sub \<notin> set (dd_value (vc_subscriptions (sv_circuits sv k)) spec) then (sv, Inl ValueError)
        else
          let sv1 = map_circuit k (\<lambda>vc. vc\<lparr>vc_subscriptions := tab_remove spec sub (vc_subscriptions vc),
                  subscriptions_to_resend :=
                    (if sub \<in> set (dd_value (subscriptions_to_resend vc) spec)
                     then tab_remove spec sub (subscriptions_to_resend vc) else subscriptions_to_resend vc)\<rparr>) sv
          in case context_remove spec sub sv1 of
               (sv2, Inl e) \<Rightarrow> (sv2, Inl e)
             | (sv2, Inr _) \<Rightarrow>
                 (drop_spec spec (sv2\<lparr>last_dead_band := ddel sub (last_dead_band sv2),
                    last_sync_edge_update := filter (\<lambda>((s, _), _). s \<noteq> sub) (last_sync_edge_update sv2)\<rparr>), Inr ()))"

fun cull_list :: "nat \<Rightarrow> ('r SubscriptionSpec \<times> 'r Subscription) list \<Rightarrow> ('r, 'm, 'e) server \<Rightarrow> ('r, 'm, 'e) server \<times> unit result" where
  "cull_list k [] sv = (sv, Inr ())"
| "cull_list k (p # ps) sv =
     (case cull_one k p sv of (sv', Inl e) \<Rightarrow> (sv', Inl e) | (sv', Inr _) \<Rightarrow> cull_list k ps sv')"

definition table_pairs :: "'r table \<Rightarrow> ('r SubscriptionSpec \<times> 'r Subscription) list" where
  "table_pairs t = concat (map (\<lambda>(spec, subs). map (\<lambda>sub. (spec, sub)) subs) t)"

text \<open>\<^verbatim>\<open>_cull_subscriptions\<close>; the result has the pairs that were removed.\<close>

definition cull_subscriptions ::
  "nat \<Rightarrow> ('r Subscription \<Rightarrow> bool) \<Rightarrow> ('r, 'm, 'e) server
     \<Rightarrow> ('r, 'm, 'e) server \<times> ('r SubscriptionSpec \<times> 'r Subscription) list result" where
  "cull_subscriptions k func sv =
     (let to_remove = filter (\<lambda>(_, sub). func sub) (table_pairs (vc_subscriptions (sv_circuits sv k)))
      in case cull_list k to_remove sv of (sv', r) \<Rightarrow> (sv', bindE r (\<lambda>_. Inr to_remove)))"

text \<open>The loops of \<^verbatim>\<open>_on_disconnect\<close>.\<close>

fun remove_subs :: "'r SubscriptionSpec \<Rightarrow> 'r Subscription list \<Rightarrow> ('r, 'm, 'e) server \<Rightarrow> ('r, 'm, 'e) server \<times> unit result" where
  "remove_subs spec [] sv = (drop_spec spec sv, Inr ())"
| "remove_subs spec (sub # subs) sv =
     (case context_remove spec sub sv of (sv', Inl e) \<Rightarrow> (sv', Inl e) | (sv', Inr _) \<Rightarrow> remove_subs spec subs sv')"

fun remove_table :: "'r table \<Rightarrow> ('r, 'm, 'e) server \<Rightarrow> ('r, 'm, 'e) server \<times> unit result" where
  "remove_table [] sv = (sv, Inr ())"
| "remove_table ((spec, subs) # t) sv =
     (case remove_subs spec subs sv of (sv', Inl e) \<Rightarrow> (sv', Inl e) | (sv', Inr _) \<Rightarrow> remove_table t sv')"

definition on_disconnect :: "nat \<Rightarrow> ('r, 'm, 'e) server \<Rightarrow> ('r, 'm, 'e) server \<times> unit result" where
  "on_disconnect k sv =
     (if \<not> vc_connected (sv_circuits sv k) then (sv, Inr ())
      else
        let sv1 = map_circuit k (\<lambda>vc. vc\<lparr>vc_connected := False\<rparr>) sv
        in case remove_table (vc_subscriptions (sv_circuits sv k)) sv1 of
             (sv2, Inl e) \<Rightarrow> (sv2, Inl e)
           | (sv2, Inr _) \<Rightarrow> (map_circuit k (\<lambda>vc. vc\<lparr>vc_subscriptions := []\<rparr>) sv2, Inr ()))"

section \<open>Updates on their way out\<close>

text \<open>
  The commands that are still referred to: the backlogs of the circuit and the last update of each edge-triggered
  subscription.
\<close>

definition kept_alive :: "nat \<Rightarrow> ('r, 'm, 'e) server \<Rightarrow> nat list" where
  "kept_alive k sv =
     map up_id (concat (map snd (unexpired_updates (sv_circuits sv k))) @ map snd (last_sync_edge_update sv))"

definition mark_resend :: "'r SubscriptionSpec \<Rightarrow> 'r Subscription \<Rightarrow> 'r vcircuit \<Rightarrow> 'r vcircuit" where
  "mark_resend spec sub vc =
     (if sub \<in> set (dd_value (subscriptions_to_resend vc) spec) then vc
      else vc\<lparr>subscriptions_to_resend := tab_append spec sub (subscriptions_to_resend vc)\<rparr>)"

text \<open>
  \<^verbatim>\<open>EventsOffRequest\<close>: the commands that die with the backlogs while a weak reference to them is queued are noted for
  later by the callback of that reference.
\<close>

definition turn_events_off :: "nat \<Rightarrow> ('r, 'm, 'e) server \<Rightarrow> ('r, 'm, 'e) server" where
  "turn_events_off k sv =
     (let vc = sv_circuits sv k;
          queued = set (map up_id (vc_queue vc));
          held = set (map (up_id \<circ> snd) (last_sync_edge_update sv));
          dying = filter (\<lambda>u. up_id u \<in> queued \<and> up_id u \<notin> held) (concat (map snd (unexpired_updates vc)))
      in map_circuit k (\<lambda>vc. fold (\<lambda>u. mark_resend (up_spec u) (up_sub u)) dying (vc\<lparr>events_on := False, unexpired_updates := []\<rparr>)) sv)"

fun resend_list ::
  "('e \<Rightarrow> read_type \<Rightarrow> ('r, 'm) reading result) \<Rightarrow> ('r SubscriptionSpec \<times> 'r Subscription) list \<Rightarrow> ('r, 'm, 'e) server
     \<Rightarrow> ('r, 'm, 'e) server \<times> unit result" where
  "resend_list read [] sv = (sv, Inr ())"
| "resend_list read ((spec, sub) # ps) sv =
     (case cd_subscribe read spec sub sv of (sv', Inl e) \<Rightarrow> (sv', Inl e) | (sv', Inr _) \<Rightarrow> resend_list read ps sv')"

definition turn_events_on ::
  "('e \<Rightarrow> read_type \<Rightarrow> ('r, 'm) reading result) \<Rightarrow> nat \<Rightarrow> ('r, 'm, 'e) server \<Rightarrow> ('r, 'm, 'e) server \<times> unit result" where
  "turn_events_on read k sv =
     resend_list read (table_pairs (subscriptions_to_resend (sv_circuits sv k)))
       (map_circuit k (\<lambda>vc. vc\<lparr>events_on := True, subscriptions_to_resend := []\<rparr>) sv)"

text \<open>
  \<^verbatim>\<open>apply_deadband_filter\<close> of \<^verbatim>\<open>caproto/_utils.py\<close>, for numbers in the byte order of the host: the value to remember, or \<open>None\<close>
  to drop the update. Division by zero raises, as for the numbers of Python; those of numpy would give infinity.
\<close>

definition deadband_flags :: "'r::linordered_field \<Rightarrow> 'r \<Rightarrow> 'r \<Rightarrow> int \<Rightarrow> int" where
  "deadband_flags log_tol value_tol diff flags =
     (if diff > log_tol then (if diff > value_tol then (flags OR 2) OR 1 else flags OR 2) else flags)"

definition apply_deadband_filter ::
  "'r::linordered_field val option \<Rightarrow> 'r list \<Rightarrow> 'r DeadbandFilter \<Rightarrow> int \<Rightarrow> 'r \<Rightarrow> 'r \<Rightarrow> int \<Rightarrow> 'r val option result" where
  "apply_deadband_filter previous new_value f msk log_tol value_tol flags =
     (case previous of
        None \<Rightarrow> Inr (Some (Array new_value))
      | Some p \<Rightarrow>
          (case (case p of Scalar x \<Rightarrow> Some x | Array [x] \<Rightarrow> Some x | _ \<Rightarrow> None, new_value) of
             (Some x, [y]) \<Rightarrow>
               bindE (if db_m f = Inl (lit ''rel'')
                      then (if x = 0 then Inl ZeroDivisionError else Inr (db_d f < \<bar>(x - y) / x\<bar>))
                      else Inr (db_d f < \<bar>x - y\<bar>)) (\<lambda>out_of_band.
               if out_of_band \<and> msk AND deadband_flags log_tol value_tol \<bar>x - y\<bar> flags \<noteq> 0
               then Inr (Some (Scalar y)) else Inr None)
           | _ \<Rightarrow> Inr None))"

text \<open>\<^verbatim>\<open>append\<close> to a \<^verbatim>\<open>deque(maxlen=n)\<close>.\<close>

definition append_bounded :: "nat \<Rightarrow> 'a \<Rightarrow> 'a list \<Rightarrow> 'a list" where
  "append_bounded n x xs = drop (length xs + 1 - n) (xs @ [x])"

text \<open>
  The end of \<^verbatim>\<open>_subscription_queue_send\<close>: the command goes to the backlog of its subscription and a weak reference to the
  queue of the circuit, which holds \<open>quota\<close> entries; when it is full, everything is dropped.
\<close>

definition enqueue_update ::
  "nat \<Rightarrow> 'r SubscriptionSpec \<Rightarrow> 'r Subscription \<Rightarrow> 'r update \<Rightarrow> ('r, 'm, 'e) server \<Rightarrow> ('r, 'm, 'e) server" where
  "enqueue_update quota spec sub u sv =
     map_circuit (sb_circuit sub) (\<lambda>vc.
       if length (vc_queue vc) \<ge> quota then vc\<lparr>vc_queue := [], unexpired_updates := []\<rparr>
       else vc\<lparr>vc_queue := vc_queue vc @ [u],
               unexpired_updates := dset (sb_id sub)
                 (append_bounded (max_subscription_backlog (sv_entries sv (sb_entry sub))) u (dd_value (unexpired_updates vc) (sb_id sub)))
                 (unexpired_updates vc)\<rparr>) sv"

text \<open>Edge-triggered filters: an update equal to the last one is dropped, any other is remembered.\<close>

definition sync_update ::
  "'r Subscription \<Rightarrow> 'r update \<Rightarrow> ('r, 'm, 'e) server \<Rightarrow> ('r, 'm, 'e) server option" where
  "sync_update sub u sv =
     (case cf_sync (sb_filter sub) of
        None \<Rightarrow> Some sv
      | Some sync \<Rightarrow>
          let key = (sub, sync_s sync, sync_m sync)
          in case dget (last_sync_edge_update sv) key of
               Some prev \<Rightarrow>
                 if message_bytes (up_command prev) = message_bytes (up_command u) then None
                 else Some (sv\<lparr>last_sync_edge_update := dset key u (last_sync_edge_update sv)\<rparr>)
             | None \<Rightarrow> Some (sv\<lparr>last_sync_edge_update := dset key u (last_sync_edge_update sv)\<rparr>))"

definition deadband_update ::
  "'r::linordered_field Subscription \<Rightarrow> 'r list \<Rightarrow> int \<Rightarrow> ('r, 'm, 'e) server \<Rightarrow> ('r, 'm, 'e) server option result" where
  "deadband_update sub values flags sv =
     (case cf_dbnd (sb_filter sub) of
        None \<Rightarrow> Inr (Some sv)
      | Some f \<Rightarrow>
          let cd = sv_entries sv (sb_entry sub)
          in bindE (apply_deadband_filter (dget (last_dead_band sv) sub) values f (sb_mask sub) (log_atol cd) (value_atol cd) flags)
               (\<lambda>v. Inr (map_option (\<lambda>v. sv\<lparr>last_dead_band := dset sub v (last_dead_band sv)\<rparr>) v)))"

definition subscription_queue_send ::
  "(ChannelType \<Rightarrow> 'r list \<Rightarrow> bytes result) \<Rightarrow> (ChannelType \<Rightarrow> 'm list \<Rightarrow> bytes result) \<Rightarrow> nat \<Rightarrow> 'r SubscriptionSpec
     \<Rightarrow> ('r::linordered_field, 'm) reading \<Rightarrow> int \<Rightarrow> 'r Subscription \<Rightarrow> ('r, 'm, 'e) server \<Rightarrow> ('r, 'm, 'e) server \<times> unit result" where
  "subscription_queue_send to_epics mk_dbr quota spec reading flags sub sv =
     (let vc = sv_circuits sv (sb_circuit sub)
      in if \<not> events_on vc then (map_circuit (sb_circuit sub) (mark_resend spec sub) sv, Inr ())
         else case apply_arr_filter (cf_arr (sp_filter spec)) (snd reading) of
           Inl e \<Rightarrow> (sv, Inl e)
         | Inr values \<Rightarrow>
             let n = (if sb_count sub \<noteq> 0 then sb_count sub else int (length values));
                 values = take (nat n) values
             in case ServerChannel_subscribe to_epics mk_dbr (sb_channel sub) (Data_iter values) (sb_id sub)
                       (DT_int (ct_value (read_type_channel (sb_type sub)))) (Some n) (Status_int 1) (fst reading) (vc_circuit vc) of
                  Inl e \<Rightarrow> (sv, Inl e)
                | Inr command \<Rightarrow>
                    let u = \<lparr>up_id = sv_next sv, up_command = command, up_spec = spec, up_sub = sub\<rparr>;
                        sv = sv\<lparr>sv_next := sv_next sv + 1\<rparr>
                    in case deadband_update sub values flags sv of
                         Inl e \<Rightarrow> (sv, Inl e)
                       | Inr None \<Rightarrow> (sv, Inr ())
                       | Inr (Some sv1) \<Rightarrow>
                           (case sync_update sub u sv1 of
                              None \<Rightarrow> (sv1, Inr ())
                            | Some sv2 \<Rightarrow> (enqueue_update quota spec sub u sv2, Inr ())))"

fun send_all ::
  "('p \<Rightarrow> 's \<Rightarrow> 's \<times> unit result) \<Rightarrow> 'p list \<Rightarrow> 's \<Rightarrow> 's \<times> unit result" where
  "send_all f [] s = (s, Inr ())"
| "send_all f (p # ps) s = (case f p s of (s', Inl e) \<Rightarrow> (s', Inl e) | (s', Inr _) \<Rightarrow> send_all f ps s')"

text \<open>One turn of \<^verbatim>\<open>Context.subscription_queue_loop\<close>. The queue only ever holds one specification with a subscription.\<close>

definition subscription_queue_iteration ::
  "(ChannelType \<Rightarrow> 'r list \<Rightarrow> bytes result) \<Rightarrow> (ChannelType \<Rightarrow> 'm list \<Rightarrow> bytes result) \<Rightarrow> nat
     \<Rightarrow> ('r::linordered_field, 'm, 'e) server \<Rightarrow> ('r, 'm, 'e) server \<times> unit result" where
  "subscription_queue_iteration to_epics mk_dbr quota sv =
     (case sv_queue sv of
        [] \<Rightarrow> (sv, Inr ())
      | item # items \<Rightarrow>
          let deliver = (\<lambda>(spec, sub). subscription_queue_send to_epics mk_dbr quota spec (su_reading item) (su_flags item) sub);
              sv = sv\<lparr>sv_queue := items\<rparr>
          in case su_sub item of
               None \<Rightarrow>
                 send_all (\<lambda>spec sv. send_all (\<lambda>sub. deliver (spec, sub)) (dd_value (sv_subscriptions sv) spec) sv) (su_specs item) sv
             | Some sub \<Rightarrow>
                 (case su_specs item of [spec] \<Rightarrow> deliver (spec, sub) sv | _ \<Rightarrow> (sv, Inl RuntimeError)))"

text \<open>
  One batch of \<^verbatim>\<open>VirtualCircuit.subscription_queue_loop\<close>: \<open>n\<close> references are taken from the queue, how many depends on time and
  size. Dead ones and commands of cancelled subscriptions are left out. The result has the commands that were sent.
\<close>

definition send_batch ::
  "(pystr \<Rightarrow> 'r ChannelFilter result) \<Rightarrow> nat \<Rightarrow> nat \<Rightarrow> ('r, 'm, 'e) server \<Rightarrow> ('r, 'm, 'e) server \<times> message list \<times> bytes list result" where
  "send_batch mk_filter k n sv =
     (let vc = sv_circuits sv k;
          commands = map up_command (filter (\<lambda>u. up_id u \<in> set (kept_alive k sv)) (take n (vc_queue vc)));
          all_subscription_ids = map (sb_id \<circ> snd) (table_pairs (vc_subscriptions vc));
          culled = filter (\<lambda>m. msg_subscriptionid m \<in> set all_subscription_ids) commands;
          sv1 = map_circuit k (\<lambda>vc. vc\<lparr>vc_queue := drop n (vc_queue vc)\<rparr>) sv
      in if vc_connected vc
         then (case send mk_filter culled (vc_circuit vc) of
                 (c', r) \<Rightarrow> (map_circuit k (\<lambda>vc. vc\<lparr>vc_circuit := c'\<rparr>) sv1, culled, r))
         else (sv1, [], Inr []))"

section \<open>Registration\<close>

text \<open>
  What the context relies on: channel data remember the specifications that were subscribed and not unsubscribed since. The
  context needs every specification that it uses to be registered.
\<close>

locale spec_registry =
  fixes reg :: "'d \<Rightarrow> 'k \<Rightarrow> bool" and enter :: "'k \<Rightarrow> 'd \<Rightarrow> 'd" and leave :: "'k \<Rightarrow> 'd \<Rightarrow> 'd"
  assumes reg_enter: "reg (enter k d) j \<longleftrightarrow> j = k \<or> reg d j"
    and reg_leave: "reg (leave k d) j \<longleftrightarrow> j \<noteq> k \<and> reg d j"
begin

definition covers :: "('k \<Rightarrow> bool) \<Rightarrow> 'd \<Rightarrow> bool" where
  "covers used d \<longleftrightarrow> (\<forall>k. used k \<longrightarrow> reg d k)"

lemma covers_enter: "covers used d \<Longrightarrow> covers (\<lambda>j. j = k \<or> used j) (enter k d)"
  by (simp add: covers_def reg_enter)

lemma covers_leave: "covers used d \<Longrightarrow> \<not> used k \<Longrightarrow> covers used (leave k d)"
  by (auto simp: covers_def reg_leave)

lemma covers_less: "covers used d \<Longrightarrow> (\<And>k. used' k \<Longrightarrow> used k) \<Longrightarrow> covers used' d"
  by (auto simp: covers_def)

end

lemma has_spec_set_specs:
  "has_spec (set_specs f spec cd) s \<longleftrightarrow>
     (if cf_sync (sp_filter s) = cf_sync (sp_filter spec) \<and> sp_type s = sp_type spec
      then s \<in> set (f (dd_value (dd_value (cd_queues cd) (cf_sync (sp_filter spec))) (sp_type spec)))
      else has_spec cd s)"
  by (auto simp: has_spec_def set_specs_def Let_def)

interpretation specs: spec_registry has_spec "\<lambda>spec. set_specs (List.insert spec) spec" "\<lambda>spec. set_specs (removeAll spec) spec"
  by unfold_locales (auto simp: has_spec_def set_specs_def Let_def split: if_splits)

section \<open>The invariant\<close>

abbreviation subs_of :: "nat \<Rightarrow> 'r SubscriptionSpec \<Rightarrow> ('r, 'm, 'e) server \<Rightarrow> 'r Subscription list" where
  "subs_of k spec sv \<equiv> dd_value (vc_subscriptions (sv_circuits sv k)) spec"

abbreviation context_subs :: "'r SubscriptionSpec \<Rightarrow> ('r, 'm, 'e) server \<Rightarrow> 'r Subscription list" where
  "context_subs spec sv \<equiv> dd_value (sv_subscriptions sv) spec"

text \<open>
  The table of the context is the union of those of the circuits; what it mentions is registered with its channel data;
  a disconnected circuit has no subscriptions.
\<close>

definition tables_agree :: "('r, 'm, 'e) server \<Rightarrow> bool" where
  "tables_agree sv \<longleftrightarrow>
     (\<forall>k spec. mset (subs_of k spec sv) = mset (filter (\<lambda>s. sb_circuit s = k) (context_subs spec sv)))"

definition all_registered :: "('r, 'm, 'e) server \<Rightarrow> bool" where
  "all_registered sv \<longleftrightarrow>
     (\<forall>r. specs.covers (\<lambda>spec. sp_entry spec = r \<and> context_subs spec sv \<noteq> []) (sv_entries sv r))"

definition subs_inv :: "('r, 'm, 'e) server \<Rightarrow> bool" where
  "subs_inv sv \<longleftrightarrow> tables_agree sv \<and> all_registered sv
     \<and> (\<forall>k. wf_dict (vc_subscriptions (sv_circuits sv k)) \<and> (\<not> vc_connected (sv_circuits sv k) \<longrightarrow> vc_subscriptions (sv_circuits sv k) = []))"

lemma map_circuit_simps [simp]:
  "sv_circuits (map_circuit k f sv) j = (if j = k then f (sv_circuits sv k) else sv_circuits sv j)"
  "sv_entries (map_circuit k f sv) = sv_entries sv" "sv_subscriptions (map_circuit k f sv) = sv_subscriptions sv"
  "sv_queue (map_circuit k f sv) = sv_queue sv" "last_dead_band (map_circuit k f sv) = last_dead_band sv"
  "last_sync_edge_update (map_circuit k f sv) = last_sync_edge_update sv" "sv_next (map_circuit k f sv) = sv_next sv"
  by (simp_all add: map_circuit_def)

lemma map_entry_simps [simp]:
  "sv_entries (map_entry r f sv) q = (if q = r then f (sv_entries sv r) else sv_entries sv q)"
  "sv_circuits (map_entry r f sv) = sv_circuits sv" "sv_subscriptions (map_entry r f sv) = sv_subscriptions sv"
  "sv_queue (map_entry r f sv) = sv_queue sv"
  by (simp_all add: map_entry_def)

text \<open>The invariant depends on the tables and the registrations only.\<close>

lemma subs_inv_cong:
  assumes "subs_inv sv" and "sv_subscriptions sv' = sv_subscriptions sv"
    and "\<And>k. vc_subscriptions (sv_circuits sv' k) = vc_subscriptions (sv_circuits sv k)"
    and "\<And>k. vc_connected (sv_circuits sv' k) = vc_connected (sv_circuits sv k)"
    and "\<And>r spec. has_spec (sv_entries sv r) spec \<Longrightarrow> has_spec (sv_entries sv' r) spec"
  shows "subs_inv sv'"
  using assms by (auto simp: subs_inv_def tables_agree_def all_registered_def specs.covers_def)

subsection \<open>Adding\<close>

lemma has_spec_update [simp]:
  "has_spec (cd\<lparr>cd_content := c\<rparr>) = has_spec cd" "has_spec (cd\<lparr>cd_snapshots := s\<rparr>) = has_spec cd"
  "has_spec (cd\<lparr>fill_at_next_write := l\<rparr>) = has_spec cd" "has_spec (cd\<lparr>cd_data := d\<rparr>) = has_spec cd"
  by (simp_all add: has_spec_def fun_eq_iff)

lemma cd_subscribe_tables:
  assumes "cd_subscribe read spec sub sv = (sv', r)"
  shows "sv_circuits sv' = sv_circuits sv" "sv_subscriptions sv' = sv_subscriptions sv"
    and "has_spec (sv_entries sv' q) s \<longleftrightarrow> has_spec (sv_entries sv q) s \<or> q = sp_entry spec \<and> s = spec"
proof -
  show "sv_circuits sv' = sv_circuits sv" "sv_subscriptions sv' = sv_subscriptions sv"
    using assms by (auto simp: cd_subscribe_def Let_def split: sum.splits option.splits)
  show "has_spec (sv_entries sv' q) s \<longleftrightarrow> has_spec (sv_entries sv q) s \<or> q = sp_entry spec \<and> s = spec"
    using assms by (auto simp: cd_subscribe_def Let_def specs.reg_enter split: sum.splits option.splits if_splits)
qed

lemma cd_subscribe_inv: "subs_inv sv \<Longrightarrow> subs_inv (fst (cd_subscribe read spec sub sv))"
  by (cases "cd_subscribe read spec sub sv") (auto intro!: subs_inv_cong [of sv] simp: cd_subscribe_tables)

lemma add_subscription_inv:
  assumes "subs_inv sv" and "vc_connected (sv_circuits sv k)" and "sb_circuit sub = k"
  shows "subs_inv (fst (add_subscription read k spec sub sv))"
proof -
  define sv2 where "sv2 = (map_circuit k (\<lambda>vc. vc\<lparr>vc_subscriptions := tab_append spec sub (vc_subscriptions vc)\<rparr>) sv)
      \<lparr>sv_subscriptions := tab_append spec sub (sv_subscriptions sv)\<rparr>"
  have two: "tables_agree sv2" "sv_entries sv2 = sv_entries sv" "context_subs s sv2 = context_subs s sv @ (if s = spec then [sub] else [])"
    "\<forall>j. wf_dict (vc_subscriptions (sv_circuits sv2 j)) \<and> (\<not> vc_connected (sv_circuits sv2 j) \<longrightarrow> vc_subscriptions (sv_circuits sv2 j) = [])"
    for s
    using assms by (auto simp: sv2_def subs_inv_def tables_agree_def tab_append_def)
  obtain sv' r where s': "cd_subscribe read spec sub sv2 = (sv', r)" by (cases "cd_subscribe read spec sub sv2")
  have "all_registered sv'"
    using assms(1) by (auto simp: all_registered_def specs.covers_def subs_inv_def cd_subscribe_tables [OF s'] two split: if_splits)
  then have "subs_inv sv'"
    using two unfolding subs_inv_def tables_agree_def cd_subscribe_tables [OF s'] by blast
  moreover have "add_subscription read k spec sub sv = (sv', r)"
    using s' by (simp add: add_subscription_def Let_def sv2_def)
  ultimately show ?thesis by simp
qed

subsection \<open>Removing\<close>

lemma drop_spec_simps [simp]:
  "sv_circuits (drop_spec spec sv) = sv_circuits sv" "sv_subscriptions (drop_spec spec sv) = sv_subscriptions sv"
  by (simp_all add: drop_spec_def cd_unsubscribe_def)

lemma drop_spec_registered: "all_registered sv \<Longrightarrow> all_registered (drop_spec spec sv)"
  by (auto simp: all_registered_def drop_spec_def cd_unsubscribe_def intro: specs.covers_leave)

lemma remove1_nonempty: "remove1 x xs \<noteq> [] \<Longrightarrow> xs \<noteq> []"
  by (cases xs) auto

lemma context_remove_registered: "all_registered sv \<Longrightarrow> all_registered (sv\<lparr>sv_subscriptions := tab_remove spec sub (sv_subscriptions sv)\<rparr>)"
  by (auto simp: all_registered_def specs.covers_def tab_remove_def dest: remove1_nonempty split: if_splits)

text \<open>The tables after one subscription of circuit \<open>k\<close> is gone.\<close>

lemma tables_agree_remove:
  assumes "tables_agree sv" and "sub \<in> set (subs_of k spec sv)" and "sv_circuits sv' k = vc" "\<And>j. j \<noteq> k \<Longrightarrow> sv_circuits sv' j = sv_circuits sv j"
    and "vc_subscriptions vc = tab_remove spec sub (vc_subscriptions (sv_circuits sv k))"
    and "sv_subscriptions sv' = tab_remove spec sub (sv_subscriptions sv)"
  shows "tables_agree sv'" "sub \<in> set (context_subs spec sv)"
proof -
  have "mset (subs_of k spec sv) = mset (filter (\<lambda>s. sb_circuit s = k) (context_subs spec sv))"
    using assms(1) by (simp add: tables_agree_def)
  then have "sub \<in> set (filter (\<lambda>s. sb_circuit s = k) (context_subs spec sv))"
    using assms(2) by (metis set_mset_mset)
  then have k: "sb_circuit sub = k" and sub: "sub \<in> set (context_subs spec sv)" by auto
  show "sub \<in> set (context_subs spec sv)" by (rule sub)
  show "tables_agree sv'"
    unfolding tables_agree_def
  proof (intro allI)
    fix j s
    show "mset (subs_of j s sv') = mset (filter (\<lambda>s. sb_circuit s = j) (context_subs s sv'))"
      using assms k by (cases "j = k") (auto simp: tables_agree_def tab_remove_def)
  qed
qed

lemma cull_one_ok:
  assumes "subs_inv sv" and "sub \<in> set (subs_of k spec sv)"
  obtains sv' where "cull_one k (spec, sub) sv = (sv', Inr ())" "subs_inv sv'"
    "\<And>s. mset (subs_of k s sv') = mset (subs_of k s sv) - (if s = spec then {#sub#} else {#})"
    "\<And>j. j \<noteq> k \<Longrightarrow> sv_circuits sv' j = sv_circuits sv j"
proof -
  obtain sv' r where s': "cull_one k (spec, sub) sv = (sv', r)" by (cases "cull_one k (spec, sub) sv")
  define sv1 where "sv1 = map_circuit k (\<lambda>vc. vc\<lparr>vc_subscriptions := tab_remove spec sub (vc_subscriptions vc),
      subscriptions_to_resend :=
        (if sub \<in> set (dd_value (subscriptions_to_resend vc) spec)
         then tab_remove spec sub (subscriptions_to_resend vc) else subscriptions_to_resend vc)\<rparr>) sv"
  define sv2 where "sv2 = sv1\<lparr>sv_subscriptions := tab_remove spec sub (sv_subscriptions sv1)\<rparr>"
  define sv3 where "sv3 = sv2\<lparr>last_dead_band := ddel sub (last_dead_band sv2),
      last_sync_edge_update := filter (\<lambda>((s, _), _). s \<noteq> sub) (last_sync_edge_update sv2)\<rparr>"
  have agree: "tables_agree sv" using assms(1) by (simp add: subs_inv_def)
  have vc: "vc_subscriptions (sv_circuits sv3 k) = tab_remove spec sub (vc_subscriptions (sv_circuits sv k))"
    "\<And>j. j \<noteq> k \<Longrightarrow> sv_circuits sv3 j = sv_circuits sv j" "sv_subscriptions sv3 = tab_remove spec sub (sv_subscriptions sv)"
    "\<And>j. vc_connected (sv_circuits sv3 j) = vc_connected (sv_circuits sv j)"
    by (simp_all add: sv3_def sv2_def sv1_def)
  note agree' = tables_agree_remove [OF agree assms(2) refl vc(2) vc(1) vc(3)]
  have "all_registered sv1" using assms(1) by (simp add: subs_inv_def all_registered_def sv1_def)
  then have "all_registered sv2" unfolding sv2_def by (rule context_remove_registered)
  then have reg: "all_registered (drop_spec spec sv3)" by (intro drop_spec_registered) (simp add: sv3_def all_registered_def)
  have s'_eq: "sv' = drop_spec spec sv3 \<and> r = Inr ()"
    using s' assms(2) agree'(2)
    by (auto simp: cull_one_def context_remove_def Let_def sv3_def sv2_def sv1_def)
  show ?thesis
  proof (rule that)
    show "cull_one k (spec, sub) sv = (sv', Inr ())" using s' s'_eq by simp
    have "tables_agree (drop_spec spec sv3)" using agree'(1) by (simp add: tables_agree_def)
    moreover have "wf_dict (vc_subscriptions (sv_circuits sv3 j)) \<and> (\<not> vc_connected (sv_circuits sv3 j) \<longrightarrow> vc_subscriptions (sv_circuits sv3 j) = [])" for j
      using assms vc by (cases "j = k") (auto simp: subs_inv_def tab_remove_def)
    ultimately show "subs_inv sv'" using reg s'_eq by (simp add: subs_inv_def)
  qed (use s'_eq vc in \<open>simp_all add: tab_remove_def\<close>)
qed

text \<open>The subscriptions that a list of pairs has for a specification.\<close>

definition listed :: "('k \<times> 'v) list \<Rightarrow> 'k \<Rightarrow> 'v list" where
  "listed ps k = map snd (filter (\<lambda>p. fst p = k) ps)"

lemma listed_simps [simp]:
  "listed [] k = []" "listed (p # ps) k = (if fst p = k then snd p # listed ps k else listed ps k)"
  "listed (ps @ qs) k = listed ps k @ listed qs k"
  by (simp_all add: listed_def)

lemma listed_filter: "listed (filter (\<lambda>(_, v). f v) ps) k = filter f (listed ps k)"
  by (induction ps) auto

lemma dd_value_Cons: "dd_value ((j, v) # d) k = (if j = k then v else dd_value d k)"
  by (auto simp: dd_value_def)

lemma dd_value_fresh: "k \<notin> fst ` set d \<Longrightarrow> dd_value d k = []"
  using map_of_eq_None_iff [of d k] by (simp add: dd_value_def)

lemma listed_table: "wf_dict t \<Longrightarrow> listed (table_pairs t) k = dd_value t k"
proof (induction t)
  case (Cons p t)
  have here: "listed (map (Pair j) vs) k = (if j = k then vs else [])" for j and vs :: "'a Subscription list"
    by (induction vs) auto
  from Cons have "listed (table_pairs t) k = dd_value t k" "fst p \<notin> fst ` set t" by (simp_all add: wf_dict_def)
  moreover have "fst p \<notin> fst ` set t \<Longrightarrow> dd_value t (fst p) = []" by (rule dd_value_fresh)
  ultimately show ?case by (cases p) (auto simp: table_pairs_def here dd_value_Cons)
qed (simp add: table_pairs_def)

lemma cull_list_ok:
  assumes "subs_inv sv" and "\<And>spec. mset (listed ps spec) \<subseteq># mset (subs_of k spec sv)"
  shows "\<exists>sv'. cull_list k ps sv = (sv', Inr ()) \<and> subs_inv sv'
    \<and> (\<forall>spec. mset (subs_of k spec sv') = mset (subs_of k spec sv) - mset (listed ps spec))
    \<and> (\<forall>j. j \<noteq> k \<longrightarrow> sv_circuits sv' j = sv_circuits sv j)"
  using assms
proof (induction ps arbitrary: sv)
  case (Cons p ps)
  obtain spec sub where p: "p = (spec, sub)" by (cases p)
  from Cons.prems(2) [of spec] p have "sub \<in># mset (subs_of k spec sv)" by (auto dest: mset_subset_eqD)
  then have "sub \<in> set (subs_of k spec sv)" by simp
  then obtain sv1 where 1: "cull_one k (spec, sub) sv = (sv1, Inr ())" "subs_inv sv1"
    "\<And>s. mset (subs_of k s sv1) = mset (subs_of k s sv) - (if s = spec then {#sub#} else {#})"
    "\<And>j. j \<noteq> k \<Longrightarrow> sv_circuits sv1 j = sv_circuits sv j"
    by (rule cull_one_ok [OF Cons.prems(1)]) blast
  have le: "mset (listed ps s) \<subseteq># mset (subs_of k s sv1)" for s
    using Cons.prems(2) [of s] p by (auto simp: 1(3) insert_subset_eq_iff split: if_splits)
  show ?case using Cons.IH [OF 1(2) le] p 1 by (auto split: if_splits)
qed simp

lemma cull_subscriptions_ok:
  assumes "subs_inv sv"
  shows "\<exists>sv' gone. cull_subscriptions k func sv = (sv', Inr gone) \<and> subs_inv sv'
    \<and> (\<forall>spec. listed gone spec = filter func (subs_of k spec sv)
          \<and> mset (subs_of k spec sv') = mset (filter (\<lambda>s. \<not> func s) (subs_of k spec sv)))
    \<and> (\<forall>j. j \<noteq> k \<longrightarrow> sv_circuits sv' j = sv_circuits sv j)"
proof -
  define gone where "gone = filter (\<lambda>(_, sub). func sub) (table_pairs (vc_subscriptions (sv_circuits sv k)))"
  have gone: "listed gone spec = filter func (subs_of k spec sv)" for spec
    using assms by (simp add: gone_def listed_filter listed_table subs_inv_def)
  obtain sv' where sv': "cull_list k gone sv = (sv', Inr ())" "subs_inv sv'"
    "\<forall>spec. mset (subs_of k spec sv') = mset (subs_of k spec sv) - mset (listed gone spec)"
    "\<forall>j. j \<noteq> k \<longrightarrow> sv_circuits sv' j = sv_circuits sv j"
    using cull_list_ok [OF assms, of gone k] gone by (auto simp: mset_filter)
  have rest: "filter_mset (\<lambda>s. \<not> f s) M = M - filter_mset f M" for f and M :: "'a Subscription multiset"
    by (simp add: multiset_eq_iff)
  show ?thesis
    using sv' gone by (intro exI [of _ sv'] exI [of _ gone]) (simp add: cull_subscriptions_def gone_def [symmetric] mset_filter rest)
qed

text \<open>Nothing is registered anew, and a specification without subscriptions is not registered afterwards.\<close>

definition only_leaves :: "'r SubscriptionSpec set \<Rightarrow> ('r, 'm, 'e) server \<Rightarrow> ('r, 'm, 'e) server \<Rightarrow> bool" where
  "only_leaves S sv sv' \<longleftrightarrow>
     (\<forall>r s. has_spec (sv_entries sv' r) s \<longrightarrow> has_spec (sv_entries sv r) s)
   \<and> (\<forall>s \<in> S. context_subs s sv' = [] \<longrightarrow> \<not> has_spec (sv_entries sv' (sp_entry s)) s)"

lemma drop_spec_leaves: "only_leaves {spec} sv (drop_spec spec sv)"
  by (auto simp: only_leaves_def drop_spec_def cd_unsubscribe_def specs.reg_leave)

lemma remove_subs_ok:
  assumes "all_registered sv" and "mset subs \<subseteq># mset (context_subs spec sv)"
  shows "\<exists>sv'. remove_subs spec subs sv = (sv', Inr ()) \<and> all_registered sv' \<and> sv_circuits sv' = sv_circuits sv
    \<and> (\<forall>s. mset (context_subs s sv') = mset (context_subs s sv) - (if s = spec then mset subs else {#}))
    \<and> only_leaves {spec} sv sv'"
  using assms
proof (induction subs arbitrary: sv)
  case Nil
  then show ?case using drop_spec_registered drop_spec_leaves by auto
next
  case (Cons sub subs)
  then have "sub \<in># mset (context_subs spec sv)" by (auto dest: mset_subset_eqD)
  then have sub: "sub \<in> set (context_subs spec sv)" by simp
  define sv1 where "sv1 = sv\<lparr>sv_subscriptions := tab_remove spec sub (sv_subscriptions sv)\<rparr>"
  have 1: "context_remove spec sub sv = (sv1, Inr ())" "sv_circuits sv1 = sv_circuits sv"
    "mset (context_subs s sv1) = mset (context_subs s sv) - (if s = spec then {#sub#} else {#})" for s
    using sub by (simp_all add: context_remove_def sv1_def tab_remove_def)
  have "all_registered sv1" unfolding sv1_def by (rule context_remove_registered [OF Cons.prems(1)])
  moreover have "mset subs \<subseteq># mset (context_subs spec sv1)"
    using Cons.prems(2) by (simp add: 1(3) insert_subset_eq_iff)
  moreover have "only_leaves {spec} sv1 s \<Longrightarrow> only_leaves {spec} sv s" for s by (simp add: only_leaves_def sv1_def)
  ultimately show ?case using Cons.IH [of sv1] 1 by (auto split: if_splits)
qed

lemma remove_table_ok:
  assumes "all_registered sv" and "wf_dict t" and "\<And>spec. mset (dd_value t spec) \<subseteq># mset (context_subs spec sv)"
  shows "\<exists>sv'. remove_table t sv = (sv', Inr ()) \<and> all_registered sv' \<and> sv_circuits sv' = sv_circuits sv
    \<and> (\<forall>s. mset (context_subs s sv') = mset (context_subs s sv) - mset (dd_value t s))
    \<and> only_leaves (fst ` set t) sv sv'"
  using assms
proof (induction t arbitrary: sv)
  case Nil
  then show ?case by (auto simp: only_leaves_def)
next
  case (Cons p t)
  obtain spec subs where p: "p = (spec, subs)" by (cases p)
  have fresh: "dd_value t spec = []" using Cons.prems(2) p by (intro dd_value_fresh) (simp add: wf_dict_def)
  have "mset subs \<subseteq># mset (context_subs spec sv)" using Cons.prems(3) [of spec] p by (simp add: dd_value_Cons)
  from remove_subs_ok [OF Cons.prems(1) this] obtain sv1 where 1: "remove_subs spec subs sv = (sv1, Inr ())" "all_registered sv1"
    "sv_circuits sv1 = sv_circuits sv"
    "\<forall>s. mset (context_subs s sv1) = mset (context_subs s sv) - (if s = spec then mset subs else {#})" "only_leaves {spec} sv sv1"
    by blast
  have le: "mset (dd_value t s) \<subseteq># mset (context_subs s sv1)" for s
    using Cons.prems(3) [of s] 1(4) fresh p by (auto simp: dd_value_Cons split: if_splits)
  have "wf_dict t" using Cons.prems(2) by (simp add: wf_dict_def)
  from Cons.IH [OF 1(2) this le] obtain sv2 where 2: "remove_table t sv1 = (sv2, Inr ())" "all_registered sv2"
    "sv_circuits sv2 = sv_circuits sv1" "\<forall>s. mset (context_subs s sv2) = mset (context_subs s sv1) - mset (dd_value t s)"
    "only_leaves (fst ` set t) sv1 sv2"
    by blast
  have "context_subs spec sv2 = [] \<Longrightarrow> context_subs spec sv1 = []" using 2(4) fresh by (metis diff_empty mset.simps(1) mset_zero_iff)
  then have "only_leaves (fst ` set (p # t)) sv sv2" using 1(5) 2(5) p by (auto simp: only_leaves_def)
  then show ?case using 1 2 p fresh by (auto simp: dd_value_Cons)
qed

lemma on_disconnect_ok:
  assumes "subs_inv sv"
  shows "\<exists>sv'. on_disconnect k sv = (sv', Inr ()) \<and> subs_inv sv' \<and> \<not> vc_connected (sv_circuits sv' k)
    \<and> (\<forall>s. mset (context_subs s sv') = mset (filter (\<lambda>s. sb_circuit s \<noteq> k) (context_subs s sv)))
    \<and> (\<forall>j. j \<noteq> k \<longrightarrow> sv_circuits sv' j = sv_circuits sv j)
    \<and> only_leaves (fst ` set (vc_subscriptions (sv_circuits sv k))) sv sv'"
proof (cases "vc_connected (sv_circuits sv k)")
  case False
  have mine: "filter (\<lambda>s. sb_circuit s = k) (context_subs s sv) = []" for s
  proof -
    have "subs_of k s sv = []" using assms False by (simp add: subs_inv_def)
    then have "mset (filter (\<lambda>s. sb_circuit s = k) (context_subs s sv)) = {#}"
      using assms unfolding subs_inv_def tables_agree_def by (metis mset_zero_iff)
    then show ?thesis by (simp only: mset_zero_iff)
  qed
  have "filter (\<lambda>s. sb_circuit s \<noteq> k) (context_subs s sv) = context_subs s sv" for s
    using mine [of s] by (simp add: filter_empty_conv filter_id_conv)
  moreover have "vc_subscriptions (sv_circuits sv k) = []" using False assms by (simp add: subs_inv_def)
  ultimately show ?thesis using False assms by (auto simp: on_disconnect_def only_leaves_def)
next
  case True
  define sv1 where "sv1 = map_circuit k (\<lambda>vc. vc\<lparr>vc_connected := False\<rparr>) sv"
  let ?t = "vc_subscriptions (sv_circuits sv k)"
  have inv: "tables_agree sv" "all_registered sv1" "wf_dict ?t"
    using assms by (simp_all add: subs_inv_def sv1_def all_registered_def)
  have t: "mset (dd_value ?t s) = filter_mset (\<lambda>s. sb_circuit s = k) (mset (context_subs s sv1))" for s
    using inv(1) by (simp add: tables_agree_def sv1_def)
  obtain sv2 where 2: "remove_table ?t sv1 = (sv2, Inr ())" "all_registered sv2" "sv_circuits sv2 = sv_circuits sv1"
    "\<forall>s. mset (context_subs s sv2) = mset (context_subs s sv1) - mset (dd_value ?t s)" "only_leaves (fst ` set ?t) sv1 sv2"
    using remove_table_ok [OF inv(2,3)] t by auto
  define sv3 where "sv3 = map_circuit k (\<lambda>vc. vc\<lparr>vc_subscriptions := []\<rparr>) sv2"
  have rest: "M - filter_mset (\<lambda>s. sb_circuit s = k) M = filter_mset (\<lambda>s. sb_circuit s \<noteq> k) M" for M :: "'a Subscription multiset"
    by (simp add: multiset_eq_iff)
  have ctx: "mset (context_subs s sv3) = filter_mset (\<lambda>s. sb_circuit s \<noteq> k) (mset (context_subs s sv))" for s
    using 2(4) t rest by (simp add: sv3_def sv1_def)
  have vc: "sv_circuits sv3 j = (if j = k then (sv_circuits sv k)\<lparr>vc_connected := False, vc_subscriptions := []\<rparr> else sv_circuits sv j)" for j
    by (simp add: sv3_def 2(3) sv1_def)
  have "tables_agree sv3"
    unfolding tables_agree_def mset_filter ctx
    using inv(1) by (auto simp: vc tables_agree_def filter_filter_mset intro!: filter_mset_cong split: if_splits)
  moreover have "all_registered sv3" using 2(2) by (simp add: sv3_def all_registered_def)
  ultimately have "subs_inv sv3" using assms by (auto simp: subs_inv_def vc)
  moreover have "on_disconnect k sv = (sv3, Inr ())"
    using True 2(1) by (simp add: on_disconnect_def sv1_def [symmetric] sv3_def)
  moreover have "only_leaves (fst ` set ?t) sv sv3" using 2(5) by (simp add: only_leaves_def sv3_def sv1_def)
  ultimately show ?thesis using ctx vc by (intro exI [of _ sv3]) simp
qed

subsection \<open>The other steps\<close>

text \<open>Everything else leaves the tables alone and forgets no registration.\<close>

definition keeps_tables :: "('r, 'm, 'e) server \<Rightarrow> ('r, 'm, 'e) server \<Rightarrow> bool" where
  "keeps_tables sv sv' \<longleftrightarrow>
     sv_subscriptions sv' = sv_subscriptions sv
   \<and> (\<forall>k. vc_subscriptions (sv_circuits sv' k) = vc_subscriptions (sv_circuits sv k)
        \<and> vc_connected (sv_circuits sv' k) = vc_connected (sv_circuits sv k))
   \<and> (\<forall>r spec. has_spec (sv_entries sv r) spec \<longrightarrow> has_spec (sv_entries sv' r) spec)"

lemma keeps_refl [simp]: "keeps_tables sv sv"
  by (simp add: keeps_tables_def)

lemma keeps_trans: "keeps_tables a b \<Longrightarrow> keeps_tables b c \<Longrightarrow> keeps_tables a c"
  by (simp add: keeps_tables_def)

lemma keeps_inv: "keeps_tables sv sv' \<Longrightarrow> subs_inv sv \<Longrightarrow> subs_inv sv'"
  using subs_inv_cong [of sv sv'] by (simp add: keeps_tables_def)

lemma keeps_circuit [intro]:
  "(\<And>vc. vc_subscriptions (f vc) = vc_subscriptions vc) \<Longrightarrow> (\<And>vc. vc_connected (f vc) = vc_connected vc)
     \<Longrightarrow> keeps_tables sv (map_circuit k f sv)"
  by (simp add: keeps_tables_def)

lemma keeps_entry [intro]: "(\<And>cd. has_spec (f cd) = has_spec cd) \<Longrightarrow> keeps_tables sv (map_entry r f sv)"
  by (simp add: keeps_tables_def)

lemma keeps_fields [simp]:
  "keeps_tables sv (sv'\<lparr>sv_queue := q\<rparr>) = keeps_tables sv sv'" "keeps_tables sv (sv'\<lparr>last_dead_band := d\<rparr>) = keeps_tables sv sv'"
  "keeps_tables sv (sv'\<lparr>last_sync_edge_update := e\<rparr>) = keeps_tables sv sv'" "keeps_tables sv (sv'\<lparr>sv_next := n\<rparr>) = keeps_tables sv sv'"
  by (simp_all add: keeps_tables_def)

lemma mark_resend_simps [simp]:
  "vc_subscriptions (mark_resend spec sub vc) = vc_subscriptions vc" "vc_connected (mark_resend spec sub vc) = vc_connected vc"
  by (simp_all add: mark_resend_def)

lemma fold_resend_simps [simp]:
  "vc_subscriptions (fold (\<lambda>u. mark_resend (up_spec u) (up_sub u)) us vc) = vc_subscriptions vc"
  "vc_connected (fold (\<lambda>u. mark_resend (up_spec u) (up_sub u)) us vc) = vc_connected vc"
  by (induction us arbitrary: vc) simp_all

lemma keeps_events_off: "keeps_tables sv (turn_events_off k sv)"
  unfolding turn_events_off_def Let_def by (rule keeps_circuit) simp_all

lemma keeps_subscribe: "keeps_tables sv (fst (cd_subscribe read spec sub sv))"
  by (cases "cd_subscribe read spec sub sv") (simp add: keeps_tables_def cd_subscribe_tables)

lemma keeps_resend: "keeps_tables sv (fst (resend_list read ps sv))"
proof (induction ps arbitrary: sv)
  case (Cons p ps)
  obtain sv' r where 1: "cd_subscribe read (fst p) (snd p) sv = (sv', r)" by (cases "cd_subscribe read (fst p) (snd p) sv")
  then have "keeps_tables sv sv'" using keeps_subscribe [of sv read "fst p" "snd p"] by simp
  then show ?case using 1 Cons.IH [of sv'] by (cases p; cases r) (auto intro: keeps_trans)
qed simp

lemma keeps_events_on: "keeps_tables sv (fst (turn_events_on read k sv))"
  unfolding turn_events_on_def by (rule keeps_trans [OF _ keeps_resend]) auto

lemma keeps_publish: "keeps_tables sv (fst (cd_publish read flags r sv))"
  unfolding cd_publish_def Let_def by (auto split: prod.split)

lemma keeps_send: "keeps_tables sv (fst (subscription_queue_send to_epics mk_dbr quota spec reading flags sub sv))"
proof -
  have dead: "deadband_update sub vs flags a = Inr (Some b) \<Longrightarrow> keeps_tables sv a \<Longrightarrow> keeps_tables sv b" for a b :: "('a, 'b, 'c) server" and vs
    by (auto simp: deadband_update_def Let_def bindE_eq_Inr split: option.splits)
  have sync: "sync_update sub u a = Some b \<Longrightarrow> keeps_tables sv a \<Longrightarrow> keeps_tables sv b" for a b :: "('a, 'b, 'c) server" and u
    by (auto simp: sync_update_def Let_def split: option.splits if_splits)
  have enq: "keeps_tables sv a \<Longrightarrow> keeps_tables sv (enqueue_update quota spec sub u a)" for a :: "('a, 'b, 'c) server" and u
    unfolding enqueue_update_def by (erule keeps_trans) (rule keeps_circuit, simp_all)
  have mark: "keeps_tables sv (map_circuit (sb_circuit sub) (mark_resend spec sub) sv)" by (rule keeps_circuit) simp_all
  show ?thesis
    by (auto simp: subscription_queue_send_def Let_def mark split: sum.split option.split intro!: enq elim!: sync dead)
qed

lemma keeps_send_all: "(\<And>p s. keeps_tables s (fst (f p s))) \<Longrightarrow> keeps_tables sv (fst (send_all f ps sv))"
proof (induction ps arbitrary: sv)
  case (Cons p ps)
  obtain sv' r where 1: "f p sv = (sv', r)" by (cases "f p sv")
  then show ?case using Cons.prems [of sv p] Cons.IH [of sv'] Cons.prems by (cases r) (auto intro: keeps_trans)
qed simp

lemma keeps_iteration: "keeps_tables sv (fst (subscription_queue_iteration to_epics mk_dbr quota sv))"
proof (cases "sv_queue sv")
  case (Cons item items)
  have drop: "keeps_tables sv s" if "keeps_tables (sv\<lparr>sv_queue := items\<rparr>) s" for s
    using that by (simp add: keeps_tables_def)
  show ?thesis
    using Cons by (auto simp: subscription_queue_iteration_def Let_def split: option.split list.split
        intro!: drop keeps_send_all keeps_send)
qed (simp add: subscription_queue_iteration_def)

lemma keeps_batch: "keeps_tables sv (fst (send_batch mk_filter k n sv))"
  by (auto simp: send_batch_def Let_def keeps_tables_def split: prod.split)

section \<open>Reachable states\<close>

text \<open>The steps of a server, in any order; \<open>admit\<close> restricts which subscriptions clients make.\<close>

inductive server_step ::
  "('e \<Rightarrow> read_type \<Rightarrow> ('r::linordered_field, 'm) reading result) \<Rightarrow> ('r Subscription \<Rightarrow> bool) \<Rightarrow> ('r, 'm, 'e) server \<Rightarrow> ('r, 'm, 'e) server \<Rightarrow> bool"
  for read admit where
  add: "vc_connected (sv_circuits sv k) \<Longrightarrow> sb_circuit sub = k \<Longrightarrow> admit sub
     \<Longrightarrow> server_step read admit sv (fst (add_subscription read k spec sub sv))"
| cull: "server_step read admit sv (fst (cull_subscriptions k func sv))"
| lost: "server_step read admit sv (fst (on_disconnect k sv))"
| off: "server_step read admit sv (turn_events_off k sv)"
| on: "server_step read admit sv (fst (turn_events_on read k sv))"
| written: "server_step read admit sv (map_entry r (store_value f) sv)"
| pre: "server_step read admit sv (map_entry r (pre_state_change state b) sv)"
| post: "server_step read admit sv (map_entry r (post_state_change state b) sv)"
| published: "server_step read admit sv (fst (cd_publish read flags r sv))"
| queued: "server_step read admit sv (fst (subscription_queue_iteration to_epics mk_dbr quota sv))"
| sent: "server_step read admit sv (fst (send_batch mk_filter k n sv))"

lemma keeps_data:
  "keeps_tables sv (map_entry r (store_value f) sv)" "keeps_tables sv (map_entry r (pre_state_change state b) sv)"
  "keeps_tables sv (map_entry r (post_state_change state b) sv)"
  by (rule keeps_entry; simp add: store_value_def pre_state_change_def post_state_change_def has_spec_def fun_eq_iff Let_def)+

lemmas keeps_steps = keeps_events_off keeps_events_on keeps_publish keeps_iteration keeps_batch keeps_data

lemma step_inv: "server_step read admit sv sv' \<Longrightarrow> subs_inv sv \<Longrightarrow> subs_inv sv'"
proof (induction rule: server_step.induct)
  case (cull sv k func)
  then show ?case using cull_subscriptions_ok [OF cull, of k func] by auto
next
  case (lost sv k)
  then show ?case using on_disconnect_ok [OF lost, of k] by auto
qed (auto intro: add_subscription_inv keeps_steps [THEN keeps_inv])

text \<open>A server without subscriptions.\<close>

definition fresh_server :: "('r, 'm, 'e) server \<Rightarrow> bool" where
  "fresh_server sv \<longleftrightarrow> sv_subscriptions sv = [] \<and> (\<forall>k. vc_subscriptions (sv_circuits sv k) = [])"

lemma fresh_inv: "fresh_server sv \<Longrightarrow> subs_inv sv"
  by (simp add: fresh_server_def subs_inv_def tables_agree_def all_registered_def specs.covers_def)

lemma reachable_inv: "(server_step read admit)\<^sup>*\<^sup>* sv sv' \<Longrightarrow> subs_inv sv \<Longrightarrow> subs_inv sv'"
  by (induction rule: rtranclp_induct) (auto intro: step_inv)

text \<open>A subscription that circuit \<open>k\<close> does not have and nobody makes does not appear.\<close>

definition lacks :: "int \<Rightarrow> nat \<Rightarrow> ('r, 'm, 'e) server \<Rightarrow> bool" where
  "lacks i k sv \<longleftrightarrow> (\<forall>spec. \<forall>s \<in> set (subs_of k spec sv). sb_id s \<noteq> i)"

lemma lacks_fewer: "lacks i k sv \<Longrightarrow> (\<And>spec. set (subs_of k spec sv') \<subseteq> set (subs_of k spec sv)) \<Longrightarrow> lacks i k sv'"
  unfolding lacks_def by blast

lemma keeps_lacks: "keeps_tables sv sv' \<Longrightarrow> lacks i k sv \<Longrightarrow> lacks i k sv'"
  by (simp add: keeps_tables_def lacks_def)

lemma step_without:
  assumes "server_step read (\<lambda>s. \<not> (sb_circuit s = k \<and> sb_id s = i)) sv sv'" and "subs_inv sv" and "lacks i k sv"
  shows "lacks i k sv'"
  using assms
proof (induction rule: server_step.induct)
  case (add sv j sub sp)
  have "subs_of k spec (fst (add_subscription read j sp sub sv)) = subs_of k spec sv @ (if j = k \<and> spec = sp then [sub] else [])" for spec
    by (cases "cd_subscribe read sp sub ((map_circuit j (\<lambda>vc. vc\<lparr>vc_subscriptions := tab_append sp sub (vc_subscriptions vc)\<rparr>) sv)
        \<lparr>sv_subscriptions := tab_append sp sub (sv_subscriptions sv)\<rparr>)")
      (simp add: add_subscription_def Let_def cd_subscribe_tables tab_append_def)
  with add show ?case by (auto simp: lacks_def split: if_splits)
next
  case (cull sv j func)
  then obtain sv' gone where c: "cull_subscriptions j func sv = (sv', Inr gone)"
    "\<forall>spec. mset (subs_of j spec sv') = mset (filter (\<lambda>s. \<not> func s) (subs_of j spec sv))"
    "\<forall>i. i \<noteq> j \<longrightarrow> sv_circuits sv' i = sv_circuits sv i"
    using cull_subscriptions_ok [of sv j func] by auto
  have "set (subs_of k spec sv') \<subseteq> set (subs_of k spec sv)" for spec
    using c(2,3) by (cases "j = k") (metis filter_is_subset set_mset_mset, simp)
  then have "lacks i k sv'" by (rule lacks_fewer [OF cull.prems(2)])
  then show ?case using c(1) by simp
next
  case (lost sv j)
  then have "set (subs_of k spec (fst (on_disconnect j sv))) \<subseteq> set (subs_of k spec sv)" for spec
    using on_disconnect_ok [of sv j] by (cases "j = k") (auto simp: subs_inv_def)
  then show ?case by (rule lacks_fewer [OF lost.prems(2)])
qed (auto intro: keeps_steps [THEN keeps_lacks])

lemma reachable_without:
  assumes "(server_step read (\<lambda>s. \<not> (sb_circuit s = k \<and> sb_id s = i)))\<^sup>*\<^sup>* sv sv'" and "subs_inv sv" and "lacks i k sv"
  shows "lacks i k sv'"
  using assms
proof (induction rule: rtranclp_induct)
  case (step b c)
  have "subs_inv b" using step(1) step.prems(1) by (rule reachable_inv)
  then show ?case using step_without [OF step(2)] step.IH step.prems by blast
qed

lemma batch_ids:
  assumes "wf_dict (vc_subscriptions (sv_circuits sv k))" and "send_batch mk_filter k n sv = (sv', ms, r)" and "m \<in> set ms"
  shows "\<exists>spec. \<exists>s \<in> set (subs_of k spec sv). sb_id s = msg_subscriptionid m"
proof -
  from assms(2,3) obtain p where p: "p \<in> set (table_pairs (vc_subscriptions (sv_circuits sv k)))" "sb_id (snd p) = msg_subscriptionid m"
    by (auto simp: send_batch_def Let_def split: prod.splits if_splits)
  then have "snd p \<in> set (listed (table_pairs (vc_subscriptions (sv_circuits sv k))) (fst p))" by (force simp: listed_def)
  with p(2) show ?thesis by (auto simp: listed_table [OF assms(1)])
qed

section \<open>Backlogs, snapshots and deadbands\<close>

lemma append_bounded_suffix: "append_bounded n x (drop (length xs - n) xs) = drop (length xs + 1 - n) (xs @ [x])"
  by (cases "n \<le> length xs") (auto simp: append_bounded_def Suc_diff_le)

lemma backlog_after:
  assumes "vc_queue (sv_circuits sv k) = []" and "unexpired_updates (sv_circuits sv k) = []" and "k = sb_circuit sub"
    and "length us \<le> quota"
  shows "sv_circuits (fold (enqueue_update quota spec sub) us sv) k =
      (sv_circuits sv k)\<lparr>vc_queue := us, unexpired_updates := (if us = [] then []
         else [(sb_id sub, drop (length us - max_subscription_backlog (sv_entries sv (sb_entry sub))) us)])\<rparr>
    \<and> sv_entries (fold (enqueue_update quota spec sub) us sv) = sv_entries sv
    \<and> last_sync_edge_update (fold (enqueue_update quota spec sub) us sv) = last_sync_edge_update sv"
  using assms(4)
proof (induction us rule: rev_induct)
  case Nil
  then show ?case using assms(1,2) by simp
next
  case (snoc u us)
  then show ?case
    using assms(1-3) append_bounded_suffix [of "max_subscription_backlog (sv_entries sv (sb_entry sub))" u us]
    by (cases "us = []") (auto simp: enqueue_update_def dd_value_Cons append_bounded_def)
qed

text \<open>The tracked values of a run of single readings that pass a deadband filter.\<close>

fun deadband_run :: "'r::linordered_field DeadbandFilter \<Rightarrow> int \<Rightarrow> 'r \<Rightarrow> 'r \<Rightarrow> int \<Rightarrow> 'r val option \<Rightarrow> 'r list \<Rightarrow> 'r list result" where
  "deadband_run f msk log_tol value_tol flags previous [] = Inr []"
| "deadband_run f msk log_tol value_tol flags previous (v # vs) =
     bindE (apply_deadband_filter previous [v] f msk log_tol value_tol flags) (\<lambda>r.
       case r of
         None \<Rightarrow> deadband_run f msk log_tol value_tol flags previous vs
       | Some tracked \<Rightarrow> bindE (deadband_run f msk log_tol value_tol flags (Some tracked) vs) (\<lambda>rest. Inr (v # rest)))"

lemma or_or_nonzero: "m AND flags \<noteq> 0 \<Longrightarrow> m AND (flags OR a) \<noteq> (0 :: int)"
  by (simp add: bit.conj_disj_distrib) (simp add: or_eq_0_iff)

lemma deadband_flags_on: "m AND flags \<noteq> 0 \<Longrightarrow> m AND deadband_flags log_tol value_tol diff flags \<noteq> 0"
  by (simp add: deadband_flags_def or_or_nonzero)

text \<open>The reference for absolute deadbands: a value passes if it is further than \<open>d\<close> from the last that passed.\<close>

fun beyond :: "'r::linordered_field \<Rightarrow> 'r \<Rightarrow> 'r list \<Rightarrow> 'r list" where
  "beyond d p [] = []"
| "beyond d p (y # ys) = (if d < \<bar>p - y\<bar> then y # beyond d y ys else beyond d p ys)"

lemma beyond_apart: "successively (\<lambda>x y. d < \<bar>x - y\<bar>) (p # beyond d p ys)"
  by (induction ys arbitrary: p) (auto simp: successively_Cons)

lemma deadband_run_beyond:
  assumes "db_m f \<noteq> Inl (lit ''rel'')" and "msk AND flags \<noteq> 0" and "previous = Scalar p \<or> previous = Array [p]"
  shows "deadband_run f msk log_tol value_tol flags (Some previous) ys = Inr (beyond (db_d f) p ys)"
  using assms
proof (induction ys arbitrary: previous p)
  case (Cons y ys)
  then show ?case
    using Cons.IH [of "Scalar y" y] Cons.IH [of previous p]
    by (auto simp: apply_deadband_filter_def deadband_flags_on [OF assms(2)])
qed simp

text \<open>A server, and its state after a client has subscribed on circuit 1.\<close>

definition no_filter :: "'r ChannelFilter" where
  "no_filter = \<lparr>cf_ts = None, cf_dbnd = None, cf_arr = None, cf_sync = None\<rparr>"

definition example_server :: "(rat, unit, int) server" where
  "example_server =
     \<lparr>sv_circuits = (\<lambda>_. \<lparr>vc_circuit = projr (VirtualCircuit_init SERVER (''10.0.0.7'', 999) None 13), vc_connected = True,
        client_hostname = None, client_username = None, vc_subscriptions = [], unexpired_updates = [],
        subscriptions_to_resend = [], vc_queue = [], events_on = True\<rparr>),
      sv_entries = (\<lambda>_. \<lparr>cd_data = 5, cd_queues = [], cd_content = [], cd_snapshots = [], fill_at_next_write = [],
        max_subscription_backlog = 2, value_atol = 0, log_atol = 0\<rparr>),
      sv_subscriptions = [], last_sync_edge_update = [], last_dead_band = [], sv_queue = [], sv_next = 0\<rparr>"

definition example_spec :: "rat SubscriptionSpec" where
  "example_spec = \<lparr>sp_entry = 0, sp_type = RT CT_DOUBLE, sp_mask = 5, sp_filter = no_filter\<rparr>"

definition example_sub :: "rat Subscription" where
  "example_sub = \<lparr>sb_mask = 5, sb_filter = no_filter, sb_circuit = 1, sb_channel = 0, sb_type = RT CT_DOUBLE, sb_count = 1,
     sb_id = 7, sb_entry = 0\<rparr>"

definition example_read :: "int \<Rightarrow> read_type \<Rightarrow> (rat, unit) reading result" where
  "example_read d t = Inr (Md_none, [of_int d])"

definition subscribed_server :: "(rat, unit, int) server" where
  "subscribed_server = fst (add_subscription example_read 1 example_spec example_sub example_server)"

lemma example_fresh: "fresh_server example_server"
  by (simp add: fresh_server_def example_server_def)

lemma example_reached: "(server_step example_read (\<lambda>_. True))\<^sup>*\<^sup>* example_server subscribed_server"
  unfolding subscribed_server_def
  by (rule r_into_rtranclp, rule server_step.add) (simp_all add: example_server_def example_sub_def)

lemma subscribed_subs:
  "context_subs example_spec subscribed_server = [example_sub]" "subs_of 1 example_spec subscribed_server = [example_sub]"
  by (simp_all add: subscribed_server_def add_subscription_def cd_subscribe_def example_read_def example_server_def tab_append_def
      Let_def set_specs_def map_circuit_def map_entry_def dd_value_Cons)

lemma example_fields: "sb_circuit example_sub = 1" "sb_id example_sub = 7" "sp_entry example_spec = 0"
  by (simp_all add: example_sub_def example_spec_def)

section \<open>Properties\<close>





text \<open>
  C17. After a subscription was cancelled its client hears no more of it. Whatever the server does from then on, whatever is still
  queued, no batch contains an update under that id until the client subscribes with it again.
\<close>

theorem cancelled_silent:
  assumes "fresh_server sv0" and "(server_step read (\<lambda>_. True))\<^sup>*\<^sup>* sv0 sv1"
    and "cull_subscriptions k (\<lambda>s. sb_id s = i) sv1 = (sv2, r)"
    and "(server_step read (\<lambda>s. \<not> (sb_circuit s = k \<and> sb_id s = i)))\<^sup>*\<^sup>* sv2 sv3"
    and "send_batch mk_filter k n sv3 = (sv4, ms, r')" and "m \<in> set ms"
  shows "msg_subscriptionid m \<noteq> i"
proof -
  have inv1: "subs_inv sv1" by (rule reachable_inv [OF assms(2) fresh_inv [OF assms(1)]])
  from cull_subscriptions_ok [OF this, of k "\<lambda>s. sb_id s = i"] assms(3)
  have inv2: "subs_inv sv2" and gone: "\<forall>spec. mset (subs_of k spec sv2) = mset (filter (\<lambda>s. sb_id s \<noteq> i) (subs_of k spec sv1))"
    by auto
  have "lacks i k sv2"
    using gone unfolding lacks_def by (metis (mono_tags, lifting) mem_Collect_eq set_filter set_mset_mset)
  then have none: "lacks i k sv3" by (rule reachable_without [OF assms(4) inv2])
  have "wf_dict (vc_subscriptions (sv_circuits sv3 k))"
    using reachable_inv [OF assms(4) inv2] by (simp add: subs_inv_def)
  from batch_ids [OF this assms(5,6)] none show ?thesis by (auto simp: lacks_def)
qed

theorem cancelled_silent_witness:
  "\<exists>sv2 r. cull_subscriptions 1 (\<lambda>s. sb_id s = 7) subscribed_server = (sv2, r)
     \<and> (\<forall>n sv4 ms r'. send_batch (\<lambda>_. Inr no_filter) 1 n sv2 = (sv4, ms, r') \<longrightarrow> 7 \<notin> set (map msg_subscriptionid ms))"
proof -
  obtain sv2 r where c: "cull_subscriptions 1 (\<lambda>s. sb_id s = 7) subscribed_server = (sv2, r)"
    by (cases "cull_subscriptions 1 (\<lambda>s. sb_id s = 7) subscribed_server")
  have "7 \<notin> set (map msg_subscriptionid ms)" if "send_batch (\<lambda>_. Inr no_filter) 1 n sv2 = (sv4, ms, r')" for n sv4 ms r'
    using cancelled_silent [OF example_fresh example_reached c rtranclp.rtrancl_refl that] by auto
  with c show ?thesis by blast
qed

text \<open>
  C18. A slow client gets the newest updates. If more updates of a subscription are queued than its backlog holds, the
  next batch has the last ones that it holds, in their order, and none of the older ones.
\<close>

theorem latest_news:
  assumes "vc_queue (sv_circuits sv k) = []" and "unexpired_updates (sv_circuits sv k) = []" and "last_sync_edge_update sv = []"
    and "vc_connected (sv_circuits sv k)" and "k = sb_circuit sub" and "sub \<in> set (subs_of k spec sv)"
    and "wf_dict (vc_subscriptions (sv_circuits sv k))" and "length us \<le> quota" and "distinct (map up_id us)"
    and "\<forall>u \<in> set us. msg_subscriptionid (up_command u) = sb_id sub"
    and "send_batch mk_filter k (length us) (fold (enqueue_update quota spec sub) us sv) = (sv', ms, r)"
  shows "ms = map up_command (drop (length us - max_subscription_backlog (sv_entries sv (sb_entry sub))) us)"
proof -
  let ?n = "length us - max_subscription_backlog (sv_entries sv (sb_entry sub))" and ?sv = "fold (enqueue_update quota spec sub) us sv"
  have after: "sv_circuits ?sv k = (sv_circuits sv k)\<lparr>vc_queue := us, unexpired_updates := (if us = [] then [] else [(sb_id sub, drop ?n us)])\<rparr>"
    "last_sync_edge_update ?sv = []"
    using backlog_after [OF assms(1,2,5,8), of spec] assms(3) by auto
  have kept: "kept_alive k ?sv = map up_id (drop ?n us)" by (simp add: kept_alive_def after)
  have split: "us = take ?n us @ drop ?n us" by simp
  have "filter (\<lambda>u. up_id u \<in> set (map up_id (drop ?n us))) us = drop ?n us"
  proof -
    have "set (map up_id (take ?n us)) \<inter> set (map up_id (drop ?n us)) = {}"
      using assms(9) by (metis append_take_drop_id distinct_append map_append)
    then have "filter (\<lambda>u. up_id u \<in> set (map up_id (drop ?n us))) (take ?n us) = []"
      by (auto simp: filter_empty_conv)
    moreover have "filter (\<lambda>u. up_id u \<in> set (map up_id (drop ?n us))) (drop ?n us) = drop ?n us"
      by (simp add: filter_id_conv)
    ultimately show ?thesis by (subst (2) split) (simp only: filter_append append_Nil)
  qed
  moreover have "sub \<in> set (listed (table_pairs (vc_subscriptions (sv_circuits sv k))) spec)"
    using assms(6) by (simp add: listed_table [OF assms(7)])
  then have id: "sb_id sub \<in> (sb_id \<circ> snd) ` set (table_pairs (vc_subscriptions (sv_circuits sv k)))"
    by (auto simp: listed_def)
  moreover have "filter (\<lambda>m. msg_subscriptionid m \<in> (sb_id \<circ> snd) ` set (table_pairs (vc_subscriptions (sv_circuits sv k))))
      (map up_command (drop ?n us)) = map up_command (drop ?n us)"
  proof -
    have "\<forall>m \<in> set (map up_command (drop ?n us)). msg_subscriptionid m = sb_id sub"
      using assms(10) by (auto dest: in_set_dropD)
    with id show ?thesis unfolding filter_id_conv by metis
  qed
  ultimately show ?thesis
    using assms(4,11) by (simp add: send_batch_def Let_def kept after split: prod.splits)
qed

definition example_update :: "nat \<Rightarrow> rat update" where
  "example_update i = \<lparr>up_id = i, up_command = from_components EventAddResponse (EventAddResponseHeader 0 6 1 (int i) 7) [] None,
     up_spec = example_spec, up_sub = example_sub\<rparr>"

theorem latest_news_witness:
  "\<exists>sv' r. send_batch (\<lambda>_. Inr no_filter) 1 3 (fold (enqueue_update 100 example_spec example_sub) (map example_update [1, 2, 3]) subscribed_server)
     = (sv', map (up_command \<circ> example_update) [2, 3], r)"
proof -
  let ?us = "map example_update [1, 2, 3]"
  have s: "vc_queue (sv_circuits subscribed_server 1) = []" "unexpired_updates (sv_circuits subscribed_server 1) = []"
    "last_sync_edge_update subscribed_server = []" "vc_connected (sv_circuits subscribed_server 1)"
    "wf_dict (vc_subscriptions (sv_circuits subscribed_server 1))" "max_subscription_backlog (sv_entries subscribed_server 0) = 2"
    by (simp_all add: subscribed_server_def add_subscription_def cd_subscribe_def example_read_def example_server_def tab_append_def
        Let_def set_specs_def map_circuit_def map_entry_def wf_dict_def)
  have u: "\<forall>u \<in> set ?us. msg_subscriptionid (up_command u) = sb_id example_sub"
    by (simp add: example_update_def example_fields msg_subscriptionid_def from_components_def EventAddResponseHeader_def)
  have d: "distinct (map up_id ?us)" "example_sub \<in> set (subs_of 1 example_spec subscribed_server)" "length ?us = 3"
    by (simp_all add: example_update_def subscribed_subs del: One_nat_def)
  obtain sv' ms r where b: "send_batch (\<lambda>_. Inr no_filter) 1 (length ?us)
      (fold (enqueue_update 100 example_spec example_sub) ?us subscribed_server) = (sv', ms, r)"
    by (cases "send_batch (\<lambda>_. Inr no_filter) 1 (length ?us)
      (fold (enqueue_update 100 example_spec example_sub) ?us subscribed_server)") auto
  from latest_news [OF s(1-4) example_fields(1) [symmetric] d(2) s(5) _ d(1) u b]
  have "ms = map up_command (drop (3 - max_subscription_backlog (sv_entries subscribed_server (sb_entry example_sub))) ?us)"
    unfolding d(3) by simp
  moreover have "sb_entry example_sub = 0" by (simp add: example_sub_def)
  ultimately have "ms = map (up_command \<circ> example_update) [2, 3]" by (simp only: s(6)) simp
  then show ?thesis using b unfolding d(3) by blast
qed

text \<open>
  C36. The six modes of the \<^verbatim>\<open>sync\<close> filter. After a state became true and values were written, the modes \<^verbatim>\<open>before\<close>, \<^verbatim>\<open>while\<close> and
  \<^verbatim>\<open>after\<close> deliver and the others do not; after it became false, \<^verbatim>\<open>last\<close>, \<^verbatim>\<open>unless\<close> and \<^verbatim>\<open>first\<close>. The live modes give the
  current value. The one-shot modes \<^verbatim>\<open>after\<close> and \<^verbatim>\<open>first\<close> give the value from before the first write, since the
  snapshot is taken ahead of the assignment, and so the same as \<^verbatim>\<open>before\<close> and \<^verbatim>\<open>last\<close>.
\<close>

theorem sync_snapshots:
  assumes "fill_at_next_write cd = []" and "fs \<noteq> []"
    and "cd' = fold store_value fs (post_state_change st b (pre_state_change st b cd))"
  shows "channel_data cd' (Some \<lparr>sync_m = lit m, sync_s = st\<rparr>) =
    (if m \<in> (if b then {''before'', ''after''} else {''last'', ''first''}) then Some (cd_data cd)
     else if m = (if b then ''while'' else ''unless'') then Some (fold (\<lambda>f. f) fs (cd_data cd))
     else None)"
proof -
  have lit: "lit x = lit y \<longleftrightarrow> x = y" for x y
    by (simp add: lit_def inj_map_eq_map inj_def)
  obtain g gs where fs: "fs = g # gs" using assms(2) by (cases fs) auto
  have later: "fill_at_next_write c = [] \<Longrightarrow> fold store_value hs c = c\<lparr>cd_data := fold (\<lambda>f. f) hs (cd_data c)\<rparr>"
    for hs and c :: "('a, 'b, 'c) chandata"
    by (induction hs arbitrary: c) (simp_all add: store_value_def)
  show ?thesis
    using assms(1) unfolding assms(3) fs
    by (simp add: later store_value_def post_state_change_def pre_state_change_def channel_data_def dict_simps lit)
qed

theorem sync_snapshots_witness:
  "let cd = \<lparr>cd_data = 5, cd_queues = [], cd_content = [], cd_snapshots = [], fill_at_next_write = [],
        max_subscription_backlog = 2, value_atol = 0, log_atol = 0\<rparr> :: (rat, unit, int) chandata;
       cd' = fold store_value [\<lambda>_. 6, \<lambda>_. 7] (post_state_change [1] True (pre_state_change [1] True cd))
   in channel_data cd' (Some \<lparr>sync_m = lit ''after'', sync_s = [1]\<rparr>) = Some 5
     \<and> channel_data cd' (Some \<lparr>sync_m = lit ''while'', sync_s = [1]\<rparr>) = Some 7"
  using sync_snapshots [OF _ _ refl, of "\<lparr>cd_data = 5, cd_queues = [], cd_content = [], cd_snapshots = [], fill_at_next_write = [],
        max_subscription_backlog = 2, value_atol = 0, log_atol = 0\<rparr> :: (rat, unit, int) chandata" "[\<lambda>_. 6, \<lambda>_. 7]" "[1]" True "''after''"]
    sync_snapshots [OF _ _ refl, of "\<lparr>cd_data = 5, cd_queues = [], cd_content = [], cd_snapshots = [], fill_at_next_write = [],
        max_subscription_backlog = 2, value_atol = 0, log_atol = 0\<rparr> :: (rat, unit, int) chandata" "[\<lambda>_. 6, \<lambda>_. 7]" "[1]" True "''while''"]
  by (simp only: Let_def chandata.simps fold_simps list.simps) (simp del: fold.simps)



end
