(* ===== verification/CA_Broadcaster.thy ===== *)
theory CA_Broadcaster
  imports CA_Roundtrip CA_Circuit
begin

text \<open>
  \<^verbatim>\<open>Broadcaster\<close> of \<^verbatim>\<open>caproto/_broadcaster.py\<close>, the companion of a UDP socket: it packs commands into a datagram, parses
  datagrams, and remembers whether a repeater has confirmed its registration.
\<close>

section \<open>State and operations\<close>

record broadcaster =
  bc_role :: Role
  server_addresses :: "address list"
  client_address :: "address option"
  bc_protocol_version :: int
  bc_registered :: bool

definition Broadcaster_init :: "Role \<Rightarrow> int \<Rightarrow> broadcaster" where
  "Broadcaster_init role version =
     \<lparr>bc_role = role, server_addresses = [], client_address = None, bc_protocol_version = version, bc_registered = False\<rparr>"

definition our_addresses :: "broadcaster \<Rightarrow> address option list" where
  "our_addresses b = (case bc_role b of CLIENT \<Rightarrow> [client_address b] | SERVER \<Rightarrow> map Some (server_addresses b))"

definition their_addresses :: "broadcaster \<Rightarrow> address option list" where
  "their_addresses b = (case other_role (bc_role b) of CLIENT \<Rightarrow> [client_address b] | SERVER \<Rightarrow> map Some (server_addresses b))"

text \<open>\<^verbatim>\<open>Broadcaster._process_command\<close>, whose argument \<^verbatim>\<open>role\<close> is not used.\<close>

definition bc_process_command :: "message \<Rightarrow> broadcaster \<Rightarrow> broadcaster" where
  "bc_process_command m b = (if msg_class m = RepeaterConfirmResponse then b\<lparr>bc_registered := True\<rparr> else b)"

definition bc_send :: "message list \<Rightarrow> broadcaster \<Rightarrow> broadcaster \<times> bytes" where
  "bc_send commands b = (fold bc_process_command commands b, concat (map message_bytes commands))"

text \<open>\<^verbatim>\<open>Broadcaster.recv\<close>: any exception of the parser becomes \<^verbatim>\<open>RemoteProtocolError\<close>.\<close>

definition bc_recv :: "bytes \<Rightarrow> address \<Rightarrow> broadcaster \<Rightarrow> message list result" where
  "bc_recv byteslike address b =
     (case read_datagram byteslike address (other_role (bc_role b)) of
        Inl e \<Rightarrow> Inl RemoteProtocolError | Inr commands \<Rightarrow> Inr commands)"

definition bc_process_commands :: "message list \<Rightarrow> broadcaster \<Rightarrow> broadcaster" where
  "bc_process_commands commands b = fold bc_process_command commands b"

definition bc_register :: "string option \<Rightarrow> message result" where
  "bc_register ip = RepeaterRegisterRequest_init (case ip of None \<Rightarrow> ''0.0.0.0'' | Some a \<Rightarrow> a)"

definition bc_disconnect :: "broadcaster \<Rightarrow> broadcaster" where
  "bc_disconnect b = b\<lparr>bc_registered := False\<rparr>"

section \<open>Lemmas\<close>

lemma bc_processed [simp]:
  "bc_role (fold bc_process_command ms b) = bc_role b"
  "bc_registered (fold bc_process_command ms b) \<longleftrightarrow> bc_registered b \<or> (\<exists>m \<in> set ms. msg_class m = RepeaterConfirmResponse)"
  by (induction ms arbitrary: b) (auto simp: bc_process_command_def)

text \<open>Messages that travel in a datagram: built by the constructors, with a plain header, by one role.\<close>

definition datagram_ok :: "Role \<Rightarrow> message list \<Rightarrow> bool" where
  "datagram_ok role ms \<longleftrightarrow>
     (\<forall>m \<in> set ms. constructed m \<and> (\<exists>h. msg_header m = Plain h) \<and> sender_role (msg_class m) = role)"

lemma bc_exchange:
  assumes "datagram_ok role ms" and "bc_role b' = other_role role"
  shows "bc_recv (snd (bc_send ms b)) address b' = Inr (map (datagram_message address) ms)"
proof -
  have "other_role (bc_role b') = role" using assms(2) by (cases role) simp_all
  then show ?thesis
    using assms(1) read_datagram_constructed [of ms role address]
    by (simp add: bc_recv_def bc_send_def datagram_ok_def)
qed

end
