(* ===== verification/CA_Pvdb.thy ===== *)
theory CA_Pvdb
  imports CA_Filters CA_Broadcaster
begin

text \<open>
  The database of a server and its answers to searches, from \<^verbatim>\<open>Context\<close> in \<^verbatim>\<open>caproto/server/common.py\<close>: a dictionary from
  names to channel data objects, in which the fields of records are entered when they are first asked for. The objects
  are referred to by number; what the lookup reads of them is their data type and their table of fields.
\<close>

section \<open>State\<close>

text \<open>
  \<open>ent_fields\<close> is \<open>None\<close> for objects without \<^verbatim>\<open>get_field\<close>: that is a method of \<^verbatim>\<open>PvpropertyData\<close>
  (\<^verbatim>\<open>server/server.py\<close>), not of \<^verbatim>\<open>ChannelData\<close>.
\<close>

record entry =
  ent_data_type :: ChannelType
  ent_max_length :: int
  ent_long_string_max_length :: int
  ent_fields :: "(pystr, ref) dict option"

record database =
  pvdb :: "(pystr, ref) dict"
  db_objects :: "ref \<Rightarrow> entry"
  db_port :: int
  db_broadcaster :: broadcaster
  ignore_addresses :: "string list"
  udp_socks :: "nat list"

section \<open>Lookup\<close>

definition get_field :: "('x database_scheme) \<Rightarrow> ref \<Rightarrow> pystr option \<Rightarrow> ref result" where
  "get_field c r field =
     (case ent_fields (db_objects c r) of
        None \<Rightarrow> Inl AttributeError
      | Some fs \<Rightarrow>
          (case field of
             None \<Rightarrow> Inr r
           | Some f \<Rightarrow> if f = [] \<or> f = lit ''VAL'' then Inr r else getitem fs f))"

text \<open>
  \<^verbatim>\<open>RecordModifiers.long_string in (mods or {})\<close>, where \<^verbatim>\<open>mods\<close> is the pair of a flag and a filter text: the flag must be
  equal to \<^verbatim>\<open>long_string\<close>, so that the test fails for a name with a filter.
\<close>

definition long_string_in :: "RecordModifier option \<Rightarrow> bool" where
  "long_string_in mods =
     (case mods of None \<Rightarrow> False | Some m \<Rightarrow> rm_modifiers m = \<lparr>long_string = True, filtered = False\<rparr>)"

text \<open>The object of a name that is not in the dictionary itself, before the modifiers are looked at.\<close>

definition find_entry :: "('x database_scheme) \<Rightarrow> RecordAndField \<Rightarrow> ref result" where
  "find_entry c p =
     (case dget (pvdb c) (record_dot_field p) of
        Some r \<Rightarrow> Inr r
      | None \<Rightarrow>
          (case dget (pvdb c) (rf_record p) of
             None \<Rightarrow> Inl CaprotoKeyError
           | Some r \<Rightarrow>
               (case get_field c r (rf_field p) of Inl _ \<Rightarrow> Inl CaprotoKeyError | Inr r' \<Rightarrow> Inr r')))"

text \<open>\<^verbatim>\<open>Context.__getitem__\<close>.\<close>

definition context_getitem :: "pystr \<Rightarrow> ('x database_scheme) \<Rightarrow> ('x database_scheme) \<times> ref result" where
  "context_getitem pvname c =
     (case dget (pvdb c) pvname of
        Some r \<Rightarrow> (c, Inr r)
      | None \<Rightarrow>
          let p = parse_record_field pvname
          in if (rf_field p = None \<or> rf_field p = Some []) \<and> rf_modifiers p = None
             then (c, getitem (pvdb c) (rf_record p))
             else case find_entry c p of
               Inl e \<Rightarrow> (c, Inl e)
             | Inr r \<Rightarrow>
                 if long_string_in (rf_modifiers p) \<and> ent_data_type (db_objects c r) \<notin> {CT_STRING, CT_CHAR}
                 then (c, Inl CaprotoKeyError)
                 else (c\<lparr>pvdb := dset (record_dot_field p) r (pvdb c)\<rparr>, Inr r))"

section \<open>Searches\<close>

text \<open>The objects a Python list of addresses may hold: a pair of host and port is never equal to a text.\<close>

datatype py_address = Py_text string | Py_pair address

text \<open>
  The loop of \<^verbatim>\<open>_broadcaster_queue_iteration\<close> over the commands of a datagram: the replies and whether a version was
  requested. Looking up a name may enter it in the dictionary; \<^verbatim>\<open>except KeyError\<close> also catches \<^verbatim>\<open>CaprotoKeyError\<close>, and the
  lookup raises nothing else.
\<close>

fun search_loop ::
  "message list \<Rightarrow> message list \<Rightarrow> bool \<Rightarrow> ('x database_scheme) \<Rightarrow> ('x database_scheme) \<times> (message list \<times> bool) result" where
  "search_loop [] replies version_requested c = (c, Inr (replies, version_requested))"
| "search_loop (m # ms) replies version_requested c =
     (if msg_class m = VersionRequest then search_loop ms replies True c
      else if msg_class m = SearchRequest then
        (case msg_name m of
           Inl e \<Rightarrow> (c, Inl e)
         | Inr pv_name \<Rightarrow>
             (case context_getitem pv_name c of
                (c', Inl e) \<Rightarrow> search_loop ms replies version_requested c'
              | (c', Inr _) \<Rightarrow>
                  (case SearchResponse_init (db_port c) None (msg_cid m) DEFAULT_PROTOCOL_VERSION of
                     Inl e \<Rightarrow> (c', Inl e)
                   | Inr reply \<Rightarrow> search_loop ms (replies @ [reply]) version_requested c')))
      else search_loop ms replies version_requested c)"

text \<open>
  Sending a datagram on every socket; \<open>sendto s bytes addr\<close> tells whether the system call succeeds. The result has the
  sockets the datagram went out on.
\<close>

fun send_datagram :: "(nat \<Rightarrow> bytes \<Rightarrow> address \<Rightarrow> bool) \<Rightarrow> bytes \<Rightarrow> address \<Rightarrow> nat list \<Rightarrow> nat list \<times> unit result" where
  "send_datagram sendto bytes addr [] = ([], Inr ())"
| "send_datagram sendto bytes addr (s # ss) =
     (if sendto s bytes addr
      then (let (sent, r) = send_datagram sendto bytes addr ss in (s # sent, r))
      else ([], Inl CaprotoNetworkError))"

text \<open>The result: the state, what went out (sockets, bytes and destination) and how the iteration ended.\<close>

definition broadcaster_queue_iteration ::
  "(nat \<Rightarrow> bytes \<Rightarrow> address \<Rightarrow> bool) \<Rightarrow> address \<Rightarrow> message list \<Rightarrow> ('x database_scheme)
     \<Rightarrow> ('x database_scheme) \<times> (nat list \<times> bytes \<times> address) option \<times> unit result" where
  "broadcaster_queue_iteration sendto addr commands c =
     (let c1 = c\<lparr>db_broadcaster := bc_process_commands commands (db_broadcaster c)\<rparr>
      in if Py_pair addr \<in> set (map Py_text (ignore_addresses c)) then (c1, None, Inr ())
         else case search_loop commands [] False c1 of
           (c2, Inl e) \<Rightarrow> (c2, None, Inl e)
         | (c2, Inr (replies, version_requested)) \<Rightarrow>
             if replies = [] then (c2, None, Inr ())
             else case (if version_requested then bindE (VersionResponse_init 13) (\<lambda>v. Inr (v # replies)) else Inr replies) of
               Inl e \<Rightarrow> (c2, None, Inl e)
             | Inr ms \<Rightarrow>
                 let (b, bytes) = bc_send ms (db_broadcaster c2);
                     (sent, r) = send_datagram sendto bytes addr (udp_socks c2)
                 in (c2\<lparr>db_broadcaster := b\<rparr>, Some (sent, bytes, addr), r))"

text \<open>
  A datagram arrives: \<^verbatim>\<open>_broadcaster_recv_datagram\<close> and the turn of \<^verbatim>\<open>broadcaster_queue_loop\<close> that takes it from the queue. A
  datagram that does not parse is dropped, and the loop logs every exception.
\<close>

definition recv_datagram ::
  "(nat \<Rightarrow> bytes \<Rightarrow> address \<Rightarrow> bool) \<Rightarrow> bytes \<Rightarrow> address \<Rightarrow> ('x database_scheme)
     \<Rightarrow> ('x database_scheme) \<times> (nat list \<times> bytes \<times> address) option" where
  "recv_datagram sendto bytes_received addr c =
     (case bc_recv bytes_received addr (db_broadcaster c) of
        Inl e \<Rightarrow> (c, None)
      | Inr commands \<Rightarrow> (case broadcaster_queue_iteration sendto addr commands c of (c', out, _) \<Rightarrow> (c', out)))"

section \<open>Lemmas\<close>

lemma split1_no: "c \<in> set xs \<Longrightarrow> c \<notin> set (fst (split1 c xs))"
  by (auto simp: split1_def dest: set_takeWhileD)

lemma record_no_dot: "chr_dot \<notin> set (rf_record (parse_record_field pvname))"
  using split1_no [of chr_dot pvname]
  by (auto simp: parse_record_field_def mk_record_field_def Let_def split: prod.splits)

lemma record_dot_field_eq:
  "record_dot_field (parse_record_field pvname) =
     (let p = parse_record_field pvname
      in case rf_field p of None \<Rightarrow> rf_record p | Some f \<Rightarrow> if f = [] then rf_record p else rf_record p @ chr_dot # f)"
  by (auto simp: parse_record_field_def mk_record_field_def Let_def split: prod.splits)

text \<open>Field names without the characters that mark modifiers, as the record fields of EPICS have them.\<close>

definition plain_field :: "pystr \<Rightarrow> bool" where
  "plain_field f \<longleftrightarrow> f \<noteq> [] \<and> chr_brace \<notin> set f \<and> chr_bra \<notin> set f \<and> chr_dollar \<notin> set f"

definition plain_fields :: "('x database_scheme) \<Rightarrow> bool" where
  "plain_fields c \<longleftrightarrow> (\<forall>r fs f v. ent_fields (db_objects c r) = Some fs \<longrightarrow> dget fs f = Some v \<longrightarrow> plain_field f)"

lemma parse_plain:
  assumes "chr_dot \<notin> set rec" and "plain_field f"
  shows "parse_record_field (rec @ chr_dot # f) =
    \<lparr>record_dot_field = rec @ chr_dot # f, rf_record = rec, rf_field = Some f, rf_modifiers = None\<rparr>"
proof -
  have f: "f \<noteq> []" "chr_brace \<notin> set f" "chr_dollar \<notin> set f" using assms(2) by (simp_all add: plain_field_def)
  have "hd f \<noteq> chr_brace" "last f \<noteq> chr_dollar" using f hd_in_set [of f] last_in_set [of f] by metis+
  then have "hd f \<noteq> chr_brace" "\<not> ends_with f [chr_dollar]" using ends_with_single [OF f(1)] by simp_all
  then show ?thesis
    using assms by (auto simp: parse_record_field_dot plain_field_def mk_record_field_def)
qed

lemma get_field_plain:
  assumes "get_field c r (Some f) = Inr r'" and "f \<noteq> []" and "plain_fields c"
  shows "plain_field f"
proof (cases "f = lit ''VAL''")
  case True
  then show ?thesis by (simp add: plain_field_def lit_def)
next
  case False
  with assms obtain fs where "ent_fields (db_objects c r) = Some fs" "dget fs f = Some r'"
    by (auto simp: get_field_def getitem_def split: option.splits)
  with assms(3) show ?thesis by (auto simp: plain_fields_def)
qed

text \<open>The first dot of a name separates record and field.\<close>

lemma dot_unique: "chr_dot \<notin> set a \<Longrightarrow> chr_dot \<notin> set b \<Longrightarrow> a @ chr_dot # f = b @ chr_dot # g \<longleftrightarrow> a = b \<and> f = g"
  by (metis split1_append prod.inject)

lemma find_entry_update [simp]:
  "get_field (c\<lparr>pvdb := d\<rparr>) r fld = get_field c r fld"
  "get_field (c\<lparr>db_broadcaster := b\<rparr>) r fld = get_field c r fld"
  "find_entry (c\<lparr>db_broadcaster := b\<rparr>) p = find_entry c p"
  by (simp_all add: get_field_def find_entry_def cong: option.case_cong)

lemma find_entry_cong: "dget d = dget (pvdb c) \<Longrightarrow> find_entry (c\<lparr>pvdb := d\<rparr>) p = find_entry c p"
  by (simp add: find_entry_def cong: option.case_cong)

lemma lookup_cong: "dget d = dget (pvdb c) \<Longrightarrow> snd (context_getitem q (c\<lparr>pvdb := d\<rparr>)) = snd (context_getitem q c)"
  by (simp add: context_getitem_def find_entry_cong getitem_def Let_def split: option.split sum.split)

lemma getitem_state:
  "fst (context_getitem p c) = c
    \<or> (\<exists>r. find_entry c (parse_record_field p) = Inr r
         \<and> fst (context_getitem p c) = c\<lparr>pvdb := dset (record_dot_field (parse_record_field p)) r (pvdb c)\<rparr>)"
  by (auto simp: context_getitem_def Let_def split: option.split sum.split)

text \<open>A name that was found through its record, and is then entered, is a record and a plain field.\<close>

lemma found_by_record:
  assumes "find_entry c (parse_record_field p) = Inr r" and "plain_fields c"
    and "dget (pvdb c) (record_dot_field (parse_record_field p)) = None"
  obtains rec f r0 where "record_dot_field (parse_record_field p) = rec @ chr_dot # f" "chr_dot \<notin> set rec" "plain_field f"
    "dget (pvdb c) rec = Some r0" "get_field c r0 (Some f) = Inr r"
proof -
  let ?p = "parse_record_field p"
  from assms(1,3) obtain r0 where r0: "dget (pvdb c) (rf_record ?p) = Some r0" "get_field c r0 (rf_field ?p) = Inr r"
    by (auto simp: find_entry_def split: option.splits sum.splits)
  have "record_dot_field ?p \<noteq> rf_record ?p" using r0(1) assms(3) by auto
  with record_dot_field_eq [of p] obtain f where f: "rf_field ?p = Some f" "f \<noteq> []" "record_dot_field ?p = rf_record ?p @ chr_dot # f"
    by (auto simp: Let_def split: option.splits if_splits)
  with r0 get_field_plain [of c r0 f r] assms(2) record_no_dot [of p] show ?thesis
    by (intro that [of "rf_record ?p" f r0]) auto
qed

lemma cached_lookup:
  assumes "find_entry c (parse_record_field p) = Inr r" and "plain_fields c"
  shows "snd (context_getitem q (c\<lparr>pvdb := dset (record_dot_field (parse_record_field p)) r (pvdb c)\<rparr>)) = snd (context_getitem q c)"
    (is "snd (context_getitem q ?c) = _")
proof (cases "dget (pvdb c) (record_dot_field (parse_record_field p))")
  case (Some r')
  then have "r' = r" using assms(1) by (simp add: find_entry_def)
  then show ?thesis using Some by (intro lookup_cong) (auto simp: dict_simps)
next
  case None
  then obtain rec f r0 where n: "record_dot_field (parse_record_field p) = rec @ chr_dot # f" "chr_dot \<notin> set rec"
    "plain_field f" "dget (pvdb c) rec = Some r0" "get_field c r0 (Some f) = Inr r"
    by (rule found_by_record [OF assms])
  let ?q = "parse_record_field q"
  have rec: "rf_record ?q \<noteq> rec @ chr_dot # f" using record_no_dot [of q] by auto
  have find: "find_entry ?c ?q = find_entry c ?q"
  proof (cases "record_dot_field ?q = rec @ chr_dot # f")
    case True
    then have "rf_record ?q = rec \<and> rf_field ?q = Some f"
      using record_dot_field_eq [of q] rec record_no_dot [of q] n(2)
      by (auto simp: Let_def dot_unique split: option.splits if_splits)
    then show ?thesis using True n None by (simp add: find_entry_def dict_simps)
  next
    case False
    then show ?thesis using rec by (simp add: find_entry_def dict_simps n(1) cong: option.case_cong)
  qed
  show ?thesis
  proof (cases "q = rec @ chr_dot # f")
    case True
    have "find_entry c ?q = Inr r" using True n None by (simp add: parse_plain find_entry_def)
    then show ?thesis
      using True n None by (simp add: context_getitem_def dict_simps parse_plain plain_field_def long_string_in_def)
  next
    case False
    then show ?thesis
      using rec find by (simp add: context_getitem_def dict_simps n(1) getitem_def Let_def split: option.split sum.split)
  qed
qed

lemma lookup_keeps: "plain_fields c \<Longrightarrow> snd (context_getitem q (fst (context_getitem p c))) = snd (context_getitem q c)"
  using getitem_state [of p c] cached_lookup [of c p] by auto

text \<open>
  Requests that a datagram can carry: \<open>m\<close> searches for a name, in ASCII and without NUL, under a channel id, and has a
  plain header.
\<close>

definition searches_for :: "pystr \<times> int \<Rightarrow> message \<Rightarrow> bool" where
  "searches_for q m \<longleftrightarrow>
     SearchRequest_init (Str (fst q)) (snd q) DEFAULT_PROTOCOL_VERSION NO_REPLY = Inr m
     \<and> (\<forall>ch \<in> set (fst q). 0 < ch \<and> ch < 128) \<and> 0 \<le> snd q \<and> snd q < 2 ^ 32 \<and> (\<exists>h. msg_header m = Plain h)"

lemma searches_for_received:
  assumes "searches_for q m"
  shows "constructed m" "msg_class m = SearchRequest"
    and "msg_class (datagram_message a m) = SearchRequest" "msg_name (datagram_message a m) = Inr (fst q)"
      "msg_cid (datagram_message a m) = snd q"
proof -
  from assms have init: "SearchRequest_init (Str (fst q)) (snd q) DEFAULT_PROTOCOL_VERSION NO_REPLY = Inr m"
    by (simp add: searches_for_def)
  then show "constructed m" by (rule constructed.intros)
  from init obtain n p where p: "padded_string_payload (Str (fst q)) = Inr (n, p)"
    and m: "Message_init SearchRequest (SearchRequestHeader (int n) NO_REPLY DEFAULT_PROTOCOL_VERSION (snd q)) [[], p] = Inr m"
    by (auto simp: SearchRequest_init_def bindE_eq_Inr split: if_splits)
  note m = Message_init_Inr(1) [OF m]
  have "0 \<notin> set (fst q)" "\<forall>ch \<in> set (fst q). ch < 128" using assms by (auto simp: searches_for_def)
  with name_decoded [OF p] have "latin1_decode (rstrip0 p) = fst q" by simp
  then show "msg_class m = SearchRequest" "msg_class (datagram_message a m) = SearchRequest"
    "msg_name (datagram_message a m) = Inr (fst q)" "msg_cid (datagram_message a m) = snd q"
    using m assms
    by (auto simp: from_components_def datagram_message_def received_def msg_name_def msg_cid_def SearchRequestHeader_def
        searches_for_def)
qed

lemma search_reply:
  assumes "0 \<le> port" "port < 2 ^ 16" "0 \<le> cid" "cid < 2 ^ 32"
  obtains m where "SearchResponse_init port None cid DEFAULT_PROTOCOL_VERSION = Inr m" "constructed m"
    "msg_class m = SearchResponse" "\<exists>h. msg_header m = Plain h" "msg_cid (datagram_message a m) = cid"
    "extract_address (datagram_message a m) = Inr (fst a, port)"
proof -
  have any: "ipv4_to_int32 ''255.255.255.255'' = Inr 0xffffffff"
    by (simp add: ipv4_to_int32_def inet_pton_def parse_octet_def is_digit_def digits_value_def nat_of_be_def un_be32_def)
  define m where "m = from_components SearchResponse (SearchResponseHeader port 0xffffffff cid)
    [ljust0 8 (be16 (word_of_int DEFAULT_PROTOCOL_VERSION))] None"
  have init: "SearchResponse_init port None cid DEFAULT_PROTOCOL_VERSION = Inr m"
    by (simp add: SearchResponse_init_def any Message_init_def Let_def validate_def validate_default_def m_def
        from_components_def SearchResponseHeader_def)
  have plain: "\<exists>h. msg_header m = Plain h"
    by (simp add: m_def from_components_def SearchResponseHeader_def MessageHeader_def)
  show ?thesis
    by (rule that [OF init constructed.intros(4) [OF init] _ plain])
      (use assms in \<open>simp_all add: m_def from_components_def datagram_message_def received_def msg_cid_def
        SearchResponseHeader_def extract_address_def SearchResponse_port_def HAS_PAYLOAD_def\<close>)
qed

lemma getitem_keeps [simp]:
  "db_objects (fst (context_getitem p c)) = db_objects c" "db_port (fst (context_getitem p c)) = db_port c"
  "db_broadcaster (fst (context_getitem p c)) = db_broadcaster c" "udp_socks (fst (context_getitem p c)) = udp_socks c"
  using getitem_state [of p c] by auto

lemma getitem_broadcaster [simp]: "snd (context_getitem q (c\<lparr>db_broadcaster := b\<rparr>)) = snd (context_getitem q c)"
  by (simp add: context_getitem_def Let_def cong: option.case_cong split: option.split sum.split)

definition known_pv :: "('x database_scheme) \<Rightarrow> pystr \<times> int \<Rightarrow> bool" where
  "known_pv c q \<longleftrightarrow> (\<exists>r. snd (context_getitem (fst q) c) = Inr r)"

text \<open>The replies are those to the known names, in order, whatever lookups enter in the dictionary on the way.\<close>

lemma search_loop_replies:
  assumes "list_all2 searches_for qs ms" and "plain_fields c" and "0 \<le> db_port c" "db_port c < 2 ^ 16"
  shows "\<exists>c' rs. search_loop (map (datagram_message a) ms) replies v c = (c', Inr (replies @ rs, v))
    \<and> db_broadcaster c' = db_broadcaster c \<and> udp_socks c' = udp_socks c
    \<and> datagram_ok SERVER rs \<and> map (msg_cid \<circ> datagram_message b) rs = map snd (filter (known_pv c) qs)
    \<and> (\<forall>m \<in> set rs. extract_address (datagram_message b m) = Inr (fst b, db_port c))"
  using assms
proof (induction qs ms arbitrary: c replies rule: list_all2_induct)
  case Nil
  then show ?case by (simp add: datagram_ok_def)
next
  case (Cons q qs m ms)
  note m = searches_for_received [OF Cons.hyps(1)]
  obtain c1 res where g: "context_getitem (fst q) c = (c1, res)" by (cases "context_getitem (fst q) c")
  have c1: "plain_fields c1" "db_port c1 = db_port c" "db_broadcaster c1 = db_broadcaster c" "udp_socks c1 = udp_socks c"
    "known_pv c1 = known_pv c"
    using Cons.prems(1) getitem_keeps [of "fst q" c] lookup_keeps [OF Cons.prems(1), of _ "fst q"] g
    by (auto simp: plain_fields_def known_pv_def)
  note IH = Cons.IH [of c1, unfolded c1, OF c1(1) Cons.prems(2,3)]
  have cid: "0 \<le> snd q" "snd q < 2 ^ 32" using Cons.hyps(1) by (simp_all add: searches_for_def)
  show ?case
  proof (cases res)
    case (Inl e)
    then have "\<not> known_pv c q" using g by (simp add: known_pv_def)
    then show ?thesis using IH [of replies] Inl m g by simp
  next
    case (Inr r)
    then have known: "known_pv c q" using g by (simp add: known_pv_def)
    obtain rp where rp: "SearchResponse_init (db_port c) None (snd q) DEFAULT_PROTOCOL_VERSION = Inr rp" "constructed rp"
      "msg_class rp = SearchResponse" "\<exists>h. msg_header rp = Plain h" "msg_cid (datagram_message b rp) = snd q"
      "extract_address (datagram_message b rp) = Inr (fst b, db_port c)"
      by (rule search_reply [OF Cons.prems(2,3) cid])
    obtain c' rs where rs: "search_loop (map (datagram_message a) ms) (replies @ [rp]) v c1 = (c', Inr ((replies @ [rp]) @ rs, v))"
      "db_broadcaster c' = db_broadcaster c \<and> udp_socks c' = udp_socks c
       \<and> datagram_ok SERVER rs \<and> map (msg_cid \<circ> datagram_message b) rs = map snd (filter (known_pv c) qs)
       \<and> (\<forall>m \<in> set rs. extract_address (datagram_message b m) = Inr (fst b, db_port c))"
      using IH [of "replies @ [rp]"] by blast
    have "sender_role SearchResponse = SERVER" by code_simp
    then show ?thesis
      using rp rs m g Inr known by (intro exI [of _ c'] exI [of _ "rp # rs"]) (simp add: datagram_ok_def comp_def)
  qed
qed

lemma iteration_replies:
  assumes "search_loop commands [] False (c\<lparr>db_broadcaster := bc_process_commands commands (db_broadcaster c)\<rparr>) = (c2, Inr (rs, True))"
    and "VersionResponse_init 13 = Inr vr"
  defines "bytes \<equiv> snd (bc_send (vr # rs) (db_broadcaster c2))"
  shows "\<exists>c' r. broadcaster_queue_iteration sendto addr commands c =
    (c', (if rs = [] then None else Some (fst (send_datagram sendto bytes addr (udp_socks c2)), bytes, addr)), r)"
  using assms(1,2) by (auto simp: broadcaster_queue_iteration_def Let_def bytes_def split: prod.split)

section \<open>Properties\<close>

text \<open>
  C30. Entering fields in the dictionary when they are first asked for is invisible: after any lookup, every name gives
  the object or the error that it gave before, if the names of fields do not contain the characters that mark modifiers.
\<close>

theorem lookup_transparent:
  assumes "plain_fields c"
  shows "snd (context_getitem q (fst (context_getitem p c))) = snd (context_getitem q c)"
  by (rule lookup_keeps [OF assms])

text \<open>A database with one record that has a field \<^verbatim>\<open>DESC\<close> and a field \<^verbatim>\<open>PREC\<close>.\<close>

definition example_database :: database where
  "example_database =
     \<lparr>pvdb = [(lit ''rec'', 0)],
      db_objects = (\<lambda>r. \<lparr>ent_data_type = (if r = 1 then CT_STRING else CT_INT), ent_max_length = 1, ent_long_string_max_length = 81,
        ent_fields = (if r = 0 then Some [(lit ''DESC'', 1), (lit ''PREC'', 2)] else None)\<rparr>),
      db_port = 5064, db_broadcaster = Broadcaster_init SERVER 13, ignore_addresses = [], udp_socks = [0]\<rparr>"

lemma example_plain: "plain_fields example_database"
  by (auto simp: plain_fields_def example_database_def plain_field_def lit_def split: if_splits)

theorem lookup_transparent_witness:
  "snd (context_getitem (lit ''rec.DESC$'') (fst (context_getitem (lit ''rec.DESC'') example_database))) = Inr 1"
  unfolding lookup_transparent [OF example_plain] by code_simp



text \<open>
  The long-string modifier is checked only without a filter. For a field of a type that is neither a string nor a character
  array, the name with a final dollar sign is unknown; the same name followed by a filter finds the object.
\<close>

theorem long_string_unchecked:
  assumes "chr_dot \<notin> set rec" and "plain_field f" and "dget (pvdb c) rec = Some r0" and "get_field c r0 (Some f) = Inr r"
    and "\<forall>p r'. dget (pvdb c) (rec @ chr_dot # p) \<noteq> Some r'" and "ent_data_type (db_objects c r) \<notin> {CT_STRING, CT_CHAR}"
  shows "snd (context_getitem (rec @ chr_dot # f @ [chr_dollar]) c) = Inl CaprotoKeyError
    \<and> snd (context_getitem (rec @ chr_dot # f @ chr_dollar # chr_brace # flt) c) = Inr r"
proof -
  have f: "f \<noteq> []" "chr_brace \<notin> set (f @ [chr_dollar])" "chr_bra \<notin> set (f @ [chr_dollar])" and hd: "hd f \<noteq> chr_brace"
    using assms(2) hd_in_set [of f] unfolding plain_field_def by (auto, metis)
  have "parse_record_field (rec @ chr_dot # f @ [chr_dollar]) = mk_record_field rec (Some f) True False None"
    using f hd by (simp add: parse_record_field_dot [OF assms(1)])
  moreover have "parse_record_field (rec @ chr_dot # f @ chr_dollar # chr_brace # flt)
      = mk_record_field rec (Some f) True True (Some (chr_brace # flt))"
    using f hd split1_append [of chr_brace "f @ [chr_dollar]" flt] by (simp add: parse_record_field_dot [OF assms(1)])
  moreover have "dget (pvdb c) (rec @ chr_dot # p) = None" for p using assms(5) by (cases "dget (pvdb c) (rec @ chr_dot # p)") auto
  ultimately show ?thesis
    using f(1) assms(3,4,6) by (simp add: context_getitem_def find_entry_def mk_record_field_def long_string_in_def)
qed

theorem long_string_unchecked_witness:
  "snd (context_getitem (lit ''rec.PREC$'') example_database) = Inl CaprotoKeyError
    \<and> snd (context_getitem (lit ''rec.PREC${}'') example_database) = Inr 2"
proof -
  have "dget (pvdb example_database) (lit ''rec'') = Some 0" "get_field example_database 0 (Some (lit ''PREC'')) = Inr 2"
    "ent_data_type (db_objects example_database 2) \<notin> {CT_STRING, CT_CHAR}"
    "chr_dot \<notin> set (lit ''rec'')" "plain_field (lit ''PREC'')"
    "\<forall>p r'. dget (pvdb example_database) (lit ''rec'' @ chr_dot # p) \<noteq> Some r'"
    by (simp_all add: example_database_def get_field_def getitem_def lit_def plain_field_def)
  from long_string_unchecked [OF this(4,5,1,2,6,3), of "[125]"] show ?thesis by (simp add: lit_def)
qed

end
