(* ===== verification/CA_Server.thy ===== *)
theory CA_Server
  imports CA_Subscriptions CA_Pvdb
begin

text \<open>
  The commands of a client, as \<^verbatim>\<open>VirtualCircuit\<close> of \<^verbatim>\<open>caproto/server/common.py\<close> handles them: \<^verbatim>\<open>_command_queue_iteration\<close>
  processes a command in the protocol state machine of the circuit, \<^verbatim>\<open>_process_command\<close> computes the answer from the
  database, the channel data and the subscriptions. A write runs as a task of its own, here a step of its own. The timed
  waits for such a task (\<^verbatim>\<open>write_event\<close>) have no effect on the state and are left out.
\<close>

section \<open>State\<close>

text \<open>Channel data have the same numbers in the database and in the tables of subscriptions.\<close>

record ('r, 'm, 'e) server_context =
  ctx_db :: database
  ctx_server :: "('r, 'm, 'e) server"
  ctx_writes :: "(nat \<times> message) list"

text \<open>
  What depends on the application and on the array backend: \<^verbatim>\<open>ChannelData.read\<close> and \<^verbatim>\<open>check_access\<close>, which subclasses override;
  \<^verbatim>\<open>write_from_dbr\<close> as the change of the data and the flags it publishes with; the number of elements of the data;
  replacing the time stamp in metadata; the parser of filters; the text for an exception; encoding values.
\<close>

record ('r, 'm, 'e) hooks =
  hk_read :: "'e \<Rightarrow> read_type \<Rightarrow> ('r, 'm) reading result"
  hk_access :: "ref \<Rightarrow> pystr option \<Rightarrow> pystr option \<Rightarrow> int"
  hk_write :: "message \<Rightarrow> 'e \<Rightarrow> (('e \<Rightarrow> 'e) \<times> int) result"
  hk_length :: "'e \<Rightarrow> int"
  hk_stamp :: "'m md_arg \<Rightarrow> 'm md_arg"
  hk_filter :: "pystr \<Rightarrow> 'r ChannelFilter result"
  hk_text :: "error \<Rightarrow> pystr"
  hk_to_epics :: "ChannelType \<Rightarrow> 'r list \<Rightarrow> bytes result"
  hk_mk_dbr :: "ChannelType \<Rightarrow> 'm list \<Rightarrow> bytes result"

definition on_server ::
  "(('r, 'm, 'e) server \<Rightarrow> ('r, 'm, 'e) server \<times> 'a) \<Rightarrow> ('r, 'm, 'e) server_context \<Rightarrow> ('r, 'm, 'e) server_context \<times> 'a" where
  "on_server f ctx = (case f (ctx_server ctx) of (sv, r) \<Rightarrow> (ctx\<lparr>ctx_server := sv\<rparr>, r))"

definition change_circuit :: "nat \<Rightarrow> ('r vcircuit \<Rightarrow> 'r vcircuit) \<Rightarrow> ('r, 'm, 'e) server_context \<Rightarrow> ('r, 'm, 'e) server_context" where
  "change_circuit k f ctx = ctx\<lparr>ctx_server := map_circuit k f (ctx_server ctx)\<rparr>"

abbreviation circuit_of :: "nat \<Rightarrow> ('r, 'm, 'e) server_context \<Rightarrow> 'r vcircuit" where
  "circuit_of k ctx \<equiv> sv_circuits (ctx_server ctx) k"

definition lookup_name :: "pystr \<Rightarrow> ('r, 'm, 'e) server_context \<Rightarrow> ('r, 'm, 'e) server_context \<times> ref result" where
  "lookup_name name ctx = (case context_getitem name (ctx_db ctx) of (db, r) \<Rightarrow> (ctx\<lparr>ctx_db := db\<rparr>, r))"

section \<open>Which channel a command is about\<close>

text \<open>\<^verbatim>\<open>hasattr(command, 'sid')\<close> and \<^verbatim>\<open>hasattr(command, 'cid')\<close>.\<close>

definition has_sid :: "command_class \<Rightarrow> bool" where
  "has_sid cls \<longleftrightarrow> cls \<in> {EventAddRequest, EventCancelRequest, EventCancelResponse, ReadRequest, ReadResponse, WriteRequest,
     ClearChannelRequest, ClearChannelResponse, ReadNotifyRequest, CreateChanResponse, WriteNotifyRequest}"

definition has_cid :: "command_class \<Rightarrow> bool" where
  "has_cid cls \<longleftrightarrow> cls \<in> {SearchRequest, SearchResponse, NotFoundResponse, ErrorResponse, ClearChannelRequest, ClearChannelResponse,
     CreateChanRequest, CreateChanResponse, AccessRightsResponse, CreateChFailResponse, ServerDisconnResponse}"

definition get_ids_from_command :: "'f circuit \<Rightarrow> message \<Rightarrow> (int option \<times> int option) result" where
  "get_ids_from_command c m =
     (if has_sid (msg_class m) then
        bindE (getitem (circ_channels_sid c) (msg_sid m)) (\<lambda>r. Inr (Some (ch_cid (chan c r)), Some (msg_sid m)))
      else if has_cid (msg_class m) then
        bindE (getitem (circ_channels c) (msg_cid m)) (\<lambda>r. Inr (Some (msg_cid m), ch_sid (chan c r)))
      else Inr (None, None))"

text \<open>\<^verbatim>\<open>_get_db_entry_from_command\<close>: the channel and the channel data.\<close>

definition get_db_entry_from_command ::
  "nat \<Rightarrow> message \<Rightarrow> ('r, 'm, 'e) server_context \<Rightarrow> ('r, 'm, 'e) server_context \<times> (ref \<times> ref) result" where
  "get_db_entry_from_command k m ctx =
     (let c = vc_circuit (circuit_of k ctx)
      in case bindE (get_ids_from_command c m) (\<lambda>(cid, sid).
           case sid of None \<Rightarrow> Inl KeyError | Some s \<Rightarrow> getitem (circ_channels_sid c) s) of
           Inl e \<Rightarrow> (ctx, Inl e)
         | Inr ch \<Rightarrow>
             (case lookup_name (ch_name (chan c ch)) ctx of
                (ctx', Inl e) \<Rightarrow> (ctx', Inl e) | (ctx', Inr r) \<Rightarrow> (ctx', Inr (ch, r))))"

section \<open>Handlers\<close>

text \<open>\<^verbatim>\<open>CAStatus.<name>\<close>.\<close>

definition status_named :: "string \<Rightarrow> status_arg" where
  "status_named name = (case find (\<lambda>m. st_name m = name) CAStatus of Some m \<Rightarrow> Status_member m | None \<Rightarrow> Status_other)"

text \<open>A result as the list of commands to send.\<close>

definition just :: "message result \<Rightarrow> message list result" where
  "just r = bindE r (\<lambda>m. Inr [m])"

definition handle_search :: "message \<Rightarrow> ('r, 'm, 'e) server_context \<Rightarrow> ('r, 'm, 'e) server_context \<times> message list result" where
  "handle_search m ctx =
     (case msg_name m of
        Inl e \<Rightarrow> (ctx, Inl e)
      | Inr name \<Rightarrow>
          (case lookup_name name ctx of
             (ctx', Inr _) \<Rightarrow> (ctx', just (SearchResponse_init (db_port (ctx_db ctx')) None (msg_cid m) DEFAULT_PROTOCOL_VERSION))
           | (ctx', Inl _) \<Rightarrow>
               (ctx', if h_data_type (msg_header m) = DO_REPLY then just (NotFoundResponse_init DEFAULT_PROTOCOL_VERSION (msg_cid m))
                      else Inr [])))"

text \<open>\<^verbatim>\<open>check_access\<close> for the client of a circuit.\<close>

definition client_rights :: "('r, 'm, 'e) hooks \<Rightarrow> nat \<Rightarrow> ref \<Rightarrow> ('r, 'm, 'e) server_context \<Rightarrow> int" where
  "client_rights hk k r ctx = hk_access hk r (client_hostname (circuit_of k ctx)) (client_username (circuit_of k ctx))"

text \<open>\<open>None\<close>: the generator of ids does not return.\<close>

definition handle_create ::
  "('r, 'm, 'e) hooks \<Rightarrow> nat \<Rightarrow> message \<Rightarrow> ('r, 'm, 'e) server_context \<Rightarrow> (('r, 'm, 'e) server_context \<times> message list result) option" where
  "handle_create hk k m ctx =
     (case msg_name m of
        Inl e \<Rightarrow> Some (ctx, Inl e)
      | Inr name \<Rightarrow>
          (case lookup_name name ctx of
             (ctx1, Inl _) \<Rightarrow> Some (ctx1, just (CreateChFailResponse_init (msg_cid m)))
           | (ctx1, Inr r) \<Rightarrow>
               let vc = circuit_of k ctx1;
                   entry = db_objects (ctx_db ctx1) r;
                   long = long_string_in (rf_modifiers (parse_record_field name)) \<and> ent_data_type entry = CT_STRING;
                   (data_type, data_count) =
                     (if long then (CT_CHAR, ent_long_string_max_length entry) else (ent_data_type entry, ent_max_length entry))
               in case AccessRightsResponse_init (msg_cid m) (client_rights hk k r ctx1) of
                    Inl e \<Rightarrow> Some (ctx1, Inl e)
                  | Inr rights \<Rightarrow>
                      map_option (\<lambda>(c, sid).
                          (change_circuit k (\<lambda>vc. vc\<lparr>vc_circuit := c\<rparr>) ctx1,
                           bindE (CreateChanResponse_init (ct_value data_type) data_count (msg_cid m) sid) (\<lambda>created. Inr [rights, created])))
                        (new_channel_id (vc_circuit vc))))"

text \<open>The type the data are read in: a name that ends with a dollar sign turns the character types into long strings.\<close>

definition long_string_types :: "ChannelType list" where
  "long_string_types = [CT_CHAR, CT_STS_CHAR, CT_TIME_CHAR, CT_GR_CHAR, CT_CTRL_CHAR]"

definition read_type_for :: "pystr \<Rightarrow> ChannelType \<Rightarrow> read_type" where
  "read_type_for name t = (if ends_with name [chr_dollar] \<and> t \<in> set long_string_types then RT_long t else RT t)"

text \<open>\<^verbatim>\<open>auth_read\<close>: bit 0 of the access rights.\<close>

definition auth_read :: "('r, 'm, 'e) hooks \<Rightarrow> nat \<Rightarrow> ref \<Rightarrow> read_type \<Rightarrow> ('r, 'm, 'e) server_context \<Rightarrow> ('r, 'm) reading result" where
  "auth_read hk k r t ctx =
     (if client_rights hk k r ctx mod 2 = 0 then Inl Forbidden
      else hk_read hk (cd_data (sv_entries (ctx_server ctx) r)) t)"

text \<open>\<^verbatim>\<open>data[:n]\<close> for the count of a request, which an old client always applies, even when it is zero.\<close>

definition handle_read :: "('r, 'm, 'e) hooks \<Rightarrow> nat \<Rightarrow> message \<Rightarrow> ('r, 'm, 'e) server_context \<Rightarrow> ('r, 'm, 'e) server_context \<times> message list result" where
  "handle_read hk k m ctx =
     (case get_db_entry_from_command k m ctx of
        (ctx1, Inl e) \<Rightarrow> (ctx1, Inl e)
      | (ctx1, Inr (ch, r)) \<Rightarrow>
          let c = vc_circuit (circuit_of k ctx1);
              flt = ch_filter (chan c ch)
          in (ctx1,
              case msg_data_type m of
                Inl _ \<Rightarrow> Inl RemoteProtocolError
              | Inr t \<Rightarrow>
                  bindE (auth_read hk k r (read_type_for (ch_name (chan c ch)) t) ctx1) (\<lambda>(metadata, data).
                  bindE (apply_arr_filter (cf_arr flt)
                           (if msg_data_count m > 0 \<or> protocol_version c < 13 then take (nat (msg_data_count m)) data else data)) (\<lambda>data.
                    let metadata = (if cf_ts flt = Some True \<and> t \<in> time_types then hk_stamp hk metadata else metadata)
                    in just (ServerChannel_read (hk_to_epics hk) (hk_mk_dbr hk) ch (Data_iter data) (msg_ioid m)
                         (DT_int (ct_value t)) (Some (int (length data))) (Status_int 1) metadata
                         (msg_class m = ReadNotifyRequest) c)))))"

text \<open>A write request only schedules \<^verbatim>\<open>handle_write\<close>.\<close>

definition schedule_write :: "nat \<Rightarrow> message \<Rightarrow> ('r, 'm, 'e) server_context \<Rightarrow> ('r, 'm, 'e) server_context \<times> message list result" where
  "schedule_write k m ctx =
     (case get_db_entry_from_command k m ctx of
        (ctx1, Inl e) \<Rightarrow> (ctx1, Inl e)
      | (ctx1, Inr _) \<Rightarrow> (ctx1\<lparr>ctx_writes := ctx_writes ctx1 @ [(k, m)]\<rparr>, Inr []))"

text \<open>\<^verbatim>\<open>auth_write\<close>: bit 1 of the access rights; new data are stored and published.\<close>

definition auth_write_entry ::
  "('r, 'm, 'e) hooks \<Rightarrow> nat \<Rightarrow> message \<Rightarrow> ref \<Rightarrow> ('r, 'm, 'e) server_context \<Rightarrow> ('r, 'm, 'e) server_context \<times> unit result" where
  "auth_write_entry hk k m r ctx =
     (if client_rights hk k r ctx div 2 mod 2 = 0 then (ctx, Inl Forbidden)
      else case hk_write hk m (cd_data (sv_entries (ctx_server ctx) r)) of
           Inl e \<Rightarrow> (ctx, Inl e)
      | Inr (f, flags) \<Rightarrow> on_server (\<lambda>sv. cd_publish (hk_read hk) flags r (map_entry r (store_value f) sv)) ctx)"

text \<open>
  \<^verbatim>\<open>handle_write\<close>: the message it sends. The channel and its data were looked up when the write was scheduled. An
  exception of the write is answered with an \<^verbatim>\<open>ErrorResponse\<close>, whether the client waits or not.
\<close>

definition handle_write ::
  "('r, 'm, 'e) hooks \<Rightarrow> nat \<Rightarrow> message \<Rightarrow> ref \<Rightarrow> ref \<Rightarrow> ('r, 'm, 'e) server_context \<Rightarrow> ('r, 'm, 'e) server_context \<times> message list result" where
  "handle_write hk k m ch r ctx =
     (case auth_write_entry hk k m r ctx of
        (ctx1, Inl e) \<Rightarrow>
          (ctx1,
           let c = vc_circuit (circuit_of k ctx1)
           in bindE (getitem (circ_channels_sid c) (msg_sid m)) (\<lambda>q.
                just (ErrorResponse_init m (ch_cid (chan c q)) (status_named ''ECA_PUTFAIL'') (Str (hk_text hk e)))))
      | (ctx1, Inr _) \<Rightarrow>
          (ctx1,
           if msg_class m = WriteNotifyRequest
           then just (ServerChannel_write ch (msg_ioid m) DT_none (Some (hk_length hk (cd_data (sv_entries (ctx_server ctx1) r))))
                  (Status_int 1) (vc_circuit (circuit_of k ctx1)))
           else Inr []))"

definition handle_event_add ::
  "('r, 'm, 'e) hooks \<Rightarrow> nat \<Rightarrow> message \<Rightarrow> ('r, 'm, 'e) server_context \<Rightarrow> ('r, 'm, 'e) server_context \<times> message list result" where
  "handle_event_add hk k m ctx =
     (case get_db_entry_from_command k m ctx of
        (ctx1, Inl e) \<Rightarrow> (ctx1, Inl e)
      | (ctx1, Inr (ch, r)) \<Rightarrow>
          let c = vc_circuit (circuit_of k ctx1);
              flt = ch_filter (chan c ch)
          in case bindE (msg_data_type m) (\<lambda>t. bindE (payload_struct m) (\<lambda>p. Inr (t, uint (ea_mask p)))) of
               Inl e \<Rightarrow> (ctx1, Inl e)
             | Inr (t, msk) \<Rightarrow>
                 let rt = read_type_for (ch_name (chan c ch)) t;
                     sub = \<lparr>sb_mask = msk, sb_filter = flt, sb_circuit = k, sb_channel = ch, sb_type = rt,
                       sb_count = msg_data_count m, sb_id = msg_subscriptionid m, sb_entry = r\<rparr>;
                     spec = \<lparr>sp_entry = r, sp_type = rt, sp_mask = msk, sp_filter = flt\<rparr>
                 in case on_server (add_subscription (hk_read hk) k spec sub) ctx1 of
                      (ctx2, Inl e) \<Rightarrow> (ctx2, Inl e) | (ctx2, Inr _) \<Rightarrow> (ctx2, Inr []))"

definition handle_event_cancel ::
  "('r, 'm, 'e) hooks \<Rightarrow> nat \<Rightarrow> message \<Rightarrow> ('r, 'm, 'e) server_context \<Rightarrow> ('r, 'm, 'e) server_context \<times> message list result" where
  "handle_event_cancel hk k m ctx =
     (case get_db_entry_from_command k m ctx of
        (ctx1, Inl e) \<Rightarrow> (ctx1, Inl e)
      | (ctx1, Inr (ch, r)) \<Rightarrow>
          (case on_server (cull_subscriptions k (\<lambda>sub. sb_id sub = msg_subscriptionid m)) ctx1 of
             (ctx2, Inl e) \<Rightarrow> (ctx2, Inl e)
           | (ctx2, Inr removed) \<Rightarrow>
               let n = (case removed of
                          [] \<Rightarrow> hk_length hk (cd_data (sv_entries (ctx_server ctx2) r)) | (_, sub) # _ \<Rightarrow> sb_count sub)
               in (ctx2, bindE (msg_data_type m) (\<lambda>t.
                    just (ServerChannel_unsubscribe ch (msg_subscriptionid m) (DT_int (ct_value t)) (Some n) (vc_circuit (circuit_of k ctx2)))))))"

text \<open>
  \<^verbatim>\<open>sub.channel == command.sid\<close> in the handler of a \<^verbatim>\<open>ClearChannelRequest\<close> compares a channel object with an integer. Such
  objects of Python are never equal.
\<close>

datatype py_channel_or_sid = Py_channel ref | Py_sid int

definition handle_clear :: "nat \<Rightarrow> message \<Rightarrow> ('r, 'm, 'e) server_context \<Rightarrow> ('r, 'm, 'e) server_context \<times> message list result" where
  "handle_clear k m ctx =
     (case get_db_entry_from_command k m ctx of
        (ctx1, Inl e) \<Rightarrow> (ctx1, Inl e)
      | (ctx1, Inr (ch, r)) \<Rightarrow>
          (case on_server (cull_subscriptions k (\<lambda>sub. Py_channel (sb_channel sub) = Py_sid (msg_sid m))) ctx1 of
             (ctx2, Inl e) \<Rightarrow> (ctx2, Inl e)
           | (ctx2, Inr _) \<Rightarrow> (ctx2, just (ServerChannel_clear ch (vc_circuit (circuit_of k ctx2))))))"

section \<open>Dispatch\<close>

text \<open>\<^verbatim>\<open>_process_command\<close>. For any other class the answer is never assigned. \<open>None\<close>: the call does not return.\<close>

definition server_process_command ::
  "('r, 'm, 'e) hooks \<Rightarrow> nat \<Rightarrow> message \<Rightarrow> ('r, 'm, 'e) server_context \<Rightarrow> (('r, 'm, 'e) server_context \<times> message list result) option" where
  "server_process_command hk k m ctx =
     (let cls = msg_class m
      in if cls = CreateChanRequest then handle_create hk k m ctx
         else Some (
           if cls = VersionRequest then (ctx, just (VersionResponse_init DEFAULT_PROTOCOL_VERSION))
           else if cls = SearchRequest then handle_search m ctx
           else if cls = HostNameRequest \<or> cls = ClientNameRequest then
             (case msg_name m of
                Inl e \<Rightarrow> (ctx, Inl e)
              | Inr name \<Rightarrow>
                  (change_circuit k (\<lambda>vc. if cls = HostNameRequest then vc\<lparr>client_hostname := Some name\<rparr>
                     else vc\<lparr>client_username := Some name\<rparr>) ctx, Inr []))
           else if cls = ReadNotifyRequest \<or> cls = ReadRequest then handle_read hk k m ctx
           else if cls = WriteRequest \<or> cls = WriteNotifyRequest then schedule_write k m ctx
           else if cls = EventAddRequest then handle_event_add hk k m ctx
           else if cls = EventCancelRequest then handle_event_cancel hk k m ctx
           else if cls = EventsOnRequest then
             (case on_server (turn_events_on (hk_read hk) k) ctx of
                (ctx1, Inl e) \<Rightarrow> (ctx1, Inl e) | (ctx1, Inr _) \<Rightarrow> (ctx1, Inr []))
           else if cls = EventsOffRequest then (ctx\<lparr>ctx_server := turn_events_off k (ctx_server ctx)\<rparr>, Inr [])
           else if cls = ClearChannelRequest then handle_clear k m ctx
           else if cls = EchoRequest then (ctx, just EchoResponse_init)
           else (ctx, Inl UnboundLocalError)))"

text \<open>
  How a turn of the command loop ends: with answers to send, with none, with the end of the loop that the code foresees
  (\<^verbatim>\<open>LoopExit\<close>, \<^verbatim>\<open>DisconnectedCircuit\<close>), or with an exception that escapes from it.
\<close>

datatype outcome = Answers "message list" | No_answer | Loop_exit | Circuit_lost | Escapes error

text \<open>\<^verbatim>\<open>VirtualCircuit.send\<close>, for buffers that the socket accepts.\<close>

definition server_send ::
  "('r, 'm, 'e) hooks \<Rightarrow> nat \<Rightarrow> message list \<Rightarrow> ('r, 'm, 'e) server_context \<Rightarrow> ('r, 'm, 'e) server_context \<times> bytes list result" where
  "server_send hk k ms ctx =
     (if vc_connected (circuit_of k ctx)
      then (case send (hk_filter hk) ms (vc_circuit (circuit_of k ctx)) of
              (c, r) \<Rightarrow> (change_circuit k (\<lambda>vc. vc\<lparr>vc_circuit := c\<rparr>) ctx, r))
      else (ctx, Inr []))"

text \<open>The branch for commands the state machine refuses: the channel is disconnected and the circuit kept.\<close>

definition refuse_command ::
  "('r, 'm, 'e) hooks \<Rightarrow> nat \<Rightarrow> message \<Rightarrow> ('r, 'm, 'e) server_context \<Rightarrow> ('r, 'm, 'e) server_context \<times> outcome" where
  "refuse_command hk k m ctx =
     (case get_ids_from_command (vc_circuit (circuit_of k ctx)) m of
        Inl e \<Rightarrow> (ctx, Escapes e)
      | Inr (None, _) \<Rightarrow> (ctx, Loop_exit)
      | Inr (Some cid, _) \<Rightarrow>
          (case ServerDisconnResponse_init cid of
             Inl _ \<Rightarrow> (ctx, Loop_exit)
           | Inr resp \<Rightarrow>
               (case server_send hk k [resp] ctx of (ctx1, Inl _) \<Rightarrow> (ctx1, Loop_exit) | (ctx1, Inr _) \<Rightarrow> (ctx1, No_answer))))"

text \<open>The branch for exceptions of a handler.\<close>

definition handler_failed ::
  "('r, 'm, 'e) hooks \<Rightarrow> nat \<Rightarrow> message \<Rightarrow> error \<Rightarrow> ('r, 'm, 'e) server_context \<Rightarrow> ('r, 'm, 'e) server_context \<times> outcome" where
  "handler_failed hk k m e ctx =
     (if \<not> vc_connected (circuit_of k ctx) then (ctx, Loop_exit)
      else
        (case get_ids_from_command (vc_circuit (circuit_of k ctx)) m of
           Inl e' \<Rightarrow> (ctx, Escapes e')
         | Inr (cid, _) \<Rightarrow>
             (case get_db_entry_from_command k m ctx of
                (ctx1, Inl e') \<Rightarrow> (ctx1, Escapes e')
              | (ctx1, Inr _) \<Rightarrow>
                  (case cid of
                     None \<Rightarrow> (ctx1, No_answer)
                   | Some c \<Rightarrow>
                       (case ErrorResponse_init m c (status_named ''ECA_INTERNAL'') (Str (hk_text hk e)) of
                          Inl e' \<Rightarrow> (ctx1, Escapes e') | Inr resp \<Rightarrow> (ctx1, Answers [resp]))))))"

text \<open>\<^verbatim>\<open>_command_queue_iteration\<close>.\<close>

definition command_queue_iteration ::
  "('r, 'm, 'e) hooks \<Rightarrow> nat \<Rightarrow> command \<Rightarrow> ('r, 'm, 'e) server_context \<Rightarrow> (('r, 'm, 'e) server_context \<times> outcome) option" where
  "command_queue_iteration hk k command ctx =
     (case process_command (hk_filter hk) command (vc_circuit (circuit_of k ctx)) of
        (c, r) \<Rightarrow>
          let ctx1 = change_circuit k (\<lambda>vc. vc\<lparr>vc_circuit := c\<rparr>) ctx
          in case (r, command) of
               (Inl RemoteProtocolError, Command m) \<Rightarrow> Some (refuse_command hk k m ctx1)
             | (Inl RemoteProtocolError, Command_DISCONNECTED) \<Rightarrow> Some (ctx1, Loop_exit)
             | (Inl _, _) \<Rightarrow> Some (ctx1, No_answer)
             | (Inr _, Command_DISCONNECTED) \<Rightarrow> Some (ctx1, Circuit_lost)
             | (Inr _, Command m) \<Rightarrow>
                 map_option (\<lambda>(ctx2, r). case r of
                     Inr ms \<Rightarrow> (ctx2, Answers ms) | Inl e \<Rightarrow> handler_failed hk k m e ctx2)
                   (server_process_command hk k m ctx1))"

section \<open>Lemmas\<close>

lemma lookup_name_server: "lookup_name name ctx = (ctx', r) \<Longrightarrow> ctx_server ctx' = ctx_server ctx"
  by (auto simp: lookup_name_def split: prod.splits)

lemma get_db_entry_server: "get_db_entry_from_command k m ctx = (ctx', r) \<Longrightarrow> ctx_server ctx' = ctx_server ctx"
  by (auto simp: get_db_entry_from_command_def Let_def dest: lookup_name_server split: sum.splits prod.splits)

lemma get_db_entry_sid:
  assumes "get_db_entry_from_command k m ctx = (ctx', Inr (ch, r))" and "has_sid (msg_class m)"
  shows "dget (circ_channels_sid (vc_circuit (circuit_of k ctx))) (msg_sid m) = Some ch"
  using assms
  by (auto simp: get_db_entry_from_command_def get_ids_from_command_def Let_def getitem_def split: sum.splits prod.splits option.splits)

lemma change_circuit_simps [simp]:
  "ctx_server (change_circuit k f ctx) = map_circuit k f (ctx_server ctx)" "ctx_db (change_circuit k f ctx) = ctx_db ctx"
  by (simp_all add: change_circuit_def)

lemma cull_nothing: "cull_subscriptions k (\<lambda>_. False) sv = (sv, Inr [])"
proof -
  have "filter (\<lambda>(_, _). False) ps = []" for ps :: "('x \<times> 'y) list" by (induction ps) auto
  then show ?thesis by (simp add: cull_subscriptions_def)
qed

text \<open>Clearing a channel leaves the subscriptions alone.\<close>

lemma handle_clear_server:
  assumes "handle_clear k m ctx = (ctx1, Inr [resp])" and "msg_class m = ClearChannelRequest"
  obtains ch where "dget (circ_channels_sid (vc_circuit (circuit_of k ctx))) (msg_sid m) = Some ch"
    "ServerChannel_clear ch (vc_circuit (circuit_of k ctx)) = Inr resp" "ctx_server ctx1 = ctx_server ctx"
proof -
  obtain ctx0 r where g: "get_db_entry_from_command k m ctx = (ctx0, r)" by (cases "get_db_entry_from_command k m ctx")
  note sv = get_db_entry_server [OF g]
  with assms g obtain ch e where r: "r = Inr (ch, e)" "ctx_server ctx1 = ctx_server ctx"
    "ServerChannel_clear ch (vc_circuit (circuit_of k ctx)) = Inr resp"
    by (auto simp: handle_clear_def on_server_def just_def bindE_eq_Inr cull_nothing split: sum.splits)
  then show thesis using get_db_entry_sid [of k m ctx ctx0 ch e] g assms(2) that by (simp add: has_sid_def)
qed

text \<open>A server whose client has opened a channel, subscribed to it, and asks to clear it while an update is queued.\<close>

definition server_circuit :: "rat ChannelFilter circuit" where
  "server_circuit = fold (\<lambda>m c. fst (process_command (\<lambda>_. Inr no_filter) (Command m) c))
     (map projr [VersionRequest_init 0 13, VersionResponse_init 13, CreateChanRequest_init (Str (lit ''rec'')) 1 13,
        AccessRightsResponse_init 1 3, CreateChanResponse_init 6 1 1 5, EventAddRequest_init 6 1 5 7 0 0 0 13, ClearChannelRequest_init 5 1])
     (projr (VirtualCircuit_init SERVER (''10.0.0.7'', 999) None 13))"

definition example_context :: "(rat, unit, int) server_context" where
  "example_context =
     \<lparr>ctx_db = example_database,
      ctx_server = map_circuit 1 (\<lambda>vc. vc\<lparr>vc_circuit := server_circuit, vc_queue := [example_update 0],
        unexpired_updates := [(7, [example_update 0])]\<rparr>) subscribed_server,
      ctx_writes = []\<rparr>"

definition example_hooks :: "int \<Rightarrow> (rat, unit, int) hooks" where
  "example_hooks rights =
     \<lparr>hk_read = example_read, hk_access = (\<lambda>_ _ _. rights), hk_write = (\<lambda>_ _. Inr (\<lambda>d. d + 1, 5)), hk_length = (\<lambda>_. 1),
      hk_stamp = (\<lambda>md. md), hk_filter = (\<lambda>_. Inr no_filter), hk_text = (\<lambda>_. []), hk_to_epics = (\<lambda>_ _. Inr []),
      hk_mk_dbr = (\<lambda>_ _. Inr [])\<rparr>"

lemma server_circuit_wf: "wf_circuit server_circuit"
proof -
  have "\<exists>c. VirtualCircuit_init SERVER (''10.0.0.7'', 999) None 13 = Inr (c :: rat ChannelFilter circuit)"
    by (simp add: VirtualCircuit_init_def)
  then have "wf_circuit (projr (VirtualCircuit_init SERVER (''10.0.0.7'', 999) None 13) :: rat ChannelFilter circuit)"
    using wf_init by force
  then show ?thesis unfolding server_circuit_def by (simp add: process_command_def circuit_op.step_inv)
qed

lemma server_circuit_facts:
  "dget (circ_channels_sid server_circuit) 5 = Some 0" "ch_sid (chan server_circuit 0) = Some 5" "ch_cid (chan server_circuit 0) = 1"
  "ch_name (chan server_circuit 0) = lit ''rec''" "map_option msg_sid (dget (event_add_commands server_circuit) 7) = Some 5"
  "our_role server_circuit = SERVER" "dget (circ_channels_sid server_circuit) 9 = None"
  "\<not> isl (snd (send (\<lambda>_. Inr no_filter) [projr (ClearChannelResponse_init 5 1)] server_circuit))"
  unfolding server_circuit_def by code_simp+

section \<open>Properties\<close>

text \<open>
  A client that names a server id the server does not know ends its command loop. The state machine refuses the command
  with \<^verbatim>\<open>RemoteProtocolError\<close>, as the code expects, but the handler for that error looks the id up again, outside of any
  other handler: the \<^verbatim>\<open>KeyError\<close> leaves the loop, so that no later command of this client is answered.
\<close>

theorem unknown_sid_ends_loop:
  assumes "our_role (vc_circuit (circuit_of k ctx)) = SERVER"
    and "msg_class m \<in> {ReadNotifyRequest, ReadRequest, WriteRequest, WriteNotifyRequest, EventAddRequest}"
    and "dget (circ_channels_sid (vc_circuit (circuit_of k ctx))) (msg_sid m) = None"
  shows "process_command (hk_filter hk) (Command m) (vc_circuit (circuit_of k ctx)) = (vc_circuit (circuit_of k ctx), Inl RemoteProtocolError)
    \<and> (\<exists>ctx'. command_queue_iteration hk k (Command m) ctx = Some (ctx', Escapes KeyError))"
proof -
  have "DIRECTION ReadNotifyRequest = REQUEST" "DIRECTION ReadRequest = REQUEST" "DIRECTION WriteRequest = REQUEST"
    "DIRECTION WriteNotifyRequest = REQUEST" "DIRECTION EventAddRequest = REQUEST"
    by code_simp+
  then have cls: "in_cls m channel_classes" "msg_class m \<noteq> EventAddResponse" "DIRECTION (msg_class m) = REQUEST"
    "in_cls m [ReadNotifyRequest, WriteNotifyRequest, WriteRequest, ReadRequest, EventAddRequest]" "has_sid (msg_class m)"
    using assms(2) by (auto simp: in_cls_def channel_classes_def has_sid_def)
  then have "process_command (hk_filter hk) (Command m) (vc_circuit (circuit_of k ctx)) = (vc_circuit (circuit_of k ctx), Inl RemoteProtocolError)"
    using assms(1,3)
    by (simp add: process_command_def process_command_internal_def transmute_other channel_command_def lookup_channel_def get_exception_def Let_def)
  then show ?thesis
    using assms(3) cls(5)
    by (simp add: command_queue_iteration_def Let_def refuse_command_def get_ids_from_command_def getitem_def)
qed

theorem unknown_sid_ends_loop_witness:
  "\<exists>m ctx'. ReadNotifyRequest_init 6 1 9 3 = Inr m
     \<and> command_queue_iteration (example_hooks 3) 1 (Command m) example_context = Some (ctx', Escapes KeyError)"
proof -
  define m where "m = projr (ReadNotifyRequest_init 6 1 9 3)"
  have m: "ReadNotifyRequest_init 6 1 9 3 = Inr m" "msg_class m = ReadNotifyRequest" "msg_sid m = 9"
    unfolding m_def by code_simp+
  have "vc_circuit (circuit_of 1 example_context) = server_circuit" by (simp add: example_context_def)
  with unknown_sid_ends_loop [where k = 1 and ctx = example_context and m = m and hk = "example_hooks 3"] m server_circuit_facts(6,7) show ?thesis by auto
qed



text \<open>
  C40. A cleared channel takes the updates of its whole circuit down. The subscriptions of a channel that the client
  clears stay in the tables, as the handler looks for them by comparing channels with numbers. The next update for one
  of them, though it passes the check for cancelled subscriptions, is refused by the circuit with \<^verbatim>\<open>KeyError\<close>, which ends the loop that
  sends updates.
\<close>

theorem cleared_channel_update:
  assumes "wf_circuit (vc_circuit (circuit_of k ctx))" and "vc_connected (circuit_of k ctx)"
    and "wf_dict (vc_subscriptions (circuit_of k ctx))"
    and "msg_class m = ClearChannelRequest" and "handle_clear k m ctx = (ctx1, Inr [resp])"
    and "server_send hk k [resp] ctx1 = (ctx2, Inr bufs)"
    and "dget (circ_channels_sid (vc_circuit (circuit_of k ctx))) (msg_sid m) = Some ch"
    and "0 \<le> ch_cid (chan (vc_circuit (circuit_of k ctx)) ch)" "ch_cid (chan (vc_circuit (circuit_of k ctx)) ch) < 2 ^ 32"
    and "sub \<in> set (subs_of k spec (ctx_server ctx))"
    and "dget (event_add_commands (vc_circuit (circuit_of k ctx))) (sb_id sub) = Some event_add" "msg_sid event_add = msg_sid m"
    and "vc_queue (circuit_of k ctx) = u # us" "up_id u \<in> set (kept_alive k (ctx_server ctx))"
    and "msg_class (up_command u) = EventAddResponse" "msg_subscriptionid (up_command u) = sb_id sub" "msg_data_type (up_command u) = Inr t"
  shows "sub \<in> set (subs_of k spec (ctx_server ctx2))
    \<and> (\<exists>sv. send_batch (hk_filter hk) k 1 (ctx_server ctx2) = (sv, [up_command u], Inl KeyError))"
proof -
  let ?c = "vc_circuit (circuit_of k ctx)"
  have resp: "ServerChannel_clear ch ?c = Inr resp" and same: "ctx_server ctx1 = ctx_server ctx"
    using handle_clear_server [OF assms(5,4)] assms(7) by (metis option.inject)+
  have reg: "registered ?c ch" "ch_sid (chan ?c ch) = Some (msg_sid m)"
    using assms(1,7) by (simp_all add: wf_circuit_def tables_ok_def)
  with resp have r: "msg_class resp = ClearChannelResponse" "msg_cid resp = ch_cid (chan ?c ch)"
    using assms(8,9)
    by (auto simp: ServerChannel_clear_def need_def ClearChannelResponse_init_def from_components_def msg_cid_def
        ClearChannelResponseHeader_def dest!: Message_init_Inr(1))
  obtain c' cb where p: "process_command (hk_filter hk) (Command resp) ?c = (c', Inr cb)"
    and ctx2: "ctx_server ctx2 = map_circuit k (\<lambda>vc. vc\<lparr>vc_circuit := c'\<rparr>) (ctx_server ctx)"
    using assms(2,6) same
    by (auto simp: server_send_def process_command_def split: prod.splits sum.splits)
  have closed: "dget (circ_channels_sid c') (msg_sid m) = None" "event_add_commands c' = event_add_commands ?c" "wf_circuit c'"
    using closed_channel [OF assms(1) _ p, of ch "msg_sid m"] r reg by (auto simp: registered_def)
  have "process_command (hk_filter hk) (Command (up_command u)) c' = (c', Inl KeyError)"
    using late_update_fails [OF closed(3) assms(15)] closed assms(11,12,16,17) by simp
  then have fails: "send (hk_filter hk) [up_command u] c' = (c', Inl KeyError)" by (simp add: process_command_def)
  have "sub \<in> set (listed (table_pairs (vc_subscriptions (circuit_of k ctx))) spec)"
    using assms(10) by (simp add: listed_table [OF assms(3)])
  then have id: "sb_id sub \<in> (sb_id \<circ> snd) ` set (table_pairs (vc_subscriptions (circuit_of k ctx)))" by (auto simp: listed_def)
  have alive: "up_id u \<in> set (kept_alive k (ctx_server ctx2))" using assms(14) by (simp add: kept_alive_def ctx2)
  have "send_batch (hk_filter hk) k 1 (ctx_server ctx2)
      = (map_circuit k (\<lambda>vc. vc\<lparr>vc_circuit := c'\<rparr>) (map_circuit k (\<lambda>vc. vc\<lparr>vc_queue := drop 1 (vc_queue vc)\<rparr>) (ctx_server ctx2)),
         [up_command u], Inl KeyError)"
    using alive id assms(2,13,16) fails by (simp add: send_batch_def Let_def ctx2)
  then show ?thesis using assms(10) by (simp add: ctx2)
qed

theorem cleared_channel_update_witness:
  "\<exists>m ctx1 resp ctx2 bufs sv. ClearChannelRequest_init 5 1 = Inr m \<and> handle_clear 1 m example_context = (ctx1, Inr [resp])
     \<and> server_send (example_hooks 3) 1 [resp] ctx1 = (ctx2, Inr bufs)
     \<and> send_batch (hk_filter (example_hooks 3)) 1 1 (ctx_server ctx2) = (sv, [up_command (example_update 0)], Inl KeyError)"
proof -
  let ?k = "1 :: nat" and ?ctx = example_context
  define m where "m = projr (ClearChannelRequest_init 5 1)"
  have m: "ClearChannelRequest_init 5 1 = Inr m" "msg_class m = ClearChannelRequest" "msg_sid m = 5" unfolding m_def by code_simp+
  define resp where "resp = projr (ClearChannelResponse_init 5 1)"
  have resp: "ClearChannelResponse_init 5 1 = Inr resp" unfolding resp_def by code_simp
  have vc: "vc_circuit (circuit_of ?k ?ctx) = server_circuit" "vc_queue (circuit_of ?k ?ctx) = [example_update 0]"
    "unexpired_updates (circuit_of ?k ?ctx) = [(7, [example_update 0])]" "vc_connected (circuit_of ?k ?ctx)"
    "vc_subscriptions (circuit_of ?k ?ctx) = vc_subscriptions (sv_circuits subscribed_server ?k)"
    by (simp_all add: example_context_def subscribed_server_def add_subscription_def cd_subscribe_def example_read_def
        example_server_def tab_append_def Let_def set_specs_def map_circuit_def map_entry_def)
  have wf: "wf_dict (vc_subscriptions (circuit_of ?k ?ctx))"
    using reachable_inv [OF example_reached fresh_inv [OF example_fresh]] vc(5) by (simp add: subs_inv_def)
  have sub: "example_sub \<in> set (subs_of ?k example_spec (ctx_server ?ctx))"
    using subscribed_subs(2) by (simp add: vc(5) del: One_nat_def)
  have clear: "\<exists>ctx1. handle_clear ?k m ?ctx = (ctx1, Inr [resp])"
    using m server_circuit_facts(1-4) resp
    by (simp add: handle_clear_def get_db_entry_from_command_def get_ids_from_command_def has_sid_def getitem_def lookup_name_def
        context_getitem_def example_database_def example_context_def on_server_def cull_nothing just_def ServerChannel_clear_def need_def)
  then obtain ctx1 where ctx1: "handle_clear ?k m ?ctx = (ctx1, Inr [resp])" by blast
  have same: "ctx_server ctx1 = ctx_server ?ctx" by (rule handle_clear_server [OF ctx1 m(2)]) blast
  obtain c' bufs where s: "send (\<lambda>_. Inr no_filter) [resp] server_circuit = (c', Inr bufs)"
    using server_circuit_facts(8) unfolding resp_def [symmetric]
    by (cases "send (\<lambda>_. Inr no_filter) [resp] server_circuit"; cases "snd (send (\<lambda>_. Inr no_filter) [resp] server_circuit)") auto
  then obtain ctx2 where ctx2: "server_send (example_hooks 3) ?k [resp] ctx1 = (ctx2, Inr bufs)"
    using vc(1,4) same by (simp add: server_send_def example_hooks_def del: send.simps One_nat_def)
  obtain event_add where ev: "dget (event_add_commands server_circuit) 7 = Some event_add" "msg_sid event_add = 5"
    using server_circuit_facts(5) by auto
  have u: "msg_class (up_command (example_update 0)) = EventAddResponse" "msg_subscriptionid (up_command (example_update 0)) = 7"
    "msg_data_type (up_command (example_update 0)) = Inr CT_DOUBLE"
    unfolding example_update_def by code_simp+
  have alive: "up_id (example_update 0) \<in> set (kept_alive ?k (ctx_server ?ctx))"
    by (simp add: kept_alive_def vc(3) del: One_nat_def)
  have cid: "0 \<le> ch_cid (chan server_circuit 0)" "ch_cid (chan server_circuit 0) < 2 ^ 32" using server_circuit_facts(3) by simp_all
  have "\<exists>sv. send_batch (hk_filter (example_hooks 3)) ?k 1 (ctx_server ctx2) = (sv, [up_command (example_update 0)], Inl KeyError)"
    using cleared_channel_update [OF _ vc(4) wf m(2) ctx1 ctx2 _ _ _ sub _ _ vc(2) alive u(1) _ u(3), of 0 event_add]
      server_circuit_wf server_circuit_facts(1) ev m(3) u(2) cid example_fields(2)
    unfolding vc(1) by auto
  then show ?thesis using m(1) ctx1 ctx2 by blast
qed

end
