(* ===== verification/CA_Repeater.thy ===== *)
theory CA_Repeater
  imports CA_Broadcaster
begin

text \<open>
  The repeater of \<^verbatim>\<open>caproto/sync/repeater.py\<close>, which fans out server beacons to the clients of a host: the tables of
  clients and servers and one round of the loop of \<^verbatim>\<open>_run_repeater\<close>, from a datagram to the datagrams that are sent
  because of it.
\<close>

section \<open>State\<close>

text \<open>
  \<^verbatim>\<open>clients\<close> maps a port to its host; \<^verbatim>\<open>servers\<close> maps the port of a server to the time of its last beacon and its
  host. Times are integers in any unit.
\<close>

record repeater =
  rp_clients :: "(int, string) dict"
  rp_servers :: "(int, int \<times> string) dict"
  rp_broadcaster :: broadcaster

text \<open>
  What the operating system answers during one round: the clock, whether a port can be bound (nobody uses it any
  more), and whether \<^verbatim>\<open>sendto\<close> to an address raises.
\<close>

record network =
  now :: int
  port_free :: "int \<Rightarrow> bool"
  send_fails :: "address \<Rightarrow> bool"
  checkin_threshold :: int

definition repeater_init :: repeater where
  "repeater_init = \<lparr>rp_clients = [], rp_servers = [], rp_broadcaster = Broadcaster_init SERVER DEFAULT_PROTOCOL_VERSION\<rparr>"

text \<open>\<^verbatim>\<open>check_ports_in_use\<close>: the ports that can be bound.\<close>

definition check_ports_in_use :: "network \<Rightarrow> int list \<Rightarrow> address list" where
  "check_ports_in_use net ports = map (\<lambda>port. ('''', port)) (filter (port_free net) ports)"

text \<open>\<^verbatim>\<open>del clients[port]\<close> for each of the clients to remove raises \<^verbatim>\<open>KeyError\<close> for a port that is not there.\<close>

fun del_clients :: "address list \<Rightarrow> (int, string) dict \<Rightarrow> (int, string) dict result" where
  "del_clients [] clients = Inr clients"
| "del_clients ((host, port) # rest) clients =
     (if dget clients port = None then Inl KeyError else del_clients rest (ddel port clients))"

definition update_all :: "network \<Rightarrow> address list \<Rightarrow> repeater \<Rightarrow> repeater result" where
  "update_all net remove_clients rp =
     bindE (del_clients remove_clients (rp_clients rp)) (\<lambda>clients.
       Inr (rp\<lparr>rp_clients := clients,
               rp_servers := filter (\<lambda>(port, up_at, host). \<not> now net - up_at > checkin_threshold net) (rp_servers rp)\<rparr>))"

section \<open>One round\<close>

text \<open>\<^verbatim>\<open>command.header.parameter2 = v\<close>.\<close>

fun set_parameter2 :: "int \<Rightarrow> header \<Rightarrow> header" where
  "set_parameter2 v (Plain h) = Plain (h\<lparr>mh_parameter2 := word_of_int v\<rparr>)"
| "set_parameter2 v (Extended h) = Extended (h\<lparr>xh_parameter2 := word_of_int v\<rparr>)"

type_synonym sent = "(address \<times> bytes) list"

definition register_client :: "network \<Rightarrow> address \<Rightarrow> repeater \<Rightarrow> (repeater \<times> sent) result" where
  "register_client net addr rp =
     (let (host, port) = addr;
          rp1 = (if dget (rp_clients rp) port = None then rp\<lparr>rp_clients := dset port host (rp_clients rp)\<rparr> else rp)
      in bindE (RepeaterConfirmResponse_init host) (\<lambda>confirm.
           let (b, confirmation_bytes) = bc_send [confirm] (rp_broadcaster rp1); rp2 = rp1\<lparr>rp_broadcaster := b\<rparr>
           in if send_fails net addr then Inl CaprotoNetworkError
              else bindE (update_all net (check_ports_in_use net (map fst (rp_clients rp2))) rp2) (\<lambda>rp3.
                     Inr (rp3, [(addr, confirmation_bytes)]))))"

text \<open>The loop over the commands, with the commands to forward and the datagrams sent so far.\<close>

fun handle_commands ::
  "network \<Rightarrow> address \<Rightarrow> message list \<Rightarrow> repeater \<times> message list \<times> sent \<Rightarrow> (repeater \<times> message list \<times> sent) result" where
  "handle_commands net addr [] acc = Inr acc"
| "handle_commands net addr (command # rest) (rp, to_forward, out) =
     (if msg_class command = Beacon then
        let server_port = h_data_count (msg_header command);
            rp' = rp\<lparr>rp_servers := dset server_port (now net, fst addr) (rp_servers rp)\<rparr>
        in bindE (if h_parameter2 (msg_header command) = 0
                  then bindE (ipv4_to_int32 (fst addr)) (\<lambda>ip.
                         Inr (command\<lparr>msg_header := set_parameter2 ip (msg_header command)\<rparr>))
                  else Inr command) (\<lambda>command'.
             handle_commands net addr rest (rp', to_forward @ [command'], out))
      else if msg_class command = RepeaterRegisterRequest then
        bindE (register_client net addr rp) (\<lambda>(rp', out').
          handle_commands net addr rest (rp', to_forward, out @ out'))
      else handle_commands net addr rest (rp, to_forward @ [command], out))"

text \<open>Sending to all other clients; those that cannot be reached are removed.\<close>

definition broadcast :: "network \<Rightarrow> int \<Rightarrow> bytes \<Rightarrow> repeater \<Rightarrow> (repeater \<times> sent) result" where
  "broadcast net port bytes_to_broadcast rp =
     (let others = map (\<lambda>(p, h). (h, p)) (filter (\<lambda>(p, h). p \<noteq> port) (rp_clients rp));
          to_remove = filter (send_fails net) others;
          out = map (\<lambda>a. (a, bytes_to_broadcast)) (filter (\<lambda>a. \<not> send_fails net a) others)
      in if to_remove \<noteq> [] then bindE (update_all net to_remove rp) (\<lambda>rp'. Inr (rp', out)) else Inr (rp, out))"

definition repeater_round :: "network \<Rightarrow> bytes \<Rightarrow> address \<Rightarrow> repeater \<Rightarrow> (repeater \<times> sent) result" where
  "repeater_round net msg addr rp =
     (let (host, port) = addr in
      if (case dget (rp_clients rp) port of None \<Rightarrow> False | Some h \<Rightarrow> h \<noteq> host) then Inr (rp, [])
      else if (case dget (rp_servers rp) port of None \<Rightarrow> False | Some (_, h) \<Rightarrow> h \<noteq> host) then Inr (rp, [])
      else case bc_recv msg addr (rp_broadcaster rp) of
        Inl e \<Rightarrow> Inr (rp, [])
      | Inr commands \<Rightarrow>
          let rp1 = rp\<lparr>rp_broadcaster := bc_process_commands commands (rp_broadcaster rp)\<rparr>
          in if commands = [] then
               Inr (if dget (rp_clients rp1) port = None then rp1\<lparr>rp_clients := dset port host (rp_clients rp1)\<rparr> else rp1, [])
             else bindE (handle_commands net addr commands (rp1, [], [])) (\<lambda>(rp2, to_forward, out).
                  bindE (broadcast net port (concat (map message_bytes to_forward)) rp2) (\<lambda>(rp3, out').
                    Inr (rp3, out @ out'))))"

section \<open>The tables\<close>

definition wf_repeater :: "repeater \<Rightarrow> bool" where
  "wf_repeater rp \<longleftrightarrow> wf_dict (rp_clients rp) \<and> wf_dict (rp_servers rp)"

lemma wf_dict_filter [simp]: "wf_dict d \<Longrightarrow> wf_dict (filter P d)"
  by (simp add: wf_dict_def distinct_map_filter)

lemma del_clients_present:
  assumes "distinct (map snd as)" and "\<forall>a \<in> set as. dget clients (snd a) \<noteq> None"
  shows "del_clients as clients = Inr (filter (\<lambda>(p, h). p \<notin> snd ` set as) clients)"
  using assms
proof (induction "as" arbitrary: clients)
  case (Cons a as)
  obtain h p where a: "a = (h, p)" by fastforce
  have "\<forall>a \<in> set as. dget (ddel p clients) (snd a) \<noteq> None" using Cons.prems by (auto simp: a dget_ddel)
  with Cons have "del_clients as (ddel p clients) = Inr (filter (\<lambda>(p, h). p \<notin> snd ` set as) (ddel p clients))" by simp
  also have "filter (\<lambda>(p, h). p \<notin> snd ` set as) (ddel p clients) = filter (\<lambda>(q, h). q \<notin> snd ` set (a # as)) clients"
    by (auto simp: a AList.delete_eq intro!: filter_cong)
  finally show ?case using Cons.prems(2) by (simp add: a)
qed simp

text \<open>The clients to remove are always taken from the table, so removing them never fails.\<close>

lemma update_all_present:
  assumes "wf_repeater rp" and "distinct (map snd as)" and "snd ` set as \<subseteq> set (map fst (rp_clients rp))"
  shows "\<exists>rp'. update_all net as rp = Inr rp' \<and> wf_repeater rp'
    \<and> rp_clients rp' = filter (\<lambda>(p, h). p \<notin> snd ` set as) (rp_clients rp) \<and> rp_broadcaster rp' = rp_broadcaster rp"
proof -
  have "\<forall>a \<in> set as. dget (rp_clients rp) (snd a) \<noteq> None" using assms(3) by (auto simp: map_of_eq_None_iff)
  from del_clients_present [OF assms(2) this] assms(1) show ?thesis by (simp add: update_all_def wf_repeater_def)
qed

lemma confirm_made: "ipv4_to_int32 host = Inr n \<Longrightarrow> \<exists>m. RepeaterConfirmResponse_init host = Inr m"
  by (simp add: RepeaterConfirmResponse_init_def Message_init_def validate_def validate_default_def from_components_def
      RepeaterConfirmResponseHeader_def Let_def)

lemma register_client_ok:
  assumes "wf_repeater rp" and "ipv4_to_int32 (fst addr) = Inr n"
  shows "if send_fails net addr then register_client net addr rp = Inl CaprotoNetworkError
    else \<exists>rp' out. register_client net addr rp = Inr (rp', out) \<and> wf_repeater rp'"
proof -
  obtain host port where addr: "addr = (host, port)" by fastforce
  obtain m where m: "RepeaterConfirmResponse_init host = Inr m" using confirm_made assms(2) addr by auto
  define rp1 where "rp1 = (if dget (rp_clients rp) port = None then rp\<lparr>rp_clients := dset port host (rp_clients rp)\<rparr> else rp)"
  define rp2 where "rp2 = rp1\<lparr>rp_broadcaster := fst (bc_send [m] (rp_broadcaster rp1))\<rparr>"
  have wf2: "wf_repeater rp2" using assms(1) by (simp add: rp1_def rp2_def wf_repeater_def)
  let ?as = "check_ports_in_use net (map fst (rp_clients rp2))"
  have "distinct (map snd ?as)" "snd ` set ?as \<subseteq> set (map fst (rp_clients rp2))"
    using wf2 by (simp_all add: check_ports_in_use_def o_def wf_repeater_def wf_dict_def image_subset_iff)
  from update_all_present [OF wf2 this, of net] obtain rp3 where "update_all net ?as rp2 = Inr rp3" "wf_repeater rp3" by blast
  then show ?thesis using m by (auto simp: register_client_def addr rp1_def rp2_def case_prod_beta Let_def)
qed

lemma handle_commands_ok:
  assumes "wf_repeater rp" and "ipv4_to_int32 (fst addr) = Inr n"
  shows "(\<exists>rp' fw out'. handle_commands net addr cs (rp, to_forward, out) = Inr (rp', fw, out') \<and> wf_repeater rp')
    \<or> send_fails net addr \<and> handle_commands net addr cs (rp, to_forward, out) = Inl CaprotoNetworkError"
  using assms(1)
proof (induction cs arbitrary: rp to_forward out)
  case (Cons c cs)
  have reg: "if send_fails net addr then register_client net addr rp = Inl CaprotoNetworkError
      else \<exists>rp' out. register_client net addr rp = Inr (rp', out) \<and> wf_repeater rp'"
    by (rule register_client_ok [OF Cons.prems assms(2)])
  have srv: "wf_repeater (rp\<lparr>rp_servers := dset k v (rp_servers rp)\<rparr>)" for k v
    using Cons.prems by (simp add: wf_repeater_def)
  consider (beacon) "msg_class c = Beacon" | (register) "msg_class c = RepeaterRegisterRequest"
    | (other) "msg_class c \<noteq> Beacon" "msg_class c \<noteq> RepeaterRegisterRequest" by blast
  then show ?case
  proof cases
    case beacon
    then show ?thesis using Cons.IH [OF srv] assms(2) by (simp add: Let_def)
  next
    case register
    then show ?thesis using reg Cons.IH by (cases "send_fails net addr") (fastforce split: prod.splits)+
  next
    case other
    then show ?thesis using Cons.IH [OF Cons.prems] by simp
  qed
qed simp

lemma broadcast_ok:
  assumes "wf_repeater rp"
  shows "\<exists>rp'. broadcast net port bs rp = Inr (rp',
      map (\<lambda>(p, h). ((h, p), bs)) (filter (\<lambda>(p, h). p \<noteq> port \<and> \<not> send_fails net (h, p)) (rp_clients rp))) \<and> wf_repeater rp'
    \<and> rp_clients rp' = filter (\<lambda>(p, h). p = port \<or> \<not> send_fails net (h, p)) (rp_clients rp)"
proof -
  define others where "others = map (\<lambda>(p, h). (h, p)) (filter (\<lambda>(p, h). p \<noteq> port) (rp_clients rp))"
  define gone where "gone = filter (send_fails net) others"
  have "distinct (map snd others)"
    using assms by (simp add: others_def wf_repeater_def wf_dict_def o_def case_prod_beta distinct_map_filter)
  then have "distinct (map snd gone)" by (simp add: gone_def distinct_map_filter)
  moreover have "snd ` set gone \<subseteq> set (map fst (rp_clients rp))" by (force simp: gone_def others_def)
  ultimately obtain rp' where u: "update_all net gone rp = Inr rp'" "wf_repeater rp'"
    "rp_clients rp' = filter (\<lambda>(p, h). p \<notin> snd ` set gone) (rp_clients rp)"
    using update_all_present [OF assms] by blast
  have in_gone: "p \<in> snd ` set gone \<longleftrightarrow> p \<noteq> port \<and> send_fails net (h, p)" if "(p, h) \<in> set (rp_clients rp)" for p h
    using that assms by (force simp: gone_def others_def wf_repeater_def wf_dict_def dest: eq_key_imp_eq_value)
  have keep: "filter (\<lambda>(p, h). p \<notin> snd ` set gone) (rp_clients rp)
      = filter (\<lambda>(p, h). p = port \<or> \<not> send_fails net (h, p)) (rp_clients rp)"
    by (intro filter_cong refl) (clarsimp simp: in_gone)
  have none: "gone = [] \<Longrightarrow> filter (\<lambda>(p, h). p = port \<or> \<not> send_fails net (h, p)) (rp_clients rp) = rp_clients rp"
    using keep by (simp add: case_prod_beta)
  have out: "map (\<lambda>a. (a, bs)) (filter (\<lambda>a. \<not> send_fails net a) others)
      = map (\<lambda>(p, h). ((h, p), bs)) (filter (\<lambda>(p, h). p \<noteq> port \<and> \<not> send_fails net (h, p)) (rp_clients rp))"
    by (simp add: others_def filter_map o_def case_prod_unfold)
  have "broadcast net port bs rp = (if gone \<noteq> [] then bindE (update_all net gone rp) (\<lambda>rp'. Inr (rp', map (\<lambda>a. (a, bs))
      (filter (\<lambda>a. \<not> send_fails net a) others))) else Inr (rp, map (\<lambda>a. (a, bs)) (filter (\<lambda>a. \<not> send_fails net a) others)))"
    by (simp add: broadcast_def Let_def flip: others_def gone_def)
  then show ?thesis using u keep none assms unfolding out by (cases "gone = []") auto
qed

section \<open>Beacons\<close>

lemma beacon_made:
  assumes "ipv4_to_int32 a = Inr n"
  shows "Beacon_init version server_port bid a = Inr (from_components Beacon (BeaconHeader version server_port bid n) [] None)"
  using assms
  by (simp add: Beacon_init_def Message_init_def validate_def validate_default_def from_components_def BeaconHeader_def Let_def)

lemma repeater_class_13: "dget (Commands CLIENT) 13 = Some Beacon"
  by code_simp

text \<open>A repeater reads datagrams as a server does; beacons are registered for both roles.\<close>

lemma read_beacon:
  assumes "m = from_components Beacon (BeaconHeader version server_port bid n) [] None"
  shows "read_datagram (message_bytes m) address CLIENT = Inr [m]"
proof -
  obtain h where h: "msg_header m = Plain h" by (simp add: assms from_components_def BeaconHeader_def MessageHeader_def)
  have m: "m = from_components Beacon (Plain h) [] None" using assms h by (simp add: from_components_def)
  have cmd: "h_command (Plain h) = 13" using h by (simp add: assms from_components_def BeaconHeader_def flip: h)
  have bytes: "message_bytes m = mheader_bytes h"
    by (simp add: m message_bytes_def from_components_def padded_len_def ljust0_def)
  have len: "length (mheader_bytes h) = 16" by (rule mhc.enc_length)
  then have "mheader_bytes h \<noteq> []" by auto
  moreover have "MessageHeader_from_buffer (mheader_bytes h) = Inr (Plain h)" using from_buffer_mheader [of h "[]"] by simp
  moreover have "get_command_class CLIENT (Plain h) = Inr Beacon" using cmd repeater_class_13 by (simp add: get_command_class_def del: h_command.simps)
  ultimately have "read_datagram (mheader_bytes h) address CLIENT = Inr [from_components Beacon (Plain h) [] None]"
    by (simp add: read_datagram.simps [of "mheader_bytes h"] HAS_PAYLOAD_def from_wire_def len read_datagram.simps [of "[]"])
  with bytes m show ?thesis by metis
qed

lemma local_address: "\<exists>n. ipv4_to_int32 ''127.0.0.1'' = Inr n" "\<exists>n. ipv4_to_int32 ''10.0.0.7'' = Inr n"
proof -
  have "inet_pton ''127.0.0.1'' = Inr [127, 0, 0, 1]" "inet_pton ''10.0.0.7'' = Inr [10, 0, 0, 7]" by code_simp+
  then show "\<exists>n. ipv4_to_int32 ''127.0.0.1'' = Inr n" "\<exists>n. ipv4_to_int32 ''10.0.0.7'' = Inr n"
    by (simp_all add: ipv4_to_int32_def)
qed

section \<open>Properties\<close>

text \<open>
  C33. The repeater keeps running. Whatever bytes arrive from whatever (numeric) address, a round ends normally with consistent
  tables, removing a client never fails, and the only exception that leaves the loop is a failed confirmation.
\<close>

theorem repeater_robust:
  assumes "wf_repeater rp" and "ipv4_to_int32 (fst addr) = Inr n"
  shows "(\<exists>rp' out. repeater_round net msg addr rp = Inr (rp', out) \<and> wf_repeater rp')
    \<or> send_fails net addr \<and> repeater_round net msg addr rp = Inl CaprotoNetworkError"
proof (cases "bc_recv msg addr (rp_broadcaster rp)")
  case (Inr cs)
  obtain host port where addr: "addr = (host, port)" by fastforce
  define rp1 where "rp1 = rp\<lparr>rp_broadcaster := bc_process_commands cs (rp_broadcaster rp)\<rparr>"
  have wf1: "wf_repeater rp1" using assms(1) by (simp add: rp1_def wf_repeater_def)
  have new: "wf_repeater (rp1\<lparr>rp_clients := dset port host (rp_clients rp1)\<rparr>)" using wf1 by (simp add: wf_repeater_def)
  have bc: "\<exists>rp3 out'. broadcast net port bs rp2 = Inr (rp3, out') \<and> wf_repeater rp3" if "wf_repeater rp2" for bs rp2
    using broadcast_ok [OF that] by blast
  from handle_commands_ok [OF wf1 assms(2), of net cs "[]" "[]"] show ?thesis
  proof (elim disjE exE conjE)
    fix rp2 fw out
    assume h: "handle_commands net addr cs (rp1, [], []) = Inr (rp2, fw, out)" "wf_repeater rp2"
    with bc [OF h(2), of "concat (map message_bytes fw)"] show ?thesis
      using assms(1) Inr new wf1 by (auto simp: repeater_round_def addr Let_def simp flip: rp1_def split: option.splits)
  next
    assume "send_fails net addr" and "handle_commands net addr cs (rp1, [], []) = Inl CaprotoNetworkError"
    then show ?thesis
      using assms(1) Inr new wf1 by (auto simp: repeater_round_def addr Let_def simp flip: rp1_def split: option.splits)
  qed
qed (use assms(1) in \<open>auto simp: repeater_round_def Let_def split: prod.splits option.splits\<close>)

theorem repeater_robust_witness:
  "\<exists>rp' out. repeater_round \<lparr>now = 0, port_free = \<lambda>_. False, send_fails = \<lambda>_. False, checkin_threshold = 30\<rparr> [1, 2, 3]
     (''127.0.0.1'', 50000) repeater_init = Inr (rp', out) \<and> wf_repeater rp'"
proof -
  have "wf_repeater repeater_init" by (simp add: repeater_init_def wf_repeater_def)
  moreover obtain n where "ipv4_to_int32 (fst (''127.0.0.1'', 50000 :: int)) = Inr n"
    using local_address by auto
  ultimately show ?thesis
    using repeater_robust [of repeater_init "(''127.0.0.1'', 50000)" n
        "\<lparr>now = 0, port_free = \<lambda>_. False, send_fails = \<lambda>_. False, checkin_threshold = 30\<rparr>" "[1, 2, 3]"] by simp
qed

text \<open>
  C34. Beacons are fanned out. A beacon whose sender left the address empty reaches every registered client but the sender's own
  port, once, with the address of the sender filled in; the server's time is noted; and exactly the clients that cannot be
  reached are dropped.
\<close>

theorem repeater_forwards:
  assumes "wf_repeater rp" and "bc_role (rp_broadcaster rp) = SERVER" and "ipv4_to_int32 host = Inr n"
    and "Beacon_init version server_port bid ''0.0.0.0'' = Inr m" and "Beacon_init version server_port bid host = Inr m'"
    and "dget (rp_clients rp) port \<in> {None, Some host}" and "\<forall>t h. dget (rp_servers rp) port = Some (t, h) \<longrightarrow> h = host"
  shows "\<exists>rp'. repeater_round net (message_bytes m) (host, port) rp =
      Inr (rp', map (\<lambda>(p, h). ((h, p), message_bytes m'))
                 (filter (\<lambda>(p, h). p \<noteq> port \<and> \<not> send_fails net (h, p)) (rp_clients rp)))
    \<and> rp_clients rp' = filter (\<lambda>(p, h). p = port \<or> \<not> send_fails net (h, p)) (rp_clients rp)"
proof -
  have z: "ipv4_to_int32 ''0.0.0.0'' = Inr 0" by code_simp
  have m: "m = from_components Beacon (BeaconHeader version server_port bid 0) [] None"
    using beacon_made [OF z] assms(4) by simp
  have m': "m' = from_components Beacon (BeaconHeader version server_port bid n) [] None"
    using beacon_made [OF assms(3)] assms(5) by simp
  have cmd: "m\<lparr>msg_header := set_parameter2 n (msg_header m)\<rparr> = m'"
    by (simp add: m m' from_components_def BeaconHeader_def MessageHeader_def)
  have p2: "h_parameter2 (msg_header m) = 0" and cls: "msg_class m = Beacon"
    by (simp_all add: m from_components_def BeaconHeader_def)
  have recv: "bc_recv (message_bytes m) (host, port) (rp_broadcaster rp) = Inr [m]"
    using read_beacon [OF m, of "(host, port)"] assms(2) by (simp add: bc_recv_def)
  define rp2 where "rp2 = rp\<lparr>rp_broadcaster := bc_process_commands [m] (rp_broadcaster rp),
      rp_servers := dset (h_data_count (msg_header m)) (now net, host) (rp_servers rp)\<rparr>"
  have wf2: "wf_repeater rp2" using assms(1) by (simp add: rp2_def wf_repeater_def)
  have "handle_commands net (host, port) [m] (rp\<lparr>rp_broadcaster := bc_process_commands [m] (rp_broadcaster rp)\<rparr>, [], [])
      = Inr (rp2, [m'], [])"
    using cls p2 assms(3) cmd by (simp add: rp2_def Let_def)
  moreover have "concat (map message_bytes [m']) = message_bytes m'" by simp
  moreover obtain rp' where "broadcast net port (message_bytes m') rp2 = Inr (rp', map (\<lambda>(p, h). ((h, p), message_bytes m'))
      (filter (\<lambda>(p, h). p \<noteq> port \<and> \<not> send_fails net (h, p)) (rp_clients rp)))"
    "rp_clients rp' = filter (\<lambda>(p, h). p = port \<or> \<not> send_fails net (h, p)) (rp_clients rp)"
    using broadcast_ok [OF wf2, of net port "message_bytes m'"] by (auto simp: rp2_def)
  ultimately show ?thesis
    using assms(6,7) recv by (auto simp: repeater_round_def Let_def split: option.splits)
qed

theorem repeater_forwards_witness:
  "\<exists>m m' rp'. Beacon_init 13 5064 7 ''0.0.0.0'' = Inr m \<and> Beacon_init 13 5064 7 ''10.0.0.7'' = Inr m'
     \<and> repeater_round \<lparr>now = 0, port_free = \<lambda>_. False, send_fails = \<lambda>(h, p). p = 2, checkin_threshold = 30\<rparr>
         (message_bytes m) (''10.0.0.7'', 5064) (repeater_init\<lparr>rp_clients := [(1, ''127.0.0.1''), (2, ''127.0.0.1'')]\<rparr>)
       = Inr (rp', [((''127.0.0.1'', 1), message_bytes m')]) \<and> rp_clients rp' = [(1, ''127.0.0.1'')]"
proof -
  let ?rp = "repeater_init\<lparr>rp_clients := [(1, ''127.0.0.1''), (2, ''127.0.0.1'')]\<rparr>"
  have w: "wf_repeater ?rp" "bc_role (rp_broadcaster ?rp) = SERVER"
    by (simp_all add: repeater_init_def wf_repeater_def wf_dict_def Broadcaster_init_def)
  have z: "ipv4_to_int32 ''0.0.0.0'' = Inr 0" by code_simp
  obtain n where h: "ipv4_to_int32 ''10.0.0.7'' = Inr n" using local_address by auto
  have g: "dget (rp_clients ?rp) 5064 \<in> {None, Some ''10.0.0.7''}"
    "\<forall>t h. dget (rp_servers ?rp) 5064 = Some (t, h) \<longrightarrow> h = ''10.0.0.7''"
    by (simp_all add: repeater_init_def)
  from repeater_forwards [OF w h beacon_made [OF z] beacon_made [OF h] g,
      of "\<lparr>now = 0, port_free = \<lambda>_. False, send_fails = \<lambda>(h, p). p = 2, checkin_threshold = 30\<rparr>" 13 5064 7]
  show ?thesis using beacon_made [OF z, of 13 5064 7] beacon_made [OF h, of 13 5064 7] by auto
qed

end
