(* ===== verification/CA_Convert.thy ===== *)
theory CA_Convert
  imports CA_Filters CA_Data
begin

text \<open>
  Values on their way between Python and the wire: \<^verbatim>\<open>convert_values\<close> of \<^verbatim>\<open>caproto/_backend.py\<close> with its preprocessing for each
  pair of a type and a direction, and the backend for the \<^verbatim>\<open>array\<close> module of Python, \<^verbatim>\<open>caproto/_array_backend.py\<close>. An
  array is its items as the bytes they have in memory, so that byte order and byte swapping are what they are in the
  program. The byte order of the machine is an argument.
\<close>

section \<open>Python values\<close>

text \<open>
  What the arithmetic of floating point numbers, of type \<open>'r\<close>, does: \<^verbatim>\<open>int(x)\<close>, \<^verbatim>\<open>float(i)\<close>, \<^verbatim>\<open>float(s)\<close>, \<^verbatim>\<open>str(x)\<close>, the truth value,
  \<^verbatim>\<open>0 <= x < n\<close>, and the formats in memory.
\<close>

record 'r float_ops =
  fo_trunc :: "'r \<Rightarrow> int result"
  fo_of_int :: "int \<Rightarrow> 'r result"
  fo_parse :: "pystr \<Rightarrow> 'r result"
  fo_show :: "'r \<Rightarrow> pystr"
  fo_true :: "'r \<Rightarrow> bool"
  fo_below :: "'r \<Rightarrow> int \<Rightarrow> bool"
  fo_single :: "'r \<Rightarrow> 32 word"
  fo_double :: "'r \<Rightarrow> 64 word"
  fo_of_single :: "32 word \<Rightarrow> 'r"
  fo_of_double :: "64 word \<Rightarrow> 'r"

datatype 'r atom = A_str pystr | A_bytes bytes | A_int int | A_float 'r

text \<open>The codes of \<^verbatim>\<open>array.array\<close> in \<^verbatim>\<open>type_map\<close>.\<close>

datatype typecode = TC_B | TC_h | TC_H | TC_b | TC_i | TC_f | TC_d

fun itemsize :: "typecode \<Rightarrow> nat" where
  "itemsize TC_B = 1" | "itemsize TC_h = 2" | "itemsize TC_H = 2" | "itemsize TC_b = 1" | "itemsize TC_i = 4"
| "itemsize TC_f = 4" | "itemsize TC_d = 8"

definition type_map :: "(ChannelType, typecode) dict" where
  "type_map = [(CT_STRING, TC_B), (CT_INT, TC_h), (CT_FLOAT, TC_f), (CT_ENUM, TC_H), (CT_CHAR, TC_b), (CT_LONG, TC_i),
     (CT_DOUBLE, TC_d), (CT_STSACK_STRING, TC_b), (CT_CLASS_NAME, TC_b), (CT_PUT_ACKS, TC_H), (CT_PUT_ACKT, TC_H)]"

text \<open>\<^verbatim>\<open>Array\<close>: the attribute \<^verbatim>\<open>endian\<close> is only a note; reading an item always uses the order of the machine.\<close>

record arr =
  arr_code :: typecode
  arr_big :: bool
  arr_items :: "bytes list"

datatype 'r pyvalue = V_one "'r atom" | V_list "'r atom list" | V_array arr | V_strings "bytes list"

section \<open>Arrays\<close>

text \<open>\<open>big\<close> tells whether the machine is big-endian.\<close>

definition in_order :: "bool \<Rightarrow> bytes \<Rightarrow> bytes" where
  "in_order big bs = (if big then bs else rev bs)"

text \<open>The bounds of the integer codes; floating point numbers have none.\<close>

fun int_range :: "typecode \<Rightarrow> (int \<times> int) option" where
  "int_range TC_B = Some (0, 255)"
| "int_range TC_h = Some (- 32768, 32767)"
| "int_range TC_H = Some (0, 65535)"
| "int_range TC_b = Some (- 128, 127)"
| "int_range TC_i = Some (- 2147483648, 2147483647)"
| "int_range TC_f = None"
| "int_range TC_d = None"

definition float_item :: "'r float_ops \<Rightarrow> typecode \<Rightarrow> 'r \<Rightarrow> bytes" where
  "float_item fo tc x = (if tc = TC_f then be32 (fo_single fo x) else be64 (fo_double fo x))"

text \<open>Storing a value in an array, most significant byte first.\<close>

definition store_item :: "'r float_ops \<Rightarrow> typecode \<Rightarrow> 'r atom \<Rightarrow> bytes result" where
  "store_item fo tc v =
     (case int_range tc of
        Some (lo, hi) \<Rightarrow>
          (case v of
             A_int i \<Rightarrow> if lo \<le> i \<and> i \<le> hi then Inr (be_of_nat (itemsize tc) (nat (i mod 256 ^ itemsize tc))) else Inl OverflowError
           | _ \<Rightarrow> Inl TypeError)
      | None \<Rightarrow>
          (case v of
             A_int i \<Rightarrow> bindE (fo_of_int fo i) (\<lambda>x. Inr (float_item fo tc x))
           | A_float x \<Rightarrow> Inr (float_item fo tc x)
           | _ \<Rightarrow> Inl TypeError))"

definition load_item :: "'r float_ops \<Rightarrow> typecode \<Rightarrow> bytes \<Rightarrow> 'r atom" where
  "load_item fo tc bs =
     (case int_range tc of
        Some (lo, hi) \<Rightarrow> let n = int (nat_of_be bs) in A_int (if n \<le> hi then n else n - 256 ^ itemsize tc)
      | None \<Rightarrow> A_float (if tc = TC_f then fo_of_single fo (un_be32 bs) else fo_of_double fo (un_be64 bs)))"

definition tolist :: "bool \<Rightarrow> 'r float_ops \<Rightarrow> arr \<Rightarrow> 'r atom list" where
  "tolist big fo a = map (\<lambda>bs. load_item fo (arr_code a) (in_order big bs)) (arr_items a)"

definition tobytes :: "arr \<Rightarrow> bytes" where
  "tobytes a = concat (arr_items a)"

definition byteswap :: "arr \<Rightarrow> arr" where
  "byteswap a = a\<lparr>arr_big := \<not> arr_big a, arr_items := map rev (arr_items a)\<rparr>"

text \<open>\<^verbatim>\<open>[f(v) for v in values]\<close>.\<close>

fun mapE :: "('a \<Rightarrow> 'b result) \<Rightarrow> 'a list \<Rightarrow> 'b list result" where
  "mapE f [] = Inr []"
| "mapE f (x # xs) = bindE (f x) (\<lambda>y. bindE (mapE f xs) (\<lambda>ys. Inr (y # ys)))"

text \<open>Cutting bytes into items; a rest is an error.\<close>

fun chunks :: "nat \<Rightarrow> bytes \<Rightarrow> bytes list option" where
  "chunks n [] = Some []"
| "chunks n (b # bs) =
     (if n = 0 \<or> length (b # bs) < n then None else map_option ((#) (take n (b # bs))) (chunks n (drop n (b # bs))))"

text \<open>What iterating over a value gives; a number is not iterable.\<close>

definition iter_atoms :: "bool \<Rightarrow> 'r float_ops \<Rightarrow> 'r pyvalue \<Rightarrow> 'r atom list result" where
  "iter_atoms big fo v =
     (case v of
        V_one (A_str s) \<Rightarrow> Inr (map (\<lambda>c. A_str [c]) s)
      | V_one (A_bytes b) \<Rightarrow> Inr (map (\<lambda>x. A_int (uint x)) b)
      | V_one _ \<Rightarrow> Inl TypeError
      | V_list xs \<Rightarrow> Inr xs
      | V_array a \<Rightarrow> Inr (tolist big fo a)
      | V_strings ss \<Rightarrow> Inr (map A_bytes ss))"

text \<open>\<^verbatim>\<open>Array(typecode, values, endian=...)\<close>: bytes are taken as they are, a string is refused.\<close>

definition Array_init :: "bool \<Rightarrow> 'r float_ops \<Rightarrow> typecode \<Rightarrow> 'r pyvalue \<Rightarrow> bool \<Rightarrow> arr result" where
  "Array_init big fo tc v endian =
     bindE (case v of
              V_one (A_str s) \<Rightarrow> Inl TypeError
            | V_one (A_bytes b) \<Rightarrow> (case chunks (itemsize tc) b of None \<Rightarrow> Inl ValueError | Some cs \<Rightarrow> Inr cs)
            | _ \<Rightarrow> bindE (iter_atoms big fo v) (mapE (\<lambda>x. bindE (store_item fo tc x) (\<lambda>bs. Inr (in_order big bs)))))
       (\<lambda>items. Inr \<lparr>arr_code = tc, arr_big = endian, arr_items = items\<rparr>)"

text \<open>\<^verbatim>\<open>epics_to_python\<close>, for the \<^verbatim>\<open>memoryview\<close> of a payload: a length that is no multiple of the item size is refused.\<close>

definition epics_to_python :: "bool \<Rightarrow> bytes \<Rightarrow> ChannelType \<Rightarrow> int option \<Rightarrow> bool \<Rightarrow> 'r pyvalue result" where
  "epics_to_python big payload native data_count auto_byteswap =
     (if native = CT_STRING then Inr (V_strings (DbrStringArray_frombuffer payload data_count))
      else bindE (getitem type_map native) (\<lambda>dt.
             case chunks (itemsize dt) payload of
               None \<Rightarrow> Inl TypeError
             | Some items \<Rightarrow>
                 let a = \<lparr>arr_code = dt, arr_big = True, arr_items = items\<rparr>
                 in Inr (V_array (if \<not> big \<and> auto_byteswap then byteswap a else a))))"

section \<open>Numbers and strings\<close>

text \<open>\<^verbatim>\<open>str(i)\<close>.\<close>

fun show_nat :: "nat \<Rightarrow> pystr" where
  "show_nat n = (if n < 10 then [48 + n] else show_nat (n div 10) @ [48 + n mod 10])"

declare show_nat.simps [simp del]

definition show_int :: "int \<Rightarrow> pystr" where
  "show_int i = (if i < 0 then 45 # show_nat (nat (- i)) else show_nat (nat i))"

text \<open>
  \<^verbatim>\<open>int(b)\<close> of bytes: only ASCII white space is stripped, and no other byte beyond the digits, the signs and the underscore is
  accepted. Strings are taken to have code points below 256.
\<close>

definition int_of_bytes :: "bytes \<Rightarrow> int result" where
  "int_of_bytes b =
     (if list_ex (\<lambda>c. c \<ge> 128 \<or> 28 \<le> c \<and> c \<le> 31) (map unat b) then Inl ValueError else py_int (map unat b))"

definition float_of_bytes :: "'r float_ops \<Rightarrow> bytes \<Rightarrow> 'r result" where
  "float_of_bytes fo b =
     (if list_ex (\<lambda>c. c \<ge> 128 \<or> 28 \<le> c \<and> c \<le> 31) (map unat b) then Inl ValueError else fo_parse fo (map unat b))"

text \<open>\<^verbatim>\<open>int(v)\<close>, \<^verbatim>\<open>float(v)\<close>, \<^verbatim>\<open>str(v)\<close> of a number, and the truth value.\<close>

fun int_of_atom :: "'r float_ops \<Rightarrow> 'r atom \<Rightarrow> int result" where
  "int_of_atom fo (A_str s) = py_int s"
| "int_of_atom fo (A_bytes b) = int_of_bytes b"
| "int_of_atom fo (A_int i) = Inr i"
| "int_of_atom fo (A_float x) = fo_trunc fo x"

fun float_of_atom :: "'r float_ops \<Rightarrow> 'r atom \<Rightarrow> 'r result" where
  "float_of_atom fo (A_str s) = fo_parse fo s"
| "float_of_atom fo (A_bytes b) = float_of_bytes fo b"
| "float_of_atom fo (A_int i) = fo_of_int fo i"
| "float_of_atom fo (A_float x) = Inr x"

fun atom_true :: "'r float_ops \<Rightarrow> 'r atom \<Rightarrow> bool" where
  "atom_true fo (A_str s) = (s \<noteq> [])"
| "atom_true fo (A_bytes b) = (b \<noteq> [])"
| "atom_true fo (A_int i) = (i \<noteq> 0)"
| "atom_true fo (A_float x) = fo_true fo x"

text \<open>A text encoding: \<^verbatim>\<open>encode\<close> and \<^verbatim>\<open>decode\<close>.\<close>

record codec =
  cd_encode :: "pystr \<Rightarrow> bytes result"
  cd_decode :: "bytes \<Rightarrow> pystr result"

definition latin1 :: codec where
  "latin1 = \<lparr>cd_encode = (\<lambda>s. if list_all (\<lambda>c. c < 256) s then Inr (map word_of_nat s) else Inl ValueError),
     cd_decode = (\<lambda>b. Inr (latin1_decode b))\<rparr>"

fun encode_or_fail :: "'r atom \<Rightarrow> codec option \<Rightarrow> bytes result" where
  "encode_or_fail (A_str s) encoding = (case encoding of None \<Rightarrow> Inl CaprotoConversionError | Some c \<Rightarrow> cd_encode c s)"
| "encode_or_fail (A_bytes b) encoding = Inr b"
| "encode_or_fail _ encoding = Inl CaprotoConversionError"

fun decode_or_fail :: "'r atom \<Rightarrow> codec option \<Rightarrow> pystr result" where
  "decode_or_fail (A_bytes b) encoding = (case encoding of None \<Rightarrow> Inl CaprotoConversionError | Some c \<Rightarrow> cd_decode c b)"
| "decode_or_fail (A_str s) encoding = Inr s"
| "decode_or_fail _ encoding = Inl CaprotoConversionError"

section \<open>Preprocessing\<close>

text \<open>The target of a conversion: a native type, or the long string that is equal to \<^verbatim>\<open>CHAR\<close> as a number.\<close>

datatype target = Native ChannelType | Long_string

fun target_type :: "target \<Rightarrow> ChannelType" where
  "target_type (Native t) = t" | "target_type Long_string = CT_CHAR"

definition native_int_types :: "ChannelType set" where
  "native_int_types = {CT_INT, CT_CHAR, CT_LONG, CT_ENUM}"

definition native_float_types :: "ChannelType set" where
  "native_float_types = {CT_FLOAT, CT_DOUBLE}"

text \<open>A string or bytes become a list of one element.\<close>

definition wrap_text :: "'r pyvalue \<Rightarrow> 'r pyvalue" where
  "wrap_text v = (case v of V_one (A_str s) \<Rightarrow> V_list [A_str s] | V_one (A_bytes b) \<Rightarrow> V_list [A_bytes b] | _ \<Rightarrow> v)"

definition enum_index :: "'r float_ops \<Rightarrow> nat \<Rightarrow> 'r atom \<Rightarrow> nat result" where
  "enum_index fo n v =
     (case v of
        A_int i \<Rightarrow> if 0 \<le> i \<and> i < int n then Inr (nat i) else Inl CaprotoConversionError
      | A_float x \<Rightarrow> if fo_below fo x (int n) then bindE (fo_trunc fo x) (\<lambda>i. Inr (nat i)) else Inl CaprotoConversionError
      | _ \<Rightarrow> Inl CaprotoConversionError)"

definition enum_to_string :: "'r float_ops \<Rightarrow> pystr list \<Rightarrow> 'r atom \<Rightarrow> 'r atom result" where
  "enum_to_string fo strs v =
     (case v of
        A_str s \<Rightarrow> if s \<in> set strs then Inr v else Inl CaprotoConversionError
      | _ \<Rightarrow> bindE (enum_index fo (length strs) v) (\<lambda>i. Inr (A_str (strs ! i))))"

definition enum_to_int :: "'r float_ops \<Rightarrow> pystr list \<Rightarrow> 'r atom \<Rightarrow> 'r atom result" where
  "enum_to_int fo strs v =
     (case v of
        A_str s \<Rightarrow> (case find (\<lambda>i. strs ! i = s) [0..<length strs] of None \<Rightarrow> Inl CaprotoConversionError | Some i \<Rightarrow> Inr (A_int (int i)))
      | _ \<Rightarrow> bindE (enum_index fo (length strs) v) (\<lambda>i. Inr (A_int (int i))))"

definition preprocess_enum_values ::
  "bool \<Rightarrow> 'r float_ops \<Rightarrow> 'r pyvalue \<Rightarrow> target \<Rightarrow> codec option \<Rightarrow> pystr list option \<Rightarrow> 'r pyvalue result" where
  "preprocess_enum_values big fo values to encoding enum_strings =
     (case enum_strings of
        None \<Rightarrow> Inl CaprotoConversionError
      | Some strs \<Rightarrow>
          bindE (iter_atoms big fo (wrap_text values)) (\<lambda>vs.
          bindE (mapE (if to = Native CT_STRING then enum_to_string fo strs else enum_to_int fo strs) vs) (\<lambda>ws. Inr (V_list ws))))"

text \<open>Only arrays have \<^verbatim>\<open>tobytes\<close>.\<close>

definition value_tobytes :: "'r pyvalue \<Rightarrow> bytes result" where
  "value_tobytes v =
     (case v of V_array a \<Rightarrow> Inr (tobytes a) | V_strings ss \<Rightarrow> Inr (DbrStringArray_tobytes ss) | _ \<Rightarrow> Inl AttributeError)"

definition preprocess_char_from_wire ::
  "'r pyvalue \<Rightarrow> target \<Rightarrow> codec option \<Rightarrow> 'r pyvalue result" where
  "preprocess_char_from_wire values to encoding =
     bindE (case values of V_list [] \<Rightarrow> Inl IndexError | V_list (x # _) \<Rightarrow> Inl AttributeError | _ \<Rightarrow> value_tobytes values) (\<lambda>b.
       if target_type to = CT_STRING \<or> target_type to = CT_CHAR then
         (case encoding of
            None \<Rightarrow> Inr (if target_type to = CT_STRING then V_list [A_bytes b] else V_one (A_bytes b))
          | Some c \<Rightarrow> bindE (cd_decode c b) (\<lambda>s. Inr (V_one (A_str (takeWhile (\<lambda>ch. ch \<noteq> 0) s)))))
       else Inr (V_list (map (\<lambda>x. A_int (uint x)) b)))"

text \<open>\<^verbatim>\<open>values[0]\<close> tells numbers from sequences; an empty sequence raises \<^verbatim>\<open>IndexError\<close>.\<close>

definition preprocess_char_to_wire ::
  "bool \<Rightarrow> 'r float_ops \<Rightarrow> 'r pyvalue \<Rightarrow> target \<Rightarrow> codec option \<Rightarrow> 'r pyvalue result" where
  "preprocess_char_to_wire big fo values to encoding =
     (let values = (case values of V_list [x] \<Rightarrow> V_one x | _ \<Rightarrow> values);
          is_text = (case values of V_one (A_str _) \<Rightarrow> True | V_one (A_bytes _) \<Rightarrow> True | _ \<Rightarrow> False);
          encoded = (case values of V_one x \<Rightarrow> encode_or_fail x encoding | _ \<Rightarrow> Inl CaprotoConversionError)
      in if target_type to = CT_STRING then
           if is_text then bindE encoded (\<lambda>b. Inr (V_list (map (\<lambda>x. A_bytes [x]) b))) else Inr values
         else if is_text then bindE encoded (\<lambda>b. Inr (V_list (map (\<lambda>x. A_int (uint x)) b)))
         else case values of
           V_one x \<Rightarrow> Inr (V_list [x])
         | _ \<Rightarrow> bindE (iter_atoms big fo values) (\<lambda>vs. if vs = [] then Inl IndexError else Inr values))"

definition decode_list :: "codec option \<Rightarrow> 'r atom list \<Rightarrow> 'r atom list result" where
  "decode_list encoding =
     mapE (\<lambda>v. case v of A_bytes b \<Rightarrow> bindE (decode_or_fail v encoding) (\<lambda>s. Inr (A_str s)) | _ \<Rightarrow> Inr v)"

definition numbers_of :: "'r float_ops \<Rightarrow> target \<Rightarrow> 'r atom list \<Rightarrow> 'r pyvalue result" where
  "numbers_of fo to vs =
     (if target_type to \<in> native_int_types
      then bindE (mapE (\<lambda>v. if atom_true fo v then int_of_atom fo v else Inr 0) vs) (\<lambda>is. Inr (V_list (map A_int is)))
      else bindE (mapE (\<lambda>v. if atom_true fo v then float_of_atom fo v else fo_of_int fo 0) vs) (\<lambda>xs. Inr (V_list (map A_float xs))))"

definition preprocess_string_from_wire ::
  "bool \<Rightarrow> 'r float_ops \<Rightarrow> 'r pyvalue \<Rightarrow> target \<Rightarrow> codec option \<Rightarrow> pystr list option \<Rightarrow> 'r pyvalue result" where
  "preprocess_string_from_wire big fo values to encoding enum_strings =
     (if target_type to = CT_STRING then Inr values
      else bindE (iter_atoms big fo values) (\<lambda>vs.
        if target_type to = CT_ENUM then
          bindE (decode_list encoding vs) (\<lambda>ws. preprocess_enum_values big fo (V_list ws) (Native CT_INT) encoding enum_strings)
        else numbers_of fo to vs))"

definition preprocess_string_to_wire ::
  "bool \<Rightarrow> 'r float_ops \<Rightarrow> 'r pyvalue \<Rightarrow> target \<Rightarrow> codec option \<Rightarrow> pystr list option \<Rightarrow> 'r pyvalue result" where
  "preprocess_string_to_wire big fo values to encoding enum_strings =
     (let values = wrap_text values
      in if target_type to = CT_STRING then Inr values
         else bindE (iter_atoms big fo values) (\<lambda>vs.
           if target_type to = CT_ENUM then
             bindE (decode_list encoding vs) (\<lambda>ws. preprocess_enum_values big fo (V_list ws) (Native CT_INT) encoding enum_strings)
           else case (to, vs) of
             (Long_string, A_str s # _) \<Rightarrow> bindE (encode_or_fail (A_str s :: 'r atom) encoding) (\<lambda>b. Inr (V_list (map (\<lambda>x. A_int (uint x)) b)))
           | (Long_string, A_bytes b # _) \<Rightarrow> Inr (V_list (map (\<lambda>x. A_int (uint x)) b))
           | _ \<Rightarrow> numbers_of fo to vs))"
section \<open>Conversion\<close>

datatype direction = FROM_WIRE | TO_WIRE

text \<open>\<^verbatim>\<open>DbrStringArray(values).tobytes()\<close>: items that are not bytes cannot be padded.\<close>

definition strings_tobytes :: "bool \<Rightarrow> 'r float_ops \<Rightarrow> 'r pyvalue \<Rightarrow> bytes result" where
  "strings_tobytes big fo values =
     bindE (iter_atoms big fo values) (\<lambda>vs.
     bindE (mapE (\<lambda>v. case v of A_bytes b \<Rightarrow> Inr b | _ \<Rightarrow> Inl TypeError) vs) (\<lambda>ss. Inr (DbrStringArray_tobytes ss)))"

definition python_to_epics ::
  "bool \<Rightarrow> 'r float_ops \<Rightarrow> ChannelType \<Rightarrow> 'r pyvalue \<Rightarrow> bool \<Rightarrow> ChannelType option \<Rightarrow> 'r pyvalue result" where
  "python_to_epics big fo dtype values swap convert_from =
     (if dtype = CT_STRING then bindE (strings_tobytes big fo values) (\<lambda>b. Inr (V_one (A_bytes b)))
      else bindE (getitem type_map dtype) (\<lambda>typecode.
        let as_is = (case values of V_array a \<Rightarrow> typecode = arr_code a \<and> swap \<and> arr_big a | _ \<Rightarrow> False);
            values = (case values of V_array a \<Rightarrow> if as_is then values else V_list (tolist big fo a) | _ \<Rightarrow> values)
        in if as_is then Inr values
           else bindE (if convert_from \<in> Some ` native_float_types \<and> dtype \<in> native_int_types
                       then bindE (iter_atoms big fo values) (\<lambda>vs. bindE (mapE (int_of_atom fo) vs) (\<lambda>is. Inr (V_list (map A_int is))))
                       else Inr values) (\<lambda>values.
                bindE (Array_init big fo typecode values big) (\<lambda>a.
                  Inr (V_array (if swap \<and> \<not> big then byteswap a else a))))))"

text \<open>\<^verbatim>\<open>_encode_to_string_array\<close> and \<^verbatim>\<open>_decode_string_list\<close>.\<close>

fun show_atom :: "'r float_ops \<Rightarrow> 'r atom \<Rightarrow> pystr" where
  "show_atom fo (A_int i) = show_int i"
| "show_atom fo (A_float x) = fo_show fo x"
| "show_atom fo (A_str s) = s"
| "show_atom fo (A_bytes b) = []"

definition encode_to_string_array :: "bool \<Rightarrow> 'r float_ops \<Rightarrow> 'r pyvalue \<Rightarrow> codec option \<Rightarrow> 'r pyvalue result" where
  "encode_to_string_array big fo values encoding =
     bindE (iter_atoms big fo values) (\<lambda>vs.
     bindE (mapE (\<lambda>v. case v of A_bytes b \<Rightarrow> Inr b | _ \<Rightarrow> encode_or_fail (A_str (show_atom fo v) :: 'r atom) encoding) vs)
       (\<lambda>ss. Inr (V_strings ss)))"

definition decode_string_list :: "bool \<Rightarrow> 'r float_ops \<Rightarrow> 'r pyvalue \<Rightarrow> codec option \<Rightarrow> 'r pyvalue result" where
  "decode_string_list big fo values encoding =
     bindE (iter_atoms big fo values) (\<lambda>vs.
     bindE (mapE (\<lambda>v. case v of
          A_bytes b \<Rightarrow> (case encoding of None \<Rightarrow> Inr v | Some c \<Rightarrow> bindE (cd_decode c b) (\<lambda>s. Inr (A_str s)))
        | _ \<Rightarrow> Inr (A_str (show_atom fo v))) vs) (\<lambda>ws. Inr (V_list ws)))"

definition preprocess ::
  "bool \<Rightarrow> 'r float_ops \<Rightarrow> ChannelType \<Rightarrow> direction \<Rightarrow> 'r pyvalue \<Rightarrow> target \<Rightarrow> codec option \<Rightarrow> pystr list option \<Rightarrow> 'r pyvalue result" where
  "preprocess big fo from_dtype direction values to encoding enum_strings =
     (if from_dtype = CT_ENUM then preprocess_enum_values big fo values to encoding enum_strings
      else if from_dtype = CT_CHAR then
        (if direction = FROM_WIRE then preprocess_char_from_wire values to encoding
         else preprocess_char_to_wire big fo values to encoding)
      else if from_dtype = CT_STRING then
        (if direction = FROM_WIRE then preprocess_string_from_wire big fo values to encoding enum_strings
         else preprocess_string_to_wire big fo values to encoding enum_strings)
      else Inr values)"

text \<open>Character data that are text already are returned as they are: a string with an encoding, bytes in a list without one.\<close>

definition stays_text :: "bool \<Rightarrow> 'r float_ops \<Rightarrow> 'r pyvalue \<Rightarrow> codec option \<Rightarrow> bool result" where
  "stays_text big fo values encoding =
     bindE (iter_atoms big fo values) (\<lambda>vs. Inr (case vs of
        A_str _ # _ \<Rightarrow> encoding \<noteq> None | A_bytes _ # _ \<Rightarrow> encoding = None | _ \<Rightarrow> False))"

definition convert_values ::
  "bool \<Rightarrow> 'r float_ops \<Rightarrow> 'r pyvalue \<Rightarrow> ChannelType \<Rightarrow> target \<Rightarrow> direction \<Rightarrow> codec option \<Rightarrow> pystr list option \<Rightarrow> bool \<Rightarrow> 'r pyvalue result" where
  "convert_values big fo values from_dtype to direction encoding enum_strings auto_byteswap =
     (let special = {CT_STSACK_STRING, CT_CLASS_NAME};
          to_dtype = target_type to
      in if from_dtype \<in> special \<or> to_dtype \<in> special then
           (if from_dtype \<noteq> to_dtype then Inl CaprotoConversionError else Inr values)
         else if to_dtype \<notin> set native_types \<or> from_dtype \<notin> set native_types then Inl CaprotoConversionError
         else let values = (case values of V_one (A_int i) \<Rightarrow> V_list [A_int i] | V_one (A_float x) \<Rightarrow> V_list [A_float x] | _ \<Rightarrow> values)
         in case preprocess big fo from_dtype direction values to encoding enum_strings of
              Inl _ \<Rightarrow> Inl CaprotoConversionError
            | Inr values \<Rightarrow>
                let values = (if from_dtype \<in> {CT_ENUM, CT_CHAR, CT_STRING} \<and> to_dtype = CT_STRING then wrap_text values else values)
                in if to_dtype = CT_STRING then
                     (if direction = TO_WIRE then encode_to_string_array big fo values encoding
                      else decode_string_list big fo values encoding)
                   else bindE (if to_dtype = CT_CHAR then stays_text big fo values encoding else Inr False) (\<lambda>stays.
                     if stays then Inr values
                     else python_to_epics big fo to_dtype values (auto_byteswap \<and> direction = TO_WIRE) (Some from_dtype)))"

section \<open>Lemmas\<close>

lemma in_order_twice [simp]: "in_order big (in_order big bs) = bs"
  by (simp add: in_order_def)

lemma in_order_True [simp]: "in_order True = id"
  by (simp add: in_order_def fun_eq_iff)

lemma length_in_order [simp]: "length (in_order big bs) = length bs"
  by (simp add: in_order_def)

lemma mapE_cong [fundef_cong]: "xs = ys \<Longrightarrow> (\<And>x. x \<in> set ys \<Longrightarrow> f x = g x) \<Longrightarrow> mapE f xs = mapE g ys"
  by (induction ys arbitrary: xs) auto

lemma mapE_Inr: "mapE (\<lambda>x. Inr (f x)) xs = Inr (map f xs)"
  by (induction xs) auto

lemma mapE_eq_Inr: "mapE f xs = Inr ys \<longleftrightarrow> list_all2 (\<lambda>x y. f x = Inr y) xs ys"
  by (induction xs arbitrary: ys) (auto simp: bindE_eq_Inr list_all2_Cons1)

lemma mapE_bind: "mapE (\<lambda>x. bindE (f x) (\<lambda>y. Inr (g y))) xs = bindE (mapE f xs) (\<lambda>ys. Inr (map g ys))"
  by (induction xs) (auto simp: bindE_def split: sum.splits)

lemma chunks_concat:
  assumes "\<forall>b \<in> set bs. length b = n" and "0 < n"
  shows "chunks n (concat bs) = Some bs"
  using assms
proof (induction bs)
  case (Cons b bs)
  then obtain x xs where b: "b = x # xs" "length (x # xs) = n" by (cases b) auto
  have "chunks n (concat bs) = Some bs" using Cons by simp
  moreover have "take n (x # xs @ concat bs) = b" "drop n (x # xs @ concat bs) = concat bs"
    using b by (simp_all flip: append_Cons)
  ultimately show ?case using b Cons.prems(2) by simp
qed simp

text \<open>The items of a code are a fixed-width encoding of the numbers that fit it.\<close>

lemma length_store_item: "store_item fo tc v = Inr bs \<Longrightarrow> length bs = itemsize tc"
  by (cases tc) (auto simp: store_item_def float_item_def bindE_eq_Inr split: atom.splits if_splits)

text \<open>What a stored number reads back as: integers as they are, floating point numbers in the precision of the code.\<close>

definition rounded :: "'r float_ops \<Rightarrow> typecode \<Rightarrow> 'r \<Rightarrow> 'r" where
  "rounded fo tc x = (if tc = TC_f then fo_of_single fo (fo_single fo x) else fo_of_double fo (fo_double fo x))"

definition stored :: "'r float_ops \<Rightarrow> typecode \<Rightarrow> 'r atom \<Rightarrow> 'r atom result" where
  "stored fo tc v =
     (case int_range tc of
        Some (lo, hi) \<Rightarrow> (case v of A_int i \<Rightarrow> if lo \<le> i \<and> i \<le> hi then Inr v else Inl OverflowError | _ \<Rightarrow> Inl TypeError)
      | None \<Rightarrow>
          (case v of
             A_int i \<Rightarrow> bindE (fo_of_int fo i) (\<lambda>x. Inr (A_float (rounded fo tc x)))
           | A_float x \<Rightarrow> Inr (A_float (rounded fo tc x))
           | _ \<Rightarrow> Inl TypeError))"

lemma load_float_item: "int_range tc = None \<Longrightarrow> load_item fo tc (float_item fo tc x) = A_float (rounded fo tc x)"
  by (cases tc) (simp_all add: load_item_def float_item_def rounded_def)

lemma load_int_item:
  assumes "int_range tc = Some (lo, hi)" and "lo \<le> i" and "i \<le> hi"
  shows "load_item fo tc (be_of_nat (itemsize tc) (nat (i mod 256 ^ itemsize tc))) = A_int i"
proof -
  have read: "int (nat_of_be (be_of_nat (itemsize tc) (nat (i mod 256 ^ itemsize tc)))) = i mod 256 ^ itemsize tc"
    by (simp add: nat_of_be_be_of_nat zmod_int)
  have "i mod 256 ^ itemsize tc = (if 0 \<le> i then i else i + 256 ^ itemsize tc)"
  proof (cases "0 \<le> i")
    case False
    then have "0 \<le> i + 256 ^ itemsize tc" "i + 256 ^ itemsize tc < 256 ^ itemsize tc"
      using assms by (cases tc; auto)+
    then have "(i + 256 ^ itemsize tc) mod 256 ^ itemsize tc = i + 256 ^ itemsize tc" by (rule mod_pos_pos_trivial)
    then show ?thesis using False by (simp only: mod_add_self2 if_False)
  qed (use assms in \<open>cases tc; auto intro: mod_pos_pos_trivial\<close>)
  then show ?thesis
    using assms unfolding load_item_def read by (cases tc) (auto simp: Let_def)
qed

lemma store_load: "stored fo tc v = bindE (store_item fo tc v) (\<lambda>bs. Inr (load_item fo tc bs))"
  by (cases "int_range tc"; cases v)
    (auto simp: stored_def store_item_def load_float_item load_int_item bindE_assoc split: prod.splits)

text \<open>Integers for an integer type are truncated first, all of them, then stored.\<close>

definition wire_numbers :: "'r float_ops \<Rightarrow> ChannelType \<Rightarrow> ChannelType \<Rightarrow> 'r atom list \<Rightarrow> 'r atom list result" where
  "wire_numbers fo from_dtype to xs =
     bindE (if from_dtype \<in> native_float_types \<and> to \<in> native_int_types
            then bindE (mapE (int_of_atom fo) xs) (\<lambda>is. Inr (map A_int is)) else Inr xs)
       (mapE (stored fo (the (dget type_map to))))"

lemma Array_init_list:
  "Array_init big fo tc (V_list xs) e =
     bindE (mapE (store_item fo tc) xs) (\<lambda>bs. Inr \<lparr>arr_code = tc, arr_big = e, arr_items = map (in_order big) bs\<rparr>)"
  by (simp add: Array_init_def iter_atoms_def mapE_bind bindE_assoc)

lemma tolist_in_order:
  "tolist big fo \<lparr>arr_code = tc, arr_big = e, arr_items = map (in_order big) bs\<rparr> = map (load_item fo tc) bs"
  by (simp add: tolist_def comp_def)

text \<open>An array in network order, as \<^verbatim>\<open>python_to_epics\<close> leaves it.\<close>

lemma network_order:
  "(if \<not> big then byteswap \<lparr>arr_code = tc, arr_big = big, arr_items = map (in_order big) bs\<rparr>
    else \<lparr>arr_code = tc, arr_big = big, arr_items = map (in_order big) bs\<rparr>)
   = \<lparr>arr_code = tc, arr_big = True, arr_items = bs\<rparr>"
  by (cases big) (simp_all add: byteswap_def in_order_def comp_def)

lemma python_to_epics_list:
  assumes "dget type_map t = Some tc" and "t \<noteq> CT_STRING"
  shows "python_to_epics big fo t (V_list xs) True cf =
    bindE (if cf \<in> Some ` native_float_types \<and> t \<in> native_int_types
           then bindE (mapE (int_of_atom fo) xs) (\<lambda>is. Inr (map A_int is)) else Inr xs) (\<lambda>xs.
    bindE (mapE (store_item fo tc) xs) (\<lambda>bs. Inr (V_array \<lparr>arr_code = tc, arr_big = True, arr_items = bs\<rparr>)))"
  using assms network_order [of big tc]
  by (auto simp: python_to_epics_def getitem_def iter_atoms_def Array_init_list bindE_assoc Let_def)

lemma python_to_epics_host:
  assumes "dget type_map t = Some tc" and "t \<noteq> CT_STRING" and "cf \<notin> Some ` native_float_types"
  shows "python_to_epics big fo t (V_list xs) False cf =
    bindE (mapE (store_item fo tc) xs) (\<lambda>bs. Inr (V_array \<lparr>arr_code = tc, arr_big = big, arr_items = map (in_order big) bs\<rparr>))"
  using assms by (simp add: python_to_epics_def getitem_def Array_init_list bindE_assoc Let_def)

lemma epics_to_python_items:
  assumes "dget type_map t = Some tc" and "t \<noteq> CT_STRING" and "\<forall>b \<in> set bs. length b = itemsize tc"
  shows "\<exists>a. epics_to_python big (concat bs) t n True = Inr (V_array a) \<and> arr_code a = tc \<and> tolist big fo a = map (load_item fo tc) bs"
proof -
  have "0 < itemsize tc" by (cases tc) auto
  then show ?thesis
    using assms chunks_concat [of bs "itemsize tc"]
    by (auto simp: epics_to_python_def getitem_def tolist_def in_order_def byteswap_def comp_def Let_def)
qed

lemma packed_again:
  assumes "dget type_map t = Some tc" and "t \<noteq> CT_STRING"
  shows "python_to_epics big fo t (V_array \<lparr>arr_code = tc, arr_big = True, arr_items = bs\<rparr>) True cf
    = Inr (V_array \<lparr>arr_code = tc, arr_big = True, arr_items = bs\<rparr>)"
  using assms by (simp add: python_to_epics_def getitem_def)

lemma stored_items: "mapE (stored fo tc) xs = bindE (mapE (store_item fo tc) xs) (\<lambda>bs. Inr (map (load_item fo tc) bs))"
  unfolding store_load [abs_def] by (rule mapE_bind)

lemma items_lengths: "mapE (store_item fo tc) xs = Inr bs \<Longrightarrow> \<forall>b \<in> set bs. length b = itemsize tc"
  by (auto simp: mapE_eq_Inr in_set_conv_nth list_all2_conv_all_nth) (metis length_store_item)


text \<open>An example of the operations on floating point numbers, for numbers that are integers.\<close>

definition int_floats :: "int float_ops" where
  "int_floats = \<lparr>fo_trunc = Inr, fo_of_int = Inr, fo_parse = py_int, fo_show = show_int, fo_true = (\<lambda>x. x \<noteq> 0),
     fo_below = (\<lambda>x n. 0 \<le> x \<and> x < n), fo_single = word_of_int, fo_double = word_of_int, fo_of_single = sint, fo_of_double = sint\<rparr>"


lemma stays_text_numbers [simp]: "stays_text big fo (V_list (map A_int is)) encoding = Inr False"
  by (cases "is") (simp_all add: stays_text_def iter_atoms_def)

lemma char_items:
  "mapE (store_item fo TC_b) (map A_int (map uint (bs :: bytes))) =
     (if \<forall>x \<in> set bs. uint x < 128 then Inr (map (\<lambda>x. [x]) bs) else Inl OverflowError)"
proof (induction bs)
  case (Cons x bs)
  have "store_item fo TC_b (A_int (uint x)) = (if uint x < 128 then Inr [x] else Inl OverflowError)"
    using uint_bounded [of x] order_trans [OF _ uint_ge_0, of "- 128" x] by (auto simp: store_item_def)
  with Cons.IH show ?case by auto
qed simp

lemma latin1_bytes:
  assumes "\<forall>c \<in> set s. c < 256"
  shows "map uint (map word_of_nat s :: bytes) = map int s" and "latin1_decode (map word_of_nat s) = s"
  using assms by (auto simp: latin1_decode_def unsigned_of_nat take_bit_eq_mod intro!: map_idI)

lemma char_payload:
  "epics_to_python big bs CT_CHAR n True
     = Inr (V_array \<lparr>arr_code = TC_b, arr_big = big, arr_items = map (\<lambda>x. [x]) bs\<rparr>)"
proof -
  have "chunks 1 (concat (map (\<lambda>x. [x]) bs)) = Some (map (\<lambda>x. [x]) bs)" by (rule chunks_concat) auto
  then show ?thesis by (cases big) (simp_all add: epics_to_python_def getitem_def type_map_def byteswap_def comp_def Let_def)
qed

text \<open>
  A string channel is read as a long string only if it is ASCII. With this backend characters are signed bytes: the text
  arrives as it is, up to the first NUL, if all its code points are below 128, and any other text that the encoding of the
  channel can represent makes every such read fail with \<^verbatim>\<open>OverflowError\<close>. Written to a character channel the text is taken as
  it is, but an empty one is refused with \<^verbatim>\<open>TypeError\<close>.
\<close>

theorem long_string_ascii:
  fixes fo :: "'r float_ops"
  assumes "\<forall>c \<in> set s. c < 256" and "t = takeWhile (\<lambda>c. c \<noteq> 0) s"
  shows "if \<forall>c \<in> set s. c < 128
    then \<exists>a a'. convert_values big fo (V_one (A_str s)) CT_STRING Long_string TO_WIRE (Some latin1) strs True = Inr (V_array a)
      \<and> epics_to_python big' (tobytes a) CT_CHAR n True = Inr (V_array a' :: 'r pyvalue)
      \<and> convert_values big' fo (V_array a') CT_CHAR (Native CT_STRING) FROM_WIRE (Some latin1) None True = Inr (V_list [A_str t])
      \<and> convert_values big' fo (V_array a') CT_CHAR (Native CT_CHAR) FROM_WIRE (Some latin1) None True
        = (if t = [] then Inl TypeError else Inr (V_one (A_str t)))
    else convert_values big fo (V_one (A_str s)) CT_STRING Long_string TO_WIRE (Some latin1) strs True = Inl OverflowError"
proof -
  define bs :: bytes where "bs = map word_of_nat s"
  have num: "map uint bs = map int s" "latin1_decode bs = s" using latin1_bytes [OF assms(1)] by (simp_all add: bs_def)
  have ascii: "(\<forall>x \<in> set bs. uint x < 128) \<longleftrightarrow> (\<forall>c \<in> set s. c < 128)"
    using arg_cong [OF num(1), of "\<lambda>xs. \<forall>x \<in> set xs. x < 128"] by simp
  have "cd_encode latin1 s = Inr bs" using assms(1) by (simp add: latin1_def list_all_iff bs_def)
  then have "preprocess big fo CT_STRING TO_WIRE (V_one (A_str s)) Long_string (Some latin1) strs = Inr (V_list (map A_int (map uint bs)))"
    by (simp add: preprocess_def preprocess_string_to_wire_def wrap_text_def iter_atoms_def comp_def)
  then have conv: "convert_values big fo (V_one (A_str s)) CT_STRING Long_string TO_WIRE (Some latin1) strs True
      = (if \<forall>c \<in> set s. c < 128 then Inr (V_array \<lparr>arr_code = TC_b, arr_big = True, arr_items = map (\<lambda>x. [x]) bs\<rparr>) else Inl OverflowError)"
    unfolding ascii [symmetric]
    by (simp add: convert_values_def native_types_def Let_def python_to_epics_list [of CT_CHAR TC_b] type_map_def
        native_float_types_def char_items image_iff del: map_map)
  let ?a = "\<lparr>arr_code = TC_b, arr_big = big', arr_items = map (\<lambda>x. [x]) bs\<rparr>"
  have "preprocess_char_from_wire (V_array ?a) (Native t') (Some latin1) = Inr (V_one (A_str t) :: 'r pyvalue)"
    if "t' \<in> {CT_STRING, CT_CHAR}" for t'
    using that num(2) assms(2) by (auto simp: preprocess_char_from_wire_def value_tobytes_def tobytes_def latin1_def comp_def)
  then have "convert_values big' fo (V_array ?a) CT_CHAR (Native CT_STRING) FROM_WIRE (Some latin1) None True = Inr (V_list [A_str t])"
    "convert_values big' fo (V_array ?a) CT_CHAR (Native CT_CHAR) FROM_WIRE (Some latin1) None True
       = (if t = [] then Inl TypeError else Inr (V_one (A_str t)))"
    by (auto simp: convert_values_def preprocess_def native_types_def wrap_text_def decode_string_list_def iter_atoms_def Let_def
        stays_text_def neq_Nil_conv python_to_epics_def getitem_def type_map_def Array_init_def native_float_types_def)
  then show ?thesis by (simp add: conv tobytes_def comp_def char_payload)
qed

theorem long_string_ascii_witness:
  "convert_values False int_floats (V_one (A_str [104, 228])) CT_STRING Long_string TO_WIRE (Some latin1) None True = Inl OverflowError"
  using long_string_ascii [of "[104, 228]" "[104, 228]" False int_floats None False None] by simp

end
