(* ===== verification/CA_Search.thy ===== *)
theory CA_Search
  imports CA_Ids CA_Commands
begin

text \<open>
  \<^verbatim>\<open>SearchResults\<close> of \<^verbatim>\<open>caproto/client/search_results.py\<close>: what a client knows about where channels are served. The pending
  searches are objects shared by three dictionaries, so they live in a store. The lock that serialises the methods is
  not modelled: a method is one step. The argument \<open>now\<close> is the reading of \<^verbatim>\<open>time.monotonic()\<close> in it; times are integers
  in any unit. The results queue of a search is a value of type \<open>'q\<close>.
\<close>

section \<open>State\<close>

text \<open>The value stored for a name and an address: a time, or \<^verbatim>\<open>VALID_CHANNEL_MARKER\<close>.\<close>

datatype stamp = VALID_CHANNEL_MARKER | At int

record 'q unanswered_search =
  us_name :: pystr
  us_results_queue :: 'q
  us_last_sent :: int
  us_retirement_deadline :: int

record beacon_info =
  bi_time :: int
  bi_identifier :: int
  bi_interval :: int

record 'q search_results =
  name_to_addrs :: "(pystr, (address, stamp) dict) dict"
  addr_to_names :: "(address, pystr list) dict"
  sr_searches :: "(int, nat) dict"
  searches_by_name :: "(pystr, nat) dict"
  unanswered_searches :: "(int, nat) dict"
  last_beacon :: "(address, beacon_info) dict"
  search_id_counter :: int
  sr_items :: "'q unanswered_search list"

text \<open>The counter starts at \<^verbatim>\<open>random.randint(0, MAX_ID)\<close>.\<close>

definition SearchResults_init :: "int \<Rightarrow> 'q search_results" where
  "SearchResults_init start =
     \<lparr>name_to_addrs = [], addr_to_names = [], sr_searches = [], searches_by_name = [], unanswered_searches = [],
      last_beacon = [], search_id_counter = start, sr_items = []\<rparr>"

text \<open>A set of names is a list without repetitions.\<close>

definition set_addr :: "pystr \<Rightarrow> address \<Rightarrow> stamp \<Rightarrow> 'q search_results \<Rightarrow> 'q search_results" where
  "set_addr name addr t sr =
     sr\<lparr>name_to_addrs := dset name (dset addr t (dd_value (name_to_addrs sr) name)) (name_to_addrs sr)\<rparr>"

definition pop_addr :: "pystr \<Rightarrow> address \<Rightarrow> 'q search_results \<Rightarrow> 'q search_results" where
  "pop_addr name addr sr =
     sr\<lparr>name_to_addrs := dset name (ddel addr (dd_value (name_to_addrs sr) name)) (name_to_addrs sr)\<rparr>"

definition add_name :: "pystr \<Rightarrow> address \<Rightarrow> 'q search_results \<Rightarrow> 'q search_results" where
  "add_name name addr sr =
     sr\<lparr>addr_to_names := dset addr (List.insert name (dd_value (addr_to_names sr) addr)) (addr_to_names sr)\<rparr>"

section \<open>Operations\<close>

definition get_last_beacon_times :: "'q search_results \<Rightarrow> (address, int) dict" where
  "get_last_beacon_times sr = map (\<lambda>(addr, info). (addr, bi_time info)) (last_beacon sr)"

definition SEARCH_RETIREMENT_AGE :: int where "SEARCH_RETIREMENT_AGE = 8 * 60"

definition new_server_found :: "int \<Rightarrow> 'q search_results \<Rightarrow> 'q search_results" where
  "new_server_found now sr =
     sr\<lparr>sr_items := fold (\<lambda>i items. items[i := (items ! i)\<lparr>us_retirement_deadline := now + SEARCH_RETIREMENT_AGE\<rparr>])
          (map snd (unanswered_searches sr)) (sr_items sr)\<rparr>"

text \<open>
  A beacon: all names of that server are known to be alive. \<open>short\<close> is the limit of 0.1 s within which a repeated
  beacon is ignored. The comparison \<^verbatim>\<open>interval < last / 4\<close> is written without division.
\<close>

definition mark_server_alive :: "int \<Rightarrow> int \<Rightarrow> address \<Rightarrow> int \<Rightarrow> 'q search_results \<Rightarrow> 'q search_results" where
  "mark_server_alive short now address identifier sr =
     (let sr1 = sr\<lparr>addr_to_names := dd_touch address (addr_to_names sr)\<rparr>;
          sr2 = fold (\<lambda>name. set_addr name address (At now)) (dd_value (addr_to_names sr) address) sr1
      in case dget (last_beacon sr2) address of
           None \<Rightarrow>
             (new_server_found now sr2)\<lparr>last_beacon :=
                dset address \<lparr>bi_time = now, bi_identifier = identifier, bi_interval = 0\<rparr> (last_beacon sr2)\<rparr>
         | Some info \<Rightarrow>
             let interval = now - bi_time info
             in if bi_identifier info = identifier \<and> interval < short then sr2
                else let sr3 = (if 4 * interval < bi_interval info then new_server_found now sr2 else sr2)
                     in sr3\<lparr>last_beacon :=
                          dset address \<lparr>bi_time = now, bi_identifier = identifier, bi_interval = interval\<rparr> (last_beacon sr3)\<rparr>)"

text \<open>
  \<^verbatim>\<open>cancel\<close>: \<^verbatim>\<open>_searches_by_name\<close> holds the search objects, so what it pops there is not a search id, and popping
  \<^verbatim>\<open>_unanswered_searches\<close> with that object as the key finds nothing.
\<close>

definition cancel :: "pystr list \<Rightarrow> 'q search_results \<Rightarrow> 'q search_results" where
  "cancel names sr = sr\<lparr>searches_by_name := fold ddel names (searches_by_name sr)\<rparr>"

definition contains :: "pystr \<Rightarrow> 'q search_results \<Rightarrow> bool" where
  "contains name sr \<longleftrightarrow> dd_value (name_to_addrs sr) name \<noteq> []"

definition clear :: "'q search_results \<Rightarrow> 'q search_results" where
  "clear sr = sr\<lparr>name_to_addrs := [], addr_to_names := [], unanswered_searches := [], searches_by_name := [], sr_searches := []\<rparr>"

definition mark_server_disconnected :: "address \<Rightarrow> 'q search_results \<Rightarrow> 'q search_results" where
  "mark_server_disconnected addr sr =
     fold (\<lambda>name. pop_addr name addr) (dd_value (addr_to_names sr) addr)
       (sr\<lparr>addr_to_names := ddel addr (addr_to_names sr)\<rparr>)"

text \<open>\<^verbatim>\<open>set.remove\<close> raises \<^verbatim>\<open>KeyError\<close>; the names removed before stay removed.\<close>

fun remove_name :: "pystr \<Rightarrow> address list \<Rightarrow> 'q search_results \<Rightarrow> 'q search_results \<times> unit result" where
  "remove_name name [] sr = (sr, Inr ())"
| "remove_name name (addr # addrs) sr =
     (let names = dd_value (addr_to_names sr) addr;
          sr1 = sr\<lparr>addr_to_names := dd_touch addr (addr_to_names sr)\<rparr>
      in if name \<notin> set names then (sr1, Inl KeyError)
         else remove_name name addrs (sr1\<lparr>addr_to_names := dset addr (remove1 name names) (addr_to_names sr1)\<rparr>))"

definition invalidate_by_name :: "pystr \<Rightarrow> 'q search_results \<Rightarrow> 'q search_results \<times> unit result" where
  "invalidate_by_name name sr = remove_name name (map fst (dd_value (name_to_addrs sr) name)) sr"

definition mark_name_found :: "int \<Rightarrow> pystr \<Rightarrow> address \<Rightarrow> 'q search_results \<Rightarrow> 'q search_results" where
  "mark_name_found now name addr sr = add_name name addr (set_addr name addr (At now) sr)"

definition mark_channel_created :: "pystr \<Rightarrow> address \<Rightarrow> 'q search_results \<Rightarrow> 'q search_results" where
  "mark_channel_created name addr sr = add_name name addr (set_addr name addr VALID_CHANNEL_MARKER sr)"

definition mark_channel_disconnected :: "pystr \<Rightarrow> address \<Rightarrow> 'q search_results \<Rightarrow> 'q search_results" where
  "mark_channel_disconnected name addr sr =
     (let names = dd_value (addr_to_names sr) addr
      in pop_addr name addr (sr\<lparr>addr_to_names := dset addr (remove1 name names) (addr_to_names sr)\<rparr>))"

text \<open>
  The loop of \<^verbatim>\<open>get_cached_search_result\<close> over the entries of a name. \<^verbatim>\<open>time.monotonic() - timestamp\<close> is computed before the
  marker is looked at and raises \<^verbatim>\<open>TypeError\<close> for it. Of several fresh entries the last one is the result.
\<close>

fun cached_loop ::
  "int \<Rightarrow> int \<Rightarrow> (address \<times> stamp) list \<Rightarrow> address option \<Rightarrow> (address, stamp) dict \<Rightarrow> (address, stamp) dict \<times> address option result"
where
  "cached_loop threshold now [] best entry = (entry, Inr best)"
| "cached_loop threshold now ((addr, VALID_CHANNEL_MARKER) # rest) best entry = (entry, Inl TypeError)"
| "cached_loop threshold now ((addr, At t) # rest) best entry =
     (if now - t < threshold then cached_loop threshold now rest (Some addr) entry
      else cached_loop threshold now rest best (ddel addr entry))"

definition get_cached_search_result :: "int \<Rightarrow> int \<Rightarrow> pystr \<Rightarrow> 'q search_results \<Rightarrow> 'q search_results \<times> address result" where
  "get_cached_search_result threshold now name sr =
     (let entry = dd_value (name_to_addrs sr) name;
          (entry', res) = cached_loop threshold now entry None entry
      in (sr\<lparr>name_to_addrs := dset name entry' (name_to_addrs sr)\<rparr>,
          bindE res (\<lambda>best. case best of Some addr \<Rightarrow> Inr addr | None \<Rightarrow> Inl CaprotoKeyError)))"

definition received_search_response :: "int \<Rightarrow> int \<Rightarrow> address \<Rightarrow> 'q search_results \<Rightarrow> 'q search_results \<times> (pystr \<times> 'q) result" where
  "received_search_response now cid addr sr =
     (case dget (unanswered_searches sr) cid of
        Some i \<Rightarrow>
          let info = sr_items sr ! i
          in (mark_name_found now (us_name info) addr (sr\<lparr>unanswered_searches := ddel cid (unanswered_searches sr)\<rparr>),
              Inr (us_name info, us_results_queue info))
      | None \<Rightarrow>
          (case dget (sr_searches sr) cid of
             None \<Rightarrow> (sr, Inl UnknownSearchResponse)
           | Some i \<Rightarrow> (mark_name_found now (us_name (sr_items sr ! i)) addr sr, Inl DuplicateSearchResponse)))"

text \<open>\<^verbatim>\<open>items_to_retry\<close>; a threshold of zero is not a threshold.\<close>

definition items_to_retry :: "int \<Rightarrow> int \<Rightarrow> 'q search_results \<Rightarrow> (int \<times> 'q unanswered_search) list" where
  "items_to_retry threshold resend_deadline sr =
     (let items = map (\<lambda>(k, i). (k, sr_items sr ! i)) (unanswered_searches sr)
      in if threshold = 0 then items
         else filter (\<lambda>(k, it). us_retirement_deadline it > threshold \<and> us_last_sent it < resend_deadline) items)"

definition search_one :: "'q \<Rightarrow> int \<Rightarrow> pystr \<Rightarrow> 'q search_results \<Rightarrow> 'q search_results option" where
  "search_one results_queue retirement_deadline name sr =
     (case ThreadsafeCounter_call (map fst (unanswered_searches sr)) (search_id_counter sr) of
        None \<Rightarrow> None
      | Some id_v \<Rightarrow>
          let i = length (sr_items sr);
              item = \<lparr>us_name = name, us_results_queue = results_queue, us_last_sent = 0,
                      us_retirement_deadline = retirement_deadline\<rparr>
          in Some (sr\<lparr>search_id_counter := id_v, sr_items := sr_items sr @ [item],
               unanswered_searches := dset id_v i (unanswered_searches sr), sr_searches := dset id_v i (sr_searches sr),
               searches_by_name := dset name i (searches_by_name sr)\<rparr>))"

text \<open>\<^verbatim>\<open>search\<close>; \<open>None\<close> when no search id is free and the call does not return.\<close>

fun search :: "pystr list \<Rightarrow> 'q \<Rightarrow> int \<Rightarrow> 'q search_results \<Rightarrow> 'q search_results option" where
  "search [] results_queue retirement_deadline sr = Some sr"
| "search (name # names) results_queue retirement_deadline sr =
     (case search_one results_queue retirement_deadline name sr of
        None \<Rightarrow> None | Some sr' \<Rightarrow> search names results_queue retirement_deadline sr')"

text \<open>
  \<^verbatim>\<open>split_cached_results\<close>: the loop with the two collections built so far. Only \<^verbatim>\<open>KeyError\<close> and its subclasses are caught.
\<close>

fun split_loop ::
  "int \<Rightarrow> int \<Rightarrow> pystr list \<Rightarrow> (address, pystr list) dict \<Rightarrow> pystr list \<Rightarrow> 'q search_results
     \<Rightarrow> 'q search_results \<times> ((address, pystr list) dict \<times> pystr list) result" where
  "split_loop threshold now [] use_cached needs_search sr = (sr, Inr (use_cached, needs_search))"
| "split_loop threshold now (name # names) use_cached needs_search sr =
     (case get_cached_search_result threshold now name sr of
        (sr1, Inr address) \<Rightarrow>
          split_loop threshold now names (dset address (dd_value use_cached address @ [name]) use_cached) needs_search sr1
      | (sr1, Inl e) \<Rightarrow>
          if e = CaprotoKeyError \<or> e = KeyError then split_loop threshold now names use_cached (needs_search @ [name]) sr1
          else (sr1, Inl e))"

definition split_cached_results ::
  "int \<Rightarrow> int \<Rightarrow> pystr list \<Rightarrow> 'q search_results \<Rightarrow> 'q search_results \<times> ((address, pystr list) dict \<times> pystr list) result" where
  "split_cached_results threshold now names sr = split_loop threshold now names [] [] sr"

section \<open>Invariant\<close>

text \<open>
  Pending searches are registered searches and refer to items; the names of an address are a set; and every cached
  address of a name has the name in its index.
\<close>

definition searches_ok :: "'q search_results \<Rightarrow> bool" where
  "searches_ok sr \<longleftrightarrow>
     (\<forall>k i. dget (sr_searches sr) k = Some i \<longrightarrow> i < length (sr_items sr))
   \<and> (\<forall>k i. dget (unanswered_searches sr) k = Some i \<longrightarrow> dget (sr_searches sr) k = Some i)"

definition names_distinct :: "'q search_results \<Rightarrow> bool" where
  "names_distinct sr \<longleftrightarrow> (\<forall>addr. distinct (dd_value (addr_to_names sr) addr))"

definition indexed :: "'q search_results \<Rightarrow> bool" where
  "indexed sr \<longleftrightarrow>
     (\<forall>name addr. dget (dd_value (name_to_addrs sr) name) addr \<noteq> None \<longrightarrow> name \<in> set (dd_value (addr_to_names sr) addr))"

definition wf_search :: "'q search_results \<Rightarrow> bool" where
  "wf_search sr \<longleftrightarrow> searches_ok sr \<and> names_distinct sr \<and> indexed sr"

text \<open>The states a client reaches without \<^verbatim>\<open>invalidate_by_name\<close>.\<close>

inductive known :: "'q search_results \<Rightarrow> bool" where
  init: "known (SearchResults_init start)"
| alive: "known sr \<Longrightarrow> known (mark_server_alive short now addr identifier sr)"
| cancel: "known sr \<Longrightarrow> known (cancel names sr)"
| clear: "known sr \<Longrightarrow> known (clear sr)"
| server_disconnected: "known sr \<Longrightarrow> known (mark_server_disconnected addr sr)"
| found: "known sr \<Longrightarrow> known (mark_name_found now name addr sr)"
| created: "known sr \<Longrightarrow> known (mark_channel_created name addr sr)"
| channel_disconnected: "known sr \<Longrightarrow> known (mark_channel_disconnected name addr sr)"
| cached: "known sr \<Longrightarrow> known (fst (get_cached_search_result threshold now name sr))"
| response: "known sr \<Longrightarrow> known (fst (received_search_response now cid addr sr))"
| search: "known sr \<Longrightarrow> search names queue deadline sr = Some sr' \<Longrightarrow> known sr'"
| split: "known sr \<Longrightarrow> known (fst (split_cached_results threshold now names sr))"

section \<open>Lemmas\<close>

lemma indexedI:
  "(\<And>name addr t. dget (dd_value (name_to_addrs sr) name) addr = Some t \<Longrightarrow> name \<in> set (dd_value (addr_to_names sr) addr)) \<Longrightarrow> indexed sr"
  unfolding indexed_def by blast

lemma indexedD: "indexed sr \<Longrightarrow> dget (dd_value (name_to_addrs sr) name) addr = Some t \<Longrightarrow> name \<in> set (dd_value (addr_to_names sr) addr)"
  unfolding indexed_def by blast

lemma names_distinctD: "names_distinct sr \<Longrightarrow> distinct (dd_value (addr_to_names sr) addr)"
  unfolding names_distinct_def by blast

lemma searches_ok_fields [simp]:
  "searches_ok (sr\<lparr>name_to_addrs := a\<rparr>) = searches_ok sr" "searches_ok (sr\<lparr>addr_to_names := b\<rparr>) = searches_ok sr"
  "searches_ok (sr\<lparr>last_beacon := c\<rparr>) = searches_ok sr" "searches_ok (sr\<lparr>searches_by_name := d\<rparr>) = searches_ok sr"
  by (simp_all add: searches_ok_def)

lemma search_tables_fields [simp]:
  "names_distinct (sr\<lparr>name_to_addrs := a\<rparr>) = names_distinct sr" "names_distinct (sr\<lparr>last_beacon := c\<rparr>) = names_distinct sr"
  "names_distinct (sr\<lparr>sr_items := e\<rparr>) = names_distinct sr" "indexed (sr\<lparr>last_beacon := c\<rparr>) = indexed sr"
  "indexed (sr\<lparr>sr_items := e\<rparr>) = indexed sr" "indexed (sr\<lparr>searches_by_name := d\<rparr>) = indexed sr"
  "names_distinct (sr\<lparr>searches_by_name := d\<rparr>) = names_distinct sr"
  "names_distinct (sr\<lparr>unanswered_searches := u\<rparr>) = names_distinct sr" "indexed (sr\<lparr>unanswered_searches := u\<rparr>) = indexed sr"
  by (simp_all add: names_distinct_def indexed_def)

lemma wf_pop_addr: "wf_search sr \<Longrightarrow> wf_search (pop_addr name addr sr)"
  by (auto simp: wf_search_def pop_addr_def indexed_def dget_ddel)

lemma wf_found: "wf_search sr \<Longrightarrow> wf_search (add_name name addr (set_addr name addr t sr))"
  by (auto simp: wf_search_def add_name_def set_addr_def indexed_def names_distinct_def dget_dset searches_ok_def)

lemma wf_unanswered_del: "wf_search sr \<Longrightarrow> wf_search (sr\<lparr>unanswered_searches := ddel k (unanswered_searches sr)\<rparr>)"
  by (auto simp: wf_search_def searches_ok_def dget_ddel)

lemma length_deadlines: "length (fold (\<lambda>i items. items[i := f (items ! i)]) is items) = length items"
  by (induction "is" arbitrary: items) auto

lemma wf_new_server: "wf_search sr \<Longrightarrow> wf_search (new_server_found now sr)"
  by (simp add: wf_search_def new_server_found_def searches_ok_def length_deadlines)

lemma set_addr_fold:
  assumes "wf_search sr" and "set names \<subseteq> set (dd_value (addr_to_names sr) addr)"
  shows "wf_search (fold (\<lambda>name. set_addr name addr t) names sr)"
  using assms
proof (induction names arbitrary: sr)
  case (Cons name names)
  have "wf_search (set_addr name addr t sr)"
    using Cons.prems by (auto simp: wf_search_def set_addr_def indexed_def dget_dset)
  moreover have "addr_to_names (set_addr name addr t sr) = addr_to_names sr" by (simp add: set_addr_def)
  ultimately show ?case using Cons by simp
qed simp

lemma wf_alive:
  assumes "wf_search sr"
  shows "wf_search (mark_server_alive short now addr identifier sr)"
proof -
  have "wf_search (sr\<lparr>addr_to_names := dd_touch addr (addr_to_names sr)\<rparr>)"
    using assms by (simp add: wf_search_def names_distinct_def indexed_def)
  then have w: "wf_search (fold (\<lambda>name. set_addr name addr (At now)) (dd_value (addr_to_names sr) addr)
      (sr\<lparr>addr_to_names := dd_touch addr (addr_to_names sr)\<rparr>))"
    by (rule set_addr_fold) simp
  have b: "wf_search (s\<lparr>last_beacon := l\<rparr>)" if "wf_search s" for s :: "'a search_results" and l
    using that by (simp add: wf_search_def)
  show ?thesis
    using w wf_new_server [OF w] by (auto simp: mark_server_alive_def Let_def intro!: b wf_new_server split: option.split)
qed

lemma cached_loop_sub: "dget (fst (cached_loop threshold now es best entry)) a \<noteq> None \<Longrightarrow> dget entry a \<noteq> None"
  by (induction threshold now es best entry rule: cached_loop.induct) (auto simp: dget_ddel split: if_splits)

lemma wf_cached: "wf_search sr \<Longrightarrow> wf_search (fst (get_cached_search_result threshold now name sr))"
proof -
  assume w: "wf_search sr"
  have sub: "dget (fst (cached_loop threshold now es None es)) a = Some t \<Longrightarrow> \<exists>u. dget es a = Some u" for es a t
    using cached_loop_sub [of threshold now es None es a] by auto
  have "indexed (fst (get_cached_search_result threshold now name sr))"
    using w by (intro indexedI)
      (auto simp: wf_search_def get_cached_search_result_def case_prod_beta Let_def dest!: sub dest: indexedD split: if_splits)
  with w show ?thesis by (simp add: wf_search_def get_cached_search_result_def case_prod_beta Let_def)
qed

lemma wf_response: "wf_search sr \<Longrightarrow> wf_search (fst (received_search_response now cid addr sr))"
  by (auto simp: received_search_response_def mark_name_found_def Let_def intro!: wf_found wf_unanswered_del split: option.split)

lemma pop_fold:
  "dd_value (name_to_addrs (fold (\<lambda>name. pop_addr name addr) names sr)) n =
     (if n \<in> set names then ddel addr (dd_value (name_to_addrs sr) n) else dd_value (name_to_addrs sr) n)"
  "addr_to_names (fold (\<lambda>name. pop_addr name addr) names sr) = addr_to_names sr"
  "searches_ok (fold (\<lambda>name. pop_addr name addr) names sr) = searches_ok sr"
  by (induction names arbitrary: sr) (auto simp: pop_addr_def AList.delete_eq)

lemma server_forgotten:
  "wf_search sr \<Longrightarrow> dget (dd_value (name_to_addrs (mark_server_disconnected addr sr)) name) addr = None"
  by (cases "dget (dd_value (name_to_addrs sr) name) addr")
    (auto simp: mark_server_disconnected_def pop_fold dget_ddel wf_search_def dest: indexedD)

lemma wf_server_disconnected: "wf_search sr \<Longrightarrow> wf_search (mark_server_disconnected addr sr)"
proof -
  assume w: "wf_search sr"
  have "indexed (mark_server_disconnected addr sr)"
  proof (rule indexedI)
    fix name a t
    assume d: "dget (dd_value (name_to_addrs (mark_server_disconnected addr sr)) name) a = Some t"
    then have "a \<noteq> addr" using server_forgotten [OF w, of addr name] by auto
    with d w show "name \<in> set (dd_value (addr_to_names (mark_server_disconnected addr sr)) a)"
      by (auto simp: mark_server_disconnected_def pop_fold dget_ddel wf_search_def dest: indexedD split: if_splits)
  qed
  with w show ?thesis by (simp add: mark_server_disconnected_def pop_fold wf_search_def names_distinct_def)
qed

lemma wf_channel_disconnected: "wf_search sr \<Longrightarrow> wf_search (mark_channel_disconnected name addr sr)"
  by (auto simp: mark_channel_disconnected_def pop_addr_def wf_search_def indexed_def names_distinct_def dget_ddel Let_def
      split: if_splits)

lemma wf_search_one: "wf_search sr \<Longrightarrow> search_one q d name sr = Some sr' \<Longrightarrow> wf_search sr'"
  by (auto simp: search_one_def Let_def wf_search_def searches_ok_def indexed_def names_distinct_def dget_dset less_Suc_eq
      split: option.splits if_splits)

lemma wf_search_all: "wf_search sr \<Longrightarrow> search names q d sr = Some sr' \<Longrightarrow> wf_search sr'"
  by (induction names arbitrary: sr) (auto dest: wf_search_one split: option.splits)

lemma wf_split: "wf_search sr \<Longrightarrow> wf_search (fst (split_loop threshold now names use needs sr))"
proof (induction names arbitrary: use needs sr)
  case (Cons name names)
  then show ?case using wf_cached [OF Cons.prems, of threshold now name]
    by (auto split: prod.split sum.split)
qed simp

lemma known_wf: "known sr \<Longrightarrow> wf_search sr"
proof (induction rule: known.induct)
  case (init start)
  then show ?case by (simp add: SearchResults_init_def wf_search_def searches_ok_def indexed_def names_distinct_def)
next
  case (clear sr)
  then show ?case by (simp add: clear_def wf_search_def searches_ok_def indexed_def names_distinct_def)
next
  case (cancel sr names)
  then show ?case by (simp add: cancel_def wf_search_def)
next
  case (search sr names queue deadline sr')
  then show ?case by (blast intro: wf_search_all)
qed (simp_all add: wf_alive wf_server_disconnected wf_found wf_channel_disconnected wf_cached wf_response wf_split
    mark_name_found_def mark_channel_created_def split_cached_results_def)

text \<open>A name that was removed from the index of an address does not come back.\<close>

lemma remove_name_tables:
  "remove_name name addrs sr = (sr', res) \<Longrightarrow> name_to_addrs sr' = name_to_addrs sr
     \<and> set (dd_value (addr_to_names sr') a) \<subseteq> set (dd_value (addr_to_names sr) a)"
proof (induction addrs arbitrary: sr)
  case (Cons addr addrs)
  define sr1 where "sr1 = sr\<lparr>addr_to_names := dset addr (remove1 name (dd_value (addr_to_names sr) addr)) (dd_touch addr (addr_to_names sr))\<rparr>"
  have "set (dd_value (addr_to_names sr1) a) \<subseteq> set (dd_value (addr_to_names sr) a)" and "name_to_addrs sr1 = name_to_addrs sr"
    using set_remove1_subset [of name "dd_value (addr_to_names sr) addr"] by (auto simp: sr1_def)
  moreover have "(sr', res) = (sr\<lparr>addr_to_names := dd_touch addr (addr_to_names sr)\<rparr>, Inl KeyError) \<or> remove_name name addrs sr1 = (sr', res)"
    using Cons.prems by (auto simp: sr1_def Let_def split: if_splits)
  ultimately show ?case using Cons.IH [of sr1] by auto
qed simp

lemma remove_name_gone:
  assumes "remove_name name addrs sr = (sr', Inr ())" and "names_distinct sr" and "a \<in> set addrs"
  shows "name \<notin> set (dd_value (addr_to_names sr') a)"
  using assms
proof (induction addrs arbitrary: sr)
  case (Cons addr addrs)
  define sr1 where "sr1 = sr\<lparr>addr_to_names := dset addr (remove1 name (dd_value (addr_to_names sr) addr)) (dd_touch addr (addr_to_names sr))\<rparr>"
  have step: "remove_name name addrs sr1 = (sr', Inr ())"
    using Cons.prems(1) by (simp add: sr1_def Let_def split: if_splits)
  have "distinct (dd_value (addr_to_names sr) addr)" by (rule names_distinctD [OF Cons.prems(2)])
  then have d: "names_distinct sr1" and "name \<notin> set (dd_value (addr_to_names sr1) addr)"
    using Cons.prems(2) by (simp_all add: sr1_def names_distinct_def distinct_remove1 del: split_paired_All)
  then have "name \<notin> set (dd_value (addr_to_names sr') addr)" using remove_name_tables [OF step] by blast
  then show ?case using Cons.IH [OF step d] Cons.prems(3) by auto
qed simp

lemma cached_loop_marker:
  "(addr, VALID_CHANNEL_MARKER) \<in> set es \<Longrightarrow> snd (cached_loop threshold now es best entry) = Inl TypeError"
  by (induction threshold now es best entry rule: cached_loop.induct) auto

section \<open>Properties\<close>



text \<open>
  A search is answered once. Searching for a name draws an id that no pending search uses, as long as one is free;
  the first response with that id returns the name and the queue of the search, every later one raises
  \<^verbatim>\<open>DuplicateSearchResponse\<close>, and each records the responding server.
\<close>

theorem search_answered_once:
  assumes "known sr" and "counter_inv (search_id_counter sr)" and "dget (unanswered_searches sr) free = None"
    and "0 \<le> free" and "free < 2 ^ 16"
  shows "\<exists>sr1 cid. search [name] queue deadline sr = Some sr1 \<and> dget (unanswered_searches sr) cid = None
    \<and> (\<exists>sr2. received_search_response t1 cid addr1 sr1 = (sr2, Inr (name, queue)) \<and> contains name sr2
      \<and> (\<exists>sr3. received_search_response t2 cid addr2 sr2 = (sr3, Inl DuplicateSearchResponse)
        \<and> dget (dd_value (name_to_addrs sr3) name) addr2 = Some (At t2)))"
proof -
  have "free \<notin> set (map fst (unanswered_searches sr))" using assms(3) by (simp add: map_of_eq_None_iff)
  then obtain cid where cid: "ThreadsafeCounter_call (map fst (unanswered_searches sr)) (search_id_counter sr) = Some cid"
    using counter.gen_total [OF assms(2,4)] assms(5) by (metis MAX_ID_def)
  have fresh: "dget (unanswered_searches sr) cid = None"
    using counter.gen_fresh [OF assms(2) cid] by (simp add: map_of_eq_None_iff)
  show ?thesis
    using cid fresh
    by (simp add: search_one_def Let_def received_search_response_def mark_name_found_def set_addr_def add_name_def dget_dset
        dget_ddel contains_def) (auto simp: dget_dset update_conv' split: if_splits)
qed

theorem search_answered_once_witness:
  "\<exists>sr1 cid sr2. search [[112]] 7 0 (SearchResults_init 65536 :: nat search_results) = Some sr1
     \<and> received_search_response 1 cid (''10.0.0.7'', 5064) sr1 = (sr2, Inr ([112], 7))"
proof -
  let ?sr = "SearchResults_init 65536 :: nat search_results"
  have "counter_inv (search_id_counter ?sr)" "dget (unanswered_searches ?sr) 0 = None"
    by (simp_all add: SearchResults_init_def counter_inv_def MAX_ID_def)
  from search_answered_once [OF known.init this, of "[112]" 7 0 1 "(''10.0.0.7'', 5064)" 2 "(''10.0.0.8'', 5064)"]
  show ?thesis by (auto simp del: search.simps)
qed

text \<open>
  \<^verbatim>\<open>invalidate_by_name\<close> does not invalidate: it removes the name from the index only, so the name is still found in the
  cache afterwards, and invalidating it a second time raises \<^verbatim>\<open>KeyError\<close>.
\<close>

theorem invalidate_incomplete:
  assumes "known sr" and "contains name sr" and "invalidate_by_name name sr = (sr', Inr ())"
  shows "contains name sr' \<and> snd (invalidate_by_name name sr') = Inl KeyError"
proof -
  have same: "name_to_addrs sr' = name_to_addrs sr"
    using remove_name_tables [of name _ sr sr' _ undefined] assms(3) unfolding invalidate_by_name_def by blast
  obtain a t rest where e: "dd_value (name_to_addrs sr) name = (a, t) # rest"
    using assms(2) by (cases "dd_value (name_to_addrs sr) name") (auto simp: contains_def)
  have "name \<notin> set (dd_value (addr_to_names sr') a)"
    using remove_name_gone [of name "map fst (dd_value (name_to_addrs sr) name)" sr sr' a] assms(3) known_wf [OF assms(1)] e
    by (auto simp: invalidate_by_name_def wf_search_def)
  then show ?thesis using assms(2) e by (simp add: same contains_def invalidate_by_name_def Let_def)
qed

theorem invalidate_incomplete_witness:
  "\<exists>sr'. invalidate_by_name [112] (mark_name_found 3 [112] (''10.0.0.7'', 5064) (SearchResults_init 0 :: unit search_results)) = (sr', Inr ())
     \<and> contains [112] sr' \<and> snd (invalidate_by_name [112] sr') = Inl KeyError"
proof -
  let ?sr = "mark_name_found 3 [112] (''10.0.0.7'', 5064) (SearchResults_init 0 :: unit search_results)"
  have "snd (invalidate_by_name [112] ?sr) = Inr ()" and c: "contains [112] ?sr" by code_simp+
  then obtain sr' where sr': "invalidate_by_name [112] ?sr = (sr', Inr ())" by (metis prod.collapse)
  have "known ?sr" by (intro known.intros)
  from invalidate_incomplete [OF this c sr'] sr' show ?thesis by blast
qed

text \<open>
  Once a channel was created, its cached address cannot be used: looking the name up, or splitting a list of names that
  begins with it, raises \<^verbatim>\<open>TypeError\<close>, because the age of an entry is computed before the entry is recognised as the
  marker of a valid channel.
\<close>

theorem created_channel_not_cached:
  "snd (get_cached_search_result threshold now name (mark_channel_created name addr sr)) = Inl TypeError
   \<and> snd (split_cached_results threshold now (name # names) (mark_channel_created name addr sr)) = Inl TypeError"
proof -
  have "(addr, VALID_CHANNEL_MARKER) \<in> set (dset addr VALID_CHANNEL_MARKER es)" for es
    using map_of_SomeD [of "dset addr VALID_CHANNEL_MARKER es" addr VALID_CHANNEL_MARKER] by (simp add: dget_dset)
  note m = cached_loop_marker [OF this]
  have c: "snd (get_cached_search_result threshold now name (mark_channel_created name addr sr)) = Inl TypeError"
    using m by (simp add: get_cached_search_result_def mark_channel_created_def add_name_def set_addr_def case_prod_beta Let_def)
  obtain s r where g: "get_cached_search_result threshold now name (mark_channel_created name addr sr) = (s, r)" by fastforce
  with c show ?thesis by (simp add: split_cached_results_def g)
qed

end
