(* ===== verification/CA_Shared.thy ===== *)
theory CA_Shared
  imports CA_Broadcaster CA_Search CA_Filters
begin

text \<open>
  \<^verbatim>\<open>SharedBroadcaster\<close> of \<^verbatim>\<open>caproto/threading/client.py\<close>: the registration with the repeater, the searches that clients wait for,
  the loop that gives search responses to the queues of the clients, and the loop that repeats searches. A method, or one
  iteration of the loop of a thread, is a step; an exception that leaves such an iteration ends the thread. The queue a client
  waits at is a value of type \<open>'q\<close>. \<open>now\<close> is the reading of the clock; times are in hundredths of a second.
\<close>

section \<open>State\<close>

text \<open>\<^verbatim>\<open>results_by_cid\<close> is a local variable of the loop that lives as long as the loop.\<close>

record 'q shared_broadcaster =
  sb_broadcaster :: broadcaster
  sb_open :: bool
  sb_closed :: bool
  sb_results :: "(pystr, address \<times> int) dict"
  sb_unanswered :: "(int, 'q unanswered_search) dict"
  sb_versions :: "(address, int) dict"
  sb_id_counter :: int
  sb_last_beacon :: "(address, int) dict"
  sb_beacon_interval :: "(address, int) dict"
  sb_results_by_cid :: "(int \<times> pystr) list"
  sb_registration_sent :: int
  sb_registration_retry :: "int option"
  sb_searching_enabled :: bool
  sb_search_now :: bool

definition SharedBroadcaster_init :: "int \<Rightarrow> int option \<Rightarrow> 'q shared_broadcaster" where
  "SharedBroadcaster_init start retry =
     \<lparr>sb_broadcaster = Broadcaster_init CLIENT DEFAULT_PROTOCOL_VERSION, sb_open = True, sb_closed = False, sb_results = [],
      sb_unanswered = [], sb_versions = [], sb_id_counter = start, sb_last_beacon = [], sb_beacon_interval = [],
      sb_results_by_cid = [], sb_registration_sent = 0, sb_registration_retry = retry, sb_searching_enabled = False,
      sb_search_now = False\<rparr>"

section \<open>Registration\<close>

definition should_attempt_registration :: "int \<Rightarrow> 'q shared_broadcaster \<Rightarrow> bool" where
  "should_attempt_registration now sb =
     (if \<not> sb_open sb then False
      else case sb_registration_retry sb of
        None \<Rightarrow> False
      | Some retry \<Rightarrow> \<not> bc_registered (sb_broadcaster sb) \<and> \<not> now - sb_registration_sent sb < retry)"

text \<open>Failures to send are logged. The datagram is the second value.\<close>

definition sb_register :: "int \<Rightarrow> 'q shared_broadcaster \<Rightarrow> 'q shared_broadcaster \<times> bytes result" where
  "sb_register now sb =
     (let sb1 = sb\<lparr>sb_registration_sent := now\<rparr>
      in case bc_register None of
           Inl e \<Rightarrow> (sb1, Inl e)
         | Inr m \<Rightarrow>
             (case bc_send [m] (sb_broadcaster sb1) of
                (b, bytes) \<Rightarrow> (sb1\<lparr>sb_broadcaster := b, sb_searching_enabled := True\<rparr>, Inr bytes)))"

definition sb_disconnect :: "'q shared_broadcaster \<Rightarrow> 'q shared_broadcaster" where
  "sb_disconnect sb =
     sb\<lparr>sb_open := False, sb_closed := True, sb_results := [], sb_registration_sent := 0, sb_searching_enabled := False,
        sb_broadcaster := bc_disconnect (sb_broadcaster sb)\<rparr>"

section \<open>Searching\<close>

definition STALE_SEARCH_EXPIRATION :: int where "STALE_SEARCH_EXPIRATION = 1000"

text \<open>\<open>created name\<close> tells whether a connected circuit of some listener has a channel of that name.\<close>

definition sb_cached_result :: "(pystr \<Rightarrow> bool) \<Rightarrow> int \<Rightarrow> int \<Rightarrow> pystr \<Rightarrow> 'q shared_broadcaster \<Rightarrow> 'q shared_broadcaster \<times> address result" where
  "sb_cached_result created threshold now name sb =
     (case dget (sb_results sb) name of
        None \<Rightarrow> (sb, Inl KeyError)
      | Some (address, timestamp) \<Rightarrow>
          if now - timestamp > threshold then
            (if created name then (sb\<lparr>sb_results := dset name (address, now) (sb_results sb)\<rparr>, Inr address)
             else (sb\<lparr>sb_results := ddel name (sb_results sb)\<rparr>, Inl CaprotoKeyError))
          else (sb, Inr address))"

fun sb_split ::
  "(pystr \<Rightarrow> bool) \<Rightarrow> int \<Rightarrow> pystr list \<Rightarrow> pystr list \<Rightarrow> (address, pystr list) dict \<Rightarrow> 'q shared_broadcaster
     \<Rightarrow> 'q shared_broadcaster \<times> pystr list \<times> (address, pystr list) dict" where
  "sb_split created now [] needs_search cached sb = (sb, needs_search, cached)"
| "sb_split created now (name # names) needs_search cached sb =
     (case sb_cached_result created STALE_SEARCH_EXPIRATION now name sb of
        (sb1, Inl _) \<Rightarrow> sb_split created now names (needs_search @ [name]) cached sb1
      | (sb1, Inr address) \<Rightarrow> sb_split created now names needs_search (dset address (dd_value cached address @ [name]) cached) sb1)"

text \<open>A search for each name that has no cached result; \<open>None\<close> when no id is free and the call does not return.\<close>

fun sb_new_searches :: "'q \<Rightarrow> int \<Rightarrow> pystr list \<Rightarrow> 'q shared_broadcaster \<Rightarrow> 'q shared_broadcaster option" where
  "sb_new_searches queue deadline [] sb = Some sb"
| "sb_new_searches queue deadline (name # names) sb =
     (case ThreadsafeCounter_call (map fst (sb_unanswered sb)) (sb_id_counter sb) of
        None \<Rightarrow> None
      | Some search_id \<Rightarrow>
          sb_new_searches queue deadline names
            (sb\<lparr>sb_id_counter := search_id, sb_unanswered := dset search_id
                  \<lparr>us_name = name, us_results_queue = queue, us_last_sent = 0, us_retirement_deadline = deadline\<rparr> (sb_unanswered sb)\<rparr>))"

text \<open>\<^verbatim>\<open>search\<close>, with what it puts into the queue at once.\<close>

definition sb_search ::
  "(pystr \<Rightarrow> bool) \<Rightarrow> int \<Rightarrow> 'q \<Rightarrow> pystr list \<Rightarrow> 'q shared_broadcaster
     \<Rightarrow> ('q shared_broadcaster \<times> (address \<times> pystr list) list result) option" where
  "sb_search created now queue names sb =
     (case (if should_attempt_registration now sb then sb_register now sb else (sb, Inr [])) of
        (sb1, Inl e) \<Rightarrow> Some (sb1, Inl e)
      | (sb1, Inr _) \<Rightarrow>
          (case sb_split created now names [] [] sb1 of
             (sb2, needs_search, cached) \<Rightarrow>
               map_option (\<lambda>sb3. (sb3\<lparr>sb_search_now := True\<rparr>, Inr cached))
                 (sb_new_searches queue (now + 100 * SEARCH_RETIREMENT_AGE) needs_search sb2)))"

definition sb_cancel :: "pystr list \<Rightarrow> 'q shared_broadcaster \<Rightarrow> 'q shared_broadcaster" where
  "sb_cancel names sb = sb\<lparr>sb_unanswered := filter (\<lambda>(k, it). us_name it \<notin> set names) (sb_unanswered sb)\<rparr>"

definition sb_new_server_found :: "int \<Rightarrow> 'q shared_broadcaster \<Rightarrow> 'q shared_broadcaster" where
  "sb_new_server_found now sb =
     sb\<lparr>sb_unanswered := map (\<lambda>(k, it). (k, it\<lparr>us_retirement_deadline := now + 100 * SEARCH_RETIREMENT_AGE\<rparr>)) (sb_unanswered sb)\<rparr>"

section \<open>The command loop\<close>

text \<open>What one iteration keeps: the queues with the names for them, and the variable \<^verbatim>\<open>address\<close>.\<close>

type_synonym 'q found = "('q, pystr list) dict \<times> address option"

text \<open>\<^verbatim>\<open>interval < last / 4\<close> without division.\<close>

definition sb_beacon :: "int \<Rightarrow> address \<Rightarrow> 'q shared_broadcaster \<Rightarrow> 'q shared_broadcaster" where
  "sb_beacon now address sb =
     (let sb1 =
        (case dget (sb_last_beacon sb) address of
           None \<Rightarrow> sb_new_server_found now sb
         | Some t \<Rightarrow>
             let interval = now - t;
                 previous = (case dget (sb_beacon_interval sb) address of None \<Rightarrow> 0 | Some i \<Rightarrow> i);
                 sb' = (if 4 * interval < previous then sb_new_server_found now sb else sb)
             in sb'\<lparr>sb_beacon_interval := dset address interval (sb_beacon_interval sb')\<rparr>)
      in sb1\<lparr>sb_last_beacon := dset address now (sb_last_beacon sb1)\<rparr>)"

text \<open>\<^verbatim>\<open>deque(maxlen=1000)\<close>.\<close>

definition append_1000 :: "'a \<Rightarrow> 'a list \<Rightarrow> 'a list" where
  "append_1000 x xs = (let ys = xs @ [x] in drop (length ys - 1000) ys)"

definition sb_search_response ::
  "int \<Rightarrow> message \<Rightarrow> 'q found \<Rightarrow> 'q shared_broadcaster \<Rightarrow> 'q shared_broadcaster \<times> 'q found result" where
  "sb_search_response now m fnd sb =
     (case dget (sb_unanswered sb) (msg_cid m) of
        Some item \<Rightarrow>
          let sb1 = sb\<lparr>sb_unanswered := ddel (msg_cid m) (sb_unanswered sb),
                       sb_results_by_cid := append_1000 (msg_cid m, us_name item) (sb_results_by_cid sb)\<rparr>
          in (case extract_address m of
                Inl e \<Rightarrow> (sb1, Inl e)
              | Inr address \<Rightarrow>
                  let queue = us_results_queue item;
                      queues = dset queue (dd_value (fst fnd) queue @ [us_name item]) (fst fnd);
                      sb2 = sb1\<lparr>sb_results := dset (us_name item) (address, now) (sb_results sb1)\<rparr>
                  in (case SearchResponse_version m of
                        Inl e \<Rightarrow> (sb2, Inl e)
                      | Inr v \<Rightarrow> (sb2\<lparr>sb_versions := dset address v (sb_versions sb2)\<rparr>, Inr (queues, Some address))))
      | None \<Rightarrow>
          (case find (\<lambda>r. fst r = msg_cid m) (sb_results_by_cid sb) of
             None \<Rightarrow> (sb, Inr fnd)
           | Some (_, name) \<Rightarrow>
               if dget (sb_results sb) name = None then (sb, Inr fnd)
               else (sb, bindE (extract_address m) (\<lambda>_. Inr fnd))))"

definition sb_command :: "int \<Rightarrow> message \<Rightarrow> 'q found \<Rightarrow> 'q shared_broadcaster \<Rightarrow> 'q shared_broadcaster \<times> 'q found result" where
  "sb_command now m fnd sb =
     (if msg_class m = Beacon then
        let address = (header_address m, msg_data_count m)
        in (sb_beacon now address sb, Inr (fst fnd, Some address))
      else if msg_class m = SearchResponse then sb_search_response now m fnd sb
      else (sb, Inr fnd))"

fun sb_commands :: "int \<Rightarrow> message list \<Rightarrow> 'q found \<Rightarrow> 'q shared_broadcaster \<Rightarrow> 'q shared_broadcaster \<times> 'q found result" where
  "sb_commands now [] fnd sb = (sb, Inr fnd)"
| "sb_commands now (m # ms) fnd sb =
     (case sb_command now m fnd sb of
        (sb1, Inl e) \<Rightarrow> (sb1, Inl e) | (sb1, Inr fnd1) \<Rightarrow> sb_commands now ms fnd1 sb1)"

text \<open>
  One iteration of \<^verbatim>\<open>command_loop\<close>: what is put into the queues carries the last value of \<^verbatim>\<open>address\<close>. \<open>address0\<close> is the value
  the variable has from an earlier iteration.
\<close>

definition sb_command_loop ::
  "int \<Rightarrow> message list \<Rightarrow> address option \<Rightarrow> 'q shared_broadcaster
     \<Rightarrow> 'q shared_broadcaster \<times> (('q \<times> address \<times> pystr list) list \<times> address option) result" where
  "sb_command_loop now commands address0 sb =
     (case sb_commands now commands ([], address0) (sb\<lparr>sb_broadcaster := bc_process_commands commands (sb_broadcaster sb)\<rparr>) of
        (sb1, Inl e) \<Rightarrow> (sb1, Inl e)
      | (sb1, Inr (queues, address)) \<Rightarrow>
          (sb1, if queues = [] then Inr ([], address)
                else case address of
                  None \<Rightarrow> Inl UnboundLocalError
                | Some a \<Rightarrow> Inr (map (\<lambda>(q, names). (q, a, names)) queues, address)))"

text \<open>\<^verbatim>\<open>received\<close> and the loop that follows it.\<close>

definition sb_received :: "bytes \<Rightarrow> address \<Rightarrow> 'q shared_broadcaster \<Rightarrow> message list result" where
  "sb_received bytes_recv address sb = (if bytes_recv = [] then Inr [] else bc_recv bytes_recv address (sb_broadcaster sb))"

section \<open>Repeating searches\<close>

record retry_state =
  rs_check_retirees :: int
  rs_interval :: int

definition RETRY_RETIRED_SEARCHES_INTERVAL :: int where "RETRY_RETIRED_SEARCHES_INTERVAL = 6000"
definition MIN_RETRY_SEARCHES_INTERVAL :: int where "MIN_RETRY_SEARCHES_INTERVAL = 3"
definition MAX_RETRY_SEARCHES_INTERVAL :: int where "MAX_RETRY_SEARCHES_INTERVAL = 500"
definition SEARCH_MAX_DATAGRAM_BYTES :: nat where "SEARCH_MAX_DATAGRAM_BYTES = 1472"

definition retry_items :: "int \<Rightarrow> retry_state \<Rightarrow> 'q shared_broadcaster \<Rightarrow> (int \<times> 'q unanswered_search) list" where
  "retry_items t rs sb =
     filter (\<lambda>(k, it). us_last_sent it < t - rs_interval rs)
       (if t \<ge> rs_check_retirees rs then sb_unanswered sb
        else filter (\<lambda>(k, it). us_retirement_deadline it > t) (sb_unanswered sb))"

definition mark_sent :: "int \<Rightarrow> int list \<Rightarrow> 'q shared_broadcaster \<Rightarrow> 'q shared_broadcaster" where
  "mark_sent t ids sb =
     sb\<lparr>sb_unanswered := map (\<lambda>(k, it). (k, if k \<in> set ids then it\<lparr>us_last_sent := t\<rparr> else it)) (sb_unanswered sb)\<rparr>"

fun search_requests :: "(int \<times> 'q unanswered_search) list \<Rightarrow> message list result" where
  "search_requests [] = Inr []"
| "search_requests ((search_id, it) # items) =
     bindE (SearchRequest_init (Str (us_name it)) search_id DEFAULT_PROTOCOL_VERSION NO_REPLY) (\<lambda>m.
     bindE (search_requests items) (\<lambda>ms. Inr (m # ms)))"

text \<open>
  One round of \<^verbatim>\<open>_retry_unanswered_searches\<close> up to the wait. The requests come from a generator, so an exception of their
  constructor is raised while the batches are sent. \<open>up\<close> tells whether the datagrams can be sent: if not,
  \<^verbatim>\<open>CaprotoNetworkError\<close> leaves the loop. (What the generator has marked by then is read by nobody.)
\<close>

definition retry_send ::
  "bool \<Rightarrow> int \<Rightarrow> retry_state \<Rightarrow> 'q shared_broadcaster \<Rightarrow> 'q shared_broadcaster \<times> message list list result" where
  "retry_send up t rs sb =
     (let items = retry_items t rs sb
      in if \<not> sb_searching_enabled sb then (sb, Inr [])
         else case bindE (VersionRequest_init 0 DEFAULT_PROTOCOL_VERSION) (\<lambda>version_req.
                     bindE (search_requests items) (\<lambda>requests.
                       let batches = batch_requests message_len requests
                             (SEARCH_MAX_DATAGRAM_BYTES - message_len version_req)
                       in if batches \<noteq> [] \<and> sb_open sb \<and> \<not> up then Inl CaprotoNetworkError
                          else Inr (map (\<lambda>batch. version_req # batch) (if sb_open sb then batches else [])))) of
                Inl e \<Rightarrow> (sb, Inl e)
              | Inr datagrams \<Rightarrow> (mark_sent t (map fst items) sb, Inr datagrams))"

text \<open>The bookkeeping before and after the wait; \<open>woken\<close> tells whether new searches ended it.\<close>

definition retry_checked :: "int \<Rightarrow> retry_state \<Rightarrow> retry_state" where
  "retry_checked t rs =
     (if t \<ge> rs_check_retirees rs
      then rs\<lparr>rs_check_retirees := rs_check_retirees rs + RETRY_RETIRED_SEARCHES_INTERVAL\<rparr> else rs)"

definition retry_next :: "int \<Rightarrow> bool \<Rightarrow> retry_state \<Rightarrow> retry_state" where
  "retry_next t woken rs =
     (if woken then rs\<lparr>rs_check_retirees := t, rs_interval := MIN_RETRY_SEARCHES_INTERVAL\<rparr>
      else rs\<lparr>rs_interval := min (2 * rs_interval rs) MAX_RETRY_SEARCHES_INTERVAL\<rparr>)"

definition retry_round ::
  "bool \<Rightarrow> int \<Rightarrow> bool \<Rightarrow> retry_state \<Rightarrow> 'q shared_broadcaster
     \<Rightarrow> retry_state \<times> 'q shared_broadcaster \<times> message list list result" where
  "retry_round up t woken rs sb =
     (case retry_send up t rs sb of
        (sb1, Inl e) \<Rightarrow> (retry_checked t rs, sb1, Inl e)
      | (sb1, Inr datagrams) \<Rightarrow>
          if \<not> sb_searching_enabled sb then (retry_checked t rs, sb1, Inr [])
          else (retry_next t woken (retry_checked t rs), sb1\<lparr>sb_search_now := False\<rparr>, Inr datagrams))"

section \<open>Search responses\<close>

text \<open>What a pending search is to a response: the name and the queue.\<close>

definition pending :: "(int, 'q unanswered_search) dict \<Rightarrow> (int, pystr \<times> 'q) dict" where
  "pending d = map (\<lambda>(k, it). (k, us_name it, us_results_queue it)) d"

text \<open>The responses of a datagram that answer a pending search, each search being answered once.\<close>

fun fresh_responses :: "message list \<Rightarrow> (int, pystr \<times> 'q) dict \<Rightarrow> (message \<times> pystr \<times> 'q) list" where
  "fresh_responses [] d = []"
| "fresh_responses (m # ms) d =
     (if msg_class m = SearchResponse then
        (case dget d (msg_cid m) of
           None \<Rightarrow> fresh_responses ms d
         | Some (name, q) \<Rightarrow> (m, name, q) # fresh_responses ms (ddel (msg_cid m) d))
      else fresh_responses ms d)"

text \<open>The addresses of its beacons and of those responses, in order.\<close>

fun bundle_addresses :: "message list \<Rightarrow> (int, pystr \<times> 'q) dict \<Rightarrow> address list" where
  "bundle_addresses [] d = []"
| "bundle_addresses (m # ms) d =
     (if msg_class m = Beacon then (header_address m, msg_data_count m) # bundle_addresses ms d
      else if msg_class m = SearchResponse then
        (case dget d (msg_cid m) of
           None \<Rightarrow> bundle_addresses ms d
         | Some _ \<Rightarrow> projr (extract_address m) # bundle_addresses ms (ddel (msg_cid m) d))
      else bundle_addresses ms d)"

definition names_for :: "'q \<Rightarrow> (message \<times> pystr \<times> 'q) list \<Rightarrow> pystr list" where
  "names_for q rs = map (\<lambda>(m, name, _). name) (filter (\<lambda>(_, _, q'). q' = q) rs)"

definition caching :: "int \<Rightarrow> message \<times> pystr \<times> 'q \<Rightarrow> (pystr, address \<times> int) dict \<Rightarrow> (pystr, address \<times> int) dict" where
  "caching now r d = (case r of (m, name, _) \<Rightarrow> dset name (projr (extract_address m), now) d)"

lemma dget_pending: "dget (pending d) k = map_option (\<lambda>it. (us_name it, us_results_queue it)) (dget d k)"
  by (induction d) (auto simp: pending_def)

lemma pending_ddel: "pending (ddel k d) = ddel k (pending d)"
  by (induction d) (auto simp: pending_def AList.delete_eq)

lemma pending_new_server [simp]: "pending (sb_unanswered (sb_new_server_found now sb)) = pending (sb_unanswered sb)"
  by (simp add: pending_def sb_new_server_found_def comp_def case_prod_unfold)

lemma new_server_results [simp]:
  "sb_results (sb_new_server_found now sb) = sb_results sb" "sb_versions (sb_new_server_found now sb) = sb_versions sb"
  by (simp_all add: sb_new_server_found_def)

lemma sb_beacon_fields [simp]:
  "pending (sb_unanswered (sb_beacon now a sb)) = pending (sb_unanswered sb)" "sb_results (sb_beacon now a sb) = sb_results sb"
  "sb_versions (sb_beacon now a sb) = sb_versions sb"
  by (simp_all add: sb_beacon_def Let_def split: option.splits)

text \<open>What a step keeps of the accumulated queues: a queue that is listed has names.\<close>

definition queues_ok :: "('q, pystr list) dict \<Rightarrow> bool" where
  "queues_ok qs \<longleftrightarrow> wf_dict qs \<and> (\<forall>(q, names) \<in> set qs. names \<noteq> [])"

lemma set_dset: "x \<in> set (dset k v d) \<Longrightarrow> x = (k, v) \<or> x \<in> set d"
  by (induction d) (auto split: if_splits)

lemma queues_ok_add: "queues_ok qs \<Longrightarrow> queues_ok (dset q (dd_value qs q @ [name]) qs)"
  unfolding queues_ok_def by (auto dest: set_dset)

lemma sb_commands_spec:
  assumes "sb_commands now ms (qs, a) sb = (sb', Inr (qs', a'))" and "queues_ok qs"
  shows "queues_ok qs' \<and> (\<forall>q. dd_value qs' q = dd_value qs q @ names_for q (fresh_responses ms (pending (sb_unanswered sb))))
    \<and> a' = last (a # map Some (bundle_addresses ms (pending (sb_unanswered sb))))
    \<and> pending (sb_unanswered sb') = fold (\<lambda>(m, _). ddel (msg_cid m)) (fresh_responses ms (pending (sb_unanswered sb))) (pending (sb_unanswered sb))
    \<and> sb_results sb' = fold (caching now) (fresh_responses ms (pending (sb_unanswered sb))) (sb_results sb)"
  using assms
proof (induction ms arbitrary: qs a sb)
  case Nil
  then show ?case by (simp add: names_for_def)
next
  case (Cons m ms)
  obtain sb1 qs1 a1 where step: "sb_command now m (qs, a) sb = (sb1, Inr (qs1, a1))"
    and rest: "sb_commands now ms (qs1, a1) sb1 = (sb', Inr (qs', a'))"
    using Cons.prems(1) by (auto split: prod.splits sum.splits)
  consider (beacon) "msg_class m = Beacon" | (fresh) it where "msg_class m = SearchResponse" "dget (sb_unanswered sb) (msg_cid m) = Some it"
    | (other) "msg_class m \<noteq> Beacon" "msg_class m = SearchResponse \<longrightarrow> dget (sb_unanswered sb) (msg_cid m) = None"
    by fastforce
  then show ?case
  proof cases
    case beacon
    with step have "sb1 = sb_beacon now (header_address m, msg_data_count m) sb" "qs1 = qs" "a1 = Some (header_address m, msg_data_count m)"
      by (auto simp: sb_command_def Let_def)
    with Cons.IH [OF rest] Cons.prems(2) beacon show ?thesis by simp
  next
    case fresh
    with step obtain addr v where addr: "extract_address m = Inr addr"
      and sb1: "sb1 = sb\<lparr>sb_unanswered := ddel (msg_cid m) (sb_unanswered sb),
          sb_results_by_cid := append_1000 (msg_cid m, us_name it) (sb_results_by_cid sb),
          sb_results := dset (us_name it) (addr, now) (sb_results sb), sb_versions := dset addr v (sb_versions sb)\<rparr>"
      and qs1: "qs1 = dset (us_results_queue it) (dd_value qs (us_results_queue it) @ [us_name it]) qs" "a1 = Some addr"
      by (auto simp: sb_command_def sb_search_response_def Let_def split: sum.splits)
    have "queues_ok qs1" using Cons.prems(2) by (simp add: qs1 queues_ok_add)
    from Cons.IH [OF rest this] show ?thesis
      by (simp add: fresh addr sb1 qs1 dget_pending pending_ddel names_for_def caching_def)
  next
    case other
    then have "sb1 = sb" "qs1 = qs" "a1 = a"
      using step by (auto simp: sb_command_def sb_search_response_def bindE_eq_Inr split: option.splits if_splits)
    with Cons.IH [OF rest] Cons.prems(2) other show ?thesis by (auto simp: dget_pending)
  qed
qed

text \<open>
  C11. Every response that answers a pending search is delivered once. After a datagram each queue has got the names found for
  it, in order, the searches are no longer pending, and the address that each response announces is cached. But all names are
  put with one address, that of the last such response or beacon of the datagram.
\<close>

theorem search_responses_delivered:
  assumes "sb_command_loop now ms address0 sb = (sb', Inr (puts, address'))"
    and "fs = fresh_responses ms (pending (sb_unanswered sb))"
  shows "distinct (map fst puts)
    \<and> (\<forall>q addr names. (q, addr, names) \<in> set puts \<longleftrightarrow> names \<noteq> [] \<and> names = names_for q fs \<and> address' = Some addr)
    \<and> address' = last (address0 # map Some (bundle_addresses ms (pending (sb_unanswered sb))))
    \<and> pending (sb_unanswered sb') = fold (\<lambda>(m, _). ddel (msg_cid m)) fs (pending (sb_unanswered sb))
    \<and> sb_results sb' = fold (caching now) fs (sb_results sb)"
proof -
  let ?sb = "sb\<lparr>sb_broadcaster := bc_process_commands ms (sb_broadcaster sb)\<rparr>"
  obtain sb1 r where cmds: "sb_commands now ms ([], address0) ?sb = (sb1, r)" by fastforce
  obtain qs a where r: "r = Inr (qs, a)" using assms(1) cmds by (cases r) (auto simp: sb_command_loop_def)
  have res: "sb1 = sb'" "address' = a"
    "qs = [] \<and> puts = [] \<or> (\<exists>addr. a = Some addr \<and> puts = map (\<lambda>(q, names). (q, addr, names)) qs)"
    using assms(1) unfolding sb_command_loop_def cmds r prod.case sum.case by (auto split: if_splits option.splits)
  note run = cmds [unfolded r res(1)] and puts = res(3,2)
  have "queues_ok ([] :: ('a, pystr list) dict)" by (simp add: queues_ok_def wf_dict_def)
  note spec = sb_commands_spec [OF run this]
  have get: "(q, names) \<in> set qs \<longleftrightarrow> names \<noteq> [] \<and> names = names_for q fs" for q names
  proof -
    have "dd_value qs q = names_for q fs" and dict: "(q, names) \<in> set qs \<longleftrightarrow> dget qs q = Some names"
      and "dget qs q = Some ns \<Longrightarrow> ns \<noteq> []" for ns
      using spec assms(2) by (auto simp: queues_ok_def wf_dict_def dest: map_of_SomeD)
    then show ?thesis by (cases "dget qs q") (auto simp: dd_value_def)
  qed
  have "distinct (map fst qs)" using spec by (simp add: queues_ok_def wf_dict_def)
  then have "distinct (map fst puts)" using puts(1) by (auto simp: comp_def case_prod_unfold)
  moreover have "(q, addr, names) \<in> set puts \<longleftrightarrow> (q, names) \<in> set qs \<and> address' = Some addr" for q addr names
    using puts(1) unfolding puts(2) by (elim disjE exE conjE) (simp, force)
  ultimately show ?thesis using spec by (simp add: get puts(2) assms(2))
qed

lemma version_request:
  obtains v where "VersionRequest_init 0 DEFAULT_PROTOCOL_VERSION = Inr v" "message_len v = 16"
proof -
  have "VersionRequest_init 0 DEFAULT_PROTOCOL_VERSION = Inr (projr (VersionRequest_init 0 DEFAULT_PROTOCOL_VERSION))"
    "message_len (projr (VersionRequest_init 0 DEFAULT_PROTOCOL_VERSION)) = 16"
    by code_simp+
  then show ?thesis using that by blast
qed

text \<open>
  In the example a beacon of another host follows a response in the same datagram: the name is put with the address of the
  beacon, while the right address is cached.
\<close>

definition example_shared :: "nat shared_broadcaster" where
  "example_shared = (SharedBroadcaster_init 0 None)\<lparr>sb_unanswered :=
     [(7, \<lparr>us_name = lit ''pv'', us_results_queue = 1, us_last_sent = 0, us_retirement_deadline = 48000\<rparr>)]\<rparr>"

definition example_response :: message where
  "example_response = from_components SearchResponse (SearchResponseHeader 5064 0xffffffff 7) [ljust0 8 (be16 13)] (Some (''10.0.0.1'', 5065))"

definition example_beacon :: message where
  "example_beacon = from_components Beacon (BeaconHeader 13 5064 1 0x0a000009) [] None"

lemma example_messages:
  "msg_class example_response = SearchResponse" "msg_cid example_response = 7" "extract_address example_response = Inr (''10.0.0.1'', 5064)"
  "SearchResponse_version example_response = Inr 13"
  "msg_class example_beacon = Beacon" "msg_data_count example_beacon = 5064"
  by (simp_all add: example_response_def example_beacon_def from_components_def SearchResponseHeader_def BeaconHeader_def MessageHeader_def
      msg_cid_def extract_address_def SearchResponse_port_def SearchResponse_version_def msg_data_count_def ljust0_def)

lemma example_beacon_address: "header_address example_beacon = ''10.0.0.9''"
proof -
  have "un_be32 [10, 0, 0, 9] = word_of_int 0x0a000009" by (simp add: un_be32_def nat_of_be_def)
  then have "be32 (word_of_int 0x0a000009) = [10, 0, 0, 9]" using u32.enc_dec [of "[10, 0, 0, 9]"] by simp
  moreover have "h_parameter2 (msg_header example_beacon) = 0x0a000009"
    by (simp add: example_beacon_def from_components_def BeaconHeader_def MessageHeader_def)
  moreover have "show_octet 10 = ''10''" "show_octet 0 = ''0''" "show_octet 9 = ''9''" by code_simp+
  ultimately show ?thesis by (simp add: header_address_def ipv4_from_int32_def inet_ntop_def)
qed

theorem search_responses_delivered_witness:
  "\<exists>sb' address'. sb_command_loop 0 [example_response, example_beacon] None example_shared
       = (sb', Inr ([(1, (''10.0.0.9'', 5064), [lit ''pv''])], address'))
     \<and> sb_results sb' = [(lit ''pv'', ((''10.0.0.1'', 5064), 0))]"
proof -
  obtain sb' where run: "sb_command_loop 0 [example_response, example_beacon] None example_shared
      = (sb', Inr ([(1, (''10.0.0.9'', 5064), [lit ''pv''])], Some (''10.0.0.9'', 5064)))"
    by (simp add: sb_command_loop_def sb_command_def sb_search_response_def example_messages example_beacon_address example_shared_def Let_def)
  have "fold (caching 0) (fresh_responses [example_response, example_beacon] (pending (sb_unanswered example_shared))) (sb_results example_shared)
      = [(lit ''pv'', ((''10.0.0.1'', 5064), 0))]"
    by (simp add: caching_def pending_def example_messages example_shared_def SharedBroadcaster_init_def)
  with search_responses_delivered [OF run refl] run show ?thesis by auto
qed

text \<open>
  C28. Searches are repeated. While searching is enabled and datagrams can be sent, a round sends a request for every search
  that is due, in order, in datagrams that fit; it marks exactly those as sent now. The wait between rounds stays between 0.03
  and 5 seconds, so a search that is not retired is never silent for longer.
\<close>

theorem retry_sends_all:
  assumes "retry_round True t woken rs sb = (rs', sb', Inr datagrams)" and "sb_searching_enabled sb" and "sb_open sb"
    and "search_requests (retry_items t rs sb) = Inr requests"
    and "\<forall>m \<in> set requests. message_len m \<le> SEARCH_MAX_DATAGRAM_BYTES - 16"
    and "MIN_RETRY_SEARCHES_INTERVAL \<le> rs_interval rs" and "rs_interval rs \<le> MAX_RETRY_SEARCHES_INTERVAL"
  shows "concat (map tl datagrams) = requests
    \<and> (\<forall>d \<in> set datagrams. sum_list (map message_len d) \<le> SEARCH_MAX_DATAGRAM_BYTES)
    \<and> sb_unanswered sb' = map (\<lambda>(k, it). (k, if k \<in> fst ` set (retry_items t rs sb) then it\<lparr>us_last_sent := t\<rparr> else it)) (sb_unanswered sb)
    \<and> MIN_RETRY_SEARCHES_INTERVAL \<le> rs_interval rs' \<and> rs_interval rs' \<le> MAX_RETRY_SEARCHES_INTERVAL
    \<and> (\<forall>(k, it) \<in> set (sb_unanswered sb). us_retirement_deadline it > t \<and> us_last_sent it < t - MAX_RETRY_SEARCHES_INTERVAL
         \<longrightarrow> (k, it) \<in> set (retry_items t rs sb))"
proof -
  obtain v where v: "VersionRequest_init 0 DEFAULT_PROTOCOL_VERSION = Inr v" "message_len v = 16"
    by (rule version_request)
  define bs where "bs = batch_requests message_len requests (SEARCH_MAX_DATAGRAM_BYTES - 16)"
  have send: "retry_send True t rs sb = (mark_sent t (map fst (retry_items t rs sb)) sb, Inr (map (\<lambda>b. v # b) bs))"
    using assms(2-4) v by (simp add: retry_send_def bs_def Let_def)
  have run: "datagrams = map (\<lambda>b. v # b) bs" "rs' = retry_next t woken (retry_checked t rs)"
    "sb_unanswered sb' = sb_unanswered (mark_sent t (map fst (retry_items t rs sb)) sb)"
    using assms(1,2) by (auto simp: retry_round_def send)
  have "concat bs = requests" and sizes: "\<forall>b \<in> set bs. sum_list (map message_len b) \<le> SEARCH_MAX_DATAGRAM_BYTES - 16"
    using batch_concat [of message_len "SEARCH_MAX_DATAGRAM_BYTES - 16" "[]" 0 requests] batch_bound [OF assms(5), of 0 "[]"]
    by (auto simp: bs_def batch_requests_def)
  then have "concat (map tl datagrams) = requests" by (simp add: run comp_def)
  moreover have "\<forall>d \<in> set datagrams. sum_list (map message_len d) \<le> SEARCH_MAX_DATAGRAM_BYTES"
    using sizes v(2) by (auto simp: run SEARCH_MAX_DATAGRAM_BYTES_def)
  moreover have "MIN_RETRY_SEARCHES_INTERVAL \<le> rs_interval rs' \<and> rs_interval rs' \<le> MAX_RETRY_SEARCHES_INTERVAL"
    using assms(6,7) by (auto simp: run retry_next_def retry_checked_def MIN_RETRY_SEARCHES_INTERVAL_def MAX_RETRY_SEARCHES_INTERVAL_def)
  moreover have "\<forall>(k, it) \<in> set (sb_unanswered sb). us_retirement_deadline it > t \<and> us_last_sent it < t - MAX_RETRY_SEARCHES_INTERVAL
      \<longrightarrow> (k, it) \<in> set (retry_items t rs sb)"
    using assms(7) by (auto simp: retry_items_def)
  ultimately show ?thesis by (simp add: run mark_sent_def)
qed

definition example_retry :: retry_state where
  "example_retry = \<lparr>rs_check_retirees = 6000, rs_interval = 3\<rparr>"

theorem retry_sends_all_witness:
  "\<exists>rs' sb' datagrams. retry_round True 100 True example_retry (example_shared\<lparr>sb_searching_enabled := True\<rparr>) = (rs', sb', Inr datagrams)
     \<and> concat (map tl datagrams) = [projr (SearchRequest_init (Str (lit ''pv'')) 7 DEFAULT_PROTOCOL_VERSION NO_REPLY)]"
proof -
  let ?sb = "example_shared\<lparr>sb_searching_enabled := True\<rparr>"
  let ?m = "projr (SearchRequest_init (Str (lit ''pv'')) 7 DEFAULT_PROTOCOL_VERSION NO_REPLY)"
  have "isl (snd (snd (retry_round True 100 True example_retry ?sb))) = False" by code_simp
  then obtain rs' sb' datagrams where run: "retry_round True 100 True example_retry ?sb = (rs', sb', Inr datagrams)"
    by (metis isl_def prod.collapse sum.collapse(2))
  have "search_requests (retry_items 100 example_retry ?sb) = Inr [?m]" "message_len ?m = 24"
    "sb_open ?sb" "MIN_RETRY_SEARCHES_INTERVAL \<le> rs_interval example_retry" "rs_interval example_retry \<le> MAX_RETRY_SEARCHES_INTERVAL"
    by code_simp+
  then show ?thesis using retry_sends_all [OF run, of "[?m]"] run by (simp add: SEARCH_MAX_DATAGRAM_BYTES_def)
qed

end
