(* ===== verification/CA_Manager.thy ===== *)
theory CA_Manager
  imports CA_Shared CA_Channels
begin

text \<open>
  The client of \<^verbatim>\<open>caproto/threading/client.py\<close>: \<^verbatim>\<open>Context\<close>, \<^verbatim>\<open>VirtualCircuitManager\<close>, \<^verbatim>\<open>PV\<close>, \<^verbatim>\<open>CallbackHandler\<close> and \<^verbatim>\<open>Subscription\<close>, over the
  circuits, channels and the shared broadcaster. Circuit managers, PVs, subscriptions and requests are objects shared between
  threads and dictionaries: they live in stores and are held by number. What a thread does between two waits is one step, the
  reading \<open>now\<close> of the clock is an argument, and so is \<open>alive\<close>, which tells whether a weakly referenced callback still exists.
  A job for the thread pool of a circuit is a callback with its arguments. One context listens to the broadcaster.
\<close>

section \<open>State\<close>

text \<open>The arguments of a user callback: a PV with its state, a PV with its access rights, a subscription with an update, or a response.\<close>

datatype client_event = State_changed nat bool | Rights_changed nat int | Updated nat message | Answered message

record 'k handler =
  cb_dict :: "(int, 'k) dict"
  cb_next_id :: int
  cb_last_call :: "client_event option"

definition CallbackHandler_init :: "'k handler" where
  "CallbackHandler_init = \<lparr>cb_dict = [], cb_next_id = 0, cb_last_call = None\<rparr>"

text \<open>The arguments of a subscription, which are its key.\<close>

type_synonym sub_key = "type_arg \<times> int option \<times> 32 word \<times> 32 word \<times> 32 word \<times> int option"

record 'k pv =
  pv_name :: pystr
  pv_priority :: int
  pv_manager :: "nat option"
  pv_channel :: "(nat \<times> ref) option"
  pv_circuit_ready :: bool
  pv_channel_ready :: bool
  pv_access_rights :: "int option"
  pv_state_callback :: "'k handler"
  pv_rights_callback :: "'k handler"
  pv_subscriptions :: "(sub_key, nat) dict"
  pv_idle :: bool
  pv_usages :: nat

definition PV_init :: "pystr \<Rightarrow> int \<Rightarrow> 'k pv" where
  "PV_init name priority =
     \<lparr>pv_name = name, pv_priority = priority, pv_manager = None, pv_channel = None, pv_circuit_ready = False,
      pv_channel_ready = False, pv_access_rights = None, pv_state_callback = CallbackHandler_init,
      pv_rights_callback = CallbackHandler_init, pv_subscriptions = [], pv_idle = False, pv_usages = 0\<rparr>"

record 'k client_sub =
  su_handler :: "'k handler"
  su_pv :: nat
  su_key :: sub_key
  su_id :: "int option"
  su_recent :: "message option"
  su_reactivate :: bool

definition Subscription_init :: "nat \<Rightarrow> sub_key \<Rightarrow> 'k client_sub" where
  "Subscription_init p key =
     \<lparr>su_handler = CallbackHandler_init, su_pv = p, su_key = key, su_id = None, su_recent = None, su_reactivate = False\<rparr>"

text \<open>
  The dictionary \<^verbatim>\<open>ioid_info\<close>. \<open>in_event\<close> is \<open>None\<close> without an event and else tells whether it is set; \<open>in_deadline\<close> is \<open>None\<close> when
  the key is missing and \<open>Some None\<close> for a request that never expires.
\<close>

record 'k ioid_info =
  in_event :: "bool option"
  in_pv :: nat
  in_request :: message
  in_callback :: "'k option"
  in_deadline :: "int option option"
  in_response :: "message option"

text \<open>
  \<open>vm_open\<close>: there is a socket; \<open>vm_registered\<close>: the selector watches it; \<open>vm_writable\<close>: the operating system takes bytes.
\<close>

record ('f, 'k) manager =
  vm_circuit :: "'f circuit"
  vm_channels :: "(int, ref) dict"
  vm_pvs :: "(int, nat) dict"
  vm_ioids :: "(int, nat) dict"
  vm_subs :: "(int, nat) dict"
  vm_open :: bool
  vm_registered :: bool
  vm_writable :: bool
  vm_sent :: bytes
  vm_last_receipt :: "int option"
  vm_created :: "pystr list"
  vm_dead :: bool
  vm_ready :: bool
  vm_ioid_counter :: int
  vm_sub_counter :: int
  vm_jobs :: "('k \<times> client_event) list"
  vm_shutdown :: bool

record ('f, 'k) client =
  cx_managers :: "('f, 'k) manager list"
  cx_pvs :: "'k pv list"
  cx_subs :: "'k client_sub list"
  cx_infos :: "'k ioid_info list"
  cx_circuit_managers :: "(address \<times> int, nat) dict"
  cx_pv_cache :: "(pystr \<times> int, nat) dict"
  cx_needing :: "(pystr, nat list) dict"
  cx_results_queue :: "(address \<times> pystr list) list"
  cx_to_activate :: "(nat, nat list) dict"
  cx_activate_now :: bool
  cx_closed :: bool
  cx_broadcaster :: "unit shared_broadcaster"
  cx_search_thread :: bool
  cx_activation_thread :: bool
  cx_checking :: "(address, int) dict"

definition Context_init :: "unit shared_broadcaster \<Rightarrow> ('f, 'k) client" where
  "Context_init sb =
     \<lparr>cx_managers = [], cx_pvs = [], cx_subs = [], cx_infos = [], cx_circuit_managers = [], cx_pv_cache = [], cx_needing = [],
      cx_results_queue = [], cx_to_activate = [], cx_activate_now = False, cx_closed = False, cx_broadcaster = sb,
      cx_search_thread = True, cx_activation_thread = True, cx_checking = []\<rparr>"

text \<open>Reading and changing objects.\<close>

abbreviation mgr :: "('f, 'k) client \<Rightarrow> nat \<Rightarrow> ('f, 'k) manager" where
  "mgr cx k \<equiv> cx_managers cx ! k"

definition upd_mgr :: "nat \<Rightarrow> (('f, 'k) manager \<Rightarrow> ('f, 'k) manager) \<Rightarrow> ('f, 'k) client \<Rightarrow> ('f, 'k) client" where
  "upd_mgr k f cx = cx\<lparr>cx_managers := (cx_managers cx)[k := f (mgr cx k)]\<rparr>"

definition upd_pv :: "nat \<Rightarrow> ('k pv \<Rightarrow> 'k pv) \<Rightarrow> ('f, 'k) client \<Rightarrow> ('f, 'k) client" where
  "upd_pv p f cx = cx\<lparr>cx_pvs := (cx_pvs cx)[p := f (cx_pvs cx ! p)]\<rparr>"

definition upd_sub :: "nat \<Rightarrow> ('k client_sub \<Rightarrow> 'k client_sub) \<Rightarrow> ('f, 'k) client \<Rightarrow> ('f, 'k) client" where
  "upd_sub s f cx = cx\<lparr>cx_subs := (cx_subs cx)[s := f (cx_subs cx ! s)]\<rparr>"

definition upd_info :: "nat \<Rightarrow> ('k ioid_info \<Rightarrow> 'k ioid_info) \<Rightarrow> ('f, 'k) client \<Rightarrow> ('f, 'k) client" where
  "upd_info i f cx = cx\<lparr>cx_infos := (cx_infos cx)[i := f (cx_infos cx ! i)]\<rparr>"

abbreviation sub_callbacks :: "('f, 'k) client \<Rightarrow> nat \<Rightarrow> (int, 'k) dict" where
  "sub_callbacks cx s \<equiv> cb_dict (su_handler (cx_subs cx ! s))"

text \<open>\<^verbatim>\<open>connected\<close> of a circuit manager and of a PV.\<close>

definition vm_connected :: "('f, 'k) manager \<Rightarrow> bool" where
  "vm_connected vm \<longleftrightarrow> get_state CLIENT (circ_states (vm_circuit vm)) = CONNECTED"

definition pv_connected :: "('f, 'k) client \<Rightarrow> nat \<Rightarrow> bool" where
  "pv_connected cx p =
     (case pv_channel (cx_pvs cx ! p) of
        None \<Rightarrow> False
      | Some (k, r) \<Rightarrow> get_state CLIENT (ch_states (chan (vm_circuit (mgr cx k)) r)) = CONNECTED)"

text \<open>A \<^verbatim>\<open>for\<close> loop whose body may raise.\<close>

fun each :: "('a \<Rightarrow> 's \<Rightarrow> 's \<times> unit result) \<Rightarrow> 'a list \<Rightarrow> 's \<Rightarrow> 's \<times> unit result" where
  "each f [] s = (s, Inr ())"
| "each f (x # xs) s = (case f x s of (s1, Inl e) \<Rightarrow> (s1, Inl e) | (s1, Inr _) \<Rightarrow> each f xs s1)"

section \<open>Callbacks\<close>

definition drop_dead :: "('k \<Rightarrow> bool) \<Rightarrow> 'k handler \<Rightarrow> 'k handler" where
  "drop_dead alive h = h\<lparr>cb_dict := filter (\<lambda>(i, c). alive c) (cb_dict h)\<rparr>"

text \<open>
  \<^verbatim>\<open>CallbackHandler.process\<close> for the thread pool of a circuit manager. A pool that is shut down raises \<^verbatim>\<open>RuntimeError\<close>, which is
  ignored if the circuit is dead; then nothing is cleaned up.
\<close>

definition handler_process ::
  "('k \<Rightarrow> bool) \<Rightarrow> nat option \<Rightarrow> client_event \<Rightarrow> 'k handler \<Rightarrow> ('f, 'k) client \<Rightarrow> ('f, 'k) client \<times> 'k handler \<times> unit result" where
  "handler_process alive cm ev h cx =
     (let h1 = h\<lparr>cb_last_call := Some ev\<rparr>; live = filter alive (map snd (cb_dict h))
      in if live = [] then (cx, drop_dead alive h1, Inr ())
         else case cm of
           None \<Rightarrow> (cx, h1, Inl AttributeError)
         | Some k \<Rightarrow>
             if vm_shutdown (mgr cx k) then (cx, h1, if vm_dead (mgr cx k) then Inr () else Inl RuntimeError)
             else (upd_mgr k (\<lambda>vm. vm\<lparr>vm_jobs := vm_jobs vm @ map (\<lambda>c. (c, ev)) live\<rparr>) cx, drop_dead alive h1, Inr ()))"

definition handler_add :: "'k \<Rightarrow> 'k handler \<Rightarrow> 'k handler \<times> int" where
  "handler_add c h =
     (h\<lparr>cb_next_id := cb_next_id h + 1, cb_dict := dset (cb_next_id h) c (cb_dict h)\<rparr>, cb_next_id h)"

definition handler_remove :: "int \<Rightarrow> 'k handler \<Rightarrow> 'k handler" where
  "handler_remove token h = h\<lparr>cb_dict := ddel token (cb_dict h)\<rparr>"

definition state_process :: "('k \<Rightarrow> bool) \<Rightarrow> nat \<Rightarrow> client_event \<Rightarrow> ('f, 'k) client \<Rightarrow> ('f, 'k) client \<times> unit result" where
  "state_process alive p ev cx =
     (case handler_process alive (pv_manager (cx_pvs cx ! p)) ev (pv_state_callback (cx_pvs cx ! p)) cx of
        (cx1, h, r) \<Rightarrow> (upd_pv p (\<lambda>pv. pv\<lparr>pv_state_callback := h\<rparr>) cx1, r))"

definition access_rights_changed :: "('k \<Rightarrow> bool) \<Rightarrow> nat \<Rightarrow> int \<Rightarrow> ('f, 'k) client \<Rightarrow> ('f, 'k) client \<times> unit result" where
  "access_rights_changed alive p rights cx =
     (case handler_process alive (pv_manager (cx_pvs cx ! p)) (Rights_changed p rights) (pv_rights_callback (cx_pvs cx ! p)) cx of
        (cx1, h, r) \<Rightarrow> (upd_pv p (\<lambda>pv. pv\<lparr>pv_access_rights := Some rights, pv_rights_callback := h\<rparr>) cx1, r))"

text \<open>\<^verbatim>\<open>Subscription.process\<close>.\<close>

definition sub_process :: "('k \<Rightarrow> bool) \<Rightarrow> nat \<Rightarrow> message \<Rightarrow> ('f, 'k) client \<Rightarrow> ('f, 'k) client \<times> unit result" where
  "sub_process alive s m cx =
     (let sub = cx_subs cx ! s
      in case handler_process alive (pv_manager (cx_pvs cx ! su_pv sub)) (Updated s m) (su_handler sub) cx of
           (cx1, h, Inl e) \<Rightarrow> (upd_sub s (\<lambda>sub. sub\<lparr>su_handler := h\<rparr>) cx1, Inl e)
         | (cx1, h, Inr _) \<Rightarrow> (upd_sub s (\<lambda>sub. sub\<lparr>su_handler := h, su_recent := Some m\<rparr>) cx1, Inr ()))"

text \<open>\<^verbatim>\<open>connection_state_changed\<close>: subscriptions with callbacks are marked on a loss, marked ones are queued on a connection.\<close>

definition mark_reactivation :: "nat \<Rightarrow> ('f, 'k) client \<Rightarrow> ('f, 'k) client" where
  "mark_reactivation s cx = (if sub_callbacks cx s = [] then cx else upd_sub s (\<lambda>sub. sub\<lparr>su_reactivate := True\<rparr>) cx)"

definition to_activate_add :: "nat \<Rightarrow> nat \<Rightarrow> ('f, 'k) client \<Rightarrow> ('f, 'k) client" where
  "to_activate_add k s cx = cx\<lparr>cx_to_activate := dset k (List.insert s (dd_value (cx_to_activate cx) k)) (cx_to_activate cx)\<rparr>"

definition queue_reactivation :: "nat \<Rightarrow> nat \<Rightarrow> ('f, 'k) client \<Rightarrow> ('f, 'k) client" where
  "queue_reactivation k s cx =
     (if su_reactivate (cx_subs cx ! s) then upd_sub s (\<lambda>sub. sub\<lparr>su_reactivate := False\<rparr>) (to_activate_add k s cx) else cx)"

definition connection_state_changed ::
  "('k \<Rightarrow> bool) \<Rightarrow> bool \<Rightarrow> nat \<Rightarrow> ('f, 'k) client \<Rightarrow> ('f, 'k) client \<times> unit result" where
  "connection_state_changed alive conn p cx =
     (case state_process alive p (State_changed p conn) cx of
        (cx1, Inl e) \<Rightarrow> (cx1, Inl e)
      | (cx1, Inr _) \<Rightarrow>
          let subs = map snd (pv_subscriptions (cx_pvs cx1 ! p))
          in if \<not> conn then (fold mark_reactivation subs cx1, Inr ())
             else case pv_manager (cx_pvs cx1 ! p) of
               None \<Rightarrow> (cx1, Inl AttributeError)
             | Some k \<Rightarrow> (fold (queue_reactivation k) subs cx1, Inr ()))"

section \<open>Searching for circuits\<close>

text \<open>Is there a connected circuit with a channel of that name? (\<^verbatim>\<open>SharedBroadcaster.get_cached_search_result\<close>.)\<close>

definition created_in :: "('f, 'k) client \<Rightarrow> pystr \<Rightarrow> bool" where
  "created_in cx name = list_ex (\<lambda>(_, k). vm_connected (mgr cx k) \<and> name \<in> set (vm_created (mgr cx k))) (cx_circuit_managers cx)"

definition cx_search :: "int \<Rightarrow> pystr list \<Rightarrow> ('f, 'k) client \<Rightarrow> (('f, 'k) client \<times> unit result) option" where
  "cx_search now names cx =
     map_option (\<lambda>(sb, r). case r of
         Inl e \<Rightarrow> (cx\<lparr>cx_broadcaster := sb\<rparr>, Inl e)
       | Inr puts \<Rightarrow> (cx\<lparr>cx_broadcaster := sb, cx_results_queue := cx_results_queue cx @ puts\<rparr>, Inr ()))
       (sb_search (created_in cx) now () names (cx_broadcaster cx))"

definition needing_add :: "pystr \<Rightarrow> nat \<Rightarrow> ('f, 'k) client \<Rightarrow> ('f, 'k) client" where
  "needing_add name p cx = cx\<lparr>cx_needing := dset name (List.insert p (dd_value (cx_needing cx) name)) (cx_needing cx)\<rparr>"

definition forget_result :: "pystr \<Rightarrow> ('f, 'k) client \<Rightarrow> ('f, 'k) client" where
  "forget_result name cx = cx\<lparr>cx_broadcaster := (cx_broadcaster cx)\<lparr>sb_results := ddel name (sb_results (cx_broadcaster cx))\<rparr>\<rparr>"

definition reconnect_key :: "pystr \<times> int \<Rightarrow> ('f, 'k) client \<Rightarrow> ('f, 'k) client \<times> unit result" where
  "reconnect_key key cx =
     (case dget (cx_pv_cache cx) key of
        None \<Rightarrow> (cx, Inl KeyError)
      | Some p \<Rightarrow> (needing_add (fst key) p (forget_result (fst key) cx), Inr ()))"

definition cx_reconnect :: "int \<Rightarrow> (pystr \<times> int) list \<Rightarrow> ('f, 'k) client \<Rightarrow> (('f, 'k) client \<times> unit result) option" where
  "cx_reconnect now keys cx =
     (case each reconnect_key keys cx of
        (cx1, Inl e) \<Rightarrow> Some (cx1, Inl e)
      | (cx1, Inr _) \<Rightarrow> cx_search now (map fst keys) cx1)"

section \<open>Circuit managers\<close>

text \<open>
  \<^verbatim>\<open>VirtualCircuitManager.send\<close>. Without a socket nothing is done; bytes the operating system refuses are an \<^verbatim>\<open>OSError\<close>, which
  comes after the circuit has accepted the commands.
\<close>

definition vm_send ::
  "(pystr \<Rightarrow> 'f result) \<Rightarrow> nat \<Rightarrow> message list \<Rightarrow> ('f, 'k) client \<Rightarrow> ('f, 'k) client \<times> unit result" where
  "vm_send mk k commands cx =
     (if \<not> vm_open (mgr cx k) then (cx, Inr ())
      else case send mk commands (vm_circuit (mgr cx k)) of
        (c, Inl e) \<Rightarrow> (upd_mgr k (\<lambda>vm. vm\<lparr>vm_circuit := c\<rparr>) cx, Inl e)
      | (c, Inr buffers) \<Rightarrow>
          if vm_writable (mgr cx k)
          then (upd_mgr k (\<lambda>vm. vm\<lparr>vm_circuit := c, vm_sent := vm_sent vm @ concat buffers\<rparr>) cx, Inr ())
          else (upd_mgr k (\<lambda>vm. vm\<lparr>vm_circuit := c\<rparr>) cx, Inl OSError))"

definition events_off :: "(pystr \<Rightarrow> 'f result) \<Rightarrow> nat \<Rightarrow> ('f, 'k) client \<Rightarrow> ('f, 'k) client \<times> unit result" where
  "events_off mk k cx = (case EventsOffRequest_init of Inl e \<Rightarrow> (cx, Inl e) | Inr m \<Rightarrow> vm_send mk k [m] cx)"

definition events_on :: "(pystr \<Rightarrow> 'f result) \<Rightarrow> nat \<Rightarrow> ('f, 'k) client \<Rightarrow> ('f, 'k) client \<times> unit result" where
  "events_on mk k cx = (case EventsOnRequest_init of Inl e \<Rightarrow> (cx, Inl e) | Inr m \<Rightarrow> vm_send mk k [m] cx)"

text \<open>
  The socket is closed. \<^verbatim>\<open>SelectorThread.remove_socket\<close> gives a watched object the empty bytes of a closed connection: the
  circuit becomes disconnected, and \<^verbatim>\<open>_disconnected\<close>, called again, finds the manager dead and returns.
\<close>

definition close_socket :: "int \<Rightarrow> nat \<Rightarrow> ('f, 'k) client \<Rightarrow> ('f, 'k) client" where
  "close_socket now k cx =
     (if vm_open (mgr cx k) then
        upd_mgr k (\<lambda>vm. if vm_registered vm
            then vm\<lparr>vm_open := False, vm_registered := False, vm_last_receipt := Some now, vm_circuit := CircuitState_disconnect (vm_circuit vm)\<rparr>
            else vm\<lparr>vm_open := False\<rparr>) cx
      else cx)"

text \<open>\<^verbatim>\<open>event.set()\<close> for a request that has an event.\<close>

definition wake :: "nat \<Rightarrow> ('f, 'k) client \<Rightarrow> ('f, 'k) client" where
  "wake i cx = upd_info i (\<lambda>info. info\<lparr>in_event := map_option (\<lambda>_. True) (in_event info)\<rparr>) cx"

definition not_ready :: "nat \<Rightarrow> ('f, 'k) client \<Rightarrow> ('f, 'k) client" where
  "not_ready p cx = upd_pv p (\<lambda>pv. pv\<lparr>pv_channel_ready := False, pv_circuit_ready := False\<rparr>) cx"

text \<open>The keys of the channels: \<^verbatim>\<open>(chan.name, chan.circuit.priority)\<close>.\<close>

definition channel_keys :: "('f, 'k) manager \<Rightarrow> (pystr \<times> int) list" where
  "channel_keys vm =
     map (\<lambda>(cid, r). (ch_name (chan (vm_circuit vm) r), the (circ_priority (vm_circuit vm)))) (vm_channels vm)"

text \<open>
  \<^verbatim>\<open>_disconnected\<close> up to the notification of the PVs. \<^verbatim>\<open>circuit.disconnect()\<close> changes nothing, and
  \<^verbatim>\<open>circuit_managers.pop(self.circuit.address, None)\<close> finds nothing, because the keys there are pairs of an address and a priority.
\<close>

definition mark_dead :: "nat \<Rightarrow> ('f, 'k) client \<Rightarrow> ('f, 'k) client" where
  "mark_dead k cx =
     (let vm = mgr cx k;
          cx1 = fold not_ready (map snd (vm_pvs vm)) cx;
          cx2 = fold wake (map snd (vm_ioids vm)) (upd_mgr k (\<lambda>vm. vm\<lparr>vm_dead := True\<rparr>) cx1);
          cx3 = fold forget_result (vm_created vm) cx2
      in upd_mgr k (\<lambda>vm. vm\<lparr>vm_created := []\<rparr>) cx3)"

definition vm_disconnected ::
  "('k \<Rightarrow> bool) \<Rightarrow> int \<Rightarrow> bool \<Rightarrow> nat \<Rightarrow> ('f, 'k) client \<Rightarrow> (('f, 'k) client \<times> unit result) option" where
  "vm_disconnected alive now reconnect k cx =
     (if vm_dead (mgr cx k) then Some (cx, Inr ())
      else case each (connection_state_changed alive False) (map snd (vm_pvs (mgr cx k))) (mark_dead k cx) of
        (cx1, Inl e) \<Rightarrow> Some (cx1, Inl e)
      | (cx1, Inr _) \<Rightarrow>
          let cx2 = close_socket now k cx1
          in if reconnect then cx_reconnect now (channel_keys (mgr cx2 k)) cx2 else Some (cx2, Inr ()))"

definition vm_disconnect ::
  "('k \<Rightarrow> bool) \<Rightarrow> int \<Rightarrow> nat \<Rightarrow> ('f, 'k) client \<Rightarrow> (('f, 'k) client \<times> unit result) option" where
  "vm_disconnect alive now k cx =
     map_option (\<lambda>(cx1, r). case r of
         Inl e \<Rightarrow> (cx1, Inl e)
       | Inr _ \<Rightarrow> (upd_mgr k (\<lambda>vm. vm\<lparr>vm_shutdown := True\<rparr>) cx1, Inr ()))
       (vm_disconnected alive now False k cx)"

section \<open>Processing of commands\<close>

text \<open>
  \<^verbatim>\<open>hasattr(ex, 'channel')\<close>: the exception came from the state machine of a channel.
\<close>

definition raised_by_channel :: "(pystr \<Rightarrow> 'f result) \<Rightarrow> message \<Rightarrow> 'f circuit \<Rightarrow> bool" where
  "raised_by_channel mk m c =
     (case transmute c m of
        Inl _ \<Rightarrow> False
      | Inr m' \<Rightarrow>
          in_cls m' channel_classes
          \<and> (case lookup_channel mk m' c of
               (c1, Inr (Some r)) \<Rightarrow>
                 (case (validate_subscription c1 m', channel_process_command m' r c1) of (Inr _, (_, Inl _)) \<Rightarrow> True | _ \<Rightarrow> False)
             | _ \<Rightarrow> False))"

text \<open>\<^verbatim>\<open>user_callback_executor.submit\<close> for the callback of a request.\<close>

definition submit_callback :: "nat \<Rightarrow> 'k option \<Rightarrow> message \<Rightarrow> ('f, 'k) client \<Rightarrow> ('f, 'k) client \<times> unit result" where
  "submit_callback k callback m cx =
     (case callback of
        None \<Rightarrow> (cx, Inr ())
      | Some c \<Rightarrow>
          if vm_shutdown (mgr cx k) then (cx, if vm_dead (mgr cx k) then Inr () else Inl RuntimeError)
          else (upd_mgr k (\<lambda>vm. vm\<lparr>vm_jobs := vm_jobs vm @ [(c, Answered m)]\<rparr>) cx, Inr ()))"

text \<open>A response to a reading or writing: the request is removed, late responses are dropped.\<close>

definition process_response :: "int \<Rightarrow> nat \<Rightarrow> message \<Rightarrow> ('f, 'k) client \<Rightarrow> ('f, 'k) client \<times> unit result" where
  "process_response now k m cx =
     (case dget (vm_ioids (mgr cx k)) (msg_ioid m) of
        None \<Rightarrow> (cx, Inl KeyError)
      | Some i \<Rightarrow>
          let cx1 = upd_mgr k (\<lambda>vm. vm\<lparr>vm_ioids := ddel (msg_ioid m) (vm_ioids vm)\<rparr>) cx;
              info = cx_infos cx ! i
          in case in_deadline info of
               None \<Rightarrow> (cx1, Inl KeyError)
             | Some deadline \<Rightarrow>
                 if (case deadline of None \<Rightarrow> False | Some d \<Rightarrow> now > d) then (cx1, Inr ())
                 else let cx2 = (if in_event info = None then cx1
                                 else upd_info i (\<lambda>info. info\<lparr>in_response := Some m, in_event := Some True\<rparr>) cx1)
                      in submit_callback k (in_callback info) m cx2)"

definition process_update :: "('k \<Rightarrow> bool) \<Rightarrow> nat \<Rightarrow> message \<Rightarrow> ('f, 'k) client \<Rightarrow> ('f, 'k) client \<times> unit result" where
  "process_update alive k m cx =
     (case dget (vm_subs (mgr cx k)) (msg_subscriptionid m) of
        None \<Rightarrow> (cx, Inr ()) | Some s \<Rightarrow> sub_process alive s m cx)"

definition process_created :: "('k \<Rightarrow> bool) \<Rightarrow> nat \<Rightarrow> message \<Rightarrow> ('f, 'k) client \<Rightarrow> ('f, 'k) client \<times> unit result" where
  "process_created alive k m cx =
     (case (dget (vm_pvs (mgr cx k)) (msg_cid m), dget (vm_channels (mgr cx k)) (msg_cid m)) of
        (Some p, Some r) \<Rightarrow>
          connection_state_changed alive True p
            (upd_pv p (\<lambda>pv. pv\<lparr>pv_channel := Some (k, r), pv_channel_ready := True\<rparr>)
               (upd_mgr k (\<lambda>vm. vm\<lparr>vm_created := vm_created vm @ [pv_name (cx_pvs cx ! p)]\<rparr>) cx))
      | _ \<Rightarrow> (cx, Inl KeyError))"

text \<open>The branches of \<^verbatim>\<open>_process_command\<close> for a message the circuit has accepted.\<close>

definition process_accepted ::
  "('k \<Rightarrow> bool) \<Rightarrow> int \<Rightarrow> nat \<Rightarrow> message \<Rightarrow> ('f, 'k) client \<Rightarrow> ('f, 'k) client \<times> unit result" where
  "process_accepted alive now k m cx =
     (if msg_class m = VersionResponse then
        (if vm_connected (mgr cx k) then (upd_mgr k (\<lambda>vm. vm\<lparr>vm_ready := True\<rparr>) cx, Inr ()) else (cx, Inl AssertionError))
      else if in_cls m [ReadNotifyResponse, ReadResponse, WriteNotifyResponse] then process_response now k m cx
      else if msg_class m = EventAddResponse then process_update alive k m cx
      else if msg_class m = AccessRightsResponse then
        (case dget (vm_pvs (mgr cx k)) (msg_cid m) of
           None \<Rightarrow> (cx, Inl KeyError) | Some p \<Rightarrow> access_rights_changed alive p (msg_access_rights m) cx)
      else if msg_class m = CreateChanResponse then process_created alive k m cx
      else if in_cls m [ServerDisconnResponse, ClearChannelResponse] then
        (case dget (vm_pvs (mgr cx k)) (msg_cid m) of
           None \<Rightarrow> (cx, Inl KeyError) | Some p \<Rightarrow> connection_state_changed alive False p cx)
      else (cx, Inr ()))"

text \<open>
  \<^verbatim>\<open>VirtualCircuitManager._process_command\<close>. An exception of a channel is logged; another exception of the protocol ends the
  circuit without reconnection; any other exception escapes.
\<close>

definition vm_process_command ::
  "(pystr \<Rightarrow> 'f result) \<Rightarrow> ('k \<Rightarrow> bool) \<Rightarrow> int \<Rightarrow> nat \<Rightarrow> command \<Rightarrow> ('f, 'k) client \<Rightarrow> (('f, 'k) client \<times> unit result) option" where
  "vm_process_command mk alive now k command cx =
     (case process_command mk command (vm_circuit (mgr cx k)) of
        (c, r) \<Rightarrow>
          let cx1 = upd_mgr k (\<lambda>vm. vm\<lparr>vm_circuit := c\<rparr>) cx
          in case (r, command) of
               (Inl e, Command m) \<Rightarrow>
                 if \<not> is_CaprotoError e then Some (cx1, Inl e)
                 else if raised_by_channel mk m (vm_circuit (mgr cx k)) then Some (cx1, Inr ())
                 else vm_disconnect alive now k cx1
             | (Inl e, Command_DISCONNECTED) \<Rightarrow> Some (cx1, Inl e)
             | (Inr _, Command_DISCONNECTED) \<Rightarrow> vm_disconnected alive now True k cx1
             | (Inr _, Command m) \<Rightarrow> Some (process_accepted alive now k m cx1))"

fun vm_process_commands ::
  "(pystr \<Rightarrow> 'f result) \<Rightarrow> ('k \<Rightarrow> bool) \<Rightarrow> int \<Rightarrow> nat \<Rightarrow> command list \<Rightarrow> ('f, 'k) client \<Rightarrow> (('f, 'k) client \<times> unit result) option" where
  "vm_process_commands mk alive now k [] cx = Some (cx, Inr ())"
| "vm_process_commands mk alive now k (c # cs) cx =
     (case vm_process_command mk alive now k c cx of
        None \<Rightarrow> None
      | Some (cx1, Inl e) \<Rightarrow> Some (cx1, Inl e)
      | Some (cx1, Inr _) \<Rightarrow> vm_process_commands mk alive now k cs cx1)"

definition vm_received ::
  "(pystr \<Rightarrow> 'f result) \<Rightarrow> ('k \<Rightarrow> bool) \<Rightarrow> int \<Rightarrow> nat \<Rightarrow> bytes \<Rightarrow> ('f, 'k) client \<Rightarrow> (('f, 'k) client \<times> unit result) option" where
  "vm_received mk alive now k bytes_recv cx =
     (case recv [bytes_recv] (vm_circuit (mgr cx k)) of
        (c, r) \<Rightarrow>
          let cx1 = upd_mgr k (\<lambda>vm. vm\<lparr>vm_last_receipt := Some now, vm_circuit := c\<rparr>) cx
          in case r of
               Inl e \<Rightarrow> Some (cx1, Inl e)
             | Inr (commands, needed) \<Rightarrow> vm_process_commands mk alive now k commands cx1)"

text \<open>
  \<^verbatim>\<open>SelectorThread.remove_socket\<close>, and what the selector does with received bytes: an exception, or the end of the
  connection, removes the socket.
\<close>

definition remove_socket ::
  "(pystr \<Rightarrow> 'f result) \<Rightarrow> ('k \<Rightarrow> bool) \<Rightarrow> int \<Rightarrow> nat \<Rightarrow> ('f, 'k) client \<Rightarrow> (('f, 'k) client \<times> unit result) option" where
  "remove_socket mk alive now k cx =
     (if vm_registered (mgr cx k)
      then vm_received mk alive now k [] (upd_mgr k (\<lambda>vm. vm\<lparr>vm_registered := False\<rparr>) cx)
      else Some (cx, Inr ()))"

definition selector_received ::
  "(pystr \<Rightarrow> 'f result) \<Rightarrow> ('k \<Rightarrow> bool) \<Rightarrow> int \<Rightarrow> nat \<Rightarrow> bytes \<Rightarrow> ('f, 'k) client \<Rightarrow> (('f, 'k) client \<times> unit result) option" where
  "selector_received mk alive now k bytes_recv cx =
     (case vm_received mk alive now k bytes_recv cx of
        None \<Rightarrow> None
      | Some (cx1, Inr _) \<Rightarrow> if bytes_recv = [] then remove_socket mk alive now k cx1 else Some (cx1, Inr ())
      | Some (cx1, Inl e) \<Rightarrow> remove_socket mk alive now k cx1)"

section \<open>PVs\<close>

text \<open>
  A timeout is \<open>None\<close> for no limit. The prologue of a method decorated with \<^verbatim>\<open>ensure_connected\<close>: an idle PV gets a new channel.
  The flag is cleared on \<^verbatim>\<open>self\<close>, so it stays set when \<^verbatim>\<open>self\<close> is a subscription. \<open>None\<close> is a call that does not return.
\<close>

definition revive_idle ::
  "(pystr \<Rightarrow> 'f result) \<Rightarrow> bool \<Rightarrow> nat \<Rightarrow> ('f, 'k) client \<Rightarrow> (('f, 'k) client \<times> unit result) option" where
  "revive_idle mk self_is_pv p cx =
     (let pv = cx_pvs cx ! p
      in if \<not> pv_circuit_ready pv then Some (cx, Inl CaprotoTimeoutError)
         else case pv_manager pv of
           None \<Rightarrow> Some (cx, Inl AttributeError)
         | Some k \<Rightarrow>
             (case new_channel_id (vm_circuit (mgr cx k)) of
                None \<Rightarrow> None
              | Some (c, cid) \<Rightarrow>
                  (case BaseChannel_init mk (pv_name pv) cid c of
                     (c1, Inl e) \<Rightarrow> Some (upd_mgr k (\<lambda>vm. vm\<lparr>vm_circuit := c1\<rparr>) cx, Inl e)
                   | (c1, Inr r) \<Rightarrow>
                       let cx1 = upd_mgr k (\<lambda>vm. vm\<lparr>vm_circuit := c1, vm_channels := dset cid r (vm_channels vm),
                                   vm_pvs := dset cid p (vm_pvs vm)\<rparr>) cx
                       in (case ClientChannel_create r c1 of
                             Inl e \<Rightarrow> Some (cx1, Inl e)
                           | Inr m \<Rightarrow>
                               (case vm_send mk k [m] cx1 of
                                  (cx2, Inl e) \<Rightarrow> Some (cx2, Inl e)
                                | (cx2, Inr _) \<Rightarrow>
                                    Some (if self_is_pv then upd_pv p (\<lambda>pv. pv\<lparr>pv_idle := False\<rparr>) cx2 else cx2, Inr ()))))))"

definition enter_connected ::
  "(pystr \<Rightarrow> 'f result) \<Rightarrow> bool \<Rightarrow> nat \<Rightarrow> ('f, 'k) client \<Rightarrow> (('f, 'k) client \<times> unit result) option" where
  "enter_connected mk self_is_pv p cx =
     (case (if pv_idle (cx_pvs cx ! p) then revive_idle mk self_is_pv p cx else Some (cx, Inr ())) of
        None \<Rightarrow> None
      | Some (cx1, Inl e) \<Rightarrow> Some (cx1, Inl e)
      | Some (cx1, Inr _) \<Rightarrow> Some (upd_pv p (\<lambda>pv. pv\<lparr>pv_usages := pv_usages pv + 1\<rparr>) cx1, Inr ()))"

definition leave_connected :: "nat \<Rightarrow> ('f, 'k) client \<Rightarrow> ('f, 'k) client" where
  "leave_connected p cx = upd_pv p (\<lambda>pv. pv\<lparr>pv_usages := pv_usages pv - 1\<rparr>) cx"

text \<open>
  The loop of \<^verbatim>\<open>ensure_connected\<close> over its attempts: the channel did not become ready in time, or the method ended with a result
  and left the circuit manager dead or alive. After \<^verbatim>\<open>CIRCUIT_DEATH_ATTEMPTS\<close> attempts the loop ends without a result.
\<close>

datatype 'v attempt = Not_ready | Tried "'v result" bool

definition is_TimeoutError :: "error \<Rightarrow> bool" where
  "is_TimeoutError e \<longleftrightarrow> e = CaprotoTimeoutError"

definition CIRCUIT_DEATH_ATTEMPTS :: nat where "CIRCUIT_DEATH_ATTEMPTS = 3"

fun attempts_loop :: "nat \<Rightarrow> 'v attempt list \<Rightarrow> 'v option result option" where
  "attempts_loop 0 as = Some (Inr None)"
| "attempts_loop (Suc n) [] = None"
| "attempts_loop (Suc n) (Not_ready # as) = Some (Inl CaprotoTimeoutError)"
| "attempts_loop (Suc n) (Tried (Inr v) dead # as) = Some (Inr (Some v))"
| "attempts_loop (Suc n) (Tried (Inl e) dead # as) =
     (if e = DeadCircuitError \<or> is_TimeoutError e \<and> dead then attempts_loop n as else Some (Inl e))"

definition ensure_connected :: "'v attempt list \<Rightarrow> 'v option result option" where
  "ensure_connected = attempts_loop CIRCUIT_DEATH_ATTEMPTS"

definition vm_new_ioid :: "nat \<Rightarrow> ('f, 'k) client \<Rightarrow> (('f, 'k) client \<times> int) option" where
  "vm_new_ioid k cx =
     map_option (\<lambda>v. (upd_mgr k (\<lambda>vm. vm\<lparr>vm_ioid_counter := v\<rparr>) cx, v)) (ThreadsafeCounter_call [] (vm_ioid_counter (mgr cx k)))"

text \<open>The request is stored under its id.\<close>

definition add_info :: "nat \<Rightarrow> int \<Rightarrow> 'k ioid_info \<Rightarrow> ('f, 'k) client \<Rightarrow> ('f, 'k) client" where
  "add_info k ioid info cx =
     upd_mgr k (\<lambda>vm. vm\<lparr>vm_ioids := dset ioid (length (cx_infos cx)) (vm_ioids vm)\<rparr>) (cx\<lparr>cx_infos := cx_infos cx @ [info]\<rparr>)"

text \<open>
  \<^verbatim>\<open>PV.read\<close> up to the wait, with the number of the request; the channel's circuit need not be the one of \<^verbatim>\<open>_circuit_manager\<close>.
\<close>

definition read_start ::
  "(pystr \<Rightarrow> 'f result) \<Rightarrow> int \<Rightarrow> nat \<Rightarrow> type_arg \<Rightarrow> int option \<Rightarrow> bool \<Rightarrow> 'k option \<Rightarrow> int option \<Rightarrow> ('f, 'k) client
     \<Rightarrow> (('f, 'k) client \<times> nat result) option" where
  "read_start mk now p data_type data_count notify callback timeout cx =
     (case pv_manager (cx_pvs cx ! p) of
        None \<Rightarrow> Some (cx, Inl AttributeError)
      | Some k \<Rightarrow>
          (case vm_new_ioid k cx of
             None \<Rightarrow> None
           | Some (cx1, ioid) \<Rightarrow>
               (case pv_channel (cx_pvs cx ! p) of
                  None \<Rightarrow> Some (cx1, Inl AttributeError)
                | Some (k', r) \<Rightarrow>
                    (case ClientChannel_read r data_type data_count (Some ioid) notify (vm_circuit (mgr cx1 k')) of
                       None \<Rightarrow> None
                     | Some (c, Inl e) \<Rightarrow> Some (cx1, Inl e)
                     | Some (c, Inr m) \<Rightarrow>
                         let i = length (cx_infos cx1);
                             cx2 = add_info k ioid \<lparr>in_event = Some False, in_pv = p, in_request = m, in_callback = callback,
                                     in_deadline = Some (map_option (\<lambda>t. now + t) timeout), in_response = None\<rparr> cx1
                         in (case vm_send mk k [m] cx2 of
                               (cx3, Inl e) \<Rightarrow> Some (cx3, Inl e) | (cx3, Inr _) \<Rightarrow> Some (cx3, Inr i))))))"

text \<open>After the wait of \<^verbatim>\<open>PV.read\<close>, which has ended because the event is set or the time is up.\<close>

definition read_finish :: "nat \<Rightarrow> nat \<Rightarrow> ('f, 'k) client \<Rightarrow> message result" where
  "read_finish k i cx =
     (let info = cx_infos cx ! i
      in if in_event info \<noteq> Some True then Inl CaprotoTimeoutError
         else if vm_dead (mgr cx k) then Inl DeadCircuitError
         else case in_response info of None \<Rightarrow> Inl KeyError | Some m \<Rightarrow> Inr m)"

text \<open>\<^verbatim>\<open>PV.write\<close>: \<open>compose\<close> is \<^verbatim>\<open>chan.write\<close> for the data, as in \<^const>\<open>ClientChannel_write\<close>.\<close>

definition write_start ::
  "(pystr \<Rightarrow> 'f result) \<Rightarrow> (ref \<Rightarrow> int \<Rightarrow> bool \<Rightarrow> 'f circuit \<Rightarrow> ('f circuit \<times> message result) option) \<Rightarrow> int \<Rightarrow> nat \<Rightarrow> bool
     \<Rightarrow> bool option \<Rightarrow> 'k option \<Rightarrow> int option \<Rightarrow> ('f, 'k) client \<Rightarrow> (('f, 'k) client \<times> nat option result) option" where
  "write_start mk compose now p wait notify callback timeout cx =
     (let notify = (case notify of None \<Rightarrow> wait \<or> callback \<noteq> None | Some b \<Rightarrow> b)
      in case pv_manager (cx_pvs cx ! p) of
        None \<Rightarrow> Some (cx, Inl AttributeError)
      | Some k \<Rightarrow>
          (case vm_new_ioid k cx of
             None \<Rightarrow> None
           | Some (cx1, ioid) \<Rightarrow>
               (case pv_channel (cx_pvs cx ! p) of
                  None \<Rightarrow> Some (cx1, Inl AttributeError)
                | Some (k', r) \<Rightarrow>
                    (case compose r ioid notify (vm_circuit (mgr cx1 k')) of
                       None \<Rightarrow> None
                     | Some (c, Inl e) \<Rightarrow> Some (cx1, Inl e)
                     | Some (c, Inr m) \<Rightarrow>
                         if \<not> notify \<and> (wait \<or> callback \<noteq> None) then Some (cx1, Inl CaprotoValueError)
                         else let i = length (cx_infos cx1);
                             cx2 = (if notify then add_info k ioid \<lparr>in_event = Some False, in_pv = p, in_request = m, in_callback = callback,
                                     in_deadline = Some (map_option (\<lambda>t. now + t) timeout), in_response = None\<rparr> cx1 else cx1)
                         in (case vm_send mk k [m] cx2 of
                               (cx3, Inl e) \<Rightarrow> Some (cx3, Inl e) | (cx3, Inr _) \<Rightarrow> Some (cx3, Inr (if notify then Some i else None)))))))"

text \<open>After the wait of \<^verbatim>\<open>PV.write\<close>: a dead circuit is looked for only when the time is up.\<close>

definition write_finish :: "nat \<Rightarrow> nat \<Rightarrow> ('f, 'k) client \<Rightarrow> message result" where
  "write_finish k i cx =
     (let info = cx_infos cx ! i
      in if in_event info \<noteq> Some True then Inl (if vm_dead (mgr cx k) then DeadCircuitError else CaprotoTimeoutError)
         else case in_response info of None \<Rightarrow> Inl KeyError | Some m \<Rightarrow> Inr m)"

text \<open>\<^verbatim>\<open>go_idle\<close>, taken when no other method uses the connection.\<close>

definition go_idle :: "(pystr \<Rightarrow> 'f result) \<Rightarrow> nat \<Rightarrow> ('f, 'k) client \<Rightarrow> ('f, 'k) client \<times> unit result" where
  "go_idle mk p cx =
     (let pv = cx_pvs cx ! p
      in if list_ex (\<lambda>(key, s). sub_callbacks cx s \<noteq> []) (pv_subscriptions pv) then (cx, Inr ())
         else if \<not> pv_channel_ready pv then (cx, Inr ())
         else let cx1 = upd_pv p (\<lambda>pv. pv\<lparr>pv_channel_ready := False\<rparr>) cx
              in (case (pv_manager pv, pv_channel pv) of
                    (Some k, Some (k', r)) \<Rightarrow>
                      (case ClientChannel_clear r (vm_circuit (mgr cx k')) of
                         Inl e \<Rightarrow> (cx1, Inl e)
                       | Inr m \<Rightarrow>
                           (case vm_send mk k [m] cx1 of
                              (cx2, Inl e) \<Rightarrow> if e = OSError then (upd_pv p (\<lambda>pv. pv\<lparr>pv_idle := True\<rparr>) cx2, Inr ()) else (cx2, Inl e)
                            | (cx2, Inr _) \<Rightarrow> (upd_pv p (\<lambda>pv. pv\<lparr>pv_idle := True\<rparr>) cx2, Inr ())))
                  | _ \<Rightarrow> (cx1, Inl AttributeError)))"

section \<open>Subscriptions\<close>

text \<open>\<^verbatim>\<open>PV.subscribe\<close>.\<close>

definition pv_subscribe :: "nat \<Rightarrow> sub_key \<Rightarrow> ('f, 'k) client \<Rightarrow> ('f, 'k) client \<times> nat" where
  "pv_subscribe p key cx =
     (case dget (pv_subscriptions (cx_pvs cx ! p)) key of
        Some s \<Rightarrow> (cx, s)
      | None \<Rightarrow>
          let s = length (cx_subs cx)
          in (upd_pv p (\<lambda>pv. pv\<lparr>pv_subscriptions := dset key s (pv_subscriptions pv)\<rparr>) (cx\<lparr>cx_subs := cx_subs cx @ [Subscription_init p key]\<rparr>), s))"

text \<open>\<^verbatim>\<open>_subscribe\<close>.\<close>

definition start_subscription :: "nat \<Rightarrow> ('f, 'k) client \<Rightarrow> ('f, 'k) client" where
  "start_subscription s cx =
     (case pv_manager (cx_pvs cx ! su_pv (cx_subs cx ! s)) of
        None \<Rightarrow> upd_sub s (\<lambda>sub. sub\<lparr>su_reactivate := True\<rparr>) cx
      | Some k \<Rightarrow> (to_activate_add k s cx)\<lparr>cx_activate_now := True\<rparr>)"

text \<open>\<^verbatim>\<open>add_callback\<close>; the second value is what the callback is called with at once.\<close>

definition sub_add_callback :: "nat \<Rightarrow> 'k \<Rightarrow> ('f, 'k) client \<Rightarrow> ('f, 'k) client \<times> int \<times> client_event option" where
  "sub_add_callback s c cx =
     (let sub = cx_subs cx ! s;
          (h, token) = handler_add c (su_handler sub);
          cx1 = upd_sub s (\<lambda>sub. sub\<lparr>su_handler := h\<rparr>) cx
      in if cb_dict (su_handler sub) = [] then (start_subscription s cx1, token, None)
         else (cx1, token, map_option (Updated s) (su_recent sub)))"

text \<open>\<^verbatim>\<open>_unsubscribe\<close>.\<close>

definition end_subscription :: "(pystr \<Rightarrow> 'f result) \<Rightarrow> nat \<Rightarrow> ('f, 'k) client \<Rightarrow> ('f, 'k) client \<times> unit result" where
  "end_subscription mk s cx =
     (case su_id (cx_subs cx ! s) of
        None \<Rightarrow> (cx, Inr ())
      | Some subid \<Rightarrow>
          let cx1 = upd_sub s (\<lambda>sub. sub\<lparr>su_id := None, su_recent := None\<rparr>) cx;
              p = su_pv (cx_subs cx ! s)
          in case pv_manager (cx_pvs cx ! p) of
               None \<Rightarrow> (cx1, Inl AttributeError)
             | Some k \<Rightarrow>
                 let cx2 = upd_mgr k (\<lambda>vm. vm\<lparr>vm_subs := ddel subid (vm_subs vm)\<rparr>) cx1
                 in (case pv_channel (cx_pvs cx ! p) of
                       None \<Rightarrow> (cx2, Inr ())
                     | Some (k', r) \<Rightarrow>
                         if \<not> pv_connected cx2 p then (cx2, Inr ())
                         else (case ClientChannel_unsubscribe r subid (vm_circuit (mgr cx2 k')) of
                                 Inl e \<Rightarrow> (cx2, if e = CaprotoKeyError then Inr () else Inl e)
                               | Inr m \<Rightarrow> vm_send mk k [m] cx2)))"

definition sub_remove_callback ::
  "(pystr \<Rightarrow> 'f result) \<Rightarrow> nat \<Rightarrow> int \<Rightarrow> ('f, 'k) client \<Rightarrow> ('f, 'k) client \<times> unit result" where
  "sub_remove_callback mk s token cx =
     (let cx1 = upd_sub s (\<lambda>sub. sub\<lparr>su_handler := handler_remove token (su_handler sub)\<rparr>) cx
      in if sub_callbacks cx1 s \<noteq> [] then (cx1, Inr ())
         else case end_subscription mk s cx1 of
           (cx2, Inl e) \<Rightarrow> (cx2, Inl e)
         | (cx2, Inr _) \<Rightarrow> (upd_sub s (\<lambda>sub. sub\<lparr>su_recent := None, su_reactivate := False\<rparr>) cx2, Inr ()))"

definition sub_clear :: "(pystr \<Rightarrow> 'f result) \<Rightarrow> nat \<Rightarrow> ('f, 'k) client \<Rightarrow> ('f, 'k) client \<times> unit result" where
  "sub_clear mk s cx = each (sub_remove_callback mk s) (map fst (sub_callbacks cx s)) cx"

definition unsubscribe_all :: "(pystr \<Rightarrow> 'f result) \<Rightarrow> nat \<Rightarrow> ('f, 'k) client \<Rightarrow> ('f, 'k) client \<times> unit result" where
  "unsubscribe_all mk p cx = each (sub_clear mk) (map snd (pv_subscriptions (cx_pvs cx ! p))) cx"

text \<open>
  \<^verbatim>\<open>compose_command\<close>, taken when its wait for the channel is over: the channel is ready, or the time is up. (The prologue
  for an idle PV is \<^const>\<open>enter_connected\<close>.)
\<close>

definition compose_command :: "nat \<Rightarrow> ('f, 'k) client \<Rightarrow> (('f, 'k) client \<times> message option result) option" where
  "compose_command s cx =
     (let sub = cx_subs cx ! s; p = su_pv sub
      in if \<not> pv_channel_ready (cx_pvs cx ! p) then Some (cx, Inl CaprotoTimeoutError)
         else if sub_callbacks cx s = [] then Some (cx, Inr None)
         else case (pv_manager (cx_pvs cx ! p), pv_channel (cx_pvs cx ! p)) of
           (Some k, Some (k', r)) \<Rightarrow>
             (case ThreadsafeCounter_call [] (vm_sub_counter (mgr cx k)) of
                None \<Rightarrow> None
              | Some subid \<Rightarrow>
                  let cx1 = upd_mgr k (\<lambda>vm. vm\<lparr>vm_sub_counter := subid\<rparr>) cx
                  in case su_key sub of (data_type, data_count, low, high, to, msk) \<Rightarrow>
                    (case ClientChannel_subscribe r data_type data_count (Some subid) low high to msk (vm_circuit (mgr cx1 k')) of
                       None \<Rightarrow> None
                     | Some (c, Inl e) \<Rightarrow> Some (cx1, Inl e)
                     | Some (c, Inr m) \<Rightarrow>
                         Some (upd_mgr k (\<lambda>vm. vm\<lparr>vm_subs := dset (msg_subscriptionid m) s (vm_subs vm)\<rparr>)
                                 (upd_sub s (\<lambda>sub. sub\<lparr>su_id := Some (msg_subscriptionid m)\<rparr>) cx1), Inr (Some m))))
         | _ \<Rightarrow> Some (cx, Inl AttributeError))"

definition EVENT_ADD_BATCH_MAX_BYTES :: nat where "EVENT_ADD_BATCH_MAX_BYTES = 65536"

text \<open>
  The batches of one circuit manager: the commands are composed when \<^verbatim>\<open>batch_requests\<close> asks for them. A batch that cannot be
  sent ends the work on this circuit; an exception while composing ends the thread.
\<close>

fun activate_circuit ::
  "(pystr \<Rightarrow> 'f result) \<Rightarrow> nat \<Rightarrow> nat list \<Rightarrow> message list \<Rightarrow> nat \<Rightarrow> ('f, 'k) client \<Rightarrow> (('f, 'k) client \<times> unit result) option" where
  "activate_circuit mk k [] batch sz cx = Some (if batch = [] then cx else fst (vm_send mk k batch cx), Inr ())"
| "activate_circuit mk k (s # ss) batch sz cx =
     (case compose_command s cx of
        None \<Rightarrow> None
      | Some (cx1, Inl e) \<Rightarrow> Some (cx1, Inl e)
      | Some (cx1, Inr None) \<Rightarrow> activate_circuit mk k ss batch sz cx1
      | Some (cx1, Inr (Some m)) \<Rightarrow>
          if sz + message_len m > EVENT_ADD_BATCH_MAX_BYTES then
            (case vm_send mk k batch cx1 of
               (cx2, Inl e) \<Rightarrow> Some (cx2, Inr ())
             | (cx2, Inr _) \<Rightarrow> activate_circuit mk k ss [m] (message_len m) cx2)
          else activate_circuit mk k ss (batch @ [m]) (sz + message_len m) cx1)"

fun activate_items ::
  "(pystr \<Rightarrow> 'f result) \<Rightarrow> (nat \<times> nat list) list \<Rightarrow> ('f, 'k) client \<Rightarrow> (('f, 'k) client \<times> unit result) option" where
  "activate_items mk [] cx = Some (cx, Inr ())"
| "activate_items mk ((k, ss) # items) cx =
     (case activate_circuit mk k ss [] 0 cx of
        None \<Rightarrow> None
      | Some (cx1, Inl e) \<Rightarrow> Some (cx1, Inl e)
      | Some (cx1, Inr _) \<Rightarrow> activate_items mk items cx1)"

text \<open>One iteration of the thread \<^verbatim>\<open>_activate_subscriptions\<close>.\<close>

definition activate_subscriptions :: "(pystr \<Rightarrow> 'f result) \<Rightarrow> ('f, 'k) client \<Rightarrow> (('f, 'k) client \<times> unit result) option" where
  "activate_subscriptions mk cx =
     (if \<not> cx_activation_thread cx \<or> cx_closed cx then Some (cx, Inr ())
      else case activate_items mk (cx_to_activate cx) (cx\<lparr>cx_to_activate := []\<rparr>) of
        None \<Rightarrow> None
      | Some (cx1, Inl e) \<Rightarrow> Some (cx1\<lparr>cx_activation_thread := False\<rparr>, Inl e)
      | Some (cx1, Inr _) \<Rightarrow> Some (cx1\<lparr>cx_activate_now := False\<rparr>, Inr ()))"

section \<open>The context\<close>

text \<open>
  \<^verbatim>\<open>get_pvs\<close> for one name, with optional callbacks that are run at once if there was an earlier event; the second value tells
  whether the name has to be searched.
\<close>

definition add_state_callback :: "('k \<Rightarrow> bool) \<Rightarrow> nat \<Rightarrow> 'k option \<Rightarrow> ('f, 'k) client \<Rightarrow> ('f, 'k) client \<times> unit result" where
  "add_state_callback alive p callback cx =
     (case callback of
        None \<Rightarrow> (cx, Inr ())
      | Some c \<Rightarrow>
          let h = pv_state_callback (cx_pvs cx ! p);
              cx1 = upd_pv p (\<lambda>pv. pv\<lparr>pv_state_callback := fst (handler_add c h)\<rparr>) cx
          in case cb_last_call h of None \<Rightarrow> (cx1, Inr ()) | Some ev \<Rightarrow> state_process alive p ev cx1)"

definition rights_process :: "('k \<Rightarrow> bool) \<Rightarrow> nat \<Rightarrow> client_event \<Rightarrow> ('f, 'k) client \<Rightarrow> ('f, 'k) client \<times> unit result" where
  "rights_process alive p ev cx =
     (case handler_process alive (pv_manager (cx_pvs cx ! p)) ev (pv_rights_callback (cx_pvs cx ! p)) cx of
        (cx1, h, r) \<Rightarrow> (upd_pv p (\<lambda>pv. pv\<lparr>pv_rights_callback := h\<rparr>) cx1, r))"

definition add_rights_callback :: "('k \<Rightarrow> bool) \<Rightarrow> nat \<Rightarrow> 'k option \<Rightarrow> ('f, 'k) client \<Rightarrow> ('f, 'k) client \<times> unit result" where
  "add_rights_callback alive p callback cx =
     (case callback of
        None \<Rightarrow> (cx, Inr ())
      | Some c \<Rightarrow>
          let h = pv_rights_callback (cx_pvs cx ! p);
              cx1 = upd_pv p (\<lambda>pv. pv\<lparr>pv_rights_callback := fst (handler_add c h)\<rparr>) cx
          in case cb_last_call h of None \<Rightarrow> (cx1, Inr ()) | Some ev \<Rightarrow> rights_process alive p ev cx1)"

definition cached_pv :: "pystr \<Rightarrow> int \<Rightarrow> ('f, 'k) client \<Rightarrow> ('f, 'k) client \<times> nat \<times> bool" where
  "cached_pv name priority cx =
     (case dget (cx_pv_cache cx) (name, priority) of
        Some p \<Rightarrow> (cx, p, False)
      | None \<Rightarrow>
          let p = length (cx_pvs cx)
          in (needing_add name p (cx\<lparr>cx_pvs := cx_pvs cx @ [PV_init name priority], cx_pv_cache := dset (name, priority) p (cx_pv_cache cx)\<rparr>),
              p, True))"

fun get_pvs_loop ::
  "('k \<Rightarrow> bool) \<Rightarrow> pystr list \<Rightarrow> int \<Rightarrow> 'k option \<Rightarrow> 'k option \<Rightarrow> nat list \<Rightarrow> pystr list \<Rightarrow> ('f, 'k) client
     \<Rightarrow> ('f, 'k) client \<times> (nat list \<times> pystr list) result" where
  "get_pvs_loop alive [] priority state_cb rights_cb ps searches cx = (cx, Inr (ps, searches))"
| "get_pvs_loop alive (name # names) priority state_cb rights_cb ps searches cx =
     (case cached_pv name priority cx of
        (cx1, p, new) \<Rightarrow>
          (case add_state_callback alive p state_cb cx1 of
             (cx2, Inl e) \<Rightarrow> (cx2, Inl e)
           | (cx2, Inr _) \<Rightarrow>
               (case add_rights_callback alive p rights_cb cx2 of
                  (cx3, Inl e) \<Rightarrow> (cx3, Inl e)
                | (cx3, Inr _) \<Rightarrow>
                    get_pvs_loop alive names priority state_cb rights_cb (ps @ [p]) (if new then searches @ [name] else searches) cx3)))"

definition get_pvs ::
  "('k \<Rightarrow> bool) \<Rightarrow> int \<Rightarrow> pystr list \<Rightarrow> int \<Rightarrow> 'k option \<Rightarrow> 'k option \<Rightarrow> ('f, 'k) client \<Rightarrow> (('f, 'k) client \<times> nat list result) option" where
  "get_pvs alive now names priority state_cb rights_cb cx =
     (if cx_closed cx then Some (cx, Inl ContextDisconnectedError)
      else case get_pvs_loop alive names priority state_cb rights_cb [] [] cx of
        (cx1, Inl e) \<Rightarrow> Some (cx1, Inl e)
      | (cx1, Inr (ps, searches)) \<Rightarrow>
          if searches = [] then Some (cx1, Inr ps)
          else map_option (\<lambda>(cx2, r). (cx2, bindE r (\<lambda>_. Inr ps))) (cx_search now searches cx1))"

text \<open>
  What happens when a TCP connection is tried: the operating system refuses it, or accepts it and these bytes are received while
  the new manager waits to be ready.
\<close>

datatype connection = Refused error | Accepted "bytes list"

record host_info =
  hi_host_name :: text_arg
  hi_client_name :: text_arg

definition manager_init :: "'f circuit \<Rightarrow> ('f, 'k) manager" where
  "manager_init c =
     \<lparr>vm_circuit = c, vm_channels = [], vm_pvs = [], vm_ioids = [], vm_subs = [], vm_open = True, vm_registered = True,
      vm_writable = True, vm_sent = [], vm_last_receipt = None, vm_created = [], vm_dead = False, vm_ready = False,
      vm_ioid_counter = ThreadsafeCounter_init, vm_sub_counter = ThreadsafeCounter_init, vm_jobs = [], vm_shutdown = False\<rparr>"

fun selector_loop ::
  "(pystr \<Rightarrow> 'f result) \<Rightarrow> ('k \<Rightarrow> bool) \<Rightarrow> int \<Rightarrow> nat \<Rightarrow> bytes list \<Rightarrow> ('f, 'k) client \<Rightarrow> ('f, 'k) client option" where
  "selector_loop mk alive now k [] cx = Some cx"
| "selector_loop mk alive now k (b # bs) cx =
     (if \<not> vm_registered (mgr cx k) then Some cx
      else case selector_received mk alive now k b cx of None \<Rightarrow> None | Some (cx1, _) \<Rightarrow> selector_loop mk alive now k bs cx1)"

text \<open>
  \<^verbatim>\<open>VirtualCircuitManager.__init__\<close>. A manager whose initialisation raises is garbage, and its finalizer closes the socket.
\<close>

definition discard :: "nat \<Rightarrow> ('f, 'k) client \<Rightarrow> ('f, 'k) client" where
  "discard k cx = cx\<lparr>cx_managers := take k (cx_managers cx)\<rparr>"

definition connect_manager ::
  "(pystr \<Rightarrow> 'f result) \<Rightarrow> ('k \<Rightarrow> bool) \<Rightarrow> int \<Rightarrow> host_info \<Rightarrow> connection \<Rightarrow> int \<Rightarrow> 'f circuit \<Rightarrow> ('f, 'k) client
     \<Rightarrow> (('f, 'k) client \<times> nat result) option" where
  "connect_manager mk alive now host conn version c cx =
     (case conn of
        Refused e \<Rightarrow> Some (cx, Inl e)
      | Accepted chunks \<Rightarrow>
          let k = length (cx_managers cx); cx1 = cx\<lparr>cx_managers := cx_managers cx @ [manager_init c]\<rparr>
          in (case bindE (VersionRequest_init (the (circ_priority c)) DEFAULT_PROTOCOL_VERSION) (\<lambda>v.
                   bindE (HostNameRequest_init (hi_host_name host)) (\<lambda>h.
                   bindE (ClientNameRequest_init (hi_client_name host)) (\<lambda>n. Inr [v, h, n]))) of
                Inl e \<Rightarrow> Some (cx, Inl e)
              | Inr greeting \<Rightarrow>
                  (case vm_send mk k greeting cx1 of
                     (cx2, Inl e) \<Rightarrow> Some (cx, Inl e)
                   | (cx2, Inr _) \<Rightarrow>
                       (case selector_loop mk alive now k chunks (upd_mgr k (\<lambda>vm. vm\<lparr>vm_ready := version < 12\<rparr>) cx2) of
                          None \<Rightarrow> None
                        | Some cx3 \<Rightarrow> Some (if vm_ready (mgr cx3 k) then (cx3, Inr k) else (discard k cx3, Inl CaprotoTimeoutError))))))"

definition new_manager_at ::
  "(pystr \<Rightarrow> 'f result) \<Rightarrow> ('k \<Rightarrow> bool) \<Rightarrow> int \<Rightarrow> host_info \<Rightarrow> connection \<Rightarrow> address \<Rightarrow> int \<Rightarrow> ('f, 'k) client
     \<Rightarrow> (('f, 'k) client \<times> nat result) option" where
  "new_manager_at mk alive now host conn address priority cx =
     (case dget (sb_versions (cx_broadcaster cx)) address of
        None \<Rightarrow> Some (cx, Inl KeyError)
      | Some version \<Rightarrow>
          (case VirtualCircuit_init CLIENT address (Some priority) version of
             Inl e \<Rightarrow> Some (cx, Inl e)
           | Inr c \<Rightarrow>
               (case connect_manager mk alive now host conn version c cx of
                  None \<Rightarrow> None
                | Some (cx1, Inl e) \<Rightarrow> Some (cx1, Inl e)
                | Some (cx1, Inr k) \<Rightarrow>
                    Some (cx1\<lparr>cx_circuit_managers := dset (address, priority) k (cx_circuit_managers cx1)\<rparr>, Inr k))))"

definition get_circuit_manager ::
  "(pystr \<Rightarrow> 'f result) \<Rightarrow> ('k \<Rightarrow> bool) \<Rightarrow> int \<Rightarrow> host_info \<Rightarrow> connection \<Rightarrow> address \<Rightarrow> int \<Rightarrow> ('f, 'k) client
     \<Rightarrow> (('f, 'k) client \<times> nat result) option" where
  "get_circuit_manager mk alive now host conn address priority cx =
     (case dget (cx_circuit_managers cx) (address, priority) of
        None \<Rightarrow> new_manager_at mk alive now host conn address priority cx
      | Some k \<Rightarrow>
          if vm_dead (mgr cx k) then new_manager_at mk alive now host conn address priority cx else Some (cx, Inr k))"

text \<open>A PV whose name was found gets a circuit manager and a channel; \<open>grouped\<close> maps managers to the new channels.\<close>

definition give_circuit ::
  "(pystr \<Rightarrow> 'f result) \<Rightarrow> ('k \<Rightarrow> bool) \<Rightarrow> int \<Rightarrow> host_info \<Rightarrow> connection \<Rightarrow> address \<Rightarrow> pystr \<Rightarrow> nat \<Rightarrow> (nat, ref list) dict
     \<Rightarrow> ('f, 'k) client \<Rightarrow> (('f, 'k) client \<times> (nat, ref list) dict result) option" where
  "give_circuit mk alive now host conn address name p grouped cx =
     (case get_circuit_manager mk alive now host conn address (pv_priority (cx_pvs cx ! p)) cx of
        None \<Rightarrow> None
      | Some (cx1, Inl e) \<Rightarrow> Some (cx1, Inl e)
      | Some (cx1, Inr k) \<Rightarrow>
          let cx2 = upd_pv p (\<lambda>pv. pv\<lparr>pv_manager := Some k\<rparr>) cx1
          in (case new_channel_id (vm_circuit (mgr cx2 k)) of
                None \<Rightarrow> None
              | Some (c, cid) \<Rightarrow>
                  (case BaseChannel_init mk name cid c of
                     (c1, Inl e) \<Rightarrow> Some (upd_mgr k (\<lambda>vm. vm\<lparr>vm_circuit := c1\<rparr>) cx2, Inl e)
                   | (c1, Inr r) \<Rightarrow>
                       Some (upd_pv p (\<lambda>pv. pv\<lparr>pv_circuit_ready := True\<rparr>)
                               (upd_mgr k (\<lambda>vm. vm\<lparr>vm_circuit := c1, vm_channels := dset cid r (vm_channels vm), vm_pvs := dset cid p (vm_pvs vm)\<rparr>) cx2),
                             Inr (dset k (dd_value grouped k @ [r]) grouped)))))"

fun give_circuits ::
  "(pystr \<Rightarrow> 'f result) \<Rightarrow> ('k \<Rightarrow> bool) \<Rightarrow> int \<Rightarrow> host_info \<Rightarrow> connection \<Rightarrow> address \<Rightarrow> pystr \<Rightarrow> nat list \<Rightarrow> (nat, ref list) dict
     \<Rightarrow> ('f, 'k) client \<Rightarrow> (('f, 'k) client \<times> (nat, ref list) dict result) option" where
  "give_circuits mk alive now host conn address name [] grouped cx = Some (cx, Inr grouped)"
| "give_circuits mk alive now host conn address name (p # ps) grouped cx =
     (case give_circuit mk alive now host conn address name p grouped cx of
        None \<Rightarrow> None
      | Some (cx1, Inl e) \<Rightarrow> Some (cx1, Inl e)
      | Some (cx1, Inr grouped1) \<Rightarrow> give_circuits mk alive now host conn address name ps grouped1 cx1)"

fun found_names ::
  "(pystr \<Rightarrow> 'f result) \<Rightarrow> ('k \<Rightarrow> bool) \<Rightarrow> int \<Rightarrow> host_info \<Rightarrow> connection \<Rightarrow> address \<Rightarrow> pystr list \<Rightarrow> (nat, ref list) dict
     \<Rightarrow> ('f, 'k) client \<Rightarrow> (('f, 'k) client \<times> (nat, ref list) dict result) option" where
  "found_names mk alive now host conn address [] grouped cx = Some (cx, Inr grouped)"
| "found_names mk alive now host conn address (name # names) grouped cx =
     (case give_circuits mk alive now host conn address name (dd_value (cx_needing cx) name) grouped
             (cx\<lparr>cx_needing := ddel name (cx_needing cx)\<rparr>) of
        None \<Rightarrow> None
      | Some (cx1, Inl e) \<Rightarrow> Some (cx1, Inl e)
      | Some (cx1, Inr grouped1) \<Rightarrow> found_names mk alive now host conn address names grouped1 cx1)"

fun create_commands :: "ref list \<Rightarrow> 'f circuit \<Rightarrow> message list result" where
  "create_commands [] c = Inr []"
| "create_commands (r # rs) c = bindE (ClientChannel_create r c) (\<lambda>m. bindE (create_commands rs c) (\<lambda>ms. Inr (m # ms)))"

definition create_channels :: "(pystr \<Rightarrow> 'f result) \<Rightarrow> nat \<times> ref list \<Rightarrow> ('f, 'k) client \<Rightarrow> ('f, 'k) client \<times> unit result" where
  "create_channels mk g cx =
     (case create_commands (snd g) (vm_circuit (mgr cx (fst g))) of
        Inl e \<Rightarrow> (cx, Inl e)
      | Inr commands \<Rightarrow>
          (case vm_send mk (fst g) commands cx of
             (cx1, Inr _) \<Rightarrow> (cx1, Inr ())
           | (cx1, Inl e) \<Rightarrow> (cx1, if vm_dead (mgr cx1 (fst g)) then Inr () else Inl e)))"

text \<open>One iteration of \<^verbatim>\<open>_process_search_results_loop\<close>; an exception ends its thread.\<close>

definition process_search_results ::
  "(pystr \<Rightarrow> 'f result) \<Rightarrow> ('k \<Rightarrow> bool) \<Rightarrow> int \<Rightarrow> host_info \<Rightarrow> connection \<Rightarrow> ('f, 'k) client \<Rightarrow> (('f, 'k) client \<times> unit result) option" where
  "process_search_results mk alive now host conn cx =
     (if \<not> cx_search_thread cx \<or> cx_closed cx then Some (cx, Inr ())
      else case cx_results_queue cx of
        [] \<Rightarrow> Some (cx, Inr ())
      | (address, names) # rest \<Rightarrow>
          (case found_names mk alive now host conn address names [] (cx\<lparr>cx_results_queue := rest\<rparr>) of
             None \<Rightarrow> None
           | Some (cx1, Inl e) \<Rightarrow> Some (cx1\<lparr>cx_search_thread := False\<rparr>, Inl e)
           | Some (cx1, Inr grouped) \<Rightarrow>
               (case each (create_channels mk) grouped cx1 of
                  (cx2, Inl e) \<Rightarrow> Some (cx2\<lparr>cx_search_thread := False\<rparr>, Inl e)
                | (cx2, Inr _) \<Rightarrow> Some (cx2, Inr ()))))"

text \<open>
  \<^verbatim>\<open>Context.disconnect\<close>: \<^verbatim>\<open>circuit.connected\<close> is read of every manager in turn. The broadcaster loses its only listener.
\<close>

fun disconnect_all ::
  "('k \<Rightarrow> bool) \<Rightarrow> int \<Rightarrow> nat list \<Rightarrow> ('f, 'k) client \<Rightarrow> (('f, 'k) client \<times> unit result) option" where
  "disconnect_all alive now [] cx = Some (cx, Inr ())"
| "disconnect_all alive now (k # ks) cx =
     (if \<not> vm_connected (mgr cx k) then disconnect_all alive now ks cx
      else case vm_disconnect alive now k cx of
        None \<Rightarrow> None
      | Some (cx1, Inl e) \<Rightarrow> Some (cx1, Inl e)
      | Some (cx1, Inr _) \<Rightarrow> disconnect_all alive now ks cx1)"

definition cx_disconnect :: "('k \<Rightarrow> bool) \<Rightarrow> int \<Rightarrow> ('f, 'k) client \<Rightarrow> (('f, 'k) client \<times> unit result) option" where
  "cx_disconnect alive now cx =
     map_option (\<lambda>(cx1, r). (cx1\<lparr>cx_broadcaster := sb_disconnect (cx_broadcaster cx1), cx_circuit_managers := []\<rparr>, r))
       (disconnect_all alive now (map snd (cx_circuit_managers cx)) (cx\<lparr>cx_closed := True\<rparr>))"

section \<open>Unresponsive servers\<close>

definition RESPONSIVENESS_TIMEOUT :: int where "RESPONSIVENESS_TIMEOUT = 500"

text \<open>The managers of each address, and the time a server was last heard; comparing a time with \<^verbatim>\<open>None\<close> raises \<^verbatim>\<open>TypeError\<close>.\<close>

definition servers_of :: "('f, 'k) client \<Rightarrow> (address, nat list) dict" where
  "servers_of cx = fold (\<lambda>((address, _), k) d. dset address (List.insert k (dd_value d address)) d) (cx_circuit_managers cx) []"

definition last_heard :: "address \<Rightarrow> nat list \<Rightarrow> ('f, 'k) client \<Rightarrow> int result" where
  "last_heard address ks cx =
     (if list_ex (\<lambda>k. vm_last_receipt (mgr cx k) = None) ks then Inl TypeError
      else Inr (fold max (map (\<lambda>k. the (vm_last_receipt (mgr cx k))) ks)
             (case dget (sb_last_beacon (cx_broadcaster cx)) address of None \<Rightarrow> 0 | Some t \<Rightarrow> t)))"

text \<open>\<^verbatim>\<open>circuit_manager.send(EchoRequest())\<close> with every exception ignored.\<close>

definition echo_circuit :: "(pystr \<Rightarrow> 'f result) \<Rightarrow> nat \<Rightarrow> ('f, 'k) client \<Rightarrow> ('f, 'k) client" where
  "echo_circuit mk k cx = (case EchoRequest_init of Inl _ \<Rightarrow> cx | Inr m \<Rightarrow> fst (vm_send mk k [m] cx))"

fun look_for_silence ::
  "(pystr \<Rightarrow> 'f result) \<Rightarrow> int \<Rightarrow> int \<Rightarrow> (address \<times> nat list) list \<Rightarrow> (address, int) dict \<Rightarrow> ('f, 'k) client
     \<Rightarrow> ('f, 'k) client \<times> (address, int) dict result" where
  "look_for_silence mk now cutoff [] heard cx = (cx, Inr heard)"
| "look_for_silence mk now cutoff ((address, ks) # servers) heard cx =
     (case last_heard address ks cx of
        Inl e \<Rightarrow> (cx, Inl e)
      | Inr t \<Rightarrow>
          look_for_silence mk now cutoff servers (dset address t heard)
            (if t < cutoff \<and> dget (cx_checking cx) address = None
             then fold (echo_circuit mk) ks (cx\<lparr>cx_checking := dset address (now + RESPONSIVENESS_TIMEOUT) (cx_checking cx)\<rparr>)
             else cx))"

fun give_up_circuits ::
  "('k \<Rightarrow> bool) \<Rightarrow> int \<Rightarrow> nat list \<Rightarrow> ('f, 'k) client \<Rightarrow> (('f, 'k) client \<times> unit result) option" where
  "give_up_circuits alive now [] cx = Some (cx, Inr ())"
| "give_up_circuits alive now (k # ks) cx =
     (if \<not> vm_connected (mgr cx k) then give_up_circuits alive now ks cx
      else case vm_disconnected alive now True k cx of
        None \<Rightarrow> None
      | Some (cx1, Inl e) \<Rightarrow> Some (cx1, Inl e)
      | Some (cx1, Inr _) \<Rightarrow> give_up_circuits alive now ks cx1)"

definition stop_checking :: "address \<Rightarrow> ('f, 'k) client \<Rightarrow> ('f, 'k) client" where
  "stop_checking address cx = cx\<lparr>cx_checking := ddel address (cx_checking cx)\<rparr>"

fun resolve_checks ::
  "('k \<Rightarrow> bool) \<Rightarrow> int \<Rightarrow> int \<Rightarrow> (address, nat list) dict \<Rightarrow> (address, int) dict \<Rightarrow> (address \<times> int) list \<Rightarrow> ('f, 'k) client
     \<Rightarrow> (('f, 'k) client \<times> unit result) option" where
  "resolve_checks alive now cutoff servers heard [] cx = Some (cx, Inr ())"
| "resolve_checks alive now cutoff servers heard ((address, deadline) # checks) cx =
     (case dget heard address of
        None \<Rightarrow> Some (cx, Inl KeyError)
      | Some t \<Rightarrow>
          if t > cutoff then resolve_checks alive now cutoff servers heard checks (stop_checking address cx)
          else if deadline < now then
            (case give_up_circuits alive now (dd_value servers address) cx of
               None \<Rightarrow> None
             | Some (cx1, Inl e) \<Rightarrow> Some (cx1, Inl e)
             | Some (cx1, Inr _) \<Rightarrow> resolve_checks alive now cutoff servers heard checks (stop_checking address cx1))
          else resolve_checks alive now cutoff servers heard checks cx)"

text \<open>One iteration of \<^verbatim>\<open>_check_for_unresponsive_servers\<close>; \<open>limit\<close> is \<^verbatim>\<open>EPICS_CA_CONN_TMO\<close>.\<close>

definition check_for_unresponsive_servers ::
  "(pystr \<Rightarrow> 'f result) \<Rightarrow> ('k \<Rightarrow> bool) \<Rightarrow> int \<Rightarrow> int \<Rightarrow> ('f, 'k) client \<Rightarrow> (('f, 'k) client \<times> unit result) option" where
  "check_for_unresponsive_servers mk alive now limit cx =
     (let cutoff = now - (limit + 100); servers = servers_of cx
      in case look_for_silence mk now cutoff servers [] cx of
           (cx1, Inl e) \<Rightarrow> Some (cx1, Inl e)
         | (cx1, Inr heard) \<Rightarrow> resolve_checks alive now cutoff servers heard (cx_checking cx1) cx1)"

section \<open>Batches\<close>

record batch =
  ba_commands :: "(nat, message list) dict"
  ba_infos :: "nat list"

definition Batch_init :: batch where
  "Batch_init = \<lparr>ba_commands = [], ba_infos = []\<rparr>"

definition batch_request ::
  "(ref \<Rightarrow> int \<Rightarrow> 'f circuit \<Rightarrow> ('f circuit \<times> message result) option) \<Rightarrow> nat \<Rightarrow> 'k option \<Rightarrow> batch \<Rightarrow> ('f, 'k) client
     \<Rightarrow> (('f, 'k) client \<times> batch result) option" where
  "batch_request compose p callback b cx =
     (case pv_manager (cx_pvs cx ! p) of
        None \<Rightarrow> Some (cx, Inl AttributeError)
      | Some k \<Rightarrow>
          (case vm_new_ioid k cx of
             None \<Rightarrow> None
           | Some (cx1, ioid) \<Rightarrow>
               (case pv_channel (cx_pvs cx ! p) of
                  None \<Rightarrow> Some (cx1, Inl AttributeError)
                | Some (k', r) \<Rightarrow>
                    (case compose r ioid (vm_circuit (mgr cx1 k')) of
                       None \<Rightarrow> None
                     | Some (c, Inl e) \<Rightarrow> Some (cx1, Inl e)
                     | Some (c, Inr m) \<Rightarrow>
                         let b1 = b\<lparr>ba_commands := dset k (dd_value (ba_commands b) k @ [m]) (ba_commands b)\<rparr>
                         in Some (case callback of
                              None \<Rightarrow> (cx1, Inr b1)
                            | Some _ \<Rightarrow>
                                (add_info k ioid \<lparr>in_event = None, in_pv = p, in_request = m, in_callback = callback, in_deadline = None,
                                   in_response = None\<rparr> cx1,
                                 Inr (b1\<lparr>ba_infos := ba_infos b1 @ [length (cx_infos cx1)]\<rparr>)))))))"

definition batch_read :: "nat \<Rightarrow> 'k \<Rightarrow> type_arg \<Rightarrow> int option \<Rightarrow> batch \<Rightarrow> ('f, 'k) client \<Rightarrow> (('f, 'k) client \<times> batch result) option" where
  "batch_read p callback data_type data_count b cx =
     batch_request (\<lambda>r ioid c. ClientChannel_read r data_type data_count (Some ioid) True c) p (Some callback) b cx"

definition batch_write ::
  "(ref \<Rightarrow> int \<Rightarrow> bool \<Rightarrow> 'f circuit \<Rightarrow> ('f circuit \<times> message result) option) \<Rightarrow> nat \<Rightarrow> 'k option \<Rightarrow> batch \<Rightarrow> ('f, 'k) client
     \<Rightarrow> (('f, 'k) client \<times> batch result) option" where
  "batch_write compose p callback b cx = batch_request (\<lambda>r ioid c. compose r ioid (callback \<noteq> None) c) p callback b cx"

definition batch_exit ::
  "(pystr \<Rightarrow> 'f result) \<Rightarrow> int \<Rightarrow> int option \<Rightarrow> batch \<Rightarrow> ('f, 'k) client \<Rightarrow> ('f, 'k) client \<times> unit result" where
  "batch_exit mk now timeout b cx =
     each (\<lambda>(k, ms). vm_send mk k ms) (ba_commands b)
       (fold (\<lambda>i. upd_info i (\<lambda>info. info\<lparr>in_deadline := Some (map_option (\<lambda>t. now + t) timeout)\<rparr>)) (ba_infos b) cx)"

end
