(* ===== verification/CA_Client.thy ===== *)
theory CA_Client
  imports CA_Manager
begin

text \<open>
  What an operation of a client's circuit keeps, for the client of \<^verbatim>\<open>caproto/threading/client.py\<close>: the names of the channels, the
  ids of requests, the versions, and the channels while messages of a client are sent.
\<close>

section \<open>What an operation of a circuit keeps\<close>

text \<open>Channels keep their names, no channel is added, and the only new ids of requests are in \<open>new\<close>.\<close>

definition circ_frame :: "int set \<Rightarrow> 'f circuit \<Rightarrow> 'f circuit \<Rightarrow> bool" where
  "circ_frame new c c' \<longleftrightarrow>
     our_role c' = our_role c \<and> (circ_priority c \<noteq> None \<longrightarrow> circ_priority c' = circ_priority c)
   \<and> length (circ_store c) \<le> length (circ_store c') \<and> (\<forall>r < length (circ_store c). ch_name (chan c' r) = ch_name (chan c r))
   \<and> dget (circ_channels c') \<subseteq>\<^sub>m dget (circ_channels c)
   \<and> dom (dget (circ_ioids c')) \<subseteq> dom (dget (circ_ioids c)) \<union> new"

lemma frame_refl [simp]: "circ_frame new c c"
  by (simp add: circ_frame_def)

lemma frame_trans:
  assumes f: "circ_frame a c c'" and g: "circ_frame b c' c''"
  shows "circ_frame (a \<union> b) c c''"
proof -
  have "\<forall>r < length (circ_store c). ch_name (chan c'' r) = ch_name (chan c r)"
    using f g unfolding circ_frame_def by (simp add: less_le_trans)
  moreover have "dget (circ_channels c'') \<subseteq>\<^sub>m dget (circ_channels c)"
    using f g unfolding circ_frame_def by (blast intro: map_le_trans)
  moreover have "dom (dget (circ_ioids c'')) \<subseteq> dom (dget (circ_ioids c)) \<union> (a \<union> b)"
    using f g unfolding circ_frame_def by blast
  moreover have "our_role c'' = our_role c" "circ_priority c \<noteq> None \<longrightarrow> circ_priority c'' = circ_priority c"
    "length (circ_store c) \<le> length (circ_store c'')"
    using f g unfolding circ_frame_def by auto
  ultimately show ?thesis unfolding circ_frame_def by blast
qed

lemma frame_trans_same: "circ_frame a c c' \<Longrightarrow> circ_frame a c' c'' \<Longrightarrow> circ_frame a c c''"
  using frame_trans [of a c c' a c''] by simp

lemma frame_mono: "circ_frame a c c' \<Longrightarrow> a \<subseteq> b \<Longrightarrow> circ_frame b c c'"
  unfolding circ_frame_def by auto

lemma frame_set_chan: "ch_name ch = ch_name (chan c r) \<Longrightarrow> circ_frame new c (set_chan r ch c)"
  by (auto simp: circ_frame_def chan_set_chan)

lemma frame_fields [simp]:
  "circ_frame new c (c'\<lparr>circ_states := st\<rparr>) = circ_frame new c c'"
  "circ_frame new c (c'\<lparr>protocol_version := v\<rparr>) = circ_frame new c c'"
  "circ_frame new c (c'\<lparr>circ_data := d\<rparr>) = circ_frame new c c'"
  "circ_frame new c (c'\<lparr>circ_channels_sid := sid\<rparr>) = circ_frame new c c'"
  "circ_frame new c (c'\<lparr>event_add_commands := ea\<rparr>) = circ_frame new c c'"
  "circ_frame new c (c'\<lparr>event_cancel_commands := ec\<rparr>) = circ_frame new c c'"
  by (simp_all add: circ_frame_def chan_def)

lemma frame_fold: "(\<And>x c. circ_frame new c (f x c)) \<Longrightarrow> circ_frame new c (fold f xs c)"
  by (induction xs arbitrary: c) (auto intro: frame_trans_same)

lemma frame_update_channel: "circ_frame new c (update_channel r c)"
  by (simp add: update_channel_def frame_set_chan split: prod.splits)

lemma frame_update_channels: "circ_frame new c (update_channels c)"
  unfolding update_channels_def by (rule frame_fold) (rule frame_update_channel)

lemma frame_type: "circ_frame new c (fst (CircuitState_process_command_type role cls c))"
  using frame_trans_same [OF _ frame_update_channels, of new c "c\<lparr>circ_states := st\<rparr>" for st]
  by (auto simp: CircuitState_process_command_type_def split: sum.splits)

lemma frame_set_versions: "circ_frame new c (set_versions v c)"
proof -
  have "circ_frame new (c\<lparr>protocol_version := v\<rparr>) (set_versions v c)"
    unfolding set_versions_def by (rule frame_fold) (rule frame_set_chan, simp)
  then show ?thesis by (rule frame_trans_same [rotated]) simp
qed

lemma frame_priority: "circ_priority c = None \<or> circ_priority c = Some p \<Longrightarrow> circ_frame new c (c\<lparr>circ_priority := Some p\<rparr>)"
  by (auto simp: circ_frame_def chan_def)

lemma frame_version: "circ_frame new c (fst (process_version m c))"
  by (auto simp: process_version_def intro: frame_set_versions frame_trans_same [OF frame_priority frame_set_versions])

lemma frame_circuit_command: "circ_frame new c (fst (circuit_command m c))"
proof -
  obtain c1 r1 where 1: "CircuitState_process_command_type (our_role c) (msg_class m) c = (c1, r1)" by fastforce
  obtain c2 r2 where 2: "CircuitState_process_command_type (their_role c) (msg_class m) c1 = (c2, r2)" by fastforce
  have f: "circ_frame new c c1" "circ_frame new c1 c2" "circ_frame new c2 (fst (process_version m c2))"
    using frame_type [of new c "our_role c" "msg_class m"] frame_type [of new c1 "their_role c" "msg_class m"] 1 2 frame_version by auto
  show ?thesis
    using frame_trans_same [OF f(1,2)] frame_trans_same [OF frame_trans_same [OF f(1,2)] f(3)] f(1) 1 2
    by (auto simp: circuit_command_def split: sum.splits prod.splits)
qed

lemma dict_doms:
  "dom (dget (ddel k d)) = dom (dget d) - {k}" "dom (dget (dset k v d)) = insert k (dom (dget d))"
  by (simp_all add: delete_conv' update_conv')

lemma frame_ioids:
  "dom (dget d) \<subseteq> dom (dget (circ_ioids c)) \<union> new \<Longrightarrow> circ_frame new c (c\<lparr>circ_ioids := d\<rparr>)"
  by (simp add: circ_frame_def chan_def)

lemma frame_lookup:
  assumes "lookup_channel mk m c = (c', r)" and "msg_class m = CreateChanRequest \<longrightarrow> dget (circ_channels c) (msg_cid m) \<noteq> None"
  shows "circ_frame new c c'"
proof -
  have "in_cls m [CreateChanRequest] \<longrightarrow> dget (circ_channels c) (msg_cid m) \<noteq> None" using assms(2) by (simp add: in_cls_def)
  then have "c' = c \<or> c' = c\<lparr>circ_ioids := ddel (msg_ioid m) (circ_ioids c)\<rparr>"
    using assms(1) unfolding lookup_channel_def Let_def by (auto split: if_splits option.splits)
  moreover have "circ_frame new c (c\<lparr>circ_ioids := ddel (msg_ioid m) (circ_ioids c)\<rparr>)"
    by (rule frame_ioids) (simp add: dict_doms, blast)
  ultimately show ?thesis by auto
qed

lemma frame_process: "circ_frame new c (fst (channel_process_command m r c))"
proof -
  have "circ_frame new c (set_chan r (ch\<lparr>ch_states := st\<rparr>) c)"
    if "(if msg_class m = CreateChanResponse
         then bindE (msg_data_type m) (\<lambda>t. Inr ((chan c r)\<lparr>ch_native_data_type := Some t, ch_native_data_count := Some (msg_data_count m)\<rparr>))
         else Inr (chan c r)) = Inr ch" for ch st
    using that by (intro frame_set_chan) (auto simp: bindE_eq_Inr split: if_splits)
  then show ?thesis by (auto simp: channel_process_command_def split: sum.splits prod.splits)
qed

lemma dom_filter: "dom (dget (filter (\<lambda>(k, v). P v) d)) \<subseteq> dom (dget d)"
  unfolding dom_map_of_conv_image_fst by auto

lemma frame_remove: "circ_frame new c (fst (remove_channel r c))"
proof -
  have "circ_frame new c (c\<lparr>circ_channels := ddel k (circ_channels c), circ_ioids := filter (\<lambda>(k, v). v \<noteq> r) (circ_ioids c)\<rparr>)" for k
    using dom_filter [of "\<lambda>v. v \<noteq> r" "circ_ioids c"] by (auto simp: circ_frame_def chan_def delete_conv' map_le_def)
  then have "circ_frame new c (c\<lparr>circ_channels_sid := s, circ_channels := ddel k (circ_channels c), circ_ioids := filter (\<lambda>(k, v). v \<noteq> r) (circ_ioids c)\<rparr>)"
    for k s by (simp add: circ_frame_def chan_def)
  then show ?thesis by (auto simp: remove_channel_def Let_def split: option.splits)
qed

lemma frame_post:
  assumes "msg_class m \<in> {ReadNotifyRequest, ReadRequest, WriteNotifyRequest} \<longrightarrow> msg_ioid m \<in> new"
  shows "circ_frame new c (fst (post_update m r c))"
proof -
  have "in_cls m [ReadNotifyRequest, ReadRequest, WriteNotifyRequest] \<longrightarrow>
      circ_frame new c (c\<lparr>circ_ioids := dset (msg_ioid m) r (circ_ioids c)\<rparr>)"
    using assms unfolding in_cls_def by (intro impI frame_ioids) (simp add: dict_doms, blast)
  then show ?thesis
    unfolding post_update_def Let_def using frame_remove by (auto intro: frame_set_chan split: option.splits)
qed

lemma frame_channel_command:
  assumes "msg_class m = CreateChanRequest \<longrightarrow> dget (circ_channels c) (msg_cid m) \<noteq> None"
    and "msg_class m \<in> {ReadNotifyRequest, ReadRequest, WriteNotifyRequest} \<longrightarrow> msg_ioid m \<in> new"
  shows "circ_frame new c (fst (channel_command mk m c))"
proof -
  obtain c1 l where 1: "lookup_channel mk m c = (c1, l)" by fastforce
  note f1 = frame_lookup [OF 1 assms(1)]
  have "circ_frame new c (fst (post_update m r (fst (channel_process_command m r c1))))"
    "circ_frame new c (fst (channel_process_command m r c1))" for r
    using f1 frame_process frame_post [OF assms(2)] frame_trans_same by metis+
  then show ?thesis
    using f1 by (auto simp: channel_command_def 1 split: sum.splits option.splits prod.splits; metis fst_conv)
qed

lemma frame_command:
  assumes "msg_class m = CreateChanRequest \<longrightarrow> dget (circ_channels c) (msg_cid m) \<noteq> None"
    and "msg_class m \<in> {ReadNotifyRequest, ReadRequest, WriteNotifyRequest} \<longrightarrow> msg_ioid m \<in> new"
  shows "circ_frame new c (fst (process_command_internal mk (Command m) c))"
proof (cases "msg_class m = EventAddResponse")
  case False
  then show ?thesis
    by (simp add: process_command_internal_def transmute_other frame_channel_command [OF assms] frame_circuit_command)
next
  case True
  have "circ_frame new c (fst (channel_command mk m' c))" if "transmute c m = Inr m'" for m'
  proof (rule frame_channel_command)
    from that have "msg_class m' \<in> {EventAddResponse, EventCancelResponse}"
      using True by (auto simp: transmute_def bindE_eq_Inr EventCancelResponse_init_def Message_init_def from_components_def Let_def split: option.splits if_splits)
    then show "msg_class m' = CreateChanRequest \<longrightarrow> dget (circ_channels c) (msg_cid m') \<noteq> None"
      "msg_class m' \<in> {ReadNotifyRequest, ReadRequest, WriteNotifyRequest} \<longrightarrow> msg_ioid m' \<in> new" by auto
  qed
  then show ?thesis by (auto simp: process_command_internal_def frame_circuit_command split: sum.splits)
qed

text \<open>A circuit that has sent or received its version does not fall back.\<close>

definition started :: "'f circuit \<Rightarrow> bool" where
  "started c \<longleftrightarrow> fst (circ_states c) \<noteq> SEND_VERSION_REQUEST"

lemma states_init: "BaseChannel_init mk name cid c = (c', r) \<Longrightarrow> circ_states c' = circ_states c"
  by (auto simp: BaseChannel_init_def Let_def split: sum.splits)

lemma states_lookup: "lookup_channel mk m c = (c', l) \<Longrightarrow> circ_states c' = circ_states c"
  unfolding lookup_channel_def Let_def by (auto dest: states_init split: if_splits option.splits sum.splits prod.splits)

lemma states_post: "post_update m r c = (c', u) \<Longrightarrow> circ_states c' = circ_states c"
  unfolding post_update_def Let_def remove_channel_def by (auto split: if_splits option.splits)

lemma states_process:
  assumes "wf_circuit c" and "registered c r" and "channel_process_command m r c = (c', u)"
  shows "circ_states c' = circ_states c"
proof -
  have "\<exists>ch' res. channel_step (our_role c) (msg_class m) (ch_states (chan c r), circ_states c) = ((ch', circ_states c), res)"
    using channel_step_ok [of "circ_states c" "ch_states (chan c r)"] wf_chan(1) [OF assms(1) registered_refs [OF assms(2)]] assms(1)
    by (force simp: wf_circuit_def states_ok_def)
  then show ?thesis using assms(3) by (auto simp: channel_process_command_def bindE_eq_Inr split: sum.splits if_splits)
qed

lemma states_channel_command:
  assumes "wf_circuit c" and "channel_command mk m c = (c', u)"
  shows "circ_states c' = circ_states c"
proof -
  obtain c1 l where 1: "lookup_channel mk m c = (c1, l)" by fastforce
  have st: "circ_states c1 = circ_states c" by (rule states_lookup [OF 1])
  show ?thesis
  proof (cases "\<exists>r. l = Inr (Some r) \<and> validate_subscription c1 m = Inr ()")
    case True
    then obtain r where r: "l = Inr (Some r)" "validate_subscription c1 m = Inr ()" by blast
    have w: "wf_circuit c1" "registered c1 r" using lookup_channel_ok [OF assms(1) 1] r by auto
    obtain c2 p where 2: "channel_process_command m r c1 = (c2, p)" by fastforce
    note states_process [OF w 2]
    with st assms(2) r 1 2 show ?thesis
      by (auto simp: channel_command_def dest: states_post split: sum.splits prod.splits)
  next
    case False
    then have "c' = c1" using assms(2) 1 by (auto simp: channel_command_def split: sum.splits option.splits)
    with st show ?thesis by simp
  qed
qed

lemma states_set_versions [simp]: "circ_states (set_versions v c) = circ_states c"
proof -
  have "circ_states (fold (\<lambda>r c. set_chan r ((chan c r)\<lparr>ch_protocol_version := v\<rparr>) c) rs d) = circ_states d" for rs and d :: "'a circuit"
    by (induction rs arbitrary: d) auto
  from this [of "map snd (circ_channels c)" "c\<lparr>protocol_version := v\<rparr>"] show ?thesis by (simp add: set_versions_def)
qed

lemma states_version: "process_version m c = (c', u) \<Longrightarrow> circ_states c' = circ_states c"
  by (auto simp: process_version_def split: if_splits)

lemma circuit_steps:
  assumes "p \<in> set circuit_pairs" and "fst p \<noteq> SEND_VERSION_REQUEST"
  shows "fst (fst (circuit_step CLIENT cls p)) \<noteq> SEND_VERSION_REQUEST"
    and "cls = VersionResponse \<Longrightarrow> \<not> isl (snd (circuit_step CLIENT cls p)) \<Longrightarrow> fst (fst (circuit_step CLIENT cls p)) = CONNECTED"
proof -
  have "list_all (\<lambda>p. fst p = SEND_VERSION_REQUEST \<or> list_all (\<lambda>cls. fst (fst (circuit_step CLIENT cls p)) \<noteq> SEND_VERSION_REQUEST
      \<and> (cls = VersionResponse \<and> \<not> isl (snd (circuit_step CLIENT cls p)) \<longrightarrow> fst (fst (circuit_step CLIENT cls p)) = CONNECTED)) all_classes) circuit_pairs"
    by code_simp
  then show "fst (fst (circuit_step CLIENT cls p)) \<noteq> SEND_VERSION_REQUEST"
    "cls = VersionResponse \<Longrightarrow> \<not> isl (snd (circuit_step CLIENT cls p)) \<Longrightarrow> fst (fst (circuit_step CLIENT cls p)) = CONNECTED"
    using assms class_in_all [of cls] by (auto simp: list_all_iff)
qed

lemma states_circuit_command:
  assumes "circ_states c \<in> set circuit_pairs" and "circuit_command m c = (c', u)"
  shows "circ_states c' = fst (circuit_step (our_role c) (msg_class m) (circ_states c))"
    and "\<not> isl u \<Longrightarrow> \<not> isl (snd (circuit_step (our_role c) (msg_class m) (circ_states c)))"
  using assms(2) by (auto simp: circuit_command_step [OF assms(1)] dest: states_version split: sum.splits prod.splits)

lemma started_command:
  assumes "wf_circuit c" and "our_role c = CLIENT" and "started c" and "process_command_internal mk (Command m) c = (c', u)"
  shows "started c'"
proof -
  have p: "circ_states c \<in> set circuit_pairs" using assms(1) by (simp add: wf_circuit_def states_ok_def)
  have ne: "fst (circ_states c) \<noteq> SEND_VERSION_REQUEST" using assms(3) by (simp add: started_def)
  show ?thesis
  proof (cases "transmute c m")
    case (Inl e)
    with assms(3,4) show ?thesis by (simp add: process_command_internal_def)
  next
    case (Inr m')
    show ?thesis
    proof (cases "in_cls m' channel_classes")
      case True
      with Inr assms(4) have "channel_command mk m' c = (c', u)" by (simp add: process_command_internal_def)
      with states_channel_command [OF assms(1)] ne show ?thesis by (simp add: started_def)
    next
      case False
      with Inr assms(4) have "circuit_command m' c = (c', u)" by (simp add: process_command_internal_def)
      from states_circuit_command(1) [OF p this] circuit_steps(1) [OF p ne] assms(2) show ?thesis by (simp add: started_def)
    qed
  qed
qed

text \<open>A command from the server that the circuit accepts refers to a request or a channel the circuit knows.\<close>

lemma accepted_known:
  assumes "process_command mk (Command m) c = (c', Inr cb)"
  shows "msg_class m \<in> {ReadNotifyResponse, ReadResponse, WriteNotifyResponse} \<Longrightarrow> dget (circ_ioids c) (msg_ioid m) \<noteq> None"
    and "msg_class m \<in> {AccessRightsResponse, CreateChanResponse, ServerDisconnResponse, ClearChannelResponse} \<Longrightarrow>
      dget (circ_channels c) (msg_cid m) \<noteq> None"
proof -
  show "dget (circ_ioids c) (msg_ioid m) \<noteq> None" if "msg_class m \<in> {ReadNotifyResponse, ReadResponse, WriteNotifyResponse}"
  proof
    assume "dget (circ_ioids c) (msg_ioid m) = None"
    from answer_unknown [OF that this, of mk] assms show False by simp
  qed
  show "dget (circ_channels c) (msg_cid m) \<noteq> None"
    if "msg_class m \<in> {AccessRightsResponse, CreateChanResponse, ServerDisconnResponse, ClearChannelResponse}"
  proof
    assume none: "dget (circ_channels c) (msg_cid m) = None"
    have "msg_class m \<in> set channel_classes" "msg_class m \<noteq> EventAddResponse" using that by (auto simp: channel_classes_def)
    then show False
      using assms none lookup_cid [of m mk c] that by (auto simp: process_channel_class channel_command_def getitem_def)
  qed
qed

lemma version_connects:
  assumes "wf_circuit c" and "our_role c = CLIENT" and "started c" and "msg_class m = VersionResponse"
    and "process_command mk (Command m) c = (c', Inr cb)"
  shows "get_state CLIENT (circ_states c') = CONNECTED"
proof -
  have p: "circ_states c \<in> set circuit_pairs" using assms(1) by (simp add: wf_circuit_def states_ok_def)
  have "msg_class m \<notin> set channel_classes" using assms(4) by (simp add: channel_classes_def)
  then have run: "circuit_command m c = (c', Inr cb)" using assms(5) by (simp add: process_circuit_class)
  have "fst (fst (circuit_step CLIENT (msg_class m) (circ_states c))) = CONNECTED"
    using circuit_steps(2) [OF p, of "msg_class m"] states_circuit_command(2) [OF p run] assms(2-4) by (simp add: started_def)
  moreover have "get_state CLIENT x = fst x" for x :: states by (cases x) simp
  ultimately show ?thesis using states_circuit_command(1) [OF p run] assms(2) by simp
qed

section \<open>Sending\<close>

text \<open>The ids of the requests among messages, and the messages that open no channel the circuit does not know.\<close>

definition request_ids :: "message list \<Rightarrow> int set" where
  "request_ids ms = msg_ioid ` {m \<in> set ms. msg_class m \<in> {ReadNotifyRequest, ReadRequest, WriteNotifyRequest}}"

definition known_creates :: "message list \<Rightarrow> 'f circuit \<Rightarrow> bool" where
  "known_creates ms c \<longleftrightarrow> (\<forall>m \<in> set ms. msg_class m = CreateChanRequest \<longrightarrow> dget (circ_channels c) (msg_cid m) \<noteq> None)"

lemma channels_lookup:
  assumes "lookup_channel mk m c = (c', l)" and "msg_class m = CreateChanRequest \<longrightarrow> dget (circ_channels c) (msg_cid m) \<noteq> None"
  shows "circ_channels c' = circ_channels c"
proof -
  have "in_cls m [CreateChanRequest] \<longrightarrow> dget (circ_channels c) (msg_cid m) \<noteq> None" using assms(2) by (simp add: in_cls_def)
  then show ?thesis using assms(1) unfolding lookup_channel_def Let_def by (auto split: if_splits option.splits)
qed

lemma channels_process: "channel_process_command m r c = (c', u) \<Longrightarrow> circ_channels c' = circ_channels c"
  by (auto simp: channel_process_command_def split: sum.splits prod.splits)

lemma channels_post:
  assumes "post_update m r c = (c', u)" and "\<not> in_cls m [ServerDisconnResponse, ClearChannelResponse]"
  shows "circ_channels c' = circ_channels c"
  using assms unfolding post_update_def Let_def by (auto split: if_splits option.splits)

lemma channels_circuit: "circ_channels (fst (circuit_command m c)) = circ_channels c"
proof -
  have up: "circ_channels (fold update_channel rs d) = circ_channels d" for rs and d :: "'a circuit"
    by (induction rs arbitrary: d) (auto simp: update_channel_def split: prod.splits)
  have ty: "circ_channels (fst (CircuitState_process_command_type r cls d)) = circ_channels d" for r cls and d :: "'a circuit"
    by (auto simp: CircuitState_process_command_type_def update_channels_def up split: sum.splits)
  have "circ_channels (fold (\<lambda>r c. set_chan r ((chan c r)\<lparr>ch_protocol_version := v\<rparr>) c) rs d) = circ_channels d" for rs v and d :: "'a circuit"
    by (induction rs arbitrary: d) auto
  then have "circ_channels (fst (process_version m d)) = circ_channels d" for d :: "'a circuit"
    by (auto simp: process_version_def set_versions_def)
  with ty show ?thesis
    by (auto simp: circuit_command_def split: sum.splits prod.splits) (metis fst_conv)+
qed

lemma not_closing:
  assumes "msg_class m \<notin> {ServerDisconnResponse, ClearChannelResponse, EventAddResponse}"
    and "msg_class m = CreateChanRequest \<longrightarrow> dget (circ_channels c) (msg_cid m) \<noteq> None"
  shows "circ_channels (fst (process_command_internal mk (Command m) c)) = circ_channels c"
proof -
  have nc: "\<not> in_cls m [ServerDisconnResponse, ClearChannelResponse]" using assms(1) by (auto simp: in_cls_def)
  have "circ_channels c' = circ_channels c" if "channel_command mk m c = (c', u)" for c' u
    using that assms(2) nc
    by (auto simp: channel_command_def dest!: channels_lookup channels_process channels_post split: sum.splits option.splits prod.splits)
  then have "circ_channels (fst (channel_command mk m c)) = circ_channels c" by (metis prod.collapse)
  then show ?thesis using assms(1) by (simp add: process_command_internal_def transmute_other channels_circuit)
qed

definition client_message :: "message \<Rightarrow> bool" where
  "client_message m \<longleftrightarrow> msg_class m \<notin> {ServerDisconnResponse, ClearChannelResponse, EventAddResponse}"

text \<open>What sending does to a circuit that is well-formed and started.\<close>

lemma send_keeps:
  assumes "wf_circuit c" and "our_role c = CLIENT" and "\<forall>m \<in> set ms. client_message m" and "known_creates ms c"
    and "send mk ms c = (c', u)"
  shows "wf_circuit c' \<and> our_role c' = CLIENT \<and> circ_frame (request_ids ms) c c' \<and> circ_channels c' = circ_channels c
    \<and> (started c \<longrightarrow> started c')"
  using assms
proof (induction ms arbitrary: c c' u)
  case (Cons m ms)
  obtain c1 r1 where 1: "process_command_internal mk (Command m) c = (c1, r1)" by fastforce
  obtain c2 r2 where 2: "send mk ms c1 = (c2, r2)" by fastforce
  have know: "msg_class m = CreateChanRequest \<longrightarrow> dget (circ_channels c) (msg_cid m) \<noteq> None"
    using Cons.prems(4) by (simp add: known_creates_def)
  have new: "msg_class m \<in> {ReadNotifyRequest, ReadRequest, WriteNotifyRequest} \<longrightarrow> msg_ioid m \<in> request_ids [m]"
    by (auto simp: request_ids_def)
  have f: "circ_frame (request_ids [m]) c c1" using frame_command [OF know new, of mk] 1 by simp
  have ch: "circ_channels c1 = circ_channels c"
    using not_closing [OF _ know, of mk] Cons.prems(3) 1 by (simp add: client_message_def)
  have w: "wf_circuit c1" using circuit_op.step_inv [OF Cons.prems(1), of mk "Command m"] 1 by simp
  have r: "our_role c1 = CLIENT" using f Cons.prems(2) by (simp add: circ_frame_def)
  have st: "started c \<longrightarrow> started c1" using started_command [OF Cons.prems(1,2) _ 1] by simp
  have kc: "known_creates ms c1" using Cons.prems(4) ch by (simp add: known_creates_def)
  have ids: "request_ids (m # ms) = request_ids [m] \<union> request_ids ms" by (auto simp: request_ids_def)
  show ?case
  proof (cases r1)
    case (Inl e)
    with 1 Cons.prems(5) w r st ch frame_mono [OF f, of "request_ids (m # ms)"] ids show ?thesis by auto
  next
    case (Inr x)
    with 1 2 Cons.prems(5) have "c' = c2" by (auto split: sum.splits)
    with Cons.IH [OF w r _ kc 2] Cons.prems(3) frame_trans [OF f] ch st ids show ?thesis by auto
  qed
qed (auto simp: request_ids_def)

section \<open>The circuit of a manager\<close>

definition circ_ok :: "'f circuit \<Rightarrow> bool" where
  "circ_ok c \<longleftrightarrow> wf_circuit c \<and> counters_ok c \<and> our_role c = CLIENT \<and> started c"

lemma circ_ok_data: "circ_ok c \<Longrightarrow> circ_ok (c\<lparr>circ_data := d\<rparr>)"
  by (simp add: circ_ok_def wf_fields counters_ok_def started_def)

lemma circ_ok_recv: "circ_ok c \<Longrightarrow> recv buffers c = (c', r) \<Longrightarrow> circ_ok c' \<and> circ_frame new c c'"
  by (auto simp: recv_def circ_ok_data split: if_splits prod.splits sum.splits)

lemma states_disconnect:
  assumes "wf_circuit c"
  shows "circ_states (CircuitState_disconnect c) = CircuitState_disconnected"
  using notify_all [OF wf_states_disconnected [OF assms], of "map snd (circ_channels c)"] channel_refs [OF assms]
  by (simp add: CircuitState_disconnect_def update_channels_def CircuitState_disconnected_def)

lemma circ_ok_disconnect:
  assumes "circ_ok c"
  shows "circ_ok (CircuitState_disconnect c)" and "circ_frame new c (CircuitState_disconnect c)"
proof -
  have "circ_frame new (c\<lparr>circ_states := CircuitState_disconnected\<rparr>) (CircuitState_disconnect c)"
    by (simp add: CircuitState_disconnect_def frame_update_channels)
  then show f: "circ_frame new c (CircuitState_disconnect c)"
    using frame_trans_same [of new c "c\<lparr>circ_states := CircuitState_disconnected\<rparr>"] by simp
  have "same_base c (CircuitState_disconnect c)"
    using same_base_command [of c undefined Command_DISCONNECTED] by (simp add: process_command_internal_def)
  then show "circ_ok (CircuitState_disconnect c)"
    using assms wf_disconnect [of c] same_base_counters [of c "CircuitState_disconnect c"] f states_disconnect [of c]
    by (auto simp: circ_ok_def started_def CircuitState_disconnected_def circ_frame_def)
qed

text \<open>Any message of the server, and an end of the connection, keep the circuit.\<close>

definition server_message :: "message \<Rightarrow> bool" where
  "server_message m \<longleftrightarrow> msg_class m \<notin> {CreateChanRequest, ReadNotifyRequest, ReadRequest, WriteNotifyRequest}"

lemma circ_ok_command:
  assumes "circ_ok c" and "process_command mk cmd c = (c', r)" and "\<And>m. cmd = Command m \<Longrightarrow> server_message m"
  shows "circ_ok c'" and "circ_frame {} c c'"
proof -
  have w: "wf_circuit c'" "counters_ok c'"
    using wf_process_command [of c mk cmd] same_base_counters [OF same_base_command [of c mk cmd]] assms(1,2)
    by (simp_all add: process_command_def circ_ok_def)
  have "circ_frame {} c c' \<and> started c'"
  proof (cases cmd)
    case (Command m)
    have "circ_frame {} c (fst (process_command_internal mk (Command m) c))"
      by (rule frame_command) (use assms(3) [OF Command] in \<open>auto simp: server_message_def\<close>)
    then show ?thesis
      using started_command [of c mk m] assms(1,2) Command by (auto simp: circ_ok_def process_command_def)
  next
    case Command_DISCONNECTED
    then show ?thesis
      using circ_ok_disconnect [OF assms(1)] assms(2)
      by (auto simp: circ_ok_def process_command_def process_command_internal_def)
  qed
  with w assms(1) show "circ_ok c'" "circ_frame {} c c'" by (auto simp: circ_ok_def circ_frame_def)
qed

lemma circ_ok_send:
  assumes "circ_ok c" and "\<forall>m \<in> set ms. client_message m" and "known_creates ms c" and "send mk ms c = (c', u)"
  shows "circ_ok c'" and "circ_frame (request_ids ms) c c'" and "circ_channels c' = circ_channels c"
  using send_keeps [of c ms mk c' u] same_base_counters [OF same_base_send [of c mk ms]] assms by (auto simp: circ_ok_def)

text \<open>A new channel.\<close>

lemma new_channel:
  assumes "circ_ok c" and "new_channel_id c = Some (c1, cid)" and "BaseChannel_init mk name cid c1 = (c2, r)"
  shows "circ_ok c2" and "0 \<le> cid" and "cid < MAX_ID" and "our_role c2 = CLIENT" and "circ_priority c2 = circ_priority c"
    and "r = Inl e \<Longrightarrow> circ_frame {} c c2"
    and "r = Inr n \<Longrightarrow> circ_channels c2 = dset cid n (circ_channels c) \<and> circ_ioids c2 = circ_ioids c \<and> n = length (circ_store c)
      \<and> length (circ_store c2) = Suc n \<and> ch_name (chan c2 n) = name \<and> ch_cid (chan c2 n) = cid
      \<and> (\<forall>q < length (circ_store c). chan c2 q = chan c q)"
proof -
  from assms(1,2) have id: "ThreadsafeCounter_call (map fst (circ_channels c)) (channel_id_counter c) = Some cid"
    and c1: "c1 = c\<lparr>channel_id_counter := cid\<rparr>"
    by (auto simp: new_channel_id_def circ_ok_def split: option.splits)
  have ok: "cid \<notin> set (map fst (circ_channels c)) \<and> 0 \<le> cid \<and> cid < MAX_ID \<and> counter_inv cid"
    using assms(1) by (intro counter.gen_fresh [OF _ id]) (simp add: circ_ok_def counters_ok_def)
  then show "0 \<le> cid" "cid < MAX_ID" by auto
  have none: "dget (circ_channels c1) cid = None" using ok by (simp add: c1 map_of_eq_None_iff)
  have w: "wf_circuit c1" "counters_ok c1" using assms(1) ok by (simp_all add: c1 wf_fields counters_ok_def circ_ok_def)
  have s: "same_base c1 c2" using same_base_init [of c1 mk name cid] assms(3) by simp
  have st: "circ_states c2 = circ_states c" using states_init [OF assms(3)] by (simp add: c1)
  have "wf_circuit c2"
    using BaseChannel_init_Inr [OF w(1) none] BaseChannel_init_Inl [of mk name cid c1] w(1) assms(3) by (cases r) auto
  then show "circ_ok c2"
    using s st w(2) assms(1) same_base_counters [OF s] by (simp add: circ_ok_def same_base_def started_def c1)
  show "our_role c2 = CLIENT" using s assms(1) by (simp add: same_base_def circ_ok_def c1)
  show "circ_priority c2 = circ_priority c"
    using assms(3) by (auto simp: BaseChannel_init_def Let_def c1 split: sum.splits)
  show "circ_frame {} c c2" if "r = Inl e"
    using BaseChannel_init_Inl [of mk name cid c1 c2 e] assms(3) that by (simp add: c1 circ_frame_def chan_def)
  show "circ_channels c2 = dset cid n (circ_channels c) \<and> circ_ioids c2 = circ_ioids c \<and> n = length (circ_store c)
      \<and> length (circ_store c2) = Suc n \<and> ch_name (chan c2 n) = name \<and> ch_cid (chan c2 n) = cid
      \<and> (\<forall>q < length (circ_store c). chan c2 q = chan c q)" if "r = Inr n"
    using assms(3) that by (auto simp: BaseChannel_init_def Let_def c1 chan_def nth_append split: sum.splits)
qed

section \<open>The messages of a client\<close>

lemma made: "Message_init cls h bs = Inr m \<Longrightarrow> msg_class m = cls \<and> msg_header m = h"
  by (auto simp: Message_init_def from_components_def Let_def bindE_eq_Inr)

lemma header_parameters [simp]:
  "h_parameter1 (MessageHeader c p t n a b) = a mod 2 ^ 32" "h_parameter2 (MessageHeader c p t n a b) = b mod 2 ^ 32"
  "h_parameter1 (ExtendedMessageHeader c p t n a b) = a mod 2 ^ 32" "h_parameter2 (ExtendedMessageHeader c p t n a b) = b mod 2 ^ 32"
  by (simp_all add: MessageHeader_def ExtendedMessageHeader_def unsigned_of_int take_bit_eq_mod)

lemma small_id: "0 \<le> i \<Longrightarrow> i < MAX_ID \<Longrightarrow> i mod 2 ^ 32 = i"
  by (simp add: MAX_ID_def)

definition harmless :: "message \<Rightarrow> bool" where
  "harmless m \<longleftrightarrow> client_message m \<and> msg_class m \<notin> {CreateChanRequest, ReadNotifyRequest, ReadRequest, WriteNotifyRequest}"

lemma read_message:
  assumes "ClientChannel_read r t n (Some ioid) notify c = Some (c', Inr m)" and "0 \<le> ioid" and "ioid < MAX_ID"
  shows "client_message m \<and> msg_class m \<noteq> CreateChanRequest \<and> msg_class m \<in> {ReadNotifyRequest, ReadRequest} \<and> msg_ioid m = ioid"
  using assms small_id [OF assms(2,3)]
  by (auto simp: ClientChannel_read_def given_or_def bindE_eq_Inr from_components_def Message_init_def Let_def ReadNotifyRequest_init_def ReadRequest_init_def client_message_def
      msg_ioid_def ReadNotifyRequestHeader_def ReadRequestHeader_def split: sum.splits prod.splits if_splits)

lemma write_message:
  assumes "ClientChannel_write enc te md r data t n meta (Some ioid) notify c = Some (c', Inr m)" and "0 \<le> ioid" and "ioid < MAX_ID"
  shows "if notify then msg_class m = WriteNotifyRequest \<and> msg_ioid m = ioid else harmless m"
  using assms small_id [OF assms(2,3)]
  by (auto simp: ClientChannel_write_def Let_def given_or_def bindE_eq_Inr from_components_def Message_init_def WriteNotifyRequest_init_def WriteRequest_init_def client_message_def
      harmless_def msg_ioid_def WriteNotifyRequestHeader_def split: sum.splits prod.splits if_splits)

lemma subscribe_message: "ClientChannel_subscribe r t n (Some i) lo hi to msk c = Some (c', Inr m) \<Longrightarrow> harmless m"
  by (auto simp: Let_def ClientChannel_subscribe_def given_or_def bindE_eq_Inr from_components_def Message_init_def EventAddRequest_init_def harmless_def client_message_def
      split: sum.splits prod.splits)

lemma clear_message: "ClientChannel_clear r c = Inr m \<Longrightarrow> harmless m"
  by (auto simp: Let_def ClientChannel_clear_def bindE_eq_Inr from_components_def Message_init_def ClearChannelRequest_init_def harmless_def client_message_def)

lemma unsubscribe_message: "ClientChannel_unsubscribe r i c = Inr m \<Longrightarrow> harmless m"
  by (auto simp: Let_def ClientChannel_unsubscribe_def bindE_eq_Inr from_components_def Message_init_def EventCancelRequest_init_def harmless_def client_message_def
      split: option.splits if_splits)

lemma simple_messages:
  "EchoRequest_init = Inr m \<Longrightarrow> harmless m" "EventsOffRequest_init = Inr m \<Longrightarrow> harmless m" "EventsOnRequest_init = Inr m \<Longrightarrow> harmless m"
  "VersionRequest_init p v = Inr m \<Longrightarrow> harmless m" "HostNameRequest_init t = Inr m \<Longrightarrow> harmless m" "ClientNameRequest_init t = Inr m \<Longrightarrow> harmless m"
  by (auto simp: Let_def EchoRequest_init_def EventsOffRequest_init_def EventsOnRequest_init_def VersionRequest_init_def HostNameRequest_init_def
      ClientNameRequest_init_def from_components_def Message_init_def bindE_eq_Inr harmless_def client_message_def)

lemma create_message:
  assumes "ClientChannel_create r c = Inr m" and "0 \<le> ch_cid (chan c r)" and "ch_cid (chan c r) < MAX_ID"
  shows "client_message m \<and> msg_class m = CreateChanRequest \<and> msg_cid m = ch_cid (chan c r)"
  using assms small_id [OF assms(2,3)]
  by (auto simp: Let_def ClientChannel_create_def bindE_eq_Inr from_components_def Message_init_def CreateChanRequest_init_def client_message_def msg_cid_def CreateChanRequestHeader_def
      split: if_splits)

text \<open>Messages that a circuit may send at any time.\<close>

lemma harmless_messages:
  assumes "\<forall>m \<in> set ms. harmless m"
  shows "\<forall>m \<in> set ms. client_message m" and "known_creates ms c" and "request_ids ms = {}"
  using assms by (auto simp: harmless_def known_creates_def request_ids_def)

text \<open>A new circuit that has sent its version.\<close>

lemma greeting_starts:
  assumes "VirtualCircuit_init CLIENT address (Some priority) version = Inr c" and "VersionRequest_init p v = Inr m"
    and "\<forall>m \<in> set ms. harmless m" and "send mk (m # ms) c = (c', Inr bufs)"
  shows "circ_ok c'" and "circ_channels c' = []" and "circ_ioids c' = []" and "circ_priority c' = Some priority"
proof -
  have c: "wf_circuit c" "counters_ok c" "our_role c = CLIENT" "circ_states c = CircuitState_init" "circ_channels c = []" "circ_ioids c = []"
      "circ_priority c = Some priority" "\<not> started c"
    using reachable_ok [OF reachable.init [OF assms(1)]] assms(1)
    by (auto simp: VirtualCircuit_init_def started_def CircuitState_init_def)
  have m: "harmless m" "msg_class m = VersionRequest"
    using simple_messages(4) [OF assms(2)] assms(2) by (auto simp: VersionRequest_init_def dest: made)
  have all: "\<forall>x \<in> set (m # ms). harmless x" using m assms(3) by simp
  note h = harmless_messages(1) [OF all] harmless_messages(2) [OF all, of c] harmless_messages(3) [OF all]
  note k = send_keeps [OF c(1,3) h(1,2) assms(4)]
  obtain c1 r1 where 1: "process_command_internal mk (Command m) c = (c1, r1)" by fastforce
  have ok1: "\<not> isl r1" using assms(4) 1 by (auto split: sum.splits)
  obtain c2 r2 where 2: "send mk ms c1 = (c2, r2)" by fastforce
  have "circuit_command m c = (c1, r1)" using 1 m by (simp add: process_command_internal_def transmute_other in_cls_def channel_classes_def)
  then have "circ_states c1 = fst (circuit_step CLIENT VersionRequest CircuitState_init)"
    using states_circuit_command(1) [of c m c1 r1] c m by (simp add: circuit_pairs_def CircuitState_init_def)
  then have st: "started c1" by (simp add: started_def CircuitState_init_def) (code_simp)
  have w: "wf_circuit c1" "our_role c1 = CLIENT"
    using circuit_op.step_inv [OF c(1), of mk "Command m"] frame_command [of m c "{}" mk] m c(3) 1 by (auto simp: circ_frame_def)
  have "\<forall>x \<in> set ms. client_message x" "known_creates ms c1" using harmless_messages(1,2) [OF assms(3)] by auto
  from send_keeps [OF w this 2] st have "started c2" by simp
  moreover have "c' = c2" using assms(4) 1 2 ok1 by (auto split: sum.splits)
  ultimately show "circ_ok c'"
    using k same_base_counters [OF same_base_send [of c mk "m # ms"]] assms(4) c(2) by (simp add: circ_ok_def)
  show "circ_channels c' = []" "circ_priority c' = Some priority" using k c by (auto simp: circ_frame_def)
  show "circ_ioids c' = []" using k c h(3) by (auto simp: circ_frame_def dom_map_of_conv_image_fst)
qed

end
