(* ===== verification/CA_Client_Inv.thy ===== *)
theory CA_Client_Inv
  imports CA_Client
begin

text \<open>
  An invariant of the client of \<^verbatim>\<open>caproto/threading/client.py\<close>: the tables of every circuit manager agree with those of its circuit,
  and what they refer to exists. Each operation of the client keeps it, also when it raises an exception.
\<close>

section \<open>The invariant of a client\<close>

text \<open>
  The tables of a circuit manager: every channel and every request of its circuit is in them, under the same id, and they refer
  to objects that exist; the PVs in them have a manager and can be found again by the keys of the channels.
\<close>

definition vm_ok :: "('f, 'k) client \<Rightarrow> ('f, 'k) manager \<Rightarrow> bool" where
  "vm_ok cx vm \<longleftrightarrow>
     circ_ok (vm_circuit vm) \<and> counter_inv (vm_ioid_counter vm)
   \<and> dget (circ_channels (vm_circuit vm)) \<subseteq>\<^sub>m dget (vm_channels vm)
   \<and> dom (dget (circ_channels (vm_circuit vm))) \<subseteq> dom (dget (vm_pvs vm))
   \<and> dom (dget (circ_ioids (vm_circuit vm))) \<subseteq> dom (dget (vm_ioids vm))
   \<and> (\<forall>(cid, p) \<in> set (vm_pvs vm). p < length (cx_pvs cx) \<and> pv_manager (cx_pvs cx ! p) \<noteq> None)
   \<and> (\<forall>(ioid, i) \<in> set (vm_ioids vm). i < length (cx_infos cx))
   \<and> (\<forall>(subid, s) \<in> set (vm_subs vm). s < length (cx_subs cx) \<and> pv_manager (cx_pvs cx ! su_pv (cx_subs cx ! s)) \<noteq> None)
   \<and> (vm_shutdown vm \<longrightarrow> vm_dead vm)
   \<and> (\<forall>(cid, r) \<in> set (vm_channels vm). r < length (circ_store (vm_circuit vm))
        \<and> dget (cx_pv_cache cx) (ch_name (chan (vm_circuit vm) r), the (circ_priority (vm_circuit vm))) \<noteq> None)"

definition objects_ok :: "('f, 'k) client \<Rightarrow> bool" where
  "objects_ok cx \<longleftrightarrow>
     (\<forall>pv \<in> set (cx_pvs cx). dget (cx_pv_cache cx) (pv_name pv, pv_priority pv) \<noteq> None
        \<and> (\<forall>key s. (key, s) \<in> set (pv_subscriptions pv) \<longrightarrow> s < length (cx_subs cx))
        \<and> (\<forall>k. pv_manager pv = Some k \<longrightarrow> k < length (cx_managers cx) \<and> circ_priority (vm_circuit (mgr cx k)) = Some (pv_priority pv)))
   \<and> (\<forall>info \<in> set (cx_infos cx). in_deadline info \<noteq> None)
   \<and> (\<forall>sub \<in> set (cx_subs cx). su_pv sub < length (cx_pvs cx))
   \<and> (\<forall>k ss. (k, ss) \<in> set (cx_to_activate cx) \<longrightarrow> k < length (cx_managers cx) \<and> (\<forall>s \<in> set ss. s < length (cx_subs cx)))"

definition cache_ok :: "('f, 'k) client \<Rightarrow> bool" where
  "cache_ok cx \<longleftrightarrow>
     (\<forall>key p. dget (cx_pv_cache cx) key = Some p \<longrightarrow> p < length (cx_pvs cx) \<and> key = (pv_name (cx_pvs cx ! p), pv_priority (cx_pvs cx ! p)))
   \<and> (\<forall>name. \<forall>p \<in> set (dd_value (cx_needing cx) name). p < length (cx_pvs cx) \<and> pv_name (cx_pvs cx ! p) = name)
   \<and> (\<forall>address priority k. ((address, priority), k) \<in> set (cx_circuit_managers cx) \<longrightarrow>
        k < length (cx_managers cx) \<and> circ_priority (vm_circuit (mgr cx k)) = Some priority)"

definition cx_ok :: "('f, 'k) client \<Rightarrow> bool" where
  "cx_ok cx \<longleftrightarrow> (\<forall>vm \<in> set (cx_managers cx). vm_ok cx vm \<and> circ_priority (vm_circuit vm) \<noteq> None) \<and> objects_ok cx \<and> cache_ok cx"

text \<open>
  What an operation leaves: the invariant, the PVs with their names, priorities and managers, the subscriptions with their PVs, and
  the circuit managers with their priorities; dead ones stay dead. Only managers of PVs get subscriptions to activate.
\<close>

definition kept :: "('f, 'k) client \<Rightarrow> ('f, 'k) client \<Rightarrow> bool" where
  "kept cx cx' \<longleftrightarrow> cx_ok cx' \<and> length (cx_infos cx) \<le> length (cx_infos cx')
     \<and> map (\<lambda>pv. (pv_name pv, pv_priority pv, pv_manager pv)) (cx_pvs cx') = map (\<lambda>pv. (pv_name pv, pv_priority pv, pv_manager pv)) (cx_pvs cx)
     \<and> map su_pv (cx_subs cx') = map su_pv (cx_subs cx) \<and> cx_pv_cache cx' = cx_pv_cache cx
     \<and> cx_circuit_managers cx' = cx_circuit_managers cx
     \<and> map (\<lambda>vm. circ_priority (vm_circuit vm)) (cx_managers cx') = map (\<lambda>vm. circ_priority (vm_circuit vm)) (cx_managers cx)
     \<and> (\<forall>k < length (cx_managers cx). vm_dead (mgr cx k) \<longrightarrow> vm_dead (mgr cx' k))
     \<and> fst ` set (cx_to_activate cx') \<subseteq> fst ` set (cx_to_activate cx) \<union> {k. Some k \<in> pv_manager ` set (cx_pvs cx)}"

lemma kept_refl: "cx_ok cx \<Longrightarrow> kept cx cx"
  by (simp add: kept_def)

lemma kept_ok: "kept cx cx' \<Longrightarrow> cx_ok cx'"
  by (simp add: kept_def)

lemma kept_lengths:
  assumes "kept cx cx'"
  shows "length (cx_pvs cx') = length (cx_pvs cx)" "length (cx_subs cx') = length (cx_subs cx)" "length (cx_managers cx') = length (cx_managers cx)"
  using assms by (auto simp: kept_def dest: map_eq_imp_length_eq)

lemma kept_dead: "kept cx cx' \<Longrightarrow> k < length (cx_managers cx) \<Longrightarrow> vm_dead (mgr cx k) \<Longrightarrow> vm_dead (mgr cx' k)"
  by (simp add: kept_def)

lemma kept_managers:
  assumes "kept cx cx'"
  shows "pv_manager ` set (cx_pvs cx') = pv_manager ` set (cx_pvs cx)"
proof -
  have "map (snd \<circ> snd) (map (\<lambda>pv. (pv_name pv, pv_priority pv, pv_manager pv)) (cx_pvs cx')) =
      map (snd \<circ> snd) (map (\<lambda>pv. (pv_name pv, pv_priority pv, pv_manager pv)) (cx_pvs cx))"
    using assms by (simp add: kept_def)
  then have "map pv_manager (cx_pvs cx') = map pv_manager (cx_pvs cx)" by (simp add: comp_def)
  then show ?thesis by (metis set_map)
qed

lemma kept_trans:
  assumes "kept a b" and "kept b c"
  shows "kept a c"
proof -
  have "\<forall>k < length (cx_managers a). vm_dead (mgr a k) \<longrightarrow> vm_dead (mgr c k)"
    using assms kept_lengths(3) [OF assms(1)] by (auto intro: kept_dead)
  moreover have "fst ` set (cx_to_activate c) \<subseteq> fst ` set (cx_to_activate b) \<union> {k. Some k \<in> pv_manager ` set (cx_pvs a)}"
    "fst ` set (cx_to_activate b) \<subseteq> fst ` set (cx_to_activate a) \<union> {k. Some k \<in> pv_manager ` set (cx_pvs a)}"
    using assms unfolding kept_managers [OF assms(1), symmetric] kept_def by blast+
  then have "fst ` set (cx_to_activate c) \<subseteq> fst ` set (cx_to_activate a) \<union> {k. Some k \<in> pv_manager ` set (cx_pvs a)}" by blast
  ultimately show ?thesis using assms by (simp add: kept_def)
qed

lemma map_nth_eq: "map f xs = map f ys \<Longrightarrow> i < length ys \<Longrightarrow> f (xs ! i) = f (ys ! i)"
  by (metis length_map nth_map)

lemma kept_pv:
  assumes "kept cx cx'" and "p < length (cx_pvs cx)"
  shows "pv_manager (cx_pvs cx' ! p) = pv_manager (cx_pvs cx ! p)" "pv_name (cx_pvs cx' ! p) = pv_name (cx_pvs cx ! p)"
    "pv_priority (cx_pvs cx' ! p) = pv_priority (cx_pvs cx ! p)"
  using map_nth_eq [of "\<lambda>pv. (pv_name pv, pv_priority pv, pv_manager pv)" "cx_pvs cx'" "cx_pvs cx" p] assms by (auto simp: kept_def)

lemma kept_sub: "kept cx cx' \<Longrightarrow> s < length (cx_subs cx) \<Longrightarrow> su_pv (cx_subs cx' ! s) = su_pv (cx_subs cx ! s)"
  using map_nth_eq [of su_pv "cx_subs cx'" "cx_subs cx" s] by (simp add: kept_def)

lemma kept_priority:
  "kept cx cx' \<Longrightarrow> k < length (cx_managers cx) \<Longrightarrow> circ_priority (vm_circuit (mgr cx' k)) = circ_priority (vm_circuit (mgr cx k))"
  using map_nth_eq [of "\<lambda>vm. circ_priority (vm_circuit vm)" "cx_managers cx'" "cx_managers cx" k] by (simp add: kept_def)

text \<open>The manager tables depend on the other objects only in these ways.\<close>

definition grown :: "('f, 'k) client \<Rightarrow> ('f, 'k) client \<Rightarrow> bool" where
  "grown cx cx' \<longleftrightarrow>
     length (cx_pvs cx) \<le> length (cx_pvs cx') \<and> length (cx_infos cx) \<le> length (cx_infos cx') \<and> length (cx_subs cx) \<le> length (cx_subs cx')
   \<and> (\<forall>p < length (cx_pvs cx). pv_manager (cx_pvs cx ! p) \<noteq> None \<longrightarrow> pv_manager (cx_pvs cx' ! p) \<noteq> None)
   \<and> (\<forall>s < length (cx_subs cx). su_pv (cx_subs cx' ! s) = su_pv (cx_subs cx ! s))
   \<and> dom (dget (cx_pv_cache cx)) \<subseteq> dom (dget (cx_pv_cache cx'))"

lemma vm_ok_grown:
  assumes "vm_ok cx vm" and "grown cx cx'" and "objects_ok cx"
  shows "vm_ok cx' vm"
proof -
  have su: "s < length (cx_subs cx) \<Longrightarrow> su_pv (cx_subs cx ! s) < length (cx_pvs cx)" for s
    using assms(3) by (simp add: objects_ok_def)
  have pvs: "p < length (cx_pvs cx) \<and> pv_manager (cx_pvs cx ! p) \<noteq> None \<Longrightarrow> p < length (cx_pvs cx') \<and> pv_manager (cx_pvs cx' ! p) \<noteq> None" for p
    using assms(2) unfolding grown_def by (meson less_le_trans)
  have subs: "s < length (cx_subs cx) \<and> pv_manager (cx_pvs cx ! su_pv (cx_subs cx ! s)) \<noteq> None \<Longrightarrow>
      s < length (cx_subs cx') \<and> pv_manager (cx_pvs cx' ! su_pv (cx_subs cx' ! s)) \<noteq> None" for s
    using assms(2) su [of s] pvs [of "su_pv (cx_subs cx ! s)"] unfolding grown_def by (auto dest: less_le_trans)
  have infos: "i < length (cx_infos cx) \<Longrightarrow> i < length (cx_infos cx')" for i
    using assms(2) unfolding grown_def by (meson less_le_trans)
  have cache: "dget (cx_pv_cache cx) key \<noteq> None \<Longrightarrow> dget (cx_pv_cache cx') key \<noteq> None" for key
    using assms(2) unfolding grown_def dom_def by blast
  show ?thesis
    using assms(1) pvs subs infos cache unfolding vm_ok_def case_prod_unfold by blast
qed

lemma vm_ok_fields [simp]:
  "vm_ok cx (vm\<lparr>vm_jobs := j\<rparr>) = vm_ok cx vm" "vm_ok cx (vm\<lparr>vm_sent := t\<rparr>) = vm_ok cx vm"
  "vm_ok cx (vm\<lparr>vm_last_receipt := l\<rparr>) = vm_ok cx vm" "vm_ok cx (vm\<lparr>vm_created := n\<rparr>) = vm_ok cx vm"
  "vm_ok cx (vm\<lparr>vm_ready := b\<rparr>) = vm_ok cx vm" "vm_ok cx (vm\<lparr>vm_open := b\<rparr>) = vm_ok cx vm"
  "vm_ok cx (vm\<lparr>vm_registered := b\<rparr>) = vm_ok cx vm" "vm_ok cx (vm\<lparr>vm_writable := b\<rparr>) = vm_ok cx vm"
  "vm_ok cx (vm\<lparr>vm_sub_counter := i\<rparr>) = vm_ok cx vm"
  by (simp_all add: vm_ok_def)

lemma vm_ok_dead: "vm_ok cx vm \<Longrightarrow> vm_ok cx (vm\<lparr>vm_dead := True\<rparr>)"
  by (simp add: vm_ok_def)

lemma vm_ok_circuit:
  assumes "vm_ok cx vm" and "circ_priority (vm_circuit vm) \<noteq> None" and "circ_ok c" and "circ_frame new (vm_circuit vm) c"
    and "new \<subseteq> dom (dget (vm_ioids vm))"
  shows "vm_ok cx (vm\<lparr>vm_circuit := c\<rparr>)" and "circ_priority c = circ_priority (vm_circuit vm)"
proof -
  show p: "circ_priority c = circ_priority (vm_circuit vm)" using assms(2,4) by (simp add: circ_frame_def)
  have "dget (circ_channels c) \<subseteq>\<^sub>m dget (vm_channels vm)" "dom (dget (circ_channels c)) \<subseteq> dom (dget (vm_pvs vm))"
    "dom (dget (circ_ioids c)) \<subseteq> dom (dget (vm_ioids vm))"
    using assms(1,4,5) unfolding vm_ok_def circ_frame_def by (blast intro: map_le_trans dest: map_le_implies_dom_le)+
  moreover have "\<forall>(cid, r) \<in> set (vm_channels vm). r < length (circ_store c)
      \<and> dget (cx_pv_cache cx) (ch_name (chan c r), the (circ_priority c)) \<noteq> None"
    using assms(1,4) p unfolding vm_ok_def circ_frame_def by (auto dest: less_le_trans)
  ultimately show "vm_ok cx (vm\<lparr>vm_circuit := c\<rparr>)" using assms(1,3) unfolding vm_ok_def by simp
qed

text \<open>The other fields of a client play no part.\<close>

lemma cx_ok_fields [simp]:
  "cx_ok (cx\<lparr>cx_activate_now := b\<rparr>) = cx_ok cx" "cx_ok (cx\<lparr>cx_closed := b\<rparr>) = cx_ok cx"
  "cx_ok (cx\<lparr>cx_results_queue := q\<rparr>) = cx_ok cx" "cx_ok (cx\<lparr>cx_broadcaster := sb\<rparr>) = cx_ok cx"
  "cx_ok (cx\<lparr>cx_search_thread := b\<rparr>) = cx_ok cx" "cx_ok (cx\<lparr>cx_activation_thread := b\<rparr>) = cx_ok cx"
  "cx_ok (cx\<lparr>cx_checking := ch\<rparr>) = cx_ok cx"
  by (simp_all add: cx_ok_def vm_ok_def objects_ok_def cache_ok_def)

lemma kept_fields [simp]:
  "kept cx (cx'\<lparr>cx_activate_now := b\<rparr>) = kept cx cx'" "kept cx (cx'\<lparr>cx_closed := b\<rparr>) = kept cx cx'"
  "kept cx (cx'\<lparr>cx_results_queue := q\<rparr>) = kept cx cx'" "kept cx (cx'\<lparr>cx_broadcaster := sb\<rparr>) = kept cx cx'"
  "kept cx (cx'\<lparr>cx_search_thread := b\<rparr>) = kept cx cx'" "kept cx (cx'\<lparr>cx_activation_thread := b\<rparr>) = kept cx cx'"
  "kept cx (cx'\<lparr>cx_checking := ch\<rparr>) = kept cx cx'"
  by (simp_all add: kept_def)

lemma vm_ok_upd_mgr [simp]: "vm_ok (upd_mgr k f cx) = vm_ok cx"
  by (simp add: vm_ok_def upd_mgr_def fun_eq_iff)

lemma mgr_upd [simp]:
  "length (cx_managers (upd_mgr k f cx)) = length (cx_managers cx)"
  "k < length (cx_managers cx) \<Longrightarrow> mgr (upd_mgr k f cx) k = f (mgr cx k)"
  "j \<noteq> k \<Longrightarrow> mgr (upd_mgr k f cx) j = mgr cx j"
  "cx_managers (upd_pv p g cx) = cx_managers cx" "cx_managers (upd_info i h cx) = cx_managers cx" "cx_managers (upd_sub s q cx) = cx_managers cx"
  by (simp_all add: upd_mgr_def upd_pv_def upd_info_def upd_sub_def)

lemma upd_mgr_objects [simp]:
  "cx_pvs (upd_mgr k f cx) = cx_pvs cx" "cx_infos (upd_mgr k f cx) = cx_infos cx" "cx_subs (upd_mgr k f cx) = cx_subs cx"
  "cx_pv_cache (upd_mgr k f cx) = cx_pv_cache cx" "cx_needing (upd_mgr k f cx) = cx_needing cx"
  "cx_circuit_managers (upd_mgr k f cx) = cx_circuit_managers cx" "cx_to_activate (upd_mgr k f cx) = cx_to_activate cx"
  by (simp_all add: upd_mgr_def)

lemma kept_mgr:
  assumes "cx_ok cx" and "k < length (cx_managers cx) \<Longrightarrow> vm_ok cx (f (mgr cx k))
      \<and> circ_priority (vm_circuit (f (mgr cx k))) = circ_priority (vm_circuit (mgr cx k)) \<and> (vm_dead (mgr cx k) \<longrightarrow> vm_dead (f (mgr cx k)))"
  shows "kept cx (upd_mgr k f cx)"
proof (cases "k < length (cx_managers cx)")
  case True
  note new = assms(2) [OF True]
  have "vm_ok cx vm \<and> circ_priority (vm_circuit vm) \<noteq> None" if "vm \<in> set (cx_managers (upd_mgr k f cx))" for vm
  proof -
    have "vm = f (mgr cx k) \<or> vm \<in> set (cx_managers cx)"
      using that set_update_subset_insert [of "cx_managers cx" k "f (mgr cx k)"] by (auto simp: upd_mgr_def)
    then show ?thesis using assms(1) new True by (auto simp: cx_ok_def)
  qed
  moreover have pr: "circ_priority (vm_circuit (mgr (upd_mgr k f cx) j)) = circ_priority (vm_circuit (mgr cx j))" for j
    using new True by (cases "j = k") auto
  moreover have "objects_ok (upd_mgr k f cx)" using assms(1) pr by (simp add: cx_ok_def objects_ok_def)
  moreover have "cache_ok (upd_mgr k f cx)" using assms(1) pr by (simp add: cx_ok_def cache_ok_def)
  moreover have "map (\<lambda>vm. circ_priority (vm_circuit vm)) (cx_managers (upd_mgr k f cx)) = map (\<lambda>vm. circ_priority (vm_circuit vm)) (cx_managers cx)"
    using pr by (intro nth_equalityI) simp_all
  moreover have "vm_dead (mgr cx j) \<longrightarrow> vm_dead (mgr (upd_mgr k f cx) j)" for j
    using new True by (cases "j = k") auto
  ultimately show ?thesis by (simp add: cx_ok_def kept_def)
qed (use assms(1) in \<open>simp add: upd_mgr_def list_update_beyond kept_def\<close>)

lemma cx_ok_vm: "cx_ok cx \<Longrightarrow> k < length (cx_managers cx) \<Longrightarrow> vm_ok cx (mgr cx k) \<and> circ_priority (vm_circuit (mgr cx k)) \<noteq> None"
  by (simp add: cx_ok_def)

lemma ok_pv:
  assumes "cx_ok cx" and "p < length (cx_pvs cx)"
  shows "dget (cx_pv_cache cx) (pv_name (cx_pvs cx ! p), pv_priority (cx_pvs cx ! p)) \<noteq> None"
    and "pv_manager (cx_pvs cx ! p) = Some k \<Longrightarrow> k < length (cx_managers cx) \<and> circ_priority (vm_circuit (mgr cx k)) = Some (pv_priority (cx_pvs cx ! p))"
    and "\<forall>s \<in> set (map snd (pv_subscriptions (cx_pvs cx ! p))). s < length (cx_subs cx)"
  using assms nth_mem [OF assms(2)] unfolding cx_ok_def objects_ok_def by fastforce+

lemma ok_sub: "cx_ok cx \<Longrightarrow> s < length (cx_subs cx) \<Longrightarrow> su_pv (cx_subs cx ! s) < length (cx_pvs cx)"
  by (simp add: cx_ok_def objects_ok_def)

lemma ok_activate:
  assumes "cx_ok cx" and "s \<in> set (dd_value (cx_to_activate cx) k)"
  shows "s < length (cx_subs cx)"
proof -
  obtain ss where "dget (cx_to_activate cx) k = Some ss" "s \<in> set ss"
    using assms(2) by (cases "dget (cx_to_activate cx) k") (auto simp: dd_value_def)
  then have "(k, ss) \<in> set (cx_to_activate cx)" "s \<in> set ss" by (auto dest: map_of_SomeD)
  with assms(1) show ?thesis unfolding cx_ok_def objects_ok_def by blast
qed

lemma kept_mgr_simple:
  assumes "cx_ok cx" and "\<And>vm. vm_ok cx vm \<Longrightarrow> vm_ok cx (f vm)" and "\<And>vm. vm_circuit (f vm) = vm_circuit vm"
    and "\<And>vm. vm_dead vm \<longrightarrow> vm_dead (f vm)"
  shows "kept cx (upd_mgr k f cx)"
  using cx_ok_vm [OF assms(1)] assms by (intro kept_mgr) auto

lemma cx_ok_change:
  assumes "cx_ok cx" and "grown cx cx'" and "cx_managers cx' = cx_managers cx" and "objects_ok cx'" and "cache_ok cx'"
  shows "cx_ok cx'"
  using assms vm_ok_grown [OF _ assms(2)] by (auto simp: cx_ok_def)

lemma nth_upd: "(xs[p := f (xs ! p)]) ! q = (if q = p \<and> p < length xs then f (xs ! p) else xs ! q)"
  by (cases "p < length xs") (auto simp: nth_list_update list_update_beyond)

lemma map_upd: "(\<And>x. g (f x) = g x) \<Longrightarrow> map g (xs[p := f (xs ! p)]) = map g xs"
  by (cases "p < length xs") (auto simp: map_update list_update_beyond intro: list_update_same_conv [THEN iffD2])

lemma kept_pv_upd:
  assumes "cx_ok cx" and "\<And>pv. pv_name (f pv) = pv_name pv \<and> pv_priority (f pv) = pv_priority pv \<and> pv_manager (f pv) = pv_manager pv
      \<and> pv_subscriptions (f pv) = pv_subscriptions pv"
  shows "kept cx (upd_pv p f cx)"
proof -
  have get: "pv_name (cx_pvs (upd_pv p f cx) ! q) = pv_name (cx_pvs cx ! q)" "pv_priority (cx_pvs (upd_pv p f cx) ! q) = pv_priority (cx_pvs cx ! q)"
    "pv_manager (cx_pvs (upd_pv p f cx) ! q) = pv_manager (cx_pvs cx ! q)"
    "pv_subscriptions (cx_pvs (upd_pv p f cx) ! q) = pv_subscriptions (cx_pvs cx ! q)" for q
    using assms(2) by (simp_all add: upd_pv_def nth_upd)
  have other: "length (cx_pvs (upd_pv p f cx)) = length (cx_pvs cx)" "cx_infos (upd_pv p f cx) = cx_infos cx" "cx_subs (upd_pv p f cx) = cx_subs cx"
    "cx_pv_cache (upd_pv p f cx) = cx_pv_cache cx" "cx_needing (upd_pv p f cx) = cx_needing cx" "cx_to_activate (upd_pv p f cx) = cx_to_activate cx"
    "cx_circuit_managers (upd_pv p f cx) = cx_circuit_managers cx"
    by (simp_all add: upd_pv_def)
  have "grown cx (upd_pv p f cx)" by (simp add: grown_def get other)
  moreover have "objects_ok (upd_pv p f cx)"
    using assms(1) by (simp add: cx_ok_def objects_ok_def all_set_conv_all_nth get other)
  moreover have "cache_ok (upd_pv p f cx)" using assms(1) unfolding cx_ok_def cache_ok_def get other by simp
  ultimately have "cx_ok (upd_pv p f cx)" using cx_ok_change [OF assms(1)] by simp
  then show ?thesis using assms(2) by (simp add: kept_def upd_pv_def map_upd)
qed

lemma kept_info_upd:
  assumes "cx_ok cx" and "\<And>info. in_deadline (f info) = None \<longleftrightarrow> in_deadline info = None"
  shows "kept cx (upd_info i f cx)"
proof -
  have "in_deadline (cx_infos (upd_info i f cx) ! j) = None \<longleftrightarrow> in_deadline (cx_infos cx ! j) = None" for j
    using assms(2) by (simp add: upd_info_def nth_upd)
  then have "objects_ok (upd_info i f cx)"
    using assms(1) by (simp add: cx_ok_def objects_ok_def all_set_conv_all_nth upd_info_def del: not_None_eq)
  then have "cx_ok (upd_info i f cx)"
    using assms(1) by (intro cx_ok_change [OF assms(1)]) (auto simp: grown_def upd_info_def cx_ok_def cache_ok_def)
  then show ?thesis by (simp add: kept_def upd_info_def)
qed

lemma kept_sub_upd:
  assumes "cx_ok cx" and "\<And>sub. su_pv (f sub) = su_pv sub"
  shows "kept cx (upd_sub s f cx)"
proof -
  have get: "su_pv (cx_subs (upd_sub s f cx) ! j) = su_pv (cx_subs cx ! j)" for j
    using assms(2) by (simp add: upd_sub_def nth_upd)
  have "objects_ok (upd_sub s f cx)"
    using assms(1) get by (simp add: cx_ok_def objects_ok_def all_set_conv_all_nth upd_sub_def)
  moreover have "grown cx (upd_sub s f cx)" using get by (simp add: grown_def upd_sub_def)
  ultimately have "cx_ok (upd_sub s f cx)"
    using assms(1) by (intro cx_ok_change [OF assms(1)]) (auto simp: upd_sub_def cx_ok_def cache_ok_def)
  then show ?thesis using assms(2) by (simp add: kept_def upd_sub_def map_upd)
qed

section \<open>Callbacks and the state of PVs\<close>

lemma kept_each:
  assumes "P s" and "\<And>x s. x \<in> set xs \<Longrightarrow> P s \<Longrightarrow> kept s (fst (f x s)) \<and> P (fst (f x s))" and "\<And>s. P s \<Longrightarrow> cx_ok s"
  shows "kept s (fst (each f xs s))"
  using assms
proof (induction xs arbitrary: s)
  case (Cons x xs)
  obtain s1 r where 1: "f x s = (s1, r)" by fastforce
  have k: "kept s s1" "P s1" using Cons.prems(1) Cons.prems(2) [of x s] 1 by auto
  then have "kept s1 (fst (each f xs s1))" using Cons.prems(2,3) by (intro Cons.IH) auto
  then show ?case using k 1 by (cases r) (auto intro: kept_trans)
qed (simp add: kept_refl)

lemma kept_fold:
  assumes "cx_ok s" and "\<And>x s. x \<in> set xs \<Longrightarrow> cx_ok s \<Longrightarrow> kept s (f x s)"
  shows "kept s (fold f xs s)"
  using assms
proof (induction xs arbitrary: s)
  case (Cons x xs)
  have k: "kept s (f x s)" using Cons.prems by simp
  have "kept (f x s) (fold f xs (f x s))" using Cons.prems(2) kept_ok [OF k] by (intro Cons.IH) auto
  with k show ?case by (auto intro: kept_trans)
qed (simp add: kept_refl)

lemma kept_handler: "cx_ok cx \<Longrightarrow> kept cx (fst (handler_process alive cm ev h cx))"
  by (auto simp: handler_process_def Let_def kept_refl split: option.splits intro!: kept_mgr_simple)

lemma kept_state_process: "cx_ok cx \<Longrightarrow> kept cx (fst (state_process alive p ev cx))"
  using kept_handler [of cx alive "pv_manager (cx_pvs cx ! p)" ev "pv_state_callback (cx_pvs cx ! p)"]
  by (auto simp: state_process_def split: prod.splits intro!: kept_trans [OF _ kept_pv_upd] dest: kept_ok)

lemma kept_rights: "cx_ok cx \<Longrightarrow> kept cx (fst (access_rights_changed alive p rights cx))"
  using kept_handler [of cx alive "pv_manager (cx_pvs cx ! p)" "Rights_changed p rights" "pv_rights_callback (cx_pvs cx ! p)"]
  by (auto simp: access_rights_changed_def split: prod.splits intro!: kept_trans [OF _ kept_pv_upd] dest: kept_ok)

lemma kept_rights_process: "cx_ok cx \<Longrightarrow> kept cx (fst (rights_process alive p ev cx))"
  using kept_handler [of cx alive "pv_manager (cx_pvs cx ! p)" ev "pv_rights_callback (cx_pvs cx ! p)"]
  by (auto simp: rights_process_def split: prod.splits intro!: kept_trans [OF _ kept_pv_upd] dest: kept_ok)

lemma kept_sub_process: "cx_ok cx \<Longrightarrow> kept cx (fst (sub_process alive s m cx))"
  using kept_handler [of cx alive "pv_manager (cx_pvs cx ! su_pv (cx_subs cx ! s))" "Updated s m" "su_handler (cx_subs cx ! s)"]
  by (auto simp: sub_process_def Let_def split: prod.splits sum.splits intro!: kept_trans [OF _ kept_sub_upd] dest: kept_ok)

lemma kept_mark_reactivation: "cx_ok cx \<Longrightarrow> kept cx (mark_reactivation s cx)"
  by (auto simp: mark_reactivation_def kept_refl intro: kept_sub_upd)

lemma kept_to_activate:
  assumes "cx_ok cx" and "s < length (cx_subs cx)" and "k < length (cx_managers cx)" and "Some k \<in> pv_manager ` set (cx_pvs cx)"
  shows "kept cx (to_activate_add k s cx)"
proof -
  have new: "k' < length (cx_managers cx) \<and> (\<forall>j \<in> set ss. j < length (cx_subs cx))"
    if "(k', ss) \<in> set (dset k (List.insert s (dd_value (cx_to_activate cx) k)) (cx_to_activate cx))" for k' ss
    using set_dset [OF that(1)] assms ok_activate [OF assms(1), of _ k] unfolding cx_ok_def objects_ok_def by auto
  then have "objects_ok (to_activate_add k s cx)"
    using assms by (simp add: cx_ok_def objects_ok_def to_activate_add_def)
  moreover have "fst ` set (dset k v d) \<subseteq> insert k (fst ` set d)" for v and d :: "(nat, nat list) dict"
    by (auto dest!: set_dset)
  then have "fst ` set (cx_to_activate (to_activate_add k s cx)) \<subseteq> insert k (fst ` set (cx_to_activate cx))"
    by (simp add: to_activate_add_def)
  with assms(4) have "fst ` set (cx_to_activate (to_activate_add k s cx)) \<subseteq> fst ` set (cx_to_activate cx) \<union> {k. Some k \<in> pv_manager ` set (cx_pvs cx)}"
    by blast
  ultimately show ?thesis
    using assms(1) by (simp add: kept_def cx_ok_def cache_ok_def vm_ok_def to_activate_add_def)
qed

lemma kept_queue_reactivation:
  assumes "cx_ok cx" and "s < length (cx_subs cx)" and "k < length (cx_managers cx)" and "Some k \<in> pv_manager ` set (cx_pvs cx)"
  shows "kept cx (queue_reactivation k s cx)"
  using kept_to_activate [OF assms] kept_refl [OF assms(1)]
  by (auto simp: queue_reactivation_def intro!: kept_trans [OF _ kept_sub_upd] dest: kept_ok)

lemma fold_queue:
  assumes "cx_ok cx" and "\<forall>s \<in> set ss. s < length (cx_subs cx)" and "k < length (cx_managers cx)" and "Some k \<in> pv_manager ` set (cx_pvs cx)"
  shows "kept cx (fold (queue_reactivation k) ss cx)"
  using assms
proof (induction ss arbitrary: cx)
  case (Cons s ss)
  have k: "kept cx (queue_reactivation k s cx)" using Cons.prems by (intro kept_queue_reactivation) auto
  then have "kept (queue_reactivation k s cx) (fold (queue_reactivation k) ss (queue_reactivation k s cx))"
    using Cons.prems(2-4) by (intro Cons.IH) (auto simp: kept_lengths kept_managers dest: kept_ok)
  with k show ?case by (auto intro: kept_trans)
qed (simp add: kept_refl)

lemma kept_connection_state_changed:
  assumes "cx_ok cx" and "p < length (cx_pvs cx)"
  shows "kept cx (fst (connection_state_changed alive conn p cx))"
proof -
  obtain cx1 r where 1: "state_process alive p (State_changed p conn) cx = (cx1, r)" by fastforce
  have k: "kept cx cx1" using kept_state_process [OF assms(1), of alive p "State_changed p conn"] 1 by simp
  have p: "p < length (cx_pvs cx1)" using assms(2) kept_lengths(1) [OF k] by simp
  have subs: "\<forall>s \<in> set (map snd (pv_subscriptions (cx_pvs cx1 ! p))). s < length (cx_subs cx1)"
    by (rule ok_pv(3) [OF kept_ok [OF k] p])
  have "kept cx1 (fold mark_reactivation (map snd (pv_subscriptions (cx_pvs cx1 ! p))) cx1)"
    by (rule kept_fold [OF kept_ok [OF k] kept_mark_reactivation])
  moreover have "kept cx1 (fold (queue_reactivation j) (map snd (pv_subscriptions (cx_pvs cx1 ! p))) cx1)"
    if "pv_manager (cx_pvs cx1 ! p) = Some j" for j
    using fold_queue [OF kept_ok [OF k] subs] ok_pv(2) [OF kept_ok [OF k] p that] nth_mem [OF p] that by (metis imageI)
  ultimately show ?thesis
    using k by (auto simp: connection_state_changed_def 1 Let_def split: sum.splits option.splits intro: kept_trans)
qed

text \<open>On clients of the invariant these operations do not fail for PVs that have a manager.\<close>

lemma handler_succeeds:
  assumes "cx_ok cx" and "cm = Some k" and "k < length (cx_managers cx)"
  shows "\<exists>cx1 h1. handler_process alive cm ev h cx = (cx1, h1, Inr ())"
  using cx_ok_vm [OF assms(1,3)] assms(2) by (auto simp: handler_process_def Let_def vm_ok_def)

lemma manager_of:
  assumes "cx_ok cx" and "p < length (cx_pvs cx)" and "pv_manager (cx_pvs cx ! p) \<noteq> None"
  obtains k where "pv_manager (cx_pvs cx ! p) = Some k" "k < length (cx_managers cx)"
  using assms ok_pv(2) [OF assms(1,2)] by auto

lemma state_process_succeeds:
  assumes "cx_ok cx" and "p < length (cx_pvs cx)" and "pv_manager (cx_pvs cx ! p) \<noteq> None"
  shows "snd (state_process alive p ev cx) = Inr ()"
proof -
  obtain k where "pv_manager (cx_pvs cx ! p) = Some k" "k < length (cx_managers cx)" using manager_of [OF assms] .
  from handler_succeeds [OF assms(1) this, of alive ev "pv_state_callback (cx_pvs cx ! p)"] show ?thesis
    by (auto simp: state_process_def)
qed

lemma rights_succeed:
  assumes "cx_ok cx" and "p < length (cx_pvs cx)" and "pv_manager (cx_pvs cx ! p) \<noteq> None"
  shows "snd (access_rights_changed alive p rights cx) = Inr ()"
proof -
  obtain k where "pv_manager (cx_pvs cx ! p) = Some k" "k < length (cx_managers cx)" using manager_of [OF assms] .
  from handler_succeeds [OF assms(1) this, of alive "Rights_changed p rights" "pv_rights_callback (cx_pvs cx ! p)"] show ?thesis
    by (auto simp: access_rights_changed_def)
qed

lemma sub_process_succeeds:
  assumes "cx_ok cx" and "s < length (cx_subs cx)" and "pv_manager (cx_pvs cx ! su_pv (cx_subs cx ! s)) \<noteq> None"
  shows "snd (sub_process alive s m cx) = Inr ()"
proof -
  have "su_pv (cx_subs cx ! s) < length (cx_pvs cx)" by (rule ok_sub [OF assms(1,2)])
  then obtain k where "pv_manager (cx_pvs cx ! su_pv (cx_subs cx ! s)) = Some k" "k < length (cx_managers cx)"
    using manager_of [OF assms(1) _ assms(3)] by blast
  from handler_succeeds [OF assms(1) this, of alive "Updated s m" "su_handler (cx_subs cx ! s)"] show ?thesis
    by (auto simp: sub_process_def Let_def)
qed

lemma connection_change_succeeds:
  assumes "cx_ok cx" and "p < length (cx_pvs cx)" and "pv_manager (cx_pvs cx ! p) \<noteq> None"
  shows "snd (connection_state_changed alive conn p cx) = Inr ()"
proof -
  obtain cx1 r where 1: "state_process alive p (State_changed p conn) cx = (cx1, r)" by fastforce
  have k: "kept cx cx1" using kept_state_process [OF assms(1), of alive p "State_changed p conn"] 1 by simp
  have "pv_manager (cx_pvs cx1 ! p) \<noteq> None" using kept_pv(1) [OF k assms(2)] assms(3) by simp
  moreover have "r = Inr ()" using state_process_succeeds [OF assms, of alive "State_changed p conn"] 1 by simp
  ultimately show ?thesis by (auto simp: connection_state_changed_def 1 Let_def)
qed

lemma all_connection_changes_succeed:
  assumes "cx_ok cx" and "\<forall>p \<in> set ps. p < length (cx_pvs cx) \<and> pv_manager (cx_pvs cx ! p) \<noteq> None"
  shows "\<exists>cx1. each (connection_state_changed alive conn) ps cx = (cx1, Inr ()) \<and> kept cx cx1"
  using assms
proof (induction ps arbitrary: cx)
  case (Cons p ps)
  obtain cx1 r where 1: "connection_state_changed alive conn p cx = (cx1, r)" by fastforce
  have k: "kept cx cx1" using kept_connection_state_changed [of cx p alive conn] Cons.prems 1 by simp
  have r: "r = Inr ()" using connection_change_succeeds [of cx p alive conn] Cons.prems 1 by simp
  have "\<forall>p \<in> set ps. p < length (cx_pvs cx1) \<and> pv_manager (cx_pvs cx1 ! p) \<noteq> None"
    using Cons.prems(2) kept_pv(1) [OF k] kept_lengths(1) [OF k] by auto
  with Cons.IH [OF kept_ok [OF k]] 1 r show ?case by (auto intro: kept_trans [OF k])
qed (simp add: kept_refl)

section \<open>Messages from a server\<close>

lemma server_classes:
  assumes "get_command_class SERVER h = Inr cls"
  shows "cls \<notin> {CreateChanRequest, ReadNotifyRequest, ReadRequest, WriteNotifyRequest}"
proof -
  have "list_all (\<lambda>(i, cls). cls \<notin> {CreateChanRequest, ReadNotifyRequest, ReadRequest, WriteNotifyRequest}) (Commands SERVER)"
    by code_simp
  with assms show ?thesis
    by (auto simp: get_command_class_def list_all_iff dest!: map_of_SomeD split: option.splits)
qed

lemma from_wire_class: "from_wire cls h bs a = Inr m \<Longrightarrow> msg_class m = cls"
  by (cases cls) (auto simp: from_wire_def from_components_def bindE_eq_Inr split: if_splits)

lemma received_from_server:
  assumes "recv_loop SERVER d = (ms, rest, r)"
  shows "\<forall>m \<in> set ms. server_message m"
  using assms
proof (induction SERVER d arbitrary: ms rest r rule: recv_loop.induct)
  case (1 d)
  show ?case
  proof (cases "read_from_bytestream d SERVER")
    case (Inl e)
    with 1(2) show ?thesis by (simp add: recv_loop.simps)
  next
    case (Inr x)
    obtain d' c n where x: "x = (d', c, n)" by (cases x)
    show ?thesis
    proof (cases c)
      case None
      with Inr x 1(2) show ?thesis by (subst (asm) recv_loop.simps) simp
    next
      case (Some m)
      obtain ms' rest' r' where rec: "recv_loop SERVER d' = (ms', rest', r')" by (cases "recv_loop SERVER d'")
      have "read_from_bytestream d SERVER = Inr (d', c, n)" using Inr x by simp
      from 1(1) [OF this refl refl Some rec] have "\<forall>m \<in> set ms'. server_message m" by simp
      moreover have "server_message m"
        using Inr x Some server_classes
        by (auto simp: server_message_def read_from_bytestream_def Let_def bindE_eq_Inr dest!: from_wire_class split: if_splits option.splits)
      moreover have "ms = m # ms'" using 1(2) Inr x Some rec by (subst (asm) recv_loop.simps) simp
      ultimately show ?thesis by simp
    qed
  qed
qed

lemma received_commands:
  assumes "recv buffers c = (c', Inr (commands, n))" and "our_role c = CLIENT" and "Command m \<in> set commands"
  shows "server_message m"
  using assms received_from_server [of "circ_data c @ concat buffers"]
  by (auto simp: recv_def split: if_splits prod.splits sum.splits)

section \<open>Circuit managers\<close>

lemma kept_circuit:
  assumes "cx_ok cx" and "k < length (cx_managers cx)" and "circ_ok c" and "circ_frame new (vm_circuit (mgr cx k)) c"
    and "new \<subseteq> dom (dget (vm_ioids (mgr cx k)))"
  shows "kept cx (upd_mgr k (\<lambda>vm. vm\<lparr>vm_circuit := c\<rparr>) cx)"
  using vm_ok_circuit [OF _ _ assms(3,4,5)] cx_ok_vm [OF assms(1,2)] by (intro kept_mgr [OF assms(1)]) auto

lemma upd_mgr_upd_mgr: "upd_mgr k g (upd_mgr k f cx) = upd_mgr k (\<lambda>vm. g (f vm)) cx"
  by (cases "k < length (cx_managers cx)") (simp_all add: upd_mgr_def list_update_beyond)

lemma kept_send:
  assumes "cx_ok cx" and "k < length (cx_managers cx)" and "\<forall>m \<in> set ms. client_message m"
    and "known_creates ms (vm_circuit (mgr cx k))" and "request_ids ms \<subseteq> dom (dget (vm_ioids (mgr cx k)))"
  shows "kept cx (fst (vm_send mk k ms cx))"
proof -
  obtain c r where s: "send mk ms (vm_circuit (mgr cx k)) = (c, r)" by fastforce
  have ok: "circ_ok (vm_circuit (mgr cx k))" using cx_ok_vm [OF assms(1,2)] by (simp add: vm_ok_def)
  note 1 = kept_circuit [OF assms(1,2) circ_ok_send(1,2) [OF ok assms(3,4) s] assms(5)]
  have "kept cx (upd_mgr k (\<lambda>vm. vm\<lparr>vm_circuit := c, vm_sent := vm_sent vm @ concat buffers\<rparr>) cx)" for buffers
    using kept_trans [OF 1 kept_mgr_simple [OF kept_ok [OF 1], of "\<lambda>vm. vm\<lparr>vm_sent := vm_sent vm @ concat buffers\<rparr>" k]]
    by (simp add: upd_mgr_upd_mgr)
  with 1 show ?thesis
    by (auto simp: vm_send_def s kept_refl [OF assms(1)] split: sum.splits)
qed

lemma kept_harmless:
  assumes "cx_ok cx" and "k < length (cx_managers cx)" and "\<forall>m \<in> set ms. harmless m"
  shows "kept cx (fst (vm_send mk k ms cx))"
  using kept_send [OF assms(1,2) harmless_messages(1) [OF assms(3)] harmless_messages(2) [OF assms(3)]] harmless_messages(3) [OF assms(3)] by simp

lemma kept_events:
  assumes "cx_ok cx" and "k < length (cx_managers cx)"
  shows "kept cx (fst (events_off mk k cx))" and "kept cx (fst (events_on mk k cx))"
  using kept_harmless [OF assms] simple_messages(2,3) kept_refl [OF assms(1)]
  by (auto simp: events_off_def events_on_def split: sum.splits)

lemma kept_close:
  assumes "cx_ok cx" and "k < length (cx_managers cx)"
  shows "kept cx (close_socket now k cx)"
proof -
  have ok: "circ_ok (vm_circuit (mgr cx k))" using cx_ok_vm [OF assms] by (simp add: vm_ok_def)
  note 1 = kept_circuit [OF assms circ_ok_disconnect(1) [OF ok] circ_ok_disconnect(2) [OF ok], of "{}"]
  have "kept cx (upd_mgr k (\<lambda>vm. vm\<lparr>vm_circuit := CircuitState_disconnect (vm_circuit (mgr cx k)), vm_open := False,
      vm_registered := False, vm_last_receipt := Some now\<rparr>) cx)"
    using kept_trans [OF 1 kept_mgr_simple [OF kept_ok [OF 1], of "\<lambda>vm. vm\<lparr>vm_open := False, vm_registered := False, vm_last_receipt := Some now\<rparr>" k]]
    by (simp add: upd_mgr_upd_mgr)
  moreover have eq: "vm\<lparr>vm_open := False, vm_registered := False, vm_last_receipt := l, vm_circuit := c\<rparr>
      = vm\<lparr>vm_circuit := c, vm_open := False, vm_registered := False, vm_last_receipt := l\<rparr>" for vm :: "('a, 'b) manager" and l c
    by (cases vm) simp
  moreover have "kept cx (upd_mgr k (\<lambda>vm. vm\<lparr>vm_open := False\<rparr>) cx)" by (rule kept_mgr_simple [OF assms(1)]) simp_all
  ultimately show ?thesis
    using kept_refl [OF assms(1)] by (cases "vm_registered (mgr cx k)") (simp_all add: close_socket_def upd_mgr_def eq)
qed

lemma kept_wake: "cx_ok cx \<Longrightarrow> kept cx (wake i cx)"
  by (auto simp: wake_def intro: kept_info_upd)

lemma kept_not_ready: "cx_ok cx \<Longrightarrow> kept cx (not_ready p cx)"
  by (auto simp: not_ready_def intro: kept_pv_upd)

lemma kept_forget: "cx_ok cx \<Longrightarrow> kept cx (forget_result name cx)"
  by (simp add: forget_result_def kept_refl)

lemma kept_mark_dead:
  assumes "cx_ok cx" and "k < length (cx_managers cx)"
  shows "kept cx (mark_dead k cx) \<and> vm_dead (mgr (mark_dead k cx) k)"
proof -
  define cx1 where "cx1 = fold not_ready (map snd (vm_pvs (mgr cx k))) cx"
  define cx2 where "cx2 = upd_mgr k (\<lambda>vm. vm\<lparr>vm_dead := True\<rparr>) cx1"
  define cx3 where "cx3 = fold wake (map snd (vm_ioids (mgr cx k))) cx2"
  define cx4 where "cx4 = fold forget_result (vm_created (mgr cx k)) cx3"
  have 1: "kept cx cx1" unfolding cx1_def by (rule kept_fold [OF assms(1) kept_not_ready])
  have 2: "kept cx1 cx2" unfolding cx2_def by (rule kept_mgr_simple [OF kept_ok [OF 1]]) (simp_all add: vm_ok_dead)
  have 3: "kept cx2 cx3" unfolding cx3_def by (rule kept_fold [OF kept_ok [OF 2] kept_wake])
  have 4: "kept cx3 cx4" unfolding cx4_def by (rule kept_fold [OF kept_ok [OF 3] kept_forget])
  have 5: "kept cx4 (upd_mgr k (\<lambda>vm. vm\<lparr>vm_created := []\<rparr>) cx4)" by (rule kept_mgr_simple [OF kept_ok [OF 4]]) simp_all
  have k: "k < length (cx_managers cx1)" using assms(2) kept_lengths(3) [OF 1] by simp
  have "vm_dead (mgr cx2 k)" using k by (simp add: cx2_def)
  then have "vm_dead (mgr (upd_mgr k (\<lambda>vm. vm\<lparr>vm_created := []\<rparr>) cx4) k)"
    using kept_dead [OF kept_trans [OF kept_trans [OF 3 4] 5]] k by (simp add: cx2_def)
  moreover have "kept cx (upd_mgr k (\<lambda>vm. vm\<lparr>vm_created := []\<rparr>) cx4)"
    using 1 2 3 4 5 by (blast intro: kept_trans)
  ultimately show ?thesis
    unfolding mark_dead_def Let_def cx1_def [symmetric] cx2_def [symmetric] cx3_def [symmetric] cx4_def [symmetric] by simp
qed

lemma kept_needing:
  assumes "cx_ok cx" and "p < length (cx_pvs cx)" and "name = pv_name (cx_pvs cx ! p)"
  shows "kept cx (needing_add name p cx)"
  using assms by (auto simp: kept_def cx_ok_def vm_ok_def objects_ok_def cache_ok_def needing_add_def)

lemma kept_search:
  assumes "cx_ok cx" and "cx_search now names cx = Some (cx', r)"
  shows "kept cx cx'"
proof -
  obtain sb res where "sb_search (created_in cx) now () names (cx_broadcaster cx) = Some (sb, res)"
    using assms(2) by (auto simp: cx_search_def)
  then show ?thesis using assms kept_refl [OF assms(1)] by (cases res) (auto simp: cx_search_def)
qed

lemma reconnect_all:
  assumes "cx_ok cx" and "\<forall>key \<in> set keys. dget (cx_pv_cache cx) key \<noteq> None"
  shows "\<exists>cx1. each reconnect_key keys cx = (cx1, Inr ()) \<and> kept cx cx1"
  using assms
proof (induction keys arbitrary: cx)
  case (Cons key keys)
  then obtain p where p: "dget (cx_pv_cache cx) key = Some p" by auto
  then have pv: "p < length (cx_pvs cx)" "fst key = pv_name (cx_pvs cx ! p)"
    using Cons.prems(1) unfolding cx_ok_def cache_ok_def by (metis fst_conv)+
  define cx1 where "cx1 = needing_add (fst key) p (forget_result (fst key) cx)"
  have f: "kept cx (forget_result (fst key) cx)" by (rule kept_forget [OF Cons.prems(1)])
  have "kept (forget_result (fst key) cx) cx1"
    unfolding cx1_def using pv by (intro kept_needing kept_ok [OF f]) (simp_all add: forget_result_def)
  with f have k: "kept cx cx1" by (rule kept_trans)
  have "\<forall>key \<in> set keys. dget (cx_pv_cache cx1) key \<noteq> None" using Cons.prems(2) k by (auto simp: kept_def)
  with Cons.IH [OF kept_ok [OF k]] obtain cx2 where "each reconnect_key keys cx1 = (cx2, Inr ())" "kept cx1 cx2" by blast
  moreover have "reconnect_key key cx = (cx1, Inr ())" by (simp add: reconnect_key_def p cx1_def)
  ultimately show ?case using kept_trans [OF k] by simp
qed (simp add: kept_refl)

lemma channel_keys_cached:
  assumes "cx_ok cx" and "k < length (cx_managers cx)"
  shows "\<forall>key \<in> set (channel_keys (mgr cx k)). dget (cx_pv_cache cx) key \<noteq> None"
  using cx_ok_vm [OF assms] by (auto simp: channel_keys_def vm_ok_def)

text \<open>The loss of a circuit fails only where the search for its names does.\<close>

lemma circuit_lost:
  assumes "cx_ok cx" and "k < length (cx_managers cx)"
  obtains (dead) "vm_dead (mgr cx k)" "vm_disconnected alive now again k cx = Some (cx, Inr ())"
  | (lost) cx1 cx2 where "\<not> vm_dead (mgr cx k)"
      "each (connection_state_changed alive False) (map snd (vm_pvs (mgr cx k))) (mark_dead k cx) = (cx1, Inr ())"
      "kept cx cx1" "cx2 = close_socket now k cx1" "kept cx cx2" "vm_dead (mgr cx2 k)"
      "vm_disconnected alive now again k cx = (if again then cx_reconnect now (channel_keys (mgr cx2 k)) cx2 else Some (cx2, Inr ()))"
proof (cases "vm_dead (mgr cx k)")
  case True
  then show thesis by (intro dead) (simp_all add: vm_disconnected_def)
next
  case False
  have d: "kept cx (mark_dead k cx)" "vm_dead (mgr (mark_dead k cx) k)" using kept_mark_dead [OF assms] by auto
  have "p < length (cx_pvs (mark_dead k cx)) \<and> pv_manager (cx_pvs (mark_dead k cx) ! p) \<noteq> None" if "p \<in> set (map snd (vm_pvs (mgr cx k)))" for p
    using that cx_ok_vm [OF assms] kept_lengths(1) [OF d(1)] kept_pv(1) [OF d(1), of p] by (auto simp: vm_ok_def)
  then obtain cx1 where 1: "each (connection_state_changed alive False) (map snd (vm_pvs (mgr cx k))) (mark_dead k cx) = (cx1, Inr ())"
      "kept (mark_dead k cx) cx1"
    using all_connection_changes_succeed [OF kept_ok [OF d(1)]] by blast
  have k1: "kept cx cx1" by (rule kept_trans [OF d(1) 1(2)])
  have k2: "kept cx1 (close_socket now k cx1)" using kept_close [OF kept_ok [OF k1]] kept_lengths(3) [OF k1] assms(2) by simp
  have "vm_dead (mgr (close_socket now k cx1) k)"
    using kept_dead [OF kept_trans [OF 1(2) k2]] d(2) kept_lengths(3) [OF d(1)] assms(2) by simp
  then show thesis
    using lost [OF False 1(1) k1 refl kept_trans [OF k1 k2]] 1(1) False by (simp add: vm_disconnected_def Let_def)
qed

lemma kept_disconnected:
  assumes "cx_ok cx" and "k < length (cx_managers cx)" and "vm_disconnected alive now again k cx = Some (cx', r)"
  shows "kept cx cx' \<and> vm_dead (mgr cx' k)"
  using assms(1,2)
proof (cases rule: circuit_lost [where alive = alive and now = now and again = again])
  case dead
  with assms show ?thesis by (simp add: kept_refl)
next
  case (lost cx1 cx2)
  have k: "k < length (cx_managers cx2)" using assms(2) kept_lengths(3) [OF lost(5)] by simp
  obtain cx3 where r: "each reconnect_key (channel_keys (mgr cx2 k)) cx2 = (cx3, Inr ())" "kept cx2 cx3"
    using reconnect_all [OF kept_ok [OF lost(5)] channel_keys_cached [OF kept_ok [OF lost(5)] k]] by blast
  have "kept cx3 cx'" if "cx_search now names cx3 = Some (cx', r)" for names
    by (rule kept_search [OF kept_ok [OF r(2)] that])
  moreover have "vm_dead (mgr cx' k)" if "kept cx2 cx'" using kept_dead [OF that k lost(6)] .
  ultimately show ?thesis
    using lost(5,6,7) r kept_trans [OF r(2)] assms(3) by (auto simp: cx_reconnect_def split: if_splits intro: kept_trans)
qed

lemma kept_disconnect:
  assumes "cx_ok cx" and "k < length (cx_managers cx)" and "vm_disconnect alive now k cx = Some (cx', r)"
  shows "kept cx cx'"
proof -
  obtain cx1 r1 where 1: "vm_disconnected alive now False k cx = Some (cx1, r1)"
    using assms(3) by (auto simp: vm_disconnect_def)
  have k1: "kept cx cx1" and "vm_dead (mgr cx1 k)" using kept_disconnected [OF assms(1,2) 1] by auto
  moreover have k: "k < length (cx_managers cx1)" using assms(2) kept_lengths(3) [OF k1] by simp
  ultimately have "kept cx1 (upd_mgr k (\<lambda>vm. vm\<lparr>vm_shutdown := True\<rparr>) cx1)"
    using cx_ok_vm [OF kept_ok [OF k1] k] by (intro kept_mgr [OF kept_ok [OF k1]]) (simp add: vm_ok_def)
  then show ?thesis using k1 1 assms(3) by (cases r1) (auto simp: vm_disconnect_def intro: kept_trans)
qed

section \<open>Commands a circuit has accepted\<close>

lemma response_consumes:
  assumes "msg_class m \<in> {ReadNotifyResponse, ReadResponse, WriteNotifyResponse}"
    and "process_command mk (Command m) c = (c', Inr cb)"
  shows "dget (circ_ioids c') (msg_ioid m) = None"
proof -
  have cls: "msg_class m \<in> set channel_classes" "msg_class m \<noteq> EventAddResponse" using assms(1) by (auto simp: channel_classes_def)
  obtain r where r: "dget (circ_ioids c) (msg_ioid m) = Some r" using accepted_known(1) [OF assms(2,1)] by auto
  let ?c = "c\<lparr>circ_ioids := ddel (msg_ioid m) (circ_ioids c)\<rparr>"
  have post: "post_update m r d = (d, Inr ())" for d :: "'a circuit" using assms(1) by (intro post_other) (auto simp: answer_classes_def)
  have "c' = fst (channel_process_command m r ?c)"
    using assms(2) lookup_response [OF assms(1), of mk c] r post
    by (auto simp: process_channel_class [OF cls] channel_command_def split: sum.splits prod.splits)
  then have "dom (dget (circ_ioids c')) \<subseteq> dom (dget (circ_ioids ?c))" using frame_process [of "{}" ?c m r] by (simp add: circ_frame_def)
  then show ?thesis by (auto simp: dict_doms)
qed

lemma set_ddel: "set (ddel k d) \<subseteq> set d"
  by (auto simp: AList.delete_eq)

lemma kept_ioid_del:
  assumes "cx_ok cx" and "k < length (cx_managers cx) \<Longrightarrow> dget (circ_ioids (vm_circuit (mgr cx k))) ioid = None"
  shows "kept cx (upd_mgr k (\<lambda>vm. vm\<lparr>vm_ioids := ddel ioid (vm_ioids vm)\<rparr>) cx)"
proof (rule kept_mgr [OF assms(1)])
  assume k: "k < length (cx_managers cx)"
  note old = cx_ok_vm [OF assms(1) k]
  have "ioid \<notin> dom (dget (circ_ioids (vm_circuit (mgr cx k))))" using assms(2) [OF k] by auto
  then have "dom (dget (circ_ioids (vm_circuit (mgr cx k)))) \<subseteq> dom (dget (ddel ioid (vm_ioids (mgr cx k))))"
    using old by (auto simp: dict_doms vm_ok_def)
  moreover have "\<forall>(i, n) \<in> set (ddel ioid (vm_ioids (mgr cx k))). n < length (cx_infos cx)"
    using old set_ddel [of ioid "vm_ioids (mgr cx k)"] by (auto simp: vm_ok_def)
  ultimately show "vm_ok cx ((mgr cx k)\<lparr>vm_ioids := ddel ioid (vm_ioids (mgr cx k))\<rparr>)
      \<and> circ_priority (vm_circuit ((mgr cx k)\<lparr>vm_ioids := ddel ioid (vm_ioids (mgr cx k))\<rparr>)) = circ_priority (vm_circuit (mgr cx k))
      \<and> (vm_dead (mgr cx k) \<longrightarrow> vm_dead ((mgr cx k)\<lparr>vm_ioids := ddel ioid (vm_ioids (mgr cx k))\<rparr>))"
    using old unfolding vm_ok_def by simp
qed

lemma submit_ok:
  assumes "cx_ok cx" and "k < length (cx_managers cx)"
  shows "kept cx (fst (submit_callback k callback m cx)) \<and> snd (submit_callback k callback m cx) = Inr ()"
  using cx_ok_vm [OF assms] kept_refl [OF assms(1)]
  by (auto simp: submit_callback_def vm_ok_def split: option.splits intro!: kept_mgr_simple [OF assms(1)])

lemma response_ok:
  assumes "cx_ok cx" and "k < length (cx_managers cx)" and "dget (vm_ioids (mgr cx k)) (msg_ioid m) \<noteq> None"
    and "dget (circ_ioids (vm_circuit (mgr cx k))) (msg_ioid m) = None"
  shows "\<exists>cx2. process_response now k m cx = (cx2, Inr ()) \<and> kept cx cx2"
proof -
  obtain i where i: "dget (vm_ioids (mgr cx k)) (msg_ioid m) = Some i" using assms(3) by auto
  then have "i < length (cx_infos cx)" using cx_ok_vm [OF assms(1,2)] by (auto simp: vm_ok_def dest!: map_of_SomeD)
  then obtain deadline where d: "in_deadline (cx_infos cx ! i) = Some deadline"
    using assms(1) nth_mem [of i "cx_infos cx"] by (fastforce simp: cx_ok_def objects_ok_def)
  define cx1 where "cx1 = upd_mgr k (\<lambda>vm. vm\<lparr>vm_ioids := ddel (msg_ioid m) (vm_ioids vm)\<rparr>) cx"
  define cx2 where "cx2 = (if in_event (cx_infos cx ! i) = None then cx1
      else upd_info i (\<lambda>info. info\<lparr>in_response := Some m, in_event := Some True\<rparr>) cx1)"
  have 1: "kept cx cx1" unfolding cx1_def by (rule kept_ioid_del [OF assms(1) assms(4)])
  have 2: "kept cx1 cx2" unfolding cx2_def using kept_info_upd [OF kept_ok [OF 1]] kept_refl [OF kept_ok [OF 1]] by simp
  note 12 = kept_trans [OF 1 2]
  have k: "k < length (cx_managers cx2)" using assms(2) kept_lengths(3) [OF 12] by simp
  have 3: "kept cx2 (fst (submit_callback k (in_callback (cx_infos cx ! i)) m cx2))"
    "snd (submit_callback k (in_callback (cx_infos cx ! i)) m cx2) = Inr ()"
    using submit_ok [OF kept_ok [OF 12] k] by auto
  have "process_response now k m cx = (if (case deadline of None \<Rightarrow> False | Some d \<Rightarrow> now > d) then (cx1, Inr ())
      else submit_callback k (in_callback (cx_infos cx ! i)) m cx2)"
    by (simp add: process_response_def i d Let_def cx1_def [symmetric] cx2_def)
  then show ?thesis using 1 kept_trans [OF 12 3(1)] 3(2) by (metis prod.collapse)
qed

lemma delivery_ok:
  assumes "cx_ok cx" and "k < length (cx_managers cx)"
  shows "\<exists>cx2. process_update alive k m cx = (cx2, Inr ()) \<and> kept cx cx2"
proof (cases "dget (vm_subs (mgr cx k)) (msg_subscriptionid m)")
  case None
  then show ?thesis using kept_refl [OF assms(1)] by (simp add: process_update_def)
next
  case (Some s)
  then have "s < length (cx_subs cx)" "pv_manager (cx_pvs cx ! su_pv (cx_subs cx ! s)) \<noteq> None"
    using cx_ok_vm [OF assms] by (auto simp: vm_ok_def dest!: map_of_SomeD)
  from sub_process_succeeds [OF assms(1) this, of alive m] kept_sub_process [OF assms(1), of alive s m] Some show ?thesis
    by (simp add: process_update_def) (metis prod.collapse)
qed

lemma pv_of_channel:
  assumes "cx_ok cx" and "k < length (cx_managers cx)" and "dget (vm_pvs (mgr cx k)) cid = Some p"
  shows "p < length (cx_pvs cx)" and "pv_manager (cx_pvs cx ! p) \<noteq> None"
  using cx_ok_vm [OF assms(1,2)] map_of_SomeD [OF assms(3)] by (auto simp: vm_ok_def)

lemma created_ok:
  assumes "cx_ok cx" and "k < length (cx_managers cx)" and "dget (vm_pvs (mgr cx k)) (msg_cid m) \<noteq> None"
    and "dget (vm_channels (mgr cx k)) (msg_cid m) \<noteq> None"
  shows "\<exists>cx2. process_created alive k m cx = (cx2, Inr ()) \<and> kept cx cx2"
proof -
  obtain p r where pr: "dget (vm_pvs (mgr cx k)) (msg_cid m) = Some p" "dget (vm_channels (mgr cx k)) (msg_cid m) = Some r"
    using assms(3,4) by auto
  define cx1 where "cx1 = upd_mgr k (\<lambda>vm. vm\<lparr>vm_created := vm_created vm @ [pv_name (cx_pvs cx ! p)]\<rparr>) cx"
  define cx2 where "cx2 = upd_pv p (\<lambda>pv. pv\<lparr>pv_channel := Some (k, r), pv_channel_ready := True\<rparr>) cx1"
  note p = pv_of_channel [OF assms(1,2) pr(1)]
  have 1: "kept cx cx1" unfolding cx1_def by (rule kept_mgr_simple [OF assms(1)]) simp_all
  have 2: "kept cx1 cx2" unfolding cx2_def by (rule kept_pv_upd [OF kept_ok [OF 1]]) simp
  note 12 = kept_trans [OF 1 2]
  have q: "p < length (cx_pvs cx2)" "pv_manager (cx_pvs cx2 ! p) \<noteq> None" using p kept_pv(1) [OF 12 p(1)] kept_lengths(1) [OF 12] by auto
  have "process_created alive k m cx = connection_state_changed alive True p cx2"
    by (simp add: process_created_def pr cx1_def cx2_def)
  then show ?thesis
    using connection_change_succeeds [OF kept_ok [OF 12] q, of alive True] kept_trans [OF 12 kept_connection_state_changed [OF kept_ok [OF 12] q(1)]]
    by (metis prod.collapse)
qed

text \<open>No command a circuit accepts makes its manager fail.\<close>

lemma accepted_ok:
  assumes "cx_ok cx" and "k < length (cx_managers cx)" and "server_message m"
    and "process_command mk (Command m) (vm_circuit (mgr cx k)) = (c, Inr cb)"
    and "cx1 = upd_mgr k (\<lambda>vm. vm\<lparr>vm_circuit := c\<rparr>) cx"
  shows "\<exists>cx2. process_accepted alive now k m cx1 = (cx2, Inr ()) \<and> kept cx1 cx2"
proof -
  have vm: "vm_ok cx (mgr cx k)" using cx_ok_vm [OF assms(1,2)] by simp
  then have cok: "circ_ok (vm_circuit (mgr cx k))" by (simp add: vm_ok_def)
  have "circ_ok c" "circ_frame {} (vm_circuit (mgr cx k)) c" using circ_ok_command [OF cok assms(4)] assms(3) by auto
  then have ok1: "cx_ok cx1" unfolding assms(5) using kept_ok [OF kept_circuit [OF assms(1,2)]] by blast
  have k: "k < length (cx_managers cx1)" using assms(2) by (simp add: assms(5))
  have vm1: "mgr cx1 k = (mgr cx k)\<lparr>vm_circuit := c\<rparr>" "cx_pvs cx1 = cx_pvs cx" using assms(2) by (simp_all add: assms(5))
  have known: "dget (vm_pvs (mgr cx1 k)) (msg_cid m) \<noteq> None \<and> dget (vm_channels (mgr cx1 k)) (msg_cid m) \<noteq> None"
    if "msg_class m \<in> {AccessRightsResponse, CreateChanResponse, ServerDisconnResponse, ClearChannelResponse}"
  proof -
    have "msg_cid m \<in> dom (dget (circ_channels (vm_circuit (mgr cx k))))" using accepted_known(2) [OF assms(4) that] by auto
    then show ?thesis using vm vm1 map_le_implies_dom_le unfolding vm_ok_def by (auto 0 3 simp: dom_def map_le_def)
  qed
  consider (version) "msg_class m = VersionResponse" | (response) "msg_class m \<in> {ReadNotifyResponse, ReadResponse, WriteNotifyResponse}"
    | (update) "msg_class m = EventAddResponse" | (rights) "msg_class m = AccessRightsResponse" | (created) "msg_class m = CreateChanResponse"
    | (closed) "msg_class m \<in> {ServerDisconnResponse, ClearChannelResponse}"
    | (other) "msg_class m \<notin> {VersionResponse, ReadNotifyResponse, ReadResponse, WriteNotifyResponse, EventAddResponse, AccessRightsResponse,
        CreateChanResponse, ServerDisconnResponse, ClearChannelResponse}"
    by blast
  then show ?thesis
  proof cases
    case version
    then have "vm_connected (mgr cx1 k)"
      using version_connects [OF _ _ _ version assms(4)] cok vm1 by (simp add: vm_connected_def circ_ok_def)
    moreover have "kept cx1 (upd_mgr k (\<lambda>vm. vm\<lparr>vm_ready := True\<rparr>) cx1)" by (rule kept_mgr_simple [OF ok1]) simp_all
    ultimately show ?thesis using version by (simp add: process_accepted_def)
  next
    case response
    have "msg_ioid m \<in> dom (dget (circ_ioids (vm_circuit (mgr cx k))))" using accepted_known(1) [OF assms(4) response] by auto
    then have "dget (vm_ioids (mgr cx1 k)) (msg_ioid m) \<noteq> None" using vm vm1 unfolding vm_ok_def by auto
    moreover have "dget (circ_ioids (vm_circuit (mgr cx1 k))) (msg_ioid m) = None" using response_consumes [OF response assms(4)] vm1 by simp
    moreover have "process_accepted alive now k m cx1 = process_response now k m cx1"
      using response by (auto simp: process_accepted_def in_cls_def)
    ultimately show ?thesis using response_ok [OF ok1 k] by simp
  next
    case update
    then show ?thesis using delivery_ok [OF ok1 k] by (simp add: process_accepted_def in_cls_def)
  next
    case rights
    then obtain p where p: "dget (vm_pvs (mgr cx1 k)) (msg_cid m) = Some p" using known by auto
    note q = pv_of_channel [OF ok1 k p]
    show ?thesis
      using rights_succeed [OF ok1 q, of alive "msg_access_rights m"] kept_rights [OF ok1, of alive p "msg_access_rights m"] rights p
      by (simp add: process_accepted_def in_cls_def) (metis prod.collapse)
  next
    case created
    then show ?thesis using created_ok [OF ok1 k] known by (simp add: process_accepted_def in_cls_def)
  next
    case closed
    then obtain p where p: "dget (vm_pvs (mgr cx1 k)) (msg_cid m) = Some p" using known by auto
    note q = pv_of_channel [OF ok1 k p]
    have "process_accepted alive now k m cx1 = connection_state_changed alive False p cx1"
      using closed p by (auto simp: process_accepted_def in_cls_def)
    then show ?thesis
      using connection_change_succeeds [OF ok1 q, of alive False] kept_connection_state_changed [OF ok1 q(1), of alive False]
      by (metis prod.collapse)
  next
    case other
    then show ?thesis using kept_refl [OF ok1] by (auto simp: process_accepted_def in_cls_def)
  qed
qed

lemma kept_process_command:
  assumes "cx_ok cx" and "k < length (cx_managers cx)" and "\<And>m. cmd = Command m \<Longrightarrow> server_message m"
    and "vm_process_command mk alive now k cmd cx = Some (cx', r)"
  shows "kept cx cx'"
proof -
  obtain c res where run: "process_command mk cmd (vm_circuit (mgr cx k)) = (c, res)" by fastforce
  have ok: "circ_ok (vm_circuit (mgr cx k))" using cx_ok_vm [OF assms(1,2)] by (simp add: vm_ok_def)
  define cx1 where "cx1 = upd_mgr k (\<lambda>vm. vm\<lparr>vm_circuit := c\<rparr>) cx"
  have 1: "kept cx cx1"
    unfolding cx1_def using kept_circuit [OF assms(1,2) circ_ok_command [OF ok run]] assms(3) by blast
  have k: "k < length (cx_managers cx1)" using assms(2) by (simp add: cx1_def)
  show ?thesis
  proof (cases res)
    case (Inl e)
    then show ?thesis
      using assms(4) run 1 kept_trans [OF 1 kept_disconnect [OF kept_ok [OF 1] k]]
      by (auto simp: vm_process_command_def cx1_def [symmetric] split: command.splits if_splits)
  next
    case (Inr cb)
    show ?thesis
    proof (cases cmd)
      case (Command m)
      obtain cx2 where "process_accepted alive now k m cx1 = (cx2, Inr ())" "kept cx1 cx2"
        using accepted_ok [OF assms(1,2) assms(3) [OF Command] _ cx1_def, of mk cb alive now] run Inr Command by blast
      then show ?thesis
        using assms(4) run Inr Command kept_trans [OF 1] by (auto simp: vm_process_command_def cx1_def [symmetric])
    next
      case Command_DISCONNECTED
      then show ?thesis
        using assms(4) run Inr kept_trans [OF 1] kept_disconnected [OF kept_ok [OF 1] k]
        by (auto simp: vm_process_command_def cx1_def [symmetric])
    qed
  qed
qed

lemma kept_process_commands:
  assumes "cx_ok cx" and "k < length (cx_managers cx)" and "\<forall>m. Command m \<in> set cmds \<longrightarrow> server_message m"
    and "vm_process_commands mk alive now k cmds cx = Some (cx', r)"
  shows "kept cx cx'"
  using assms
proof (induction cmds arbitrary: cx)
  case (Cons cmd cmds)
  then obtain cx1 r1 where 1: "vm_process_command mk alive now k cmd cx = Some (cx1, r1)" by (auto split: option.splits)
  have k1: "kept cx cx1" using kept_process_command [OF Cons.prems(1,2) _ 1] Cons.prems(3) by simp
  show ?case
  proof (cases r1)
    case (Inl e)
    with 1 Cons.prems(4) k1 show ?thesis by simp
  next
    case (Inr u)
    with 1 Cons.prems(4) have "vm_process_commands mk alive now k cmds cx1 = Some (cx', r)" by simp
    with Cons.IH [OF kept_ok [OF k1]] Cons.prems(2,3) kept_lengths(3) [OF k1] show ?thesis by (auto intro: kept_trans [OF k1])
  qed
qed (simp add: kept_refl)

lemma kept_received:
  assumes "cx_ok cx" and "k < length (cx_managers cx)" and "vm_received mk alive now k bs cx = Some (cx', r)"
  shows "kept cx cx'"
proof -
  obtain c res where run: "recv [bs] (vm_circuit (mgr cx k)) = (c, res)" by fastforce
  have ok: "circ_ok (vm_circuit (mgr cx k))" using cx_ok_vm [OF assms(1,2)] by (simp add: vm_ok_def)
  define cx1 where "cx1 = upd_mgr k (\<lambda>vm. vm\<lparr>vm_last_receipt := Some now, vm_circuit := c\<rparr>) cx"
  have "kept cx (upd_mgr k (\<lambda>vm. vm\<lparr>vm_last_receipt := Some now\<rparr>) cx)" (is "kept cx ?cx")
    by (rule kept_mgr_simple [OF assms(1)]) simp_all
  moreover have "kept ?cx cx1"
    using kept_circuit [OF kept_ok [OF calculation], of k c "{}"] circ_ok_recv [OF ok run] assms(2)
    by (simp add: upd_mgr_upd_mgr cx1_def)
  ultimately have 1: "kept cx cx1" by (rule kept_trans)
  have k: "k < length (cx_managers cx1)" using assms(2) by (simp add: cx1_def)
  show ?thesis
  proof (cases res)
    case (Inl e)
    with run assms(3) 1 show ?thesis by (simp add: vm_received_def cx1_def [symmetric])
  next
    case (Inr x)
    obtain cmds n where x: "x = (cmds, n)" by (cases x)
    have "\<forall>m. Command m \<in> set cmds \<longrightarrow> server_message m"
      using received_commands [of "[bs]" "vm_circuit (mgr cx k)" c cmds n] run Inr x ok by (auto simp: circ_ok_def)
    with kept_process_commands [OF kept_ok [OF 1] k] run assms(3) Inr x kept_trans [OF 1] show ?thesis
      by (auto simp: vm_received_def cx1_def [symmetric])
  qed
qed

lemma kept_remove_socket:
  assumes "cx_ok cx" and "k < length (cx_managers cx)" and "remove_socket mk alive now k cx = Some (cx', r)"
  shows "kept cx cx'"
proof -
  have 1: "kept cx (upd_mgr k (\<lambda>vm. vm\<lparr>vm_registered := False\<rparr>) cx)" by (rule kept_mgr_simple [OF assms(1)]) simp_all
  show ?thesis
    using assms kept_trans [OF 1 kept_received [OF kept_ok [OF 1]]] kept_refl [OF assms(1)]
    by (auto simp: remove_socket_def split: if_splits)
qed

lemma kept_selector:
  assumes "cx_ok cx" and "k < length (cx_managers cx)" and "selector_received mk alive now k bs cx = Some (cx', r)"
  shows "kept cx cx'"
proof -
  obtain cx1 r1 where 1: "vm_received mk alive now k bs cx = Some (cx1, r1)"
    using assms(3) by (auto simp: selector_received_def split: option.splits)
  note k1 = kept_received [OF assms(1,2) 1]
  have k: "k < length (cx_managers cx1)" using assms(2) kept_lengths(3) [OF k1] by simp
  show ?thesis
    using assms(3) 1 k1 kept_trans [OF k1 kept_remove_socket [OF kept_ok [OF k1] k]]
    by (cases r1) (auto simp: selector_received_def split: if_splits)
qed

lemma kept_selector_loop:
  assumes "cx_ok cx" and "k < length (cx_managers cx)" and "selector_loop mk alive now k bss cx = Some cx'"
  shows "kept cx cx'"
  using assms
proof (induction bss arbitrary: cx)
  case (Cons bs bss)
  show ?case
  proof (cases "vm_registered (mgr cx k)")
    case True
    then obtain cx1 r1 where 1: "selector_received mk alive now k bs cx = Some (cx1, r1)" and rest: "selector_loop mk alive now k bss cx1 = Some cx'"
      using Cons.prems(3) by (auto split: option.splits)
    note k1 = kept_selector [OF Cons.prems(1,2) 1]
    with Cons.IH [OF kept_ok [OF k1] _ rest] Cons.prems(2) kept_lengths(3) [OF k1] show ?thesis by (auto intro: kept_trans)
  next
    case False
    with Cons.prems show ?thesis by (simp add: kept_refl)
  qed
qed (simp add: kept_refl)

section \<open>Requests\<close>

lemma kept_new_ioid:
  assumes "cx_ok cx" and "k < length (cx_managers cx)" and "vm_new_ioid k cx = Some (cx', ioid)"
  shows "kept cx cx'" and "0 \<le> ioid" and "ioid < MAX_ID"
proof -
  have id: "ThreadsafeCounter_call [] (vm_ioid_counter (mgr cx k)) = Some ioid"
    and cx': "cx' = upd_mgr k (\<lambda>vm. vm\<lparr>vm_ioid_counter := ioid\<rparr>) cx" using assms(3) by (auto simp: vm_new_ioid_def)
  have inv: "counter_inv (vm_ioid_counter (mgr cx k))" using cx_ok_vm [OF assms(1,2)] by (simp add: vm_ok_def)
  show "0 \<le> ioid" "ioid < MAX_ID" using counter.gen_fresh [OF inv id] by auto
  have "counter_inv ioid" using counter.gen_fresh [OF inv id] by auto
  then show "kept cx cx'"
    unfolding cx' using cx_ok_vm [OF assms(1,2)] by (intro kept_mgr [OF assms(1)]) (simp add: vm_ok_def)
qed

lemma kept_add_info:
  assumes "cx_ok cx" and "k < length (cx_managers cx)" and "in_deadline info \<noteq> None"
  shows "kept cx (add_info k ioid info cx)" and "ioid \<in> dom (dget (vm_ioids (mgr (add_info k ioid info cx) k)))"
proof -
  define cx1 where "cx1 = cx\<lparr>cx_infos := cx_infos cx @ [info]\<rparr>"
  have f: "cx_pvs cx1 = cx_pvs cx" "cx_subs cx1 = cx_subs cx" "cx_managers cx1 = cx_managers cx" "cx_pv_cache cx1 = cx_pv_cache cx"
    "cx_needing cx1 = cx_needing cx" "cx_circuit_managers cx1 = cx_circuit_managers cx" "cx_to_activate cx1 = cx_to_activate cx"
    "cx_infos cx1 = cx_infos cx @ [info]"
    by (simp_all add: cx1_def)
  have "objects_ok cx1" using assms(1,3) by (simp add: cx_ok_def objects_ok_def f del: not_None_eq)
  moreover have "cache_ok cx1" using assms(1) by (simp add: cx_ok_def cache_ok_def f)
  ultimately have "cx_ok cx1" by (intro cx_ok_change [OF assms(1)]) (auto simp: grown_def f)
  then have 1: "kept cx cx1" by (simp add: kept_def f)
  have "vm_ok cx1 ((mgr cx1 k)\<lparr>vm_ioids := dset ioid (length (cx_infos cx)) (vm_ioids (mgr cx1 k))\<rparr>)"
  proof -
    have vm: "vm_ok cx1 (mgr cx1 k)" using cx_ok_vm [OF kept_ok [OF 1], of k] assms(2) f by simp
    have "\<forall>(i, n) \<in> set (dset ioid (length (cx_infos cx)) (vm_ioids (mgr cx1 k))). n < length (cx_infos cx1)"
      using vm by (auto simp: vm_ok_def f dest!: set_dset)
    then show ?thesis using vm unfolding vm_ok_def by (auto simp: dict_doms)
  qed
  then have "kept cx1 (upd_mgr k (\<lambda>vm. vm\<lparr>vm_ioids := dset ioid (length (cx_infos cx)) (vm_ioids vm)\<rparr>) cx1)"
    by (intro kept_mgr [OF kept_ok [OF 1]]) simp
  with 1 show "kept cx (add_info k ioid info cx)" by (simp add: add_info_def cx1_def) (rule kept_trans)
  show "ioid \<in> dom (dget (vm_ioids (mgr (add_info k ioid info cx) k)))"
    using assms(2) by (simp add: add_info_def dict_doms)
qed

text \<open>A request of \<open>read\<close> or \<open>write\<close> is known to the manager before it is sent.\<close>

lemma kept_request:
  assumes "cx_ok cx" and "k < length (cx_managers cx)" and "in_deadline info \<noteq> None"
    and "client_message m" and "msg_class m \<noteq> CreateChanRequest" and "msg_ioid m = ioid"
  shows "kept cx (fst (vm_send mk k [m] (add_info k ioid info cx)))"
proof -
  note 1 = kept_add_info [OF assms(1,2,3), of ioid]
  have "kept (add_info k ioid info cx) (fst (vm_send mk k [m] (add_info k ioid info cx)))"
    using 1(2) assms(4-6) kept_lengths(3) [OF 1(1)] assms(2)
    by (intro kept_send [OF kept_ok [OF 1(1)]]) (auto simp: known_creates_def request_ids_def)
  with 1(1) show ?thesis by (rule kept_trans)
qed

end
