(* ===== verification/CA_Client_Steps.thy ===== *)
theory CA_Client_Steps
  imports CA_Client_Inv
begin

text \<open>
  The operations of the client of \<^verbatim>\<open>caproto/threading/client.py\<close> that its users and its threads start, the clients that can be
  reached by them, and what holds of those: the invariant of \<open>CA_Client_Inv\<close>, and from it what a command, a lost circuit and a
  waiting request come to.
\<close>

section \<open>Requests\<close>

lemma kept_read:
  assumes "cx_ok cx" and "p < length (cx_pvs cx)" and "read_start mk now p t n notify callback timeout cx = Some (cx', r)"
  shows "kept cx cx'"
proof (cases "pv_manager (cx_pvs cx ! p)")
  case None
  with assms(1,3) show ?thesis by (simp add: read_start_def kept_refl)
next
  case (Some k)
  have k: "k < length (cx_managers cx)" using ok_pv(2) [OF assms(1,2) Some] by simp
  obtain cx1 ioid where 1: "vm_new_ioid k cx = Some (cx1, ioid)" using assms(3) Some by (auto simp: read_start_def split: option.splits)
  note i = kept_new_ioid [OF assms(1) k 1]
  have k1: "k < length (cx_managers cx1)" using k kept_lengths(3) [OF i(1)] by simp
  show ?thesis
  proof (cases "\<exists>k' q c m. pv_channel (cx_pvs cx ! p) = Some (k', q)
      \<and> ClientChannel_read q t n (Some ioid) notify (vm_circuit (mgr cx1 k')) = Some (c, Inr m)")
    case False
    then show ?thesis using assms(3) Some 1 i(1) by (auto simp: read_start_def Let_def split: option.splits sum.splits)
  next
    case True
    then obtain k' q c m where m: "pv_channel (cx_pvs cx ! p) = Some (k', q)"
      "ClientChannel_read q t n (Some ioid) notify (vm_circuit (mgr cx1 k')) = Some (c, Inr m)" by blast
    let ?info = "\<lparr>in_event = Some False, in_pv = p, in_request = m, in_callback = callback,
      in_deadline = Some (map_option (\<lambda>t. now + t) timeout), in_response = None\<rparr>"
    have "kept cx1 (fst (vm_send mk k [m] (add_info k ioid ?info cx1)))"
      using read_message [OF m(2) i(2,3)] by (intro kept_request [OF kept_ok [OF i(1)] k1]) auto
    moreover have "cx' = fst (vm_send mk k [m] (add_info k ioid ?info cx1))"
      using assms(3) Some 1 m by (auto simp: read_start_def Let_def split: sum.splits prod.splits)
    ultimately show ?thesis using kept_trans [OF i(1)] by simp
  qed
qed

text \<open>What \<^verbatim>\<open>chan.write\<close> gives for an id of the manager.\<close>

definition writes :: "(ref \<Rightarrow> int \<Rightarrow> bool \<Rightarrow> 'f circuit \<Rightarrow> ('f circuit \<times> message result) option) \<Rightarrow> bool" where
  "writes compose \<longleftrightarrow> (\<forall>r ioid notify c c' m. 0 \<le> ioid \<longrightarrow> ioid < MAX_ID \<longrightarrow> compose r ioid notify c = Some (c', Inr m) \<longrightarrow>
     (if notify then msg_class m = WriteNotifyRequest \<and> msg_ioid m = ioid else harmless m))"

lemma channel_writes: "writes (\<lambda>r ioid notify c. ClientChannel_write enc te md r data t n meta (Some ioid) notify c)"
  unfolding writes_def using write_message by blast

lemma written:
  assumes "writes compose" and "compose r ioid notify c = Some (c', Inr m)" and "0 \<le> ioid" and "ioid < MAX_ID"
  shows "if notify then msg_class m = WriteNotifyRequest \<and> msg_ioid m = ioid else harmless m"
  using assms unfolding writes_def by blast

lemma kept_write:
  assumes "cx_ok cx" and "p < length (cx_pvs cx)" and "writes compose"
    and "write_start mk compose now p wait notify callback timeout cx = Some (cx', r)"
  shows "kept cx cx'"
proof (cases "pv_manager (cx_pvs cx ! p)")
  case None
  with assms(1,4) show ?thesis by (simp add: write_start_def kept_refl)
next
  case (Some k)
  define nf where "nf = (case notify of None \<Rightarrow> wait \<or> callback \<noteq> None | Some b \<Rightarrow> b)"
  have k: "k < length (cx_managers cx)" using ok_pv(2) [OF assms(1,2) Some] by simp
  obtain cx1 ioid where 1: "vm_new_ioid k cx = Some (cx1, ioid)" using assms(4) Some by (auto simp: write_start_def Let_def split: option.splits)
  note i = kept_new_ioid [OF assms(1) k 1]
  have k1: "k < length (cx_managers cx1)" using k kept_lengths(3) [OF i(1)] by simp
  show ?thesis
  proof (cases "\<exists>k' q c m. pv_channel (cx_pvs cx ! p) = Some (k', q) \<and> compose q ioid nf (vm_circuit (mgr cx1 k')) = Some (c, Inr m)
      \<and> (nf \<or> \<not> (wait \<or> callback \<noteq> None))")
    case False
    then show ?thesis using assms(4) Some 1 i(1)
      by (auto simp: write_start_def Let_def nf_def [symmetric] split: option.splits sum.splits if_splits)
  next
    case True
    then obtain k' q c m where m: "pv_channel (cx_pvs cx ! p) = Some (k', q)" "compose q ioid nf (vm_circuit (mgr cx1 k')) = Some (c, Inr m)"
      "nf \<or> \<not> (wait \<or> callback \<noteq> None)" by blast
    note w = written [OF assms(3) m(2) i(2,3)]
    let ?info = "\<lparr>in_event = Some False, in_pv = p, in_request = m, in_callback = callback,
      in_deadline = Some (map_option (\<lambda>t. now + t) timeout), in_response = None\<rparr>"
    have "kept cx1 (fst (vm_send mk k [m] (if nf then add_info k ioid ?info cx1 else cx1)))"
    proof (cases nf)
      case True
      with w show ?thesis by (auto intro!: kept_request [OF kept_ok [OF i(1)] k1] simp: client_message_def)
    next
      case False
      with w show ?thesis by (auto intro!: kept_harmless [OF kept_ok [OF i(1)] k1])
    qed
    moreover have "cx' = fst (vm_send mk k [m] (if nf then add_info k ioid ?info cx1 else cx1))"
      using assms(4) Some 1 m by (auto simp: write_start_def Let_def nf_def [symmetric] split: sum.splits prod.splits)
    ultimately show ?thesis using kept_trans [OF i(1)] by simp
  qed
qed

lemma kept_go_idle:
  assumes "cx_ok cx" and "p < length (cx_pvs cx)"
  shows "kept cx (fst (go_idle mk p cx))"
proof -
  define cx1 where "cx1 = upd_pv p (\<lambda>pv. pv\<lparr>pv_channel_ready := False\<rparr>) cx"
  have 1: "kept cx cx1" unfolding cx1_def by (rule kept_pv_upd [OF assms(1)]) simp
  have 2: "kept cx (fst (vm_send mk k [m] cx1))" "kept cx (upd_pv p (\<lambda>pv. pv\<lparr>pv_idle := True\<rparr>) (fst (vm_send mk k [m] cx1)))"
    if "pv_manager (cx_pvs cx ! p) = Some k" "ClientChannel_clear r c = Inr m" for k r c m
  proof -
    have "k < length (cx_managers cx1)" using ok_pv(2) [OF assms that(1)] kept_lengths(3) [OF 1] by simp
    then have "kept cx1 (fst (vm_send mk k [m] cx1))" using clear_message [OF that(2)] by (intro kept_harmless [OF kept_ok [OF 1]]) simp_all
    with 1 show s: "kept cx (fst (vm_send mk k [m] cx1))" by (rule kept_trans)
    show "kept cx (upd_pv p (\<lambda>pv. pv\<lparr>pv_idle := True\<rparr>) (fst (vm_send mk k [m] cx1)))"
      by (rule kept_trans [OF s kept_pv_upd [OF kept_ok [OF s]]]) simp
  qed
  show ?thesis
  proof (cases "\<exists>k k' r m. pv_manager (cx_pvs cx ! p) = Some k \<and> pv_channel (cx_pvs cx ! p) = Some (k', r)
      \<and> ClientChannel_clear r (vm_circuit (mgr cx k')) = Inr m")
    case False
    then show ?thesis
      using 1 kept_refl [OF assms(1)] by (auto simp: go_idle_def Let_def cx1_def [symmetric] split: option.splits sum.splits)
  next
    case True
    then obtain k k' r m where m: "pv_manager (cx_pvs cx ! p) = Some k" "pv_channel (cx_pvs cx ! p) = Some (k', r)"
      "ClientChannel_clear r (vm_circuit (mgr cx k')) = Inr m" by blast
    obtain cx2 u where s: "vm_send mk k [m] cx1 = (cx2, u)" by fastforce
    show ?thesis
      using 2 [OF m(1,3)] s kept_refl [OF assms(1)] m
      by (cases u) (simp_all add: go_idle_def Let_def cx1_def [symmetric])
  qed
qed

lemma kept_usages: "cx_ok cx \<Longrightarrow> kept cx (leave_connected p cx)"
  by (auto simp: leave_connected_def intro: kept_pv_upd)

section \<open>Channels\<close>

text \<open>A channel of a PV with its manager enters the tables of both.\<close>

lemma kept_channel:
  assumes "cx_ok cx" and "p < length (cx_pvs cx)" and "pv_manager (cx_pvs cx ! p) = Some k"
    and "new_channel_id (vm_circuit (mgr cx k)) = Some (c, cid)"
    and "BaseChannel_init mk (pv_name (cx_pvs cx ! p)) cid c = (c1, Inr r)"
    and "cx' = upd_mgr k (\<lambda>vm. vm\<lparr>vm_circuit := c1, vm_channels := dset cid r (vm_channels vm), vm_pvs := dset cid p (vm_pvs vm)\<rparr>) cx"
  shows "kept cx cx'" and "registered c1 r" and "0 \<le> ch_cid (chan c1 r)" and "ch_cid (chan c1 r) < MAX_ID"
proof -
  have k: "k < length (cx_managers cx)" and prio: "circ_priority (vm_circuit (mgr cx k)) = Some (pv_priority (cx_pvs cx ! p))"
    using ok_pv(2) [OF assms(1-3)] by auto
  have vm: "vm_ok cx (mgr cx k)" using cx_ok_vm [OF assms(1) k] by simp
  then have ok: "circ_ok (vm_circuit (mgr cx k))" by (simp add: vm_ok_def)
  note new = new_channel [OF ok assms(4,5)]
  note reg = new(7) [OF refl]
  have "circ_channels c1 = dset cid r (circ_channels (vm_circuit (mgr cx k)))" "length (circ_store c1) = Suc r" "ch_cid (chan c1 r) = cid"
    using reg by auto
  then show "registered c1 r" by (simp add: registered_def dget_dset)
  show "0 \<le> ch_cid (chan c1 r)" "ch_cid (chan c1 r) < MAX_ID" using reg new(2,3) by auto
  let ?vm = "(mgr cx k)\<lparr>vm_circuit := c1, vm_channels := dset cid r (vm_channels (mgr cx k)), vm_pvs := dset cid p (vm_pvs (mgr cx k))\<rparr>"
  have "dget (dset cid r (circ_channels (vm_circuit (mgr cx k)))) \<subseteq>\<^sub>m dget (dset cid r (vm_channels (mgr cx k)))"
    using vm by (auto simp: vm_ok_def map_le_def dget_dset)
  moreover have "dom (dget (dset cid r (circ_channels (vm_circuit (mgr cx k))))) \<subseteq> dom (dget (dset cid p (vm_pvs (mgr cx k))))"
    using vm by (auto simp: vm_ok_def dict_doms)
  moreover have "\<forall>(i, q) \<in> set (dset cid p (vm_pvs (mgr cx k))). q < length (cx_pvs cx) \<and> pv_manager (cx_pvs cx ! q) \<noteq> None"
    using vm assms(2,3) by (auto simp: vm_ok_def dest!: set_dset)
  moreover have "\<forall>(i, q) \<in> set (dset cid r (vm_channels (mgr cx k))). q < length (circ_store c1)
      \<and> dget (cx_pv_cache cx) (ch_name (chan c1 q), the (circ_priority c1)) \<noteq> None"
    using vm reg new(5) prio ok_pv(1) [OF assms(1,2)] by (auto simp: vm_ok_def dest!: set_dset)
  ultimately have "vm_ok cx ?vm" using vm new(1) reg unfolding vm_ok_def by simp
  then show "kept cx cx'" unfolding assms(6) using new(5) by (intro kept_mgr [OF assms(1)]) simp
qed

lemma kept_bad_channel:
  assumes "cx_ok cx" and "k < length (cx_managers cx)" and "new_channel_id (vm_circuit (mgr cx k)) = Some (c, cid)"
    and "BaseChannel_init mk name cid c = (c1, Inl e)"
  shows "kept cx (upd_mgr k (\<lambda>vm. vm\<lparr>vm_circuit := c1\<rparr>) cx)"
proof -
  have ok: "circ_ok (vm_circuit (mgr cx k))" using cx_ok_vm [OF assms(1,2)] by (simp add: vm_ok_def)
  from new_channel(1,6) [OF ok assms(3,4)] show ?thesis by (intro kept_circuit [OF assms(1,2)]) auto
qed

text \<open>A registered channel can be created.\<close>

lemma kept_create:
  assumes "cx_ok cx" and "k < length (cx_managers cx)" and "ClientChannel_create r (vm_circuit (mgr cx k)) = Inr m"
    and "registered (vm_circuit (mgr cx k)) r" and "0 \<le> ch_cid (chan (vm_circuit (mgr cx k)) r)" and "ch_cid (chan (vm_circuit (mgr cx k)) r) < MAX_ID"
  shows "kept cx (fst (vm_send mk k [m] cx))"
  using create_message [OF assms(3,5,6)] assms(4)
  by (intro kept_send [OF assms(1,2)]) (auto simp: known_creates_def request_ids_def registered_def)

lemma kept_revive:
  assumes "cx_ok cx" and "p < length (cx_pvs cx)" and "revive_idle mk self_is_pv p cx = Some (cx', r)"
  shows "kept cx cx'"
proof (cases "pv_circuit_ready (cx_pvs cx ! p) \<and> pv_manager (cx_pvs cx ! p) \<noteq> None")
  case False
  then show ?thesis using assms(3) kept_refl [OF assms(1)] by (auto simp: revive_idle_def Let_def split: option.splits if_splits)
next
  case True
  then obtain k where some: "pv_circuit_ready (cx_pvs cx ! p)" "pv_manager (cx_pvs cx ! p) = Some k" by auto
  have k: "k < length (cx_managers cx)" using ok_pv(2) [OF assms(1,2) some(2)] by simp
  obtain c cid where id: "new_channel_id (vm_circuit (mgr cx k)) = Some (c, cid)"
    using assms(3) some by (auto simp: revive_idle_def Let_def split: option.splits)
  obtain c1 res where init: "BaseChannel_init mk (pv_name (cx_pvs cx ! p)) cid c = (c1, res)" by fastforce
  show ?thesis
  proof (cases res)
    case (Inl e)
    with kept_bad_channel [OF assms(1) k id] init assms(3) some id show ?thesis by (auto simp: revive_idle_def Let_def)
  next
    case (Inr q)
    define cx1 where "cx1 = upd_mgr k (\<lambda>vm. vm\<lparr>vm_circuit := c1, vm_channels := dset cid q (vm_channels vm), vm_pvs := dset cid p (vm_pvs vm)\<rparr>) cx"
    note ch = kept_channel [OF assms(1,2) some(2) id init [unfolded Inr] cx1_def]
    have k1: "k < length (cx_managers cx1)" "vm_circuit (mgr cx1 k) = c1" using k by (simp_all add: cx1_def)
    have s: "kept cx (fst (vm_send mk k [m] cx1))" if "ClientChannel_create q c1 = Inr m" for m
      using kept_trans [OF ch(1) kept_create [OF kept_ok [OF ch(1)] k1(1)]] that ch(2-4) k1(2) by simp
    have t: "kept cx (upd_pv p (\<lambda>pv. pv\<lparr>pv_idle := False\<rparr>) (fst (vm_send mk k [m] cx1)))" if "ClientChannel_create q c1 = Inr m" for m
      by (rule kept_trans [OF s [OF that] kept_pv_upd [OF kept_ok [OF s [OF that]]]]) simp
    show ?thesis
    proof (cases "ClientChannel_create q c1")
      case (Inl e)
      then show ?thesis using assms(3) some id init Inr ch(1) by (simp add: revive_idle_def Let_def cx1_def)
    next
      case (Inr m)
      obtain cx2 u where "vm_send mk k [m] cx1 = (cx2, u)" by fastforce
      then show ?thesis
        using assms(3) some id init \<open>res = Inr q\<close> Inr s [OF Inr] t [OF Inr]
        by (cases u) (auto simp: revive_idle_def Let_def cx1_def [symmetric])
    qed
  qed
qed

lemma kept_enter:
  assumes "cx_ok cx" and "p < length (cx_pvs cx)" and "enter_connected mk self_is_pv p cx = Some (cx', r)"
  shows "kept cx cx'"
proof -
  obtain cx1 r1 where 1: "(if pv_idle (cx_pvs cx ! p) then revive_idle mk self_is_pv p cx else Some (cx, Inr ())) = Some (cx1, r1)"
    using assms(3) by (auto simp: enter_connected_def split: option.splits)
  then have k: "kept cx cx1" using kept_revive [OF assms(1,2)] kept_refl [OF assms(1)] by (auto split: if_splits)
  have "kept cx1 (upd_pv p (\<lambda>pv. pv\<lparr>pv_usages := pv_usages pv + 1\<rparr>) cx1)" by (rule kept_pv_upd [OF kept_ok [OF k]]) simp
  with k 1 assms(3) show ?thesis by (cases r1) (auto simp: enter_connected_def intro: kept_trans)
qed

section \<open>Subscriptions\<close>

lemma subscribe_ok:
  assumes "cx_ok cx" and "p < length (cx_pvs cx)"
  shows "cx_ok (fst (pv_subscribe p key cx))"
proof (cases "dget (pv_subscriptions (cx_pvs cx ! p)) key")
  case (Some s)
  with assms show ?thesis by (simp add: pv_subscribe_def)
next
  case None
  let ?sub = "Subscription_init p key" and ?s = "length (cx_subs cx)"
  define cx1 where "cx1 = upd_pv p (\<lambda>pv. pv\<lparr>pv_subscriptions := dset key ?s (pv_subscriptions pv)\<rparr>) (cx\<lparr>cx_subs := cx_subs cx @ [?sub]\<rparr>)"
  have f: "cx_subs cx1 = cx_subs cx @ [?sub]" "cx_infos cx1 = cx_infos cx" "cx_managers cx1 = cx_managers cx" "cx_pv_cache cx1 = cx_pv_cache cx"
    "cx_needing cx1 = cx_needing cx" "cx_circuit_managers cx1 = cx_circuit_managers cx" "cx_to_activate cx1 = cx_to_activate cx"
    "length (cx_pvs cx1) = length (cx_pvs cx)"
    by (simp_all add: cx1_def upd_pv_def)
  have get: "pv_name (cx_pvs cx1 ! q) = pv_name (cx_pvs cx ! q)" "pv_priority (cx_pvs cx1 ! q) = pv_priority (cx_pvs cx ! q)"
    "pv_manager (cx_pvs cx1 ! q) = pv_manager (cx_pvs cx ! q)" for q
    by (simp_all add: cx1_def upd_pv_def nth_upd)
  have subs: "s < Suc ?s" if "q < length (cx_pvs cx)" "(k, s) \<in> set (pv_subscriptions (cx_pvs cx1 ! q))" for q k s
  proof -
    have "(k, s) = (key, ?s) \<or> (k, s) \<in> set (pv_subscriptions (cx_pvs cx ! q))"
      using that(2) by (auto simp: cx1_def upd_pv_def nth_upd split: if_splits dest!: set_dset)
    then show ?thesis using ok_pv(3) [OF assms(1) that(1)] by force
  qed
  have "objects_ok cx1"
    unfolding objects_ok_def all_set_conv_all_nth f get
    using assms ok_pv(1,2) [OF assms(1)] subs
    by (auto simp: cx_ok_def objects_ok_def nth_append Subscription_init_def less_Suc_eq)
  moreover have "cache_ok cx1" using assms(1) unfolding cx_ok_def cache_ok_def f get by simp
  moreover have "grown cx cx1" by (simp add: grown_def f get nth_append)
  ultimately have "cx_ok cx1" using cx_ok_change [OF assms(1)] f by simp
  then show ?thesis using None by (simp add: pv_subscribe_def Let_def cx1_def)
qed

lemma start_ok:
  assumes "cx_ok cx" and "s < length (cx_subs cx)"
  shows "kept cx (start_subscription s cx)"
proof (cases "pv_manager (cx_pvs cx ! su_pv (cx_subs cx ! s))")
  case None
  then show ?thesis using kept_sub_upd [OF assms(1)] by (simp add: start_subscription_def)
next
  case (Some k)
  note p = ok_sub [OF assms]
  have "Some k \<in> pv_manager ` set (cx_pvs cx)" using nth_mem [OF p] Some by (metis imageI)
  then show ?thesis using kept_to_activate [OF assms] ok_pv(2) [OF assms(1) p Some] Some by (simp add: start_subscription_def)
qed

lemma kept_add_callback:
  assumes "cx_ok cx" and "s < length (cx_subs cx)"
  shows "kept cx (fst (sub_add_callback s c cx))"
proof -
  obtain h token where h: "handler_add c (su_handler (cx_subs cx ! s)) = (h, token)" by fastforce
  have 1: "kept cx (upd_sub s (\<lambda>sub. sub\<lparr>su_handler := h\<rparr>) cx)" by (rule kept_sub_upd [OF assms(1)]) simp
  have "kept (upd_sub s (\<lambda>sub. sub\<lparr>su_handler := h\<rparr>) cx) (start_subscription s (upd_sub s (\<lambda>sub. sub\<lparr>su_handler := h\<rparr>) cx))"
    using start_ok [OF kept_ok [OF 1]] kept_lengths(2) [OF 1] assms(2) by simp
  with 1 show ?thesis by (auto simp: sub_add_callback_def Let_def h intro: kept_trans)
qed

lemma kept_sub_del:
  assumes "cx_ok cx"
  shows "kept cx (upd_mgr k (\<lambda>vm. vm\<lparr>vm_subs := ddel subid (vm_subs vm)\<rparr>) cx)"
proof (rule kept_mgr_simple [OF assms])
  show "vm_ok cx (vm\<lparr>vm_subs := ddel subid (vm_subs vm)\<rparr>)" if "vm_ok cx vm" for vm
  proof -
    have "\<forall>(i, s) \<in> set (ddel subid (vm_subs vm)). s < length (cx_subs cx) \<and> pv_manager (cx_pvs cx ! su_pv (cx_subs cx ! s)) \<noteq> None"
      using that set_ddel [of subid "vm_subs vm"] unfolding vm_ok_def by blast
    then show ?thesis using that unfolding vm_ok_def by simp
  qed
qed simp_all

lemma kept_end_subscription:
  assumes "cx_ok cx" and "s < length (cx_subs cx)"
  shows "kept cx (fst (end_subscription mk s cx))"
proof (cases "su_id (cx_subs cx ! s)")
  case None
  then show ?thesis by (simp add: end_subscription_def kept_refl [OF assms(1)])
next
  case (Some subid)
  let ?p = "su_pv (cx_subs cx ! s)"
  define cx1 where "cx1 = upd_sub s (\<lambda>sub. sub\<lparr>su_id := None, su_recent := None\<rparr>) cx"
  have 1: "kept cx cx1" unfolding cx1_def by (rule kept_sub_upd [OF assms(1)]) simp
  show ?thesis
  proof (cases "pv_manager (cx_pvs cx ! ?p)")
    case None
    then show ?thesis using Some 1 by (simp add: end_subscription_def Let_def cx1_def)
  next
    case (Some k)
    define cx2 where "cx2 = upd_mgr k (\<lambda>vm. vm\<lparr>vm_subs := ddel subid (vm_subs vm)\<rparr>) cx1"
    have 2: "kept cx cx2" unfolding cx2_def by (rule kept_trans [OF 1 kept_sub_del [OF kept_ok [OF 1]]])
    have k: "k < length (cx_managers cx2)" using ok_pv(2) [OF assms(1) ok_sub [OF assms] Some] kept_lengths(3) [OF 2] by simp
    have "kept cx (fst (vm_send mk k [m] cx2))" if "ClientChannel_unsubscribe r subid c = Inr m" for r c m
      using kept_trans [OF 2 kept_harmless [OF kept_ok [OF 2] k]] unsubscribe_message [OF that] by simp
    then show ?thesis
      using \<open>su_id (cx_subs cx ! s) = Some subid\<close> Some 2
      by (auto simp: end_subscription_def Let_def cx1_def [symmetric] cx2_def [symmetric] split: option.splits sum.splits)
  qed
qed

lemma kept_remove_callback:
  assumes "cx_ok cx" and "s < length (cx_subs cx)"
  shows "kept cx (fst (sub_remove_callback mk s token cx))"
proof -
  define cx1 where "cx1 = upd_sub s (\<lambda>sub. sub\<lparr>su_handler := handler_remove token (su_handler sub)\<rparr>) cx"
  have 1: "kept cx cx1" unfolding cx1_def by (rule kept_sub_upd [OF assms(1)]) simp
  obtain cx2 r where e: "end_subscription mk s cx1 = (cx2, r)" by fastforce
  have 2: "kept cx cx2"
    using kept_trans [OF 1 kept_end_subscription [OF kept_ok [OF 1]]] kept_lengths(2) [OF 1] assms(2) e by (metis fst_conv)
  have "kept cx2 (upd_sub s (\<lambda>sub. sub\<lparr>su_recent := None, su_reactivate := False\<rparr>) cx2)" by (rule kept_sub_upd [OF kept_ok [OF 2]]) simp
  with 1 2 show ?thesis
    by (cases r) (auto simp: sub_remove_callback_def Let_def cx1_def [symmetric] e intro: kept_trans)
qed

lemma kept_clear:
  assumes "cx_ok cx" and "s < length (cx_subs cx)"
  shows "kept cx (fst (sub_clear mk s cx))"
  unfolding sub_clear_def
proof (rule kept_each [where P = "\<lambda>cx. cx_ok cx \<and> s < length (cx_subs cx)"])
  show "kept cx' (fst (sub_remove_callback mk s token cx')) \<and> (cx_ok (fst (sub_remove_callback mk s token cx'))
      \<and> s < length (cx_subs (fst (sub_remove_callback mk s token cx'))))"
    if "cx_ok cx' \<and> s < length (cx_subs cx')" for token cx'
    using kept_remove_callback [of cx' s mk token] that kept_lengths(2) [of cx' "fst (sub_remove_callback mk s token cx')"] kept_ok by fastforce
qed (use assms in auto)

lemma kept_unsubscribe_all:
  assumes "cx_ok cx" and "p < length (cx_pvs cx)"
  shows "kept cx (fst (unsubscribe_all mk p cx))"
  unfolding unsubscribe_all_def
proof (rule kept_each [where P = "\<lambda>cx'. cx_ok cx' \<and> length (cx_subs cx') = length (cx_subs cx)"])
  show "kept cx' (fst (sub_clear mk s cx')) \<and> (cx_ok (fst (sub_clear mk s cx'))
      \<and> length (cx_subs (fst (sub_clear mk s cx'))) = length (cx_subs cx))"
    if "s \<in> set (map snd (pv_subscriptions (cx_pvs cx ! p)))" "cx_ok cx' \<and> length (cx_subs cx') = length (cx_subs cx)" for s cx'
  proof -
    have "kept cx' (fst (sub_clear mk s cx'))" using ok_pv(3) [OF assms] that by (intro kept_clear) auto
    then show ?thesis using kept_lengths(2) [of cx' "fst (sub_clear mk s cx')"] that(2) kept_ok by auto
  qed
qed (use assms in auto)

lemma kept_compose:
  assumes "cx_ok cx" and "s < length (cx_subs cx)" and "compose_command s cx = Some (cx', r)"
  shows "kept cx cx'" and "r = Inr (Some m) \<Longrightarrow> harmless m"
proof -
  let ?p = "su_pv (cx_subs cx ! s)"
  have "kept cx cx' \<and> (r = Inr (Some m) \<longrightarrow> harmless m)"
  proof (cases "\<exists>k k' q subid. pv_channel_ready (cx_pvs cx ! ?p) \<and> sub_callbacks cx s \<noteq> [] \<and> pv_manager (cx_pvs cx ! ?p) = Some k
      \<and> pv_channel (cx_pvs cx ! ?p) = Some (k', q) \<and> ThreadsafeCounter_call [] (vm_sub_counter (mgr cx k)) = Some subid")
    case False
    then show ?thesis
      using assms(3) kept_refl [OF assms(1)] by (auto simp: compose_command_def Let_def split: if_splits option.splits)
  next
    case True
    then obtain k k' q subid where e: "pv_channel_ready (cx_pvs cx ! ?p)" "sub_callbacks cx s \<noteq> []" "pv_manager (cx_pvs cx ! ?p) = Some k"
      "pv_channel (cx_pvs cx ! ?p) = Some (k', q)" "ThreadsafeCounter_call [] (vm_sub_counter (mgr cx k)) = Some subid" by blast
    define cx1 where "cx1 = upd_mgr k (\<lambda>vm. vm\<lparr>vm_sub_counter := subid\<rparr>) cx"
    have 1: "kept cx cx1" unfolding cx1_def by (rule kept_mgr_simple [OF assms(1)]) simp_all
    obtain t n lo hi to msk where key: "su_key (cx_subs cx ! s) = (t, n, lo, hi, to, msk)" by (cases "su_key (cx_subs cx ! s)")
    obtain c res where sc: "ClientChannel_subscribe q t n (Some subid) lo hi to msk (vm_circuit (mgr cx1 k')) = Some (c, res)"
      using assms(3) e key by (auto simp: compose_command_def Let_def cx1_def split: option.splits)
    show ?thesis
    proof (cases res)
      case (Inl err)
      then show ?thesis using assms(3) e key sc 1 by (auto simp: compose_command_def Let_def cx1_def)
    next
      case (Inr m')
      define cx2 where "cx2 = upd_sub s (\<lambda>sub. sub\<lparr>su_id := Some (msg_subscriptionid m')\<rparr>) cx1"
      define cx3 where "cx3 = upd_mgr k (\<lambda>vm. vm\<lparr>vm_subs := dset (msg_subscriptionid m') s (vm_subs vm)\<rparr>) cx2"
      have 2: "kept cx cx2" unfolding cx2_def by (rule kept_trans [OF 1 kept_sub_upd [OF kept_ok [OF 1]]]) simp
      have s: "s < length (cx_subs cx2)" "pv_manager (cx_pvs cx2 ! su_pv (cx_subs cx2 ! s)) \<noteq> None"
        using assms(2) e(3) kept_lengths(2) [OF 2] kept_sub [OF 2 assms(2)] kept_pv(1) [OF 2 ok_sub [OF assms(1,2)]] by auto
      have "vm_ok cx2 (vm\<lparr>vm_subs := dset (msg_subscriptionid m') s (vm_subs vm)\<rparr>)" if "vm_ok cx2 vm" for vm :: "('a, 'b) manager"
      proof -
        have "\<forall>(i, j) \<in> set (dset (msg_subscriptionid m') s (vm_subs vm)). j < length (cx_subs cx2)
            \<and> pv_manager (cx_pvs cx2 ! su_pv (cx_subs cx2 ! j)) \<noteq> None"
          using that s by (auto simp: vm_ok_def dest!: set_dset)
        then show ?thesis using that unfolding vm_ok_def by simp
      qed
      then have "kept cx2 cx3" unfolding cx3_def by (intro kept_mgr_simple [OF kept_ok [OF 2]]) simp_all
      moreover have "cx' = cx3" "r = Inr (Some m')"
        using assms(3) e key sc Inr by (simp_all add: compose_command_def Let_def cx1_def cx2_def cx3_def)
      moreover have "harmless m'" using subscribe_message sc Inr by blast
      ultimately show ?thesis using kept_trans [OF 2] by auto
    qed
  qed
  then show "kept cx cx'" "r = Inr (Some m) \<Longrightarrow> harmless m" by auto
qed

lemma kept_activate_circuit:
  assumes "cx_ok cx" and "k < length (cx_managers cx)" and "\<forall>s \<in> set ss. s < length (cx_subs cx)" and "\<forall>m \<in> set batch. harmless m"
    and "activate_circuit mk k ss batch sz cx = Some (cx', r)"
  shows "kept cx cx'"
  using assms
proof (induction ss arbitrary: batch sz cx)
  case Nil
  then show ?case using kept_harmless [OF Nil.prems(1,2,4)] kept_refl [OF Nil.prems(1)] by (auto split: if_splits)
next
  case (Cons s ss)
  obtain cx1 res where 1: "compose_command s cx = Some (cx1, res)" using Cons.prems(5) by (auto split: option.splits)
  have s: "s < length (cx_subs cx)" using Cons.prems(3) by simp
  note k1 = kept_compose(1) [OF Cons.prems(1) s 1]
  have k: "k < length (cx_managers cx1)" "\<forall>s \<in> set ss. s < length (cx_subs cx1)" using Cons.prems(2,3) kept_lengths [OF k1] by auto
  show ?case
  proof (cases res)
    case (Inl e)
    with 1 Cons.prems(5) k1 show ?thesis by simp
  next
    case (Inr om)
    show ?thesis
    proof (cases om)
      case None
      with 1 Inr Cons.prems(5) Cons.IH [OF kept_ok [OF k1] k Cons.prems(4)] show ?thesis by (auto intro: kept_trans [OF k1])
    next
      case (Some m)
      have m: "harmless m" using kept_compose(2) [OF Cons.prems(1) s 1] Inr Some by simp
      obtain cx2 u where send: "vm_send mk k batch cx1 = (cx2, u)" by fastforce
      have k2: "kept cx1 cx2" using kept_harmless [OF kept_ok [OF k1] k(1) Cons.prems(4), of mk] send by simp
      have l: "k < length (cx_managers cx2)" "\<forall>s \<in> set ss. s < length (cx_subs cx2)" using k kept_lengths [OF k2] by auto
      show ?thesis
      proof (cases "sz + message_len m > EVENT_ADD_BATCH_MAX_BYTES")
        case True
        with 1 Inr Some send Cons.prems(5) Cons.IH [OF kept_ok [OF k2] l, of "[m]"] m k2 show ?thesis
          by (cases u) (auto intro: kept_trans [OF k1] kept_trans [OF k2])
      next
        case False
        with 1 Inr Some Cons.prems(5) Cons.IH [OF kept_ok [OF k1] k, of "batch @ [m]"] m Cons.prems(4) show ?thesis
          by (auto intro: kept_trans [OF k1])
      qed
    qed
  qed
qed

lemma kept_activate_items:
  assumes "cx_ok cx" and "\<forall>(k, ss) \<in> set items. k < length (cx_managers cx) \<and> (\<forall>s \<in> set ss. s < length (cx_subs cx))"
    and "activate_items mk items cx = Some (cx', r)"
  shows "kept cx cx'"
  using assms
proof (induction items arbitrary: cx)
  case (Cons item items)
  obtain k ss where item: "item = (k, ss)" by (cases item)
  obtain cx1 res where 1: "activate_circuit mk k ss [] 0 cx = Some (cx1, res)" using Cons.prems(3) item by (auto split: option.splits)
  have k1: "kept cx cx1" using kept_activate_circuit [OF Cons.prems(1) _ _ _ 1] Cons.prems(2) item by simp
  have "\<forall>(k, ss) \<in> set items. k < length (cx_managers cx1) \<and> (\<forall>s \<in> set ss. s < length (cx_subs cx1))"
    using Cons.prems(2) kept_lengths [OF k1] by auto
  with Cons.IH [OF kept_ok [OF k1]] Cons.prems(3) 1 item k1 show ?case by (cases res) (auto intro: kept_trans)
qed (simp add: kept_refl)

lemma kept_activate:
  assumes "cx_ok cx" and "activate_subscriptions mk cx = Some (cx', r)"
  shows "kept cx cx'"
proof (cases "\<not> cx_activation_thread cx \<or> cx_closed cx")
  case True
  with assms show ?thesis by (auto simp: activate_subscriptions_def kept_refl)
next
  case False
  define cx0 where "cx0 = cx\<lparr>cx_to_activate := []\<rparr>"
  have 0: "kept cx cx0" using assms(1) by (simp add: kept_def cx_ok_def objects_ok_def cache_ok_def vm_ok_def cx0_def)
  obtain cx1 res where 1: "activate_items mk (cx_to_activate cx) cx0 = Some (cx1, res)"
    using assms(2) False by (auto simp: activate_subscriptions_def cx0_def split: option.splits)
  have "kept cx0 cx1"
    by (rule kept_activate_items [OF kept_ok [OF 0] _ 1]) (use assms(1) in \<open>auto simp: cx0_def cx_ok_def objects_ok_def\<close>)
  with 0 have "kept cx cx1" by (rule kept_trans)
  with 1 False assms(2) show ?thesis by (cases res) (auto simp: activate_subscriptions_def cx0_def)
qed

section \<open>The other circuits\<close>

text \<open>Only the circuit of the manager at work changes.\<close>

definition circuits :: "('f, 'k) client \<Rightarrow> 'f circuit list" where
  "circuits cx = map vm_circuit (cx_managers cx)"

definition others :: "nat \<Rightarrow> ('f, 'k) client \<Rightarrow> ('f, 'k) client \<Rightarrow> bool" where
  "others k cx cx' \<longleftrightarrow> length (circuits cx') = length (circuits cx) \<and> (\<forall>j. j \<noteq> k \<longrightarrow> circuits cx' ! j = circuits cx ! j)"

lemma others_refl [simp]: "others k cx cx"
  by (simp add: others_def)

lemma others_trans: "others k a b \<Longrightarrow> others k b c \<Longrightarrow> others k a c"
  by (simp add: others_def)

lemma others_same: "circuits cx' = circuits cx \<Longrightarrow> others k cx cx'"
  by (simp add: others_def)

lemma circuits_mgr: "(\<And>vm. vm_circuit (f vm) = vm_circuit vm) \<Longrightarrow> circuits (upd_mgr k f cx) = circuits cx"
  by (simp add: circuits_def upd_mgr_def map_upd)

lemma others_mgr [simp]: "others k cx (upd_mgr k f cx)"
  by (simp add: others_def circuits_def upd_mgr_def map_update)

lemma circuits_fields [simp]:
  "circuits (upd_pv p g cx) = circuits cx" "circuits (upd_info i h cx) = circuits cx" "circuits (upd_sub s q cx) = circuits cx"
  "circuits (cx\<lparr>cx_broadcaster := sb\<rparr>) = circuits cx" "circuits (cx\<lparr>cx_results_queue := rq\<rparr>) = circuits cx"
  "circuits (needing_add name p cx) = circuits cx" "circuits (to_activate_add j s cx) = circuits cx"
  by (simp_all add: circuits_def upd_pv_def upd_info_def upd_sub_def needing_add_def to_activate_add_def)

lemma circuits_fold: "(\<And>x cx. circuits (f x cx) = circuits cx) \<Longrightarrow> circuits (fold f xs cx) = circuits cx"
  by (induction xs arbitrary: cx) simp_all

lemma circuits_each: "(\<And>x cx. circuits (fst (f x cx)) = circuits cx) \<Longrightarrow> circuits (fst (each f xs cx)) = circuits cx"
  by (induction xs arbitrary: cx) (auto split: prod.splits sum.splits; metis fst_conv)+

lemma circuits_handler: "handler_process alive cm ev h cx = (cx', h', r) \<Longrightarrow> circuits cx' = circuits cx"
  by (auto simp: handler_process_def Let_def circuits_mgr split: option.splits if_splits)

lemma circuits_processes [simp]:
  "circuits (fst (state_process alive p ev cx)) = circuits cx"
  "circuits (fst (access_rights_changed alive p rights cx)) = circuits cx"
  "circuits (fst (sub_process alive s m cx)) = circuits cx"
  by (auto simp: state_process_def access_rights_changed_def sub_process_def Let_def dest: circuits_handler split: prod.splits sum.splits)

lemma circuits_change [simp]: "circuits (fst (connection_state_changed alive conn p cx)) = circuits cx"
proof -
  obtain cx1 r where 1: "state_process alive p (State_changed p conn) cx = (cx1, r)" by fastforce
  then have "circuits cx1 = circuits cx" by (metis circuits_processes(1) fst_conv)
  moreover have "circuits (fold mark_reactivation ss cx1) = circuits cx1" "circuits (fold (queue_reactivation k) ss cx1) = circuits cx1" for ss k
    by (auto intro!: circuits_fold simp: mark_reactivation_def queue_reactivation_def)
  ultimately show ?thesis
    by (auto simp: connection_state_changed_def 1 Let_def split: sum.splits option.splits)
qed

lemma circuits_search: "cx_search now names cx = Some (cx', r) \<Longrightarrow> circuits cx' = circuits cx"
  by (auto simp: cx_search_def split: prod.splits) (auto split: sum.splits)

lemma circuits_reconnect: "cx_reconnect now keys cx = Some (cx', r) \<Longrightarrow> circuits cx' = circuits cx"
proof -
  assume a: "cx_reconnect now keys cx = Some (cx', r)"
  obtain cx1 u where 1: "each reconnect_key keys cx = (cx1, u)" by fastforce
  have "circuits (fst (each reconnect_key keys cx)) = circuits cx"
    by (rule circuits_each) (auto simp: reconnect_key_def forget_result_def split: option.splits)
  with a 1 show ?thesis by (cases u) (auto simp: cx_reconnect_def dest: circuits_search)
qed

lemma others_mark_dead: "circuits (mark_dead k cx) = circuits cx"
proof -
  have "circuits (fold not_ready ps d) = circuits d" "circuits (fold wake is d) = circuits d" "circuits (fold forget_result ns d) = circuits d"
    for ps "is" ns and d :: "('a, 'b) client"
    by (auto intro!: circuits_fold simp: not_ready_def wake_def forget_result_def)
  then show ?thesis by (simp add: mark_dead_def Let_def circuits_mgr)
qed

lemma others_disconnected: "vm_disconnected alive now again k cx = Some (cx', r) \<Longrightarrow> others k cx cx'"
proof -
  assume a: "vm_disconnected alive now again k cx = Some (cx', r)"
  obtain cx1 u where 1: "each (connection_state_changed alive False) (map snd (vm_pvs (mgr cx k))) (mark_dead k cx) = (cx1, u)" by fastforce
  have "circuits (fst (each (connection_state_changed alive False) ps d)) = circuits d" for ps and d :: "('a, 'b) client"
    by (rule circuits_each) simp
  from this [of "map snd (vm_pvs (mgr cx k))" "mark_dead k cx"] have c1: "circuits cx1 = circuits cx" by (simp add: 1 others_mark_dead)
  have "others k cx1 (close_socket now k cx1)" by (simp add: close_socket_def)
  then have 2: "others k cx (close_socket now k cx1)" using c1 by (simp add: others_def)
  show ?thesis
  proof (cases "again \<and> u = Inr () \<and> \<not> vm_dead (mgr cx k)")
    case True
    then have "cx_reconnect now (channel_keys (mgr (close_socket now k cx1) k)) (close_socket now k cx1) = Some (cx', r)"
      using a 1 by (simp add: vm_disconnected_def Let_def)
    from others_same [OF circuits_reconnect [OF this]] show ?thesis by (rule others_trans [OF 2])
  next
    case False
    then show ?thesis using a 1 2 others_same [OF c1] by (cases u) (auto simp: vm_disconnected_def Let_def split: if_splits)
  qed
qed

lemma others_disconnect:
  assumes "vm_disconnect alive now k cx = Some (cx', r)"
  shows "others k cx cx'"
proof -
  obtain cx1 u where 1: "vm_disconnected alive now False k cx = Some (cx1, u)" using assms by (auto simp: vm_disconnect_def)
  note o = others_disconnected [OF 1]
  with assms 1 show ?thesis by (cases u) (auto simp: vm_disconnect_def intro: others_trans [OF o others_mgr])
qed

lemma others_accepted: "others k cx (fst (process_accepted alive now k m cx))"
proof -
  have sub: "others k cx (fst (submit_callback k cb m cx))" for cb and cx :: "('a, 'b) client"
    by (auto simp: submit_callback_def split: option.splits)
  have s1: "others k cx (fst (submit_callback k cb m (upd_mgr k f cx)))" for cb f by (rule others_trans [OF others_mgr sub])
  have "others k (upd_mgr k f cx) (upd_info i g (upd_mgr k f cx))" for f i g by (rule others_same) simp
  then have s2: "others k cx (fst (submit_callback k cb m (upd_info i g (upd_mgr k f cx))))" for cb f i g
    by (blast intro: others_trans [OF others_mgr] others_trans sub)
  have resp: "others k cx (fst (process_response now k m cx))"
    by (auto simp: process_response_def Let_def s1 s2 split: option.splits)
  have "others k (upd_mgr k f cx) (fst (connection_state_changed alive conn p (upd_pv q g (upd_mgr k f cx))))" for f conn p q g
    by (rule others_same) simp
  then have "others k cx (fst (connection_state_changed alive conn p (upd_pv q g (upd_mgr k f cx))))" for f conn p q g
    by (blast intro: others_trans [OF others_mgr])
  then have "others k cx (fst (process_created alive k m cx))" by (auto simp: process_created_def split: option.splits)
  with resp show ?thesis
    by (auto simp: process_accepted_def process_update_def split: option.splits intro!: others_same)
qed

lemma others_command: "vm_process_command mk alive now k cmd cx = Some (cx', r) \<Longrightarrow> others k cx cx'"
proof -
  assume a: "vm_process_command mk alive now k cmd cx = Some (cx', r)"
  obtain c u where 1: "process_command mk cmd (vm_circuit (mgr cx k)) = (c, u)" by fastforce
  let ?cx = "upd_mgr k (\<lambda>vm. vm\<lparr>vm_circuit := c\<rparr>) cx"
  have t: "others k ?cx d \<Longrightarrow> others k cx d" for d by (rule others_trans [OF others_mgr])
  show ?thesis
    using a others_accepted [of k ?cx alive now] by (auto simp: vm_process_command_def 1 Let_def intro!: t
      dest: others_disconnect others_disconnected split: sum.splits command.splits if_splits) (metis fst_conv)
qed

lemma others_commands: "vm_process_commands mk alive now k cmds cx = Some (cx', r) \<Longrightarrow> others k cx cx'"
proof (induction cmds arbitrary: cx)
  case (Cons cmd cmds)
  then obtain cx1 u where 1: "vm_process_command mk alive now k cmd cx = Some (cx1, u)" by (auto split: option.splits)
  from others_command [OF this] Cons 1 show ?case by (cases u) (auto intro: others_trans)
qed simp

lemma others_received: "vm_received mk alive now k bs cx = Some (cx', r) \<Longrightarrow> others k cx cx'"
  by (auto simp: vm_received_def Let_def split: prod.splits sum.splits dest!: others_commands intro: others_trans [OF others_mgr])

lemma others_remove: "remove_socket mk alive now k cx = Some (cx', r) \<Longrightarrow> others k cx cx'"
  by (auto simp: remove_socket_def split: if_splits dest!: others_received intro: others_trans [OF others_mgr])

lemma others_selector: "selector_received mk alive now k bs cx = Some (cx', r) \<Longrightarrow> others k cx cx'"
  by (auto simp: selector_received_def split: option.splits sum.splits if_splits dest!: others_received others_remove intro: others_trans)

lemma others_loop: "selector_loop mk alive now k bss cx = Some cx' \<Longrightarrow> others k cx cx'"
proof (induction bss arbitrary: cx)
  case (Cons bs bss)
  then show ?case by (auto split: if_splits option.splits prod.splits intro: others_trans dest!: others_selector)
qed simp

end
