(* ===== verification/CA_Client_Reach.thy ===== *)
theory CA_Client_Reach
  imports CA_Client_Steps
begin

text \<open>
  The clients that \<^verbatim>\<open>caproto/threading/client.py\<close> can reach: new circuits, channels for the names that were found, the check for silent
  servers, and all operations as one step relation, which keeps the invariant.
\<close>

section \<open>New circuits\<close>

lemma circuits_tables [simp]:
  "circuits (cx\<lparr>cx_needing := d\<rparr>) = circuits cx" "circuits (cx\<lparr>cx_circuit_managers := cm\<rparr>) = circuits cx"
  by (simp_all add: circuits_def)

lemma objects_discard:
  assumes "cx_ok cx" and "k \<le> length (cx_managers cx)" and "\<And>j. Some j \<in> pv_manager ` set (cx_pvs cx) \<Longrightarrow> j < k"
    and "\<And>a i j. ((a, i), j) \<in> set (cx_circuit_managers cx) \<Longrightarrow> j < k" and "fst ` set (cx_to_activate cx) \<subseteq> {0..<k}"
  shows "cx_ok (discard k cx)"
proof -
  have f: "cx_pvs (discard k cx) = cx_pvs cx" "cx_subs (discard k cx) = cx_subs cx" "cx_infos (discard k cx) = cx_infos cx"
    "cx_pv_cache (discard k cx) = cx_pv_cache cx" "cx_needing (discard k cx) = cx_needing cx"
    "cx_circuit_managers (discard k cx) = cx_circuit_managers cx" "cx_to_activate (discard k cx) = cx_to_activate cx"
    "cx_managers (discard k cx) = take k (cx_managers cx)"
    by (simp_all add: discard_def)
  have vms: "vm_ok (discard k cx) = vm_ok cx" by (simp add: vm_ok_def f fun_eq_iff)
  have "j < k" if "pv \<in> set (cx_pvs cx)" "pv_manager pv = Some j" for pv j using assms(3) [of j] that by (metis imageI)
  moreover have "j < k" if "(j, ss) \<in> set (cx_to_activate cx)" for j ss using assms(5) that by force
  ultimately have "objects_ok (discard k cx)" using assms(1,2) by (simp add: cx_ok_def objects_ok_def f)
  moreover have "cache_ok (discard k cx)" using assms(1,2,4) by (fastforce simp: cx_ok_def cache_ok_def f)
  ultimately show ?thesis using assms(1) by (auto simp: cx_ok_def vms f dest: in_set_takeD)
qed

text \<open>What the creation of a circuit leaves of the rest: the circuits there were, and the names and priorities of the PVs.\<close>

definition widened :: "('f, 'k) client \<Rightarrow> ('f, 'k) client \<Rightarrow> bool" where
  "widened cx cx' \<longleftrightarrow> cx_ok cx' \<and> length (circuits cx) \<le> length (circuits cx') \<and> (\<forall>j < length (circuits cx). circuits cx' ! j = circuits cx ! j)
     \<and> map (\<lambda>pv. (pv_name pv, pv_priority pv)) (cx_pvs cx') = map (\<lambda>pv. (pv_name pv, pv_priority pv)) (cx_pvs cx)"

lemma widened_refl: "cx_ok cx \<Longrightarrow> widened cx cx"
  by (simp add: widened_def)

lemma widened_names:
  assumes "kept cx cx'"
  shows "map (\<lambda>pv. (pv_name pv, pv_priority pv)) (cx_pvs cx') = map (\<lambda>pv. (pv_name pv, pv_priority pv)) (cx_pvs cx)"
  using kept_lengths(1) [OF assms] kept_pv(2,3) [OF assms] by (intro nth_equalityI) simp_all

lemma new_manager_ok:
  assumes "cx_ok cx" and "circ_ok c" and "circ_channels c = []" and "circ_ioids c = []" and "circ_priority c = Some priority"
    and "vm_circuit vm = c" and "counter_inv (vm_ioid_counter vm)" and "vm_channels vm = []" and "vm_pvs vm = []" and "vm_ioids vm = []"
    and "vm_subs vm = []" and "\<not> vm_shutdown vm"
  shows "cx_ok (cx\<lparr>cx_managers := cx_managers cx @ [vm]\<rparr>)"
proof -
  let ?cx = "cx\<lparr>cx_managers := cx_managers cx @ [vm]\<rparr>"
  have old: "mgr ?cx j = mgr cx j" if "j < length (cx_managers cx)" for j using that by (simp add: nth_append)
  have vms: "vm_ok ?cx = vm_ok cx" by (simp add: vm_ok_def fun_eq_iff)
  have "vm_ok cx vm" using assms by (simp add: vm_ok_def)
  moreover have "objects_ok ?cx" using assms(1) old by (auto simp: cx_ok_def objects_ok_def less_SucI)
  moreover have "cache_ok ?cx" using assms(1) old by (fastforce simp: cx_ok_def cache_ok_def)
  ultimately show ?thesis using assms(1,5,6) by (auto simp: cx_ok_def vms)
qed

lemma connect_ok:
  assumes "cx_ok cx" and "VirtualCircuit_init CLIENT address (Some priority) version = Inr c"
    and "connect_manager mk alive now host conn ver c cx = Some (cx', r)"
  shows "widened cx cx' \<and> cx_circuit_managers cx' = cx_circuit_managers cx
    \<and> (\<forall>k. r = Inr k \<longrightarrow> k < length (cx_managers cx') \<and> circ_priority (vm_circuit (mgr cx' k)) = Some priority)"
proof -
  let ?k = "length (cx_managers cx)"
  define cx1 where "cx1 = cx\<lparr>cx_managers := cx_managers cx @ [manager_init c]\<rparr>"
  show ?thesis
  proof (cases "\<exists>chunks v h n cx2. conn = Accepted chunks \<and> VersionRequest_init (the (circ_priority c)) DEFAULT_PROTOCOL_VERSION = Inr v
      \<and> HostNameRequest_init (hi_host_name host) = Inr h \<and> ClientNameRequest_init (hi_client_name host) = Inr n
      \<and> vm_send mk ?k [v, h, n] cx1 = (cx2, Inr ())")
    case False
    then show ?thesis
      using assms(3) widened_refl [OF assms(1)]
      by (auto simp: connect_manager_def Let_def cx1_def [symmetric] bindE_def split: connection.splits sum.splits prod.splits)
  next
    case True
    then obtain chunks v h n cx2 where e: "conn = Accepted chunks" "VersionRequest_init (the (circ_priority c)) DEFAULT_PROTOCOL_VERSION = Inr v"
      "HostNameRequest_init (hi_host_name host) = Inr h" "ClientNameRequest_init (hi_client_name host) = Inr n"
      "vm_send mk ?k [v, h, n] cx1 = (cx2, Inr ())" by blast
    have k1: "mgr cx1 ?k = manager_init c" by (simp add: cx1_def)
    obtain c2 bufs where s: "send mk [v, h, n] c = (c2, Inr bufs)"
      and cx2: "cx2 = upd_mgr ?k (\<lambda>vm. vm\<lparr>vm_circuit := c2, vm_sent := vm_sent vm @ concat bufs\<rparr>) cx1"
      using e(5) by (auto simp: vm_send_def k1 manager_init_def split: prod.splits sum.splits if_splits)
    note g = greeting_starts [OF assms(2) e(2) _ s]
    have hn: "\<forall>m \<in> set [h, n]. harmless m" using simple_messages(5,6) e(3,4) by auto
    define cx3 where "cx3 = upd_mgr ?k (\<lambda>vm. vm\<lparr>vm_ready := ver < 12\<rparr>) cx2"
    define vm where "vm = (mgr cx1 ?k)\<lparr>vm_circuit := c2, vm_sent := concat bufs, vm_ready := ver < 12\<rparr>"
    have cx3: "cx3 = cx\<lparr>cx_managers := cx_managers cx @ [vm]\<rparr>"
      by (simp add: cx3_def cx2 k1 cx1_def upd_mgr_def vm_def list_update_append manager_init_def)
    have ok3: "cx_ok cx3"
      unfolding cx3 by (rule new_manager_ok [OF assms(1) g(1-4) [OF hn]]) (simp_all add: vm_def k1 manager_init_def counter_inv_def ThreadsafeCounter_init_def MAX_ID_def)
    have k3: "?k < length (cx_managers cx3)" "vm_circuit (mgr cx3 ?k) = c2" by (simp_all add: cx3 vm_def)
    obtain cx4 where loop: "selector_loop mk alive now ?k chunks cx3 = Some cx4"
      using assms(3) e by (auto simp: connect_manager_def Let_def cx1_def [symmetric] cx3_def split: option.splits)
    have k4: "kept cx3 cx4" by (rule kept_selector_loop [OF ok3 k3(1) loop])
    have o4: "others ?k cx3 cx4" by (rule others_loop [OF loop])
    have c3: "circuits cx3 = circuits cx @ [c2]" by (simp add: circuits_def cx3 vm_def)
    have k0: "length (circuits cx) = ?k" by (simp add: circuits_def)
    have old: "circuits cx4 ! j = circuits cx ! j" if "j < length (circuits cx)" for j
      using o4 that k0 by (auto simp: others_def c3 nth_append)
    have len: "length (circuits cx4) = Suc (length (circuits cx))" using o4 by (simp add: others_def c3)
    have names: "map (\<lambda>pv. (pv_name pv, pv_priority pv)) (cx_pvs cx4) = map (\<lambda>pv. (pv_name pv, pv_priority pv)) (cx_pvs cx)"
      using widened_names [OF k4] by (simp add: cx3)
    have wid: "widened cx cx4" using kept_ok [OF k4] len old names by (simp add: widened_def)
    have cm: "cx_circuit_managers cx4 = cx_circuit_managers cx" using k4 by (simp add: kept_def cx3)
    have prio: "circ_priority (vm_circuit (mgr cx4 ?k)) = Some priority" "?k < length (cx_managers cx4)"
      using kept_priority [OF k4 k3(1)] k3 g(4) [OF hn] kept_lengths(3) [OF k4] by auto
    have "cx_ok (discard ?k cx4)"
    proof (rule objects_discard [OF kept_ok [OF k4]])
      show "?k \<le> length (cx_managers cx4)" using prio(2) by simp
      have pvm: "j < ?k" if "Some j \<in> pv_manager ` set (cx_pvs cx)" for j using that assms(1) by (auto simp: cx_ok_def objects_ok_def)
      show "j < ?k" if "Some j \<in> pv_manager ` set (cx_pvs cx4)" for j
        using that pvm unfolding kept_managers [OF k4] by (simp add: cx3)
      show "j < ?k" if "((a, i), j) \<in> set (cx_circuit_managers cx4)" for a i j
        using that assms(1) cm unfolding cx_ok_def cache_ok_def by (cases a) metis
      have "fst ` set (cx_to_activate cx4) \<subseteq> fst ` set (cx_to_activate cx) \<union> {j. Some j \<in> pv_manager ` set (cx_pvs cx)}"
        using k4 by (simp add: kept_def cx3)
      moreover have "fst ` set (cx_to_activate cx) \<subseteq> {0..<?k}" using assms(1) by (auto simp: cx_ok_def objects_ok_def)
      moreover have "{j. Some j \<in> pv_manager ` set (cx_pvs cx)} \<subseteq> {0..<?k}" using pvm by auto
      ultimately show "fst ` set (cx_to_activate cx4) \<subseteq> {0..<?k}" by blast
    qed
    then have "widened cx (discard ?k cx4)" "cx_circuit_managers (discard ?k cx4) = cx_circuit_managers cx"
      using wid cm len by (simp_all add: widened_def discard_def circuits_def)
    moreover have "(cx', r) = (if vm_ready (mgr cx4 ?k) then (cx4, Inr ?k) else (discard ?k cx4, Inl CaprotoTimeoutError))"
      using assms(3) e loop by (simp add: connect_manager_def Let_def cx1_def [symmetric] cx3_def [symmetric])
    ultimately show ?thesis using wid cm prio by (auto split: if_splits)
  qed
qed

lemma get_manager_ok:
  assumes "cx_ok cx" and "get_circuit_manager mk alive now host conn address priority cx = Some (cx', r)"
  shows "widened cx cx' \<and> (\<forall>k. r = Inr k \<longrightarrow> k < length (cx_managers cx') \<and> circ_priority (vm_circuit (mgr cx' k)) = Some priority)"
proof -
  have new: ?thesis if n: "new_manager_at mk alive now host conn address priority cx = Some (cx', r)"
  proof (cases "\<exists>ver c. dget (sb_versions (cx_broadcaster cx)) address = Some ver
      \<and> (VirtualCircuit_init CLIENT address (Some priority) ver :: 'a circuit result) = Inr c")
    case False
    then show ?thesis using n widened_refl [OF assms(1)] by (auto simp: new_manager_at_def split: option.splits sum.splits)
  next
    case True
    then obtain ver c where c: "dget (sb_versions (cx_broadcaster cx)) address = Some ver"
      "(VirtualCircuit_init CLIENT address (Some priority) ver :: 'a circuit result) = Inr c" by blast
    obtain cx1 u where 1: "connect_manager mk alive now host conn ver c cx = Some (cx1, u)"
      using n c by (auto simp: new_manager_at_def split: option.splits)
    have ok: "widened cx cx1" "cx_circuit_managers cx1 = cx_circuit_managers cx"
      "\<And>k. u = Inr k \<Longrightarrow> k < length (cx_managers cx1) \<and> circ_priority (vm_circuit (mgr cx1 k)) = Some priority"
      using connect_ok [OF assms(1) c(2) 1] by auto
    show ?thesis
    proof (cases u)
      case (Inl e)
      with n c 1 ok show ?thesis by (auto simp: new_manager_at_def)
    next
      case (Inr k)
      let ?cx = "cx1\<lparr>cx_circuit_managers := dset (address, priority) k (cx_circuit_managers cx1)\<rparr>"
      have "cx_ok ?cx"
        using ok Inr by (auto simp: widened_def cx_ok_def vm_ok_def objects_ok_def cache_ok_def dest!: set_dset)
      then have "widened cx ?cx" using ok(1) by (simp add: widened_def)
      moreover have "cx' = ?cx" "r = Inr k" using n c 1 Inr by (simp_all add: new_manager_at_def)
      ultimately show ?thesis using ok(3) [OF Inr] by simp
    qed
  qed
  show ?thesis
  proof (cases "dget (cx_circuit_managers cx) (address, priority)")
    case None
    then show ?thesis using new assms(2) by (simp add: get_circuit_manager_def)
  next
    case (Some k)
    then have "k < length (cx_managers cx)" "circ_priority (vm_circuit (mgr cx k)) = Some priority"
      using assms(1) map_of_SomeD [OF Some] unfolding cx_ok_def cache_ok_def by blast+
    then show ?thesis using new assms(2) Some widened_refl [OF assms(1)] by (auto simp: get_circuit_manager_def split: if_splits)
  qed
qed

section \<open>Channels for the names that were found\<close>

text \<open>Channels that wait to be created.\<close>

definition fresh_channel :: "'f circuit \<Rightarrow> ref \<Rightarrow> bool" where
  "fresh_channel c r \<longleftrightarrow> registered c r \<and> 0 \<le> ch_cid (chan c r) \<and> ch_cid (chan c r) < MAX_ID"

definition grouped_ok :: "(nat, ref list) dict \<Rightarrow> ('f, 'k) client \<Rightarrow> bool" where
  "grouped_ok g cx \<longleftrightarrow> distinct (map fst g) \<and>
     (\<forall>k rs. (k, rs) \<in> set g \<longrightarrow> k < length (circuits cx) \<and> (\<forall>r \<in> set rs. fresh_channel (circuits cx ! k) r))"

lemma fresh_kept:
  assumes "circ_ok c" and "new_channel_id c = Some (c1, cid)" and "BaseChannel_init mk name cid c1 = (c2, Inr n)" and "fresh_channel c r"
  shows "fresh_channel c2 r"
proof -
  have "ThreadsafeCounter_call (map fst (circ_channels c)) (channel_id_counter c) = Some cid"
    using assms(1,2) by (auto simp: new_channel_id_def circ_ok_def split: option.splits)
  then have "cid \<notin> set (map fst (circ_channels c))"
    using counter.gen_fresh [of "channel_id_counter c" "map fst (circ_channels c)" cid] assms(1) by (auto simp: circ_ok_def counters_ok_def)
  then have none: "dget (circ_channels c) cid = None" by (simp add: map_of_eq_None_iff)
  have r: "r < length (circ_store c)" "dget (circ_channels c) (ch_cid (chan c r)) = Some r" using assms(4) by (auto simp: fresh_channel_def registered_def)
  note new = new_channel(7) [OF assms(1,2,3) refl]
  have "chan c2 r = chan c r" "ch_cid (chan c r) \<noteq> cid" "circ_channels c2 = dset cid n (circ_channels c)" "length (circ_store c2) = Suc n" "n = length (circ_store c)"
    using new r none by auto
  then show ?thesis using assms(4) r by (simp add: fresh_channel_def registered_def dget_dset)
qed

lemma set_manager_ok:
  assumes "cx_ok cx" and "p < length (cx_pvs cx)" and "k < length (cx_managers cx)"
    and "circ_priority (vm_circuit (mgr cx k)) = Some (pv_priority (cx_pvs cx ! p))"
  shows "cx_ok (upd_pv p (\<lambda>pv. pv\<lparr>pv_manager := Some k\<rparr>) cx)"
proof -
  let ?cx = "upd_pv p (\<lambda>pv. pv\<lparr>pv_manager := Some k\<rparr>) cx"
  have get: "pv_name (cx_pvs ?cx ! q) = pv_name (cx_pvs cx ! q)" "pv_priority (cx_pvs ?cx ! q) = pv_priority (cx_pvs cx ! q)"
    "pv_subscriptions (cx_pvs ?cx ! q) = pv_subscriptions (cx_pvs cx ! q)"
    "pv_manager (cx_pvs ?cx ! q) = (if q = p then Some k else pv_manager (cx_pvs cx ! q))" for q
    using assms(2) by (auto simp: upd_pv_def nth_upd)
  have other: "length (cx_pvs ?cx) = length (cx_pvs cx)" "cx_infos ?cx = cx_infos cx" "cx_subs ?cx = cx_subs cx"
    "cx_pv_cache ?cx = cx_pv_cache cx" "cx_needing ?cx = cx_needing cx" "cx_to_activate ?cx = cx_to_activate cx"
    "cx_circuit_managers ?cx = cx_circuit_managers cx"
    by (simp_all add: upd_pv_def)
  have "objects_ok ?cx"
    using assms by (auto simp: cx_ok_def objects_ok_def all_set_conv_all_nth get other)
  moreover have "cache_ok ?cx" using assms(1) unfolding cx_ok_def cache_ok_def get other by simp
  moreover have "grown cx ?cx" by (simp add: grown_def get other)
  ultimately show ?thesis using cx_ok_change [OF assms(1)] by simp
qed

lemma grouped_widened:
  assumes "grouped_ok g cx" and "widened cx cx'"
  shows "grouped_ok g cx'"
  using assms unfolding grouped_ok_def widened_def by (metis less_le_trans)

lemma give_ok:
  assumes "cx_ok cx" and "p < length (cx_pvs cx)" and "pv_name (cx_pvs cx ! p) = name" and "grouped_ok g cx"
    and "give_circuit mk alive now host conn address name p g cx = Some (cx', r)"
  shows "cx_ok cx' \<and> map (\<lambda>pv. (pv_name pv, pv_priority pv)) (cx_pvs cx') = map (\<lambda>pv. (pv_name pv, pv_priority pv)) (cx_pvs cx)
    \<and> (\<forall>g'. r = Inr g' \<longrightarrow> grouped_ok g' cx')"
proof -
  let ?prio = "pv_priority (cx_pvs cx ! p)"
  obtain cx1 u where 1: "get_circuit_manager mk alive now host conn address ?prio cx = Some (cx1, u)"
    using assms(5) by (auto simp: give_circuit_def split: option.splits)
  have w: "widened cx cx1" and kk: "\<And>k. u = Inr k \<Longrightarrow> k < length (cx_managers cx1) \<and> circ_priority (vm_circuit (mgr cx1 k)) = Some ?prio"
    using get_manager_ok [OF assms(1) 1] by auto
  have ok1: "cx_ok cx1" and names: "map (\<lambda>pv. (pv_name pv, pv_priority pv)) (cx_pvs cx1) = map (\<lambda>pv. (pv_name pv, pv_priority pv)) (cx_pvs cx)"
    using w by (auto simp: widened_def)
  show ?thesis
  proof (cases u)
    case (Inl e)
    with assms(5) 1 ok1 names show ?thesis by (auto simp: give_circuit_def)
  next
    case (Inr k)
    note k = kk [OF Inr]
    have p1: "p < length (cx_pvs cx1)" using assms(2) map_eq_imp_length_eq [OF names] by simp
    have pv1: "pv_name (cx_pvs cx1 ! p) = name" "pv_priority (cx_pvs cx1 ! p) = ?prio"
      using map_nth_eq [OF names assms(2)] assms(3) by auto
    define cx2 where "cx2 = upd_pv p (\<lambda>pv. pv\<lparr>pv_manager := Some k\<rparr>) cx1"
    have ok2: "cx_ok cx2" unfolding cx2_def using k pv1 by (intro set_manager_ok [OF ok1 p1]) auto
    have pv2: "p < length (cx_pvs cx2)" "pv_manager (cx_pvs cx2 ! p) = Some k" "pv_name (cx_pvs cx2 ! p) = name"
      using p1 pv1 by (auto simp: cx2_def upd_pv_def)
    have names2: "map (\<lambda>pv. (pv_name pv, pv_priority pv)) (cx_pvs cx2) = map (\<lambda>pv. (pv_name pv, pv_priority pv)) (cx_pvs cx)"
      using names by (simp add: cx2_def upd_pv_def map_upd)
    have g2: "grouped_ok g cx2" using grouped_widened [OF assms(4) w] by (simp add: grouped_ok_def cx2_def)
    have k2: "k < length (cx_managers cx2)" "k < length (circuits cx2)" using k by (simp_all add: cx2_def circuits_def)
    obtain c cid where id: "new_channel_id (vm_circuit (mgr cx2 k)) = Some (c, cid)"
      using assms(5) 1 Inr by (auto simp: give_circuit_def Let_def cx2_def split: option.splits)
    obtain c1 res where init: "BaseChannel_init mk name cid c = (c1, res)" by fastforce
    show ?thesis
    proof (cases res)
      case (Inl e)
      note b = kept_bad_channel [OF ok2 k2(1) id init [unfolded Inl]]
      have "cx' = upd_mgr k (\<lambda>vm. vm\<lparr>vm_circuit := c1\<rparr>) cx2" "r = Inl e"
        using assms(5) 1 \<open>u = Inr k\<close> id init Inl by (auto simp: give_circuit_def Let_def cx2_def)
      then show ?thesis using kept_ok [OF b] names2 by simp
    next
      case (Inr q)
      define cx3 where "cx3 = upd_mgr k (\<lambda>vm. vm\<lparr>vm_circuit := c1, vm_channels := dset cid q (vm_channels vm), vm_pvs := dset cid p (vm_pvs vm)\<rparr>) cx2"
      define cx4 where "cx4 = upd_pv p (\<lambda>pv. pv\<lparr>pv_circuit_ready := True\<rparr>) cx3"
      have init': "BaseChannel_init mk (pv_name (cx_pvs cx2 ! p)) cid c = (c1, Inr q)" using init Inr pv2 by simp
      note ch = kept_channel [OF ok2 pv2(1,2) id init' cx3_def]
      have 4: "kept cx3 cx4" unfolding cx4_def by (rule kept_pv_upd [OF kept_ok [OF ch(1)]]) simp
      have r: "cx' = cx4" "r = Inr (dset k (dd_value g k @ [q]) g)"
        using assms(5) 1 \<open>u = Inr k\<close> id init Inr by (auto simp: give_circuit_def Let_def cx2_def cx3_def cx4_def)
      have cs: "circuits cx4 = (circuits cx2)[k := c1]"
        using k2 by (simp add: cx4_def cx3_def circuits_def upd_mgr_def map_update)
      have vmk: "vm_circuit (mgr cx2 k) = circuits cx2 ! k" using k2 by (simp add: circuits_def)
      have okc: "circ_ok (circuits cx2 ! k)" using cx_ok_vm [OF ok2 k2(1)] k2 by (simp add: circuits_def vm_ok_def)
      have old: "fresh_channel (circuits cx4 ! j) i" if "fresh_channel (circuits cx2 ! j) i" for i j
        using that fresh_kept [OF okc _ init [unfolded Inr]] id k2 vmk by (cases "j = k") (auto simp: cs)
      have new: "fresh_channel (circuits cx4 ! k) q" using ch(2-4) k2 by (simp add: fresh_channel_def cs)
      have "\<forall>i \<in> set (dd_value g k). fresh_channel (circuits cx2 ! k) i"
        using g2 by (auto simp: dd_value_def grouped_ok_def split: option.splits dest!: map_of_SomeD)
      then have dd: "\<forall>i \<in> set (dd_value g k). fresh_channel (circuits cx4 ! k) i" using old by simp
      have "length (circuits cx4) = length (circuits cx2)" by (simp add: cs)
      then have "grouped_ok (dset k (dd_value g k @ [q]) g) cx4"
        using g2 old new dd k2 by (auto simp: grouped_ok_def distinct_update dest!: set_dset)
      then show ?thesis
        using r kept_ok [OF 4] widened_names [OF kept_trans [OF ch(1) 4]] names2 by simp
    qed
  qed
qed

lemma gives_ok:
  assumes "cx_ok cx" and "\<forall>p \<in> set ps. p < length (cx_pvs cx) \<and> pv_name (cx_pvs cx ! p) = name" and "grouped_ok g cx"
    and "give_circuits mk alive now host conn address name ps g cx = Some (cx', r)"
  shows "cx_ok cx' \<and> map (\<lambda>pv. (pv_name pv, pv_priority pv)) (cx_pvs cx') = map (\<lambda>pv. (pv_name pv, pv_priority pv)) (cx_pvs cx)
    \<and> (\<forall>g'. r = Inr g' \<longrightarrow> grouped_ok g' cx')"
  using assms
proof (induction ps arbitrary: g cx)
  case (Cons p ps)
  obtain cx1 u where 1: "give_circuit mk alive now host conn address name p g cx = Some (cx1, u)"
    using Cons.prems(4) by (auto split: option.splits)
  have ok: "cx_ok cx1" and names: "map (\<lambda>pv. (pv_name pv, pv_priority pv)) (cx_pvs cx1) = map (\<lambda>pv. (pv_name pv, pv_priority pv)) (cx_pvs cx)"
    and g: "\<And>g'. u = Inr g' \<Longrightarrow> grouped_ok g' cx1"
    using give_ok [OF Cons.prems(1) _ _ Cons.prems(3) 1] Cons.prems(2) by auto
  have "\<forall>p \<in> set ps. p < length (cx_pvs cx1) \<and> pv_name (cx_pvs cx1 ! p) = name"
    using Cons.prems(2) map_nth_eq [OF names] map_eq_imp_length_eq [OF names] by auto
  with Cons.IH [OF ok] Cons.prems(4) 1 ok names g show ?case by (cases u) auto
qed auto

lemma needing_del: "cx_ok cx \<Longrightarrow> cx_ok (cx\<lparr>cx_needing := ddel name (cx_needing cx)\<rparr>)"
  by (auto simp: cx_ok_def vm_ok_def objects_ok_def cache_ok_def)

lemma found_ok:
  assumes "cx_ok cx" and "grouped_ok g cx" and "found_names mk alive now host conn address names g cx = Some (cx', r)"
  shows "cx_ok cx' \<and> (\<forall>g'. r = Inr g' \<longrightarrow> grouped_ok g' cx')"
  using assms
proof (induction names arbitrary: g cx)
  case (Cons name names)
  let ?cx = "cx\<lparr>cx_needing := ddel name (cx_needing cx)\<rparr>"
  obtain cx1 u where 1: "give_circuits mk alive now host conn address name (dd_value (cx_needing cx) name) g ?cx = Some (cx1, u)"
    using Cons.prems(3) by (auto split: option.splits)
  have "\<forall>p \<in> set (dd_value (cx_needing cx) name). p < length (cx_pvs ?cx) \<and> pv_name (cx_pvs ?cx ! p) = name"
    using Cons.prems(1) by (simp add: cx_ok_def cache_ok_def)
  moreover have "grouped_ok g ?cx" using Cons.prems(2) by (simp add: grouped_ok_def)
  ultimately have "cx_ok cx1" "\<And>g'. u = Inr g' \<Longrightarrow> grouped_ok g' cx1"
    using gives_ok [OF needing_del [OF Cons.prems(1)] _ _ 1] by auto
  with Cons.IH Cons.prems(3) 1 show ?case by (cases u) auto
qed auto

lemma kept_create_channels:
  assumes "cx_ok cx" and "k < length (circuits cx)" and "\<forall>r \<in> set rs. fresh_channel (circuits cx ! k) r"
  shows "kept cx (fst (create_channels mk (k, rs) cx)) \<and> others k cx (fst (create_channels mk (k, rs) cx))"
proof (cases "create_commands rs (vm_circuit (mgr cx k))")
  case (Inl e)
  then show ?thesis by (simp add: create_channels_def kept_refl [OF assms(1)])
next
  case (Inr ms)
  let ?c = "vm_circuit (mgr cx k)"
  have c: "circuits cx ! k = ?c" "k < length (cx_managers cx)" using assms(2) by (simp_all add: circuits_def)
  have "\<forall>m \<in> set ms. client_message m \<and> msg_class m = CreateChanRequest \<and> dget (circ_channels ?c) (msg_cid m) \<noteq> None"
    if "create_commands rs ?c = Inr ms" "\<forall>r \<in> set rs. fresh_channel ?c r" for rs ms
    using that
  proof (induction rs arbitrary: ms)
    case (Cons r rs)
    then obtain m ms' where m: "ClientChannel_create r ?c = Inr m" "create_commands rs ?c = Inr ms'" "ms = m # ms'"
      by (auto simp: bindE_eq_Inr)
    have "client_message m \<and> msg_class m = CreateChanRequest \<and> dget (circ_channels ?c) (msg_cid m) \<noteq> None"
      using create_message [OF m(1)] Cons.prems(2) by (auto simp: fresh_channel_def registered_def)
    with Cons.IH [OF m(2)] Cons.prems(2) m(3) show ?case by simp
  qed simp
  with Inr assms(3) c have "\<forall>m \<in> set ms. client_message m" "known_creates ms ?c" "request_ids ms = {}"
    by (force simp: known_creates_def request_ids_def)+
  then have k: "kept cx (fst (vm_send mk k ms cx))" by (intro kept_send [OF assms(1) c(2)]) auto
  have o: "others k cx (fst (vm_send mk k ms cx))" by (auto simp: vm_send_def split: prod.splits sum.splits)
  obtain cx1 u where s: "vm_send mk k ms cx = (cx1, u)" by fastforce
  show ?thesis using k o s Inr by (cases u) (auto simp: create_channels_def)
qed

lemma create_all_ok:
  assumes "cx_ok cx" and "grouped_ok g cx"
  shows "cx_ok (fst (each (create_channels mk) g cx))"
  using assms
proof (induction g arbitrary: cx)
  case (Cons x g)
  obtain k rs where x: "x = (k, rs)" by (cases x)
  obtain cx1 u where 1: "create_channels mk (k, rs) cx = (cx1, u)" by fastforce
  have ok: "kept cx cx1" "others k cx cx1"
    using kept_create_channels [OF Cons.prems(1), of k rs mk] Cons.prems(2) 1 x by (auto simp: grouped_ok_def)
  have "grouped_ok g cx1"
    unfolding grouped_ok_def
  proof (intro conjI allI impI)
    show "distinct (map fst g)" using Cons.prems(2) x by (simp add: grouped_ok_def)
    fix j rs'
    assume j: "(j, rs') \<in> set g"
    then have "j \<noteq> k" using Cons.prems(2) x by (force simp: grouped_ok_def)
    then have same: "circuits cx1 ! j = circuits cx ! j" "length (circuits cx1) = length (circuits cx)"
      using ok(2) unfolding others_def by auto
    have old: "j < length (circuits cx)" "\<forall>r \<in> set rs'. fresh_channel (circuits cx ! j) r"
      using Cons.prems(2) j by (auto simp: grouped_ok_def)
    show "j < length (circuits cx1)" "\<forall>r \<in> set rs'. fresh_channel (circuits cx1 ! j) r"
      using old same by auto
  qed
  with Cons.IH [OF kept_ok [OF ok(1)]] 1 x kept_ok [OF ok(1)] show ?case by (cases u) auto
qed simp

lemma results_ok:
  assumes "cx_ok cx" and "process_search_results mk alive now host conn cx = Some (cx', r)"
  shows "cx_ok cx'"
proof (cases "\<not> cx_search_thread cx \<or> cx_closed cx \<or> cx_results_queue cx = []")
  case True
  then show ?thesis using assms by (auto simp: process_search_results_def split: if_splits)
next
  case False
  then obtain address names rest where q: "cx_results_queue cx = (address, names) # rest" by (cases "cx_results_queue cx") auto
  obtain cx1 u where 1: "found_names mk alive now host conn address names [] (cx\<lparr>cx_results_queue := rest\<rparr>) = Some (cx1, u)"
    using assms(2) False q by (auto simp: process_search_results_def split: option.splits)
  have ok: "cx_ok cx1" "\<And>g. u = Inr g \<Longrightarrow> grouped_ok g cx1"
    using found_ok [OF _ _ 1] assms(1) by (auto simp: grouped_ok_def)
  show ?thesis
  proof (cases u)
    case (Inl e)
    with assms(2) False q 1 ok(1) show ?thesis by (auto simp: process_search_results_def)
  next
    case (Inr g)
    obtain cx2 w where 2: "each (create_channels mk) g cx1 = (cx2, w)" by fastforce
    have "cx_ok cx2" using create_all_ok [OF ok(1) ok(2) [OF Inr], of mk] 2 by simp
    with assms(2) False q 1 Inr 2 show ?thesis by (cases w) (auto simp: process_search_results_def)
  qed
qed

section \<open>PVs of a context\<close>

lemma cached_ok:
  assumes "cx_ok cx" and "cached_pv name priority cx = (cx', p, new)"
  shows "cx_ok cx'"
proof (cases "dget (cx_pv_cache cx) (name, priority)")
  case (Some q)
  with assms show ?thesis by (simp add: cached_pv_def)
next
  case None
  let ?p = "length (cx_pvs cx)"
  have f: "cx_managers cx' = cx_managers cx" "cx_infos cx' = cx_infos cx" "cx_subs cx' = cx_subs cx" "cx_pvs cx' = cx_pvs cx @ [PV_init name priority]"
    "cx_to_activate cx' = cx_to_activate cx" "cx_circuit_managers cx' = cx_circuit_managers cx"
    "cx_pv_cache cx' = dset (name, priority) ?p (cx_pv_cache cx)" "cx_needing cx' = dset name (List.insert ?p (dd_value (cx_needing cx) name)) (cx_needing cx)"
    using assms(2) None by (auto simp: cached_pv_def Let_def needing_add_def)
  have pv: "pv_name (PV_init name priority :: 'b pv) = name" "pv_priority (PV_init name priority :: 'b pv) = priority"
    "pv_manager (PV_init name priority :: 'b pv) = None" "pv_subscriptions (PV_init name priority :: 'b pv) = []" by (simp_all add: PV_init_def)
  have old: "p < ?p \<Longrightarrow> cx_pvs cx' ! p = cx_pvs cx ! p" "cx_pvs cx' ! ?p = PV_init name priority" for p by (simp_all add: f nth_append)
  have "grown cx cx'" by (auto simp: grown_def f nth_append dict_doms)
  moreover have "objects_ok cx'"
    using assms(1) by (auto simp: cx_ok_def objects_ok_def f pv dget_dset less_SucI)
  moreover have "cache_ok cx'"
    unfolding cache_ok_def
  proof (intro conjI allI ballI impI)
    fix key p assume "dget (cx_pv_cache cx') key = Some p"
    then have "key = (name, priority) \<and> p = ?p \<or> dget (cx_pv_cache cx) key = Some p" by (auto simp: f dget_dset split: if_splits)
    moreover have "p < ?p \<and> key = (pv_name (cx_pvs cx ! p), pv_priority (cx_pvs cx ! p))" if "dget (cx_pv_cache cx) key = Some p"
      using that assms(1) unfolding cx_ok_def cache_ok_def by blast
    ultimately show "p < length (cx_pvs cx')" "key = (pv_name (cx_pvs cx' ! p), pv_priority (cx_pvs cx' ! p))"
      using old pv by (auto simp: f)
  next
    fix n p assume "p \<in> set (dd_value (cx_needing cx') n)"
    then have "n = name \<and> p = ?p \<or> p \<in> set (dd_value (cx_needing cx) n)" by (auto simp: f split: if_splits)
    moreover have "p < ?p \<and> pv_name (cx_pvs cx ! p) = n" if "p \<in> set (dd_value (cx_needing cx) n)"
      using that assms(1) unfolding cx_ok_def cache_ok_def by blast
    ultimately show "p < length (cx_pvs cx')" "pv_name (cx_pvs cx' ! p) = n" using old pv by (auto simp: f)
  next
    fix address prio k assume "((address, prio), k) \<in> set (cx_circuit_managers cx')"
    then show "k < length (cx_managers cx')" "circ_priority (vm_circuit (mgr cx' k)) = Some prio"
      using assms(1) unfolding cx_ok_def cache_ok_def f by blast+
  qed
  ultimately show ?thesis using cx_ok_change [OF assms(1)] f(1) by blast
qed

lemma state_callback_ok: "cx_ok cx \<Longrightarrow> cx_ok (fst (add_state_callback alive p callback cx))"
proof -
  assume ok: "cx_ok cx"
  have 1: "cx_ok (upd_pv p (\<lambda>pv. pv\<lparr>pv_state_callback := h\<rparr>) cx)" for h by (rule kept_ok [OF kept_pv_upd [OF ok]]) simp
  show ?thesis
    using ok 1 kept_ok [OF kept_state_process [OF 1]] by (auto simp: add_state_callback_def Let_def split: option.splits)
qed

lemma rights_callback_ok: "cx_ok cx \<Longrightarrow> cx_ok (fst (add_rights_callback alive p callback cx))"
proof -
  assume ok: "cx_ok cx"
  have 1: "cx_ok (upd_pv p (\<lambda>pv. pv\<lparr>pv_rights_callback := h\<rparr>) cx)" for h by (rule kept_ok [OF kept_pv_upd [OF ok]]) simp
  show ?thesis
    using ok 1 kept_ok [OF kept_rights_process [OF 1]] by (auto simp: add_rights_callback_def Let_def split: option.splits)
qed

lemma get_loop_ok:
  assumes "cx_ok cx" and "get_pvs_loop alive names priority scb rcb ps searches cx = (cx', r)"
  shows "cx_ok cx'"
  using assms
proof (induction names arbitrary: ps searches cx)
  case (Cons name names)
  obtain cx1 p new where 1: "cached_pv name priority cx = (cx1, p, new)" by (cases "cached_pv name priority cx")
  obtain cx2 u where 2: "add_state_callback alive p scb cx1 = (cx2, u)" by fastforce
  obtain cx3 w where 3: "add_rights_callback alive p rcb cx2 = (cx3, w)" by fastforce
  have ok: "cx_ok cx1" "cx_ok cx2" "cx_ok cx3"
    using cached_ok [OF Cons.prems(1) 1] state_callback_ok [of cx1 alive p scb] rights_callback_ok [of cx2 alive p rcb] 2 3 by auto
  show ?case using Cons.IH [OF ok(3)] Cons.prems(2) 1 2 3 ok by (cases u; cases w) (auto split: if_splits)
qed simp

lemma get_pvs_ok:
  assumes "cx_ok cx" and "get_pvs alive now names priority scb rcb cx = Some (cx', r)"
  shows "cx_ok cx'"
proof (cases "cx_closed cx")
  case True
  with assms show ?thesis by (simp add: get_pvs_def)
next
  case False
  obtain cx1 u where 1: "get_pvs_loop alive names priority scb rcb [] [] cx = (cx1, u)" by fastforce
  note ok = get_loop_ok [OF assms(1) 1]
  show ?thesis
  proof (cases "\<exists>ps searches. u = Inr (ps, searches) \<and> searches \<noteq> []")
    case True
    then obtain ps searches cx2 w where "u = Inr (ps, searches)" "searches \<noteq> []" "cx_search now searches cx1 = Some (cx2, w)"
      using assms(2) False 1 by (auto simp: get_pvs_def)
    then show ?thesis using kept_ok [OF kept_search [OF ok]] assms(2) False 1 by (auto simp: get_pvs_def)
  next
    case False
    then show ?thesis using assms(2) \<open>\<not> cx_closed cx\<close> 1 ok by (cases u) (auto simp: get_pvs_def split: if_splits)
  qed
qed

section \<open>Disconnection and silent servers\<close>

lemma kept_disconnect_all:
  assumes "cx_ok cx" and "\<forall>k \<in> set ks. k < length (cx_managers cx)" and "disconnect_all alive now ks cx = Some (cx', r)"
  shows "kept cx cx'"
  using assms
proof (induction ks arbitrary: cx)
  case (Cons k ks)
  show ?case
  proof (cases "vm_connected (mgr cx k)")
    case False
    with Cons show ?thesis by simp
  next
    case True
    then obtain cx1 u where 1: "vm_disconnect alive now k cx = Some (cx1, u)" using Cons.prems(3) by (auto split: option.splits)
    have k1: "kept cx cx1" using kept_disconnect [OF Cons.prems(1) _ 1] Cons.prems(2) by simp
    have "\<forall>k \<in> set ks. k < length (cx_managers cx1)" using Cons.prems(2) kept_lengths(3) [OF k1] by simp
    with Cons.IH [OF kept_ok [OF k1]] Cons.prems(3) True 1 k1 show ?thesis by (cases u) (auto intro: kept_trans)
  qed
qed (simp add: kept_refl)

lemma managers_valid: "cx_ok cx \<Longrightarrow> \<forall>k \<in> set (map snd (cx_circuit_managers cx)). k < length (cx_managers cx)"
  unfolding cx_ok_def cache_ok_def by fastforce

lemma disconnect_ok:
  assumes "cx_ok cx" and "cx_disconnect alive now cx = Some (cx', r)"
  shows "cx_ok cx'"
proof -
  obtain cx1 u where 1: "disconnect_all alive now (map snd (cx_circuit_managers cx)) (cx\<lparr>cx_closed := True\<rparr>) = Some (cx1, u)"
    using assms(2) by (auto simp: cx_disconnect_def)
  have "cx_ok cx1" by (rule kept_ok [OF kept_disconnect_all [OF _ _ 1]]) (use assms(1) managers_valid [OF assms(1)] in auto)
  moreover have "cx' = cx1\<lparr>cx_broadcaster := sb_disconnect (cx_broadcaster cx1), cx_circuit_managers := []\<rparr>"
    using assms(2) 1 by (auto simp: cx_disconnect_def)
  ultimately show ?thesis by (simp add: cx_ok_def vm_ok_def objects_ok_def cache_ok_def)
qed

lemma dd_value_in: "x \<in> set (dd_value d a) \<Longrightarrow> \<exists>ks. (a, ks) \<in> set d \<and> x \<in> set ks"
  by (cases "dget d a") (auto simp: dd_value_def dest: map_of_SomeD)

lemma servers_valid:
  assumes "cx_ok cx" and "(address, ks) \<in> set (servers_of cx)" and "k \<in> set ks"
  shows "k < length (cx_managers cx)"
proof -
  have "\<forall>(a, ks) \<in> set (fold (\<lambda>((address, _), k) d. dset address (List.insert k (dd_value d address)) d) cms d). \<forall>k \<in> set ks. k < n"
    if "\<forall>k \<in> set (map snd cms). k < n" "\<forall>(a, ks) \<in> set d. \<forall>k \<in> set ks. k < n"
    for cms :: "((address \<times> int) \<times> nat) list" and d :: "(address, nat list) dict" and n
    using that
  proof (induction cms arbitrary: d)
    case (Cons x cms)
    obtain a i j where x: "x = ((a, i), j)" by (metis prod.collapse)
    have "\<forall>k \<in> set (dd_value d a). k < n"
      using Cons.prems(2) by (auto dest!: dd_value_in)
    then have "\<forall>(a, ks) \<in> set (dset a (List.insert j (dd_value d a)) d). \<forall>k \<in> set ks. k < n"
      using Cons.prems x by (auto dest!: set_dset)
    with Cons.IH Cons.prems(1) x show ?case by simp
  qed simp
  from this [OF managers_valid [OF assms(1)], of "[]"] assms(2,3) show ?thesis by (auto simp: servers_of_def)
qed

lemma kept_echo: "cx_ok cx \<Longrightarrow> k < length (cx_managers cx) \<Longrightarrow> kept cx (echo_circuit mk k cx)"
  using kept_harmless [of cx k] simple_messages(1) by (auto simp: echo_circuit_def kept_refl split: sum.splits)

lemma kept_echoes:
  assumes "cx_ok cx" and "\<forall>k \<in> set ks. k < length (cx_managers cx)"
  shows "kept cx (fold (echo_circuit mk) ks cx)"
  using assms
proof (induction ks arbitrary: cx)
  case (Cons k ks)
  have 1: "kept cx (echo_circuit mk k cx)" using Cons.prems by (intro kept_echo) auto
  have "kept (echo_circuit mk k cx) (fold (echo_circuit mk) ks (echo_circuit mk k cx))"
    using Cons.prems(2) kept_lengths(3) [OF 1] by (intro Cons.IH [OF kept_ok [OF 1]]) auto
  with 1 show ?case by (auto intro: kept_trans)
qed (simp add: kept_refl)

lemma kept_look:
  assumes "cx_ok cx" and "\<forall>(a, ks) \<in> set servers. \<forall>k \<in> set ks. k < length (cx_managers cx)"
    and "look_for_silence mk now cutoff servers heard cx = (cx', r)"
  shows "kept cx cx'"
  using assms
proof (induction servers arbitrary: heard cx)
  case (Cons x servers)
  obtain a ks where x: "x = (a, ks)" by (cases x)
  show ?case
  proof (cases "last_heard a ks cx")
    case (Inl e)
    with Cons.prems x show ?thesis by (simp add: kept_refl)
  next
    case (Inr t)
    let ?cx = "cx\<lparr>cx_checking := dset a (now + RESPONSIVENESS_TIMEOUT) (cx_checking cx)\<rparr>"
    define cx1 where "cx1 = (if t < cutoff \<and> dget (cx_checking cx) a = None then fold (echo_circuit mk) ks ?cx else cx)"
    have start: "kept cx ?cx" using Cons.prems(1) by (simp add: kept_refl)
    have "kept ?cx (fold (echo_circuit mk) ks ?cx)"
      using Cons.prems(2) x by (intro kept_echoes kept_ok [OF start]) auto
    from kept_trans [OF start this] have 1: "kept cx cx1" using kept_refl [OF Cons.prems(1)] by (simp add: cx1_def)
    have "\<forall>(a, ks) \<in> set servers. \<forall>k \<in> set ks. k < length (cx_managers cx1)" using Cons.prems(2) kept_lengths(3) [OF 1] by auto
    with Cons.IH [OF kept_ok [OF 1]] Cons.prems(3) Inr x show ?thesis by (auto simp: cx1_def [symmetric] intro: kept_trans [OF 1])
  qed
qed (simp add: kept_refl)

lemma kept_give_up:
  assumes "cx_ok cx" and "\<forall>k \<in> set ks. k < length (cx_managers cx)" and "give_up_circuits alive now ks cx = Some (cx', r)"
  shows "kept cx cx'"
  using assms
proof (induction ks arbitrary: cx)
  case (Cons k ks)
  show ?case
  proof (cases "vm_connected (mgr cx k)")
    case False
    with Cons show ?thesis by simp
  next
    case True
    then obtain cx1 u where 1: "vm_disconnected alive now True k cx = Some (cx1, u)" using Cons.prems(3) by (auto split: option.splits)
    have k1: "kept cx cx1" using kept_disconnected [OF Cons.prems(1) _ 1] Cons.prems(2) by simp
    have "\<forall>k \<in> set ks. k < length (cx_managers cx1)" using Cons.prems(2) kept_lengths(3) [OF k1] by simp
    with Cons.IH [OF kept_ok [OF k1]] Cons.prems(3) True 1 k1 show ?thesis by (cases u) (auto intro: kept_trans)
  qed
qed (simp add: kept_refl)

lemma kept_resolve:
  assumes "cx_ok cx" and "\<forall>(a, ks) \<in> set servers. \<forall>k \<in> set ks. k < length (cx_managers cx)"
    and "resolve_checks alive now cutoff servers heard checks cx = Some (cx', r)"
  shows "kept cx cx'"
  using assms
proof (induction checks arbitrary: cx)
  case (Cons x checks)
  obtain a deadline where x: "x = (a, deadline)" by (cases x)
  have stop: "kept d (stop_checking a d')" if "kept d d'" for d d' using that by (simp add: stop_checking_def)
  show ?case
  proof (cases "dget heard a")
    case None
    with Cons.prems x show ?thesis by (simp add: kept_refl)
  next
    case (Some t)
    show ?thesis
    proof (cases "t > cutoff \<or> \<not> deadline < now")
      case True
      have s: "kept cx (stop_checking a cx)" by (rule stop [OF kept_refl [OF Cons.prems(1)]])
      have "\<forall>(b, ks) \<in> set servers. \<forall>k \<in> set ks. k < length (cx_managers (stop_checking a cx))"
        using Cons.prems(2) by (simp add: stop_checking_def)
      with Cons.IH [OF Cons.prems(1,2)] Cons.IH [OF kept_ok [OF s]] Cons.prems(3) Some x True show ?thesis
        by (auto split: if_splits intro: kept_trans [OF s])
    next
      case False
      then obtain cx1 u where 1: "give_up_circuits alive now (dd_value servers a) cx = Some (cx1, u)"
        using Cons.prems(3) Some x by (auto split: option.splits)
      have "\<forall>k \<in> set (dd_value servers a). k < length (cx_managers cx)"
        using Cons.prems(2) by (auto dest!: dd_value_in)
      note k1 = kept_give_up [OF Cons.prems(1) this 1]
      note k2 = stop [OF k1]
      have "\<forall>(b, ks) \<in> set servers. \<forall>k \<in> set ks. k < length (cx_managers (stop_checking a cx1))"
        using Cons.prems(2) kept_lengths(3) [OF k2] by simp
      with Cons.IH [OF kept_ok [OF k2]] Cons.prems(3) Some x False 1 k1 show ?thesis
        by (cases u) (auto intro: kept_trans [OF k2])
    qed
  qed
qed (simp add: kept_refl)

lemma kept_check:
  assumes "cx_ok cx" and "check_for_unresponsive_servers mk alive now limit cx = Some (cx', r)"
  shows "kept cx cx'"
proof -
  obtain cx1 u where 1: "look_for_silence mk now (now - (limit + 100)) (servers_of cx) [] cx = (cx1, u)" by fastforce
  have valid: "\<forall>(a, ks) \<in> set (servers_of cx). \<forall>k \<in> set ks. k < length (cx_managers cx)" using servers_valid [OF assms(1)] by auto
  note k1 = kept_look [OF assms(1) valid 1]
  have "\<forall>(a, ks) \<in> set (servers_of cx). \<forall>k \<in> set ks. k < length (cx_managers cx1)" using valid kept_lengths(3) [OF k1] by simp
  then show ?thesis
    using assms(2) 1 k1 kept_trans [OF k1 kept_resolve [OF kept_ok [OF k1]]]
    by (cases u) (auto simp: check_for_unresponsive_servers_def Let_def)
qed

section \<open>The clients a program reaches\<close>

text \<open>
  One step is one call of a user or one turn of a thread. Its outcome may be an exception; what it left behind goes on. The shared
  broadcaster is free to change at any time. Batches are not steps: their requests have no deadline until the batch is closed.
\<close>

inductive client_step :: "(pystr \<Rightarrow> 'f result) \<Rightarrow> ('k \<Rightarrow> bool) \<Rightarrow> ('f, 'k) client \<Rightarrow> ('f, 'k) client \<Rightarrow> bool" for mk alive where
  pvs: "get_pvs alive now names priority scb rcb cx = Some (cx', r) \<Longrightarrow> client_step mk alive cx cx'"
| results: "process_search_results mk alive now host conn cx = Some (cx', r) \<Longrightarrow> client_step mk alive cx cx'"
| received: "k < length (cx_managers cx) \<Longrightarrow> selector_received mk alive now k bs cx = Some (cx', r) \<Longrightarrow> client_step mk alive cx cx'"
| enter: "p < length (cx_pvs cx) \<Longrightarrow> enter_connected mk self_is_pv p cx = Some (cx', r) \<Longrightarrow> client_step mk alive cx cx'"
| leave: "client_step mk alive cx (leave_connected p cx)"
| reading: "p < length (cx_pvs cx) \<Longrightarrow> read_start mk now p t n notify callback timeout cx = Some (cx', q) \<Longrightarrow> client_step mk alive cx cx'"
| writing: "p < length (cx_pvs cx) \<Longrightarrow> writes compose \<Longrightarrow>
    write_start mk compose now p wait notify' callback timeout cx = Some (cx', q') \<Longrightarrow> client_step mk alive cx cx'"
| idle: "p < length (cx_pvs cx) \<Longrightarrow> client_step mk alive cx (fst (go_idle mk p cx))"
| subscribe: "p < length (cx_pvs cx) \<Longrightarrow> client_step mk alive cx (fst (pv_subscribe p key cx))"
| add_callback: "s < length (cx_subs cx) \<Longrightarrow> client_step mk alive cx (fst (sub_add_callback s c cx))"
| remove_callback: "s < length (cx_subs cx) \<Longrightarrow> client_step mk alive cx (fst (sub_remove_callback mk s token cx))"
| unsubscribe: "p < length (cx_pvs cx) \<Longrightarrow> client_step mk alive cx (fst (unsubscribe_all mk p cx))"
| activate: "activate_subscriptions mk cx = Some (cx', r) \<Longrightarrow> client_step mk alive cx cx'"
| events_off: "k < length (cx_managers cx) \<Longrightarrow> client_step mk alive cx (fst (events_off mk k cx))"
| events_on: "k < length (cx_managers cx) \<Longrightarrow> client_step mk alive cx (fst (events_on mk k cx))"
| silence: "check_for_unresponsive_servers mk alive now limit cx = Some (cx', r) \<Longrightarrow> client_step mk alive cx cx'"
| disconnect: "cx_disconnect alive now cx = Some (cx', r) \<Longrightarrow> client_step mk alive cx cx'"
| broadcaster: "client_step mk alive cx (cx\<lparr>cx_broadcaster := sb, cx_results_queue := cx_results_queue cx @ puts\<rparr>)"
| socket: "client_step mk alive cx (upd_mgr k (\<lambda>vm. vm\<lparr>vm_writable := w\<rparr>) cx)"

inductive client_reach :: "(pystr \<Rightarrow> 'f result) \<Rightarrow> ('k \<Rightarrow> bool) \<Rightarrow> ('f, 'k) client \<Rightarrow> bool" for mk alive where
  start: "client_reach mk alive (Context_init sb)"
| go: "client_reach mk alive cx \<Longrightarrow> client_step mk alive cx cx' \<Longrightarrow> client_reach mk alive cx'"

lemma init_ok: "cx_ok (Context_init sb)"
  by (simp add: cx_ok_def Context_init_def objects_ok_def cache_ok_def)

lemma step_ok: "client_step mk alive cx cx' \<Longrightarrow> cx_ok cx \<Longrightarrow> cx_ok cx'"
proof (induction rule: client_step.induct)
  case (socket cx k w)
  then show ?case by (intro kept_ok [OF kept_mgr_simple]) simp_all
qed (auto intro: get_pvs_ok results_ok kept_ok [OF kept_selector] kept_ok [OF kept_enter] kept_ok [OF kept_usages] kept_ok [OF kept_read]
    kept_ok [OF kept_write] kept_ok [OF kept_go_idle] subscribe_ok kept_ok [OF kept_add_callback] kept_ok [OF kept_remove_callback]
    kept_ok [OF kept_unsubscribe_all] kept_ok [OF kept_activate] kept_ok [OF kept_events(1)] kept_ok [OF kept_events(2)] kept_ok [OF kept_check]
    disconnect_ok)

lemma reach_ok: "client_reach mk alive cx \<Longrightarrow> cx_ok cx"
  by (induction rule: client_reach.induct) (auto intro: init_ok step_ok)

end
