(* ===== verification/CA_Client_Props.thy ===== *)
theory CA_Client_Props
  imports CA_Client_Reach
begin

text \<open>
  What the client of \<^verbatim>\<open>caproto/threading/client.py\<close> promises: accepted commands never fail in the client; a lost circuit wakes the
  requests that wait for it and searches its channels again; responses reach the request they answer; subscriptions come back with
  the connection.
\<close>

section \<open>What notifications leave alone\<close>

text \<open>Requests, names that need a circuit, the readiness of PVs, and circuit managers up to the jobs of their thread pools.\<close>

definition calm :: "('f, 'k) client \<Rightarrow> ('f, 'k) client \<Rightarrow> bool" where
  "calm cx cx' \<longleftrightarrow> cx_infos cx' = cx_infos cx \<and> cx_needing cx' = cx_needing cx
     \<and> map (\<lambda>vm. vm\<lparr>vm_jobs := []\<rparr>) (cx_managers cx') = map (\<lambda>vm. vm\<lparr>vm_jobs := []\<rparr>) (cx_managers cx)
     \<and> map (\<lambda>pv. (pv_channel_ready pv, pv_circuit_ready pv)) (cx_pvs cx') = map (\<lambda>pv. (pv_channel_ready pv, pv_circuit_ready pv)) (cx_pvs cx)
     \<and> map (\<lambda>pv. pv_subscriptions pv) (cx_pvs cx') = map (\<lambda>pv. pv_subscriptions pv) (cx_pvs cx)
     \<and> map (\<lambda>sub. cb_dict (su_handler sub)) (cx_subs cx') = map (\<lambda>sub. cb_dict (su_handler sub)) (cx_subs cx)"

lemma calm_refl [simp]: "calm cx cx"
  by (simp add: calm_def)

lemma calm_trans: "calm a b \<Longrightarrow> calm b c \<Longrightarrow> calm a c"
  by (simp add: calm_def)

lemma calm_jobs: "calm cx (upd_mgr k (\<lambda>vm. vm\<lparr>vm_jobs := f vm\<rparr>) cx)"
  by (simp add: calm_def) (simp add: upd_mgr_def map_upd)

lemma calm_pv: "(\<And>pv. pv_channel_ready (f pv) = pv_channel_ready pv \<and> pv_circuit_ready (f pv) = pv_circuit_ready pv \<and> pv_subscriptions (f pv) = pv_subscriptions pv) \<Longrightarrow> calm cx (upd_pv p f cx)"
  by (simp add: calm_def upd_pv_def map_upd)

lemma calm_sub: "(\<And>sub. su_handler (f sub) = su_handler sub) \<Longrightarrow> calm cx (upd_sub s f cx)"
  by (simp add: calm_def upd_sub_def map_upd)

lemma calm_handler: "handler_process alive cm ev h cx = (cx', h', r) \<Longrightarrow> calm cx cx'"
  by (auto simp: handler_process_def Let_def calm_jobs split: option.splits if_splits)

lemma calm_state_process: "state_process alive p ev cx = (cx', r) \<Longrightarrow> calm cx cx'"
  by (auto simp: state_process_def split: prod.splits dest!: calm_handler intro: calm_trans [OF _ calm_pv])

lemma subs_state_process: "state_process alive p ev cx = (cx', r) \<Longrightarrow> cx_subs cx' = cx_subs cx"
  by (auto simp: state_process_def handler_process_def Let_def upd_mgr_def upd_pv_def split: prod.splits option.splits if_splits)

lemma subscribe_class: "ClientChannel_subscribe r t n (Some i) lo hi to msk c = Some (c', Inr m) \<Longrightarrow> msg_class m = EventAddRequest"
  by (auto simp: ClientChannel_subscribe_def given_or_def bindE_eq_Inr EventAddRequest_init_def split: sum.splits prod.splits dest!: made)

lemma calm_fold: "(\<And>x cx. calm cx (f x cx)) \<Longrightarrow> calm cx (fold f xs cx)"
  by (induction xs arbitrary: cx) (auto intro: calm_trans)

lemma calm_queue: "calm cx (to_activate_add k s cx)" "calm cx (mark_reactivation s cx)" "calm cx (queue_reactivation k s cx)"
proof -
  show a: "calm cx (to_activate_add k s cx)" by (simp add: calm_def to_activate_add_def)
  show "calm cx (mark_reactivation s cx)" by (auto simp: mark_reactivation_def intro: calm_sub)
  show "calm cx (queue_reactivation k s cx)" by (auto simp: queue_reactivation_def intro!: calm_trans [OF a calm_sub])
qed

lemma calm_change: "calm cx (fst (connection_state_changed alive conn p cx))"
proof -
  obtain cx1 r where 1: "state_process alive p (State_changed p conn) cx = (cx1, r)" by fastforce
  note c = calm_state_process [OF 1]
  have "calm cx1 (fold mark_reactivation ss cx1)" "calm cx1 (fold (queue_reactivation k) ss cx1)" for ss k
    by (auto intro: calm_fold calm_queue)
  with c show ?thesis
    by (auto simp: connection_state_changed_def 1 Let_def split: sum.splits option.splits intro: calm_trans)
qed

lemma calm_each: "(\<And>x cx. calm cx (fst (f x cx))) \<Longrightarrow> calm cx (fst (each f xs cx))"
proof (induction xs arbitrary: cx)
  case (Cons x xs)
  obtain cx1 u where 1: "f x cx = (cx1, u)" by fastforce
  have "calm cx cx1" using Cons.prems [of cx x] 1 by simp
  with Cons.IH [OF Cons.prems, of cx1] 1 show ?case by (cases u) (auto intro: calm_trans)
qed simp

lemma calm_mgr: "calm cx cx' \<Longrightarrow> k < length (cx_managers cx) \<Longrightarrow> (mgr cx' k)\<lparr>vm_jobs := []\<rparr> = (mgr cx k)\<lparr>vm_jobs := []\<rparr>"
  using map_nth_eq [of "\<lambda>vm. vm\<lparr>vm_jobs := []\<rparr>" "cx_managers cx'" "cx_managers cx" k] by (simp add: calm_def)

lemma calm_fields:
  assumes "calm cx cx'" and "k < length (cx_managers cx)"
  shows "vm_channels (mgr cx' k) = vm_channels (mgr cx k)" "vm_circuit (mgr cx' k) = vm_circuit (mgr cx k)"
    "vm_created (mgr cx' k) = vm_created (mgr cx k)" "vm_open (mgr cx' k) = vm_open (mgr cx k)" "vm_dead (mgr cx' k) = vm_dead (mgr cx k)"
  using calm_mgr [OF assms] by (cases "mgr cx k"; cases "mgr cx' k"; simp)+

section \<open>Lost circuits\<close>

lemma fold_not_ready:
  "cx_infos (fold not_ready ps cx) = cx_infos cx \<and> cx_managers (fold not_ready ps cx) = cx_managers cx
   \<and> length (cx_pvs (fold not_ready ps cx)) = length (cx_pvs cx)
   \<and> (\<forall>p < length (cx_pvs cx). p \<in> set ps \<or> \<not> pv_channel_ready (cx_pvs cx ! p) \<and> \<not> pv_circuit_ready (cx_pvs cx ! p) \<longrightarrow>
        \<not> pv_channel_ready (cx_pvs (fold not_ready ps cx) ! p) \<and> \<not> pv_circuit_ready (cx_pvs (fold not_ready ps cx) ! p))"
proof (induction ps arbitrary: cx)
  case (Cons q ps)
  have "cx_infos (not_ready q cx) = cx_infos cx" "cx_managers (not_ready q cx) = cx_managers cx" "length (cx_pvs (not_ready q cx)) = length (cx_pvs cx)"
    by (simp_all add: not_ready_def) (simp_all add: upd_pv_def upd_info_def)
  moreover have "p < length (cx_pvs cx) \<Longrightarrow> p = q \<or> \<not> pv_channel_ready (cx_pvs cx ! p) \<and> \<not> pv_circuit_ready (cx_pvs cx ! p) \<Longrightarrow>
      \<not> pv_channel_ready (cx_pvs (not_ready q cx) ! p) \<and> \<not> pv_circuit_ready (cx_pvs (not_ready q cx) ! p)" for p
    by (cases "p = q") (auto simp: not_ready_def upd_pv_def nth_list_update)
  ultimately show ?case using Cons.IH [of "not_ready q cx"] by auto
qed simp

lemma fold_wake:
  "cx_pvs (fold wake is cx) = cx_pvs cx \<and> cx_managers (fold wake is cx) = cx_managers cx \<and> length (cx_infos (fold wake is cx)) = length (cx_infos cx)
   \<and> (\<forall>i < length (cx_infos cx). in_response (cx_infos (fold wake is cx) ! i) = in_response (cx_infos cx ! i)
        \<and> in_event (cx_infos (fold wake is cx) ! i) = (if i \<in> set is then map_option (\<lambda>_. True) (in_event (cx_infos cx ! i)) else in_event (cx_infos cx ! i)))"
proof (induction "is" arbitrary: cx)
  case (Cons j js)
  have "cx_pvs (wake j cx) = cx_pvs cx" "cx_managers (wake j cx) = cx_managers cx" "length (cx_infos (wake j cx)) = length (cx_infos cx)"
    "i < length (cx_infos cx) \<Longrightarrow> in_response (cx_infos (wake j cx) ! i) = in_response (cx_infos cx ! i)
      \<and> in_event (cx_infos (wake j cx) ! i) = (if i = j then map_option (\<lambda>_. True) (in_event (cx_infos cx ! i)) else in_event (cx_infos cx ! i))" for i
    by (auto simp: wake_def upd_info_def nth_upd)
  with Cons.IH [of "wake j cx"] show ?case by (auto simp: option.map_comp comp_def)
qed simp

lemma fold_forget:
  "cx_pvs (fold forget_result ns cx) = cx_pvs cx \<and> cx_managers (fold forget_result ns cx) = cx_managers cx \<and> cx_infos (fold forget_result ns cx) = cx_infos cx"
  by (induction ns arbitrary: cx) (simp_all add: forget_result_def)

lemma mark_dead_spec:
  assumes "cx_ok cx" and "k < length (cx_managers cx)"
  shows "cx_managers (mark_dead k cx) = (cx_managers cx)[k := (mgr cx k)\<lparr>vm_dead := True, vm_created := []\<rparr>]"
    and "\<forall>(cid, p) \<in> set (vm_pvs (mgr cx k)). \<not> pv_channel_ready (cx_pvs (mark_dead k cx) ! p) \<and> \<not> pv_circuit_ready (cx_pvs (mark_dead k cx) ! p)"
    and "\<forall>(ioid, i) \<in> set (vm_ioids (mgr cx k)). in_response (cx_infos (mark_dead k cx) ! i) = in_response (cx_infos cx ! i)
      \<and> in_event (cx_infos (mark_dead k cx) ! i) = map_option (\<lambda>_. True) (in_event (cx_infos cx ! i))"
proof -
  define cx1 where "cx1 = fold not_ready (map snd (vm_pvs (mgr cx k))) cx"
  define cx2 where "cx2 = upd_mgr k (\<lambda>vm. vm\<lparr>vm_dead := True\<rparr>) cx1"
  define cx3 where "cx3 = fold wake (map snd (vm_ioids (mgr cx k))) cx2"
  define cx4 where "cx4 = fold forget_result (vm_created (mgr cx k)) cx3"
  have m: "mark_dead k cx = upd_mgr k (\<lambda>vm. vm\<lparr>vm_created := []\<rparr>) cx4"
    by (simp add: mark_dead_def Let_def cx1_def cx2_def cx3_def cx4_def)
  note 1 = fold_not_ready [of "map snd (vm_pvs (mgr cx k))" cx, folded cx1_def]
  note 3 = fold_wake [of "map snd (vm_ioids (mgr cx k))" cx2, folded cx3_def]
  note 4 = fold_forget [of "vm_created (mgr cx k)" cx3, folded cx4_def]
  have 2: "cx_pvs cx2 = cx_pvs cx1" "cx_infos cx2 = cx_infos cx1" "cx_managers cx2 = (cx_managers cx)[k := (mgr cx k)\<lparr>vm_dead := True\<rparr>]"
    using 1 by (simp_all add: cx2_def) (simp add: upd_mgr_def)
  have vm: "vm_ok cx (mgr cx k)" using cx_ok_vm [OF assms] by simp
  show "cx_managers (mark_dead k cx) = (cx_managers cx)[k := (mgr cx k)\<lparr>vm_dead := True, vm_created := []\<rparr>]"
    using assms(2) 2 3 4 by (simp add: m upd_mgr_def)
  show "\<forall>(cid, p) \<in> set (vm_pvs (mgr cx k)). \<not> pv_channel_ready (cx_pvs (mark_dead k cx) ! p) \<and> \<not> pv_circuit_ready (cx_pvs (mark_dead k cx) ! p)"
  proof (intro ballI, clarify)
    fix cid p assume p: "(cid, p) \<in> set (vm_pvs (mgr cx k))"
    then have "p < length (cx_pvs cx)" "p \<in> set (map snd (vm_pvs (mgr cx k)))" using vm by (auto simp: vm_ok_def image_iff intro: bexI [of _ "(cid, p)"])
    with 1 2 3 4 show "\<not> pv_channel_ready (cx_pvs (mark_dead k cx) ! p) \<and> \<not> pv_circuit_ready (cx_pvs (mark_dead k cx) ! p)" by (simp add: m)
  qed
  show "\<forall>(ioid, i) \<in> set (vm_ioids (mgr cx k)). in_response (cx_infos (mark_dead k cx) ! i) = in_response (cx_infos cx ! i)
      \<and> in_event (cx_infos (mark_dead k cx) ! i) = map_option (\<lambda>_. True) (in_event (cx_infos cx ! i))"
  proof (intro ballI, clarify)
    fix ioid i assume i: "(ioid, i) \<in> set (vm_ioids (mgr cx k))"
    then have "i < length (cx_infos cx)" "i \<in> set (map snd (vm_ioids (mgr cx k)))" using vm by (auto simp: vm_ok_def image_iff intro: bexI [of _ "(ioid, i)"])
    with 1 2 3 4 show "in_response (cx_infos (mark_dead k cx) ! i) = in_response (cx_infos cx ! i)
      \<and> in_event (cx_infos (mark_dead k cx) ! i) = map_option (\<lambda>_. True) (in_event (cx_infos cx ! i))" by (simp add: m)
  qed
qed

lemma close_spec:
  "cx_infos (close_socket now k cx) = cx_infos cx" "cx_pvs (close_socket now k cx) = cx_pvs cx" "cx_needing (close_socket now k cx) = cx_needing cx"
  "cx_pv_cache (close_socket now k cx) = cx_pv_cache cx"
  "k < length (cx_managers cx) \<Longrightarrow> \<not> vm_open (mgr (close_socket now k cx) k) \<and> vm_created (mgr (close_socket now k cx) k) = vm_created (mgr cx k)
     \<and> vm_channels (mgr (close_socket now k cx) k) = vm_channels (mgr cx k)"
  "k < length (cx_managers cx) \<Longrightarrow> vm_circuit (mgr (close_socket now k cx) k) = vm_circuit (mgr cx k)
     \<or> vm_circuit (mgr (close_socket now k cx) k) = CircuitState_disconnect (vm_circuit (mgr cx k))"
  by (auto simp: close_socket_def)

lemma same_keys:
  assumes "vm_ok cx vm" and "circ_priority (vm_circuit vm) \<noteq> None" and "vm_channels vm' = vm_channels vm" and "circ_frame new (vm_circuit vm) (vm_circuit vm')"
  shows "channel_keys vm' = channel_keys vm"
  using assms unfolding channel_keys_def by (fastforce simp: vm_ok_def circ_frame_def)

lemma reconnect_spec:
  assumes "each reconnect_key keys cx = (cx', Inr ())"
  shows "cx_infos cx' = cx_infos cx \<and> cx_pvs cx' = cx_pvs cx \<and> cx_managers cx' = cx_managers cx \<and> cx_pv_cache cx' = cx_pv_cache cx
    \<and> (\<forall>name. set (dd_value (cx_needing cx) name) \<subseteq> set (dd_value (cx_needing cx') name))
    \<and> (\<forall>key \<in> set keys. \<exists>p. dget (cx_pv_cache cx) key = Some p \<and> p \<in> set (dd_value (cx_needing cx') (fst key)))"
  using assms
proof (induction keys arbitrary: cx)
  case (Cons key keys)
  obtain p where p: "dget (cx_pv_cache cx) key = Some p" using Cons.prems by (cases "dget (cx_pv_cache cx) key") (auto simp: reconnect_key_def)
  define cx1 where "cx1 = needing_add (fst key) p (forget_result (fst key) cx)"
  have "reconnect_key key cx = (cx1, Inr ())" by (simp add: reconnect_key_def p cx1_def)
  then have rest: "each reconnect_key keys cx1 = (cx', Inr ())" using Cons.prems by simp
  have f: "cx_infos cx1 = cx_infos cx" "cx_pvs cx1 = cx_pvs cx" "cx_managers cx1 = cx_managers cx" "cx_pv_cache cx1 = cx_pv_cache cx"
    "dd_value (cx_needing cx1) name = (if name = fst key then List.insert p (dd_value (cx_needing cx) name) else dd_value (cx_needing cx) name)" for name
    by (simp_all add: cx1_def needing_add_def forget_result_def)
  have in1: "p \<in> set (dd_value (cx_needing cx1) (fst key))" "set (dd_value (cx_needing cx) name) \<subseteq> set (dd_value (cx_needing cx1) name)" for name
    by (auto simp: f)
  show ?case using Cons.IH [OF rest] f(1-4) in1 p by fastforce
qed simp

lemma search_spec:
  assumes "cx_search now names cx = Some (cx', r)"
  shows "cx_infos cx' = cx_infos cx \<and> cx_pvs cx' = cx_pvs cx \<and> cx_managers cx' = cx_managers cx \<and> cx_needing cx' = cx_needing cx"
proof -
  obtain sb res where "sb_search (created_in cx) now () names (cx_broadcaster cx) = Some (sb, res)" using assms by (auto simp: cx_search_def)
  then show ?thesis using assms by (cases res) (auto simp: cx_search_def)
qed

text \<open>The loss of a live circuit, in one lemma.\<close>

lemma lost_spec:
  assumes "cx_ok cx" and "k < length (cx_managers cx)" and "\<not> vm_dead (mgr cx k)" and "vm_disconnected alive now True k cx = Some (cx', r)"
  shows "vm_dead (mgr cx' k) \<and> \<not> vm_open (mgr cx' k) \<and> vm_created (mgr cx' k) = []"
    and "(cid, p) \<in> set (vm_pvs (mgr cx k)) \<Longrightarrow> \<not> pv_channel_ready (cx_pvs cx' ! p) \<and> \<not> pv_circuit_ready (cx_pvs cx' ! p)"
    and "(ioid, i) \<in> set (vm_ioids (mgr cx k)) \<Longrightarrow> in_response (cx_infos cx' ! i) = in_response (cx_infos cx ! i)
      \<and> in_event (cx_infos cx' ! i) = map_option (\<lambda>_. True) (in_event (cx_infos cx ! i))"
    and "\<exists>cx3. cx_search now (map fst (channel_keys (mgr cx k))) cx3 = Some (cx', r)"
    and "key \<in> set (channel_keys (mgr cx k)) \<Longrightarrow> \<exists>p. dget (cx_pv_cache cx) key = Some p \<and> p \<in> set (dd_value (cx_needing cx') (fst key))"
proof -
  obtain cx1 cx2 where l: "each (connection_state_changed alive False) (map snd (vm_pvs (mgr cx k))) (mark_dead k cx) = (cx1, Inr ())"
      "kept cx cx1" "cx2 = close_socket now k cx1" "kept cx cx2" "vm_dead (mgr cx2 k)"
      "vm_disconnected alive now True k cx = cx_reconnect now (channel_keys (mgr cx2 k)) cx2"
    by (rule circuit_lost [OF assms(1,2), of alive now True]) (use assms(3) in auto)
  have d: "kept cx (mark_dead k cx)" using kept_mark_dead [OF assms(1,2)] by simp
  have c: "calm (mark_dead k cx) cx1" using calm_each [of "connection_state_changed alive False" "mark_dead k cx"] calm_change l(1) by (metis fst_conv)
  note m = mark_dead_spec [OF assms(1,2)]
  have kd: "k < length (cx_managers (mark_dead k cx))" "k < length (cx_managers cx1)" "k < length (cx_managers cx2)"
    using assms(2) kept_lengths(3) d l(2,4) by metis+
  note f1 = calm_fields [OF c kd(1)]
  have md: "mgr (mark_dead k cx) k = (mgr cx k)\<lparr>vm_dead := True, vm_created := []\<rparr>" using m(1) assms(2) by simp
  have vm: "vm_ok cx (mgr cx k)" "circ_priority (vm_circuit (mgr cx k)) \<noteq> None" using cx_ok_vm [OF assms(1,2)] by auto
  have v1: "vm_channels (mgr cx1 k) = vm_channels (mgr cx k)" "vm_circuit (mgr cx1 k) = vm_circuit (mgr cx k)" "vm_created (mgr cx1 k) = []"
    using f1 md by simp_all
  note cl = close_spec [where now = now and k = k and cx = cx1, folded l(3)]
  have v2: "vm_channels (mgr cx2 k) = vm_channels (mgr cx k)" "vm_created (mgr cx2 k) = []" "\<not> vm_open (mgr cx2 k)"
    using cl(5) [OF kd(2)] v1 by simp_all
  have "circ_ok (vm_circuit (mgr cx k))" using vm(1) by (simp add: vm_ok_def)
  then have "circ_frame {} (vm_circuit (mgr cx k)) (vm_circuit (mgr cx2 k))"
    using cl(6) [OF kd(2)] v1(2) circ_ok_disconnect(2) [of "vm_circuit (mgr cx k)" "{}"] by auto
  from same_keys [OF vm v2(1) this] have keys: "channel_keys (mgr cx2 k) = channel_keys (mgr cx k)" .
  obtain cx3 where r: "each reconnect_key (channel_keys (mgr cx2 k)) cx2 = (cx3, Inr ())" "kept cx2 cx3"
    using reconnect_all [OF kept_ok [OF l(4)] channel_keys_cached [OF kept_ok [OF l(4)] kd(3)]] by blast
  then have s: "cx_search now (map fst (channel_keys (mgr cx k))) cx3 = Some (cx', r)" using assms(4) l(6) keys by (simp add: cx_reconnect_def)
  note r3 = reconnect_spec [OF r(1)] and s3 = search_spec [OF s]
  show "\<exists>cx3. cx_search now (map fst (channel_keys (mgr cx k))) cx3 = Some (cx', r)" using s by blast
  show "vm_dead (mgr cx' k) \<and> \<not> vm_open (mgr cx' k) \<and> vm_created (mgr cx' k) = []" using r3 s3 v2 l(5) by simp
  show "\<not> pv_channel_ready (cx_pvs cx' ! p) \<and> \<not> pv_circuit_ready (cx_pvs cx' ! p)" if p: "(cid, p) \<in> set (vm_pvs (mgr cx k))"
  proof -
    have "p < length (cx_pvs (mark_dead k cx))" using p vm(1) kept_lengths(1) [OF d] by (auto simp: vm_ok_def)
    from map_nth_eq [OF _ this, of "\<lambda>pv. (pv_channel_ready pv, pv_circuit_ready pv)" "cx_pvs cx1"] c
    have "pv_channel_ready (cx_pvs cx1 ! p) = pv_channel_ready (cx_pvs (mark_dead k cx) ! p)"
      "pv_circuit_ready (cx_pvs cx1 ! p) = pv_circuit_ready (cx_pvs (mark_dead k cx) ! p)" by (auto simp: calm_def)
    then show ?thesis using m(2) p cl(2) r3 s3 by auto
  qed
  show "in_response (cx_infos cx' ! i) = in_response (cx_infos cx ! i) \<and> in_event (cx_infos cx' ! i) = map_option (\<lambda>_. True) (in_event (cx_infos cx ! i))"
    if "(ioid, i) \<in> set (vm_ioids (mgr cx k))"
    using m(3) that cl(1) r3 s3 c by (auto simp: calm_def)
  show "\<exists>p. dget (cx_pv_cache cx) key = Some p \<and> p \<in> set (dd_value (cx_needing cx') (fst key))" if "key \<in> set (channel_keys (mgr cx k))"
    using r3 s3 that keys l(4) by (auto simp: kept_def)
qed

section \<open>Notifications of subscriptions\<close>

lemma fold_mark:
  fixes cx :: "('a, 'b) client"
  assumes "s \<in> set ss" and "s < length (cx_subs cx)" and "sub_callbacks cx s \<noteq> []"
  shows "su_reactivate (cx_subs (fold mark_reactivation ss cx) ! s)"
proof -
  have keep: "su_reactivate (cx_subs (fold mark_reactivation ss cx) ! s)" if "su_reactivate (cx_subs cx ! s)" for ss and cx :: "('a, 'b) client"
    using that by (induction ss arbitrary: cx) (auto simp: mark_reactivation_def upd_sub_def nth_upd)
  show ?thesis
    using assms
  proof (induction ss arbitrary: cx)
    case (Cons j ss)
    have "length (cx_subs (mark_reactivation j cx)) = length (cx_subs cx)" "sub_callbacks (mark_reactivation j cx) s = sub_callbacks cx s"
      by (auto simp: mark_reactivation_def upd_sub_def nth_upd)
    moreover have "su_reactivate (cx_subs (mark_reactivation s cx) ! s)" using Cons.prems(2,3) by (simp add: mark_reactivation_def upd_sub_def)
    ultimately show ?case using Cons.IH [of "mark_reactivation j cx"] Cons.prems keep [of "mark_reactivation j cx" ss] by (cases "j = s") auto
  qed simp
qed

lemma fold_queue_all:
  fixes cx :: "('a, 'b) client"
  assumes "s \<in> set ss" and "s < length (cx_subs cx)" and "su_reactivate (cx_subs cx ! s)"
  shows "s \<in> set (dd_value (cx_to_activate (fold (queue_reactivation k) ss cx)) k) \<and> \<not> su_reactivate (cx_subs (fold (queue_reactivation k) ss cx) ! s)"
proof -
  have keep: "s \<in> set (dd_value (cx_to_activate (fold (queue_reactivation k) ss cx)) k) \<and> \<not> su_reactivate (cx_subs (fold (queue_reactivation k) ss cx) ! s)"
    if "s \<in> set (dd_value (cx_to_activate cx) k)" "\<not> su_reactivate (cx_subs cx ! s)" for ss and cx :: "('a, 'b) client"
    using that
  proof (induction ss arbitrary: cx)
    case (Cons j ss)
    have "s \<in> set (dd_value (cx_to_activate (queue_reactivation k j cx)) k)" "\<not> su_reactivate (cx_subs (queue_reactivation k j cx) ! s)"
      using Cons.prems by (auto simp: queue_reactivation_def to_activate_add_def upd_sub_def nth_upd)
    with Cons.IH [of "queue_reactivation k j cx"] show ?case by simp
  qed simp
  show ?thesis
    using assms
  proof (induction ss arbitrary: cx)
    case (Cons j ss)
    show ?case
    proof (cases "j = s")
      case True
      have "s \<in> set (dd_value (cx_to_activate (queue_reactivation k s cx)) k)" "\<not> su_reactivate (cx_subs (queue_reactivation k s cx) ! s)"
        using Cons.prems by (auto simp: queue_reactivation_def to_activate_add_def upd_sub_def)
      from keep [OF this, of ss] True show ?thesis by simp
    next
      case False
      have "length (cx_subs (queue_reactivation k j cx)) = length (cx_subs cx)" "cx_subs (queue_reactivation k j cx) ! s = cx_subs cx ! s"
        using False by (auto simp: queue_reactivation_def to_activate_add_def upd_sub_def)
      with Cons.IH [of "queue_reactivation k j cx"] Cons.prems False show ?thesis by simp
    qed
  qed simp
qed

section \<open>Instances\<close>

text \<open>A client with one circuit, one PV whose channel is connected, and one subscription with a callback.\<close>

definition example_manager :: "(unit, nat) manager" where
  "example_manager = (manager_init example_circuit)\<lparr>vm_channels := [(1, 0)], vm_pvs := [(1, 0)], vm_last_receipt := Some 0, vm_created := [[112, 118]]\<rparr>"

definition example_key :: sub_key where
  "example_key = (DT_none, None, 0, 0, 0, None)"

definition example_client :: "(unit, nat) client" where
  "example_client = (Context_init (SharedBroadcaster_init 0 None))\<lparr>cx_managers := [example_manager],
     cx_pvs := [(PV_init [112, 118] 0)\<lparr>pv_manager := Some 0, pv_channel := Some (0, 0), pv_circuit_ready := True, pv_channel_ready := True,
       pv_subscriptions := [(example_key, 0)]\<rparr>],
     cx_subs := [(Subscription_init 0 example_key)\<lparr>su_handler := \<lparr>cb_dict = [(0, 7)], cb_next_id = 1, cb_last_call = None\<rparr>\<rparr>],
     cx_circuit_managers := [(((''10.0.0.7'', 5064), 0), 0)], cx_pv_cache := [(([112, 118], 0), 0)]\<rparr>"

lemma example_circuit_facts:
  "circ_channels example_circuit = [(1, 0)]" "circ_ioids example_circuit = []" "length (circ_store example_circuit) = 1"
  "ch_name (chan example_circuit 0) = [112, 118]" "circ_priority example_circuit = Some 0" "our_role example_circuit = CLIENT"
  "fst (circ_states example_circuit) = CONNECTED"
  by code_simp+

lemma example_ok: "cx_ok example_client"
proof -
  have "circ_ok example_circuit"
    using reachable_ok [OF example_reachable] example_circuit_facts by (simp add: circ_ok_def started_def)
  then have "vm_ok example_client example_manager"
    by (simp add: vm_ok_def example_manager_def manager_init_def example_client_def example_circuit_facts counter_inv_def
        ThreadsafeCounter_init_def MAX_ID_def)
  then show ?thesis
    by (simp add: cx_ok_def objects_ok_def cache_ok_def example_client_def example_manager_def manager_init_def example_circuit_facts
        Context_init_def PV_init_def Subscription_init_def)
qed

section \<open>Properties\<close>



text \<open>
  C5. No command of a server that the state machine of a circuit accepts makes the client fail: no key is missing in a table of the
  manager, no assertion fails, no PV lacks its manager. The handling of the command changes no other circuit.
\<close>

theorem accepted_command_succeeds:
  assumes "cx_ok cx" and "k < length (cx_managers cx)" and "server_message m"
    and "process_command mk (Command m) (vm_circuit (mgr cx k)) = (c, Inr cb)"
  shows "\<exists>cx'. vm_process_command mk alive now k (Command m) cx = Some (cx', Inr ()) \<and> cx_ok cx' \<and> (\<forall>j. j \<noteq> k \<longrightarrow> circuits cx' ! j = circuits cx ! j)"
proof -
  obtain cx' where "process_accepted alive now k m (upd_mgr k (\<lambda>vm. vm\<lparr>vm_circuit := c\<rparr>) cx) = (cx', Inr ())"
    "kept (upd_mgr k (\<lambda>vm. vm\<lparr>vm_circuit := c\<rparr>) cx) cx'"
    using accepted_ok [OF assms refl] by blast
  then have run: "vm_process_command mk alive now k (Command m) cx = Some (cx', Inr ())" "cx_ok cx'"
    using assms(4) by (auto simp: vm_process_command_def Let_def dest: kept_ok)
  with others_command [OF run(1)] show ?thesis by (auto simp: others_def)
qed

theorem accepted_command_succeeds_witness:
  "\<exists>m cx'. AccessRightsResponse_init 1 3 = Inr m
     \<and> vm_process_command (\<lambda>_. Inr ()) (\<lambda>_. True) 0 0 (Command m) example_client = Some (cx', Inr ()) \<and> cx_ok cx'"
proof -
  define m where "m = projr (AccessRightsResponse_init 1 3)"
  have m: "AccessRightsResponse_init 1 3 = Inr m" "server_message m" unfolding m_def by code_simp+
  have "\<not> isl (snd (process_command (\<lambda>_. Inr ()) (Command m) example_circuit))" unfolding m_def by code_simp
  then obtain c cb where "process_command (\<lambda>_. Inr ()) (Command m) (vm_circuit (mgr example_client 0)) = (c, Inr cb)"
    by (cases "process_command (\<lambda>_. Inr ()) (Command m) example_circuit"; cases "snd (process_command (\<lambda>_. Inr ()) (Command m) example_circuit)")
      (auto simp: example_client_def example_manager_def manager_init_def)
  from accepted_command_succeeds [OF example_ok _ m(2) this, of "\<lambda>_. True" 0] m(1) show ?thesis
    by (auto simp: example_client_def)
qed

text \<open>
  C14. When the connection of a live circuit is lost, its manager is dead and without a socket, every request that has an event is woken,
  no PV of its channels is ready any more, every one of its channels waits for a new circuit, and their names are searched.
\<close>

theorem connection_lost:
  assumes "cx_ok cx" and "k < length (cx_managers cx)" and "\<not> vm_dead (mgr cx k)" and "vm_disconnected alive now True k cx = Some (cx', r)"
  shows "vm_dead (mgr cx' k) \<and> \<not> vm_open (mgr cx' k)
    \<and> (\<forall>(ioid, i) \<in> set (vm_ioids (mgr cx k)). in_event (cx_infos cx ! i) \<noteq> None \<longrightarrow> in_event (cx_infos cx' ! i) = Some True)
    \<and> (\<forall>(cid, p) \<in> set (vm_pvs (mgr cx k)). \<not> pv_channel_ready (cx_pvs cx' ! p) \<and> \<not> pv_circuit_ready (cx_pvs cx' ! p))
    \<and> (\<forall>(name, priority) \<in> set (channel_keys (mgr cx k)). \<exists>p. dget (cx_pv_cache cx) (name, priority) = Some p \<and> p \<in> set (dd_value (cx_needing cx') name))
    \<and> (\<exists>cx1. cx_search now (map fst (channel_keys (mgr cx k))) cx1 = Some (cx', r))"
  using lost_spec [OF assms] by (fastforce simp: case_prod_unfold)

theorem connection_lost_witness:
  "\<exists>cx' r. vm_disconnected (\<lambda>_. True) 5 True 0 example_client = Some (cx', r) \<and> vm_dead (mgr cx' 0)
     \<and> \<not> pv_channel_ready (cx_pvs cx' ! 0) \<and> 0 \<in> set (dd_value (cx_needing cx') [112, 118])"
proof -
  have "vm_disconnected (\<lambda>_. True) 5 True 0 example_client \<noteq> None"
    by code_simp (simp add: counter_loop.simps MAX_ID_def)
  then obtain cx' r where run: "vm_disconnected (\<lambda>_. True) 5 True 0 example_client = Some (cx', r)" by auto
  have "channel_keys (mgr example_client 0) = [([112, 118], 0)]" "\<not> vm_dead (mgr example_client 0)" "vm_pvs (mgr example_client 0) = [(1, 0)]"
    "dget (cx_pv_cache example_client) ([112, 118], 0) = Some 0" "0 < length (cx_managers example_client)"
    by (simp_all add: channel_keys_def example_client_def example_manager_def manager_init_def example_circuit_facts)
  with connection_lost [OF example_ok _ _ run] run show ?thesis by auto
qed

text \<open>
  C23. Methods that wait for a circuit that is lost. The wait ends; \<^verbatim>\<open>read\<close> raises \<^verbatim>\<open>DeadCircuitError\<close>, which \<^verbatim>\<open>ensure_connected\<close>
  answers by trying again, while \<^verbatim>\<open>write\<close> looks for the response that never came and raises \<^verbatim>\<open>KeyError\<close>. A method that has met three
  dead circuits returns \<^verbatim>\<open>None\<close> as if it had succeeded.
\<close>

theorem waiting_requests:
  assumes "cx_ok cx" and "k < length (cx_managers cx)" and "\<not> vm_dead (mgr cx k)" and "vm_disconnected alive now True k cx = Some (cx', r)"
    and "(ioid, i) \<in> set (vm_ioids (mgr cx k))" and "in_event (cx_infos cx ! i) = Some False" and "in_response (cx_infos cx ! i) = None"
  shows "read_finish k i cx = Inl CaprotoTimeoutError \<and> read_finish k i cx' = Inl DeadCircuitError \<and> write_finish k i cx' = Inl KeyError
    \<and> ensure_connected (Tried (Inl DeadCircuitError) True # Tried (Inr v) False # as) = Some (Inr (Some v))
    \<and> ensure_connected (replicate 3 (Tried (Inl DeadCircuitError) True) @ as) = Some (Inr None)"
proof -
  have "in_event (cx_infos cx' ! i) = Some True" "in_response (cx_infos cx' ! i) = None" "vm_dead (mgr cx' k)"
    using lost_spec(1,3) [OF assms(1-4)] assms(5-7) by auto
  then show ?thesis
    using assms(6) by (simp add: read_finish_def write_finish_def Let_def ensure_connected_def CIRCUIT_DEATH_ATTEMPTS_def numeral_3_eq_3)
qed

definition example_waiting :: "(unit, nat) client" where
  "example_waiting = add_info 0 3 \<lparr>in_event = Some False, in_pv = 0, in_request = projr (ReadNotifyRequest_init 6 1 5 3), in_callback = Some 8,
     in_deadline = Some (Some 200), in_response = None\<rparr> example_client"

lemma example_waiting_ok: "cx_ok example_waiting"
  unfolding example_waiting_def by (intro kept_ok [OF kept_add_info(1) [OF example_ok]]) (simp_all add: example_client_def)

lemma example_waiting_tables:
  "length (cx_managers example_waiting) = 1" "\<not> vm_dead (mgr example_waiting 0)" "vm_ioids (mgr example_waiting 0) = [(3, 0)]"
  "in_event (cx_infos example_waiting ! 0) = Some False" "in_response (cx_infos example_waiting ! 0) = None"
  by (simp_all add: example_waiting_def add_info_def example_client_def example_manager_def manager_init_def upd_mgr_def Context_init_def)

theorem waiting_requests_witness:
  "\<exists>cx' r. vm_disconnected (\<lambda>_. True) 5 True 0 example_waiting = Some (cx', r) \<and> read_finish 0 0 cx' = Inl DeadCircuitError
     \<and> write_finish 0 0 cx' = Inl KeyError"
proof -
  have "vm_disconnected (\<lambda>_. True) 5 True 0 example_waiting \<noteq> None"
    by code_simp (simp add: counter_loop.simps MAX_ID_def)
  then obtain cx' r where run: "vm_disconnected (\<lambda>_. True) 5 True 0 example_waiting = Some (cx', r)" by auto
  from waiting_requests [where v = "()" and as = "[]", OF example_waiting_ok _ _ run, of 3 0] example_waiting_tables run show ?thesis by auto
qed

text \<open>
  C16. A reading and its response. A reading that was sent is registered under the id of its request. The response with this id that comes
  in time sets the event, so that the waiting \<^verbatim>\<open>read\<close> returns it, and is handed to the callback; a late one changes no request and calls
  nothing. In both cases the id is free again.
\<close>

theorem reading_answered:
  assumes "cx_ok cx" and "p < length (cx_pvs cx)" and "pv_manager (cx_pvs cx ! p) = Some k" and "\<not> vm_dead (mgr cx k)"
    and "read_start mk now p t n notify callback timeout cx = Some (cx1, Inr i)"
  shows "\<exists>ioid. dget (vm_ioids (mgr cx1 k)) ioid = Some i \<and> read_finish k i cx1 = Inl CaprotoTimeoutError
    \<and> (\<forall>m now'. msg_ioid m = ioid \<longrightarrow> (\<exists>cx2. process_response now' k m cx1 = (cx2, Inr ()) \<and> dget (vm_ioids (mgr cx2 k)) ioid = None
         \<and> (if \<exists>d. timeout = Some d \<and> now + d < now'
            then cx_infos cx2 = cx_infos cx1 \<and> vm_jobs (mgr cx2 k) = vm_jobs (mgr cx1 k)
            else read_finish k i cx2 = Inr m
              \<and> vm_jobs (mgr cx2 k) = vm_jobs (mgr cx1 k) @ (case callback of None \<Rightarrow> [] | Some c \<Rightarrow> [(c, Answered m)]))))"
proof -
  have k: "k < length (cx_managers cx)" using ok_pv(2) [OF assms(1-3)] by simp
  obtain cx0 ioid where 1: "vm_new_ioid k cx = Some (cx0, ioid)" using assms(3,5) by (auto simp: read_start_def split: option.splits)
  obtain k' q c rq where m: "pv_channel (cx_pvs cx ! p) = Some (k', q)"
    "ClientChannel_read q t n (Some ioid) notify (vm_circuit (mgr cx0 k')) = Some (c, Inr rq)"
    using assms(3,5) 1 by (auto simp: read_start_def Let_def split: option.splits sum.splits)
  define info where "info = \<lparr>in_event = Some False, in_pv = p, in_request = rq, in_callback = callback,
    in_deadline = Some (map_option (\<lambda>t. now + t) timeout), in_response = None\<rparr>"
  have s: "vm_send mk k [rq] (add_info k ioid info cx0) = (cx1, Inr ())" and i: "i = length (cx_infos cx0)"
    using assms(3,5) 1 m by (auto simp: read_start_def Let_def info_def split: sum.splits prod.splits)
  have k0: "k < length (cx_managers cx0)" "\<not> vm_dead (mgr cx0 k)" "\<not> vm_shutdown (mgr cx0 k)"
    using 1 k assms(4) cx_ok_vm [OF assms(1) k] by (auto simp: vm_new_ioid_def vm_ok_def)
  have sent: "cx_infos cx1 = cx_infos cx0 @ [info]" "vm_ioids (mgr cx1 k) = dset ioid i (vm_ioids (mgr cx0 k))"
    "\<not> vm_dead (mgr cx1 k)" "\<not> vm_shutdown (mgr cx1 k)" "k < length (cx_managers cx1)"
    using s k0 i by (auto simp: vm_send_def add_info_def split: if_splits prod.splits sum.splits)
  have id: "dget (vm_ioids (mgr cx1 k)) ioid = Some i" "cx_infos cx1 ! i = info" "i < length (cx_infos cx1)" by (simp_all add: sent i dget_dset)
  have "\<exists>cx2. process_response now' k m cx1 = (cx2, Inr ()) \<and> dget (vm_ioids (mgr cx2 k)) ioid = None
         \<and> (if \<exists>d. timeout = Some d \<and> now + d < now'
            then cx_infos cx2 = cx_infos cx1 \<and> vm_jobs (mgr cx2 k) = vm_jobs (mgr cx1 k)
            else read_finish k i cx2 = Inr m
              \<and> vm_jobs (mgr cx2 k) = vm_jobs (mgr cx1 k) @ (case callback of None \<Rightarrow> [] | Some c \<Rightarrow> [(c, Answered m)]))"
    if "msg_ioid m = ioid" for m now'
    using that sent(3-5) id by (cases timeout; cases callback)
      (auto simp: process_response_def Let_def info_def submit_callback_def read_finish_def upd_info_def dget_ddel)
  moreover have "read_finish k i cx1 = Inl CaprotoTimeoutError" using id by (simp add: read_finish_def info_def)
  ultimately show ?thesis using id(1) by blast
qed

theorem reading_answered_witness:
  "\<exists>cx1 ioid. read_start (\<lambda>_. Inr ()) 0 0 DT_none None True (Some 8) (Some 200) example_client = Some (cx1, Inr 0)
     \<and> dget (vm_ioids (mgr cx1 0)) ioid = Some 0"
proof -
  have "ThreadsafeCounter_call [] ThreadsafeCounter_init = Some 0"
    by (simp add: ThreadsafeCounter_call_def ThreadsafeCounter_init_def counter_loop.simps MAX_ID_def)
  then have "vm_new_ioid 0 example_client = Some (upd_mgr 0 (\<lambda>vm. vm\<lparr>vm_ioid_counter := 0\<rparr>) example_client, 0)"
    by (simp add: vm_new_ioid_def example_client_def example_manager_def manager_init_def)
  moreover define rq where "rq = projr (snd (the (ClientChannel_read 0 DT_none None (Some 0) True example_circuit)))"
  have "ClientChannel_read 0 DT_none None (Some 0) True example_circuit = Some (example_circuit, Inr rq)"
    unfolding rq_def by code_simp
  moreover have "snd (process_command_internal (\<lambda>_. Inr ()) (Command rq) example_circuit) = Inr []" unfolding rq_def by code_simp
  then obtain c where "process_command_internal (\<lambda>_. Inr ()) (Command rq) example_circuit = (c, Inr [])" by (metis prod.collapse)
  ultimately have "\<exists>cx1. read_start (\<lambda>_. Inr ()) 0 0 DT_none None True (Some 8) (Some 200) example_client = Some (cx1, Inr 0)"
    by (auto simp: read_start_def example_client_def example_manager_def manager_init_def upd_mgr_def add_info_def vm_send_def Let_def Context_init_def)
  then obtain cx1 where run: "read_start (\<lambda>_. Inr ()) 0 0 DT_none None True (Some 8) (Some 200) example_client = Some (cx1, Inr 0)" by blast
  have "0 < length (cx_pvs example_client)" "pv_manager (cx_pvs example_client ! 0) = Some 0" "\<not> vm_dead (mgr example_client 0)"
    by (simp_all add: example_client_def example_manager_def manager_init_def)
  from reading_answered [OF example_ok this run] run show ?thesis by blast
qed



text \<open>
  One subscription can end the activation of all. When the channel of a queued subscription is not ready in time, \<^verbatim>\<open>compose_command\<close>
  raises in the thread that activates subscriptions: the thread ends, everything that was queued with it is lost, and no subscription
  is activated any more.
\<close>

theorem activation_ends:
  assumes "cx_activation_thread cx" and "\<not> cx_closed cx" and "cx_to_activate cx = (k, s # ss) # items"
    and "\<not> pv_channel_ready (cx_pvs cx ! su_pv (cx_subs cx ! s))"
  shows "\<exists>cx'. activate_subscriptions mk cx = Some (cx', Inl CaprotoTimeoutError) \<and> cx_to_activate cx' = []
    \<and> (\<forall>cx''. cx_activation_thread cx'' = cx_activation_thread cx' \<longrightarrow> activate_subscriptions mk cx'' = Some (cx'', Inr ()))"
  using assms by (auto simp: activate_subscriptions_def compose_command_def Let_def)

theorem activation_ends_witness:
  "\<exists>cx'. activate_subscriptions (\<lambda>_. Inr ()) (to_activate_add 0 0 (not_ready 0 example_client)) = Some (cx', Inl CaprotoTimeoutError) \<and> cx_to_activate cx' = []"
proof -
  let ?cx = "to_activate_add 0 0 (not_ready 0 example_client)"
  have "cx_activation_thread ?cx" "\<not> cx_closed ?cx" "cx_to_activate ?cx = [(0, [0])]" "\<not> pv_channel_ready (cx_pvs ?cx ! su_pv (cx_subs ?cx ! 0))"
    by (simp_all add: example_client_def to_activate_add_def not_ready_def upd_pv_def Context_init_def Subscription_init_def)
  from activation_ends [OF this] show ?thesis by blast
qed

end
