(* ===== verification/CA_Menus.thy ===== *)
theory CA_Menus
  imports CA_Dbr
begin

text \<open>
  The menus of EPICS records, \<^verbatim>\<open>caproto/server/menus.py\<close>: for every item its name in the enumeration, its value and the string shown.
  \<^verbatim>\<open>get_string_tuple\<close> gives at most as many strings as Channel Access can transport.
\<close>

type_synonym menu = "(string \<times> int \<times> string) list"

definition get_string_tuple :: "menu \<Rightarrow> string list" where
  "get_string_tuple m = take MAX_ENUM_STATES (map (\<lambda>(_, _, s). s) m)"

definition get_string_dict :: "menu \<Rightarrow> (string \<times> string) list" where
  "get_string_dict m = map (\<lambda>(item, _, s). (item, s)) m"

definition NotImplementedMenu :: menu where
  "NotImplementedMenu = [(''PLACEHOLDER'', 0, ''NOT_IMPLEMENTED'')]"

section \<open>Menus of the records\<close>

definition aSubEFLG :: menu where
  "aSubEFLG =
    [(''NEVER'', 0, ''NEVER''), (''ON_CHANGE'', 1, ''ON CHANGE''), (''ALWAYS'', 2, ''ALWAYS'')]"

definition aSubLFLG :: menu where
  "aSubLFLG =
    [(''IGNORE'', 0, ''IGNORE''), (''READ'', 1, ''READ'')]"

definition aaiPOST :: menu where
  "aaiPOST =
    [(''Always'', 0, ''Always''), (''OnChange'', 1, ''On Change'')]"

definition aaoPOST :: menu where
  "aaoPOST =
    [(''Always'', 0, ''Always''), (''OnChange'', 1, ''On Change'')]"

definition aoOIF :: menu where
  "aoOIF =
    [(''Full'', 0, ''Full''), (''Incremental'', 1, ''Incremental'')]"

definition asynAUTOCONNECT :: menu where
  "asynAUTOCONNECT =
    [(''noAutoConnect'', 0, ''noAutoConnect''), (''autoConnect'', 1, ''autoConnect'')]"

definition asynCONNECT :: menu where
  "asynCONNECT =
    [(''Disconnect'', 0, ''Disconnect''), (''Connect'', 1, ''Connect'')]"

definition asynENABLE :: menu where
  "asynENABLE =
    [(''Disable'', 0, ''Disable''), (''Enable'', 1, ''Enable'')]"

definition asynEOMREASON :: menu where
  "asynEOMREASON =
    [(''none'', 0, ''None''), (''CNT'', 1, ''Count''), (''EOS'', 2, ''Eos''), (''CNTEOS'', 3, ''Count Eos''),
     (''END'', 4, ''End''), (''CNTEND'', 5, ''Count End''), (''EOSEND'', 6, ''Eos End''), (''CNTEOSEND'', 7, ''Count Eos End'')]"

definition asynFMT :: menu where
  "asynFMT =
    [(''ASCII'', 0, ''ASCII''), (''Hybrid'', 1, ''Hybrid''), (''Binary'', 2, ''Binary'')]"

definition asynINTERFACE :: menu where
  "asynINTERFACE =
    [(''OCTET'', 0, ''asynOctet''), (''INT32'', 1, ''asynInt32''), (''UINT32'', 2, ''asynUInt32Digital''),
     (''FLOAT64'', 3, ''asynFloat64'')]"

definition asynTMOD :: menu where
  "asynTMOD =
    [(''Write_Read'', 0, ''Write/Read''), (''Write'', 1, ''Write''), (''Read'', 2, ''Read''), (''Flush'', 3, ''Flush''),
     (''NoIO'', 4, ''NoI/O'')]"

definition asynTRACE :: menu where
  "asynTRACE =
    [(''Off'', 0, ''Off''), (''On'', 1, ''On'')]"

definition bufferingALG :: menu where
  "bufferingALG =
    [(''FIFO'', 0, ''FIFO Buffer''), (''LIFO'', 1, ''LIFO Buffer'')]"

definition calcoutDOPT :: menu where
  "calcoutDOPT =
    [(''Use_VAL'', 0, ''Use CALC''), (''Use_OVAL'', 1, ''Use OCAL'')]"

definition calcoutINAV :: menu where
  "calcoutINAV =
    [(''EXT_NC'', 0, ''Ext PV NC''), (''EXT'', 1, ''Ext PV OK''), (''LOC'', 2, ''Local PV''), (''CON'', 3, ''Constant'')]"

definition calcoutOOPT :: menu where
  "calcoutOOPT =
    [(''Every_Time'', 0, ''Every Time''), (''On_Change'', 1, ''On Change''), (''When_Zero'', 2, ''When Zero''),
     (''When_Non_zero'', 3, ''When Non-zero''), (''Transition_To_Zero'', 4, ''Transition To Zero''),
     (''Transition_To_Non_zero'', 5, ''Transition To Non-zero'')]"

definition compressALG :: menu where
  "compressALG =
    [(''N_to_1_Low_Value'', 0, ''N to 1 Low Value''), (''N_to_1_High_Value'', 1, ''N to 1 High Value''),
     (''N_to_1_Average'', 2, ''N to 1 Average''), (''Average'', 3, ''Average''), (''Circular_Buffer'', 4, ''Circular Buffer''),
     (''N_to_1_Median'', 5, ''N to 1 Median'')]"

definition dfanoutSELM :: menu where
  "dfanoutSELM =
    [(''All'', 0, ''All''), (''Specified'', 1, ''Specified''), (''Mask'', 2, ''Mask'')]"

definition dtyp_aSub :: menu where
  "dtyp_aSub =
    [(''soft_channel'', 0, ''Soft Channel'')]"

definition dtyp_aai :: menu where
  "dtyp_aai =
    [(''soft_channel'', 0, ''Soft Channel'')]"

definition dtyp_aao :: menu where
  "dtyp_aao =
    [(''soft_channel'', 0, ''Soft Channel'')]"

definition dtyp_ai :: menu where
  "dtyp_ai =
    [(''soft_channel'', 0, ''Soft Channel''), (''raw_soft_channel'', 1, ''Raw Soft Channel''),
     (''async_soft_channel'', 2, ''Async Soft Channel''), (''soft_timestamp'', 3, ''Soft Timestamp''),
     (''general_time'', 4, ''General Time''), (''asynint32'', 5, ''asynInt32''), (''asynint32average'', 6, ''asynInt32Average''),
     (''asynfloat64'', 7, ''asynFloat64''), (''asynfloat64average'', 8, ''asynFloat64Average''),
     (''asynint64'', 9, ''asynInt64'')]"

definition dtyp_ao :: menu where
  "dtyp_ao =
    [(''soft_channel'', 0, ''Soft Channel''), (''raw_soft_channel'', 1, ''Raw Soft Channel''),
     (''async_soft_channel'', 2, ''Async Soft Channel''), (''asynint32'', 3, ''asynInt32''),
     (''asynfloat64'', 4, ''asynFloat64''), (''asynint64'', 5, ''asynInt64'')]"

definition dtyp_asyn :: menu where
  "dtyp_asyn =
    [(''asynrecorddevice'', 0, ''asynRecordDevice'')]"

definition dtyp_base :: menu where
  "dtyp_base =
    [(''soft_channel'', 0, ''Soft Channel'')]"

definition dtyp_bi :: menu where
  "dtyp_bi =
    [(''soft_channel'', 0, ''Soft Channel''), (''raw_soft_channel'', 1, ''Raw Soft Channel''),
     (''async_soft_channel'', 2, ''Async Soft Channel''), (''db_state'', 3, ''Db State''), (''asynint32'', 4, ''asynInt32''),
     (''asynuint32digital'', 5, ''asynUInt32Digital'')]"

definition dtyp_bo :: menu where
  "dtyp_bo =
    [(''soft_channel'', 0, ''Soft Channel''), (''raw_soft_channel'', 1, ''Raw Soft Channel''),
     (''async_soft_channel'', 2, ''Async Soft Channel''), (''general_time'', 3, ''General Time''),
     (''db_state'', 4, ''Db State''), (''asynint32'', 5, ''asynInt32''), (''asynuint32digital'', 6, ''asynUInt32Digital'')]"

definition dtyp_calc :: menu where
  "dtyp_calc =
    [(''soft_channel'', 0, ''Soft Channel'')]"

definition dtyp_calcout :: menu where
  "dtyp_calcout =
    [(''soft_channel'', 0, ''Soft Channel''), (''async_soft_channel'', 1, ''Async Soft Channel'')]"

definition dtyp_compress :: menu where
  "dtyp_compress =
    [(''soft_channel'', 0, ''Soft Channel'')]"

definition dtyp_dfanout :: menu where
  "dtyp_dfanout =
    [(''soft_channel'', 0, ''Soft Channel'')]"

definition dtyp_event :: menu where
  "dtyp_event =
    [(''soft_channel'', 0, ''Soft Channel'')]"

definition dtyp_fanout :: menu where
  "dtyp_fanout =
    [(''soft_channel'', 0, ''Soft Channel'')]"

definition dtyp_histogram :: menu where
  "dtyp_histogram =
    [(''soft_channel'', 0, ''Soft Channel'')]"

definition dtyp_int64in :: menu where
  "dtyp_int64in =
    [(''soft_channel'', 0, ''Soft Channel''), (''async_soft_channel'', 1, ''Async Soft Channel''),
     (''asynint64'', 2, ''asynInt64'')]"

definition dtyp_int64out :: menu where
  "dtyp_int64out =
    [(''soft_channel'', 0, ''Soft Channel''), (''async_soft_channel'', 1, ''Async Soft Channel''),
     (''asynint64'', 2, ''asynInt64'')]"

definition dtyp_longin :: menu where
  "dtyp_longin =
    [(''soft_channel'', 0, ''Soft Channel''), (''async_soft_channel'', 1, ''Async Soft Channel''),
     (''general_time'', 2, ''General Time''), (''asynint32'', 3, ''asynInt32''),
     (''asynuint32digital'', 4, ''asynUInt32Digital''), (''asynint64'', 5, ''asynInt64'')]"

definition dtyp_longout :: menu where
  "dtyp_longout =
    [(''soft_channel'', 0, ''Soft Channel''), (''async_soft_channel'', 1, ''Async Soft Channel''),
     (''asynint32'', 2, ''asynInt32''), (''asynuint32digital'', 3, ''asynUInt32Digital''), (''asynint64'', 4, ''asynInt64'')]"

definition dtyp_lsi :: menu where
  "dtyp_lsi =
    [(''soft_channel'', 0, ''Soft Channel''), (''getenv'', 1, ''getenv''),
     (''asynoctetcmdresponse'', 2, ''asynOctetCmdResponse''), (''asynoctetwriteread'', 3, ''asynOctetWriteRead''),
     (''asynoctetread'', 4, ''asynOctetRead'')]"

definition dtyp_lso :: menu where
  "dtyp_lso =
    [(''soft_channel'', 0, ''Soft Channel''), (''async_soft_channel'', 1, ''Async Soft Channel''), (''stdio'', 2, ''stdio''),
     (''asynoctetwrite'', 3, ''asynOctetWrite'')]"

definition dtyp_mbbi :: menu where
  "dtyp_mbbi =
    [(''soft_channel'', 0, ''Soft Channel''), (''raw_soft_channel'', 1, ''Raw Soft Channel''),
     (''async_soft_channel'', 2, ''Async Soft Channel''), (''asynint32'', 3, ''asynInt32''),
     (''asynuint32digital'', 4, ''asynUInt32Digital'')]"

definition dtyp_mbbiDirect :: menu where
  "dtyp_mbbiDirect =
    [(''soft_channel'', 0, ''Soft Channel''), (''raw_soft_channel'', 1, ''Raw Soft Channel''),
     (''async_soft_channel'', 2, ''Async Soft Channel''), (''asynuint32digital'', 3, ''asynUInt32Digital'')]"

definition dtyp_mbbo :: menu where
  "dtyp_mbbo =
    [(''soft_channel'', 0, ''Soft Channel''), (''raw_soft_channel'', 1, ''Raw Soft Channel''),
     (''async_soft_channel'', 2, ''Async Soft Channel''), (''asynint32'', 3, ''asynInt32''),
     (''asynuint32digital'', 4, ''asynUInt32Digital'')]"

definition dtyp_mbboDirect :: menu where
  "dtyp_mbboDirect =
    [(''soft_channel'', 0, ''Soft Channel''), (''raw_soft_channel'', 1, ''Raw Soft Channel''),
     (''async_soft_channel'', 2, ''Async Soft Channel''), (''asynuint32digital'', 3, ''asynUInt32Digital'')]"

definition dtyp_motor :: menu where
  "dtyp_motor =
    [(''asynmotor'', 0, ''asynMotor''), (''motor_simulation'', 1, ''Motor Simulation'')]"

definition dtyp_permissive :: menu where
  "dtyp_permissive =
    [(''soft_channel'', 0, ''Soft Channel'')]"

definition dtyp_printf :: menu where
  "dtyp_printf =
    [(''soft_channel'', 0, ''Soft Channel''), (''async_soft_channel'', 1, ''Async Soft Channel''), (''stdio'', 2, ''stdio''),
     (''asynoctetwrite'', 3, ''asynOctetWrite'')]"

definition dtyp_sel :: menu where
  "dtyp_sel =
    [(''soft_channel'', 0, ''Soft Channel'')]"

definition dtyp_seq :: menu where
  "dtyp_seq =
    [(''soft_channel'', 0, ''Soft Channel'')]"

definition dtyp_state :: menu where
  "dtyp_state =
    [(''soft_channel'', 0, ''Soft Channel'')]"

definition dtyp_stringin :: menu where
  "dtyp_stringin =
    [(''soft_channel'', 0, ''Soft Channel''), (''async_soft_channel'', 1, ''Async Soft Channel''),
     (''soft_timestamp'', 2, ''Soft Timestamp''), (''general_time'', 3, ''General Time''), (''getenv'', 4, ''getenv''),
     (''asynoctetcmdresponse'', 5, ''asynOctetCmdResponse''), (''asynoctetwriteread'', 6, ''asynOctetWriteRead''),
     (''asynoctetread'', 7, ''asynOctetRead'')]"

definition dtyp_stringout :: menu where
  "dtyp_stringout =
    [(''soft_channel'', 0, ''Soft Channel''), (''async_soft_channel'', 1, ''Async Soft Channel''), (''stdio'', 2, ''stdio''),
     (''asynoctetwrite'', 3, ''asynOctetWrite'')]"

definition dtyp_sub :: menu where
  "dtyp_sub =
    [(''soft_channel'', 0, ''Soft Channel'')]"

definition dtyp_subArray :: menu where
  "dtyp_subArray =
    [(''soft_channel'', 0, ''Soft Channel'')]"

definition dtyp_waveform :: menu where
  "dtyp_waveform =
    [(''soft_channel'', 0, ''Soft Channel''), (''asynoctetcmdresponse'', 1, ''asynOctetCmdResponse''),
     (''asynoctetwriteread'', 2, ''asynOctetWriteRead''), (''asynoctetread'', 3, ''asynOctetRead''),
     (''asynoctetwrite'', 4, ''asynOctetWrite''), (''asynoctetwritebinary'', 5, ''asynOctetWriteBinary''),
     (''asynint8arrayin'', 6, ''asynInt8ArrayIn''), (''asynint8arrayout'', 7, ''asynInt8ArrayOut''),
     (''asynint16arrayin'', 8, ''asynInt16ArrayIn''), (''asynint16arrayout'', 9, ''asynInt16ArrayOut''),
     (''asynint32arrayin'', 10, ''asynInt32ArrayIn''), (''asynint32arrayout'', 11, ''asynInt32ArrayOut''),
     (''asynint32timeseries'', 12, ''asynInt32TimeSeries''), (''asynfloat32arrayin'', 13, ''asynFloat32ArrayIn''),
     (''asynfloat32arrayout'', 14, ''asynFloat32ArrayOut''), (''asynfloat64arrayin'', 15, ''asynFloat64ArrayIn''),
     (''asynfloat64arrayout'', 16, ''asynFloat64ArrayOut''), (''asynfloat64timeseries'', 17, ''asynFloat64TimeSeries''),
     (''asynint64arrayin'', 18, ''asynInt64ArrayIn''), (''asynint64arrayout'', 19, ''asynInt64ArrayOut''),
     (''asynint64timeseries'', 20, ''asynInt64TimeSeries'')]"

definition fanoutSELM :: menu where
  "fanoutSELM =
    [(''All'', 0, ''All''), (''Specified'', 1, ''Specified''), (''Mask'', 2, ''Mask'')]"

definition gpibACMD :: menu where
  "gpibACMD =
    [(''none'', 0, ''None''), (''Group_Execute_Trig___GET'', 1, ''Group Execute Trig. (GET)''),
     (''Go_To_Local__GTL'', 2, ''Go To Local (GTL)''), (''Selected_Dev__Clear__SDC'', 3, ''Selected Dev. Clear (SDC)''),
     (''Take_Control__TCT'', 4, ''Take Control (TCT)''), (''Serial_Poll'', 5, ''Serial Poll'')]"

definition gpibUCMD :: menu where
  "gpibUCMD =
    [(''none'', 0, ''None''), (''Device_Clear__DCL'', 1, ''Device Clear (DCL)''),
     (''Local_Lockout__LL0'', 2, ''Local Lockout (LL0)''), (''Serial_Poll_Disable__SPD'', 3, ''Serial Poll Disable (SPD)''),
     (''Serial_Poll_Enable__SPE'', 4, ''Serial Poll Enable (SPE)''), (''Unlisten__UNL'', 5, ''Unlisten (UNL)''),
     (''Untalk__UNT'', 6, ''Untalk (UNT)'')]"

definition histogramCMD :: menu where
  "histogramCMD =
    [(''Read'', 0, ''Read''), (''Clear'', 1, ''Clear''), (''Start'', 2, ''Start''), (''Stop'', 3, ''Stop'')]"

definition ipDRTO :: menu where
  "ipDRTO =
    [(''unknown'', 0, ''Unknown''), (''No'', 1, ''No''), (''Yes'', 2, ''Yes'')]"

definition menuAlarmSevr :: menu where
  "menuAlarmSevr =
    [(''NO_ALARM'', 0, ''NO_ALARM''), (''MINOR'', 1, ''MINOR''), (''MAJOR'', 2, ''MAJOR''), (''INVALID'', 3, ''INVALID'')]"

definition menuAlarmStat :: menu where
  "menuAlarmStat =
    [(''NO_ALARM'', 0, ''NO_ALARM''), (''READ'', 1, ''READ''), (''WRITE'', 2, ''WRITE''), (''HIHI'', 3, ''HIHI''),
     (''HIGH'', 4, ''HIGH''), (''LOLO'', 5, ''LOLO''), (''LOW'', 6, ''LOW''), (''STATE'', 7, ''STATE''), (''COS'', 8, ''COS''),
     (''COMM'', 9, ''COMM''), (''TIMEOUT'', 10, ''TIMEOUT''), (''HWLIMIT'', 11, ''HWLIMIT''), (''CALC'', 12, ''CALC''),
     (''SCAN'', 13, ''SCAN''), (''LINK'', 14, ''LINK''), (''SOFT'', 15, ''SOFT''), (''BAD_SUB'', 16, ''BAD_SUB''),
     (''UDF'', 17, ''UDF''), (''DISABLE'', 18, ''DISABLE''), (''SIMM'', 19, ''SIMM''), (''READ_ACCESS'', 20, ''READ_ACCESS''),
     (''WRITE_ACCESS'', 21, ''WRITE_ACCESS'')]"

definition menuConvert :: menu where
  "menuConvert =
    [(''NO_CONVERSION'', 0, ''NO CONVERSION''), (''SLOPE'', 1, ''SLOPE''), (''LINEAR'', 2, ''LINEAR''),
     (''typeKdegF'', 3, ''typeKdegF''), (''typeKdegC'', 4, ''typeKdegC''), (''typeJdegF'', 5, ''typeJdegF''),
     (''typeJdegC'', 6, ''typeJdegC''), (''typeEdegF'', 7, ''typeEdegF(ixe only)''), (''typeEdegC'', 8, ''typeEdegC(ixe only)''),
     (''typeTdegF'', 9, ''typeTdegF''), (''typeTdegC'', 10, ''typeTdegC''), (''typeRdegF'', 11, ''typeRdegF''),
     (''typeRdegC'', 12, ''typeRdegC''), (''typeSdegF'', 13, ''typeSdegF''), (''typeSdegC'', 14, ''typeSdegC'')]"

definition menuFtype :: menu where
  "menuFtype =
    [(''STRING'', 0, ''STRING''), (''CHAR'', 1, ''CHAR''), (''UCHAR'', 2, ''UCHAR''), (''SHORT'', 3, ''SHORT''),
     (''USHORT'', 4, ''USHORT''), (''LONG'', 5, ''LONG''), (''ULONG'', 6, ''ULONG''), (''INT64'', 7, ''INT64''),
     (''UINT64'', 8, ''UINT64''), (''FLOAT'', 9, ''FLOAT''), (''DOUBLE'', 10, ''DOUBLE''), (''ENUM'', 11, ''ENUM'')]"

definition menuIvoa :: menu where
  "menuIvoa =
    [(''Continue_normally'', 0, ''Continue normally''), (''Don_t_drive_outputs'', 1, ''Don't drive outputs''),
     (''Set_output_to_IVOV'', 2, ''Set output to IVOV'')]"

definition menuOmsl :: menu where
  "menuOmsl =
    [(''supervisory'', 0, ''supervisory''), (''closed_loop'', 1, ''closed_loop'')]"

definition menuPini :: menu where
  "menuPini =
    [(''NO'', 0, ''NO''), (''YES'', 1, ''YES''), (''RUN'', 2, ''RUN''), (''RUNNING'', 3, ''RUNNING''), (''PAUSE'', 4, ''PAUSE''),
     (''PAUSED'', 5, ''PAUSED'')]"

definition menuPost :: menu where
  "menuPost =
    [(''OnChange'', 0, ''On Change''), (''Always'', 1, ''Always'')]"

definition menuPriority :: menu where
  "menuPriority =
    [(''LOW'', 0, ''LOW''), (''MEDIUM'', 1, ''MEDIUM''), (''HIGH'', 2, ''HIGH'')]"

definition menuScan :: menu where
  "menuScan =
    [(''Passive'', 0, ''Passive''), (''Event'', 1, ''Event''), (''I_O_Intr'', 2, ''I/O Intr''),
     (''scan_10_second'', 3, ''10 second''), (''scan_5_second'', 4, ''5 second''), (''scan_2_second'', 5, ''2 second''),
     (''scan_1_second'', 6, ''1 second''), (''scan_point_5_second'', 7, ''.5 second''),
     (''scan_point_2_second'', 8, ''.2 second''), (''scan_point_1_second'', 9, ''.1 second'')]"

definition menuSimm :: menu where
  "menuSimm =
    [(''NO'', 0, ''NO''), (''YES'', 1, ''YES''), (''RAW'', 2, ''RAW'')]"

definition menuYesNo :: menu where
  "menuYesNo =
    [(''NO'', 0, ''NO''), (''YES'', 1, ''YES'')]"

definition motorDIR :: menu where
  "motorDIR =
    [(''Pos'', 0, ''Pos''), (''Neg'', 1, ''Neg'')]"

definition motorFOFF :: menu where
  "motorFOFF =
    [(''Variable'', 0, ''Variable''), (''Frozen'', 1, ''Frozen'')]"

definition motorMODE :: menu where
  "motorMODE =
    [(''Position'', 0, ''Position''), (''Velocity'', 1, ''Velocity'')]"

definition motorRMOD :: menu where
  "motorRMOD =
    [(''D'', 0, ''Default''), (''A'', 1, ''Arithmetic''), (''G'', 2, ''Geometric''), (''I'', 3, ''In-Position'')]"

definition motorSET :: menu where
  "motorSET =
    [(''Use'', 0, ''Use''), (''Set'', 1, ''Set'')]"

definition motorSPMG :: menu where
  "motorSPMG =
    [(''Stop'', 0, ''Stop''), (''Pause'', 1, ''Pause''), (''Move'', 2, ''Move''), (''Go'', 3, ''Go'')]"

definition motorSTUP :: menu where
  "motorSTUP =
    [(''OFF'', 0, ''OFF''), (''ON'', 1, ''ON''), (''BUSY'', 2, ''BUSY'')]"

definition motorTORQ :: menu where
  "motorTORQ =
    [(''Disable'', 0, ''Disable''), (''Enable'', 1, ''Enable'')]"

definition motorUEIP :: menu where
  "motorUEIP =
    [(''No'', 0, ''No''), (''Yes'', 1, ''Yes'')]"

definition selSELM :: menu where
  "selSELM =
    [(''Specified'', 0, ''Specified''), (''High_Signal'', 1, ''High Signal''), (''Low_Signal'', 2, ''Low Signal''),
     (''Median_Signal'', 3, ''Median Signal'')]"

definition seqSELM :: menu where
  "seqSELM =
    [(''All'', 0, ''All''), (''Specified'', 1, ''Specified''), (''Mask'', 2, ''Mask'')]"

definition serialBAUD :: menu where
  "serialBAUD =
    [(''unknown'', 0, ''Unknown''), (''choice_300'', 1, ''300''), (''choice_600'', 2, ''600''), (''choice_1200'', 3, ''1200''),
     (''choice_2400'', 4, ''2400''), (''choice_4800'', 5, ''4800''), (''choice_9600'', 6, ''9600''),
     (''choice_19200'', 7, ''19200''), (''choice_38400'', 8, ''38400''), (''choice_57600'', 9, ''57600''),
     (''choice_115200'', 10, ''115200''), (''choice_230400'', 11, ''230400''), (''choice_460800'', 12, ''460800''),
     (''choice_576000'', 13, ''576000''), (''choice_921600'', 14, ''921600''), (''choice_1152000'', 15, ''1152000'')]"

definition serialDBIT :: menu where
  "serialDBIT =
    [(''unknown'', 0, ''Unknown''), (''choice_5'', 1, ''5''), (''choice_6'', 2, ''6''), (''choice_7'', 3, ''7''),
     (''choice_8'', 4, ''8'')]"

definition serialFCTL :: menu where
  "serialFCTL =
    [(''unknown'', 0, ''Unknown''), (''none'', 1, ''None''), (''Hardware'', 2, ''Hardware'')]"

definition serialIX :: menu where
  "serialIX =
    [(''unknown'', 0, ''Unknown''), (''No'', 1, ''No''), (''Yes'', 2, ''Yes'')]"

definition serialMCTL :: menu where
  "serialMCTL =
    [(''unknown'', 0, ''Unknown''), (''CLOCAL'', 1, ''CLOCAL''), (''Yes'', 2, ''YES'')]"

definition serialPRTY :: menu where
  "serialPRTY =
    [(''unknown'', 0, ''Unknown''), (''none'', 1, ''None''), (''Even'', 2, ''Even''), (''Odd'', 3, ''Odd'')]"

definition serialSBIT :: menu where
  "serialSBIT =
    [(''unknown'', 0, ''Unknown''), (''choice_1'', 1, ''1''), (''choice_2'', 2, ''2'')]"

definition stringinPOST :: menu where
  "stringinPOST =
    [(''OnChange'', 0, ''On Change''), (''Always'', 1, ''Always'')]"

definition stringoutPOST :: menu where
  "stringoutPOST =
    [(''OnChange'', 0, ''On Change''), (''Always'', 1, ''Always'')]"

definition waveformPOST :: menu where
  "waveformPOST =
    [(''Always'', 0, ''Always''), (''OnChange'', 1, ''On Change'')]"

section \<open>The dictionary of menus\<close>

definition created_menus :: "(string \<times> menu) list" where
  "created_menus =
    [(''aSubEFLG'', aSubEFLG),
     (''aSubLFLG'', aSubLFLG),
     (''aaiPOST'', aaiPOST),
     (''aaoPOST'', aaoPOST),
     (''aoOIF'', aoOIF),
     (''asynAUTOCONNECT'', asynAUTOCONNECT),
     (''asynCONNECT'', asynCONNECT),
     (''asynENABLE'', asynENABLE),
     (''asynEOMREASON'', asynEOMREASON),
     (''asynFMT'', asynFMT),
     (''asynINTERFACE'', asynINTERFACE),
     (''asynTMOD'', asynTMOD),
     (''asynTRACE'', asynTRACE),
     (''bufferingALG'', bufferingALG),
     (''calcoutDOPT'', calcoutDOPT),
     (''calcoutINAV'', calcoutINAV),
     (''calcoutOOPT'', calcoutOOPT),
     (''compressALG'', compressALG),
     (''dfanoutSELM'', dfanoutSELM),
     (''dtyp_aSub'', dtyp_aSub),
     (''dtyp_aai'', dtyp_aai),
     (''dtyp_aao'', dtyp_aao),
     (''dtyp_ai'', dtyp_ai),
     (''dtyp_ao'', dtyp_ao),
     (''dtyp_asyn'', dtyp_asyn),
     (''dtyp_base'', dtyp_base),
     (''dtyp_bi'', dtyp_bi),
     (''dtyp_bo'', dtyp_bo),
     (''dtyp_calc'', dtyp_calc),
     (''dtyp_calcout'', dtyp_calcout),
     (''dtyp_compress'', dtyp_compress),
     (''dtyp_dfanout'', dtyp_dfanout),
     (''dtyp_event'', dtyp_event),
     (''dtyp_fanout'', dtyp_fanout),
     (''dtyp_histogram'', dtyp_histogram),
     (''dtyp_int64in'', dtyp_int64in),
     (''dtyp_int64out'', dtyp_int64out),
     (''dtyp_longin'', dtyp_longin),
     (''dtyp_longout'', dtyp_longout),
     (''dtyp_lsi'', dtyp_lsi),
     (''dtyp_lso'', dtyp_lso),
     (''dtyp_mbbi'', dtyp_mbbi),
     (''dtyp_mbbiDirect'', dtyp_mbbiDirect),
     (''dtyp_mbbo'', dtyp_mbbo),
     (''dtyp_mbboDirect'', dtyp_mbboDirect),
     (''dtyp_motor'', dtyp_motor),
     (''dtyp_permissive'', dtyp_permissive),
     (''dtyp_printf'', dtyp_printf),
     (''dtyp_sel'', dtyp_sel),
     (''dtyp_seq'', dtyp_seq),
     (''dtyp_state'', dtyp_state),
     (''dtyp_stringin'', dtyp_stringin),
     (''dtyp_stringout'', dtyp_stringout),
     (''dtyp_sub'', dtyp_sub),
     (''dtyp_subArray'', dtyp_subArray),
     (''dtyp_waveform'', dtyp_waveform),
     (''fanoutSELM'', fanoutSELM),
     (''gpibACMD'', gpibACMD),
     (''gpibUCMD'', gpibUCMD),
     (''histogramCMD'', histogramCMD),
     (''ipDRTO'', ipDRTO),
     (''menuAlarmSevr'', menuAlarmSevr),
     (''menuAlarmStat'', menuAlarmStat),
     (''menuConvert'', menuConvert),
     (''menuFtype'', menuFtype),
     (''menuIvoa'', menuIvoa),
     (''menuOmsl'', menuOmsl),
     (''menuPini'', menuPini),
     (''menuPost'', menuPost),
     (''menuPriority'', menuPriority),
     (''menuScan'', menuScan),
     (''menuSimm'', menuSimm),
     (''menuYesNo'', menuYesNo),
     (''motorDIR'', motorDIR),
     (''motorFOFF'', motorFOFF),
     (''motorMODE'', motorMODE),
     (''motorRMOD'', motorRMOD),
     (''motorSET'', motorSET),
     (''motorSPMG'', motorSPMG),
     (''motorSTUP'', motorSTUP),
     (''motorTORQ'', motorTORQ),
     (''motorUEIP'', motorUEIP),
     (''selSELM'', selSELM),
     (''seqSELM'', seqSELM),
     (''serialBAUD'', serialBAUD),
     (''serialDBIT'', serialDBIT),
     (''serialFCTL'', serialFCTL),
     (''serialIX'', serialIX),
     (''serialMCTL'', serialMCTL),
     (''serialPRTY'', serialPRTY),
     (''serialSBIT'', serialSBIT),
     (''stringinPOST'', stringinPOST),
     (''stringoutPOST'', stringoutPOST),
     (''waveformPOST'', waveformPOST)]"

text \<open>Names that stand for menus that were not converted.\<close>

definition unconverted_menus :: "string list" where
  "unconverted_menus =
    [''acalcoutDOPT'', ''acalcoutINAV'', ''acalcoutOOPT'', ''acalcoutSIZE'', ''acalcoutWAIT'', ''digitelBAKS'', ''digitelBKIN'',
     ''digitelCMOR'', ''digitelDSPL'', ''digitelKLCK'', ''digitelMODR'', ''digitelMODS'', ''digitelPTYP'', ''digitelS1MS'',
     ''digitelS1VS'', ''digitelS3BS'', ''digitelSET1'', ''digitelTYPE'', ''epidFeedbackMode'', ''epidFeedbackState'',
     ''genSubEFLG'', ''genSubLFLG'', ''mcaCHAS'', ''mcaERAS'', ''mcaMODE'', ''mcaREAD'', ''mcaSTRT'', ''scalcoutDOPT'',
     ''scalcoutINAV'', ''scalcoutOOPT'', ''scalcoutWAIT'', ''scalerCNT'', ''scalerCONT'', ''scalerD1'', ''scalerG1'',
     ''sscanACQM'', ''sscanACQT'', ''sscanCMND'', ''sscanDSTATE'', ''sscanFAZE'', ''sscanFFO'', ''sscanFPTS'', ''sscanLINKWAIT'',
     ''sscanNOYES'', ''sscanP1AR'', ''sscanP1NV'', ''sscanP1SM'', ''sscanPASM'', ''sscanPAUS'', ''sseqLNKV'', ''sseqSELM'',
     ''sseqWAIT'', ''swaitDOPT'', ''swaitINAV'', ''swaitOOPT'', ''tableGEOM'', ''tableSET'', ''timestampTST'', ''transformCOPT'',
     ''transformIVLA'', ''vmeAMOD'', ''vmeDSIZ'', ''vmeRDWT'', ''vsOFFON'', ''vsTYPE'']"

definition menus :: "(string \<times> menu) list" where
  "menus = (''NotImplementedMenu'', NotImplementedMenu) # created_menus @ map (\<lambda>n. (n, NotImplementedMenu)) unconverted_menus"

lemmas menu_defs = aSubEFLG_def
  aSubLFLG_def
  aaiPOST_def
  aaoPOST_def
  aoOIF_def
  asynAUTOCONNECT_def
  asynCONNECT_def
  asynENABLE_def
  asynEOMREASON_def
  asynFMT_def
  asynINTERFACE_def
  asynTMOD_def
  asynTRACE_def
  bufferingALG_def
  calcoutDOPT_def
  calcoutINAV_def
  calcoutOOPT_def
  compressALG_def
  dfanoutSELM_def
  dtyp_aSub_def
  dtyp_aai_def
  dtyp_aao_def
  dtyp_ai_def
  dtyp_ao_def
  dtyp_asyn_def
  dtyp_base_def
  dtyp_bi_def
  dtyp_bo_def
  dtyp_calc_def
  dtyp_calcout_def
  dtyp_compress_def
  dtyp_dfanout_def
  dtyp_event_def
  dtyp_fanout_def
  dtyp_histogram_def
  dtyp_int64in_def
  dtyp_int64out_def
  dtyp_longin_def
  dtyp_longout_def
  dtyp_lsi_def
  dtyp_lso_def
  dtyp_mbbi_def
  dtyp_mbbiDirect_def
  dtyp_mbbo_def
  dtyp_mbboDirect_def
  dtyp_motor_def
  dtyp_permissive_def
  dtyp_printf_def
  dtyp_sel_def
  dtyp_seq_def
  dtyp_state_def
  dtyp_stringin_def
  dtyp_stringout_def
  dtyp_sub_def
  dtyp_subArray_def
  dtyp_waveform_def
  fanoutSELM_def
  gpibACMD_def
  gpibUCMD_def
  histogramCMD_def
  ipDRTO_def
  menuAlarmSevr_def
  menuAlarmStat_def
  menuConvert_def
  menuFtype_def
  menuIvoa_def
  menuOmsl_def
  menuPini_def
  menuPost_def
  menuPriority_def
  menuScan_def
  menuSimm_def
  menuYesNo_def
  motorDIR_def
  motorFOFF_def
  motorMODE_def
  motorRMOD_def
  motorSET_def
  motorSPMG_def
  motorSTUP_def
  motorTORQ_def
  motorUEIP_def
  selSELM_def
  seqSELM_def
  serialBAUD_def
  serialDBIT_def
  serialFCTL_def
  serialIX_def
  serialMCTL_def
  serialPRTY_def
  serialSBIT_def
  stringinPOST_def
  stringoutPOST_def
  waveformPOST_def

end
