(* ===== verification/CA_Group.thy ===== *)
theory CA_Group
  imports CA_Pvdb CA_Data CA_Convert
begin

text \<open>
  The declarative layer of a server, \<^verbatim>\<open>caproto/server/server.py\<close>: \<^verbatim>\<open>PVSpec\<close> and \<^verbatim>\<open>pvproperty\<close>, \<^verbatim>\<open>SubGroup\<close>, the metaclass that
  collects the properties of a class and of its bases, and the creation of the database of a \<^verbatim>\<open>PVGroup\<close> with the fields of
  records. Hooks (getter, putter, \<dots>) are values of a type \<open>'h\<close>, floating point numbers of a type \<open>'r\<close>.
\<close>

section \<open>Values and data types\<close>

text \<open>The values a property may be given; a member of an \<^verbatim>\<open>IntEnum\<close> comes with the members of its class.\<close>

datatype 'r init =
    I_none
  | I_str pystr
  | I_bytes bytes
  | I_int int
  | I_float 'r
  | I_bool bool
  | I_enum "(pystr \<times> int) list" "pystr \<times> int"
  | I_list "'r init list"

datatype py_type = T_str | T_bytes | T_int | T_float | T_bool | T_enum "(pystr \<times> int) list" | T_other

fun type_of :: "'r init \<Rightarrow> py_type" where
  "type_of (I_str _) = T_str"
| "type_of (I_bytes _) = T_bytes"
| "type_of (I_int _) = T_int"
| "type_of (I_float _) = T_float"
| "type_of (I_bool _) = T_bool"
| "type_of (I_enum ms _) = T_enum ms"
| "type_of I_none = T_other"
| "type_of (I_list _) = T_other"

text \<open>The classes \<^verbatim>\<open>Pvproperty...\<close>; with a flag, those that end in \<^verbatim>\<open>RO\<close>.\<close>

datatype pv_class = Pv_Char | Pv_Byte | Pv_Short | Pv_Integer | Pv_Float | Pv_Double | Pv_String | Pv_Enum | Pv_BoolEnum

datatype dtype = D_type py_type | D_channel ChannelType | D_class pv_class bool

fun pvspec_type_map :: "dtype \<Rightarrow> pv_class option" where
  "pvspec_type_map (D_type t) =
     (case t of T_str \<Rightarrow> Some Pv_Char | T_bytes \<Rightarrow> Some Pv_Byte | T_int \<Rightarrow> Some Pv_Integer | T_float \<Rightarrow> Some Pv_Double
      | T_bool \<Rightarrow> Some Pv_BoolEnum | T_enum _ \<Rightarrow> Some Pv_Enum | T_other \<Rightarrow> None)"
| "pvspec_type_map (D_channel t) =
     dget [(CT_STRING, Pv_String), (CT_INT, Pv_Short), (CT_LONG, Pv_Integer), (CT_DOUBLE, Pv_Double), (CT_FLOAT, Pv_Float),
           (CT_ENUM, Pv_Enum), (CT_CHAR, Pv_Char)] t"
| "pvspec_type_map (D_class _ _) = None"

section \<open>PVSpec and pvproperty\<close>

datatype hook_kind = Hook_get | Hook_put | Hook_startup | Hook_shutdown | Hook_scan

text \<open>The documentation of a property is left out.\<close>

record ('r, 'h) pvspec =
  ps_hooks :: "(hook_kind \<times> 'h) list"
  ps_attr :: "string option"
  ps_name :: "pystr option"
  ps_dtype :: dtype
  ps_value :: "'r init"
  ps_max_length :: "nat option"
  ps_alarm_group :: "string option"
  ps_read_only :: bool
  ps_fields :: "((string \<times> hook_kind) \<times> 'h) list"
  ps_record :: "string option"
  ps_kwargs :: "(string \<times> 'r init) list"

text \<open>The data type that \<^verbatim>\<open>PVSpec.__new__\<close> takes when none is given: that of the value or of its first element.\<close>

definition inferred_dtype :: "'r init \<Rightarrow> dtype result" where
  "inferred_dtype v =
     (case v of
        I_none \<Rightarrow> Inr (D_type T_int)
      | I_list [] \<Rightarrow> Inl IndexError
      | I_list (x # _) \<Rightarrow> Inr (D_type (type_of x))
      | _ \<Rightarrow> Inr (D_type (type_of v)))"

definition PVSpec_new ::
  "(hook_kind \<times> 'h) list \<Rightarrow> pystr option \<Rightarrow> dtype option \<Rightarrow> 'r init \<Rightarrow> nat option \<Rightarrow> string option \<Rightarrow> bool \<Rightarrow> string option
     \<Rightarrow> (string \<times> 'r init) list \<Rightarrow> ('r, 'h) pvspec result" where
  "PVSpec_new hooks name dtype value max_length alarm_group read_only rec kwargs =
     bindE (case dtype of None \<Rightarrow> inferred_dtype value | Some t \<Rightarrow> Inr t) (\<lambda>t.
       if dget hooks Hook_put \<noteq> None \<and> read_only then Inl AssertionError
       else if (\<exists>n. name = Some n \<and> chr_dot \<in> set n) \<and> rec \<noteq> None then Inl CaprotoValueError
       else Inr \<lparr>ps_hooks = hooks, ps_attr = None, ps_name = name, ps_dtype = t, ps_value = value, ps_max_length = max_length,
                 ps_alarm_group = alarm_group, ps_read_only = read_only, ps_fields = [], ps_record = rec, ps_kwargs = kwargs\<rparr>)"

text \<open>\<^verbatim>\<open>prop.getter(f)\<close>, \<^verbatim>\<open>prop.putter(f)\<close> and so on: \<^verbatim>\<open>_replace\<close> does not run the checks of \<^verbatim>\<open>__new__\<close>.\<close>

definition set_hook :: "hook_kind \<Rightarrow> 'h \<Rightarrow> ('r, 'h) pvspec \<Rightarrow> ('r, 'h) pvspec" where
  "set_hook kind f spec = spec\<lparr>ps_hooks := dset kind f (ps_hooks spec)\<rparr>"

text \<open>\<^verbatim>\<open>__copy__\<close> makes a property without a name, \<^verbatim>\<open>__set_name__\<close> names it after the attribute it is first assigned to.\<close>

definition copy_pvproperty :: "('r, 'h) pvspec \<Rightarrow> ('r, 'h) pvspec" where
  "copy_pvproperty spec = spec\<lparr>ps_attr := None\<rparr>"

definition set_name :: "string \<Rightarrow> ('r, 'h) pvspec \<Rightarrow> ('r, 'h) pvspec" where
  "set_name attr spec =
     (case ps_attr spec of
        Some _ \<Rightarrow> spec
      | None \<Rightarrow> spec\<lparr>ps_attr := Some attr, ps_name := Some (case ps_name spec of Some n \<Rightarrow> n | None \<Rightarrow> lit attr)\<rparr>)"

definition get_data_class :: "('r, 'h) pvspec \<Rightarrow> (pv_class \<times> bool) result" where
  "get_data_class spec =
     (case ps_dtype spec of
        D_class c ro \<Rightarrow> Inr (c, ro)
      | t \<Rightarrow> (case pvspec_type_map t of None \<Rightarrow> Inl KeyError | Some c \<Rightarrow> Inr (c, ps_read_only spec)))"

section \<open>Classes\<close>

text \<open>
  A class of groups: its method resolution order with the attributes of every class in it, and what the metaclass collects.
  The type of a subgroup has the group class it instantiates. \<open>Text\<close> is a class attribute that is a string.
\<close>

datatype ('r, 'h) member = Prop "('r, 'h) pvspec" | Sub "('r, 'h) subgroup" | Text pystr
and ('r, 'h) subgroup = Subgroup (sg_prefix: pystr) (sg_macros: "(pystr \<times> pystr) list") (sg_class: "('r, 'h) group_class")
and ('r, 'h) group_class =
  Group_class (gc_mro: "(string \<times> (string \<times> ('r, 'h) member) list) list") (gc_pvs: "(string \<times> ('r, 'h) pvspec) list")
    (gc_subgroups: "(string \<times> ('r, 'h) subgroup) list")

definition PVGroup :: "('r, 'h) group_class" where
  "PVGroup = Group_class [(''PVGroup'', [])] [] []"

text \<open>Attribute lookup in a class.\<close>

fun mro_getattr :: "(string \<times> (string \<times> 'm) list) list \<Rightarrow> string \<Rightarrow> 'm result" where
  "mro_getattr [] attr = Inl AttributeError"
| "mro_getattr ((_, own) # mro) attr = (case dget own attr of Some m \<Rightarrow> Inr m | None \<Rightarrow> mro_getattr mro attr)"

definition class_getattr :: "('r, 'h) group_class \<Rightarrow> string \<Rightarrow> ('r, 'h) member result" where
  "class_getattr cls = mro_getattr (gc_mro cls)"

text \<open>The merge of the C3 linearisation; \<open>None\<close> when there is no consistent order (Python raises \<^verbatim>\<open>TypeError\<close>).\<close>

definition c3_good :: "('k \<times> 'v) list list \<Rightarrow> 'k \<Rightarrow> bool" where
  "c3_good ls k = list_all (\<lambda>l. k \<notin> set (map fst (tl l))) ls"

definition c3_candidate :: "('k \<times> 'v) list list \<Rightarrow> ('k \<times> 'v) option" where
  "c3_candidate ls = find (\<lambda>c. c3_good ls (fst c)) (map hd (filter (\<lambda>l. l \<noteq> []) ls))"

definition c3_drop :: "'k \<Rightarrow> ('k \<times> 'v) list list \<Rightarrow> ('k \<times> 'v) list list" where
  "c3_drop k ls = map (\<lambda>l. if l \<noteq> [] \<and> fst (hd l) = k then tl l else l) ls"

lemma find_member: "find P xs = Some x \<Longrightarrow> x \<in> set xs"
  by (induction xs) (auto split: if_splits)

lemma sum_lengths_less:
  assumes "\<forall>l \<in> set ls. length (f l) \<le> length l" and "\<exists>l \<in> set ls. length (f l) < length l"
  shows "sum_list (map length (map f ls)) < sum_list (map length ls)"
  using assms
proof (induction ls)
  case (Cons l ls)
  have "sum_list (map length (map f ls)) \<le> sum_list (map length ls)"
    using Cons.prems(1) by (simp add: comp_def) (rule sum_list_mono, simp)
  then show ?case using Cons by (cases "length (f l) < length l") (auto intro: add_le_less_mono)
qed simp

lemma c3_drop_shorter:
  assumes "c3_candidate ls = Some c"
  shows "sum_list (map length (c3_drop (fst c) ls)) < sum_list (map length ls)"
proof -
  have "c \<in> set (map hd (filter (\<lambda>l. l \<noteq> []) ls))"
    using assms unfolding c3_candidate_def by (rule find_member)
  then obtain l where "l \<in> set ls" "l \<noteq> []" "hd l = c" by auto
  then show ?thesis unfolding c3_drop_def by (intro sum_lengths_less) force+
qed

function c3_merge :: "('k \<times> 'v) list list \<Rightarrow> ('k \<times> 'v) list option" where
  "c3_merge ls =
     (if list_all (\<lambda>l. l = []) ls then Some []
      else case c3_candidate ls of
        None \<Rightarrow> None
      | Some c \<Rightarrow> map_option (\<lambda>rest. c # rest) (c3_merge (c3_drop (fst c) ls)))"
  by pat_completeness auto
termination by (relation "measure (\<lambda>ls. sum_list (map length ls))") (auto simp: c3_drop_shorter)

declare c3_merge.simps [simp del]

text \<open>A class statement: the members of the body are named first, then the bases are merged.\<close>

definition name_member :: "string \<times> ('r, 'h) member \<Rightarrow> string \<times> ('r, 'h) member" where
  "name_member am = (fst am, case snd am of Prop spec \<Rightarrow> Prop (set_name (fst am) spec) | m \<Rightarrow> m)"

definition is_private :: "string \<Rightarrow> bool" where
  "is_private attr \<longleftrightarrow> (case attr of [] \<Rightarrow> False | c # _ \<Rightarrow> c = CHR ''_'')"

definition dict_update :: "('k, 'v) dict \<Rightarrow> ('k, 'v) dict \<Rightarrow> ('k, 'v) dict" where
  "dict_update d d' = fold (\<lambda>(k, v). dset k v) d' d"

text \<open>\<^verbatim>\<open>find_subgroups\<close>, with the subgroups of subgroups, and \<^verbatim>\<open>find_pvproperties\<close>.\<close>

definition find_subgroups :: "(string \<times> ('r, 'h) member) list \<Rightarrow> (string \<times> ('r, 'h) subgroup) list" where
  "find_subgroups body = concat (map (\<lambda>(attr, m). case m of
       Sub sg \<Rightarrow> if is_private attr then []
                else (attr, sg) # map (\<lambda>(sub, s). (attr @ ''.'' @ sub, s)) (gc_subgroups (sg_class sg))
     | _ \<Rightarrow> []) body)"

definition find_pvproperties :: "(string \<times> ('r, 'h) member) list \<Rightarrow> (string \<times> ('r, 'h) pvspec) list" where
  "find_pvproperties body = concat (map (\<lambda>(attr, m). if is_private attr then [] else case m of
       Prop spec \<Rightarrow> [(attr, spec)]
     | Sub sg \<Rightarrow> map (\<lambda>(sub, s). (attr @ ''.'' @ sub, s)) (gc_pvs (sg_class sg))
     | Text _ \<Rightarrow> []) body)"

definition new_class :: "string \<Rightarrow> ('r, 'h) group_class list \<Rightarrow> (string \<times> ('r, 'h) member) list \<Rightarrow> ('r, 'h) group_class result" where
  "new_class name bases body =
     (let own = map name_member (dict_of body)
      in case c3_merge (map gc_mro bases @ [map (hd \<circ> gc_mro) bases]) of
           None \<Rightarrow> Inl TypeError
         | Some mro \<Rightarrow>
             Inr (Group_class ((name, own) # mro)
               (dict_update (fold (\<lambda>b d. dict_update d (gc_pvs b)) bases []) (find_pvproperties own))
               (dict_update (fold (\<lambda>b d. dict_update d (gc_subgroups b)) bases []) (find_subgroups own))))"

text \<open>
  \<^verbatim>\<open>SubGroup\<close> with a class, and its \<^verbatim>\<open>__set_name__\<close>: without a prefix, the attribute name with the separator of the class is taken.
\<close>

definition group_separator :: "pystr option \<Rightarrow> ('r, 'h) group_class \<Rightarrow> pystr" where
  "group_separator sep cls =
     (case sep of
        Some s \<Rightarrow> s
      | None \<Rightarrow> (case class_getattr cls ''attr_separator'' of Inr (Text s) \<Rightarrow> s | _ \<Rightarrow> lit '':''))"

definition SubGroup_named ::
  "string \<Rightarrow> pystr option \<Rightarrow> (pystr \<times> pystr) list \<Rightarrow> pystr option \<Rightarrow> ('r, 'h) group_class \<Rightarrow> ('r, 'h) member" where
  "SubGroup_named attr prefix macros sep cls =
     Sub (Subgroup (case prefix of Some p \<Rightarrow> p | None \<Rightarrow> lit attr @ group_separator sep cls) macros cls)"

text \<open>A subgroup given as a dictionary of properties: a class with them is made.\<close>

definition SubGroup_dict ::
  "string \<Rightarrow> pystr option \<Rightarrow> (pystr \<times> pystr) list \<Rightarrow> pystr option \<Rightarrow> (string \<times> ('r, 'h) pvspec) list \<Rightarrow> ('r, 'h) member result" where
  "SubGroup_dict attr prefix macros sep specs =
     bindE (new_class attr [PVGroup] (map (\<lambda>(a, spec). (a, Prop (copy_pvproperty spec))) specs))
       (\<lambda>cls. Inr (SubGroup_named attr prefix macros sep cls))"

section \<open>Macros\<close>

text \<open>
  What the creation of a group uses from outside: the registry of record types, the encodings known to Python by name, and the
  part of \<^verbatim>\<open>str.format\<close> that no macro of a plain name needs: a replacement field with a conversion, a format or an attribute, given
  the text after its brace, is replaced by a text and has a length.
\<close>

record ('r, 'h) env =
  ev_records :: "(string \<times> ('r, 'h) group_class) list"
  ev_codec :: "pystr \<Rightarrow> codec result"
  ev_format :: "(pystr \<times> pystr) list \<Rightarrow> pystr \<Rightarrow> (pystr \<times> nat) result"

definition field_delimiter :: "nat \<Rightarrow> bool" where
  "field_delimiter c \<longleftrightarrow> c \<in> {123, 125, 91, 46, 33, 58}"

text \<open>A plain replacement field: numbers are positional arguments, of which there are none.\<close>

definition macro_value :: "(pystr \<times> pystr) list \<Rightarrow> pystr \<Rightarrow> pystr result" where
  "macro_value macros name = (if list_all py_digit name then Inl IndexError else getitem macros name)"

lemma drop_rest_shorter: "drop n xs = y # ys \<Longrightarrow> length ys < length xs"
  by (metis length_Cons length_drop diff_le_self less_eq_Suc_le)

function expand_macros :: "('r, 'h) env \<Rightarrow> (pystr \<times> pystr) list \<Rightarrow> pystr \<Rightarrow> pystr result" where
  "expand_macros ev macros [] = Inr []"
| "expand_macros ev macros (c # cs) =
     (if c = 125 then
        (case cs of
           d # ds \<Rightarrow> if d = 125 then bindE (expand_macros ev macros ds) (\<lambda>r. Inr (125 # r)) else Inl ValueError
         | [] \<Rightarrow> Inl ValueError)
      else if c \<noteq> 123 then bindE (expand_macros ev macros cs) (\<lambda>r. Inr (c # r))
      else case cs of
        [] \<Rightarrow> Inl ValueError
      | d # ds \<Rightarrow>
          if d = 123 then bindE (expand_macros ev macros ds) (\<lambda>r. Inr (123 # r))
          else let name = takeWhile (\<lambda>x. \<not> field_delimiter x) cs
               in case drop (length name) cs of
                    [] \<Rightarrow> Inl ValueError
                  | x # rest \<Rightarrow>
                      if x = 125 then
                        bindE (macro_value macros name) (\<lambda>v. bindE (expand_macros ev macros rest) (\<lambda>r. Inr (v @ r)))
                      else if x = 123 then Inl ValueError
                      else bindE (ev_format ev macros cs) (\<lambda>(v, n).
                             bindE (expand_macros ev macros (drop n cs)) (\<lambda>r. Inr (v @ r))))"
  by pat_completeness auto
termination
  by (relation "measure (\<lambda>(ev, macros, s). length s)") (auto dest: drop_rest_shorter simp: less_Suc_eq)

section \<open>Channel data\<close>

datatype ('r, 'h) data =
  Data (d_pvname: pystr) (d_spec: "('r, 'h) pvspec") (d_class: pv_class) (d_read_only: bool) (d_value: "'r init")
    (d_max_length: nat) (d_enum_strings: "pystr list") (d_report_as_string: bool) (d_backlog: int)
    (d_fields: "(pystr \<times> ('r, 'h) data) list")

definition is_char_class :: "pv_class \<Rightarrow> bool" where
  "is_char_class c \<longleftrightarrow> c = Pv_Char \<or> c = Pv_Byte"

definition calculate_length :: "pv_class \<Rightarrow> 'r init \<Rightarrow> nat" where
  "calculate_length c v =
     (case v of
        I_list xs \<Rightarrow> length xs
      | I_str s \<Rightarrow> if is_char_class c then length s else 1
      | I_bytes b \<Rightarrow> if is_char_class c then length b else 1
      | _ \<Rightarrow> 1)"

text \<open>\<^verbatim>\<open>ChannelData.preprocess_value\<close>.\<close>

definition preprocess_init :: "nat \<Rightarrow> 'r init \<Rightarrow> 'r init result" where
  "preprocess_init max_length v =
     (case v of
        I_list xs \<Rightarrow>
          if length xs > max_length then Inl CaprotoValueError
          else if max_length = 1 then (case xs of [] \<Rightarrow> Inl CaprotoValueError | x # _ \<Rightarrow> Inr x)
          else Inr v
      | _ \<Rightarrow> Inr (if max_length = 1 then v else I_list [v]))"

text \<open>\<^verbatim>\<open>bytes([v])\<close>.\<close>

definition byte_of :: "'r init \<Rightarrow> bytes result" where
  "byte_of v =
     (case v of
        I_int i \<Rightarrow> if 0 \<le> i \<and> i < 256 then Inr [word_of_int i] else Inl ValueError
      | I_bool b \<Rightarrow> Inr [if b then 1 else 0]
      | I_enum _ m \<Rightarrow> if 0 \<le> snd m \<and> snd m < 256 then Inr [word_of_int (snd m)] else Inl ValueError
      | _ \<Rightarrow> Inl TypeError)"

text \<open>A list of numbers becomes bytes, a list of one value that value.\<close>

definition unwrap_bytes :: "'r init \<Rightarrow> 'r init result" where
  "unwrap_bytes v =
     (case v of
        I_list [] \<Rightarrow> Inr (I_bytes [])
      | I_list [x] \<Rightarrow> Inr x
      | I_list xs \<Rightarrow> bindE (mapE byte_of xs) (\<lambda>bs. Inr (I_bytes (concat bs)))
      | _ \<Rightarrow> Inr v)"

definition has_len :: "'r init \<Rightarrow> bool" where
  "has_len v \<longleftrightarrow> (case v of I_str _ \<Rightarrow> True | I_bytes _ \<Rightarrow> True | I_list _ \<Rightarrow> True | _ \<Rightarrow> False)"

text \<open>\<^verbatim>\<open>ChannelByte.preprocess_value\<close> and \<^verbatim>\<open>ChannelChar.preprocess_value\<close> for values that are no arrays of \<^verbatim>\<open>numpy\<close>.\<close>

definition preprocess_byte :: "nat \<Rightarrow> bool \<Rightarrow> 'r init \<Rightarrow> 'r init result" where
  "preprocess_byte max_length strip_null v =
     bindE (preprocess_init max_length v) (\<lambda>v.
     bindE (unwrap_bytes v) (\<lambda>v.
     bindE (if max_length = 1 \<and> \<not> has_len v then bindE (byte_of v) (\<lambda>b. Inr (I_bytes b)) else Inr v) (\<lambda>v.
       case v of
         I_str _ \<Rightarrow> Inl CaprotoValueError
       | I_bytes b \<Rightarrow> Inr (I_bytes (if strip_null then rstrip0 b else b))
       | _ \<Rightarrow> if strip_null then Inl AttributeError else Inr v)))"

definition preprocess_char :: "nat \<Rightarrow> (bytes \<Rightarrow> pystr result) \<Rightarrow> 'r init \<Rightarrow> 'r init result" where
  "preprocess_char max_length decode v =
     bindE (preprocess_init max_length v) (\<lambda>v.
     bindE (unwrap_bytes v) (\<lambda>v.
     bindE (if max_length = 1 \<and> \<not> has_len v
            then bindE (byte_of v) (\<lambda>b. bindE (decode b) (\<lambda>s. Inr (I_str s))) else Inr v) (\<lambda>v.
       case v of
         I_bytes b \<Rightarrow> bindE (decode b) (\<lambda>s. Inr (I_str s))
       | I_str s \<Rightarrow> Inr v
       | _ \<Rightarrow> Inl CaprotoValueError)))"

text \<open>The keyword arguments of the classes beyond those that a property passes itself.\<close>

definition base_kwargs :: "string list" where
  "base_kwargs = [''doc'', ''logger'', ''timestamp'', ''string_encoding'', ''reported_record_type'', ''max_subscription_backlog'']"

definition numeric_kwargs :: "string list" where
  "numeric_kwargs = [''units'', ''upper_disp_limit'', ''lower_disp_limit'', ''upper_alarm_limit'', ''upper_warning_limit'',
     ''lower_warning_limit'', ''lower_alarm_limit'', ''upper_ctrl_limit'', ''lower_ctrl_limit'', ''value_atol'', ''log_atol'']"

fun class_kwargs :: "pv_class \<Rightarrow> string list" where
  "class_kwargs Pv_Char = [''report_as_string'']"
| "class_kwargs Pv_Byte = ''strip_null_terminator'' # numeric_kwargs"
| "class_kwargs Pv_Short = numeric_kwargs"
| "class_kwargs Pv_Integer = numeric_kwargs"
| "class_kwargs Pv_Float = ''precision'' # numeric_kwargs"
| "class_kwargs Pv_Double = ''precision'' # numeric_kwargs"
| "class_kwargs Pv_String = [''long_string_max_length'']"
| "class_kwargs Pv_Enum = [''enum_strings'']"
| "class_kwargs Pv_BoolEnum = [''enum_strings'']"

text \<open>A flag among them is true unless it is one of the false values.\<close>

definition flag :: "string \<Rightarrow> bool \<Rightarrow> (string \<times> 'r::zero init) list \<Rightarrow> bool" where
  "flag k dflt kwargs =
     (case dget kwargs k of
        None \<Rightarrow> dflt
      | Some v \<Rightarrow> (case v of I_none \<Rightarrow> False | I_bool b \<Rightarrow> b | I_int i \<Rightarrow> i \<noteq> 0 | I_str s \<Rightarrow> s \<noteq> [] | I_bytes b \<Rightarrow> b \<noteq> []
                  | I_list xs \<Rightarrow> xs \<noteq> [] | I_float x \<Rightarrow> x \<noteq> 0 | I_enum _ m \<Rightarrow> snd m \<noteq> 0))"

definition decoder :: "('r, 'h) env \<Rightarrow> (string \<times> 'r init) list \<Rightarrow> bytes \<Rightarrow> pystr result" where
  "decoder ev kwargs b =
     (case dget kwargs ''string_encoding'' of
        None \<Rightarrow> cd_decode latin1 b
      | Some (I_str s) \<Rightarrow> bindE (ev_codec ev s) (\<lambda>c. cd_decode c b)
      | Some _ \<Rightarrow> Inl TypeError)"

definition text_items :: "'r init \<Rightarrow> pystr list result" where
  "text_items v =
     (case v of
        I_none \<Rightarrow> Inr []
      | I_list xs \<Rightarrow> mapE (\<lambda>x. case x of I_str s \<Rightarrow> Inr s | _ \<Rightarrow> Inl TypeError) xs
      | _ \<Rightarrow> Inl TypeError)"

text \<open>\<^verbatim>\<open>_enum_instance_to_enum_strings\<close>: a value that no member has gets a made-up name.\<close>

definition enum_instance_to_enum_strings :: "(pystr \<times> int) list \<Rightarrow> pystr list" where
  "enum_instance_to_enum_strings ms =
     map (\<lambda>i. case find (\<lambda>(n, v). v = i) ms of Some (n, _) \<Rightarrow> n | None \<Rightarrow> lit ''unset_'' @ show_int i)
       [0..fold max (map snd ms) (snd (hd ms))]"

text \<open>\<^verbatim>\<open>PvpropertyEnum.__init__\<close> and \<^verbatim>\<open>PvpropertyBoolEnum.__init__\<close>: the value and the strings they pass on.\<close>

definition enum_arguments :: "pv_class \<Rightarrow> 'r init \<Rightarrow> 'r init option \<Rightarrow> ('r init \<times> 'r init) result" where
  "enum_arguments c v strings =
     (let given = (case strings of None \<Rightarrow> I_none | Some s \<Rightarrow> s)
      in if c = Pv_BoolEnum then Inr (v, case given of I_none \<Rightarrow> I_list [I_str (lit ''Off''), I_str (lit ''On'')] | _ \<Rightarrow> given)
         else case v of
           I_enum ms m \<Rightarrow>
             (case given of
                I_none \<Rightarrow> Inr (I_str (fst m), I_list (map I_str (enum_instance_to_enum_strings ms)))
              | _ \<Rightarrow> Inl CaprotoValueError)
         | _ \<Rightarrow> Inr (v, given))"

text \<open>The initial value of a channel, as its class prepares it.\<close>

definition prepare_value :: "('r::zero, 'h) env \<Rightarrow> pv_class \<Rightarrow> (string \<times> 'r init) list \<Rightarrow> nat \<Rightarrow> 'r init \<Rightarrow> 'r init result" where
  "prepare_value ev c kwargs max_length v =
     (if c = Pv_Char then preprocess_char max_length (decoder ev kwargs) v
      else if c = Pv_Byte then
        (if dget kwargs ''string_encoding'' \<notin> {None, Some I_none} then Inl CaprotoValueError
         else preprocess_byte max_length (flag ''strip_null_terminator'' True kwargs) v)
      else preprocess_init max_length v)"

definition MAX_SUBSCRIPTION_BACKLOG :: int where "MAX_SUBSCRIPTION_BACKLOG = 1000"
definition MIN_SUBSCRIPTION_BACKLOG :: int where "MIN_SUBSCRIPTION_BACKLOG = 10"
definition BACKLOG_WARN_THRESHOLD :: int where "BACKLOG_WARN_THRESHOLD = 15000000"

text \<open>\<^verbatim>\<open>_check_subscription_backlog_settings\<close>, with the reduction enabled as it is by default.\<close>

definition checked_backlog :: "nat \<Rightarrow> int \<Rightarrow> int" where
  "checked_backlog max_length backlog =
     (if max_length \<le> 1 \<or> int max_length * backlog < BACKLOG_WARN_THRESHOLD then backlog
      else max (BACKLOG_WARN_THRESHOLD div int max_length) MIN_SUBSCRIPTION_BACKLOG)"

text \<open>The constructor of the channel data, without the fields: every class takes its own keyword arguments only.\<close>

definition channel_init :: "('r::zero, 'h) env \<Rightarrow> pystr \<Rightarrow> ('r, 'h) pvspec \<Rightarrow> pv_class \<Rightarrow> bool \<Rightarrow> 'r init \<Rightarrow> ('r, 'h) data result" where
  "channel_init ev pvname spec c ro v =
     (let kwargs = ps_kwargs spec;
          is_enum = (c = Pv_Enum \<or> c = Pv_BoolEnum);
          string = (c = Pv_Char \<and> flag ''report_as_string'' False kwargs)
      in if list_ex (\<lambda>(k, _). k \<notin> set (base_kwargs @ class_kwargs c)) kwargs then Inl TypeError
         else bindE (if is_enum then enum_arguments c v (dget kwargs ''enum_strings'') else Inr (v, I_none)) (\<lambda>(v, strings).
         let max_length = (case ps_max_length spec of Some n \<Rightarrow> n | None \<Rightarrow> max (calculate_length c v) 1)
         in bindE (prepare_value ev c kwargs max_length v) (\<lambda>v.
            bindE (text_items strings) (\<lambda>strings.
            bindE (validate_enum_strings strings) (\<lambda>strings.
            bindE (case dget kwargs ''max_subscription_backlog'' of
                     None \<Rightarrow> Inr MAX_SUBSCRIPTION_BACKLOG | Some (I_int b) \<Rightarrow> Inr b | Some _ \<Rightarrow> Inl TypeError) (\<lambda>backlog.
            Inr (Data pvname spec c ro v max_length strings string
                  (checked_backlog (if string then 1 else max_length) backlog) [])))))))"

section \<open>Groups\<close>

text \<open>The instance of a group: \<^verbatim>\<open>prefix\<close>, \<^verbatim>\<open>macros\<close>, \<^verbatim>\<open>pvdb\<close>, \<^verbatim>\<open>attr_pvdb\<close>, \<^verbatim>\<open>attr_to_pvname\<close> and \<^verbatim>\<open>groups\<close>.\<close>

datatype ('r, 'h) group =
  Group (g_prefix: pystr) (g_macros: "(pystr \<times> pystr) list") (g_pvdb: "(pystr \<times> ('r, 'h) data) list")
    (g_attr_pvdb: "(string \<times> ('r, 'h) data) list") (g_attr_to_pvname: "(string \<times> pystr) list")
    (g_groups: "(string \<times> ('r, 'h) group) list")

text \<open>\<^verbatim>\<open>attr.rsplit('.', 1)\<close> of a name with a dot.\<close>

definition rsplit_dot :: "string \<Rightarrow> string \<times> string" where
  "rsplit_dot attr =
     (rev (drop 1 (dropWhile (\<lambda>c. c \<noteq> CHR ''.'') (rev attr))), rev (takeWhile (\<lambda>c. c \<noteq> CHR ''.'') (rev attr)))"

text \<open>The data of an attribute of \<^verbatim>\<open>_pvs_\<close>: those of a subgroup exist already.\<close>

definition attr_data ::
  "(('r, 'h) pvspec \<Rightarrow> ('r, 'h) data result) \<Rightarrow> (string \<times> ('r, 'h) group) list \<Rightarrow> string \<Rightarrow> ('r, 'h) pvspec
     \<Rightarrow> (pystr \<times> ('r, 'h) data) result" where
  "attr_data mk groups attr spec =
     (if CHR ''.'' \<in> set attr then
        (case rsplit_dot attr of (group_attr, sub_attr) \<Rightarrow>
           bindE (getitem groups group_attr) (\<lambda>g.
           bindE (getitem (g_attr_pvdb g) sub_attr) (\<lambda>d.
           bindE (getitem (g_attr_to_pvname g) sub_attr) (\<lambda>pvname. Inr (pvname, d)))))
      else bindE (mk spec) (\<lambda>d. Inr (d_pvname d, d)))"

fun create_pvs ::
  "(('r, 'h) pvspec \<Rightarrow> ('r, 'h) data result) \<Rightarrow> (string \<times> ('r, 'h) group) list \<Rightarrow> (string \<times> ('r, 'h) pvspec) list
     \<Rightarrow> (pystr \<times> ('r, 'h) data) list \<times> (string \<times> ('r, 'h) data) list \<times> (string \<times> pystr) list
     \<Rightarrow> ((pystr \<times> ('r, 'h) data) list \<times> (string \<times> ('r, 'h) data) list \<times> (string \<times> pystr) list) result" where
  "create_pvs mk groups [] tables = Inr tables"
| "create_pvs mk groups ((attr, spec) # pvs) (db, attrs, names) =
     (case attr_data mk groups attr spec of
        Inl e \<Rightarrow> Inl e
      | Inr (pvname, d) \<Rightarrow>
          if dget db pvname \<noteq> None then Inl CaprotoRuntimeError
          else create_pvs mk groups pvs (dset pvname d db, dset attr d attrs, dset attr pvname names))"

text \<open>
  \<^verbatim>\<open>PVGroup.__init__\<close> and \<^verbatim>\<open>_create_pvdb\<close>. Arguments of a subclass of \<^verbatim>\<open>PVGroup\<close> with a constructor of its own are left out.
  The prefix of a subgroup follows the expanded prefix of its parent and is expanded again, with the macros of both.
\<close>

fun create_group ::
  "('r, 'h) env \<Rightarrow> (pystr \<Rightarrow> (pystr \<times> pystr) list \<Rightarrow> ('r, 'h) pvspec \<Rightarrow> ('r, 'h) data result) \<Rightarrow> pystr \<Rightarrow> (pystr \<times> pystr) list
     \<Rightarrow> ('r, 'h) group_class \<Rightarrow> ('r, 'h) group result"
and create_subgroups ::
  "('r, 'h) env \<Rightarrow> (pystr \<Rightarrow> (pystr \<times> pystr) list \<Rightarrow> ('r, 'h) pvspec \<Rightarrow> ('r, 'h) data result) \<Rightarrow> pystr \<Rightarrow> (pystr \<times> pystr) list
     \<Rightarrow> (string \<times> ('r, 'h) subgroup) list \<Rightarrow> (string \<times> ('r, 'h) group) list \<Rightarrow> (string \<times> ('r, 'h) group) list result" where
  "create_group ev mk prefix macros (Group_class mro pvs subs) =
     bindE (expand_macros ev macros prefix) (\<lambda>p.
     bindE (create_subgroups ev mk p macros subs []) (\<lambda>groups.
     bindE (create_pvs (mk p macros) groups pvs ([], [], [])) (\<lambda>(db, attrs, names).
       Inr (Group p macros db attrs names groups))))"
| "create_subgroups ev mk p macros [] groups = Inr groups"
| "create_subgroups ev mk p macros ((attr, Subgroup pre ms cls) # subs) groups =
     (if dget groups attr \<noteq> None then create_subgroups ev mk p macros subs groups
      else bindE (create_group ev mk (p @ pre) (dict_update macros ms) cls) (\<lambda>g.
             create_subgroups ev mk p macros subs
               (dict_update (dset attr g groups) (map (\<lambda>(sub, h). (attr @ ''.'' @ sub, h)) (g_groups g)))))"

section \<open>Properties and the fields of records\<close>

fun default_value :: "dtype \<Rightarrow> 'r::zero init" where
  "default_value (D_type t) = (case t of T_str \<Rightarrow> I_str [] | T_float \<Rightarrow> I_float 0 | T_bool \<Rightarrow> I_bool False | _ \<Rightarrow> I_int 0)"
| "default_value (D_channel t) =
     (if t \<in> {CT_STRING, CT_CHAR} then I_str [] else if t \<in> {CT_DOUBLE, CT_FLOAT} then I_float 0 else I_int 0)"
| "default_value (D_class _ _) = I_int 0"

text \<open>The customized hooks of fields: the properties are looked up in the class of the record and copied into a subclass.\<close>

fun patch_fields ::
  "('r, 'h) group_class \<Rightarrow> ((string \<times> hook_kind) \<times> 'h) list \<Rightarrow> (string \<times> ('r, 'h) member) list
     \<Rightarrow> (string \<times> ('r, 'h) member) list result" where
  "patch_fields cls [] body = Inr body"
| "patch_fields cls (((prop, kind), f) # fs) body =
     bindE (case dget body prop of Some m \<Rightarrow> Inr m | None \<Rightarrow> class_getattr cls prop) (\<lambda>m.
       case m of
         Prop spec \<Rightarrow>
           patch_fields cls fs
             (dset prop (Prop (set_hook kind f (if dget body prop = None then copy_pvproperty spec else spec))) body)
       | _ \<Rightarrow> Inl AttributeError)"

definition patched_class :: "('r, 'h) group_class \<Rightarrow> ((string \<times> hook_kind) \<times> 'h) list \<Rightarrow> ('r, 'h) group_class result" where
  "patched_class cls fs = bindE (patch_fields cls fs []) (new_class (fst (hd (gc_mro cls)) @ ''_fields'') [cls])"

text \<open>\<^verbatim>\<open>field._data['value'] = v\<close>.\<close>

definition data_with_value :: "'r init \<Rightarrow> ('r, 'h) data \<Rightarrow> ('r, 'h) data" where
  "data_with_value v d =
     Data (d_pvname d) (d_spec d) (d_class d) (d_read_only d) v (d_max_length d) (d_enum_strings d) (d_report_as_string d)
       (d_backlog d) (d_fields d)"

definition store_in_field :: "string \<Rightarrow> 'r init \<Rightarrow> ('r, 'h) group \<Rightarrow> ('r, 'h) group result" where
  "store_in_field attr v g =
     bindE (getitem (g_attr_pvdb g) attr) (\<lambda>d.
       let d1 = data_with_value v d
       in Inr (Group (g_prefix g) (g_macros g) (dset (d_pvname d) d1 (g_pvdb g)) (dset attr d1 (g_attr_pvdb g)) (g_attr_to_pvname g)
                 (g_groups g)))"

text \<open>What \<^verbatim>\<open>records.RecordFieldGroup.__init__\<close> adds: the fields \<^verbatim>\<open>NAME\<close> and \<^verbatim>\<open>RTYP\<close>.\<close>

definition name_fields :: "pystr \<Rightarrow> ('r, 'h) group_class \<Rightarrow> ('r, 'h) group \<Rightarrow> ('r, 'h) group result" where
  "name_fields pvname cls g =
     (if ''records.RecordFieldGroup'' \<in> set (map fst (gc_mro cls)) then
        bindE (store_in_field ''record_name'' (I_str pvname) g) (\<lambda>g.
        bindE (class_getattr cls ''_record_type'') (\<lambda>m.
          case m of Text t \<Rightarrow> store_in_field ''record_type'' (I_str t) g | _ \<Rightarrow> Inl AttributeError))
      else Inr g)"

text \<open>
  \<^verbatim>\<open>PVSpec.create\<close> for a group, with the part of \<^verbatim>\<open>PvpropertyData.__init__\<close> that makes the fields of a record. A field may be
  a record in turn; \<open>n\<close> bounds this nesting, as Python's recursion limit does. Whatever the constructor raises becomes
  \<^verbatim>\<open>CaprotoRuntimeError\<close>.
\<close>

fun create_data ::
  "('r::zero, 'h) env \<Rightarrow> nat \<Rightarrow> pystr \<Rightarrow> (pystr \<times> pystr) list \<Rightarrow> ('r, 'h) pvspec \<Rightarrow> ('r, 'h) data result" where
  "create_data ev n prefix macros spec =
     bindE (case ps_name spec of None \<Rightarrow> Inl AttributeError | Some name \<Rightarrow> expand_macros ev macros name) (\<lambda>name.
     bindE (get_data_class spec) (\<lambda>(c, ro).
       if list_ex (\<lambda>(k, _). k \<in> {''group'', ''pvspec'', ''value'', ''max_length'', ''alarm'', ''pvname'', ''record''}) (ps_kwargs spec)
       then Inl TypeError
       else
         let pvname = prefix @ name;
             v = (case ps_value spec of I_none \<Rightarrow> default_value (ps_dtype spec) | v \<Rightarrow> v)
         in case bindE (channel_init ev pvname spec c ro v) (\<lambda>d.
                   case ps_record spec of
                     None \<Rightarrow> Inr d
                   | Some r \<Rightarrow>
                       (case (dget (ev_records ev) r, n) of
                          (None, _) \<Rightarrow> Inl ValueError
                        | (Some cls, 0) \<Rightarrow> Inl RuntimeError
                        | (Some cls, Suc m) \<Rightarrow>
                            bindE (patched_class cls (ps_fields spec)) (\<lambda>cls.
                            bindE (create_group ev (create_data ev m) [] [] cls) (\<lambda>g.
                            bindE (name_fields pvname cls g) (\<lambda>g.
                              Inr (Data pvname spec c ro (d_value d) (d_max_length d) (d_enum_strings d) (d_report_as_string d)
                                    (d_backlog d) (g_pvdb g))))))) of
              Inl _ \<Rightarrow> Inl CaprotoRuntimeError
            | Inr d \<Rightarrow> Inr d))"

declare create_data.simps [simp del]

definition make_group ::
  "('r::zero, 'h) env \<Rightarrow> nat \<Rightarrow> pystr \<Rightarrow> (pystr \<times> pystr) list \<Rightarrow> ('r, 'h) group_class \<Rightarrow> ('r, 'h) group result" where
  "make_group ev n = create_group ev (create_data ev n)"

end
