(* ===== verification/CA_Records.thy ===== *)
theory CA_Records
  imports CA_Menus CA_Group
begin

text \<open>
  The fields of EPICS records as \<^verbatim>\<open>caproto/server/records/base.py\<close> and \<^verbatim>\<open>mixins.py\<close> declare them: for every class the body of its
  class statement, in the order of the source, with the attribute and the \<^verbatim>\<open>pvproperty\<close> it is assigned. Documentation strings are
  left out.
\<close>

section \<open>Literals and hooks\<close>

text \<open>A floating point literal as it is written: a decimal mantissa and exponent.\<close>

datatype decimal = Decimal int int

instantiation decimal :: zero
begin

definition zero_decimal :: decimal where "0 = Decimal 0 0"

instance ..

end

text \<open>
  The hooks that \<^verbatim>\<open>records/records.py\<close> and \<^verbatim>\<open>records/utils.py\<close> give to fields: getters and putters linked to an attribute or to
  an enumeration string of the parent, and the putters of \<^verbatim>\<open>SCAN\<close>, \<^verbatim>\<open>PROC\<close> and \<^verbatim>\<open>RVAL\<close>.
\<close>

datatype hook =
    Get_attribute string
  | Set_attribute string
  | Write_metadata string
  | Get_enum_string nat
  | Put_enum_string nat
  | Put_scan_rate
  | Put_process
  | Put_raw_value

type_synonym field = "(decimal, hook) pvspec"

type_synonym body = "(string \<times> field) list"

text \<open>The call of \<^verbatim>\<open>pvproperty\<close> with the keyword arguments that occur here.\<close>

datatype prop_arg = Value "decimal init" | Max_length nat | Enum_strings menu | Report_as_string | Read_only

definition pvproperty :: "string \<Rightarrow> dtype \<Rightarrow> prop_arg list \<Rightarrow> field" where
  "pvproperty name t args =
     fold (\<lambda>arg spec. case arg of
         Value v \<Rightarrow> spec\<lparr>ps_value := v\<rparr>
       | Max_length n \<Rightarrow> spec\<lparr>ps_max_length := Some n\<rparr>
       | Enum_strings m \<Rightarrow> spec\<lparr>ps_kwargs := ps_kwargs spec @ [(''enum_strings'', I_list (map (\<lambda>s. I_str (lit s)) (get_string_tuple m)))]\<rparr>
       | Report_as_string \<Rightarrow> spec\<lparr>ps_kwargs := ps_kwargs spec @ [(''report_as_string'', I_bool True)]\<rparr>
       | Read_only \<Rightarrow> spec\<lparr>ps_read_only := True\<rparr>) args
       \<lparr>ps_hooks = [], ps_attr = None, ps_name = Some (lit name), ps_dtype = t, ps_value = I_none, ps_max_length = None,
        ps_alarm_group = None, ps_read_only = False, ps_fields = [], ps_record = None, ps_kwargs = []\<rparr>"

section \<open>Limits\<close>

definition Limits_body :: body where
  "Limits_body =
    [(''high_alarm_limit'', pvproperty ''HIGH'' (D_channel CT_DOUBLE) []),
     (''high_severity'', pvproperty ''HSV'' (D_channel CT_ENUM) [Enum_strings menuAlarmSevr, Value (I_str (lit (get_string_tuple menuAlarmSevr ! 1)))]),
     (''hihi_alarm_limit'', pvproperty ''HIHI'' (D_channel CT_DOUBLE) []),
     (''hihi_severity'', pvproperty ''HHSV'' (D_channel CT_ENUM) [Enum_strings menuAlarmSevr, Value (I_str (lit (get_string_tuple menuAlarmSevr ! 2)))]),
     (''lolo_alarm_limit'', pvproperty ''LOLO'' (D_channel CT_DOUBLE) []),
     (''lolo_severity'', pvproperty ''LLSV'' (D_channel CT_ENUM) [Enum_strings menuAlarmSevr, Value (I_str (lit (get_string_tuple menuAlarmSevr ! 2)))]),
     (''low_alarm_limit'', pvproperty ''LOW'' (D_channel CT_DOUBLE) []),
     (''low_severity'', pvproperty ''LSV'' (D_channel CT_ENUM) [Enum_strings menuAlarmSevr, Value (I_str (lit (get_string_tuple menuAlarmSevr ! 1)))]),
     (''high_operating_range'', pvproperty ''HOPR'' (D_channel CT_DOUBLE) []),
     (''low_operating_range'', pvproperty ''LOPR'' (D_channel CT_DOUBLE) [])]"

definition LimitsLong_body :: body where
  "LimitsLong_body =
    [(''high_alarm_limit'', pvproperty ''HIGH'' (D_channel CT_LONG) []),
     (''high_severity'', pvproperty ''HSV'' (D_channel CT_ENUM) [Enum_strings menuAlarmSevr, Value (I_str (lit (get_string_tuple menuAlarmSevr ! 1)))]),
     (''hihi_alarm_limit'', pvproperty ''HIHI'' (D_channel CT_LONG) []),
     (''hihi_severity'', pvproperty ''HHSV'' (D_channel CT_ENUM) [Enum_strings menuAlarmSevr, Value (I_str (lit (get_string_tuple menuAlarmSevr ! 2)))]),
     (''lolo_alarm_limit'', pvproperty ''LOLO'' (D_channel CT_LONG) []),
     (''lolo_severity'', pvproperty ''LLSV'' (D_channel CT_ENUM) [Enum_strings menuAlarmSevr, Value (I_str (lit (get_string_tuple menuAlarmSevr ! 2)))]),
     (''low_alarm_limit'', pvproperty ''LOW'' (D_channel CT_LONG) []),
     (''low_severity'', pvproperty ''LSV'' (D_channel CT_ENUM) [Enum_strings menuAlarmSevr, Value (I_str (lit (get_string_tuple menuAlarmSevr ! 1)))]),
     (''high_operating_range'', pvproperty ''HOPR'' (D_channel CT_LONG) []),
     (''low_operating_range'', pvproperty ''LOPR'' (D_channel CT_LONG) [])]"

section \<open>Records\<close>

definition RecordFieldGroup_1 :: body where
  "RecordFieldGroup_1 =
    [(''alarm_acknowledge_severity'', pvproperty ''ACKS'' (D_class Pv_Enum True) [Enum_strings menuAlarmSevr, Read_only]),
     (''alarm_acknowledge_transient'', pvproperty ''ACKT'' (D_class Pv_Enum True) [Enum_strings menuYesNo, Read_only, Value (I_str (lit ''YES''))]),
     (''access_security_group'', pvproperty ''ASG'' (D_class Pv_Char False) [Max_length 29, Report_as_string, Value (I_str (lit ''''))]),
     (''description'', pvproperty ''DESC'' (D_class Pv_Char False) [Max_length 41, Report_as_string, Value (I_str (lit ''''))]),
     (''disable'', pvproperty ''DISA'' (D_class Pv_Short False) []),
     (''disable_putfield'', pvproperty ''DISP'' (D_class Pv_Byte False) []),
     (''disable_alarm_severity'', pvproperty ''DISS'' (D_class Pv_Enum False) [Enum_strings menuAlarmSevr]),
     (''disable_value'', pvproperty ''DISV'' (D_class Pv_Short False) [Value (I_int 1)]),
     (''device_type'', pvproperty ''DTYP'' (D_class Pv_Enum False) [Enum_strings dtyp_base]),
     (''event_name'', pvproperty ''EVNT'' (D_class Pv_Char False) [Max_length 40, Report_as_string, Value (I_str (lit ''''))]),
     (''forward_link'', pvproperty ''FLNK'' (D_class Pv_String False) []),
     (''lock_count'', pvproperty ''LCNT'' (D_class Pv_Byte True) [Read_only]),
     (''record_name'', pvproperty ''NAME'' (D_class Pv_Char True) [Max_length 61, Report_as_string, Read_only, Value (I_str (lit ''''))]),
     (''new_alarm_severity'', pvproperty ''NSEV'' (D_class Pv_Enum True) [Enum_strings menuAlarmSevr, Read_only]),
     (''new_alarm_status'', pvproperty ''NSTA'' (D_class Pv_Enum True) [Enum_strings menuAlarmStat, Read_only]),
     (''record_active'', pvproperty ''PACT'' (D_class Pv_Byte True) [Read_only]),
     (''scan_phase'', pvproperty ''PHAS'' (D_class Pv_Short False) []),
     (''process_at_iocinit'', pvproperty ''PINI'' (D_class Pv_Enum False) [Enum_strings menuPini]),
     (''scheduling_priority'', pvproperty ''PRIO'' (D_class Pv_Enum False) [Enum_strings menuPriority]),
     (''process_record'', pvproperty ''PROC'' (D_class Pv_Byte False) []),
     (''dbputfield_process'', pvproperty ''PUTF'' (D_class Pv_Byte True) [Read_only]),
     (''reprocess'', pvproperty ''RPRO'' (D_class Pv_Byte True) [Read_only]),
     (''scan_rate'', pvproperty ''SCAN'' (D_class Pv_Enum False) [Enum_strings menuScan]),
     (''scanning_disable'', pvproperty ''SDIS'' (D_class Pv_String False) []),
     (''current_alarm_severity'', pvproperty ''SEVR'' (D_class Pv_Enum True) [Enum_strings menuAlarmSevr, Read_only]),
     (''trace_processing'', pvproperty ''TPRO'' (D_class Pv_Byte False) []),
     (''time_stamp_event'', pvproperty ''TSE'' (D_class Pv_Short False) []),
     (''time_stamp_link'', pvproperty ''TSEL'' (D_class Pv_String False) []),
     (''undefined'', pvproperty ''UDF'' (D_class Pv_Byte False) [Value (I_bytes [49])])]"

definition RecordFieldGroup_2 :: body where
  "RecordFieldGroup_2 =
    [(''alarm_status'', pvproperty ''STAT'' (D_class Pv_Enum True) [Enum_strings menuAlarmStat, Read_only, Value (I_str (lit ''NO_ALARM''))]),
     (''undefined_alarm_severity'', pvproperty ''UDFS'' (D_class Pv_Enum False) [Enum_strings menuAlarmSevr, Value (I_str (lit ''INVALID''))])]"

definition RecordFieldGroup_body :: body where
  "RecordFieldGroup_body = RecordFieldGroup_1 @ RecordFieldGroup_2"

definition AiFields_body :: body where
  "AiFields_body =
    [(''device_type'', pvproperty ''DTYP'' (D_class Pv_Enum False) [Enum_strings dtyp_ai]),
     (''current_raw_value'', pvproperty ''RVAL'' (D_class Pv_Integer False) []),
     (''initialized'', pvproperty ''INIT'' (D_class Pv_Short True) [Read_only]),
     (''last_val_monitored'', pvproperty ''MLST'' (D_class Pv_Double True) [Read_only]),
     (''last_value_alarmed'', pvproperty ''LALM'' (D_class Pv_Double True) [Read_only]),
     (''last_value_archived'', pvproperty ''ALST'' (D_class Pv_Double True) [Read_only]),
     (''lastbreak_point'', pvproperty ''LBRK'' (D_class Pv_Short True) [Read_only]),
     (''previous_raw_value'', pvproperty ''ORAW'' (D_class Pv_Integer True) [Read_only]),
     (''raw_offset'', pvproperty ''ROFF'' (D_class Pv_Integer False) []),
     (''simulation_mode'', pvproperty ''SIMM'' (D_class Pv_Enum False) [Enum_strings menuSimm]),
     (''simulation_value'', pvproperty ''SVAL'' (D_class Pv_Double False) []),
     (''alarm_deadband'', pvproperty ''HYST'' (D_class Pv_Double False) []),
     (''adjustment_offset'', pvproperty ''AOFF'' (D_class Pv_Double False) []),
     (''adjustment_slope'', pvproperty ''ASLO'' (D_class Pv_Double False) [Value (I_int 1)]),
     (''engineer_units_full'', pvproperty ''EGUF'' (D_class Pv_Double False) []),
     (''engineer_units_low'', pvproperty ''EGUL'' (D_class Pv_Double False) []),
     (''linearization'', pvproperty ''LINR'' (D_class Pv_Enum False) [Enum_strings menuConvert]),
     (''raw_to_egu_offset'', pvproperty ''EOFF'' (D_class Pv_Double False) []),
     (''raw_to_egu_slope'', pvproperty ''ESLO'' (D_class Pv_Double False) [Value (I_int 1)]),
     (''smoothing'', pvproperty ''SMOO'' (D_class Pv_Double False) []),
     (''archive_deadband'', pvproperty ''ADEL'' (D_class Pv_Double False) []),
     (''display_precision'', pvproperty ''PREC'' (D_class Pv_Short False) []),
     (''engineering_units'', pvproperty ''EGU'' (D_class Pv_Char False) [Max_length 16, Report_as_string, Value (I_str (lit ''''))]),
     (''monitor_deadband'', pvproperty ''MDEL'' (D_class Pv_Double False) []),
     (''input_specification'', pvproperty ''INP'' (D_class Pv_String False) []),
     (''simulation_input_link'', pvproperty ''SIOL'' (D_class Pv_String False) []),
     (''simulation_mode_link'', pvproperty ''SIML'' (D_class Pv_String False) []),
     (''simulation_mode_severity'', pvproperty ''SIMS'' (D_class Pv_Enum False) [Enum_strings menuAlarmSevr]),
     (''alarm_filter_time_constant'', pvproperty ''AFTC'' (D_class Pv_Double False) []),
     (''alarm_filter_value'', pvproperty ''AFVL'' (D_class Pv_Double True) [Read_only]),
     (''prev_simulation_mode'', pvproperty ''OLDSIMM'' (D_class Pv_Enum True) [Enum_strings menuSimm, Read_only]),
     (''sim_mode_async_delay'', pvproperty ''SDLY'' (D_class Pv_Double False) [Value (I_float (Decimal (- 1) 0))]),
     (''sim_mode_scan'', pvproperty ''SSCN'' (D_class Pv_Enum False) [Enum_strings menuScan, Value (I_int 0)])]"

definition AsubFields_1 :: body where
  "AsubFields_1 =
    [(''device_type'', pvproperty ''DTYP'' (D_class Pv_Enum False) [Enum_strings dtyp_aSub]),
     (''bad_return_severity'', pvproperty ''BRSV'' (D_class Pv_Enum False) [Enum_strings menuAlarmSevr]),
     (''output_event_flag'', pvproperty ''EFLG'' (D_class Pv_Enum False) [Enum_strings aSubEFLG, Value (I_int 1)]),
     (''type_of_a'', pvproperty ''FTA'' (D_class Pv_Enum True) [Enum_strings menuFtype, Read_only, Value (I_str (lit ''DOUBLE''))]),
     (''type_of_b'', pvproperty ''FTB'' (D_class Pv_Enum True) [Enum_strings menuFtype, Read_only, Value (I_str (lit ''DOUBLE''))]),
     (''type_of_c'', pvproperty ''FTC'' (D_class Pv_Enum True) [Enum_strings menuFtype, Read_only, Value (I_str (lit ''DOUBLE''))]),
     (''type_of_d'', pvproperty ''FTD'' (D_class Pv_Enum True) [Enum_strings menuFtype, Read_only, Value (I_str (lit ''DOUBLE''))]),
     (''type_of_e'', pvproperty ''FTE'' (D_class Pv_Enum True) [Enum_strings menuFtype, Read_only, Value (I_str (lit ''DOUBLE''))]),
     (''type_of_f'', pvproperty ''FTF'' (D_class Pv_Enum True) [Enum_strings menuFtype, Read_only, Value (I_str (lit ''DOUBLE''))]),
     (''type_of_g'', pvproperty ''FTG'' (D_class Pv_Enum True) [Enum_strings menuFtype, Read_only, Value (I_str (lit ''DOUBLE''))]),
     (''type_of_h'', pvproperty ''FTH'' (D_class Pv_Enum True) [Enum_strings menuFtype, Read_only, Value (I_str (lit ''DOUBLE''))]),
     (''type_of_i'', pvproperty ''FTI'' (D_class Pv_Enum True) [Enum_strings menuFtype, Read_only, Value (I_str (lit ''DOUBLE''))]),
     (''type_of_j'', pvproperty ''FTJ'' (D_class Pv_Enum True) [Enum_strings menuFtype, Read_only, Value (I_str (lit ''DOUBLE''))]),
     (''type_of_k'', pvproperty ''FTK'' (D_class Pv_Enum True) [Enum_strings menuFtype, Read_only, Value (I_str (lit ''DOUBLE''))]),
     (''type_of_l'', pvproperty ''FTL'' (D_class Pv_Enum True) [Enum_strings menuFtype, Read_only, Value (I_str (lit ''DOUBLE''))]),
     (''type_of_m'', pvproperty ''FTM'' (D_class Pv_Enum True) [Enum_strings menuFtype, Read_only, Value (I_str (lit ''DOUBLE''))]),
     (''type_of_n'', pvproperty ''FTN'' (D_class Pv_Enum True) [Enum_strings menuFtype, Read_only, Value (I_str (lit ''DOUBLE''))]),
     (''type_of_o'', pvproperty ''FTO'' (D_class Pv_Enum True) [Enum_strings menuFtype, Read_only, Value (I_str (lit ''DOUBLE''))])]"

definition AsubFields_2 :: body where
  "AsubFields_2 =
    [(''type_of_p'', pvproperty ''FTP'' (D_class Pv_Enum True) [Enum_strings menuFtype, Read_only, Value (I_str (lit ''DOUBLE''))]),
     (''type_of_q'', pvproperty ''FTQ'' (D_class Pv_Enum True) [Enum_strings menuFtype, Read_only, Value (I_str (lit ''DOUBLE''))]),
     (''type_of_r'', pvproperty ''FTR'' (D_class Pv_Enum True) [Enum_strings menuFtype, Read_only, Value (I_str (lit ''DOUBLE''))]),
     (''type_of_s'', pvproperty ''FTS'' (D_class Pv_Enum True) [Enum_strings menuFtype, Read_only, Value (I_str (lit ''DOUBLE''))]),
     (''type_of_t'', pvproperty ''FTT'' (D_class Pv_Enum True) [Enum_strings menuFtype, Read_only, Value (I_str (lit ''DOUBLE''))]),
     (''type_of_u'', pvproperty ''FTU'' (D_class Pv_Enum True) [Enum_strings menuFtype, Read_only, Value (I_str (lit ''DOUBLE''))]),
     (''type_of_vala'', pvproperty ''FTVA'' (D_class Pv_Enum True) [Enum_strings menuFtype, Read_only, Value (I_str (lit ''DOUBLE''))]),
     (''type_of_valb'', pvproperty ''FTVB'' (D_class Pv_Enum True) [Enum_strings menuFtype, Read_only, Value (I_str (lit ''DOUBLE''))]),
     (''type_of_valc'', pvproperty ''FTVC'' (D_class Pv_Enum True) [Enum_strings menuFtype, Read_only, Value (I_str (lit ''DOUBLE''))]),
     (''type_of_vald'', pvproperty ''FTVD'' (D_class Pv_Enum True) [Enum_strings menuFtype, Read_only, Value (I_str (lit ''DOUBLE''))]),
     (''type_of_vale'', pvproperty ''FTVE'' (D_class Pv_Enum True) [Enum_strings menuFtype, Read_only, Value (I_str (lit ''DOUBLE''))]),
     (''type_of_valf'', pvproperty ''FTVF'' (D_class Pv_Enum True) [Enum_strings menuFtype, Read_only, Value (I_str (lit ''DOUBLE''))]),
     (''type_of_valg'', pvproperty ''FTVG'' (D_class Pv_Enum True) [Enum_strings menuFtype, Read_only, Value (I_str (lit ''DOUBLE''))]),
     (''type_of_valh'', pvproperty ''FTVH'' (D_class Pv_Enum True) [Enum_strings menuFtype, Read_only, Value (I_str (lit ''DOUBLE''))]),
     (''type_of_vali'', pvproperty ''FTVI'' (D_class Pv_Enum True) [Enum_strings menuFtype, Read_only, Value (I_str (lit ''DOUBLE''))]),
     (''type_of_valj'', pvproperty ''FTVJ'' (D_class Pv_Enum True) [Enum_strings menuFtype, Read_only, Value (I_str (lit ''DOUBLE''))]),
     (''type_of_valk'', pvproperty ''FTVK'' (D_class Pv_Enum True) [Enum_strings menuFtype, Read_only, Value (I_str (lit ''DOUBLE''))]),
     (''type_of_vall'', pvproperty ''FTVL'' (D_class Pv_Enum True) [Enum_strings menuFtype, Read_only, Value (I_str (lit ''DOUBLE''))])]"

definition AsubFields_3 :: body where
  "AsubFields_3 =
    [(''type_of_valm'', pvproperty ''FTVM'' (D_class Pv_Enum True) [Enum_strings menuFtype, Read_only, Value (I_str (lit ''DOUBLE''))]),
     (''type_of_valn'', pvproperty ''FTVN'' (D_class Pv_Enum True) [Enum_strings menuFtype, Read_only, Value (I_str (lit ''DOUBLE''))]),
     (''type_of_valo'', pvproperty ''FTVO'' (D_class Pv_Enum True) [Enum_strings menuFtype, Read_only, Value (I_str (lit ''DOUBLE''))]),
     (''type_of_valp'', pvproperty ''FTVP'' (D_class Pv_Enum True) [Enum_strings menuFtype, Read_only, Value (I_str (lit ''DOUBLE''))]),
     (''type_of_valq'', pvproperty ''FTVQ'' (D_class Pv_Enum True) [Enum_strings menuFtype, Read_only, Value (I_str (lit ''DOUBLE''))]),
     (''type_of_valr'', pvproperty ''FTVR'' (D_class Pv_Enum True) [Enum_strings menuFtype, Read_only, Value (I_str (lit ''DOUBLE''))]),
     (''type_of_vals'', pvproperty ''FTVS'' (D_class Pv_Enum True) [Enum_strings menuFtype, Read_only, Value (I_str (lit ''DOUBLE''))]),
     (''type_of_valt'', pvproperty ''FTVT'' (D_class Pv_Enum True) [Enum_strings menuFtype, Read_only, Value (I_str (lit ''DOUBLE''))]),
     (''type_of_valu'', pvproperty ''FTVU'' (D_class Pv_Enum True) [Enum_strings menuFtype, Read_only, Value (I_str (lit ''DOUBLE''))]),
     (''initialize_subr_name'', pvproperty ''INAM'' (D_class Pv_Char True) [Max_length 41, Report_as_string, Read_only, Value (I_str (lit ''''))]),
     (''input_link_a'', pvproperty ''INPA'' (D_class Pv_String False) []),
     (''input_link_b'', pvproperty ''INPB'' (D_class Pv_String False) []),
     (''input_link_c'', pvproperty ''INPC'' (D_class Pv_String False) []),
     (''input_link_d'', pvproperty ''INPD'' (D_class Pv_String False) []),
     (''input_link_e'', pvproperty ''INPE'' (D_class Pv_String False) []),
     (''input_link_f'', pvproperty ''INPF'' (D_class Pv_String False) []),
     (''input_link_g'', pvproperty ''INPG'' (D_class Pv_String False) []),
     (''input_link_h'', pvproperty ''INPH'' (D_class Pv_String False) []),
     (''input_link_i'', pvproperty ''INPI'' (D_class Pv_String False) []),
     (''input_link_j'', pvproperty ''INPJ'' (D_class Pv_String False) []),
     (''input_link_k'', pvproperty ''INPK'' (D_class Pv_String False) []),
     (''input_link_l'', pvproperty ''INPL'' (D_class Pv_String False) []),
     (''input_link_m'', pvproperty ''INPM'' (D_class Pv_String False) []),
     (''input_link_n'', pvproperty ''INPN'' (D_class Pv_String False) []),
     (''input_link_o'', pvproperty ''INPO'' (D_class Pv_String False) []),
     (''input_link_p'', pvproperty ''INPP'' (D_class Pv_String False) []),
     (''input_link_q'', pvproperty ''INPQ'' (D_class Pv_String False) []),
     (''input_link_r'', pvproperty ''INPR'' (D_class Pv_String False) []),
     (''input_link_s'', pvproperty ''INPS'' (D_class Pv_String False) []),
     (''input_link_t'', pvproperty ''INPT'' (D_class Pv_String False) []),
     (''input_link_u'', pvproperty ''INPU'' (D_class Pv_String False) []),
     (''subr_input_enable'', pvproperty ''LFLG'' (D_class Pv_Enum False) [Enum_strings aSubLFLG])]"

definition AsubFields_4 :: body where
  "AsubFields_4 =
    [(''num_elements_in_a'', pvproperty ''NEA'' (D_class Pv_Integer True) [Read_only, Value (I_int 1)]),
     (''num_elements_in_b'', pvproperty ''NEB'' (D_class Pv_Integer True) [Read_only, Value (I_int 1)]),
     (''num_elements_in_c'', pvproperty ''NEC'' (D_class Pv_Integer True) [Read_only, Value (I_int 1)]),
     (''num_elements_in_d'', pvproperty ''NED'' (D_class Pv_Integer True) [Read_only, Value (I_int 1)]),
     (''num_elements_in_e'', pvproperty ''NEE'' (D_class Pv_Integer True) [Read_only, Value (I_int 1)]),
     (''num_elements_in_f'', pvproperty ''NEF'' (D_class Pv_Integer True) [Read_only, Value (I_int 1)]),
     (''num_elements_in_g'', pvproperty ''NEG'' (D_class Pv_Integer True) [Read_only, Value (I_int 1)]),
     (''num_elements_in_h'', pvproperty ''NEH'' (D_class Pv_Integer True) [Read_only, Value (I_int 1)]),
     (''num_elements_in_i'', pvproperty ''NEI'' (D_class Pv_Integer True) [Read_only, Value (I_int 1)]),
     (''num_elements_in_j'', pvproperty ''NEJ'' (D_class Pv_Integer True) [Read_only, Value (I_int 1)]),
     (''num_elements_in_k'', pvproperty ''NEK'' (D_class Pv_Integer True) [Read_only, Value (I_int 1)]),
     (''num_elements_in_l'', pvproperty ''NEL'' (D_class Pv_Integer True) [Read_only, Value (I_int 1)]),
     (''num_elements_in_m'', pvproperty ''NEM'' (D_class Pv_Integer True) [Read_only, Value (I_int 1)]),
     (''num_elements_in_n'', pvproperty ''NEN'' (D_class Pv_Integer True) [Read_only, Value (I_int 1)]),
     (''num_elements_in_o'', pvproperty ''NEO'' (D_class Pv_Integer True) [Read_only, Value (I_int 1)]),
     (''num_elements_in_p'', pvproperty ''NEP'' (D_class Pv_Integer True) [Read_only, Value (I_int 1)]),
     (''num_elements_in_q'', pvproperty ''NEQ'' (D_class Pv_Integer True) [Read_only, Value (I_int 1)]),
     (''num_elements_in_r'', pvproperty ''NER'' (D_class Pv_Integer True) [Read_only, Value (I_int 1)]),
     (''num_elements_in_s'', pvproperty ''NES'' (D_class Pv_Integer True) [Read_only, Value (I_int 1)]),
     (''num_elements_in_t'', pvproperty ''NET'' (D_class Pv_Integer True) [Read_only, Value (I_int 1)]),
     (''num_elements_in_u'', pvproperty ''NEU'' (D_class Pv_Integer True) [Read_only, Value (I_int 1)])]"

definition AsubFields_5 :: body where
  "AsubFields_5 =
    [(''num_elements_in_vala'', pvproperty ''NEVA'' (D_class Pv_Integer True) [Read_only, Value (I_int 1)]),
     (''num_elements_in_valb'', pvproperty ''NEVB'' (D_class Pv_Integer True) [Read_only, Value (I_int 1)]),
     (''num_elements_in_valc'', pvproperty ''NEVC'' (D_class Pv_Integer True) [Read_only, Value (I_int 1)]),
     (''num_elements_in_vald'', pvproperty ''NEVD'' (D_class Pv_Integer True) [Read_only, Value (I_int 1)]),
     (''num_elements_in_vale'', pvproperty ''NEVE'' (D_class Pv_Integer True) [Read_only, Value (I_int 1)]),
     (''num_elements_in_valf'', pvproperty ''NEVF'' (D_class Pv_Integer True) [Read_only, Value (I_int 1)]),
     (''num_elements_in_valg'', pvproperty ''NEVG'' (D_class Pv_Integer True) [Read_only, Value (I_int 1)]),
     (''num_elements_in_valh'', pvproperty ''NEVH'' (D_class Pv_Integer True) [Read_only, Value (I_int 1)]),
     (''num_elements_in_vali'', pvproperty ''NEVI'' (D_class Pv_Integer True) [Read_only, Value (I_int 1)]),
     (''num_elements_in_valj'', pvproperty ''NEVJ'' (D_class Pv_Integer True) [Read_only, Value (I_int 1)]),
     (''num_elements_in_valk'', pvproperty ''NEVK'' (D_class Pv_Integer True) [Read_only, Value (I_int 1)]),
     (''num_elements_in_vall'', pvproperty ''NEVL'' (D_class Pv_Integer True) [Read_only, Value (I_int 1)]),
     (''num_elements_in_valm'', pvproperty ''NEVM'' (D_class Pv_Integer True) [Read_only, Value (I_int 1)]),
     (''num_elements_in_valn'', pvproperty ''NEVN'' (D_class Pv_Integer True) [Read_only, Value (I_int 1)]),
     (''num_elements_in_valo'', pvproperty ''NEVO'' (D_class Pv_Integer True) [Read_only, Value (I_int 1)]),
     (''num_elements_in_valp'', pvproperty ''NEVP'' (D_class Pv_Integer True) [Read_only, Value (I_int 1)]),
     (''num_elements_in_valq'', pvproperty ''NEVQ'' (D_class Pv_Integer True) [Read_only, Value (I_int 1)]),
     (''num_elements_in_valr'', pvproperty ''NEVR'' (D_class Pv_Integer True) [Read_only, Value (I_int 1)]),
     (''num_elements_in_vals'', pvproperty ''NEVS'' (D_class Pv_Integer True) [Read_only, Value (I_int 1)]),
     (''num_elements_in_valt'', pvproperty ''NEVT'' (D_class Pv_Integer True) [Read_only, Value (I_int 1)]),
     (''num_elements_in_valu'', pvproperty ''NEVU'' (D_class Pv_Integer True) [Read_only, Value (I_int 1)])]"

definition AsubFields_6 :: body where
  "AsubFields_6 =
    [(''max_elements_in_a'', pvproperty ''NOA'' (D_class Pv_Integer True) [Read_only, Value (I_int 1)]),
     (''max_elements_in_b'', pvproperty ''NOB'' (D_class Pv_Integer True) [Read_only, Value (I_int 1)]),
     (''max_elements_in_c'', pvproperty ''NOC'' (D_class Pv_Integer True) [Read_only, Value (I_int 1)]),
     (''max_elements_in_d'', pvproperty ''NOD'' (D_class Pv_Integer True) [Read_only, Value (I_int 1)]),
     (''max_elements_in_e'', pvproperty ''NOE'' (D_class Pv_Integer True) [Read_only, Value (I_int 1)]),
     (''max_elements_in_f'', pvproperty ''NOF'' (D_class Pv_Integer True) [Read_only, Value (I_int 1)]),
     (''max_elements_in_g'', pvproperty ''NOG'' (D_class Pv_Integer True) [Read_only, Value (I_int 1)]),
     (''max_elements_in_h'', pvproperty ''NOH'' (D_class Pv_Integer True) [Read_only, Value (I_int 1)]),
     (''max_elements_in_i'', pvproperty ''NOI'' (D_class Pv_Integer True) [Read_only, Value (I_int 1)]),
     (''max_elements_in_j'', pvproperty ''NOJ'' (D_class Pv_Integer True) [Read_only, Value (I_int 1)]),
     (''max_elements_in_k'', pvproperty ''NOK'' (D_class Pv_Integer True) [Read_only, Value (I_int 1)]),
     (''max_elements_in_l'', pvproperty ''NOL'' (D_class Pv_Integer True) [Read_only, Value (I_int 1)]),
     (''max_elements_in_m'', pvproperty ''NOM'' (D_class Pv_Integer True) [Read_only, Value (I_int 1)]),
     (''max_elements_in_n'', pvproperty ''NON'' (D_class Pv_Integer True) [Read_only, Value (I_int 1)]),
     (''max_elements_in_o'', pvproperty ''NOO'' (D_class Pv_Integer True) [Read_only, Value (I_int 1)]),
     (''max_elements_in_p'', pvproperty ''NOP'' (D_class Pv_Integer True) [Read_only, Value (I_int 1)]),
     (''max_elements_in_q'', pvproperty ''NOQ'' (D_class Pv_Integer True) [Read_only, Value (I_int 1)]),
     (''max_elements_in_r'', pvproperty ''NOR'' (D_class Pv_Integer True) [Read_only, Value (I_int 1)]),
     (''max_elements_in_s'', pvproperty ''NOS'' (D_class Pv_Integer True) [Read_only, Value (I_int 1)]),
     (''max_elements_in_t'', pvproperty ''NOT'' (D_class Pv_Integer True) [Read_only, Value (I_int 1)]),
     (''max_elements_in_u'', pvproperty ''NOU'' (D_class Pv_Integer True) [Read_only, Value (I_int 1)])]"

definition AsubFields_7 :: body where
  "AsubFields_7 =
    [(''max_elements_in_vala'', pvproperty ''NOVA'' (D_class Pv_Integer True) [Read_only, Value (I_int 1)]),
     (''max_elements_in_valb'', pvproperty ''NOVB'' (D_class Pv_Integer True) [Read_only, Value (I_int 1)]),
     (''max_elements_in_valc'', pvproperty ''NOVC'' (D_class Pv_Integer True) [Read_only, Value (I_int 1)]),
     (''max_elements_in_vald'', pvproperty ''NOVD'' (D_class Pv_Integer True) [Read_only, Value (I_int 1)]),
     (''max_elements_in_vale'', pvproperty ''NOVE'' (D_class Pv_Integer True) [Read_only, Value (I_int 1)]),
     (''max_elements_in_valf'', pvproperty ''NOVF'' (D_class Pv_Integer True) [Read_only, Value (I_int 1)]),
     (''max_elements_in_valg'', pvproperty ''NOVG'' (D_class Pv_Integer True) [Read_only, Value (I_int 1)]),
     (''max_elements_in_valh'', pvproperty ''NOVH'' (D_class Pv_Integer True) [Read_only, Value (I_int 1)]),
     (''max_elements_in_vali'', pvproperty ''NOVI'' (D_class Pv_Integer True) [Read_only, Value (I_int 1)]),
     (''max_elements_in_valj'', pvproperty ''NOVJ'' (D_class Pv_Integer True) [Read_only, Value (I_int 1)]),
     (''max_elements_in_valk'', pvproperty ''NOVK'' (D_class Pv_Integer True) [Read_only, Value (I_int 1)]),
     (''max_elements_in_vall'', pvproperty ''NOVL'' (D_class Pv_Integer True) [Read_only, Value (I_int 1)]),
     (''max_elements_in_valm'', pvproperty ''NOVM'' (D_class Pv_Integer True) [Read_only, Value (I_int 1)]),
     (''max_elements_in_valn'', pvproperty ''NOVN'' (D_class Pv_Integer True) [Read_only, Value (I_int 1)]),
     (''max_elements_in_valo'', pvproperty ''NOVO'' (D_class Pv_Integer True) [Read_only, Value (I_int 1)]),
     (''max_elements_in_valp'', pvproperty ''NOVP'' (D_class Pv_Integer True) [Read_only, Value (I_int 1)]),
     (''max_elements_in_valq'', pvproperty ''NOVQ'' (D_class Pv_Integer True) [Read_only, Value (I_int 1)]),
     (''max_elements_in_valr'', pvproperty ''NOVR'' (D_class Pv_Integer True) [Read_only, Value (I_int 1)]),
     (''max_elements_in_vals'', pvproperty ''NOVS'' (D_class Pv_Integer True) [Read_only, Value (I_int 1)]),
     (''max_elements_in_valt'', pvproperty ''NOVT'' (D_class Pv_Integer True) [Read_only, Value (I_int 1)]),
     (''max_elements_in_valu'', pvproperty ''NOVU'' (D_class Pv_Integer True) [Read_only, Value (I_int 1)])]"

definition AsubFields_8 :: body where
  "AsubFields_8 =
    [(''old_subr_name'', pvproperty ''ONAM'' (D_class Pv_Char True) [Max_length 41, Report_as_string, Read_only, Value (I_str (lit ''''))]),
     (''num_elements_in_ovla'', pvproperty ''ONVA'' (D_class Pv_Integer True) [Read_only, Value (I_int 1)]),
     (''num_elements_in_ovlb'', pvproperty ''ONVB'' (D_class Pv_Integer True) [Read_only, Value (I_int 1)]),
     (''num_elements_in_ovlc'', pvproperty ''ONVC'' (D_class Pv_Integer True) [Read_only, Value (I_int 1)]),
     (''num_elements_in_ovld'', pvproperty ''ONVD'' (D_class Pv_Integer True) [Read_only, Value (I_int 1)]),
     (''num_elements_in_ovle'', pvproperty ''ONVE'' (D_class Pv_Integer True) [Read_only, Value (I_int 1)]),
     (''num_elements_in_ovlf'', pvproperty ''ONVF'' (D_class Pv_Integer True) [Read_only, Value (I_int 1)]),
     (''num_elements_in_ovlg'', pvproperty ''ONVG'' (D_class Pv_Integer True) [Read_only, Value (I_int 1)]),
     (''num_elements_in_ovlh'', pvproperty ''ONVH'' (D_class Pv_Integer True) [Read_only, Value (I_int 1)]),
     (''num_elements_in_ovli'', pvproperty ''ONVI'' (D_class Pv_Integer True) [Read_only, Value (I_int 1)]),
     (''num_elements_in_ovlj'', pvproperty ''ONVJ'' (D_class Pv_Integer True) [Read_only, Value (I_int 1)]),
     (''num_elements_in_ovlk'', pvproperty ''ONVK'' (D_class Pv_Integer True) [Read_only, Value (I_int 1)]),
     (''num_elements_in_ovll'', pvproperty ''ONVL'' (D_class Pv_Integer True) [Read_only, Value (I_int 1)]),
     (''num_elements_in_ovlm'', pvproperty ''ONVM'' (D_class Pv_Integer True) [Read_only, Value (I_int 1)]),
     (''num_elements_in_ovln'', pvproperty ''ONVN'' (D_class Pv_Integer True) [Read_only, Value (I_int 1)]),
     (''num_elements_in_ovlo'', pvproperty ''ONVO'' (D_class Pv_Integer True) [Read_only, Value (I_int 1)]),
     (''num_elements_in_ovlp'', pvproperty ''ONVP'' (D_class Pv_Integer True) [Read_only, Value (I_int 1)]),
     (''num_elements_in_ovlq'', pvproperty ''ONVQ'' (D_class Pv_Integer True) [Read_only, Value (I_int 1)]),
     (''num_elements_in_ovlr'', pvproperty ''ONVR'' (D_class Pv_Integer True) [Read_only, Value (I_int 1)]),
     (''num_elements_in_ovls'', pvproperty ''ONVS'' (D_class Pv_Integer True) [Read_only, Value (I_int 1)]),
     (''num_elements_in_ovlt'', pvproperty ''ONVT'' (D_class Pv_Integer True) [Read_only, Value (I_int 1)])]"

definition AsubFields_9 :: body where
  "AsubFields_9 =
    [(''num_elements_in_ovlu'', pvproperty ''ONVU'' (D_class Pv_Integer True) [Read_only, Value (I_int 1)]),
     (''output_link_a'', pvproperty ''OUTA'' (D_class Pv_String False) []),
     (''output_link_b'', pvproperty ''OUTB'' (D_class Pv_String False) []),
     (''output_link_c'', pvproperty ''OUTC'' (D_class Pv_String False) []),
     (''output_link_d'', pvproperty ''OUTD'' (D_class Pv_String False) []),
     (''output_link_e'', pvproperty ''OUTE'' (D_class Pv_String False) []),
     (''output_link_f'', pvproperty ''OUTF'' (D_class Pv_String False) []),
     (''output_link_g'', pvproperty ''OUTG'' (D_class Pv_String False) []),
     (''output_link_h'', pvproperty ''OUTH'' (D_class Pv_String False) []),
     (''output_link_i'', pvproperty ''OUTI'' (D_class Pv_String False) []),
     (''output_link_j'', pvproperty ''OUTJ'' (D_class Pv_String False) []),
     (''output_link_k'', pvproperty ''OUTK'' (D_class Pv_String False) []),
     (''output_link_l'', pvproperty ''OUTL'' (D_class Pv_String False) []),
     (''output_link_m'', pvproperty ''OUTM'' (D_class Pv_String False) []),
     (''output_link_n'', pvproperty ''OUTN'' (D_class Pv_String False) []),
     (''output_link_o'', pvproperty ''OUTO'' (D_class Pv_String False) []),
     (''output_link_p'', pvproperty ''OUTP'' (D_class Pv_String False) []),
     (''output_link_q'', pvproperty ''OUTQ'' (D_class Pv_String False) []),
     (''output_link_r'', pvproperty ''OUTR'' (D_class Pv_String False) []),
     (''output_link_s'', pvproperty ''OUTS'' (D_class Pv_String False) []),
     (''output_link_t'', pvproperty ''OUTT'' (D_class Pv_String False) []),
     (''output_link_u'', pvproperty ''OUTU'' (D_class Pv_String False) []),
     (''old_return_value'', pvproperty ''OVAL'' (D_class Pv_Integer True) [Read_only]),
     (''display_precision'', pvproperty ''PREC'' (D_class Pv_Short False) []),
     (''process_subr_name'', pvproperty ''SNAM'' (D_class Pv_Char False) [Max_length 41, Report_as_string, Value (I_str (lit ''''))]),
     (''subroutine_name_link'', pvproperty ''SUBL'' (D_class Pv_String True) [Read_only])]"

definition AsubFields_body :: body where
  "AsubFields_body = AsubFields_1 @ AsubFields_2 @ AsubFields_3 @ AsubFields_4 @ AsubFields_5 @ AsubFields_6 @ AsubFields_7 @ AsubFields_8 @ AsubFields_9"

definition AaiFields_body :: body where
  "AaiFields_body =
    [(''device_type'', pvproperty ''DTYP'' (D_class Pv_Enum False) [Enum_strings dtyp_aai]),
     (''post_archive_monitors'', pvproperty ''APST'' (D_class Pv_Enum False) [Enum_strings aaiPOST]),
     (''engineering_units'', pvproperty ''EGU'' (D_class Pv_Char False) [Max_length 16, Report_as_string, Value (I_str (lit ''''))]),
     (''field_type_of_value'', pvproperty ''FTVL'' (D_class Pv_Enum True) [Enum_strings menuFtype, Read_only]),
     (''hash_of_onchange_data'', pvproperty ''HASH'' (D_class Pv_Integer False) []),
     (''high_operating_range'', pvproperty ''HOPR'' (D_class Pv_Double False) []),
     (''input_specification'', pvproperty ''INP'' (D_class Pv_String False) []),
     (''low_operating_range'', pvproperty ''LOPR'' (D_class Pv_Double False) []),
     (''post_value_monitors'', pvproperty ''MPST'' (D_class Pv_Enum False) [Enum_strings aaiPOST]),
     (''number_of_elements'', pvproperty ''NELM'' (D_class Pv_Integer True) [Read_only, Value (I_int 1)]),
     (''number_elements_read'', pvproperty ''NORD'' (D_class Pv_Integer True) [Read_only]),
     (''prev_simulation_mode'', pvproperty ''OLDSIMM'' (D_class Pv_Enum True) [Enum_strings menuSimm, Read_only]),
     (''display_precision'', pvproperty ''PREC'' (D_class Pv_Short False) []),
     (''sim_mode_async_delay'', pvproperty ''SDLY'' (D_class Pv_Double False) [Value (I_float (Decimal (- 1) 0))]),
     (''simulation_mode_link'', pvproperty ''SIML'' (D_class Pv_String False) []),
     (''simulation_mode'', pvproperty ''SIMM'' (D_class Pv_Enum False) [Enum_strings menuYesNo]),
     (''simulation_mode_severity'', pvproperty ''SIMS'' (D_class Pv_Enum False) [Enum_strings menuAlarmSevr]),
     (''simulation_input_link'', pvproperty ''SIOL'' (D_class Pv_String False) []),
     (''sim_mode_scan'', pvproperty ''SSCN'' (D_class Pv_Enum False) [Enum_strings menuScan, Value (I_int 0)])]"

definition AaoFields_body :: body where
  "AaoFields_body =
    [(''device_type'', pvproperty ''DTYP'' (D_class Pv_Enum False) [Enum_strings dtyp_aao]),
     (''post_archive_monitors'', pvproperty ''APST'' (D_class Pv_Enum False) [Enum_strings aaoPOST]),
     (''engineering_units'', pvproperty ''EGU'' (D_class Pv_Char False) [Max_length 16, Report_as_string, Value (I_str (lit ''''))]),
     (''field_type_of_value'', pvproperty ''FTVL'' (D_class Pv_Enum True) [Enum_strings menuFtype, Read_only]),
     (''hash_of_onchange_data'', pvproperty ''HASH'' (D_class Pv_Integer False) []),
     (''high_operating_range'', pvproperty ''HOPR'' (D_class Pv_Double False) []),
     (''low_operating_range'', pvproperty ''LOPR'' (D_class Pv_Double False) []),
     (''post_value_monitors'', pvproperty ''MPST'' (D_class Pv_Enum False) [Enum_strings aaoPOST]),
     (''number_of_elements'', pvproperty ''NELM'' (D_class Pv_Integer True) [Read_only, Value (I_int 1)]),
     (''number_elements_read'', pvproperty ''NORD'' (D_class Pv_Integer True) [Read_only]),
     (''prev_simulation_mode'', pvproperty ''OLDSIMM'' (D_class Pv_Enum True) [Enum_strings menuSimm, Read_only]),
     (''output_specification'', pvproperty ''OUT'' (D_class Pv_String False) []),
     (''display_precision'', pvproperty ''PREC'' (D_class Pv_Short False) []),
     (''sim_mode_async_delay'', pvproperty ''SDLY'' (D_class Pv_Double False) [Value (I_float (Decimal (- 1) 0))]),
     (''simulation_mode_link'', pvproperty ''SIML'' (D_class Pv_String False) []),
     (''simulation_mode'', pvproperty ''SIMM'' (D_class Pv_Enum False) [Enum_strings menuYesNo]),
     (''simulation_mode_severity'', pvproperty ''SIMS'' (D_class Pv_Enum False) [Enum_strings menuAlarmSevr]),
     (''simulation_output_link'', pvproperty ''SIOL'' (D_class Pv_String False) []),
     (''sim_mode_scan'', pvproperty ''SSCN'' (D_class Pv_Enum False) [Enum_strings menuScan, Value (I_int 0)])]"

definition AoFields_1 :: body where
  "AoFields_1 =
    [(''device_type'', pvproperty ''DTYP'' (D_class Pv_Enum False) [Enum_strings dtyp_ao]),
     (''archive_deadband'', pvproperty ''ADEL'' (D_class Pv_Double False) []),
     (''last_value_archived'', pvproperty ''ALST'' (D_class Pv_Double True) [Read_only]),
     (''adjustment_offset'', pvproperty ''AOFF'' (D_class Pv_Double False) []),
     (''adjustment_slope'', pvproperty ''ASLO'' (D_class Pv_Double False) []),
     (''desired_output_loc'', pvproperty ''DOL'' (D_class Pv_String False) []),
     (''drive_high_limit'', pvproperty ''DRVH'' (D_class Pv_Double False) []),
     (''drive_low_limit'', pvproperty ''DRVL'' (D_class Pv_Double False) []),
     (''engineering_units'', pvproperty ''EGU'' (D_class Pv_Char False) [Max_length 16, Report_as_string, Value (I_str (lit ''''))]),
     (''eng_units_full'', pvproperty ''EGUF'' (D_class Pv_Double False) []),
     (''eng_units_low'', pvproperty ''EGUL'' (D_class Pv_Double False) []),
     (''egu_to_raw_offset'', pvproperty ''EOFF'' (D_class Pv_Double False) []),
     (''egu_to_raw_slope'', pvproperty ''ESLO'' (D_class Pv_Double False) [Value (I_int 1)]),
     (''alarm_deadband'', pvproperty ''HYST'' (D_class Pv_Double False) []),
     (''initialized'', pvproperty ''INIT'' (D_class Pv_Short True) [Read_only]),
     (''invalid_output_action'', pvproperty ''IVOA'' (D_class Pv_Enum False) [Enum_strings menuIvoa]),
     (''invalid_output_value'', pvproperty ''IVOV'' (D_class Pv_Double False) []),
     (''last_value_alarmed'', pvproperty ''LALM'' (D_class Pv_Double True) [Read_only]),
     (''lastbreak_point'', pvproperty ''LBRK'' (D_class Pv_Short True) [Read_only]),
     (''linearization'', pvproperty ''LINR'' (D_class Pv_Enum False) [Enum_strings menuConvert]),
     (''monitor_deadband'', pvproperty ''MDEL'' (D_class Pv_Double False) []),
     (''last_val_monitored'', pvproperty ''MLST'' (D_class Pv_Double True) [Read_only]),
     (''out_full_incremental'', pvproperty ''OIF'' (D_class Pv_Enum False) [Enum_strings aoOIF]),
     (''prev_simulation_mode'', pvproperty ''OLDSIMM'' (D_class Pv_Enum True) [Enum_strings menuSimm, Read_only]),
     (''was_oval_modified'', pvproperty ''OMOD'' (D_class Pv_Byte True) [Read_only]),
     (''output_mode_select'', pvproperty ''OMSL'' (D_class Pv_Enum False) [Enum_strings menuOmsl]),
     (''previous_raw_value'', pvproperty ''ORAW'' (D_class Pv_Integer True) [Read_only]),
     (''prev_readback_value'', pvproperty ''ORBV'' (D_class Pv_Integer True) [Read_only]),
     (''output_rate_of_change'', pvproperty ''OROC'' (D_class Pv_Double False) []),
     (''output_specification'', pvproperty ''OUT'' (D_class Pv_String False) []),
     (''output_value'', pvproperty ''OVAL'' (D_class Pv_Double False) []),
     (''display_precision'', pvproperty ''PREC'' (D_class Pv_Short False) [])]"

definition AoFields_2 :: body where
  "AoFields_2 =
    [(''previous_value'', pvproperty ''PVAL'' (D_class Pv_Double True) [Read_only]),
     (''readback_value'', pvproperty ''RBV'' (D_class Pv_Integer True) [Read_only]),
     (''raw_offset'', pvproperty ''ROFF'' (D_class Pv_Integer False) []),
     (''current_raw_value'', pvproperty ''RVAL'' (D_class Pv_Integer False) []),
     (''sim_mode_async_delay'', pvproperty ''SDLY'' (D_class Pv_Double False) [Value (I_float (Decimal (- 1) 0))]),
     (''simulation_mode_link'', pvproperty ''SIML'' (D_class Pv_String False) []),
     (''simulation_mode'', pvproperty ''SIMM'' (D_class Pv_Enum False) [Enum_strings menuYesNo]),
     (''simulation_mode_severity'', pvproperty ''SIMS'' (D_class Pv_Enum False) [Enum_strings menuAlarmSevr]),
     (''simulation_output_link'', pvproperty ''SIOL'' (D_class Pv_String False) []),
     (''sim_mode_scan'', pvproperty ''SSCN'' (D_class Pv_Enum False) [Enum_strings menuScan, Value (I_int 0)])]"

definition AoFields_body :: body where
  "AoFields_body = AoFields_1 @ AoFields_2"

definition AsynFields_1 :: body where
  "AsynFields_1 =
    [(''device_type'', pvproperty ''DTYP'' (D_class Pv_Enum False) [Enum_strings dtyp_asyn]),
     (''addressed_command'', pvproperty ''ACMD'' (D_class Pv_Enum False) [Enum_strings gpibACMD]),
     (''asyn_address'', pvproperty ''ADDR'' (D_class Pv_Integer False) [Value (I_int 0)]),
     (''input'', pvproperty ''AINP'' (D_class Pv_Char True) [Max_length 40, Report_as_string, Read_only, Value (I_str (lit ''''))]),
     (''output'', pvproperty ''AOUT'' (D_class Pv_Char False) [Max_length 40, Report_as_string, Value (I_str (lit ''''))]),
     (''abort_queuerequest'', pvproperty ''AQR'' (D_class Pv_Byte False) []),
     (''autoconnect'', pvproperty ''AUCT'' (D_class Pv_Enum False) [Enum_strings asynAUTOCONNECT]),
     (''baud_rate'', pvproperty ''BAUD'' (D_class Pv_Enum False) [Enum_strings serialBAUD]),
     (''input_binary_data'', pvproperty ''BINP'' (D_class Pv_Char False) []),
     (''output_binary_data'', pvproperty ''BOUT'' (D_class Pv_Char False) []),
     (''connect_disconnect'', pvproperty ''CNCT'' (D_class Pv_Enum False) [Enum_strings asynCONNECT]),
     (''data_bits'', pvproperty ''DBIT'' (D_class Pv_Enum False) [Enum_strings serialDBIT]),
     (''disconnect_on_timeout'', pvproperty ''DRTO'' (D_class Pv_Enum False) [Enum_strings ipDRTO]),
     (''driver_info_string'', pvproperty ''DRVINFO'' (D_class Pv_Char False) [Max_length 40, Report_as_string, Value (I_str (lit ''''))]),
     (''enable_disable'', pvproperty ''ENBL'' (D_class Pv_Enum False) [Enum_strings asynENABLE]),
     (''eom_reason'', pvproperty ''EOMR'' (D_class Pv_Enum True) [Enum_strings asynEOMREASON, Read_only]),
     (''asynfloat64_input'', pvproperty ''F64INP'' (D_class Pv_Double True) [Read_only]),
     (''asynfloat64_is_valid'', pvproperty ''F64IV'' (D_class Pv_Integer False) []),
     (''asynfloat64_output'', pvproperty ''F64OUT'' (D_class Pv_Double False) []),
     (''flow_control'', pvproperty ''FCTL'' (D_class Pv_Enum False) [Enum_strings serialFCTL]),
     (''asyngpib_is_valid'', pvproperty ''GPIBIV'' (D_class Pv_Integer False) []),
     (''host_info'', pvproperty ''HOSTINFO'' (D_class Pv_Char False) [Max_length 40, Report_as_string, Value (I_str (lit ''''))]),
     (''asynint32_input'', pvproperty ''I32INP'' (D_class Pv_Integer True) [Read_only]),
     (''asynint32_is_valid'', pvproperty ''I32IV'' (D_class Pv_Integer False) []),
     (''asynint32_output'', pvproperty ''I32OUT'' (D_class Pv_Integer False) []),
     (''input_delimiter'', pvproperty ''IEOS'' (D_class Pv_Char False) [Max_length 40, Report_as_string, Value (I_str (lit ''''))])]"

definition AsynFields_2 :: body where
  "AsynFields_2 =
    [(''interface'', pvproperty ''IFACE'' (D_class Pv_Enum False) [Enum_strings asynINTERFACE]),
     (''input_format'', pvproperty ''IFMT'' (D_class Pv_Enum False) [Enum_strings asynFMT]),
     (''max_size_of_input_array'', pvproperty ''IMAX'' (D_class Pv_Integer True) [Read_only, Value (I_int 80)]),
     (''xon_any_character'', pvproperty ''IXANY'' (D_class Pv_Enum False) [Enum_strings serialIX]),
     (''input_xon_xoff'', pvproperty ''IXOFF'' (D_class Pv_Enum False) [Enum_strings serialIX]),
     (''output_xon_xoff'', pvproperty ''IXON'' (D_class Pv_Enum False) [Enum_strings serialIX]),
     (''long_baud_rate'', pvproperty ''LBAUD'' (D_class Pv_Integer False) []),
     (''modem_control'', pvproperty ''MCTL'' (D_class Pv_Enum False) [Enum_strings serialMCTL]),
     (''number_of_bytes_actually_written'', pvproperty ''NAWT'' (D_class Pv_Integer False) []),
     (''number_of_bytes_read'', pvproperty ''NORD'' (D_class Pv_Integer True) [Read_only]),
     (''number_of_bytes_to_write'', pvproperty ''NOWT'' (D_class Pv_Integer False) [Value (I_int 80)]),
     (''number_of_bytes_to_read'', pvproperty ''NRRD'' (D_class Pv_Integer False) []),
     (''asynoctet_is_valid'', pvproperty ''OCTETIV'' (D_class Pv_Integer False) []),
     (''output_delimiter'', pvproperty ''OEOS'' (D_class Pv_Char False) [Max_length 40, Report_as_string, Value (I_str (lit ''''))]),
     (''output_format'', pvproperty ''OFMT'' (D_class Pv_Enum False) [Enum_strings asynFMT]),
     (''max_size_of_output_array'', pvproperty ''OMAX'' (D_class Pv_Integer True) [Read_only, Value (I_int 80)]),
     (''asynoption_is_valid'', pvproperty ''OPTIONIV'' (D_class Pv_Integer False) []),
     (''port_connect_disconnect'', pvproperty ''PCNCT'' (D_class Pv_Enum False) [Enum_strings asynCONNECT]),
     (''asyn_port'', pvproperty ''PORT'' (D_class Pv_Char False) [Max_length 40, Report_as_string, Value (I_str (lit ''''))]),
     (''parity'', pvproperty ''PRTY'' (D_class Pv_Enum False) [Enum_strings serialPRTY]),
     (''asynuser_reason'', pvproperty ''REASON'' (D_class Pv_Integer False) []),
     (''stop_bits'', pvproperty ''SBIT'' (D_class Pv_Enum False) [Enum_strings serialSBIT]),
     (''serial_poll_response'', pvproperty ''SPR'' (D_class Pv_Byte True) [Read_only]),
     (''trace_error'', pvproperty ''TB0'' (D_class Pv_Enum False) [Enum_strings asynTRACE]),
     (''trace_io_device'', pvproperty ''TB1'' (D_class Pv_Enum False) [Enum_strings asynTRACE]),
     (''trace_io_filter'', pvproperty ''TB2'' (D_class Pv_Enum False) [Enum_strings asynTRACE])]"

definition AsynFields_3 :: body where
  "AsynFields_3 =
    [(''trace_io_driver'', pvproperty ''TB3'' (D_class Pv_Enum False) [Enum_strings asynTRACE]),
     (''trace_flow'', pvproperty ''TB4'' (D_class Pv_Enum False) [Enum_strings asynTRACE]),
     (''trace_warning'', pvproperty ''TB5'' (D_class Pv_Enum False) [Enum_strings asynTRACE]),
     (''trace_io_file'', pvproperty ''TFIL'' (D_class Pv_Char False) [Max_length 40, Report_as_string, Value (I_str (lit ''''))]),
     (''trace_io_ascii'', pvproperty ''TIB0'' (D_class Pv_Enum False) [Enum_strings asynTRACE]),
     (''trace_io_escape'', pvproperty ''TIB1'' (D_class Pv_Enum False) [Enum_strings asynTRACE]),
     (''trace_io_hex'', pvproperty ''TIB2'' (D_class Pv_Enum False) [Enum_strings asynTRACE]),
     (''trace_info_time'', pvproperty ''TINB0'' (D_class Pv_Enum False) [Enum_strings asynTRACE]),
     (''trace_info_port'', pvproperty ''TINB1'' (D_class Pv_Enum False) [Enum_strings asynTRACE]),
     (''trace_info_source'', pvproperty ''TINB2'' (D_class Pv_Enum False) [Enum_strings asynTRACE]),
     (''trace_info_thread'', pvproperty ''TINB3'' (D_class Pv_Enum False) [Enum_strings asynTRACE]),
     (''trace_info_mask'', pvproperty ''TINM'' (D_class Pv_Integer False) []),
     (''translated_input_string'', pvproperty ''TINP'' (D_class Pv_Char True) [Max_length 40, Report_as_string, Read_only, Value (I_str (lit ''''))]),
     (''trace_i_o_mask'', pvproperty ''TIOM'' (D_class Pv_Integer False) []),
     (''transaction_mode'', pvproperty ''TMOD'' (D_class Pv_Enum False) [Enum_strings asynTMOD]),
     (''timeout'', pvproperty ''TMOT'' (D_class Pv_Double False) [Value (I_float (Decimal 1 0))]),
     (''trace_mask'', pvproperty ''TMSK'' (D_class Pv_Integer False) []),
     (''trace_io_truncate_size'', pvproperty ''TSIZ'' (D_class Pv_Integer False) []),
     (''universal_command'', pvproperty ''UCMD'' (D_class Pv_Enum False) [Enum_strings gpibUCMD]),
     (''asynuint32digital_input'', pvproperty ''UI32INP'' (D_class Pv_Integer True) [Read_only]),
     (''asynuint32digital_is_valid'', pvproperty ''UI32IV'' (D_class Pv_Integer False) []),
     (''asynuint32digital_mask'', pvproperty ''UI32MASK'' (D_class Pv_Integer False) [Value (I_int 4294967295)]),
     (''asynuint32digital_output'', pvproperty ''UI32OUT'' (D_class Pv_Integer False) [])]"

definition AsynFields_body :: body where
  "AsynFields_body = AsynFields_1 @ AsynFields_2 @ AsynFields_3"

definition BiFields_body :: body where
  "BiFields_body =
    [(''device_type'', pvproperty ''DTYP'' (D_class Pv_Enum False) [Enum_strings dtyp_bi]),
     (''change_of_state_svr'', pvproperty ''COSV'' (D_class Pv_Enum False) [Enum_strings menuAlarmSevr]),
     (''input_specification'', pvproperty ''INP'' (D_class Pv_String False) []),
     (''last_value_alarmed'', pvproperty ''LALM'' (D_class Pv_Short True) [Read_only]),
     (''hardware_mask'', pvproperty ''MASK'' (D_class Pv_Integer True) [Read_only]),
     (''last_value_monitored'', pvproperty ''MLST'' (D_class Pv_Short True) [Read_only]),
     (''prev_simulation_mode'', pvproperty ''OLDSIMM'' (D_class Pv_Enum True) [Enum_strings menuSimm, Read_only]),
     (''one_name'', pvproperty ''ONAM'' (D_class Pv_Char False) [Max_length 26, Report_as_string, Value (I_str (lit ''''))]),
     (''prev_raw_value'', pvproperty ''ORAW'' (D_class Pv_Integer True) [Read_only]),
     (''one_error_severity'', pvproperty ''OSV'' (D_class Pv_Enum False) [Enum_strings menuAlarmSevr]),
     (''raw_value'', pvproperty ''RVAL'' (D_class Pv_Integer False) []),
     (''sim_mode_async_delay'', pvproperty ''SDLY'' (D_class Pv_Double False) [Value (I_float (Decimal (- 1) 0))]),
     (''simulation_mode_link'', pvproperty ''SIML'' (D_class Pv_String False) []),
     (''simulation_mode'', pvproperty ''SIMM'' (D_class Pv_Enum False) [Enum_strings menuSimm]),
     (''simulation_mode_severity'', pvproperty ''SIMS'' (D_class Pv_Enum False) [Enum_strings menuAlarmSevr]),
     (''simulation_input_link'', pvproperty ''SIOL'' (D_class Pv_String False) []),
     (''sim_mode_scan'', pvproperty ''SSCN'' (D_class Pv_Enum False) [Enum_strings menuScan, Value (I_int 0)]),
     (''simulation_value'', pvproperty ''SVAL'' (D_class Pv_Integer False) []),
     (''zero_name'', pvproperty ''ZNAM'' (D_class Pv_Char False) [Max_length 26, Report_as_string, Value (I_str (lit ''''))]),
     (''zero_error_severity'', pvproperty ''ZSV'' (D_class Pv_Enum False) [Enum_strings menuAlarmSevr])]"

definition BoFields_body :: body where
  "BoFields_body =
    [(''device_type'', pvproperty ''DTYP'' (D_class Pv_Enum False) [Enum_strings dtyp_bo]),
     (''change_of_state_sevr'', pvproperty ''COSV'' (D_class Pv_Enum False) [Enum_strings menuAlarmSevr]),
     (''desired_output_loc'', pvproperty ''DOL'' (D_class Pv_String False) []),
     (''seconds_to_hold_high'', pvproperty ''HIGH'' (D_class Pv_Double False) []),
     (''invalid_outpt_action'', pvproperty ''IVOA'' (D_class Pv_Enum False) [Enum_strings menuIvoa]),
     (''invalid_output_value'', pvproperty ''IVOV'' (D_class Pv_Short False) []),
     (''last_value_alarmed'', pvproperty ''LALM'' (D_class Pv_Short True) [Read_only]),
     (''hardware_mask'', pvproperty ''MASK'' (D_class Pv_Integer True) [Read_only]),
     (''last_value_monitored'', pvproperty ''MLST'' (D_class Pv_Short True) [Read_only]),
     (''prev_simulation_mode'', pvproperty ''OLDSIMM'' (D_class Pv_Enum True) [Enum_strings menuSimm, Read_only]),
     (''output_mode_select'', pvproperty ''OMSL'' (D_class Pv_Enum False) [Enum_strings menuOmsl]),
     (''one_name'', pvproperty ''ONAM'' (D_class Pv_Char False) [Max_length 26, Report_as_string, Value (I_str (lit ''''))]),
     (''prev_raw_value'', pvproperty ''ORAW'' (D_class Pv_Integer True) [Read_only]),
     (''prev_readback_value'', pvproperty ''ORBV'' (D_class Pv_Integer True) [Read_only]),
     (''one_error_severity'', pvproperty ''OSV'' (D_class Pv_Enum False) [Enum_strings menuAlarmSevr]),
     (''output_specification'', pvproperty ''OUT'' (D_class Pv_String False) []),
     (''readback_value'', pvproperty ''RBV'' (D_class Pv_Integer True) [Read_only]),
     (''raw_value'', pvproperty ''RVAL'' (D_class Pv_Integer False) []),
     (''sim_mode_async_delay'', pvproperty ''SDLY'' (D_class Pv_Double False) [Value (I_float (Decimal (- 1) 0))]),
     (''simulation_mode_link'', pvproperty ''SIML'' (D_class Pv_String False) []),
     (''simulation_mode'', pvproperty ''SIMM'' (D_class Pv_Enum False) [Enum_strings menuYesNo]),
     (''simulation_mode_severity'', pvproperty ''SIMS'' (D_class Pv_Enum False) [Enum_strings menuAlarmSevr]),
     (''simulation_output_link'', pvproperty ''SIOL'' (D_class Pv_String False) []),
     (''sim_mode_scan'', pvproperty ''SSCN'' (D_class Pv_Enum False) [Enum_strings menuScan, Value (I_int 0)]),
     (''zero_name'', pvproperty ''ZNAM'' (D_class Pv_Char False) [Max_length 26, Report_as_string, Value (I_str (lit ''''))]),
     (''zero_error_severity'', pvproperty ''ZSV'' (D_class Pv_Enum False) [Enum_strings menuAlarmSevr])]"

definition CalcFields_1 :: body where
  "CalcFields_1 =
    [(''device_type'', pvproperty ''DTYP'' (D_class Pv_Enum False) [Enum_strings dtyp_calc]),
     (''value_of_input_a'', pvproperty ''A'' (D_class Pv_Double False) []),
     (''archive_deadband'', pvproperty ''ADEL'' (D_class Pv_Double False) []),
     (''alarm_filter_time_constant'', pvproperty ''AFTC'' (D_class Pv_Double False) []),
     (''alarm_filter_value'', pvproperty ''AFVL'' (D_class Pv_Double True) [Read_only]),
     (''last_value_archived'', pvproperty ''ALST'' (D_class Pv_Double True) [Read_only]),
     (''value_of_input_b'', pvproperty ''B'' (D_class Pv_Double False) []),
     (''value_of_input_c'', pvproperty ''C'' (D_class Pv_Double False) []),
     (''calculation'', pvproperty ''CALC'' (D_class Pv_Char False) [Max_length 80, Report_as_string, Value (I_bytes [48])]),
     (''value_of_input_d'', pvproperty ''D'' (D_class Pv_Double False) []),
     (''value_of_input_e'', pvproperty ''E'' (D_class Pv_Double False) []),
     (''engineering_units'', pvproperty ''EGU'' (D_class Pv_Char False) [Max_length 16, Report_as_string, Value (I_str (lit ''''))]),
     (''value_of_input_f'', pvproperty ''F'' (D_class Pv_Double False) []),
     (''value_of_input_g'', pvproperty ''G'' (D_class Pv_Double False) []),
     (''value_of_input_h'', pvproperty ''H'' (D_class Pv_Double False) []),
     (''alarm_deadband'', pvproperty ''HYST'' (D_class Pv_Double False) []),
     (''value_of_input_i'', pvproperty ''I'' (D_class Pv_Double False) []),
     (''input_a'', pvproperty ''INPA'' (D_class Pv_String False) []),
     (''input_b'', pvproperty ''INPB'' (D_class Pv_String False) []),
     (''input_c'', pvproperty ''INPC'' (D_class Pv_String False) []),
     (''input_d'', pvproperty ''INPD'' (D_class Pv_String False) []),
     (''input_e'', pvproperty ''INPE'' (D_class Pv_String False) []),
     (''input_f'', pvproperty ''INPF'' (D_class Pv_String False) []),
     (''input_g'', pvproperty ''INPG'' (D_class Pv_String False) []),
     (''input_h'', pvproperty ''INPH'' (D_class Pv_String False) []),
     (''input_i'', pvproperty ''INPI'' (D_class Pv_String False) []),
     (''input_j'', pvproperty ''INPJ'' (D_class Pv_String False) []),
     (''input_k'', pvproperty ''INPK'' (D_class Pv_String False) []),
     (''input_l'', pvproperty ''INPL'' (D_class Pv_String False) []),
     (''value_of_input_j'', pvproperty ''J'' (D_class Pv_Double False) []),
     (''value_of_input_k'', pvproperty ''K'' (D_class Pv_Double False) []),
     (''value_of_input_l'', pvproperty ''L'' (D_class Pv_Double False) []),
     (''prev_value_of_a'', pvproperty ''LA'' (D_class Pv_Double True) [Read_only]),
     (''last_value_alarmed'', pvproperty ''LALM'' (D_class Pv_Double True) [Read_only]),
     (''prev_value_of_b'', pvproperty ''LB'' (D_class Pv_Double True) [Read_only]),
     (''prev_value_of_c'', pvproperty ''LC'' (D_class Pv_Double True) [Read_only]),
     (''prev_value_of_d'', pvproperty ''LD'' (D_class Pv_Double True) [Read_only]),
     (''prev_value_of_e'', pvproperty ''LE'' (D_class Pv_Double True) [Read_only]),
     (''prev_value_of_f'', pvproperty ''LF'' (D_class Pv_Double True) [Read_only]),
     (''prev_value_of_g'', pvproperty ''LG'' (D_class Pv_Double True) [Read_only]),
     (''prev_value_of_h'', pvproperty ''LH'' (D_class Pv_Double True) [Read_only])]"

definition CalcFields_2 :: body where
  "CalcFields_2 =
    [(''prev_value_of_i'', pvproperty ''LI'' (D_class Pv_Double True) [Read_only]),
     (''prev_value_of_j'', pvproperty ''LJ'' (D_class Pv_Double True) [Read_only]),
     (''prev_value_of_k'', pvproperty ''LK'' (D_class Pv_Double True) [Read_only]),
     (''prev_value_of_l'', pvproperty ''LL'' (D_class Pv_Double True) [Read_only]),
     (''monitor_deadband'', pvproperty ''MDEL'' (D_class Pv_Double False) []),
     (''last_val_monitored'', pvproperty ''MLST'' (D_class Pv_Double True) [Read_only]),
     (''display_precision'', pvproperty ''PREC'' (D_class Pv_Short False) [])]"

definition CalcFields_body :: body where
  "CalcFields_body = CalcFields_1 @ CalcFields_2"

definition CalcoutFields_1 :: body where
  "CalcoutFields_1 =
    [(''device_type'', pvproperty ''DTYP'' (D_class Pv_Enum False) [Enum_strings dtyp_calcout]),
     (''value_of_input_a'', pvproperty ''A'' (D_class Pv_Double False) []),
     (''archive_deadband'', pvproperty ''ADEL'' (D_class Pv_Double False) []),
     (''last_value_archived'', pvproperty ''ALST'' (D_class Pv_Double True) [Read_only]),
     (''value_of_input_b'', pvproperty ''B'' (D_class Pv_Double False) []),
     (''value_of_input_c'', pvproperty ''C'' (D_class Pv_Double False) []),
     (''calculation'', pvproperty ''CALC'' (D_class Pv_Char False) [Max_length 80, Report_as_string, Value (I_bytes [48])]),
     (''calc_valid'', pvproperty ''CLCV'' (D_class Pv_Integer False) []),
     (''value_of_input_d'', pvproperty ''D'' (D_class Pv_Double False) []),
     (''output_delay_active'', pvproperty ''DLYA'' (D_class Pv_Short True) [Read_only]),
     (''output_data_opt'', pvproperty ''DOPT'' (D_class Pv_Enum False) [Enum_strings calcoutDOPT]),
     (''value_of_input_e'', pvproperty ''E'' (D_class Pv_Double False) []),
     (''engineering_units'', pvproperty ''EGU'' (D_class Pv_Char False) [Max_length 16, Report_as_string, Value (I_str (lit ''''))]),
     (''value_of_input_f'', pvproperty ''F'' (D_class Pv_Double False) []),
     (''value_of_input_g'', pvproperty ''G'' (D_class Pv_Double False) []),
     (''value_of_input_h'', pvproperty ''H'' (D_class Pv_Double False) []),
     (''alarm_deadband'', pvproperty ''HYST'' (D_class Pv_Double False) []),
     (''value_of_input_i'', pvproperty ''I'' (D_class Pv_Double False) []),
     (''inpa_pv_status'', pvproperty ''INAV'' (D_class Pv_Enum True) [Enum_strings calcoutINAV, Read_only, Value (I_int 1)]),
     (''inpb_pv_status'', pvproperty ''INBV'' (D_class Pv_Enum True) [Enum_strings calcoutINAV, Read_only, Value (I_int 1)]),
     (''inpc_pv_status'', pvproperty ''INCV'' (D_class Pv_Enum True) [Enum_strings calcoutINAV, Read_only, Value (I_int 1)]),
     (''inpd_pv_status'', pvproperty ''INDV'' (D_class Pv_Enum True) [Enum_strings calcoutINAV, Read_only, Value (I_int 1)]),
     (''inpe_pv_status'', pvproperty ''INEV'' (D_class Pv_Enum True) [Enum_strings calcoutINAV, Read_only, Value (I_int 1)]),
     (''inpf_pv_status'', pvproperty ''INFV'' (D_class Pv_Enum True) [Enum_strings calcoutINAV, Read_only, Value (I_int 1)]),
     (''inpg_pv_status'', pvproperty ''INGV'' (D_class Pv_Enum True) [Enum_strings calcoutINAV, Read_only, Value (I_int 1)]),
     (''inph_pv_status'', pvproperty ''INHV'' (D_class Pv_Enum True) [Enum_strings calcoutINAV, Read_only, Value (I_int 1)])]"

definition CalcoutFields_2 :: body where
  "CalcoutFields_2 =
    [(''inpi_pv_status'', pvproperty ''INIV'' (D_class Pv_Enum True) [Enum_strings calcoutINAV, Read_only, Value (I_int 1)]),
     (''inpj_pv_status'', pvproperty ''INJV'' (D_class Pv_Enum True) [Enum_strings calcoutINAV, Read_only, Value (I_int 1)]),
     (''inpk_pv_status'', pvproperty ''INKV'' (D_class Pv_Enum True) [Enum_strings calcoutINAV, Read_only, Value (I_int 1)]),
     (''inpl_pv_status'', pvproperty ''INLV'' (D_class Pv_Enum True) [Enum_strings calcoutINAV, Read_only, Value (I_int 1)]),
     (''input_a'', pvproperty ''INPA'' (D_class Pv_String False) []),
     (''input_b'', pvproperty ''INPB'' (D_class Pv_String False) []),
     (''input_c'', pvproperty ''INPC'' (D_class Pv_String False) []),
     (''input_d'', pvproperty ''INPD'' (D_class Pv_String False) []),
     (''input_e'', pvproperty ''INPE'' (D_class Pv_String False) []),
     (''input_f'', pvproperty ''INPF'' (D_class Pv_String False) []),
     (''input_g'', pvproperty ''INPG'' (D_class Pv_String False) []),
     (''input_h'', pvproperty ''INPH'' (D_class Pv_String False) []),
     (''input_i'', pvproperty ''INPI'' (D_class Pv_String False) []),
     (''input_j'', pvproperty ''INPJ'' (D_class Pv_String False) []),
     (''input_k'', pvproperty ''INPK'' (D_class Pv_String False) []),
     (''input_l'', pvproperty ''INPL'' (D_class Pv_String False) []),
     (''invalid_output_action'', pvproperty ''IVOA'' (D_class Pv_Enum False) [Enum_strings menuIvoa]),
     (''invalid_output_value'', pvproperty ''IVOV'' (D_class Pv_Double False) []),
     (''value_of_input_j'', pvproperty ''J'' (D_class Pv_Double False) []),
     (''value_of_input_k'', pvproperty ''K'' (D_class Pv_Double False) []),
     (''value_of_input_l'', pvproperty ''L'' (D_class Pv_Double False) []),
     (''prev_value_of_a'', pvproperty ''LA'' (D_class Pv_Double True) [Read_only]),
     (''last_value_alarmed'', pvproperty ''LALM'' (D_class Pv_Double True) [Read_only]),
     (''prev_value_of_b'', pvproperty ''LB'' (D_class Pv_Double True) [Read_only]),
     (''prev_value_of_c'', pvproperty ''LC'' (D_class Pv_Double True) [Read_only]),
     (''prev_value_of_d'', pvproperty ''LD'' (D_class Pv_Double True) [Read_only]),
     (''prev_value_of_e'', pvproperty ''LE'' (D_class Pv_Double True) [Read_only]),
     (''prev_value_of_f'', pvproperty ''LF'' (D_class Pv_Double True) [Read_only]),
     (''prev_value_of_g'', pvproperty ''LG'' (D_class Pv_Double True) [Read_only]),
     (''prev_value_of_h'', pvproperty ''LH'' (D_class Pv_Double True) [Read_only]),
     (''prev_value_of_i'', pvproperty ''LI'' (D_class Pv_Double True) [Read_only]),
     (''prev_value_of_j'', pvproperty ''LJ'' (D_class Pv_Double True) [Read_only]),
     (''prev_value_of_k'', pvproperty ''LK'' (D_class Pv_Double True) [Read_only]),
     (''prev_value_of_l'', pvproperty ''LL'' (D_class Pv_Double True) [Read_only]),
     (''monitor_deadband'', pvproperty ''MDEL'' (D_class Pv_Double False) []),
     (''last_val_monitored'', pvproperty ''MLST'' (D_class Pv_Double True) [Read_only])]"

definition CalcoutFields_3 :: body where
  "CalcoutFields_3 =
    [(''output_calculation'', pvproperty ''OCAL'' (D_class Pv_Char False) [Max_length 80, Report_as_string, Value (I_bytes [48])]),
     (''ocal_valid'', pvproperty ''OCLV'' (D_class Pv_Integer False) []),
     (''output_execute_delay'', pvproperty ''ODLY'' (D_class Pv_Double False) []),
     (''event_to_issue'', pvproperty ''OEVT'' (D_class Pv_Char False) [Max_length 40, Report_as_string, Value (I_str (lit ''''))]),
     (''output_execute_opt'', pvproperty ''OOPT'' (D_class Pv_Enum False) [Enum_strings calcoutOOPT]),
     (''output_specification'', pvproperty ''OUT'' (D_class Pv_String False) []),
     (''out_pv_status'', pvproperty ''OUTV'' (D_class Pv_Enum True) [Enum_strings calcoutINAV, Read_only]),
     (''output_value'', pvproperty ''OVAL'' (D_class Pv_Double False) []),
     (''prev_value_of_oval'', pvproperty ''POVL'' (D_class Pv_Double False) []),
     (''display_precision'', pvproperty ''PREC'' (D_class Pv_Short False) []),
     (''previous_value'', pvproperty ''PVAL'' (D_class Pv_Double False) [])]"

definition CalcoutFields_body :: body where
  "CalcoutFields_body = CalcoutFields_1 @ CalcoutFields_2 @ CalcoutFields_3"

definition CompressFields_body :: body where
  "CompressFields_body =
    [(''device_type'', pvproperty ''DTYP'' (D_class Pv_Enum False) [Enum_strings dtyp_compress]),
     (''compression_algorithm'', pvproperty ''ALG'' (D_class Pv_Enum False) [Enum_strings compressALG]),
     (''buffering_algorithm'', pvproperty ''BALG'' (D_class Pv_Enum False) [Enum_strings bufferingALG]),
     (''compress_value_buffer'', pvproperty ''CVB'' (D_class Pv_Double True) [Read_only]),
     (''engineering_units'', pvproperty ''EGU'' (D_class Pv_Char False) [Max_length 16, Report_as_string, Value (I_str (lit ''''))]),
     (''high_operating_range'', pvproperty ''HOPR'' (D_class Pv_Double False) []),
     (''init_high_interest_lim'', pvproperty ''IHIL'' (D_class Pv_Double False) []),
     (''init_low_interest_lim'', pvproperty ''ILIL'' (D_class Pv_Double False) []),
     (''input_specification'', pvproperty ''INP'' (D_class Pv_String False) []),
     (''number_of_elements_in_working_buffer'', pvproperty ''INPN'' (D_class Pv_Integer True) [Read_only]),
     (''compressed_array_inx'', pvproperty ''INX'' (D_class Pv_Integer True) [Read_only]),
     (''low_operating_range'', pvproperty ''LOPR'' (D_class Pv_Double False) []),
     (''n_to_1_compression'', pvproperty ''N'' (D_class Pv_Integer False) [Value (I_int 1)]),
     (''number_of_values'', pvproperty ''NSAM'' (D_class Pv_Integer True) [Read_only, Value (I_int 1)]),
     (''number_used'', pvproperty ''NUSE'' (D_class Pv_Integer True) [Read_only]),
     (''offset'', pvproperty ''OFF'' (D_class Pv_Integer True) [Read_only]),
     (''old_number_used'', pvproperty ''OUSE'' (D_class Pv_Integer True) [Read_only]),
     (''display_precision'', pvproperty ''PREC'' (D_class Pv_Short False) []),
     (''reset'', pvproperty ''RES'' (D_class Pv_Short False) [])]"

definition DfanoutFields_body :: body where
  "DfanoutFields_body =
    [(''device_type'', pvproperty ''DTYP'' (D_class Pv_Enum False) [Enum_strings dtyp_dfanout]),
     (''archive_deadband'', pvproperty ''ADEL'' (D_class Pv_Double False) []),
     (''last_value_archived'', pvproperty ''ALST'' (D_class Pv_Double True) [Read_only]),
     (''desired_output_loc'', pvproperty ''DOL'' (D_class Pv_String False) []),
     (''engineering_units'', pvproperty ''EGU'' (D_class Pv_Char False) [Max_length 16, Report_as_string, Value (I_str (lit ''''))]),
     (''alarm_deadband'', pvproperty ''HYST'' (D_class Pv_Double False) []),
     (''last_value_alarmed'', pvproperty ''LALM'' (D_class Pv_Double True) [Read_only]),
     (''monitor_deadband'', pvproperty ''MDEL'' (D_class Pv_Double False) []),
     (''last_val_monitored'', pvproperty ''MLST'' (D_class Pv_Double True) [Read_only]),
     (''output_mode_select'', pvproperty ''OMSL'' (D_class Pv_Enum False) [Enum_strings menuOmsl]),
     (''output_spec_a'', pvproperty ''OUTA'' (D_class Pv_String False) []),
     (''output_spec_b'', pvproperty ''OUTB'' (D_class Pv_String False) []),
     (''output_spec_c'', pvproperty ''OUTC'' (D_class Pv_String False) []),
     (''output_spec_d'', pvproperty ''OUTD'' (D_class Pv_String False) []),
     (''output_spec_e'', pvproperty ''OUTE'' (D_class Pv_String False) []),
     (''output_spec_f'', pvproperty ''OUTF'' (D_class Pv_String False) []),
     (''output_spec_g'', pvproperty ''OUTG'' (D_class Pv_String False) []),
     (''output_spec_h'', pvproperty ''OUTH'' (D_class Pv_String False) []),
     (''display_precision'', pvproperty ''PREC'' (D_class Pv_Short False) []),
     (''link_selection_loc'', pvproperty ''SELL'' (D_class Pv_String False) []),
     (''select_mechanism'', pvproperty ''SELM'' (D_class Pv_Enum False) [Enum_strings dfanoutSELM]),
     (''link_selection'', pvproperty ''SELN'' (D_class Pv_Short False) [Value (I_int 1)])]"

definition EventFields_body :: body where
  "EventFields_body =
    [(''device_type'', pvproperty ''DTYP'' (D_class Pv_Enum False) [Enum_strings dtyp_event]),
     (''input_specification'', pvproperty ''INP'' (D_class Pv_String False) []),
     (''prev_simulation_mode'', pvproperty ''OLDSIMM'' (D_class Pv_Enum True) [Enum_strings menuSimm, Read_only]),
     (''sim_mode_async_delay'', pvproperty ''SDLY'' (D_class Pv_Double False) [Value (I_float (Decimal (- 1) 0))]),
     (''sim_mode_location'', pvproperty ''SIML'' (D_class Pv_String False) []),
     (''simulation_mode'', pvproperty ''SIMM'' (D_class Pv_Enum False) [Enum_strings menuYesNo]),
     (''sim_mode_alarm_svrty'', pvproperty ''SIMS'' (D_class Pv_Enum False) [Enum_strings menuAlarmSevr]),
     (''sim_input_specifctn'', pvproperty ''SIOL'' (D_class Pv_String False) []),
     (''sim_mode_scan'', pvproperty ''SSCN'' (D_class Pv_Enum False) [Enum_strings menuScan, Value (I_int 0)]),
     (''simulation_value'', pvproperty ''SVAL'' (D_class Pv_Char False) [Max_length 40, Report_as_string, Value (I_str (lit ''''))])]"

definition FanoutFields_body :: body where
  "FanoutFields_body =
    [(''device_type'', pvproperty ''DTYP'' (D_class Pv_Enum False) [Enum_strings dtyp_fanout]),
     (''forward_link_0'', pvproperty ''LNK0'' (D_class Pv_String False) []),
     (''forward_link_1'', pvproperty ''LNK1'' (D_class Pv_String False) []),
     (''forward_link_2'', pvproperty ''LNK2'' (D_class Pv_String False) []),
     (''forward_link_3'', pvproperty ''LNK3'' (D_class Pv_String False) []),
     (''forward_link_4'', pvproperty ''LNK4'' (D_class Pv_String False) []),
     (''forward_link_5'', pvproperty ''LNK5'' (D_class Pv_String False) []),
     (''forward_link_6'', pvproperty ''LNK6'' (D_class Pv_String False) []),
     (''forward_link_7'', pvproperty ''LNK7'' (D_class Pv_String False) []),
     (''forward_link_8'', pvproperty ''LNK8'' (D_class Pv_String False) []),
     (''forward_link_9'', pvproperty ''LNK9'' (D_class Pv_String False) []),
     (''forward_link_10'', pvproperty ''LNKA'' (D_class Pv_String False) []),
     (''forward_link_11'', pvproperty ''LNKB'' (D_class Pv_String False) []),
     (''forward_link_12'', pvproperty ''LNKC'' (D_class Pv_String False) []),
     (''forward_link_13'', pvproperty ''LNKD'' (D_class Pv_String False) []),
     (''forward_link_14'', pvproperty ''LNKE'' (D_class Pv_String False) []),
     (''forward_link_15'', pvproperty ''LNKF'' (D_class Pv_String False) []),
     (''offset_for_specified'', pvproperty ''OFFS'' (D_class Pv_Short False) [Value (I_int 0)]),
     (''link_selection_loc'', pvproperty ''SELL'' (D_class Pv_String False) []),
     (''select_mechanism'', pvproperty ''SELM'' (D_class Pv_Enum False) [Enum_strings fanoutSELM]),
     (''link_selection'', pvproperty ''SELN'' (D_class Pv_Short False) [Value (I_int 1)]),
     (''shift_for_mask_mode'', pvproperty ''SHFT'' (D_class Pv_Short False) [Value (I_int (- 1))])]"

definition HistogramFields_body :: body where
  "HistogramFields_body =
    [(''device_type'', pvproperty ''DTYP'' (D_class Pv_Enum False) [Enum_strings dtyp_histogram]),
     (''collection_control'', pvproperty ''CMD'' (D_class Pv_Enum False) [Enum_strings histogramCMD]),
     (''collection_status'', pvproperty ''CSTA'' (D_class Pv_Short True) [Read_only, Value (I_int 1)]),
     (''high_operating_range'', pvproperty ''HOPR'' (D_class Pv_Integer False) []),
     (''lower_signal_limit'', pvproperty ''LLIM'' (D_class Pv_Double False) []),
     (''low_operating_range'', pvproperty ''LOPR'' (D_class Pv_Integer False) []),
     (''counts_since_monitor'', pvproperty ''MCNT'' (D_class Pv_Short True) [Read_only]),
     (''monitor_count_deadband'', pvproperty ''MDEL'' (D_class Pv_Short False) []),
     (''num_of_array_elements'', pvproperty ''NELM'' (D_class Pv_Short True) [Read_only, Value (I_int 1)]),
     (''prev_simulation_mode'', pvproperty ''OLDSIMM'' (D_class Pv_Enum True) [Enum_strings menuSimm, Read_only]),
     (''display_precision'', pvproperty ''PREC'' (D_class Pv_Short False) []),
     (''monitor_seconds_dband'', pvproperty ''SDEL'' (D_class Pv_Double False) []),
     (''sim_mode_async_delay'', pvproperty ''SDLY'' (D_class Pv_Double False) [Value (I_float (Decimal (- 1) 0))]),
     (''signal_value'', pvproperty ''SGNL'' (D_class Pv_Double False) []),
     (''simulation_mode_link'', pvproperty ''SIML'' (D_class Pv_String False) []),
     (''simulation_mode'', pvproperty ''SIMM'' (D_class Pv_Enum False) [Enum_strings menuYesNo]),
     (''simulation_mode_severity'', pvproperty ''SIMS'' (D_class Pv_Enum False) [Enum_strings menuAlarmSevr]),
     (''simulation_input_link'', pvproperty ''SIOL'' (D_class Pv_String False) []),
     (''sim_mode_scan'', pvproperty ''SSCN'' (D_class Pv_Enum False) [Enum_strings menuScan, Value (I_int 0)]),
     (''simulation_value'', pvproperty ''SVAL'' (D_class Pv_Double False) []),
     (''signal_value_location'', pvproperty ''SVL'' (D_class Pv_String False) []),
     (''upper_signal_limit'', pvproperty ''ULIM'' (D_class Pv_Double False) []),
     (''element_width'', pvproperty ''WDTH'' (D_class Pv_Double True) [Read_only])]"

definition Int64inFields_body :: body where
  "Int64inFields_body =
    [(''device_type'', pvproperty ''DTYP'' (D_class Pv_Enum False) [Enum_strings dtyp_int64in]),
     (''archive_deadband'', pvproperty ''ADEL'' (D_class Pv_Integer False) []),
     (''alarm_filter_time_constant'', pvproperty ''AFTC'' (D_class Pv_Double False) []),
     (''alarm_filter_value'', pvproperty ''AFVL'' (D_class Pv_Double True) [Read_only]),
     (''last_value_archived'', pvproperty ''ALST'' (D_class Pv_Integer True) [Read_only]),
     (''units_name'', pvproperty ''EGU'' (D_class Pv_Char False) [Max_length 16, Report_as_string, Value (I_str (lit ''''))]),
     (''alarm_deadband'', pvproperty ''HYST'' (D_class Pv_Integer False) []),
     (''input_specification'', pvproperty ''INP'' (D_class Pv_String False) []),
     (''last_value_alarmed'', pvproperty ''LALM'' (D_class Pv_Integer True) [Read_only]),
     (''monitor_deadband'', pvproperty ''MDEL'' (D_class Pv_Integer False) []),
     (''last_val_monitored'', pvproperty ''MLST'' (D_class Pv_Integer True) [Read_only]),
     (''prev_simulation_mode'', pvproperty ''OLDSIMM'' (D_class Pv_Enum True) [Enum_strings menuSimm, Read_only]),
     (''sim_mode_async_delay'', pvproperty ''SDLY'' (D_class Pv_Double False) [Value (I_float (Decimal (- 1) 0))]),
     (''simulation_mode_link'', pvproperty ''SIML'' (D_class Pv_String False) []),
     (''simulation_mode'', pvproperty ''SIMM'' (D_class Pv_Enum False) [Enum_strings menuYesNo]),
     (''simulation_mode_severity'', pvproperty ''SIMS'' (D_class Pv_Enum False) [Enum_strings menuAlarmSevr]),
     (''simulation_input_link'', pvproperty ''SIOL'' (D_class Pv_String False) []),
     (''sim_mode_scan'', pvproperty ''SSCN'' (D_class Pv_Enum False) [Enum_strings menuScan, Value (I_int 0)]),
     (''simulation_value'', pvproperty ''SVAL'' (D_class Pv_Integer False) [])]"

definition Int64outFields_body :: body where
  "Int64outFields_body =
    [(''device_type'', pvproperty ''DTYP'' (D_class Pv_Enum False) [Enum_strings dtyp_int64out]),
     (''archive_deadband'', pvproperty ''ADEL'' (D_class Pv_Integer False) []),
     (''last_value_archived'', pvproperty ''ALST'' (D_class Pv_Integer True) [Read_only]),
     (''desired_output_loc'', pvproperty ''DOL'' (D_class Pv_String False) []),
     (''drive_high_limit'', pvproperty ''DRVH'' (D_class Pv_Integer False) []),
     (''drive_low_limit'', pvproperty ''DRVL'' (D_class Pv_Integer False) []),
     (''units_name'', pvproperty ''EGU'' (D_class Pv_Char False) [Max_length 16, Report_as_string, Value (I_str (lit ''''))]),
     (''alarm_deadband'', pvproperty ''HYST'' (D_class Pv_Integer False) []),
     (''invalid_output_action'', pvproperty ''IVOA'' (D_class Pv_Enum False) [Enum_strings menuIvoa]),
     (''invalid_output_value'', pvproperty ''IVOV'' (D_class Pv_Integer False) []),
     (''last_value_alarmed'', pvproperty ''LALM'' (D_class Pv_Integer True) [Read_only]),
     (''monitor_deadband'', pvproperty ''MDEL'' (D_class Pv_Integer False) []),
     (''last_val_monitored'', pvproperty ''MLST'' (D_class Pv_Integer True) [Read_only]),
     (''prev_simulation_mode'', pvproperty ''OLDSIMM'' (D_class Pv_Enum True) [Enum_strings menuSimm, Read_only]),
     (''output_mode_select'', pvproperty ''OMSL'' (D_class Pv_Enum False) [Enum_strings menuOmsl]),
     (''output_specification'', pvproperty ''OUT'' (D_class Pv_String False) []),
     (''sim_mode_async_delay'', pvproperty ''SDLY'' (D_class Pv_Double False) [Value (I_float (Decimal (- 1) 0))]),
     (''simulation_mode_link'', pvproperty ''SIML'' (D_class Pv_String False) []),
     (''simulation_mode'', pvproperty ''SIMM'' (D_class Pv_Enum False) [Enum_strings menuYesNo]),
     (''simulation_mode_severity'', pvproperty ''SIMS'' (D_class Pv_Enum False) [Enum_strings menuAlarmSevr]),
     (''simulation_output_link'', pvproperty ''SIOL'' (D_class Pv_String False) []),
     (''sim_mode_scan'', pvproperty ''SSCN'' (D_class Pv_Enum False) [Enum_strings menuScan, Value (I_int 0)])]"

definition LonginFields_body :: body where
  "LonginFields_body =
    [(''device_type'', pvproperty ''DTYP'' (D_class Pv_Enum False) [Enum_strings dtyp_longin]),
     (''archive_deadband'', pvproperty ''ADEL'' (D_class Pv_Integer False) []),
     (''alarm_filter_time_constant'', pvproperty ''AFTC'' (D_class Pv_Double False) []),
     (''alarm_filter_value'', pvproperty ''AFVL'' (D_class Pv_Double True) [Read_only]),
     (''last_value_archived'', pvproperty ''ALST'' (D_class Pv_Integer True) [Read_only]),
     (''engineering_units'', pvproperty ''EGU'' (D_class Pv_Char False) [Max_length 16, Report_as_string, Value (I_str (lit ''''))]),
     (''alarm_deadband'', pvproperty ''HYST'' (D_class Pv_Integer False) []),
     (''input_specification'', pvproperty ''INP'' (D_class Pv_String False) []),
     (''last_value_alarmed'', pvproperty ''LALM'' (D_class Pv_Integer True) [Read_only]),
     (''monitor_deadband'', pvproperty ''MDEL'' (D_class Pv_Integer False) []),
     (''last_val_monitored'', pvproperty ''MLST'' (D_class Pv_Integer True) [Read_only]),
     (''prev_simulation_mode'', pvproperty ''OLDSIMM'' (D_class Pv_Enum True) [Enum_strings menuSimm, Read_only]),
     (''sim_mode_async_delay'', pvproperty ''SDLY'' (D_class Pv_Double False) [Value (I_float (Decimal (- 1) 0))]),
     (''sim_mode_location'', pvproperty ''SIML'' (D_class Pv_String False) []),
     (''simulation_mode'', pvproperty ''SIMM'' (D_class Pv_Enum False) [Enum_strings menuYesNo]),
     (''sim_mode_alarm_svrty'', pvproperty ''SIMS'' (D_class Pv_Enum False) [Enum_strings menuAlarmSevr]),
     (''sim_input_specifctn'', pvproperty ''SIOL'' (D_class Pv_String False) []),
     (''sim_mode_scan'', pvproperty ''SSCN'' (D_class Pv_Enum False) [Enum_strings menuScan, Value (I_int 0)]),
     (''simulation_value'', pvproperty ''SVAL'' (D_class Pv_Integer False) [])]"

definition LongoutFields_body :: body where
  "LongoutFields_body =
    [(''device_type'', pvproperty ''DTYP'' (D_class Pv_Enum False) [Enum_strings dtyp_longout]),
     (''archive_deadband'', pvproperty ''ADEL'' (D_class Pv_Integer False) []),
     (''last_value_archived'', pvproperty ''ALST'' (D_class Pv_Integer True) [Read_only]),
     (''desired_output_loc'', pvproperty ''DOL'' (D_class Pv_String False) []),
     (''drive_high_limit'', pvproperty ''DRVH'' (D_class Pv_Integer False) []),
     (''drive_low_limit'', pvproperty ''DRVL'' (D_class Pv_Integer False) []),
     (''engineering_units'', pvproperty ''EGU'' (D_class Pv_Char False) [Max_length 16, Report_as_string, Value (I_str (lit ''''))]),
     (''alarm_deadband'', pvproperty ''HYST'' (D_class Pv_Integer False) []),
     (''invalid_output_action'', pvproperty ''IVOA'' (D_class Pv_Enum False) [Enum_strings menuIvoa]),
     (''invalid_output_value'', pvproperty ''IVOV'' (D_class Pv_Integer False) []),
     (''last_value_alarmed'', pvproperty ''LALM'' (D_class Pv_Integer True) [Read_only]),
     (''monitor_deadband'', pvproperty ''MDEL'' (D_class Pv_Integer False) []),
     (''last_val_monitored'', pvproperty ''MLST'' (D_class Pv_Integer True) [Read_only]),
     (''prev_simulation_mode'', pvproperty ''OLDSIMM'' (D_class Pv_Enum True) [Enum_strings menuSimm, Read_only]),
     (''output_mode_select'', pvproperty ''OMSL'' (D_class Pv_Enum False) [Enum_strings menuOmsl]),
     (''output_specification'', pvproperty ''OUT'' (D_class Pv_String False) []),
     (''sim_mode_async_delay'', pvproperty ''SDLY'' (D_class Pv_Double False) [Value (I_float (Decimal (- 1) 0))]),
     (''sim_mode_location'', pvproperty ''SIML'' (D_class Pv_String False) []),
     (''simulation_mode'', pvproperty ''SIMM'' (D_class Pv_Enum False) [Enum_strings menuYesNo]),
     (''sim_mode_alarm_svrty'', pvproperty ''SIMS'' (D_class Pv_Enum False) [Enum_strings menuAlarmSevr]),
     (''sim_output_specifctn'', pvproperty ''SIOL'' (D_class Pv_String False) []),
     (''sim_mode_scan'', pvproperty ''SSCN'' (D_class Pv_Enum False) [Enum_strings menuScan, Value (I_int 0)])]"

definition LsiFields_body :: body where
  "LsiFields_body =
    [(''device_type'', pvproperty ''DTYP'' (D_class Pv_Enum False) [Enum_strings dtyp_lsi]),
     (''post_archive_monitors'', pvproperty ''APST'' (D_class Pv_Enum False) [Enum_strings menuPost]),
     (''input_specification'', pvproperty ''INP'' (D_class Pv_String False) []),
     (''length_of_val'', pvproperty ''LEN'' (D_class Pv_Integer True) [Read_only]),
     (''post_value_monitors'', pvproperty ''MPST'' (D_class Pv_Enum False) [Enum_strings menuPost]),
     (''prev_simulation_mode'', pvproperty ''OLDSIMM'' (D_class Pv_Enum True) [Enum_strings menuSimm, Read_only]),
     (''length_of_oval'', pvproperty ''OLEN'' (D_class Pv_Integer True) [Read_only]),
     (''sim_mode_async_delay'', pvproperty ''SDLY'' (D_class Pv_Double False) [Value (I_float (Decimal (- 1) 0))]),
     (''simulation_mode_link'', pvproperty ''SIML'' (D_class Pv_String False) []),
     (''simulation_mode'', pvproperty ''SIMM'' (D_class Pv_Enum False) [Enum_strings menuYesNo]),
     (''simulation_mode_severity'', pvproperty ''SIMS'' (D_class Pv_Enum False) [Enum_strings menuAlarmSevr]),
     (''simulation_input_link'', pvproperty ''SIOL'' (D_class Pv_String False) []),
     (''size_of_buffers'', pvproperty ''SIZV'' (D_class Pv_Short True) [Read_only, Value (I_int 41)]),
     (''sim_mode_scan'', pvproperty ''SSCN'' (D_class Pv_Enum False) [Enum_strings menuScan, Value (I_int 0)])]"

definition LsoFields_body :: body where
  "LsoFields_body =
    [(''device_type'', pvproperty ''DTYP'' (D_class Pv_Enum False) [Enum_strings dtyp_lso]),
     (''post_archive_monitors'', pvproperty ''APST'' (D_class Pv_Enum False) [Enum_strings menuPost]),
     (''desired_output_link'', pvproperty ''DOL'' (D_class Pv_String False) []),
     (''invalid_output_action'', pvproperty ''IVOA'' (D_class Pv_Enum False) [Enum_strings menuIvoa]),
     (''invalid_output_value'', pvproperty ''IVOV'' (D_class Pv_Char False) [Max_length 40, Report_as_string, Value (I_str (lit ''''))]),
     (''length_of_val'', pvproperty ''LEN'' (D_class Pv_Integer True) [Read_only]),
     (''post_value_monitors'', pvproperty ''MPST'' (D_class Pv_Enum False) [Enum_strings menuPost]),
     (''prev_simulation_mode'', pvproperty ''OLDSIMM'' (D_class Pv_Enum True) [Enum_strings menuSimm, Read_only]),
     (''length_of_oval'', pvproperty ''OLEN'' (D_class Pv_Integer True) [Read_only]),
     (''output_mode_select'', pvproperty ''OMSL'' (D_class Pv_Enum False) [Enum_strings menuOmsl]),
     (''output_specification'', pvproperty ''OUT'' (D_class Pv_String False) []),
     (''sim_mode_async_delay'', pvproperty ''SDLY'' (D_class Pv_Double False) [Value (I_float (Decimal (- 1) 0))]),
     (''simulation_mode_link'', pvproperty ''SIML'' (D_class Pv_String False) []),
     (''simulation_mode'', pvproperty ''SIMM'' (D_class Pv_Enum False) [Enum_strings menuYesNo]),
     (''simulation_mode_severity'', pvproperty ''SIMS'' (D_class Pv_Enum False) [Enum_strings menuAlarmSevr]),
     (''simulation_output_link'', pvproperty ''SIOL'' (D_class Pv_String False) []),
     (''size_of_buffers'', pvproperty ''SIZV'' (D_class Pv_Short True) [Read_only, Value (I_int 41)]),
     (''sim_mode_scan'', pvproperty ''SSCN'' (D_class Pv_Enum False) [Enum_strings menuScan, Value (I_int 0)])]"

definition MbbiFields_1 :: body where
  "MbbiFields_1 =
    [(''device_type'', pvproperty ''DTYP'' (D_class Pv_Enum False) [Enum_strings dtyp_mbbi]),
     (''alarm_filter_time_constant'', pvproperty ''AFTC'' (D_class Pv_Double False) []),
     (''alarm_filter_value'', pvproperty ''AFVL'' (D_class Pv_Double True) [Read_only]),
     (''change_of_state_svr'', pvproperty ''COSV'' (D_class Pv_Enum False) [Enum_strings menuAlarmSevr]),
     (''eight_string'', pvproperty ''EIST'' (D_class Pv_Char False) [Max_length 26, Report_as_string, Value (I_str (lit ''''))]),
     (''state_eight_severity'', pvproperty ''EISV'' (D_class Pv_Enum False) [Enum_strings menuAlarmSevr]),
     (''eight_value'', pvproperty ''EIVL'' (D_class Pv_Integer False) []),
     (''eleven_string'', pvproperty ''ELST'' (D_class Pv_Char False) [Max_length 26, Report_as_string, Value (I_str (lit ''''))]),
     (''state_eleven_severity'', pvproperty ''ELSV'' (D_class Pv_Enum False) [Enum_strings menuAlarmSevr]),
     (''eleven_value'', pvproperty ''ELVL'' (D_class Pv_Integer False) []),
     (''fifteen_string'', pvproperty ''FFST'' (D_class Pv_Char False) [Max_length 26, Report_as_string, Value (I_str (lit ''''))]),
     (''state_fifteen_severity'', pvproperty ''FFSV'' (D_class Pv_Enum False) [Enum_strings menuAlarmSevr]),
     (''fifteen_value'', pvproperty ''FFVL'' (D_class Pv_Integer False) []),
     (''four_string'', pvproperty ''FRST'' (D_class Pv_Char False) [Max_length 26, Report_as_string, Value (I_str (lit ''''))]),
     (''state_four_severity'', pvproperty ''FRSV'' (D_class Pv_Enum False) [Enum_strings menuAlarmSevr]),
     (''four_value'', pvproperty ''FRVL'' (D_class Pv_Integer False) []),
     (''fourteen_string'', pvproperty ''FTST'' (D_class Pv_Char False) [Max_length 26, Report_as_string, Value (I_str (lit ''''))]),
     (''state_fourteen_sevr'', pvproperty ''FTSV'' (D_class Pv_Enum False) [Enum_strings menuAlarmSevr]),
     (''fourteen_value'', pvproperty ''FTVL'' (D_class Pv_Integer False) []),
     (''five_string'', pvproperty ''FVST'' (D_class Pv_Char False) [Max_length 26, Report_as_string, Value (I_str (lit ''''))]),
     (''state_five_severity'', pvproperty ''FVSV'' (D_class Pv_Enum False) [Enum_strings menuAlarmSevr]),
     (''five_value'', pvproperty ''FVVL'' (D_class Pv_Integer False) []),
     (''input_specification'', pvproperty ''INP'' (D_class Pv_String False) []),
     (''last_value_alarmed'', pvproperty ''LALM'' (D_class Pv_Short True) [Read_only]),
     (''hardware_mask'', pvproperty ''MASK'' (D_class Pv_Integer True) [Read_only]),
     (''last_value_monitored'', pvproperty ''MLST'' (D_class Pv_Short True) [Read_only])]"

definition MbbiFields_2 :: body where
  "MbbiFields_2 =
    [(''nine_string'', pvproperty ''NIST'' (D_class Pv_Char False) [Max_length 26, Report_as_string, Value (I_str (lit ''''))]),
     (''state_nine_severity'', pvproperty ''NISV'' (D_class Pv_Enum False) [Enum_strings menuAlarmSevr]),
     (''nine_value'', pvproperty ''NIVL'' (D_class Pv_Integer False) []),
     (''number_of_bits'', pvproperty ''NOBT'' (D_class Pv_Short True) [Read_only]),
     (''prev_simulation_mode'', pvproperty ''OLDSIMM'' (D_class Pv_Enum True) [Enum_strings menuSimm, Read_only]),
     (''one_string'', pvproperty ''ONST'' (D_class Pv_Char False) [Max_length 26, Report_as_string, Value (I_str (lit ''''))]),
     (''state_one_severity'', pvproperty ''ONSV'' (D_class Pv_Enum False) [Enum_strings menuAlarmSevr]),
     (''one_value'', pvproperty ''ONVL'' (D_class Pv_Integer False) []),
     (''prev_raw_value'', pvproperty ''ORAW'' (D_class Pv_Integer True) [Read_only]),
     (''raw_value'', pvproperty ''RVAL'' (D_class Pv_Integer False) []),
     (''states_defined'', pvproperty ''SDEF'' (D_class Pv_Short True) [Read_only]),
     (''sim_mode_async_delay'', pvproperty ''SDLY'' (D_class Pv_Double False) [Value (I_float (Decimal (- 1) 0))]),
     (''shift'', pvproperty ''SHFT'' (D_class Pv_Short False) []),
     (''simulation_mode_link'', pvproperty ''SIML'' (D_class Pv_String False) []),
     (''simulation_mode'', pvproperty ''SIMM'' (D_class Pv_Enum False) [Enum_strings menuSimm]),
     (''simulation_mode_severity'', pvproperty ''SIMS'' (D_class Pv_Enum False) [Enum_strings menuAlarmSevr]),
     (''simulation_input_link'', pvproperty ''SIOL'' (D_class Pv_String False) []),
     (''sim_mode_scan'', pvproperty ''SSCN'' (D_class Pv_Enum False) [Enum_strings menuScan, Value (I_int 0)]),
     (''simulation_value'', pvproperty ''SVAL'' (D_class Pv_Integer False) []),
     (''seven_string'', pvproperty ''SVST'' (D_class Pv_Char False) [Max_length 26, Report_as_string, Value (I_str (lit ''''))]),
     (''state_seven_severity'', pvproperty ''SVSV'' (D_class Pv_Enum False) [Enum_strings menuAlarmSevr]),
     (''seven_value'', pvproperty ''SVVL'' (D_class Pv_Integer False) []),
     (''six_string'', pvproperty ''SXST'' (D_class Pv_Char False) [Max_length 26, Report_as_string, Value (I_str (lit ''''))]),
     (''state_six_severity'', pvproperty ''SXSV'' (D_class Pv_Enum False) [Enum_strings menuAlarmSevr]),
     (''six_value'', pvproperty ''SXVL'' (D_class Pv_Integer False) []),
     (''ten_string'', pvproperty ''TEST'' (D_class Pv_Char False) [Max_length 26, Report_as_string, Value (I_str (lit ''''))]),
     (''state_ten_severity'', pvproperty ''TESV'' (D_class Pv_Enum False) [Enum_strings menuAlarmSevr]),
     (''ten_value'', pvproperty ''TEVL'' (D_class Pv_Integer False) [])]"

definition MbbiFields_3 :: body where
  "MbbiFields_3 =
    [(''three_string'', pvproperty ''THST'' (D_class Pv_Char False) [Max_length 26, Report_as_string, Value (I_str (lit ''''))]),
     (''state_three_severity'', pvproperty ''THSV'' (D_class Pv_Enum False) [Enum_strings menuAlarmSevr]),
     (''three_value'', pvproperty ''THVL'' (D_class Pv_Integer False) []),
     (''thirteen_string'', pvproperty ''TTST'' (D_class Pv_Char False) [Max_length 26, Report_as_string, Value (I_str (lit ''''))]),
     (''state_thirteen_sevr'', pvproperty ''TTSV'' (D_class Pv_Enum False) [Enum_strings menuAlarmSevr]),
     (''thirteen_value'', pvproperty ''TTVL'' (D_class Pv_Integer False) []),
     (''twelve_string'', pvproperty ''TVST'' (D_class Pv_Char False) [Max_length 26, Report_as_string, Value (I_str (lit ''''))]),
     (''state_twelve_severity'', pvproperty ''TVSV'' (D_class Pv_Enum False) [Enum_strings menuAlarmSevr]),
     (''twelve_value'', pvproperty ''TVVL'' (D_class Pv_Integer False) []),
     (''two_string'', pvproperty ''TWST'' (D_class Pv_Char False) [Max_length 26, Report_as_string, Value (I_str (lit ''''))]),
     (''state_two_severity'', pvproperty ''TWSV'' (D_class Pv_Enum False) [Enum_strings menuAlarmSevr]),
     (''two_value'', pvproperty ''TWVL'' (D_class Pv_Integer False) []),
     (''unknown_state_severity'', pvproperty ''UNSV'' (D_class Pv_Enum False) [Enum_strings menuAlarmSevr]),
     (''zero_string'', pvproperty ''ZRST'' (D_class Pv_Char False) [Max_length 26, Report_as_string, Value (I_str (lit ''''))]),
     (''state_zero_severity'', pvproperty ''ZRSV'' (D_class Pv_Enum False) [Enum_strings menuAlarmSevr]),
     (''zero_value'', pvproperty ''ZRVL'' (D_class Pv_Integer False) [])]"

definition MbbiFields_body :: body where
  "MbbiFields_body = MbbiFields_1 @ MbbiFields_2 @ MbbiFields_3"

definition MbbidirectFields_body :: body where
  "MbbidirectFields_body =
    [(''device_type'', pvproperty ''DTYP'' (D_class Pv_Enum False) [Enum_strings dtyp_mbbiDirect]),
     (''bit_0'', pvproperty ''B0'' (D_class Pv_Byte False) []),
     (''bit_1'', pvproperty ''B1'' (D_class Pv_Byte False) []),
     (''bit_16'', pvproperty ''B10'' (D_class Pv_Byte False) []),
     (''bit_17'', pvproperty ''B11'' (D_class Pv_Byte False) []),
     (''bit_18'', pvproperty ''B12'' (D_class Pv_Byte False) []),
     (''bit_19'', pvproperty ''B13'' (D_class Pv_Byte False) []),
     (''bit_20'', pvproperty ''B14'' (D_class Pv_Byte False) []),
     (''bit_21'', pvproperty ''B15'' (D_class Pv_Byte False) []),
     (''bit_22'', pvproperty ''B16'' (D_class Pv_Byte False) []),
     (''bit_23'', pvproperty ''B17'' (D_class Pv_Byte False) []),
     (''bit_24'', pvproperty ''B18'' (D_class Pv_Byte False) []),
     (''bit_25'', pvproperty ''B19'' (D_class Pv_Byte False) []),
     (''bit_26'', pvproperty ''B1A'' (D_class Pv_Byte False) []),
     (''bit_27'', pvproperty ''B1B'' (D_class Pv_Byte False) []),
     (''bit_28'', pvproperty ''B1C'' (D_class Pv_Byte False) []),
     (''bit_29'', pvproperty ''B1D'' (D_class Pv_Byte False) []),
     (''bit_30'', pvproperty ''B1E'' (D_class Pv_Byte False) []),
     (''bit_31'', pvproperty ''B1F'' (D_class Pv_Byte False) []),
     (''bit_2'', pvproperty ''B2'' (D_class Pv_Byte False) []),
     (''bit_3'', pvproperty ''B3'' (D_class Pv_Byte False) []),
     (''bit_4'', pvproperty ''B4'' (D_class Pv_Byte False) []),
     (''bit_5'', pvproperty ''B5'' (D_class Pv_Byte False) []),
     (''bit_6'', pvproperty ''B6'' (D_class Pv_Byte False) []),
     (''bit_7'', pvproperty ''B7'' (D_class Pv_Byte False) []),
     (''bit_8'', pvproperty ''B8'' (D_class Pv_Byte False) []),
     (''bit_9'', pvproperty ''B9'' (D_class Pv_Byte False) []),
     (''bit_10'', pvproperty ''BA'' (D_class Pv_Byte False) []),
     (''bit_11'', pvproperty ''BB'' (D_class Pv_Byte False) []),
     (''bit_12'', pvproperty ''BC'' (D_class Pv_Byte False) []),
     (''bit_13'', pvproperty ''BD'' (D_class Pv_Byte False) []),
     (''bit_14'', pvproperty ''BE'' (D_class Pv_Byte False) []),
     (''bit_15'', pvproperty ''BF'' (D_class Pv_Byte False) []),
     (''input_specification'', pvproperty ''INP'' (D_class Pv_String False) []),
     (''hardware_mask'', pvproperty ''MASK'' (D_class Pv_Integer True) [Read_only]),
     (''last_value_monitored'', pvproperty ''MLST'' (D_class Pv_Integer True) [Read_only]),
     (''number_of_bits'', pvproperty ''NOBT'' (D_class Pv_Short True) [Read_only]),
     (''prev_simulation_mode'', pvproperty ''OLDSIMM'' (D_class Pv_Enum True) [Enum_strings menuSimm, Read_only]),
     (''prev_raw_value'', pvproperty ''ORAW'' (D_class Pv_Integer True) [Read_only]),
     (''raw_value'', pvproperty ''RVAL'' (D_class Pv_Integer False) []),
     (''sim_mode_async_delay'', pvproperty ''SDLY'' (D_class Pv_Double False) [Value (I_float (Decimal (- 1) 0))]),
     (''shift'', pvproperty ''SHFT'' (D_class Pv_Short False) []),
     (''simulation_mode_link'', pvproperty ''SIML'' (D_class Pv_String False) []),
     (''simulation_mode'', pvproperty ''SIMM'' (D_class Pv_Enum False) [Enum_strings menuSimm]),
     (''simulation_mode_severity'', pvproperty ''SIMS'' (D_class Pv_Enum False) [Enum_strings menuAlarmSevr]),
     (''simulation_input_link'', pvproperty ''SIOL'' (D_class Pv_String False) []),
     (''sim_mode_scan'', pvproperty ''SSCN'' (D_class Pv_Enum False) [Enum_strings menuScan, Value (I_int 0)]),
     (''simulation_value'', pvproperty ''SVAL'' (D_class Pv_Integer False) [])]"

definition MbboFields_1 :: body where
  "MbboFields_1 =
    [(''device_type'', pvproperty ''DTYP'' (D_class Pv_Enum False) [Enum_strings dtyp_mbbo]),
     (''change_of_state_sevr'', pvproperty ''COSV'' (D_class Pv_Enum False) [Enum_strings menuAlarmSevr]),
     (''desired_output_loc'', pvproperty ''DOL'' (D_class Pv_String False) []),
     (''eight_string'', pvproperty ''EIST'' (D_class Pv_Char False) [Max_length 26, Report_as_string, Value (I_str (lit ''''))]),
     (''state_eight_severity'', pvproperty ''EISV'' (D_class Pv_Enum False) [Enum_strings menuAlarmSevr]),
     (''eight_value'', pvproperty ''EIVL'' (D_class Pv_Integer False) []),
     (''eleven_string'', pvproperty ''ELST'' (D_class Pv_Char False) [Max_length 26, Report_as_string, Value (I_str (lit ''''))]),
     (''state_eleven_severity'', pvproperty ''ELSV'' (D_class Pv_Enum False) [Enum_strings menuAlarmSevr]),
     (''eleven_value'', pvproperty ''ELVL'' (D_class Pv_Integer False) []),
     (''fifteen_string'', pvproperty ''FFST'' (D_class Pv_Char False) [Max_length 26, Report_as_string, Value (I_str (lit ''''))]),
     (''state_fifteen_sevr'', pvproperty ''FFSV'' (D_class Pv_Enum False) [Enum_strings menuAlarmSevr]),
     (''fifteen_value'', pvproperty ''FFVL'' (D_class Pv_Integer False) []),
     (''four_string'', pvproperty ''FRST'' (D_class Pv_Char False) [Max_length 26, Report_as_string, Value (I_str (lit ''''))]),
     (''state_four_severity'', pvproperty ''FRSV'' (D_class Pv_Enum False) [Enum_strings menuAlarmSevr]),
     (''four_value'', pvproperty ''FRVL'' (D_class Pv_Integer False) []),
     (''fourteen_string'', pvproperty ''FTST'' (D_class Pv_Char False) [Max_length 26, Report_as_string, Value (I_str (lit ''''))]),
     (''state_fourteen_sevr'', pvproperty ''FTSV'' (D_class Pv_Enum False) [Enum_strings menuAlarmSevr]),
     (''fourteen_value'', pvproperty ''FTVL'' (D_class Pv_Integer False) []),
     (''five_string'', pvproperty ''FVST'' (D_class Pv_Char False) [Max_length 26, Report_as_string, Value (I_str (lit ''''))]),
     (''state_five_severity'', pvproperty ''FVSV'' (D_class Pv_Enum False) [Enum_strings menuAlarmSevr]),
     (''five_value'', pvproperty ''FVVL'' (D_class Pv_Integer False) []),
     (''invalid_outpt_action'', pvproperty ''IVOA'' (D_class Pv_Enum False) [Enum_strings menuIvoa]),
     (''invalid_output_value'', pvproperty ''IVOV'' (D_class Pv_Short False) []),
     (''last_value_alarmed'', pvproperty ''LALM'' (D_class Pv_Short True) [Read_only]),
     (''hardware_mask'', pvproperty ''MASK'' (D_class Pv_Integer True) [Read_only]),
     (''last_value_monitored'', pvproperty ''MLST'' (D_class Pv_Short True) [Read_only])]"

definition MbboFields_2 :: body where
  "MbboFields_2 =
    [(''nine_string'', pvproperty ''NIST'' (D_class Pv_Char False) [Max_length 26, Report_as_string, Value (I_str (lit ''''))]),
     (''state_nine_severity'', pvproperty ''NISV'' (D_class Pv_Enum False) [Enum_strings menuAlarmSevr]),
     (''nine_value'', pvproperty ''NIVL'' (D_class Pv_Integer False) []),
     (''number_of_bits'', pvproperty ''NOBT'' (D_class Pv_Short True) [Read_only]),
     (''prev_simulation_mode'', pvproperty ''OLDSIMM'' (D_class Pv_Enum True) [Enum_strings menuSimm, Read_only]),
     (''output_mode_select'', pvproperty ''OMSL'' (D_class Pv_Enum False) [Enum_strings menuOmsl]),
     (''one_string'', pvproperty ''ONST'' (D_class Pv_Char False) [Max_length 26, Report_as_string, Value (I_str (lit ''''))]),
     (''state_one_severity'', pvproperty ''ONSV'' (D_class Pv_Enum False) [Enum_strings menuAlarmSevr]),
     (''one_value'', pvproperty ''ONVL'' (D_class Pv_Integer False) []),
     (''prev_raw_value'', pvproperty ''ORAW'' (D_class Pv_Integer True) [Read_only]),
     (''prev_readback_value'', pvproperty ''ORBV'' (D_class Pv_Integer True) [Read_only]),
     (''output_specification'', pvproperty ''OUT'' (D_class Pv_String False) []),
     (''readback_value'', pvproperty ''RBV'' (D_class Pv_Integer True) [Read_only]),
     (''raw_value'', pvproperty ''RVAL'' (D_class Pv_Integer False) []),
     (''states_defined'', pvproperty ''SDEF'' (D_class Pv_Short True) [Read_only]),
     (''sim_mode_async_delay'', pvproperty ''SDLY'' (D_class Pv_Double False) [Value (I_float (Decimal (- 1) 0))]),
     (''shift'', pvproperty ''SHFT'' (D_class Pv_Short False) []),
     (''simulation_mode_link'', pvproperty ''SIML'' (D_class Pv_String False) []),
     (''simulation_mode'', pvproperty ''SIMM'' (D_class Pv_Enum False) [Enum_strings menuYesNo]),
     (''simulation_mode_severity'', pvproperty ''SIMS'' (D_class Pv_Enum False) [Enum_strings menuAlarmSevr]),
     (''simulation_output_link'', pvproperty ''SIOL'' (D_class Pv_String False) []),
     (''sim_mode_scan'', pvproperty ''SSCN'' (D_class Pv_Enum False) [Enum_strings menuScan, Value (I_int 0)]),
     (''seven_string'', pvproperty ''SVST'' (D_class Pv_Char False) [Max_length 26, Report_as_string, Value (I_str (lit ''''))]),
     (''state_seven_severity'', pvproperty ''SVSV'' (D_class Pv_Enum False) [Enum_strings menuAlarmSevr]),
     (''seven_value'', pvproperty ''SVVL'' (D_class Pv_Integer False) []),
     (''six_string'', pvproperty ''SXST'' (D_class Pv_Char False) [Max_length 26, Report_as_string, Value (I_str (lit ''''))]),
     (''state_six_severity'', pvproperty ''SXSV'' (D_class Pv_Enum False) [Enum_strings menuAlarmSevr]),
     (''six_value'', pvproperty ''SXVL'' (D_class Pv_Integer False) [])]"

definition MbboFields_3 :: body where
  "MbboFields_3 =
    [(''ten_string'', pvproperty ''TEST'' (D_class Pv_Char False) [Max_length 26, Report_as_string, Value (I_str (lit ''''))]),
     (''state_ten_severity'', pvproperty ''TESV'' (D_class Pv_Enum False) [Enum_strings menuAlarmSevr]),
     (''ten_value'', pvproperty ''TEVL'' (D_class Pv_Integer False) []),
     (''three_string'', pvproperty ''THST'' (D_class Pv_Char False) [Max_length 26, Report_as_string, Value (I_str (lit ''''))]),
     (''state_three_severity'', pvproperty ''THSV'' (D_class Pv_Enum False) [Enum_strings menuAlarmSevr]),
     (''three_value'', pvproperty ''THVL'' (D_class Pv_Integer False) []),
     (''thirteen_string'', pvproperty ''TTST'' (D_class Pv_Char False) [Max_length 26, Report_as_string, Value (I_str (lit ''''))]),
     (''state_thirteen_sevr'', pvproperty ''TTSV'' (D_class Pv_Enum False) [Enum_strings menuAlarmSevr]),
     (''thirteen_value'', pvproperty ''TTVL'' (D_class Pv_Integer False) []),
     (''twelve_string'', pvproperty ''TVST'' (D_class Pv_Char False) [Max_length 26, Report_as_string, Value (I_str (lit ''''))]),
     (''state_twelve_severity'', pvproperty ''TVSV'' (D_class Pv_Enum False) [Enum_strings menuAlarmSevr]),
     (''twelve_value'', pvproperty ''TVVL'' (D_class Pv_Integer False) []),
     (''two_string'', pvproperty ''TWST'' (D_class Pv_Char False) [Max_length 26, Report_as_string, Value (I_str (lit ''''))]),
     (''state_two_severity'', pvproperty ''TWSV'' (D_class Pv_Enum False) [Enum_strings menuAlarmSevr]),
     (''two_value'', pvproperty ''TWVL'' (D_class Pv_Integer False) []),
     (''unknown_state_sevr'', pvproperty ''UNSV'' (D_class Pv_Enum False) [Enum_strings menuAlarmSevr]),
     (''zero_string'', pvproperty ''ZRST'' (D_class Pv_Char False) [Max_length 26, Report_as_string, Value (I_str (lit ''''))]),
     (''state_zero_severity'', pvproperty ''ZRSV'' (D_class Pv_Enum False) [Enum_strings menuAlarmSevr]),
     (''zero_value'', pvproperty ''ZRVL'' (D_class Pv_Integer False) [])]"

definition MbboFields_body :: body where
  "MbboFields_body = MbboFields_1 @ MbboFields_2 @ MbboFields_3"

definition MbbodirectFields_body :: body where
  "MbbodirectFields_body =
    [(''device_type'', pvproperty ''DTYP'' (D_class Pv_Enum False) [Enum_strings dtyp_mbboDirect]),
     (''bit_0'', pvproperty ''B0'' (D_class Pv_Byte False) []),
     (''bit_1'', pvproperty ''B1'' (D_class Pv_Byte False) []),
     (''bit_16'', pvproperty ''B10'' (D_class Pv_Byte False) []),
     (''bit_17'', pvproperty ''B11'' (D_class Pv_Byte False) []),
     (''bit_18'', pvproperty ''B12'' (D_class Pv_Byte False) []),
     (''bit_19'', pvproperty ''B13'' (D_class Pv_Byte False) []),
     (''bit_20'', pvproperty ''B14'' (D_class Pv_Byte False) []),
     (''bit_21'', pvproperty ''B15'' (D_class Pv_Byte False) []),
     (''bit_22'', pvproperty ''B16'' (D_class Pv_Byte False) []),
     (''bit_23'', pvproperty ''B17'' (D_class Pv_Byte False) []),
     (''bit_24'', pvproperty ''B18'' (D_class Pv_Byte False) []),
     (''bit_25'', pvproperty ''B19'' (D_class Pv_Byte False) []),
     (''bit_26'', pvproperty ''B1A'' (D_class Pv_Byte False) []),
     (''bit_27'', pvproperty ''B1B'' (D_class Pv_Byte False) []),
     (''bit_28'', pvproperty ''B1C'' (D_class Pv_Byte False) []),
     (''bit_29'', pvproperty ''B1D'' (D_class Pv_Byte False) []),
     (''bit_30'', pvproperty ''B1E'' (D_class Pv_Byte False) []),
     (''bit_31'', pvproperty ''B1F'' (D_class Pv_Byte False) []),
     (''bit_2'', pvproperty ''B2'' (D_class Pv_Byte False) []),
     (''bit_3'', pvproperty ''B3'' (D_class Pv_Byte False) []),
     (''bit_4'', pvproperty ''B4'' (D_class Pv_Byte False) []),
     (''bit_5'', pvproperty ''B5'' (D_class Pv_Byte False) []),
     (''bit_6'', pvproperty ''B6'' (D_class Pv_Byte False) []),
     (''bit_7'', pvproperty ''B7'' (D_class Pv_Byte False) []),
     (''bit_8'', pvproperty ''B8'' (D_class Pv_Byte False) []),
     (''bit_9'', pvproperty ''B9'' (D_class Pv_Byte False) []),
     (''bit_10'', pvproperty ''BA'' (D_class Pv_Byte False) []),
     (''bit_11'', pvproperty ''BB'' (D_class Pv_Byte False) []),
     (''bit_12'', pvproperty ''BC'' (D_class Pv_Byte False) []),
     (''bit_13'', pvproperty ''BD'' (D_class Pv_Byte False) []),
     (''bit_14'', pvproperty ''BE'' (D_class Pv_Byte False) []),
     (''bit_15'', pvproperty ''BF'' (D_class Pv_Byte False) []),
     (''desired_output_loc'', pvproperty ''DOL'' (D_class Pv_String False) []),
     (''invalid_outpt_action'', pvproperty ''IVOA'' (D_class Pv_Enum False) [Enum_strings menuIvoa]),
     (''invalid_output_value'', pvproperty ''IVOV'' (D_class Pv_Integer False) []),
     (''hardware_mask'', pvproperty ''MASK'' (D_class Pv_Integer True) [Read_only]),
     (''last_value_monitored'', pvproperty ''MLST'' (D_class Pv_Integer True) [Read_only]),
     (''number_of_bits'', pvproperty ''NOBT'' (D_class Pv_Short True) [Read_only]),
     (''prev_simulation_mode'', pvproperty ''OLDSIMM'' (D_class Pv_Enum True) [Enum_strings menuSimm, Read_only]),
     (''output_mode_select'', pvproperty ''OMSL'' (D_class Pv_Enum False) [Enum_strings menuOmsl]),
     (''prev_raw_value'', pvproperty ''ORAW'' (D_class Pv_Integer True) [Read_only]),
     (''prev_readback_value'', pvproperty ''ORBV'' (D_class Pv_Integer True) [Read_only]),
     (''output_specification'', pvproperty ''OUT'' (D_class Pv_String False) []),
     (''readback_value'', pvproperty ''RBV'' (D_class Pv_Integer True) [Read_only]),
     (''raw_value'', pvproperty ''RVAL'' (D_class Pv_Integer True) [Read_only]),
     (''sim_mode_async_delay'', pvproperty ''SDLY'' (D_class Pv_Double False) [Value (I_float (Decimal (- 1) 0))]),
     (''shift'', pvproperty ''SHFT'' (D_class Pv_Short False) []),
     (''simulation_mode_link'', pvproperty ''SIML'' (D_class Pv_String False) []),
     (''simulation_mode'', pvproperty ''SIMM'' (D_class Pv_Enum False) [Enum_strings menuYesNo]),
     (''simulation_mode_severity'', pvproperty ''SIMS'' (D_class Pv_Enum False) [Enum_strings menuAlarmSevr]),
     (''simulation_output_link'', pvproperty ''SIOL'' (D_class Pv_String False) []),
     (''sim_mode_scan'', pvproperty ''SSCN'' (D_class Pv_Enum False) [Enum_strings menuScan, Value (I_int 0)])]"

definition MotorFields_1 :: body where
  "MotorFields_1 =
    [(''device_type'', pvproperty ''DTYP'' (D_class Pv_Enum False) [Enum_strings dtyp_motor]),
     (''seconds_to_velocity'', pvproperty ''ACCL'' (D_class Pv_Double False) [Value (I_float (Decimal 2 (- 1)))]),
     (''archive_deadband'', pvproperty ''ADEL'' (D_class Pv_Double False) []),
     (''last_value_archived'', pvproperty ''ALST'' (D_class Pv_Double True) [Read_only]),
     (''at_home'', pvproperty ''ATHM'' (D_class Pv_Short True) [Read_only]),
     (''bl_seconds_to_velocity'', pvproperty ''BACC'' (D_class Pv_Double False) [Value (I_float (Decimal 5 (- 1)))]),
     (''bl_distance'', pvproperty ''BDST'' (D_class Pv_Double False) []),
     (''bl_velocity'', pvproperty ''BVEL'' (D_class Pv_Double False) []),
     (''card_number'', pvproperty ''CARD'' (D_class Pv_Short True) [Read_only]),
     (''raw_cmnd_direction'', pvproperty ''CDIR'' (D_class Pv_Short True) [Read_only]),
     (''enable_control'', pvproperty ''CNEN'' (D_class Pv_Enum False) [Enum_strings motorTORQ]),
     (''derivative_gain'', pvproperty ''DCOF'' (D_class Pv_Double False) [Value (I_int 0)]),
     (''dial_high_limit'', pvproperty ''DHLM'' (D_class Pv_Double False) []),
     (''difference_dval_drbv'', pvproperty ''DIFF'' (D_class Pv_Double True) [Read_only]),
     (''dmov_input_link'', pvproperty ''DINP'' (D_class Pv_String False) []),
     (''user_direction'', pvproperty ''DIR'' (D_class Pv_Enum False) [Enum_strings motorDIR]),
     (''dial_low_limit'', pvproperty ''DLLM'' (D_class Pv_Double False) []),
     (''readback_settle_time'', pvproperty ''DLY'' (D_class Pv_Double False) []),
     (''done_moving_to_value'', pvproperty ''DMOV'' (D_class Pv_Short True) [Read_only, Value (I_int 1)]),
     (''desired_output_loc'', pvproperty ''DOL'' (D_class Pv_String False) []),
     (''dial_readback_value'', pvproperty ''DRBV'' (D_class Pv_Double True) [Read_only]),
     (''dial_desired_value'', pvproperty ''DVAL'' (D_class Pv_Double False) []),
     (''engineering_units'', pvproperty ''EGU'' (D_class Pv_Char False) [Max_length 16, Report_as_string, Value (I_str (lit ''''))]),
     (''encoder_step_size'', pvproperty ''ERES'' (D_class Pv_Double False) []),
     (''freeze_offset'', pvproperty ''FOF'' (D_class Pv_Short False) []),
     (''offset_freeze_switch'', pvproperty ''FOFF'' (D_class Pv_Enum False) [Enum_strings motorFOFF]),
     (''move_fraction'', pvproperty ''FRAC'' (D_class Pv_Float False) [Value (I_int 1)]),
     (''user_high_limit'', pvproperty ''HLM'' (D_class Pv_Double False) []),
     (''user_high_limit_switch'', pvproperty ''HLS'' (D_class Pv_Short True) [Read_only]),
     (''hw_limit_violation_svr'', pvproperty ''HLSV'' (D_class Pv_Enum False) [Enum_strings menuAlarmSevr]),
     (''home_forward'', pvproperty ''HOMF'' (D_class Pv_Short False) []),
     (''home_reverse'', pvproperty ''HOMR'' (D_class Pv_Short False) []),
     (''home_velocity'', pvproperty ''HVEL'' (D_class Pv_Double False) [])]"

definition MotorFields_2 :: body where
  "MotorFields_2 =
    [(''integral_gain'', pvproperty ''ICOF'' (D_class Pv_Double False) [Value (I_int 0)]),
     (''ignore_set_field'', pvproperty ''IGSET'' (D_class Pv_Short False) []),
     (''startup_commands'', pvproperty ''INIT'' (D_class Pv_Char False) [Max_length 40, Report_as_string, Value (I_str (lit ''''))]),
     (''jog_accel'', pvproperty ''JAR'' (D_class Pv_Double False) []),
     (''jog_motor_forward'', pvproperty ''JOGF'' (D_class Pv_Short False) []),
     (''jog_motor_reverse'', pvproperty ''JOGR'' (D_class Pv_Short False) []),
     (''jog_velocity'', pvproperty ''JVEL'' (D_class Pv_Double False) []),
     (''last_dial_des_val'', pvproperty ''LDVL'' (D_class Pv_Double True) [Read_only]),
     (''user_low_limit'', pvproperty ''LLM'' (D_class Pv_Double False) []),
     (''user_low_limit_switch'', pvproperty ''LLS'' (D_class Pv_Short True) [Read_only]),
     (''soft_channel_position_lock'', pvproperty ''LOCK'' (D_class Pv_Enum False) [Enum_strings menuYesNo, Value (I_str (lit ''NO''))]),
     (''last_rel_value'', pvproperty ''LRLV'' (D_class Pv_Double True) [Read_only]),
     (''last_raw_des_val'', pvproperty ''LRVL'' (D_class Pv_Integer True) [Read_only]),
     (''last_spmg'', pvproperty ''LSPG'' (D_class Pv_Enum True) [Enum_strings motorSPMG, Read_only, Value (I_int 3)]),
     (''last_user_des_val'', pvproperty ''LVAL'' (D_class Pv_Double True) [Read_only]),
     (''limit_violation'', pvproperty ''LVIO'' (D_class Pv_Short True) [Read_only, Value (I_int 1)]),
     (''monitor_deadband'', pvproperty ''MDEL'' (D_class Pv_Double False) []),
     (''motion_in_progress'', pvproperty ''MIP'' (D_class Pv_Short True) [Read_only]),
     (''ran_out_of_retries'', pvproperty ''MISS'' (D_class Pv_Short True) [Read_only]),
     (''last_val_monitored'', pvproperty ''MLST'' (D_class Pv_Double True) [Read_only]),
     (''monitor_mask'', pvproperty ''MMAP'' (D_class Pv_Integer True) [Read_only]),
     (''motor_is_moving'', pvproperty ''MOVN'' (D_class Pv_Short True) [Read_only]),
     (''motor_step_size'', pvproperty ''MRES'' (D_class Pv_Double False) []),
     (''motor_status'', pvproperty ''MSTA'' (D_class Pv_Integer True) [Read_only]),
     (''monitor_mask_more'', pvproperty ''NMAP'' (D_class Pv_Integer True) [Read_only]),
     (''new_target_monitor'', pvproperty ''NTM'' (D_class Pv_Enum False) [Enum_strings menuYesNo, Value (I_str (lit ''YES''))]),
     (''ntm_deadband_factor'', pvproperty ''NTMF'' (D_class Pv_Short False) [Value (I_int 2)]),
     (''user_offset'', pvproperty ''OFF'' (D_class Pv_Double False) []),
     (''output_mode_select'', pvproperty ''OMSL'' (D_class Pv_Enum False) [Enum_strings menuOmsl])]"

definition MotorFields_3 :: body where
  "MotorFields_3 =
    [(''output_specification'', pvproperty ''OUT'' (D_class Pv_String False) []),
     (''proportional_gain'', pvproperty ''PCOF'' (D_class Pv_Double False) [Value (I_int 0)]),
     (''post_move_commands'', pvproperty ''POST'' (D_class Pv_Char False) [Max_length 40, Report_as_string, Value (I_str (lit ''''))]),
     (''post_process_command'', pvproperty ''PP'' (D_class Pv_Short True) [Read_only, Value (I_int 0)]),
     (''display_precision'', pvproperty ''PREC'' (D_class Pv_Short False) []),
     (''pre_move_commands'', pvproperty ''PREM'' (D_class Pv_Char False) [Max_length 40, Report_as_string, Value (I_str (lit ''''))]),
     (''user_readback_value'', pvproperty ''RBV'' (D_class Pv_Double True) [Read_only]),
     (''retry_count'', pvproperty ''RCNT'' (D_class Pv_Short True) [Read_only]),
     (''retry_deadband'', pvproperty ''RDBD'' (D_class Pv_Double False) []),
     (''readback_location'', pvproperty ''RDBL'' (D_class Pv_String False) []),
     (''difference_rval_rrbv'', pvproperty ''RDIF'' (D_class Pv_Integer True) [Read_only]),
     (''raw_encoder_position'', pvproperty ''REP'' (D_class Pv_Integer True) [Read_only]),
     (''raw_high_limit_switch'', pvproperty ''RHLS'' (D_class Pv_Short True) [Read_only]),
     (''rmp_input_link'', pvproperty ''RINP'' (D_class Pv_String False) []),
     (''raw_low_limit_switch'', pvproperty ''RLLS'' (D_class Pv_Short True) [Read_only]),
     (''readback_outlink'', pvproperty ''RLNK'' (D_class Pv_String False) []),
     (''relative_value'', pvproperty ''RLV'' (D_class Pv_Double False) []),
     (''retry_mode'', pvproperty ''RMOD'' (D_class Pv_Enum False) [Enum_strings motorRMOD, Value (I_str (lit ''Default''))]),
     (''raw_motor_position'', pvproperty ''RMP'' (D_class Pv_Integer True) [Read_only]),
     (''raw_readback_value'', pvproperty ''RRBV'' (D_class Pv_Integer True) [Read_only]),
     (''readback_step_size'', pvproperty ''RRES'' (D_class Pv_Double False) []),
     (''max_retry_count'', pvproperty ''RTRY'' (D_class Pv_Short False) [Value (I_int 10)]),
     (''raw_desired_value'', pvproperty ''RVAL'' (D_class Pv_Integer False) []),
     (''raw_velocity'', pvproperty ''RVEL'' (D_class Pv_Integer True) [Read_only]),
     (''speed'', pvproperty ''S'' (D_class Pv_Double False) []),
     (''bl_speed'', pvproperty ''SBAK'' (D_class Pv_Double False) []),
     (''base_speed'', pvproperty ''SBAS'' (D_class Pv_Double False) []),
     (''set_use_switch'', pvproperty ''SET'' (D_class Pv_Enum False) [Enum_strings motorSET]),
     (''max_speed'', pvproperty ''SMAX'' (D_class Pv_Double False) []),
     (''setpoint_deadband'', pvproperty ''SPDB'' (D_class Pv_Double False) []),
     (''stop_pause_move_go'', pvproperty ''SPMG'' (D_class Pv_Enum False) [Enum_strings motorSPMG, Value (I_int 3)]),
     (''steps_per_revolution'', pvproperty ''SREV'' (D_class Pv_Integer False) [Value (I_int 200)])]"

definition MotorFields_4 :: body where
  "MotorFields_4 =
    [(''set_set_mode'', pvproperty ''SSET'' (D_class Pv_Short False) []),
     (''stop_outlink'', pvproperty ''STOO'' (D_class Pv_String False) []),
     (''stop'', pvproperty ''STOP'' (D_class Pv_Short False) []),
     (''status_update'', pvproperty ''STUP'' (D_class Pv_Enum False) [Enum_strings motorSTUP, Value (I_str (lit ''OFF''))]),
     (''set_use_mode'', pvproperty ''SUSE'' (D_class Pv_Short False) []),
     (''sync_position'', pvproperty ''SYNC'' (D_class Pv_Short False) []),
     (''direction_of_travel'', pvproperty ''TDIR'' (D_class Pv_Short True) [Read_only]),
     (''tweak_motor_forward'', pvproperty ''TWF'' (D_class Pv_Short False) []),
     (''tweak_motor_reverse'', pvproperty ''TWR'' (D_class Pv_Short False) []),
     (''tweak_step_size'', pvproperty ''TWV'' (D_class Pv_Double False) []),
     (''use_encoder_if_present'', pvproperty ''UEIP'' (D_class Pv_Enum False) [Enum_strings motorUEIP]),
     (''egu_s_per_revolution'', pvproperty ''UREV'' (D_class Pv_Double False) []),
     (''use_rdbl_link_if_presen'', pvproperty ''URIP'' (D_class Pv_Enum False) [Enum_strings motorUEIP]),
     (''base_velocity'', pvproperty ''VBAS'' (D_class Pv_Double False) []),
     (''velocity'', pvproperty ''VELO'' (D_class Pv_Double False) []),
     (''code_version'', pvproperty ''VERS'' (D_class Pv_Float True) [Read_only, Value (I_int 1)]),
     (''max_velocity'', pvproperty ''VMAX'' (D_class Pv_Double False) []),
     (''variable_offset'', pvproperty ''VOF'' (D_class Pv_Short False) [])]"

definition MotorFields_body :: body where
  "MotorFields_body = MotorFields_1 @ MotorFields_2 @ MotorFields_3 @ MotorFields_4"

definition PermissiveFields_body :: body where
  "PermissiveFields_body =
    [(''device_type'', pvproperty ''DTYP'' (D_class Pv_Enum False) [Enum_strings dtyp_permissive]),
     (''button_label'', pvproperty ''LABL'' (D_class Pv_Char False) [Max_length 20, Report_as_string, Value (I_str (lit ''''))]),
     (''old_flag'', pvproperty ''OFLG'' (D_class Pv_Short True) [Read_only]),
     (''old_status'', pvproperty ''OVAL'' (D_class Pv_Short True) [Read_only]),
     (''wait_flag'', pvproperty ''WFLG'' (D_class Pv_Short False) [])]"

definition PrintfFields_body :: body where
  "PrintfFields_body =
    [(''device_type'', pvproperty ''DTYP'' (D_class Pv_Enum False) [Enum_strings dtyp_printf]),
     (''format_string'', pvproperty ''FMT'' (D_class Pv_Char False) [Max_length 81, Report_as_string, Value (I_str (lit ''''))]),
     (''input_0'', pvproperty ''INP0'' (D_class Pv_String False) []),
     (''input_1'', pvproperty ''INP1'' (D_class Pv_String False) []),
     (''input_2'', pvproperty ''INP2'' (D_class Pv_String False) []),
     (''input_3'', pvproperty ''INP3'' (D_class Pv_String False) []),
     (''input_4'', pvproperty ''INP4'' (D_class Pv_String False) []),
     (''input_5'', pvproperty ''INP5'' (D_class Pv_String False) []),
     (''input_6'', pvproperty ''INP6'' (D_class Pv_String False) []),
     (''input_7'', pvproperty ''INP7'' (D_class Pv_String False) []),
     (''input_8'', pvproperty ''INP8'' (D_class Pv_String False) []),
     (''input_9'', pvproperty ''INP9'' (D_class Pv_String False) []),
     (''invalid_link_string'', pvproperty ''IVLS'' (D_class Pv_Char False) [Max_length 16, Report_as_string, Value (I_str (lit ''LNK''))]),
     (''length_of_val'', pvproperty ''LEN'' (D_class Pv_Integer True) [Read_only]),
     (''output_specification'', pvproperty ''OUT'' (D_class Pv_String False) []),
     (''size_of_val_buffer'', pvproperty ''SIZV'' (D_class Pv_Short True) [Read_only, Value (I_int 41)])]"

definition SelFields_1 :: body where
  "SelFields_1 =
    [(''device_type'', pvproperty ''DTYP'' (D_class Pv_Enum False) [Enum_strings dtyp_sel]),
     (''value_of_input_a'', pvproperty ''A'' (D_class Pv_Double False) []),
     (''archive_deadband'', pvproperty ''ADEL'' (D_class Pv_Double False) []),
     (''last_value_archived'', pvproperty ''ALST'' (D_class Pv_Double True) [Read_only]),
     (''value_of_input_b'', pvproperty ''B'' (D_class Pv_Double False) []),
     (''value_of_input_c'', pvproperty ''C'' (D_class Pv_Double False) []),
     (''value_of_input_d'', pvproperty ''D'' (D_class Pv_Double False) []),
     (''value_of_input_e'', pvproperty ''E'' (D_class Pv_Double False) []),
     (''engineering_units'', pvproperty ''EGU'' (D_class Pv_Char False) [Max_length 16, Report_as_string, Value (I_str (lit ''''))]),
     (''value_of_input_f'', pvproperty ''F'' (D_class Pv_Double False) []),
     (''value_of_input_g'', pvproperty ''G'' (D_class Pv_Double False) []),
     (''value_of_input_h'', pvproperty ''H'' (D_class Pv_Double False) []),
     (''alarm_deadband'', pvproperty ''HYST'' (D_class Pv_Double False) []),
     (''value_of_input_i'', pvproperty ''I'' (D_class Pv_Double False) []),
     (''input_a'', pvproperty ''INPA'' (D_class Pv_String False) []),
     (''input_b'', pvproperty ''INPB'' (D_class Pv_String False) []),
     (''input_c'', pvproperty ''INPC'' (D_class Pv_String False) []),
     (''input_d'', pvproperty ''INPD'' (D_class Pv_String False) []),
     (''input_e'', pvproperty ''INPE'' (D_class Pv_String False) []),
     (''input_f'', pvproperty ''INPF'' (D_class Pv_String False) []),
     (''input_g'', pvproperty ''INPG'' (D_class Pv_String False) []),
     (''input_h'', pvproperty ''INPH'' (D_class Pv_String False) []),
     (''input_i'', pvproperty ''INPI'' (D_class Pv_String False) []),
     (''input_j'', pvproperty ''INPJ'' (D_class Pv_String False) []),
     (''input_k'', pvproperty ''INPK'' (D_class Pv_String False) []),
     (''input_l'', pvproperty ''INPL'' (D_class Pv_String False) []),
     (''value_of_input_j'', pvproperty ''J'' (D_class Pv_Double False) []),
     (''value_of_input_k'', pvproperty ''K'' (D_class Pv_Double False) []),
     (''value_of_input_l'', pvproperty ''L'' (D_class Pv_Double False) []),
     (''prev_value_of_a'', pvproperty ''LA'' (D_class Pv_Double True) [Read_only]),
     (''last_value_alarmed'', pvproperty ''LALM'' (D_class Pv_Double True) [Read_only]),
     (''prev_value_of_b'', pvproperty ''LB'' (D_class Pv_Double True) [Read_only]),
     (''prev_value_of_c'', pvproperty ''LC'' (D_class Pv_Double True) [Read_only]),
     (''prev_value_of_d'', pvproperty ''LD'' (D_class Pv_Double True) [Read_only]),
     (''prev_value_of_e'', pvproperty ''LE'' (D_class Pv_Double True) [Read_only]),
     (''prev_value_of_f'', pvproperty ''LF'' (D_class Pv_Double True) [Read_only]),
     (''prev_value_of_g'', pvproperty ''LG'' (D_class Pv_Double True) [Read_only]),
     (''prev_value_of_h'', pvproperty ''LH'' (D_class Pv_Double True) [Read_only]),
     (''prev_value_of_i'', pvproperty ''LI'' (D_class Pv_Double True) [Read_only]),
     (''prev_value_of_j'', pvproperty ''LJ'' (D_class Pv_Double True) [Read_only])]"

definition SelFields_2 :: body where
  "SelFields_2 =
    [(''prev_value_of_k'', pvproperty ''LK'' (D_class Pv_Double True) [Read_only]),
     (''prev_value_of_l'', pvproperty ''LL'' (D_class Pv_Double True) [Read_only]),
     (''monitor_deadband'', pvproperty ''MDEL'' (D_class Pv_Double False) []),
     (''last_val_monitored'', pvproperty ''MLST'' (D_class Pv_Double True) [Read_only]),
     (''last_index_monitored'', pvproperty ''NLST'' (D_class Pv_Short True) [Read_only]),
     (''index_value_location'', pvproperty ''NVL'' (D_class Pv_String False) []),
     (''display_precision'', pvproperty ''PREC'' (D_class Pv_Short False) []),
     (''select_mechanism'', pvproperty ''SELM'' (D_class Pv_Enum False) [Enum_strings selSELM]),
     (''index_value'', pvproperty ''SELN'' (D_class Pv_Short False) [])]"

definition SelFields_body :: body where
  "SelFields_body = SelFields_1 @ SelFields_2"

definition SeqFields_1 :: body where
  "SeqFields_1 =
    [(''device_type'', pvproperty ''DTYP'' (D_class Pv_Enum False) [Enum_strings dtyp_seq]),
     (''delay_0'', pvproperty ''DLY0'' (D_class Pv_Double False) []),
     (''delay_1'', pvproperty ''DLY1'' (D_class Pv_Double False) []),
     (''delay_2'', pvproperty ''DLY2'' (D_class Pv_Double False) []),
     (''delay_3'', pvproperty ''DLY3'' (D_class Pv_Double False) []),
     (''delay_4'', pvproperty ''DLY4'' (D_class Pv_Double False) []),
     (''delay_5'', pvproperty ''DLY5'' (D_class Pv_Double False) []),
     (''delay_6'', pvproperty ''DLY6'' (D_class Pv_Double False) []),
     (''delay_7'', pvproperty ''DLY7'' (D_class Pv_Double False) []),
     (''delay_8'', pvproperty ''DLY8'' (D_class Pv_Double False) []),
     (''delay_9'', pvproperty ''DLY9'' (D_class Pv_Double False) []),
     (''delay_10'', pvproperty ''DLYA'' (D_class Pv_Double False) []),
     (''delay_11'', pvproperty ''DLYB'' (D_class Pv_Double False) []),
     (''delay_12'', pvproperty ''DLYC'' (D_class Pv_Double False) []),
     (''delay_13'', pvproperty ''DLYD'' (D_class Pv_Double False) []),
     (''delay_14'', pvproperty ''DLYE'' (D_class Pv_Double False) []),
     (''delay_15'', pvproperty ''DLYF'' (D_class Pv_Double False) []),
     (''value_0'', pvproperty ''DO0'' (D_class Pv_Double False) []),
     (''value_1'', pvproperty ''DO1'' (D_class Pv_Double False) []),
     (''value_2'', pvproperty ''DO2'' (D_class Pv_Double False) []),
     (''value_3'', pvproperty ''DO3'' (D_class Pv_Double False) []),
     (''value_4'', pvproperty ''DO4'' (D_class Pv_Double False) []),
     (''value_5'', pvproperty ''DO5'' (D_class Pv_Double False) []),
     (''value_6'', pvproperty ''DO6'' (D_class Pv_Double False) []),
     (''value_7'', pvproperty ''DO7'' (D_class Pv_Double False) []),
     (''value_8'', pvproperty ''DO8'' (D_class Pv_Double False) []),
     (''value_9'', pvproperty ''DO9'' (D_class Pv_Double False) []),
     (''value_10'', pvproperty ''DOA'' (D_class Pv_Double False) []),
     (''value_11'', pvproperty ''DOB'' (D_class Pv_Double False) []),
     (''value_12'', pvproperty ''DOC'' (D_class Pv_Double False) []),
     (''value_13'', pvproperty ''DOD'' (D_class Pv_Double False) []),
     (''value_14'', pvproperty ''DOE'' (D_class Pv_Double False) []),
     (''value_15'', pvproperty ''DOF'' (D_class Pv_Double False) []),
     (''input_link_0'', pvproperty ''DOL0'' (D_class Pv_String False) []),
     (''input_link1'', pvproperty ''DOL1'' (D_class Pv_String False) []),
     (''input_link_2'', pvproperty ''DOL2'' (D_class Pv_String False) []),
     (''input_link_3'', pvproperty ''DOL3'' (D_class Pv_String False) []),
     (''input_link_4'', pvproperty ''DOL4'' (D_class Pv_String False) []),
     (''input_link_5'', pvproperty ''DOL5'' (D_class Pv_String False) []),
     (''input_link_6'', pvproperty ''DOL6'' (D_class Pv_String False) []),
     (''input_link_7'', pvproperty ''DOL7'' (D_class Pv_String False) []),
     (''input_link_8'', pvproperty ''DOL8'' (D_class Pv_String False) []),
     (''input_link_9'', pvproperty ''DOL9'' (D_class Pv_String False) []),
     (''input_link_10'', pvproperty ''DOLA'' (D_class Pv_String False) []),
     (''input_link_11'', pvproperty ''DOLB'' (D_class Pv_String False) []),
     (''input_link_12'', pvproperty ''DOLC'' (D_class Pv_String False) []),
     (''input_link_13'', pvproperty ''DOLD'' (D_class Pv_String False) []),
     (''input_link_14'', pvproperty ''DOLE'' (D_class Pv_String False) []),
     (''input_link_15'', pvproperty ''DOLF'' (D_class Pv_String False) []),
     (''output_link_0'', pvproperty ''LNK0'' (D_class Pv_String False) []),
     (''output_link_1'', pvproperty ''LNK1'' (D_class Pv_String False) []),
     (''output_link_2'', pvproperty ''LNK2'' (D_class Pv_String False) []),
     (''output_link_3'', pvproperty ''LNK3'' (D_class Pv_String False) []),
     (''output_link_4'', pvproperty ''LNK4'' (D_class Pv_String False) []),
     (''output_link_5'', pvproperty ''LNK5'' (D_class Pv_String False) []),
     (''output_link_6'', pvproperty ''LNK6'' (D_class Pv_String False) []),
     (''output_link_7'', pvproperty ''LNK7'' (D_class Pv_String False) []),
     (''output_link_8'', pvproperty ''LNK8'' (D_class Pv_String False) []),
     (''output_link_9'', pvproperty ''LNK9'' (D_class Pv_String False) []),
     (''output_link_10'', pvproperty ''LNKA'' (D_class Pv_String False) []),
     (''output_link_11'', pvproperty ''LNKB'' (D_class Pv_String False) []),
     (''output_link_12'', pvproperty ''LNKC'' (D_class Pv_String False) []),
     (''output_link_13'', pvproperty ''LNKD'' (D_class Pv_String False) []),
     (''output_link_14'', pvproperty ''LNKE'' (D_class Pv_String False) []),
     (''output_link_15'', pvproperty ''LNKF'' (D_class Pv_String False) []),
     (''offset_for_specified'', pvproperty ''OFFS'' (D_class Pv_Short False) [Value (I_int 0)]),
     (''old_selection'', pvproperty ''OLDN'' (D_class Pv_Short False) []),
     (''display_precision'', pvproperty ''PREC'' (D_class Pv_Short False) [])]"

definition SeqFields_2 :: body where
  "SeqFields_2 =
    [(''link_selection_loc'', pvproperty ''SELL'' (D_class Pv_String False) []),
     (''select_mechanism'', pvproperty ''SELM'' (D_class Pv_Enum False) [Enum_strings seqSELM]),
     (''link_selection'', pvproperty ''SELN'' (D_class Pv_Short False) [Value (I_int 1)]),
     (''shift_for_mask_mode'', pvproperty ''SHFT'' (D_class Pv_Short False) [Value (I_int (- 1))])]"

definition SeqFields_body :: body where
  "SeqFields_body = SeqFields_1 @ SeqFields_2"

definition StateFields_body :: body where
  "StateFields_body =
    [(''device_type'', pvproperty ''DTYP'' (D_class Pv_Enum False) [Enum_strings dtyp_state]),
     (''prev_value'', pvproperty ''OVAL'' (D_class Pv_Char True) [Max_length 20, Report_as_string, Read_only, Value (I_str (lit ''''))])]"

definition StringinFields_body :: body where
  "StringinFields_body =
    [(''device_type'', pvproperty ''DTYP'' (D_class Pv_Enum False) [Enum_strings dtyp_stringin]),
     (''post_archive_monitors'', pvproperty ''APST'' (D_class Pv_Enum False) [Enum_strings stringinPOST]),
     (''input_specification'', pvproperty ''INP'' (D_class Pv_String False) []),
     (''post_value_monitors'', pvproperty ''MPST'' (D_class Pv_Enum False) [Enum_strings stringinPOST]),
     (''prev_simulation_mode'', pvproperty ''OLDSIMM'' (D_class Pv_Enum True) [Enum_strings menuSimm, Read_only]),
     (''previous_value'', pvproperty ''OVAL'' (D_class Pv_Char True) [Max_length 40, Report_as_string, Read_only, Value (I_str (lit ''''))]),
     (''sim_mode_async_delay'', pvproperty ''SDLY'' (D_class Pv_Double False) [Value (I_float (Decimal (- 1) 0))]),
     (''simulation_mode_link'', pvproperty ''SIML'' (D_class Pv_String False) []),
     (''simulation_mode'', pvproperty ''SIMM'' (D_class Pv_Enum False) [Enum_strings menuYesNo]),
     (''simulation_mode_severity'', pvproperty ''SIMS'' (D_class Pv_Enum False) [Enum_strings menuAlarmSevr]),
     (''simulation_input_link'', pvproperty ''SIOL'' (D_class Pv_String False) []),
     (''sim_mode_scan'', pvproperty ''SSCN'' (D_class Pv_Enum False) [Enum_strings menuScan, Value (I_int 0)]),
     (''simulation_value'', pvproperty ''SVAL'' (D_class Pv_Char False) [Max_length 40, Report_as_string, Value (I_str (lit ''''))])]"

definition StringoutFields_body :: body where
  "StringoutFields_body =
    [(''device_type'', pvproperty ''DTYP'' (D_class Pv_Enum False) [Enum_strings dtyp_stringout]),
     (''post_archive_monitors'', pvproperty ''APST'' (D_class Pv_Enum False) [Enum_strings stringoutPOST]),
     (''desired_output_loc'', pvproperty ''DOL'' (D_class Pv_String False) []),
     (''invalid_output_action'', pvproperty ''IVOA'' (D_class Pv_Enum False) [Enum_strings menuIvoa]),
     (''invalid_output_value'', pvproperty ''IVOV'' (D_class Pv_Char False) [Max_length 40, Report_as_string, Value (I_str (lit ''''))]),
     (''post_value_monitors'', pvproperty ''MPST'' (D_class Pv_Enum False) [Enum_strings stringoutPOST]),
     (''prev_simulation_mode'', pvproperty ''OLDSIMM'' (D_class Pv_Enum True) [Enum_strings menuSimm, Read_only]),
     (''output_mode_select'', pvproperty ''OMSL'' (D_class Pv_Enum False) [Enum_strings menuOmsl]),
     (''output_specification'', pvproperty ''OUT'' (D_class Pv_String False) []),
     (''previous_value'', pvproperty ''OVAL'' (D_class Pv_Char True) [Max_length 40, Report_as_string, Read_only, Value (I_str (lit ''''))]),
     (''sim_mode_async_delay'', pvproperty ''SDLY'' (D_class Pv_Double False) [Value (I_float (Decimal (- 1) 0))]),
     (''simulation_mode_link'', pvproperty ''SIML'' (D_class Pv_String False) []),
     (''simulation_mode'', pvproperty ''SIMM'' (D_class Pv_Enum False) [Enum_strings menuYesNo]),
     (''simulation_mode_severity'', pvproperty ''SIMS'' (D_class Pv_Enum False) [Enum_strings menuAlarmSevr]),
     (''simulation_output_link'', pvproperty ''SIOL'' (D_class Pv_String False) []),
     (''sim_mode_scan'', pvproperty ''SSCN'' (D_class Pv_Enum False) [Enum_strings menuScan, Value (I_int 0)])]"

definition SubFields_1 :: body where
  "SubFields_1 =
    [(''device_type'', pvproperty ''DTYP'' (D_class Pv_Enum False) [Enum_strings dtyp_sub]),
     (''value_of_input_a'', pvproperty ''A'' (D_class Pv_Double False) []),
     (''archive_deadband'', pvproperty ''ADEL'' (D_class Pv_Double False) []),
     (''last_value_archived'', pvproperty ''ALST'' (D_class Pv_Double True) [Read_only]),
     (''value_of_input_b'', pvproperty ''B'' (D_class Pv_Double False) []),
     (''bad_return_severity'', pvproperty ''BRSV'' (D_class Pv_Enum False) [Enum_strings menuAlarmSevr]),
     (''value_of_input_c'', pvproperty ''C'' (D_class Pv_Double False) []),
     (''value_of_input_d'', pvproperty ''D'' (D_class Pv_Double False) []),
     (''value_of_input_e'', pvproperty ''E'' (D_class Pv_Double False) []),
     (''engineering_units'', pvproperty ''EGU'' (D_class Pv_Char False) [Max_length 16, Report_as_string, Value (I_str (lit ''''))]),
     (''value_of_input_f'', pvproperty ''F'' (D_class Pv_Double False) []),
     (''value_of_input_g'', pvproperty ''G'' (D_class Pv_Double False) []),
     (''value_of_input_h'', pvproperty ''H'' (D_class Pv_Double False) []),
     (''alarm_deadband'', pvproperty ''HYST'' (D_class Pv_Double False) []),
     (''value_of_input_i'', pvproperty ''I'' (D_class Pv_Double False) []),
     (''init_routine_name'', pvproperty ''INAM'' (D_class Pv_Char True) [Max_length 40, Report_as_string, Read_only, Value (I_str (lit ''''))]),
     (''input_a'', pvproperty ''INPA'' (D_class Pv_String False) []),
     (''input_b'', pvproperty ''INPB'' (D_class Pv_String False) []),
     (''input_c'', pvproperty ''INPC'' (D_class Pv_String False) []),
     (''input_d'', pvproperty ''INPD'' (D_class Pv_String False) []),
     (''input_e'', pvproperty ''INPE'' (D_class Pv_String False) []),
     (''input_f'', pvproperty ''INPF'' (D_class Pv_String False) []),
     (''input_g'', pvproperty ''INPG'' (D_class Pv_String False) []),
     (''input_h'', pvproperty ''INPH'' (D_class Pv_String False) []),
     (''input_i'', pvproperty ''INPI'' (D_class Pv_String False) []),
     (''input_j'', pvproperty ''INPJ'' (D_class Pv_String False) []),
     (''input_k'', pvproperty ''INPK'' (D_class Pv_String False) []),
     (''input_l'', pvproperty ''INPL'' (D_class Pv_String False) []),
     (''value_of_input_j'', pvproperty ''J'' (D_class Pv_Double False) []),
     (''value_of_input_k'', pvproperty ''K'' (D_class Pv_Double False) []),
     (''value_of_input_l'', pvproperty ''L'' (D_class Pv_Double False) []),
     (''prev_value_of_a'', pvproperty ''LA'' (D_class Pv_Double True) [Read_only]),
     (''last_value_alarmed'', pvproperty ''LALM'' (D_class Pv_Double True) [Read_only]),
     (''prev_value_of_b'', pvproperty ''LB'' (D_class Pv_Double True) [Read_only]),
     (''prev_value_of_c'', pvproperty ''LC'' (D_class Pv_Double True) [Read_only]),
     (''prev_value_of_d'', pvproperty ''LD'' (D_class Pv_Double True) [Read_only]),
     (''prev_value_of_e'', pvproperty ''LE'' (D_class Pv_Double True) [Read_only]),
     (''prev_value_of_f'', pvproperty ''LF'' (D_class Pv_Double True) [Read_only]),
     (''prev_value_of_g'', pvproperty ''LG'' (D_class Pv_Double True) [Read_only]),
     (''prev_value_of_h'', pvproperty ''LH'' (D_class Pv_Double True) [Read_only])]"

definition SubFields_2 :: body where
  "SubFields_2 =
    [(''prev_value_of_i'', pvproperty ''LI'' (D_class Pv_Double True) [Read_only]),
     (''prev_value_of_j'', pvproperty ''LJ'' (D_class Pv_Double True) [Read_only]),
     (''prev_value_of_k'', pvproperty ''LK'' (D_class Pv_Double True) [Read_only]),
     (''prev_value_of_l'', pvproperty ''LL'' (D_class Pv_Double True) [Read_only]),
     (''monitor_deadband'', pvproperty ''MDEL'' (D_class Pv_Double False) []),
     (''last_value_monitored'', pvproperty ''MLST'' (D_class Pv_Double True) [Read_only]),
     (''display_precision'', pvproperty ''PREC'' (D_class Pv_Short False) []),
     (''subroutine_name'', pvproperty ''SNAM'' (D_class Pv_Char False) [Max_length 40, Report_as_string, Value (I_str (lit ''''))])]"

definition SubFields_body :: body where
  "SubFields_body = SubFields_1 @ SubFields_2"

definition SubarrayFields_body :: body where
  "SubarrayFields_body =
    [(''device_type'', pvproperty ''DTYP'' (D_class Pv_Enum False) [Enum_strings dtyp_subArray]),
     (''busy_indicator'', pvproperty ''BUSY'' (D_class Pv_Short True) [Read_only]),
     (''engineering_units'', pvproperty ''EGU'' (D_class Pv_Char False) [Max_length 16, Report_as_string, Value (I_str (lit ''''))]),
     (''field_type_of_value'', pvproperty ''FTVL'' (D_class Pv_Enum True) [Enum_strings menuFtype, Read_only]),
     (''high_operating_range'', pvproperty ''HOPR'' (D_class Pv_Double False) []),
     (''substring_index'', pvproperty ''INDX'' (D_class Pv_Integer False) []),
     (''input_specification'', pvproperty ''INP'' (D_class Pv_String False) []),
     (''low_operating_range'', pvproperty ''LOPR'' (D_class Pv_Double False) []),
     (''maximum_elements'', pvproperty ''MALM'' (D_class Pv_Integer True) [Read_only, Value (I_int 1)]),
     (''number_of_elements'', pvproperty ''NELM'' (D_class Pv_Integer False) [Value (I_int 1)]),
     (''number_elements_read'', pvproperty ''NORD'' (D_class Pv_Integer True) [Read_only]),
     (''display_precision'', pvproperty ''PREC'' (D_class Pv_Short False) [])]"

definition WaveformFields_body :: body where
  "WaveformFields_body =
    [(''device_type'', pvproperty ''DTYP'' (D_class Pv_Enum False) [Enum_strings dtyp_waveform]),
     (''post_archive_monitors'', pvproperty ''APST'' (D_class Pv_Enum False) [Enum_strings waveformPOST]),
     (''busy_indicator'', pvproperty ''BUSY'' (D_class Pv_Short True) [Read_only]),
     (''engineering_units'', pvproperty ''EGU'' (D_class Pv_Char False) [Max_length 16, Report_as_string, Value (I_str (lit ''''))]),
     (''field_type_of_value'', pvproperty ''FTVL'' (D_class Pv_Enum True) [Enum_strings menuFtype, Read_only]),
     (''hash_of_onchange_data'', pvproperty ''HASH'' (D_class Pv_Integer False) []),
     (''high_operating_range'', pvproperty ''HOPR'' (D_class Pv_Double False) []),
     (''input_specification'', pvproperty ''INP'' (D_class Pv_String False) []),
     (''low_operating_range'', pvproperty ''LOPR'' (D_class Pv_Double False) []),
     (''post_value_monitors'', pvproperty ''MPST'' (D_class Pv_Enum False) [Enum_strings waveformPOST]),
     (''number_of_elements'', pvproperty ''NELM'' (D_class Pv_Integer True) [Read_only, Value (I_int 1)]),
     (''number_elements_read'', pvproperty ''NORD'' (D_class Pv_Integer True) [Read_only]),
     (''prev_simulation_mode'', pvproperty ''OLDSIMM'' (D_class Pv_Enum True) [Enum_strings menuSimm, Read_only]),
     (''display_precision'', pvproperty ''PREC'' (D_class Pv_Short False) []),
     (''rearm_the_waveform'', pvproperty ''RARM'' (D_class Pv_Short False) []),
     (''sim_mode_async_delay'', pvproperty ''SDLY'' (D_class Pv_Double False) [Value (I_float (Decimal (- 1) 0))]),
     (''simulation_mode_link'', pvproperty ''SIML'' (D_class Pv_String False) []),
     (''simulation_mode'', pvproperty ''SIMM'' (D_class Pv_Enum False) [Enum_strings menuYesNo]),
     (''simulation_mode_severity'', pvproperty ''SIMS'' (D_class Pv_Enum False) [Enum_strings menuAlarmSevr]),
     (''simulation_input_link'', pvproperty ''SIOL'' (D_class Pv_String False) []),
     (''sim_mode_scan'', pvproperty ''SSCN'' (D_class Pv_Enum False) [Enum_strings menuScan, Value (I_int 0)])]"

end
