(* ===== verification/CA_Fields.thy ===== *)
theory CA_Fields
  imports CA_Records
begin

text \<open>
  The classes of record fields: the class statements of \<^verbatim>\<open>caproto/server/records/base.py\<close> with \<^verbatim>\<open>copy_pvproperties\<close>, the subclasses of
  \<^verbatim>\<open>records/records.py\<close> that link fields to their channel, and the registry of record types. Linking changes a property in place; it
  is done here before the class that has the property is made, except where copies were taken earlier.
\<close>

section \<open>Links\<close>

text \<open>\<^verbatim>\<open>link_parent_attribute\<close> and \<^verbatim>\<open>link_enum_strings\<close>.\<close>

definition link_parent_attribute :: "string \<Rightarrow> bool \<Rightarrow> bool \<Rightarrow> field \<Rightarrow> field" where
  "link_parent_attribute attr read_only use_setattr spec =
     (let spec = set_hook Hook_get (Get_attribute attr) spec
      in if read_only then spec
         else set_hook Hook_put (if use_setattr then Set_attribute attr else Write_metadata attr) spec)"

definition link_enum_strings :: "nat \<Rightarrow> field \<Rightarrow> field" where
  "link_enum_strings index spec = set_hook Hook_put (Put_enum_string index) (set_hook Hook_get (Get_enum_string index) spec)"

type_synonym links = "(string \<times> (field \<Rightarrow> field)) list"

definition link_field :: "links \<Rightarrow> string \<times> field \<Rightarrow> string \<times> field" where
  "link_field ls ap = (fst ap, fold (\<lambda>(attr, f) spec. if attr = fst ap then f spec else spec) ls (snd ap))"

definition link_fields :: "links \<Rightarrow> body \<Rightarrow> body" where
  "link_fields ls body = map (link_field ls) body"

section \<open>Classes\<close>

definition class_of :: "(decimal, hook) group_class result \<Rightarrow> (decimal, hook) group_class" where
  "class_of r = (case r of Inl _ \<Rightarrow> PVGroup | Inr c \<Rightarrow> c)"

definition props :: "body \<Rightarrow> (string \<times> (decimal, hook) member) list" where
  "props body = map (\<lambda>(attr, spec). (attr, Prop spec)) body"

definition copy_pvproperties :: "(decimal, hook) group_class \<Rightarrow> (string \<times> (decimal, hook) member) list" where
  "copy_pvproperties cls = map (\<lambda>(attr, spec). (attr, Prop (copy_pvproperty spec))) (gc_pvs cls)"

definition Limits_links :: links where
  "Limits_links =
    [(''hihi_alarm_limit'', link_parent_attribute ''upper_alarm_limit'' False False),
     (''lolo_alarm_limit'', link_parent_attribute ''lower_alarm_limit'' False False),
     (''high_alarm_limit'', link_parent_attribute ''upper_warning_limit'' False False),
     (''low_alarm_limit'', link_parent_attribute ''lower_warning_limit'' False False),
     (''high_operating_range'', link_parent_attribute ''upper_ctrl_limit'' False False),
     (''low_operating_range'', link_parent_attribute ''lower_ctrl_limit'' False False)]"

definition Limits :: "(decimal, hook) group_class" where
  "Limits = class_of (new_class ''mixins._Limits'' [PVGroup] (props (link_fields Limits_links Limits_body)))"

definition LimitsLong :: "(decimal, hook) group_class" where
  "LimitsLong = class_of (new_class ''mixins._LimitsLong'' [PVGroup] (props (link_fields Limits_links LimitsLong_body)))"

text \<open>\<^verbatim>\<open>base.RecordFieldGroup\<close> with the hooks that \<^verbatim>\<open>records.py\<close> adds to its properties; the other classes copy it before that.\<close>

definition base_RecordFieldGroup :: "links \<Rightarrow> (decimal, hook) group_class" where
  "base_RecordFieldGroup ls = class_of (new_class ''base.RecordFieldGroup'' [PVGroup] (props (link_fields ls RecordFieldGroup_body)))"

definition RecordFieldGroup_links :: links where
  "RecordFieldGroup_links =
    [(''scan_rate'', set_hook Hook_put Put_scan_rate),
     (''process_record'', set_hook Hook_put Put_process),
     (''description'', link_parent_attribute ''__doc__'' False True)]"

definition hooked_property :: "string \<Rightarrow> (decimal, hook) group_class \<Rightarrow> (string \<times> (decimal, hook) member) list" where
  "hooked_property attr cls = (case class_getattr cls attr of Inr m \<Rightarrow> [(attr, m)] | Inl _ \<Rightarrow> [])"

definition RecordFieldGroup :: "(decimal, hook) group_class" where
  "RecordFieldGroup =
     (let b = base_RecordFieldGroup RecordFieldGroup_links
      in class_of (new_class ''records.RecordFieldGroup'' [b]
           ((''record_type'', Prop (pvproperty ''RTYP'' (D_class Pv_String True) [Read_only]))
            # hooked_property ''scan_rate'' b @ hooked_property ''process_record'' b)))"

text \<open>
  A class of \<^verbatim>\<open>base.py\<close> and its subclass in \<^verbatim>\<open>records.py\<close>: the record type, the classes of limits mixed in, the links of both files,
  the fields, and whether the subclass gives \<^verbatim>\<open>RVAL\<close> a putter.
\<close>

definition raw_link :: "bool \<Rightarrow> links" where
  "raw_link raw = (if raw then [(''raw_value'', set_hook Hook_put Put_raw_value)] else [])"

definition base_class ::
  "string \<Rightarrow> string \<Rightarrow> (decimal, hook) group_class list \<Rightarrow> links \<Rightarrow> body \<Rightarrow> bool \<Rightarrow> (decimal, hook) group_class" where
  "base_class name rtyp mixin ls body raw =
     class_of (new_class (''base.'' @ name) (base_RecordFieldGroup RecordFieldGroup_links # mixin)
       ((''_record_type'', Text (lit rtyp)) # concat (map copy_pvproperties (base_RecordFieldGroup [] # mixin))
        @ props (link_fields (ls @ raw_link raw) body)))"

definition fields_class ::
  "string \<Rightarrow> string \<Rightarrow> (decimal, hook) group_class list \<Rightarrow> links \<Rightarrow> body \<Rightarrow> bool \<Rightarrow> (decimal, hook) group_class" where
  "fields_class name rtyp mixin ls body raw =
     (let b = base_class name rtyp mixin ls body raw
      in class_of (new_class (''records.'' @ name) [b, RecordFieldGroup] (if raw then hooked_property ''raw_value'' b else [])))"

section \<open>Record types\<close>

definition AiFields_base_links :: links where
  "AiFields_base_links =
    [(''display_precision'', link_parent_attribute ''precision'' False False),
     (''archive_deadband'', link_parent_attribute ''log_atol'' False True),
     (''monitor_deadband'', link_parent_attribute ''value_atol'' False True)]"

definition AiFields_links :: links where
  "AiFields_links =
    [(''display_precision'', link_parent_attribute ''precision'' False False),
     (''archive_deadband'', link_parent_attribute ''log_atol'' False True),
     (''monitor_deadband'', link_parent_attribute ''value_atol'' False True)]"

definition AiFields :: "(decimal, hook) group_class" where
  "AiFields = fields_class ''AiFields'' ''ai'' [Limits] (AiFields_base_links @ AiFields_links) AiFields_body False"

definition AsubFields_base_links :: links where
  "AsubFields_base_links =
    [(''display_precision'', link_parent_attribute ''precision'' False False)]"

definition AsubFields_links :: links where
  "AsubFields_links =
    [(''display_precision'', link_parent_attribute ''precision'' False False)]"

definition AsubFields :: "(decimal, hook) group_class" where
  "AsubFields = fields_class ''AsubFields'' ''aSub'' [] (AsubFields_base_links @ AsubFields_links) AsubFields_body False"

definition AaiFields_base_links :: links where
  "AaiFields_base_links =
    [(''display_precision'', link_parent_attribute ''precision'' False False),
     (''high_operating_range'', link_parent_attribute ''upper_ctrl_limit'' False False),
     (''low_operating_range'', link_parent_attribute ''lower_ctrl_limit'' False False),
     (''number_of_elements'', link_parent_attribute ''max_length'' True True)]"

definition AaiFields_links :: links where
  "AaiFields_links =
    [(''display_precision'', link_parent_attribute ''precision'' False False),
     (''high_operating_range'', link_parent_attribute ''upper_ctrl_limit'' False False),
     (''low_operating_range'', link_parent_attribute ''lower_ctrl_limit'' False False),
     (''number_of_elements'', link_parent_attribute ''max_length'' True True)]"

definition AaiFields :: "(decimal, hook) group_class" where
  "AaiFields = fields_class ''AaiFields'' ''aai'' [] (AaiFields_base_links @ AaiFields_links) AaiFields_body False"

definition AaoFields_base_links :: links where
  "AaoFields_base_links =
    [(''display_precision'', link_parent_attribute ''precision'' False False),
     (''high_operating_range'', link_parent_attribute ''upper_ctrl_limit'' False False),
     (''low_operating_range'', link_parent_attribute ''lower_ctrl_limit'' False False),
     (''number_of_elements'', link_parent_attribute ''max_length'' True True)]"

definition AaoFields_links :: links where
  "AaoFields_links =
    [(''display_precision'', link_parent_attribute ''precision'' False False),
     (''high_operating_range'', link_parent_attribute ''upper_ctrl_limit'' False False),
     (''low_operating_range'', link_parent_attribute ''lower_ctrl_limit'' False False),
     (''number_of_elements'', link_parent_attribute ''max_length'' True True)]"

definition AaoFields :: "(decimal, hook) group_class" where
  "AaoFields = fields_class ''AaoFields'' ''aao'' [] (AaoFields_base_links @ AaoFields_links) AaoFields_body False"

definition AoFields_base_links :: links where
  "AoFields_base_links =
    [(''display_precision'', link_parent_attribute ''precision'' False False),
     (''archive_deadband'', link_parent_attribute ''log_atol'' False True),
     (''monitor_deadband'', link_parent_attribute ''value_atol'' False True)]"

definition AoFields_links :: links where
  "AoFields_links =
    [(''display_precision'', link_parent_attribute ''precision'' False False),
     (''archive_deadband'', link_parent_attribute ''log_atol'' False True),
     (''monitor_deadband'', link_parent_attribute ''value_atol'' False True)]"

definition AoFields :: "(decimal, hook) group_class" where
  "AoFields = fields_class ''AoFields'' ''ao'' [Limits] (AoFields_base_links @ AoFields_links) AoFields_body False"

definition AsynFields :: "(decimal, hook) group_class" where
  "AsynFields = fields_class ''AsynFields'' ''asyn'' [] [] AsynFields_body False"

definition BiFields_links :: links where
  "BiFields_links =
    [(''zero_name'', link_enum_strings 0),
     (''one_name'', link_enum_strings 1)]"

definition BiFields :: "(decimal, hook) group_class" where
  "BiFields = fields_class ''BiFields'' ''bi'' [] BiFields_links BiFields_body True"

definition BoFields_links :: links where
  "BoFields_links =
    [(''zero_name'', link_enum_strings 0),
     (''one_name'', link_enum_strings 1)]"

definition BoFields :: "(decimal, hook) group_class" where
  "BoFields = fields_class ''BoFields'' ''bo'' [] BoFields_links BoFields_body True"

definition CalcFields_base_links :: links where
  "CalcFields_base_links =
    [(''display_precision'', link_parent_attribute ''precision'' False False),
     (''archive_deadband'', link_parent_attribute ''log_atol'' False True),
     (''monitor_deadband'', link_parent_attribute ''value_atol'' False True)]"

definition CalcFields_links :: links where
  "CalcFields_links =
    [(''display_precision'', link_parent_attribute ''precision'' False False),
     (''archive_deadband'', link_parent_attribute ''log_atol'' False True),
     (''monitor_deadband'', link_parent_attribute ''value_atol'' False True)]"

definition CalcFields :: "(decimal, hook) group_class" where
  "CalcFields = fields_class ''CalcFields'' ''calc'' [Limits] (CalcFields_base_links @ CalcFields_links) CalcFields_body False"

definition CalcoutFields_base_links :: links where
  "CalcoutFields_base_links =
    [(''display_precision'', link_parent_attribute ''precision'' False False),
     (''archive_deadband'', link_parent_attribute ''log_atol'' False True),
     (''monitor_deadband'', link_parent_attribute ''value_atol'' False True)]"

definition CalcoutFields_links :: links where
  "CalcoutFields_links =
    [(''display_precision'', link_parent_attribute ''precision'' False False),
     (''archive_deadband'', link_parent_attribute ''log_atol'' False True),
     (''monitor_deadband'', link_parent_attribute ''value_atol'' False True)]"

definition CalcoutFields :: "(decimal, hook) group_class" where
  "CalcoutFields = fields_class ''CalcoutFields'' ''calcout'' [Limits] (CalcoutFields_base_links @ CalcoutFields_links) CalcoutFields_body False"

definition CompressFields_base_links :: links where
  "CompressFields_base_links =
    [(''high_operating_range'', link_parent_attribute ''upper_ctrl_limit'' False False),
     (''low_operating_range'', link_parent_attribute ''lower_ctrl_limit'' False False),
     (''display_precision'', link_parent_attribute ''precision'' False False)]"

definition CompressFields_links :: links where
  "CompressFields_links =
    [(''high_operating_range'', link_parent_attribute ''upper_ctrl_limit'' False False),
     (''low_operating_range'', link_parent_attribute ''lower_ctrl_limit'' False False),
     (''display_precision'', link_parent_attribute ''precision'' False False)]"

definition CompressFields :: "(decimal, hook) group_class" where
  "CompressFields = fields_class ''CompressFields'' ''compress'' [] (CompressFields_base_links @ CompressFields_links) CompressFields_body False"

definition DfanoutFields_base_links :: links where
  "DfanoutFields_base_links =
    [(''display_precision'', link_parent_attribute ''precision'' False False),
     (''archive_deadband'', link_parent_attribute ''log_atol'' False True),
     (''monitor_deadband'', link_parent_attribute ''value_atol'' False True)]"

definition DfanoutFields_links :: links where
  "DfanoutFields_links =
    [(''display_precision'', link_parent_attribute ''precision'' False False),
     (''archive_deadband'', link_parent_attribute ''log_atol'' False True),
     (''monitor_deadband'', link_parent_attribute ''value_atol'' False True)]"

definition DfanoutFields :: "(decimal, hook) group_class" where
  "DfanoutFields = fields_class ''DfanoutFields'' ''dfanout'' [Limits] (DfanoutFields_base_links @ DfanoutFields_links) DfanoutFields_body False"

definition EventFields :: "(decimal, hook) group_class" where
  "EventFields = fields_class ''EventFields'' ''event'' [] [] EventFields_body False"

definition FanoutFields :: "(decimal, hook) group_class" where
  "FanoutFields = fields_class ''FanoutFields'' ''fanout'' [] [] FanoutFields_body False"

definition HistogramFields_base_links :: links where
  "HistogramFields_base_links =
    [(''display_precision'', link_parent_attribute ''precision'' False False),
     (''high_operating_range'', link_parent_attribute ''upper_ctrl_limit'' False False),
     (''low_operating_range'', link_parent_attribute ''lower_ctrl_limit'' False False)]"

definition HistogramFields_links :: links where
  "HistogramFields_links =
    [(''display_precision'', link_parent_attribute ''precision'' False False),
     (''high_operating_range'', link_parent_attribute ''upper_ctrl_limit'' False False),
     (''low_operating_range'', link_parent_attribute ''lower_ctrl_limit'' False False)]"

definition HistogramFields :: "(decimal, hook) group_class" where
  "HistogramFields = fields_class ''HistogramFields'' ''histogram'' [] (HistogramFields_base_links @ HistogramFields_links) HistogramFields_body False"

definition Int64inFields_base_links :: links where
  "Int64inFields_base_links =
    [(''archive_deadband'', link_parent_attribute ''log_atol'' False True),
     (''monitor_deadband'', link_parent_attribute ''value_atol'' False True)]"

definition Int64inFields_links :: links where
  "Int64inFields_links =
    [(''archive_deadband'', link_parent_attribute ''log_atol'' False True),
     (''monitor_deadband'', link_parent_attribute ''value_atol'' False True)]"

definition Int64inFields :: "(decimal, hook) group_class" where
  "Int64inFields = fields_class ''Int64inFields'' ''int64in'' [LimitsLong] (Int64inFields_base_links @ Int64inFields_links) Int64inFields_body False"

definition Int64outFields_base_links :: links where
  "Int64outFields_base_links =
    [(''archive_deadband'', link_parent_attribute ''log_atol'' False True),
     (''monitor_deadband'', link_parent_attribute ''value_atol'' False True)]"

definition Int64outFields_links :: links where
  "Int64outFields_links =
    [(''archive_deadband'', link_parent_attribute ''log_atol'' False True),
     (''monitor_deadband'', link_parent_attribute ''value_atol'' False True)]"

definition Int64outFields :: "(decimal, hook) group_class" where
  "Int64outFields = fields_class ''Int64outFields'' ''int64out'' [LimitsLong] (Int64outFields_base_links @ Int64outFields_links) Int64outFields_body False"

definition LonginFields_base_links :: links where
  "LonginFields_base_links =
    [(''archive_deadband'', link_parent_attribute ''log_atol'' False True),
     (''monitor_deadband'', link_parent_attribute ''value_atol'' False True)]"

definition LonginFields_links :: links where
  "LonginFields_links =
    [(''archive_deadband'', link_parent_attribute ''log_atol'' False True),
     (''monitor_deadband'', link_parent_attribute ''value_atol'' False True)]"

definition LonginFields :: "(decimal, hook) group_class" where
  "LonginFields = fields_class ''LonginFields'' ''longin'' [LimitsLong] (LonginFields_base_links @ LonginFields_links) LonginFields_body False"

definition LongoutFields_base_links :: links where
  "LongoutFields_base_links =
    [(''archive_deadband'', link_parent_attribute ''log_atol'' False True),
     (''monitor_deadband'', link_parent_attribute ''value_atol'' False True)]"

definition LongoutFields_links :: links where
  "LongoutFields_links =
    [(''archive_deadband'', link_parent_attribute ''log_atol'' False True),
     (''monitor_deadband'', link_parent_attribute ''value_atol'' False True)]"

definition LongoutFields :: "(decimal, hook) group_class" where
  "LongoutFields = fields_class ''LongoutFields'' ''longout'' [LimitsLong] (LongoutFields_base_links @ LongoutFields_links) LongoutFields_body False"

definition LsiFields :: "(decimal, hook) group_class" where
  "LsiFields = fields_class ''LsiFields'' ''lsi'' [] [] LsiFields_body False"

definition LsoFields :: "(decimal, hook) group_class" where
  "LsoFields = fields_class ''LsoFields'' ''lso'' [] [] LsoFields_body False"

definition MbbiFields_links :: links where
  "MbbiFields_links =
    [(''zero_string'', link_enum_strings 0),
     (''one_string'', link_enum_strings 1),
     (''two_string'', link_enum_strings 2),
     (''three_string'', link_enum_strings 3),
     (''four_string'', link_enum_strings 4),
     (''five_string'', link_enum_strings 5),
     (''six_string'', link_enum_strings 6),
     (''seven_string'', link_enum_strings 7),
     (''eight_string'', link_enum_strings 8),
     (''nine_string'', link_enum_strings 9),
     (''ten_string'', link_enum_strings 10),
     (''eleven_string'', link_enum_strings 11),
     (''twelve_string'', link_enum_strings 12),
     (''thirteen_string'', link_enum_strings 13),
     (''fourteen_string'', link_enum_strings 14),
     (''fifteen_string'', link_enum_strings 15)]"

definition MbbiFields :: "(decimal, hook) group_class" where
  "MbbiFields = fields_class ''MbbiFields'' ''mbbi'' [] MbbiFields_links MbbiFields_body True"

definition MbbidirectFields :: "(decimal, hook) group_class" where
  "MbbidirectFields = fields_class ''MbbidirectFields'' ''mbbiDirect'' [] [] MbbidirectFields_body False"

definition MbboFields_links :: links where
  "MbboFields_links =
    [(''one_string'', link_enum_strings 1),
     (''two_string'', link_enum_strings 2),
     (''three_string'', link_enum_strings 3),
     (''four_string'', link_enum_strings 4),
     (''five_string'', link_enum_strings 5),
     (''six_string'', link_enum_strings 6),
     (''seven_string'', link_enum_strings 7),
     (''eight_string'', link_enum_strings 8),
     (''nine_string'', link_enum_strings 9),
     (''ten_string'', link_enum_strings 10),
     (''eleven_string'', link_enum_strings 11),
     (''twelve_string'', link_enum_strings 12),
     (''thirteen_string'', link_enum_strings 13),
     (''fourteen_string'', link_enum_strings 14),
     (''fifteen_string'', link_enum_strings 15)]"

definition MbboFields :: "(decimal, hook) group_class" where
  "MbboFields = fields_class ''MbboFields'' ''mbbo'' [] MbboFields_links MbboFields_body True"

definition MbbodirectFields :: "(decimal, hook) group_class" where
  "MbbodirectFields = fields_class ''MbbodirectFields'' ''mbboDirect'' [] [] MbbodirectFields_body False"

definition MotorFields_base_links :: links where
  "MotorFields_base_links =
    [(''display_precision'', link_parent_attribute ''precision'' False False),
     (''archive_deadband'', link_parent_attribute ''log_atol'' False True),
     (''monitor_deadband'', link_parent_attribute ''value_atol'' False True)]"

definition MotorFields_links :: links where
  "MotorFields_links =
    [(''display_precision'', link_parent_attribute ''precision'' False False),
     (''archive_deadband'', link_parent_attribute ''log_atol'' False True),
     (''monitor_deadband'', link_parent_attribute ''value_atol'' False True)]"

definition MotorFields :: "(decimal, hook) group_class" where
  "MotorFields = fields_class ''MotorFields'' ''motor'' [Limits] (MotorFields_base_links @ MotorFields_links) MotorFields_body False"

definition PermissiveFields :: "(decimal, hook) group_class" where
  "PermissiveFields = fields_class ''PermissiveFields'' ''permissive'' [] [] PermissiveFields_body False"

definition PrintfFields :: "(decimal, hook) group_class" where
  "PrintfFields = fields_class ''PrintfFields'' ''printf'' [] [] PrintfFields_body False"

definition SelFields_base_links :: links where
  "SelFields_base_links =
    [(''display_precision'', link_parent_attribute ''precision'' False False),
     (''archive_deadband'', link_parent_attribute ''log_atol'' False True),
     (''monitor_deadband'', link_parent_attribute ''value_atol'' False True)]"

definition SelFields_links :: links where
  "SelFields_links =
    [(''display_precision'', link_parent_attribute ''precision'' False False),
     (''archive_deadband'', link_parent_attribute ''log_atol'' False True),
     (''monitor_deadband'', link_parent_attribute ''value_atol'' False True)]"

definition SelFields :: "(decimal, hook) group_class" where
  "SelFields = fields_class ''SelFields'' ''sel'' [Limits] (SelFields_base_links @ SelFields_links) SelFields_body False"

definition SeqFields_base_links :: links where
  "SeqFields_base_links =
    [(''display_precision'', link_parent_attribute ''precision'' False False)]"

definition SeqFields_links :: links where
  "SeqFields_links =
    [(''display_precision'', link_parent_attribute ''precision'' False False)]"

definition SeqFields :: "(decimal, hook) group_class" where
  "SeqFields = fields_class ''SeqFields'' ''seq'' [] (SeqFields_base_links @ SeqFields_links) SeqFields_body False"

definition StateFields :: "(decimal, hook) group_class" where
  "StateFields = fields_class ''StateFields'' ''state'' [] [] StateFields_body False"

definition StringinFields :: "(decimal, hook) group_class" where
  "StringinFields = fields_class ''StringinFields'' ''stringin'' [] [] StringinFields_body False"

definition StringoutFields :: "(decimal, hook) group_class" where
  "StringoutFields = fields_class ''StringoutFields'' ''stringout'' [] [] StringoutFields_body False"

definition SubFields_base_links :: links where
  "SubFields_base_links =
    [(''display_precision'', link_parent_attribute ''precision'' False False),
     (''archive_deadband'', link_parent_attribute ''log_atol'' False True),
     (''monitor_deadband'', link_parent_attribute ''value_atol'' False True)]"

definition SubFields_links :: links where
  "SubFields_links =
    [(''display_precision'', link_parent_attribute ''precision'' False False),
     (''archive_deadband'', link_parent_attribute ''log_atol'' False True),
     (''monitor_deadband'', link_parent_attribute ''value_atol'' False True)]"

definition SubFields :: "(decimal, hook) group_class" where
  "SubFields = fields_class ''SubFields'' ''sub'' [Limits] (SubFields_base_links @ SubFields_links) SubFields_body False"

definition SubarrayFields_base_links :: links where
  "SubarrayFields_base_links =
    [(''display_precision'', link_parent_attribute ''precision'' False False),
     (''high_operating_range'', link_parent_attribute ''upper_ctrl_limit'' False False),
     (''low_operating_range'', link_parent_attribute ''lower_ctrl_limit'' False False),
     (''maximum_elements'', link_parent_attribute ''length'' True True),
     (''number_of_elements'', link_parent_attribute ''max_length'' True True)]"

definition SubarrayFields_links :: links where
  "SubarrayFields_links =
    [(''display_precision'', link_parent_attribute ''precision'' False False),
     (''high_operating_range'', link_parent_attribute ''upper_ctrl_limit'' False False),
     (''low_operating_range'', link_parent_attribute ''lower_ctrl_limit'' False False),
     (''maximum_elements'', link_parent_attribute ''length'' True True),
     (''number_of_elements'', link_parent_attribute ''max_length'' True True)]"

definition SubarrayFields :: "(decimal, hook) group_class" where
  "SubarrayFields = fields_class ''SubarrayFields'' ''subArray'' [] (SubarrayFields_base_links @ SubarrayFields_links) SubarrayFields_body False"

definition WaveformFields_base_links :: links where
  "WaveformFields_base_links =
    [(''display_precision'', link_parent_attribute ''precision'' False False),
     (''high_operating_range'', link_parent_attribute ''upper_ctrl_limit'' False False),
     (''low_operating_range'', link_parent_attribute ''lower_ctrl_limit'' False False),
     (''number_of_elements'', link_parent_attribute ''max_length'' True True)]"

definition WaveformFields_links :: links where
  "WaveformFields_links =
    [(''display_precision'', link_parent_attribute ''precision'' False False),
     (''high_operating_range'', link_parent_attribute ''upper_ctrl_limit'' False False),
     (''low_operating_range'', link_parent_attribute ''lower_ctrl_limit'' False False),
     (''number_of_elements'', link_parent_attribute ''max_length'' True True)]"

definition WaveformFields :: "(decimal, hook) group_class" where
  "WaveformFields = fields_class ''WaveformFields'' ''waveform'' [] (WaveformFields_base_links @ WaveformFields_links) WaveformFields_body False"
text \<open>The registry: record types and their classes.\<close>

definition records :: "(string \<times> (decimal, hook) group_class) list" where
  "records =
    [(''ai'', AiFields),
     (''aSub'', AsubFields),
     (''aai'', AaiFields),
     (''aao'', AaoFields),
     (''ao'', AoFields),
     (''asyn'', AsynFields),
     (''bi'', BiFields),
     (''bo'', BoFields),
     (''calc'', CalcFields),
     (''calcout'', CalcoutFields),
     (''compress'', CompressFields),
     (''dfanout'', DfanoutFields),
     (''event'', EventFields),
     (''fanout'', FanoutFields),
     (''histogram'', HistogramFields),
     (''int64in'', Int64inFields),
     (''int64out'', Int64outFields),
     (''longin'', LonginFields),
     (''longout'', LongoutFields),
     (''lsi'', LsiFields),
     (''lso'', LsoFields),
     (''mbbi'', MbbiFields),
     (''mbbiDirect'', MbbidirectFields),
     (''mbbo'', MbboFields),
     (''mbboDirect'', MbbodirectFields),
     (''motor'', MotorFields),
     (''permissive'', PermissiveFields),
     (''printf'', PrintfFields),
     (''sel'', SelFields),
     (''seq'', SeqFields),
     (''state'', StateFields),
     (''stringin'', StringinFields),
     (''stringout'', StringoutFields),
     (''sub'', SubFields),
     (''subArray'', SubarrayFields),
     (''waveform'', WaveformFields)]"

end
