(* ===== verification/Spec2Isabelle.thy ===== *)
theory Spec2Isabelle
  imports CA_Server CA_Repeater CA_Status CA_Dbr CA_Convert CA_Client_Props CA_Fields
begin

text \<open>
  A verification library for \<^verbatim>\<open>caproto\<close>, a pure Python implementation of the EPICS Channel Access protocol.

  \<^bold>\<open>The program.\<close> \<^verbatim>\<open>caproto\<close> is a "sans I/O" library. Its core (\<^verbatim>\<open>src/caproto/_*.py\<close>) turns commands into bytes and
  bytes into commands, and keeps the state of every connection; clients and servers for several event loops
  are built on it and only move bytes. A \<^verbatim>\<open>VirtualCircuit\<close> (\<^verbatim>\<open>_circuit.py\<close>) is one TCP connection: it parses the
  stream with \<^verbatim>\<open>read_from_bytestream\<close> (\<^verbatim>\<open>_commands.py\<close>, with the headers of \<^verbatim>\<open>_headers.py\<close>), checks every command
  against the tables of \<^verbatim>\<open>_state.py\<close>, and keeps the channels, the outstanding requests and the subscriptions. A
  \<^verbatim>\<open>Broadcaster\<close> (\<^verbatim>\<open>_broadcaster.py\<close>) does the same for datagrams. A server (\<^verbatim>\<open>server/common.py\<close>) has a database of channel
  data (\<^verbatim>\<open>_data.py\<close>), one circuit per client, and a context that fans the updates of channel data out to the
  subscriptions of all circuits. A client keeps what it learnt from searches in \<^verbatim>\<open>client/search_results.py\<close>. The repeater
  (\<^verbatim>\<open>sync/repeater.py\<close>) forwards beacons to all clients of a host.

  \<^bold>\<open>The theories: the protocol.\<close>
  \<^item> \<open>CA_Prelude\<close>: results with exceptions, dictionaries as association lists with Python's order, \<^verbatim>\<open>defaultdict\<close>, big-endian
    integers and fixed-size codecs (locale \<open>fixed_codec\<close>), UTF-8 and Latin-1, the exceptions of \<^verbatim>\<open>_utils.py\<close>.
  \<^item> \<open>CA_Headers\<close>: the two header structures and every header constructor of \<^verbatim>\<open>_headers.py\<close>.
  \<^item> \<open>CA_Status\<close>: \<^verbatim>\<open>_status.py\<close>; the packed status values.
  \<^item> \<open>CA_Dbr\<close>: \<^verbatim>\<open>_dbr.py\<close>; the type ids, the layouts of the metadata structures, the promotion tables, string
    arrays and enum strings.
  \<^item> \<open>CA_Commands\<close>, \<open>CA_Constructors\<close>, \<open>CA_Wire\<close>: \<^verbatim>\<open>_commands.py\<close>; the command classes and their registry, the
    constructors with their padding, and the parsers of streams and datagrams.
  \<^item> \<open>CA_Roundtrip\<close>: what is written is what is read, for messages, streams, datagrams and fields. Streams are
    proved once in the locale \<open>framed_stream\<close> and interpreted on the parser.
  \<^item> \<open>CA_State\<close>: \<^verbatim>\<open>_state.py\<close>; the transition tables and the agreement of the peers, proved once in the locale
    \<open>paired_machine\<close> and interpreted on the circuit machine and the channel machine.
  \<^item> \<open>CA_Ids\<close>: \<^verbatim>\<open>ThreadsafeCounter\<close> and \<^verbatim>\<open>batch_requests\<close> of \<^verbatim>\<open>_utils.py\<close>; locale \<open>fresh_ids\<close>.
  \<^item> \<open>CA_Circuit\<close>, \<open>CA_Circuit_Inv\<close>, \<open>CA_Circuit_Props\<close>: \<^verbatim>\<open>VirtualCircuit\<close>; its state, every stage of
    \<^verbatim>\<open>_process_command\<close>, the invariant of reachable circuits (locale \<open>robust_operation\<close>) and the protocol-level
    theorems.
  \<^item> \<open>CA_Filters\<close>: channel names and channel filters of \<^verbatim>\<open>_utils.py\<close>, with Python's slices.
  \<^item> \<open>CA_Channels\<close>: \<^verbatim>\<open>ClientChannel\<close> and \<^verbatim>\<open>ServerChannel\<close> of \<^verbatim>\<open>_circuit.py\<close>, and a reading followed from the client's
    request to the answer through both circuits.
  \<^item> \<open>CA_Broadcaster\<close>: \<^verbatim>\<open>Broadcaster\<close>.

  \<^bold>\<open>The theories: servers, clients, repeater.\<close>
  \<^item> \<open>CA_Pvdb\<close>: the lookup of names in a server's database (\<^verbatim>\<open>Context.__getitem__\<close>) and the answers to searches, whole datagrams
    included.
  \<^item> \<open>CA_Data\<close>: \<^verbatim>\<open>ChannelAlarm\<close> and the writing of numeric and enum channel data with their limits.
  \<^item> \<open>CA_Subscriptions\<close>: the subscriptions of a server, from \<^verbatim>\<open>EventAddRequest\<close> to the batches of updates:
    \<^verbatim>\<open>ChannelData.subscribe\<close> and \<^verbatim>\<open>publish\<close>, the tables of \<^verbatim>\<open>Context\<close> and \<^verbatim>\<open>VirtualCircuit\<close>, deadbands, synchronisation
    filters, backlogs, events on and off. The step relation \<open>server_step\<close> has the operations in any order; the registry of
    specifications is the locale \<open>spec_registry\<close>.
  \<^item> \<open>CA_Server\<close>: the handlers of all commands and the command loop of \<^verbatim>\<open>server/common.py\<close>, over the circuit, the database and
    the subscriptions.
  \<^item> \<open>CA_Search\<close>: \<^verbatim>\<open>SearchResults\<close>, with its invariant over all operations.
  \<^item> \<open>CA_Repeater\<close>: one round of the repeater.
  \<^item> \<open>CA_Convert\<close>: \<^verbatim>\<open>_backend.py\<close> and \<^verbatim>\<open>_array_backend.py\<close>, the conversion of values to and from the wire.
  \<^item> \<open>CA_Shared\<close>: \<^verbatim>\<open>SharedBroadcaster\<close> of \<^verbatim>\<open>threading/client.py\<close>, with the delivery and the repetition of searches.
  \<^item> \<open>CA_Manager\<close>: the rest of \<^verbatim>\<open>threading/client.py\<close>: \<^verbatim>\<open>Context\<close>, \<^verbatim>\<open>VirtualCircuitManager\<close>, \<^verbatim>\<open>PV\<close>, \<^verbatim>\<open>Subscription\<close>, \<^verbatim>\<open>Batch\<close>.
    \<open>CA_Client\<close>, \<open>CA_Client_Inv\<close>, \<open>CA_Client_Steps\<close> and \<open>CA_Client_Reach\<close> prove the invariant \<open>cx_ok\<close> of the clients a program
    can reach (step relation \<open>client_step\<close>); \<open>CA_Client_Props\<close> has what follows for lost connections, requests and subscriptions.

  \<^bold>\<open>Conventions.\<close> Machine integers of a header field are kept as integers and reduced modulo the width of the field
  when they are stored, as \<^verbatim>\<open>ctypes\<close> does. A Python exception is \<open>Inl\<close>; an operation that changes state returns the
  state it leaves behind also when it raises. Channel objects are shared between dictionaries, so they live in a
  store and the dictionaries hold references; the same holds for channel data and for pending searches. Updates that are
  held by weak references carry an identity, and are alive while a backlog or a filter holds them. Loops are structural
  recursion or recursion with a measure; the only loop that may not
  end, that of \<^verbatim>\<open>ThreadsafeCounter\<close>, is a \<^verbatim>\<open>partial_function (option)\<close> whose \<open>None\<close> is non-termination. There is no
  fuel. A coroutine is one step from the point where it is called to the point where it is done.

  \<^bold>\<open>Parameters.\<close> The circuit has the parser of channel filters (\<open>mk_filter\<close>) as a parameter, which \<open>CA_Filters\<close> models up to
  \<^verbatim>\<open>json.loads\<close> and \<^verbatim>\<open>float\<close>. The clock, random numbers, whether a datagram can be sent and whether a port is free are
  arguments of the operations; so is, for the threading client, what a new connection receives while its manager waits, and which
  callbacks still exist. The methods of the client that wait are split at the wait, and what a thread does between two
  waits is one step. The conversion of values has the operations on floating point numbers as a parameter. In the server, channel data are converted by the array backend, and subclasses may override reading, writing
  and access rights: these are the fields of \<open>hooks\<close> in \<open>CA_Server\<close>. Nothing is assumed of any of them, unless a theorem says
  so.

  \<^bold>\<open>Not modelled.\<close> Sockets, threads, locks and event loops, and with them the time at which batches are cut; beacons; logging and
  \<^verbatim>\<open>__repr__\<close>; the backend on \<^verbatim>\<open>numpy\<close>; the declarative layer of the server and its record tables, which are generated; the clients
  for blocking sockets and for \<^verbatim>\<open>asyncio\<close>.
\<close>

end
